(* ===== verification/Prelude.thy ===== *)
theory Prelude
  imports Main "HOL-Library.Word" "HOL-Library.State_Monad"
begin

text \<open>
  Shared vocabulary of the development: the machine-integer types of the C sources, the
  collections of rewrite rules that the component theories extend, the rules that execute
  state-monad programs, and the arithmetic facts on machine words that several components use.
\<close>

section \<open>Machine types\<close>

type_synonym byte = "8 word"
type_synonym u16 = "16 word"
type_synonym u32 = "32 word"
type_synonym u64 = "64 word"

text \<open>
  A C \<open>int64_t\<close> is kept as a 64-bit word and read with \<open>sint\<close>, because the sources mix it
  with unsigned operands, where C compares and adds the bit patterns.
\<close>

type_synonym i64 = "64 word"

section \<open>Collections\<close>

named_theorems exec_simps \<open>equations that execute a state-monad program\<close>
named_theorems time_simps \<open>facts on time stamps\<close>
named_theorems frame_simps \<open>fields that an operation leaves alone\<close>

section \<open>Executing state-monad programs\<close>

text \<open>
  Every C function that touches shared state or calls the operating system is a value of
  \<open>('s, 'a) state\<close>. The library's equations for \<open>return\<close>, \<open>bind\<close>, \<open>get\<close> and \<open>set\<close> execute
  it; \<open>update_state\<close> is one assignment.
\<close>

definition update_state :: "('s \<Rightarrow> 's) \<Rightarrow> ('s, unit) state" where
  "update_state f = State (\<lambda>s. ((), f s))"

lemma run_update_state [simp, exec_simps]: "run_state (update_state f) s = ((), f s)"
  by (simp add: update_state_def)

definition reads :: "('s \<Rightarrow> 'a) \<Rightarrow> ('s, 'a) state" where
  "reads f = State (\<lambda>s. (f s, s))"

lemma run_reads [simp, exec_simps]: "run_state (reads f) s = (f s, s)"
  by (simp add: reads_def)

lemma run_state_if [exec_simps]:
  "run_state (if b then m else n) s = (if b then run_state m s else run_state n s)"
  by simp

lemma run_state_let [exec_simps]: "run_state (let x = e in m x) s = (let x = e in run_state (m x) s)"
  by simp

lemma bind_runE:
  assumes "run_state (State_Monad.bind m f) s = (a, s'')"
  obtains b s' where "run_state m s = (b, s')" and "run_state (f b) s' = (a, s'')"
  using assms by (auto split: prod.splits)

section \<open>Arithmetic on machine words\<close>

lemma unat_less_u32 [simp]: "unat (x :: u32) < 4294967296"
  using unsigned_less [of x, where ?'a = nat] by simp

lemma unat_less_u64 [simp]: "unat (x :: u64) < 18446744073709551616"
  using unsigned_less [of x, where ?'a = nat] by simp

lemma unat_ucast_u32_u64 [simp]: "unat (ucast (x :: u32) :: u64) = unat x"
proof -
  have "unat x < 18446744073709551616"
    by (rule less_trans [OF unat_less_u32]) simp
  then show ?thesis by (simp add: unsigned_ucast_eq take_bit_eq_mod)
qed

lemma unat_ucast_u64_u32: "unat (ucast (x :: u64) :: u32) = unat x mod 4294967296"
  by (simp add: unsigned_ucast_eq take_bit_eq_mod)

lemma ucast_u64_mod_u32: "unat (ucast (x mod 1000000 :: u64) :: u32) = unat x mod 1000000"
proof -
  have "unat x mod 1000000 < (4294967296 :: nat)"
    by (rule less_trans [of _ 1000000]) simp_all
  then show ?thesis by (simp add: unat_ucast_u64_u32 unat_mod)
qed

lemma sint_small_u64:
  assumes "unat (x :: u64) < 9223372036854775808"
  shows "sint x = int (unat x)"
proof -
  have "uint x < 9223372036854775808"
    using assms by (metis of_nat_less_iff of_nat_numeral uint_nat)
  then have "signed_take_bit 63 (uint x) = uint x"
    by (intro signed_take_bit_int_eq_self order_trans [OF _ uint_nonnegative]) simp_all
  then show ?thesis
    by (simp add: sint_uint)
qed

end
