(* ===== verification/Iperf_Time.thy ===== *)
theory Iperf_Time
  imports Prelude
begin

text \<open>
  The time stamps of \<^verbatim>\<open>src/iperf_time.c\<close>: a pair of unsigned 32-bit counters, seconds and
  microseconds, with addition, comparison and difference. The abstraction is the number of
  microseconds, \<open>time_us\<close>; the code keeps \<open>usecs < 1000000\<close> (\<open>valid_time\<close>) and on such
  stamps its operations are exact.
\<close>

section \<open>The time stamp and its operations\<close>

record iperf_time =
  secs :: u32
  usecs :: u32

definition iperf_time_add_usecs :: "iperf_time \<Rightarrow> u64 \<Rightarrow> iperf_time" where
  "iperf_time_add_usecs t us =
     (let total_usecs = ucast (usecs t) + us
      in t\<lparr>secs := ucast (ucast (secs t) + total_usecs div 1000000),
           usecs := ucast (total_usecs mod 1000000)\<rparr>)"

definition iperf_time_in_usecs :: "iperf_time \<Rightarrow> u64" where
  "iperf_time_in_usecs t = ucast (secs t) * 1000000 + ucast (usecs t)"

definition iperf_time_compare :: "iperf_time \<Rightarrow> iperf_time \<Rightarrow> int" where
  "iperf_time_compare time1 time2 =
     (if secs time1 < secs time2 then - 1
      else if secs time1 > secs time2 then 1
      else if usecs time1 < usecs time2 then - 1
      else if usecs time1 > usecs time2 then 1
      else 0)"

text \<open>The subtraction with borrow that \<open>iperf_time_diff\<close> writes out twice.\<close>

definition time_sub :: "iperf_time \<Rightarrow> iperf_time \<Rightarrow> iperf_time" where
  "time_sub a b =
     (let d = \<lparr>secs = secs a - secs b, usecs = usecs a\<rparr>;
          d = (if usecs d < usecs b then d\<lparr>secs := secs d - 1, usecs := usecs d + 1000000\<rparr> else d)
      in d\<lparr>usecs := usecs d - usecs b\<rparr>)"

text \<open>The result is the pair of the return value \<open>past\<close> and the out-parameter \<open>diff\<close>.\<close>

definition iperf_time_diff :: "iperf_time \<Rightarrow> iperf_time \<Rightarrow> int \<times> iperf_time" where
  "iperf_time_diff time1 time2 =
     (let cmp = iperf_time_compare time1 time2
      in if cmp = 0 then (1, \<lparr>secs = 0, usecs = 0\<rparr>)
         else if cmp = 1 then (0, time_sub time1 time2)
         else (1, time_sub time2 time1))"

section \<open>Time stamps as numbers of microseconds\<close>

definition time_us :: "iperf_time \<Rightarrow> nat" where
  "time_us t = unat (secs t) * 1000000 + unat (usecs t)"

definition valid_time :: "iperf_time \<Rightarrow> bool" where
  "valid_time t \<longleftrightarrow> unat (usecs t) < 1000000"

text \<open>Time stamps are ordered lexicographically, which is a linear order.\<close>

instantiation iperf_time_ext :: (linorder) linorder
begin

definition less_eq_iperf_time_ext :: "'a iperf_time_ext \<Rightarrow> 'a iperf_time_ext \<Rightarrow> bool" where
  "less_eq_iperf_time_ext a b \<longleftrightarrow>
     secs a < secs b \<or> secs a = secs b \<and>
       (usecs a < usecs b \<or> usecs a = usecs b \<and> iperf_time.more a \<le> iperf_time.more b)"

definition less_iperf_time_ext :: "'a iperf_time_ext \<Rightarrow> 'a iperf_time_ext \<Rightarrow> bool" where
  "less_iperf_time_ext a b \<longleftrightarrow> a \<le> b \<and> \<not> b \<le> (a :: 'a iperf_time_ext)"

instance
  by standard (auto simp: less_eq_iperf_time_ext_def less_iperf_time_ext_def)

end

lemma time_less_iff:
  fixes a b :: iperf_time
  shows "a < b \<longleftrightarrow> secs a < secs b \<or> secs a = secs b \<and> usecs a < usecs b"
  by (auto simp: less_iperf_time_ext_def less_eq_iperf_time_ext_def)

lemma time_us_less_iff:
  assumes "valid_time a" and "valid_time b"
  shows "time_us a < time_us b \<longleftrightarrow> a < b"
  using assms unfolding time_us_def valid_time_def time_less_iff word_less_nat_alt word_unat_eq_iff
  by auto

lemma time_us_inj:
  assumes "valid_time a" and "valid_time b"
  shows "time_us a = time_us b \<longleftrightarrow> a = b"
  using time_us_less_iff [OF assms] time_us_less_iff [OF assms(2,1)] by auto

lemma compare_less [time_simps]: "iperf_time_compare a b < 0 \<longleftrightarrow> a < b"
  by (auto simp: iperf_time_compare_def time_less_iff)

lemma compare_greater [time_simps]: "iperf_time_compare a b > 0 \<longleftrightarrow> b < a"
  by (auto simp: iperf_time_compare_def time_less_iff)

lemma compare_eq_1 [time_simps]: "iperf_time_compare a b = 1 \<longleftrightarrow> b < a"
  by (auto simp: iperf_time_compare_def time_less_iff)

lemma compare_eq_0 [time_simps]: "iperf_time_compare a b = 0 \<longleftrightarrow> a = b"
  by (auto simp: iperf_time_compare_def)

section \<open>The operations on numbers of microseconds\<close>

lemma add_usecs_valid: "valid_time (iperf_time_add_usecs t us)"
  by (simp add: valid_time_def iperf_time_add_usecs_def Let_def ucast_u64_mod_u32)

lemma time_us_bound: "valid_time t \<Longrightarrow> time_us t < 4294967296 * 1000000"
  using unat_less_u32 [of "secs t"] unfolding time_us_def valid_time_def by linarith

lemma add_usecs_exact:
  assumes "time_us t + unat us < 4294967296 * 1000000"
  shows "time_us (iperf_time_add_usecs t us) = time_us t + unat us"
proof -
  define total where "total = (ucast (usecs t) :: u64) + us"
  have total: "unat total = unat (usecs t) + unat us"
    unfolding total_def using assms unat_less_u32 [of "usecs t"]
    by (subst unat_add_lem [THEN iffD1]) (simp_all add: time_us_def)
  have sum: "unat ((ucast (secs t) :: u64) + total div 1000000) = unat (secs t) + unat total div 1000000"
    using assms unfolding total
    by (subst unat_add_lem [THEN iffD1]) (simp_all add: unat_div total time_us_def)
  have "unat (secs t) + unat total div 1000000 < 4294967296"
    using assms unfolding total time_us_def by linarith
  then have "unat (secs (iperf_time_add_usecs t us)) = unat (secs t) + unat total div 1000000"
    by (simp add: iperf_time_add_usecs_def Let_def total_def [symmetric] unat_ucast_u64_u32 sum)
  moreover have "unat (usecs (iperf_time_add_usecs t us)) = unat total mod 1000000"
    by (simp add: iperf_time_add_usecs_def Let_def total_def [symmetric] ucast_u64_mod_u32)
  ultimately show ?thesis
    unfolding time_us_def [of "iperf_time_add_usecs t us"] using total by (simp add: time_us_def)
qed

lemma in_usecs_exact: "unat (iperf_time_in_usecs t) = time_us t"
proof -
  have "unat (secs t) * 1000000 + unat (usecs t) < 18446744073709551616"
    using unat_less_u32 [of "secs t"] unat_less_u32 [of "usecs t"] by linarith
  then show ?thesis
    by (simp add: iperf_time_in_usecs_def time_us_def unat_word_ariths mod_add_left_eq)
qed

lemma time_sub_exact:
  assumes "valid_time a" and "valid_time b" and "b < a"
  shows "valid_time (time_sub a b)" and "time_us (time_sub a b) = time_us a - time_us b"
proof -
  have le: "secs b \<le> secs a" and lt: "secs a = secs b \<Longrightarrow> usecs b < usecs a"
    using assms(3) by (auto simp: time_less_iff)
  have eq: "valid_time (time_sub a b) \<and> time_us (time_sub a b) = time_us a - time_us b"
  proof (cases "usecs a < usecs b")
    case True
    with le lt have lt': "unat (secs b) < unat (secs a)"
      by (cases "secs a = secs b") (auto simp: word_less_nat_alt word_le_nat_alt le_less word_unat_eq_iff)
    then obtain k where k: "unat (secs a) = unat (secs b) + Suc k"
      by (metis add_Suc_right less_natE)
    have "unat (secs a - secs b) = Suc k"
      using k by (simp add: unat_sub_if')
    then have "unat (secs a - secs b - 1) = k"
      by (simp add: unat_sub_if')
    moreover have "unat (usecs a + 1000000 - usecs b) = unat (usecs a) + 1000000 - unat (usecs b)"
      using assms(1,2) True unfolding valid_time_def word_less_nat_alt
      by (simp add: unat_sub_if' unat_word_ariths)
    ultimately show ?thesis
      using True assms(1,2) k
      unfolding valid_time_def time_us_def time_sub_def Let_def word_less_nat_alt
      by (simp add: less_diff_conv2)
  next
    case False
    obtain k where k: "unat (secs a) = unat (secs b) + k"
      using le by (auto simp: word_le_nat_alt le_iff_add)
    then have "unat (secs a - secs b) = k"
      by (simp add: unat_sub_if')
    with False assms(1,2) k show ?thesis
      unfolding valid_time_def time_us_def time_sub_def Let_def word_less_nat_alt
      by (simp add: unat_sub_if' less_imp_diff_less)
  qed
  then show "valid_time (time_sub a b)" and "time_us (time_sub a b) = time_us a - time_us b"
    by simp_all
qed

lemma time_diff_exact:
  assumes "valid_time a" and "valid_time b"
  shows "valid_time (snd (iperf_time_diff a b))"
    and "time_us (snd (iperf_time_diff a b)) = nat \<bar>int (time_us a) - int (time_us b)\<bar>"
    and "fst (iperf_time_diff a b) = (if a \<le> b then 1 else 0)"
proof -
  have ge: "a \<noteq> b \<Longrightarrow> \<not> b < a \<Longrightarrow> a < b" by auto
  have less: "a < b \<Longrightarrow> time_us a < time_us b" "b < a \<Longrightarrow> time_us b < time_us a"
    using time_us_less_iff assms by auto
  show "valid_time (snd (iperf_time_diff a b))"
    using assms ge
    by (auto simp: iperf_time_diff_def Let_def time_simps time_sub_exact valid_time_def
        [of "\<lparr>secs = 0, usecs = 0\<rparr>"])
  show "time_us (snd (iperf_time_diff a b)) = nat \<bar>int (time_us a) - int (time_us b)\<bar>"
    using assms ge less
    by (auto simp: iperf_time_diff_def Let_def time_simps time_sub_exact time_us_def [of "\<lparr>secs = 0, usecs = 0\<rparr>"])
  show "fst (iperf_time_diff a b) = (if a \<le> b then 1 else 0)"
    using ge by (auto simp: iperf_time_diff_def Let_def time_simps)
qed

section \<open>Properties\<close>

text \<open>
  C30: advancing a time stamp by a number of microseconds is exact addition on the number of
  microseconds as long as the 32-bit seconds counter does not run over, and the result is always
  normalised (fewer than a million microseconds), whatever the argument.
\<close>

theorem time_add_usecs_refines_addition:
  assumes "time_us t + unat us < 2 ^ 32 * 1000000"
  shows "valid_time (iperf_time_add_usecs t us)
    \<and> time_us (iperf_time_add_usecs t us) = time_us t + unat us"
  using assms add_usecs_exact add_usecs_valid by simp

theorem time_add_usecs_refines_addition_witness:
  "time_us (iperf_time_add_usecs \<lparr>secs = 7, usecs = 999999\<rparr> 2000002) = 10000001"
  using time_add_usecs_refines_addition [of "\<lparr>secs = 7, usecs = 999999\<rparr>" 2000002]
  by (simp add: time_us_def)

text \<open>
  C31: on normalised stamps \<open>iperf_time_diff\<close> returns the exact distance of the two stamps, itself
  normalised, and its return value is 1 exactly when the first stamp is not later than the second,
  as its comment says; the distance is symmetric.
\<close>

theorem time_diff_is_distance:
  assumes "valid_time a" and "valid_time b"
  shows "valid_time (snd (iperf_time_diff a b))
    \<and> int (time_us (snd (iperf_time_diff a b))) = \<bar>int (time_us a) - int (time_us b)\<bar>
    \<and> (fst (iperf_time_diff a b) = 1 \<longleftrightarrow> time_us a \<le> time_us b)
    \<and> (fst (iperf_time_diff a b) = 0 \<longleftrightarrow> time_us b < time_us a)
    \<and> snd (iperf_time_diff b a) = snd (iperf_time_diff a b)"
proof -
  have order: "a \<le> b \<longleftrightarrow> time_us a \<le> time_us b"
    using time_us_less_iff [OF assms(2,1)] by (auto simp: not_less [symmetric])
  have "time_us (snd (iperf_time_diff b a)) = time_us (snd (iperf_time_diff a b))"
    using time_diff_exact assms by (simp add: abs_minus_commute)
  then have sym: "snd (iperf_time_diff b a) = snd (iperf_time_diff a b)"
    using time_us_inj time_diff_exact(1) assms by blast
  show ?thesis
    using time_diff_exact [OF assms] order sym by (auto simp: not_le)
qed

theorem time_diff_is_distance_witness:
  "int (time_us (snd (iperf_time_diff \<lparr>secs = 5, usecs = 100\<rparr> \<lparr>secs = 3, usecs = 999900\<rparr>))) = 1000200"
  using time_diff_is_distance [of "\<lparr>secs = 5, usecs = 100\<rparr>" "\<lparr>secs = 3, usecs = 999900\<rparr>"]
  by (simp add: valid_time_def [of "\<lparr>secs = 5, usecs = 100\<rparr>"] valid_time_def [of "\<lparr>secs = 3, usecs = 999900\<rparr>"]
      time_us_def [of "\<lparr>secs = 5, usecs = 100\<rparr>"] time_us_def [of "\<lparr>secs = 3, usecs = 999900\<rparr>"])

text \<open>
  round trip of difference and addition: adding the difference of a later stamp to the earlier
  one, through the conversion to microseconds the code uses, gives the later stamp back.
\<close>

lemma time_diff_add_roundtrip:
  assumes "valid_time a" and "valid_time b" and "iperf_time_compare b a \<le> 0"
  shows "iperf_time_add_usecs b (iperf_time_in_usecs (snd (iperf_time_diff a b))) = a"
proof -
  have "\<not> a < b"
    using assms(3) compare_greater [of b a] by auto
  then have le: "time_us b \<le> time_us a"
    using time_us_less_iff [OF assms(1,2)] by simp
  let ?us = "iperf_time_in_usecs (snd (iperf_time_diff a b))"
  have us: "time_us b + unat ?us = time_us a"
    using le time_diff_exact(2) [OF assms(1,2)] by (simp add: in_usecs_exact)
  then have "time_us (iperf_time_add_usecs b ?us) = time_us a"
    using add_usecs_exact [of b ?us] time_us_bound [OF assms(1)] by simp
  then show ?thesis
    using time_us_inj [OF add_usecs_valid assms(1)] by blast
qed

theorem time_diff_add_roundtrip_witness:
  "iperf_time_add_usecs \<lparr>secs = 3, usecs = 999900\<rparr>
     (iperf_time_in_usecs (snd (iperf_time_diff \<lparr>secs = 5, usecs = 100\<rparr> \<lparr>secs = 3, usecs = 999900\<rparr>)))
   = \<lparr>secs = 5, usecs = 100\<rparr>"
  using time_diff_add_roundtrip [of "\<lparr>secs = 5, usecs = 100\<rparr>" "\<lparr>secs = 3, usecs = 999900\<rparr>"]
  by (simp add: valid_time_def iperf_time_compare_def)

end
