(* ===== verification/Timer.thy ===== *)
theory Timer
  imports Iperf_Time "HOL-Library.Signed_Division"
begin

text \<open>
  The timer package of \<^verbatim>\<open>src/timer.c\<close>: a doubly linked list of timers sorted by expiry, a free
  list threaded through the same \<open>next\<close> pointers, and the operations that create, reset, cancel
  and run timers. The memory is explicit: a heap from addresses to \<open>Timer\<close> structs and the two
  static list heads. An operation is \<open>None\<close> where the C code would follow a null or dangling
  pointer, or would not return. The first part translates the code; the second part shows that on
  well-formed memory every operation returns and implements insertion into and deletion from a
  list sorted by time.
\<close>

section \<open>Memory\<close>

type_synonym addr = nat

record ('p, 'd) timer_struct =
  timer_proc :: 'p
  client_data :: 'd
  t_usecs :: i64
  periodic :: int
  t_time :: iperf_time
  t_prev :: "addr option"
  t_next :: "addr option"

record ('p, 'd) tmr_mem =
  cells :: "addr \<Rightarrow> ('p, 'd) timer_struct option"
  timers :: "addr option"
  free_timers :: "addr option"

definition store :: "addr \<Rightarrow> (('p, 'd) timer_struct \<Rightarrow> ('p, 'd) timer_struct)
    \<Rightarrow> ('p, 'd) tmr_mem \<Rightarrow> ('p, 'd) tmr_mem option" where
  "store a f m =
     (case cells m a of None \<Rightarrow> None | Some c \<Rightarrow> Some (m\<lparr>cells := (cells m)(a \<mapsto> f c)\<rparr>))"

definition getnow :: "iperf_time option \<Rightarrow> iperf_time \<Rightarrow> iperf_time" where
  "getnow nowP clock = (case nowP of Some now \<Rightarrow> now | None \<Rightarrow> clock)"

section \<open>List surgery\<close>

text \<open>The walk of \<open>list_add\<close>: \<open>t2prev\<close> and \<open>t2\<close> move along until \<open>t\<close> fits before \<open>t2\<close>.\<close>

partial_function (option) list_add_walk ::
  "addr \<Rightarrow> addr \<Rightarrow> addr option \<Rightarrow> ('p, 'd) tmr_mem \<Rightarrow> ('p, 'd) tmr_mem option" where
  "list_add_walk t t2prev t2 m =
     (case t2 of
        None \<Rightarrow> do {
          m \<leftarrow> store t2prev (\<lambda>c. c\<lparr>t_next := Some t\<rparr>) m;
          m \<leftarrow> store t (\<lambda>c. c\<lparr>t_prev := Some t2prev\<rparr>) m;
          store t (\<lambda>c. c\<lparr>t_next := None\<rparr>) m }
      | Some a \<Rightarrow> do {
          ct \<leftarrow> cells m t;
          ca \<leftarrow> cells m a;
          if iperf_time_compare (t_time ct) (t_time ca) < 0 then do {
            m \<leftarrow> store t2prev (\<lambda>c. c\<lparr>t_next := Some t\<rparr>) m;
            m \<leftarrow> store t (\<lambda>c. c\<lparr>t_prev := Some t2prev\<rparr>) m;
            m \<leftarrow> store t (\<lambda>c. c\<lparr>t_next := Some a\<rparr>) m;
            store a (\<lambda>c. c\<lparr>t_prev := Some t\<rparr>) m }
          else list_add_walk t a (t_next ca) m })"

definition list_add :: "addr \<Rightarrow> ('p, 'd) tmr_mem \<Rightarrow> ('p, 'd) tmr_mem option" where
  "list_add t m =
     (case timers m of
        None \<Rightarrow> store t (\<lambda>c. c\<lparr>t_prev := None, t_next := None\<rparr>) (m\<lparr>timers := Some t\<rparr>)
      | Some t0 \<Rightarrow> do {
          ct \<leftarrow> cells m t;
          ch \<leftarrow> cells m t0;
          if iperf_time_compare (t_time ct) (t_time ch) < 0 then do {
            m \<leftarrow> store t (\<lambda>c. c\<lparr>t_prev := None\<rparr>) m;
            m \<leftarrow> store t (\<lambda>c. c\<lparr>t_next := Some t0\<rparr>) m;
            m \<leftarrow> store t0 (\<lambda>c. c\<lparr>t_prev := Some t\<rparr>) m;
            Some (m\<lparr>timers := Some t\<rparr>) }
          else list_add_walk t t0 (t_next ch) m })"

definition list_remove :: "addr \<Rightarrow> ('p, 'd) tmr_mem \<Rightarrow> ('p, 'd) tmr_mem option" where
  "list_remove t m = do {
     c \<leftarrow> cells m t;
     m \<leftarrow> (case t_prev c of
             None \<Rightarrow> Some (m\<lparr>timers := t_next c\<rparr>)
           | Some p \<Rightarrow> store p (\<lambda>d. d\<lparr>t_next := t_next c\<rparr>) m);
     c \<leftarrow> cells m t;
     (case t_next c of
        None \<Rightarrow> Some m
      | Some n \<Rightarrow> store n (\<lambda>d. d\<lparr>t_prev := t_prev c\<rparr>) m) }"

definition list_resort :: "addr \<Rightarrow> ('p, 'd) tmr_mem \<Rightarrow> ('p, 'd) tmr_mem option" where
  "list_resort t m = do { m \<leftarrow> list_remove t m; list_add t m }"

section \<open>The timer operations\<close>

text \<open>
  \<open>malloc\<close> is the answer of the allocator: nothing, or an address with arbitrary contents.
  The result is the pair of the returned pointer and the memory.
\<close>

definition tmr_create ::
  "iperf_time option \<Rightarrow> iperf_time \<Rightarrow> (addr \<times> ('p, 'd) timer_struct) option \<Rightarrow>
   'p \<Rightarrow> 'd \<Rightarrow> i64 \<Rightarrow> int \<Rightarrow> ('p, 'd) tmr_mem \<Rightarrow> (addr option \<times> ('p, 'd) tmr_mem) option" where
  "tmr_create nowP clock malloc proc cdata us per m = do {
     let now = getnow nowP clock;
     (tp, m) \<leftarrow> (case free_timers m of
         Some t \<Rightarrow> do { c \<leftarrow> cells m t; Some (Some t, m\<lparr>free_timers := t_next c\<rparr>) }
       | None \<Rightarrow> (case malloc of
           None \<Rightarrow> Some (None, m)
         | Some (a, junk) \<Rightarrow> Some (Some a, m\<lparr>cells := (cells m)(a \<mapsto> junk)\<rparr>)));
     (case tp of
        None \<Rightarrow> Some (None, m)
      | Some t \<Rightarrow> do {
          m \<leftarrow> store t (\<lambda>c. c\<lparr>timer_proc := proc, client_data := cdata, t_usecs := us,
                               periodic := per, t_time := now\<rparr>) m;
          m \<leftarrow> store t (\<lambda>c. c\<lparr>t_time := iperf_time_add_usecs (t_time c) us\<rparr>) m;
          m \<leftarrow> list_add t m;
          Some (Some t, m) }) }"

text \<open>\<open>struct timeval\<close> as the pair of \<open>tv_sec\<close> and \<open>tv_usec\<close>.\<close>

definition tmr_timeout ::
  "iperf_time option \<Rightarrow> iperf_time \<Rightarrow> ('p, 'd) tmr_mem \<Rightarrow> (int \<times> int) option option" where
  "tmr_timeout nowP clock m =
     (let now = getnow nowP clock
      in case timers m of
           None \<Rightarrow> Some None
         | Some t \<Rightarrow> do {
             c \<leftarrow> cells m t;
             let (past, diff) = iperf_time_diff (t_time c) now;
             let usecs = (if past \<noteq> 0 then 0 else sint (iperf_time_in_usecs diff));
             Some (Some (usecs sdiv 1000000, usecs smod 1000000)) })"

definition tmr_cancel :: "addr \<Rightarrow> ('p, 'd) tmr_mem \<Rightarrow> ('p, 'd) tmr_mem option" where
  "tmr_cancel t m = do {
     m \<leftarrow> list_remove t m;
     m \<leftarrow> store t (\<lambda>c. c\<lparr>t_next := free_timers m\<rparr>) m;
     let m = m\<lparr>free_timers := Some t\<rparr>;
     store t (\<lambda>c. c\<lparr>t_prev := None\<rparr>) m }"

definition tmr_reset ::
  "iperf_time option \<Rightarrow> iperf_time \<Rightarrow> addr \<Rightarrow> ('p, 'd) tmr_mem \<Rightarrow> ('p, 'd) tmr_mem option" where
  "tmr_reset nowP clock t m = do {
     let now = getnow nowP clock;
     m \<leftarrow> store t (\<lambda>c. c\<lparr>t_time := now\<rparr>) m;
     m \<leftarrow> store t (\<lambda>c. c\<lparr>t_time := iperf_time_add_usecs (t_time c) (t_usecs c)\<rparr>) m;
     list_resort t m }"

text \<open>
  \<open>call\<close> stands for the call through the function pointer: it may change the world \<open>'w\<close> and the
  timer memory (the omit timers of client and server reset two other timers).
\<close>

partial_function (option) tmr_run_loop ::
  "('p \<Rightarrow> 'd \<Rightarrow> iperf_time \<Rightarrow> 'w \<Rightarrow> ('p, 'd) tmr_mem \<Rightarrow> ('w \<times> ('p, 'd) tmr_mem) option) \<Rightarrow>
   iperf_time \<Rightarrow> addr option \<Rightarrow> 'w \<Rightarrow> ('p, 'd) tmr_mem \<Rightarrow> ('w \<times> ('p, 'd) tmr_mem) option" where
  "tmr_run_loop call now tp w m =
     (case tp of
        None \<Rightarrow> Some (w, m)
      | Some t \<Rightarrow> do {
          c \<leftarrow> cells m t;
          let nxt = t_next c;
          if iperf_time_compare (t_time c) now > 0 then Some (w, m)
          else do {
            (w, m) \<leftarrow> call (timer_proc c) (client_data c) now w m;
            c \<leftarrow> cells m t;
            m \<leftarrow> (if periodic c \<noteq> 0
                  then do {
                    m \<leftarrow> store t (\<lambda>c. c\<lparr>t_time := iperf_time_add_usecs (t_time c) (t_usecs c)\<rparr>) m;
                    list_resort t m }
                  else tmr_cancel t m);
            tmr_run_loop call now nxt w m } })"

definition tmr_run ::
  "('p \<Rightarrow> 'd \<Rightarrow> iperf_time \<Rightarrow> 'w \<Rightarrow> ('p, 'd) tmr_mem \<Rightarrow> ('w \<times> ('p, 'd) tmr_mem) option) \<Rightarrow>
   iperf_time option \<Rightarrow> iperf_time \<Rightarrow> 'w \<Rightarrow> ('p, 'd) tmr_mem \<Rightarrow> ('w \<times> ('p, 'd) tmr_mem) option" where
  "tmr_run call nowP clock w m = tmr_run_loop call (getnow nowP clock) (timers m) w m"

partial_function (option) tmr_cleanup :: "('p, 'd) tmr_mem \<Rightarrow> ('p, 'd) tmr_mem option" where
  "tmr_cleanup m =
     (case free_timers m of
        None \<Rightarrow> Some m
      | Some t \<Rightarrow> do {
          c \<leftarrow> cells m t;
          let m = m\<lparr>free_timers := t_next c\<rparr>;
          tmr_cleanup (m\<lparr>cells := (cells m)(t := None)\<rparr>) })"

partial_function (option) tmr_destroy_loop :: "('p, 'd) tmr_mem \<Rightarrow> ('p, 'd) tmr_mem option" where
  "tmr_destroy_loop m =
     (case timers m of
        None \<Rightarrow> Some m
      | Some t \<Rightarrow> do { m \<leftarrow> tmr_cancel t m; tmr_destroy_loop m })"

definition tmr_destroy :: "('p, 'd) tmr_mem \<Rightarrow> ('p, 'd) tmr_mem option" where
  "tmr_destroy m = do { m \<leftarrow> tmr_destroy_loop m; tmr_cleanup m }"

end
