(* ===== verification/Timer_Correct.thy ===== *)
theory Timer_Correct
  imports Timer
begin

text \<open>
  Correctness of the timer package. \<open>dseg\<close> says that a run of cells is doubly linked; \<open>tmr_inv\<close>
  that the active list is doubly linked and sorted by expiry, that the free list is linked
  and that no timer is on both. Each operation of \<^verbatim>\<open>src/timer.c\<close> returns on such memory, keeps
  the invariant and acts on the list of active timers as insertion after the timers with the same
  expiry (\<open>timer_ins\<close>), as deletion, or as both.
\<close>

section \<open>Linked runs of cells\<close>

type_synonym ('p, 'd) cellmap = "addr \<Rightarrow> ('p, 'd) timer_struct option"

text \<open>
  \<open>dseg h pv p as l q\<close>: starting at \<open>p\<close>, whose predecessor is \<open>pv\<close>, the cells \<open>as\<close> are linked both
  ways; the last one is \<open>l\<close> and its successor is \<open>q\<close>.
\<close>

fun dseg :: "('p, 'd) cellmap \<Rightarrow> addr option \<Rightarrow> addr option \<Rightarrow> addr list
    \<Rightarrow> addr option \<Rightarrow> addr option \<Rightarrow> bool" where
  "dseg h pv p [] l q \<longleftrightarrow> pv = l \<and> p = q"
| "dseg h pv p (a # as) l q \<longleftrightarrow> p = Some a \<and>
     (case h a of None \<Rightarrow> False
      | Some c \<Rightarrow> t_prev c = pv \<and> dseg h (Some a) (t_next c) as l q)"

fun fseg :: "('p, 'd) cellmap \<Rightarrow> addr option \<Rightarrow> addr list \<Rightarrow> bool" where
  "fseg h p [] \<longleftrightarrow> p = None"
| "fseg h p (a # as) \<longleftrightarrow> p = Some a \<and>
     (case h a of None \<Rightarrow> False | Some c \<Rightarrow> fseg h (t_next c) as)"

definition last_opt :: "addr list \<Rightarrow> addr option" where
  "last_opt as = (if as = [] then None else Some (last as))"

definition dlist :: "('p, 'd) cellmap \<Rightarrow> addr option \<Rightarrow> addr list \<Rightarrow> bool" where
  "dlist h p as \<longleftrightarrow> dseg h None p as (last_opt as) None"

lemma dseg_append:
  "dseg h pv p (as @ bs) l q \<longleftrightarrow> (\<exists>l' q'. dseg h pv p as l' q' \<and> dseg h l' q' bs l q)"
  by (induction as arbitrary: pv p) (auto split: option.splits)

lemma dseg_upd [simp]: "a \<notin> set as \<Longrightarrow> dseg (h(a := c)) pv p as l q = dseg h pv p as l q"
  by (induction as arbitrary: pv p) (auto split: option.splits)

lemma fseg_upd [simp]: "a \<notin> set as \<Longrightarrow> fseg (h(a := c)) p as = fseg h p as"
  by (induction as arbitrary: p) (auto split: option.splits)

lemma dseg_alloc: "dseg h pv p as l q \<Longrightarrow> a \<in> set as \<Longrightarrow> \<exists>c. h a = Some c"
  by (induction as arbitrary: pv p) (auto split: option.splits)

lemma fseg_alloc: "fseg h p as \<Longrightarrow> a \<in> set as \<Longrightarrow> \<exists>c. h a = Some c"
  by (induction as arbitrary: p) (auto split: option.splits)

lemma dseg_last: "dseg h pv p as l q \<Longrightarrow> as \<noteq> [] \<Longrightarrow> l = Some (last as)"
  by (induction as arbitrary: pv p) (auto split: option.splits if_splits)

lemma dlist_split:
  "dlist h p (as @ bs) \<longleftrightarrow> (\<exists>q. dseg h None p as (last_opt as) q
      \<and> dseg h (last_opt as) q bs (last_opt (as @ bs)) None)"
  unfolding dlist_def dseg_append
  by (metis append_Nil dseg.simps(1) dseg_last last_opt_def)

text \<open>Both kinds of list depend on the links of their own cells only.\<close>

lemma dseg_cong:
  assumes "\<And>a. a \<in> set as \<Longrightarrow> h' a = h a"
  shows "dseg h' pv p as l q = dseg h pv p as l q"
  using assms by (induction as arbitrary: pv p) (auto split: option.splits)

lemma fseg_cong:
  assumes "\<And>a. a \<in> set as \<Longrightarrow> h' a = h a"
  shows "fseg h' p as = fseg h p as"
  using assms by (induction as arbitrary: p) (auto split: option.splits)

section \<open>What the links leave alone\<close>

text \<open>The contents of a timer apart from its links.\<close>

definition payload :: "('p, 'd) timer_struct \<Rightarrow> ('p, 'd) timer_struct" where
  "payload c = c\<lparr>t_prev := None, t_next := None\<rparr>"

definition payloads :: "('p, 'd) tmr_mem \<Rightarrow> ('p, 'd) cellmap" where
  "payloads m = map_option payload \<circ> cells m"

lemma payload_upd [simp]:
  "payload (c\<lparr>t_prev := x\<rparr>) = payload c" "payload (c\<lparr>t_next := y\<rparr>) = payload c"
  by (simp_all add: payload_def)

lemma payload_time: "payload c = payload d \<Longrightarrow> t_time c = t_time d"
  by (metis (no_types) payload_def timer_struct.select_convs(5) timer_struct.surjective
      timer_struct.update_convs(6,7))

definition expiry :: "('p, 'd) tmr_mem \<Rightarrow> addr \<Rightarrow> iperf_time" where
  "expiry m a = (case cells m a of None \<Rightarrow> \<lparr>secs = 0, usecs = 0\<rparr> | Some c \<Rightarrow> t_time c)"

lemma expiry_cong: "payloads m' a = payloads m a \<Longrightarrow> expiry m' a = expiry m a"
  by (auto simp: payloads_def expiry_def dest: payload_time split: option.splits)

text \<open>
  \<open>relinked A m m'\<close>: from \<open>m\<close> to \<open>m'\<close> only links of cells in \<open>A\<close> changed; the free-list head
  is the same.
\<close>

definition relinked :: "addr set \<Rightarrow> ('p, 'd) tmr_mem \<Rightarrow> ('p, 'd) tmr_mem \<Rightarrow> bool" where
  "relinked A m m' \<longleftrightarrow> payloads m' = payloads m \<and> free_timers m' = free_timers m
     \<and> (\<forall>a. a \<notin> A \<longrightarrow> cells m' a = cells m a)"

lemma relinked_trans: "relinked A m m' \<Longrightarrow> relinked B m' m'' \<Longrightarrow> relinked (A \<union> B) m m''"
  by (auto simp: relinked_def)

lemma relinked_mono: "relinked A m m' \<Longrightarrow> A \<subseteq> B \<Longrightarrow> relinked B m m'"
  by (auto simp: relinked_def)

section \<open>Insertion\<close>

fun timer_ins :: "(addr \<Rightarrow> iperf_time) \<Rightarrow> addr \<Rightarrow> addr list \<Rightarrow> addr list" where
  "timer_ins k t [] = [t]"
| "timer_ins k t (a # as) = (if k t < k a then t # a # as else a # timer_ins k t as)"

lemma set_timer_ins [simp]: "set (timer_ins k t as) = insert t (set as)"
  by (induction as) auto

lemma distinct_timer_ins [simp]: "distinct (timer_ins k t as) \<longleftrightarrow> t \<notin> set as \<and> distinct as"
  by (induction as) auto

lemma sorted_timer_ins: "sorted (map k as) \<Longrightarrow> sorted (map k (timer_ins k t as))"
  by (induction as) (auto simp: not_less)

lemma timer_ins_cong:
  "k t = k' t \<Longrightarrow> (\<And>a. a \<in> set as \<Longrightarrow> k a = k' a) \<Longrightarrow> timer_ins k t as = timer_ins k' t as"
  by (induction as) auto

lemma dseg_snoc_next:
  assumes "dseg h pv p (xs @ [q]) l r" and "h q = Some c" and "q \<notin> set xs"
  shows "dseg (h(q \<mapsto> c\<lparr>t_next := r'\<rparr>)) pv p (xs @ [q]) (Some q) r'"
  using assms by (auto simp: dseg_append)

lemma dseg_cons_prev:
  assumes "dseg h pv p (a # as) l q" and "h a = Some c" and "a \<notin> set as"
  shows "dseg (h(a \<mapsto> c\<lparr>t_prev := pv'\<rparr>)) pv' p (a # as) l q"
  using assms by auto

lemma dseg_glue:
  assumes "dseg h None p as l q" and "dseg h l q bs l' None" and "as \<noteq> []"
  shows "dlist h p (as @ bs)"
proof -
  have "dseg h None p (as @ bs) l' None"
    using assms(1,2) by (auto simp: dseg_append)
  moreover have "l' = last_opt (as @ bs)"
    using calculation dseg_last assms(3) by (fastforce simp: last_opt_def)
  ultimately show ?thesis by (simp add: dlist_def)
qed

lemma store_cell [simp]: "cells m a = Some c \<Longrightarrow> store a f m = Some (m\<lparr>cells := (cells m)(a \<mapsto> f c)\<rparr>)"
  by (simp add: store_def)

lemma list_add_walk_end:
  assumes "dseg (cells m) None p (xs @ [q]) (Some q) None"
    and "cells m t = Some ct" and "t \<notin> set (xs @ [q])" and "distinct (xs @ [q])"
  shows "\<exists>m'. list_add_walk t q None m = Some m' \<and> timers m' = timers m
    \<and> relinked {t, q} m m' \<and> dlist (cells m') p (xs @ [q, t])"
proof -
  obtain cq where cq: "cells m q = Some cq"
    using dseg_alloc [OF assms(1)] by auto
  let ?h = "(cells m)(q \<mapsto> cq\<lparr>t_next := Some t\<rparr>)"
  let ?h' = "?h(t \<mapsto> ct\<lparr>t_prev := Some q, t_next := None\<rparr>)"
  have "dseg ?h None p (xs @ [q]) (Some q) (Some t)"
    using assms cq by (intro dseg_snoc_next) auto
  then have "dseg ?h' None p (xs @ [q]) (Some q) (Some t)"
    using assms(3) by simp
  then have "dlist ?h' p ((xs @ [q]) @ [t])"
    by (rule dseg_glue [where l' = "Some t"]) auto
  then show ?thesis
    using assms cq
    by (subst list_add_walk.simps) (auto simp: relinked_def payloads_def fun_eq_iff)
qed

lemma list_add_walk_mid:
  assumes "dseg (cells m) None p (xs @ [q]) (Some q) (Some a)"
    and "dseg (cells m) (Some q) (Some a) (a # ys) l None"
    and "cells m t = Some ct" and "t \<notin> set (xs @ q # a # ys)" and "distinct (xs @ q # a # ys)"
    and "cells m a = Some ca" and "t_time ct < t_time ca"
  shows "\<exists>m'. list_add_walk t q (Some a) m = Some m' \<and> timers m' = timers m
    \<and> relinked {t, q, a} m m' \<and> dlist (cells m') p (xs @ [q, t] @ a # ys)"
proof -
  obtain cq where cq: "cells m q = Some cq"
    using dseg_alloc [OF assms(1)] by auto
  let ?h1 = "(cells m)(q \<mapsto> cq\<lparr>t_next := Some t\<rparr>)"
  let ?h2 = "?h1(t \<mapsto> ct\<lparr>t_prev := Some q, t_next := Some a\<rparr>)"
  let ?h3 = "?h2(a \<mapsto> ca\<lparr>t_prev := Some t\<rparr>)"
  have "dseg ?h1 None p (xs @ [q]) (Some q) (Some t)"
    using assms cq by (intro dseg_snoc_next) auto
  then have "dseg ?h3 None p (xs @ [q]) (Some q) (Some t)"
    using assms(4,5) by auto
  then have left: "dseg ?h3 None p ((xs @ [q]) @ [t]) (Some t) (Some a)"
    unfolding dseg_append [of _ _ _ "xs @ [q]"] using assms(4) by auto
  have "dseg ?h2 (Some q) (Some a) (a # ys) l None"
    using assms(2,4,5) by (auto split: option.splits)
  then have "dseg ?h3 (Some t) (Some a) (a # ys) l None"
    using assms(4,5,6) by (intro dseg_cons_prev) auto
  with left have "dlist ?h3 p (((xs @ [q]) @ [t]) @ a # ys)"
    by (rule dseg_glue) simp
  then show ?thesis
    using assms cq
    by (subst list_add_walk.simps) (auto simp: relinked_def payloads_def fun_eq_iff time_simps)
qed

lemma list_add_walk_correct:
  assumes "dseg (cells m) None p (xs @ [q]) (Some q) r"
    and "dseg (cells m) (Some q) r ys l None"
    and "cells m t = Some ct" and "t \<notin> set (xs @ q # ys)" and "distinct (xs @ q # ys)"
  shows "\<exists>m'. list_add_walk t q r m = Some m' \<and> timers m' = timers m
    \<and> relinked (insert t (set (q # ys))) m m'
    \<and> dlist (cells m') p (xs @ q # timer_ins (expiry m) t ys)"
  using assms
proof (induction ys arbitrary: xs q r)
  case Nil
  then show ?case
    using list_add_walk_end [of m p xs q t ct] by (auto simp: insert_commute)
next
  case (Cons a ys)
  from Cons.prems(2) obtain ca where r: "r = Some a" and ca: "cells m a = Some ca"
    and rest: "dseg (cells m) (Some a) (t_next ca) ys l None" and pa: "t_prev ca = Some q"
    by (auto split: option.splits)
  have times: "expiry m t = t_time ct" "expiry m a = t_time ca"
    using Cons.prems(3) ca by (simp_all add: expiry_def)
  show ?case
  proof (cases "t_time ct < t_time ca")
    case True
    then obtain m' where "list_add_walk t q r m = Some m'" "timers m' = timers m"
      "relinked {t, q, a} m m'" "dlist (cells m') p (xs @ [q, t] @ a # ys)"
      using list_add_walk_mid [of m p xs q a ys l t ct ca] Cons.prems r ca by auto
    then show ?thesis
      using True times by (auto intro: relinked_mono)
  next
    case False
    have "dseg (cells m) None p ((xs @ [q]) @ [a]) (Some a) (t_next ca)"
      unfolding dseg_append [of _ _ _ "xs @ [q]"] using Cons.prems(1) r ca pa by auto
    then obtain m' where m': "list_add_walk t a (t_next ca) m = Some m'" "timers m' = timers m"
      "relinked (insert t (set (a # ys))) m m'"
      "dlist (cells m') p ((xs @ [q]) @ a # timer_ins (expiry m) t ys)"
      using Cons.IH [of "xs @ [q]" a "t_next ca"] rest Cons.prems(3,4,5) by auto
    have "list_add_walk t q r m = Some m'"
      using m'(1) r ca False Cons.prems(3) by (subst list_add_walk.simps) (simp add: time_simps)
    then show ?thesis
      using m' False times by (auto intro: relinked_mono)
  qed
qed

theorem list_add_correct:
  assumes "dlist (cells m) (timers m) as" and "cells m t = Some ct"
    and "t \<notin> set as" and "distinct as"
  shows "\<exists>m'. list_add t m = Some m' \<and> relinked (insert t (set as)) m m'
    \<and> dlist (cells m') (timers m') (timer_ins (expiry m) t as)"
proof (cases as)
  case Nil
  then show ?thesis
    using assms by (auto simp: dlist_def last_opt_def list_add_def relinked_def payloads_def fun_eq_iff)
next
  case (Cons a ys)
  with assms(1) obtain ca where head: "timers m = Some a" and ca: "cells m a = Some ca"
    and pa: "t_prev ca = None" and rest: "dseg (cells m) (Some a) (t_next ca) ys (last_opt as) None"
    by (auto simp: dlist_def split: option.splits)
  have times: "expiry m t = t_time ct" "expiry m a = t_time ca"
    using assms(2) ca by (simp_all add: expiry_def)
  show ?thesis
  proof (cases "t_time ct < t_time ca")
    case True
    let ?h = "(cells m)(t \<mapsto> ct\<lparr>t_prev := None, t_next := Some a\<rparr>)"
    let ?h' = "?h(a \<mapsto> ca\<lparr>t_prev := Some t\<rparr>)"
    have "dseg (cells m) None (Some a) (a # ys) (last_opt as) None"
      using assms(1) Cons head by (simp add: dlist_def)
    then have "dseg ?h None (Some a) (a # ys) (last_opt as) None"
      using assms(3) Cons by (auto split: option.splits)
    then have "dseg ?h' (Some t) (Some a) (a # ys) (last_opt as) None"
      using assms(3,4) Cons ca by (intro dseg_cons_prev) auto
    then have "dlist ?h' (Some t) ([t] @ a # ys)"
      using assms(3) Cons by (intro dseg_glue [where l = "Some t" and q = "Some a"]) auto
    then show ?thesis
      using True times head ca assms Cons
      by (auto simp: list_add_def time_simps relinked_def payloads_def fun_eq_iff)
  next
    case False
    have "dseg (cells m) None (timers m) ([] @ [a]) (Some a) (t_next ca)"
      using head ca pa by simp
    then obtain m' where "list_add_walk t a (t_next ca) m = Some m'" "timers m' = timers m"
      "relinked (insert t (set (a # ys))) m m'"
      "dlist (cells m') (timers m) ([] @ a # timer_ins (expiry m) t ys)"
      using list_add_walk_correct [OF _ rest assms(2), of "timers m" "[]"] assms(3,4) Cons by auto
    then show ?thesis
      using False times head ca assms(2) Cons by (auto simp: list_add_def time_simps)
  qed
qed

section \<open>Deletion\<close>

lemma list_remove_head:
  assumes "dlist (cells m) (timers m) (t # ys)" and "distinct (t # ys)"
  shows "\<exists>m'. list_remove t m = Some m' \<and> relinked (set ys) m m'
    \<and> dlist (cells m') (timers m') ys"
proof -
  obtain c where c: "cells m t = Some c" "t_prev c = None"
    and rest: "dseg (cells m) (Some t) (t_next c) ys (last_opt (t # ys)) None"
    using assms(1) by (auto simp: dlist_def split: option.splits)
  show ?thesis
  proof (cases ys)
    case Nil
    then show ?thesis
      using c rest by (auto simp: list_remove_def relinked_def payloads_def dlist_def last_opt_def)
  next
    case (Cons b zs)
    then obtain cb where cb: "cells m b = Some cb" "t_next c = Some b"
      using rest by (auto split: option.splits)
    have "dseg ((cells m)(b \<mapsto> cb\<lparr>t_prev := None\<rparr>)) None (Some b) (b # zs) (last_opt (t # ys)) None"
      using rest Cons cb assms(2) by (intro dseg_cons_prev) auto
    then have "dlist ((cells m)(b \<mapsto> cb\<lparr>t_prev := None\<rparr>)) (Some b) (b # zs)"
      by (simp add: dlist_def last_opt_def Cons)
    then show ?thesis
      using c cb Cons assms(2)
      by (auto simp: list_remove_def relinked_def payloads_def fun_eq_iff)
  qed
qed

lemma list_remove_inner:
  assumes "dlist (cells m) (timers m) ((xs @ [q]) @ t # ys)" and "distinct ((xs @ [q]) @ t # ys)"
  shows "\<exists>m'. list_remove t m = Some m' \<and> relinked (insert q (set ys)) m m'
    \<and> dlist (cells m') (timers m') ((xs @ [q]) @ ys)"
proof -
  let ?p = "timers m"
  obtain c where left: "dseg (cells m) None ?p (xs @ [q]) (Some q) (Some t)"
    and c: "cells m t = Some c" "t_prev c = Some q"
    and rest: "dseg (cells m) (Some t) (t_next c) ys (last_opt ((xs @ [q]) @ t # ys)) None"
    using assms(1) unfolding dlist_split by (auto simp: last_opt_def split: option.splits)
  obtain cq where cq: "cells m q = Some cq"
    using dseg_alloc [OF left] by auto
  let ?h = "(cells m)(q \<mapsto> cq\<lparr>t_next := t_next c\<rparr>)"
  have left': "dseg ?h None ?p (xs @ [q]) (Some q) (t_next c)"
    using left cq assms(2) by (intro dseg_snoc_next) auto
  show ?thesis
  proof (cases ys)
    case Nil
    then have "dlist ?h ?p ((xs @ [q]) @ ys)"
      using left' rest by (auto simp: dlist_def last_opt_def)
    then show ?thesis
      using c cq Nil rest assms(2)
      by (auto simp: list_remove_def relinked_def payloads_def fun_eq_iff)
  next
    case (Cons b zs)
    then obtain cb where cb: "cells m b = Some cb" "t_next c = Some b"
      using rest by (auto split: option.splits)
    let ?h' = "?h(b \<mapsto> cb\<lparr>t_prev := Some q\<rparr>)"
    have "dseg ?h (Some t) (Some b) (b # zs) (last_opt ((xs @ [q]) @ t # ys)) None"
      using rest Cons cb assms(2) by (auto split: option.splits)
    then have "dseg ?h' (Some q) (Some b) (b # zs) (last_opt ((xs @ [q]) @ t # ys)) None"
      using Cons cb assms(2) by (intro dseg_cons_prev) auto
    moreover have "dseg ?h' None ?p (xs @ [q]) (Some q) (Some b)"
      using left' cb Cons assms(2) by auto
    ultimately have "dlist ?h' ?p ((xs @ [q]) @ b # zs)"
      by (intro dseg_glue) auto
    then show ?thesis
      using c cq cb Cons assms(2)
      by (auto simp: list_remove_def relinked_def payloads_def fun_eq_iff)
  qed
qed

lemma list_remove_correct:
  assumes "dlist (cells m) (timers m) (xs @ t # ys)" and "distinct (xs @ t # ys)"
  shows "\<exists>m'. list_remove t m = Some m' \<and> relinked (set (xs @ ys)) m m'
    \<and> dlist (cells m') (timers m') (xs @ ys)"
proof (cases xs rule: rev_cases)
  case Nil
  then show ?thesis using list_remove_head assms by auto
next
  case (snoc xs' q)
  then obtain m' where "list_remove t m = Some m'" "relinked (insert q (set ys)) m m'"
    "dlist (cells m') (timers m') ((xs' @ [q]) @ ys)"
    using list_remove_inner [of m xs' q t ys] assms by auto
  then show ?thesis
    using snoc by (auto intro: relinked_mono)
qed

section \<open>The invariant\<close>

definition tmr_inv :: "('p, 'd) tmr_mem \<Rightarrow> addr list \<Rightarrow> addr list \<Rightarrow> bool" where
  "tmr_inv m as fs \<longleftrightarrow> dlist (cells m) (timers m) as \<and> fseg (cells m) (free_timers m) fs
     \<and> distinct (as @ fs) \<and> sorted (map (expiry m) as)"

lemma relinked_fseg:
  assumes "relinked A m m'" and "set fs \<inter> A = {}"
  shows "fseg (cells m') p fs = fseg (cells m) p fs"
  by (rule fseg_cong) (use assms in \<open>auto simp: relinked_def\<close>)

lemma relinked_expiry: "relinked A m m' \<Longrightarrow> expiry m' = expiry m"
  by (rule ext, rule expiry_cong) (simp add: relinked_def)

lemma tmr_inv_mem: "tmr_inv m as fs \<Longrightarrow> a \<in> set as \<Longrightarrow> \<exists>c. cells m a = Some c"
  unfolding tmr_inv_def dlist_def using dseg_alloc by blast

lemma list_resort_correct:
  assumes "dlist (cells m) (timers m) (xs @ t # ys)" and "fseg (cells m) (free_timers m) fs"
    and "distinct ((xs @ t # ys) @ fs)" and "sorted (map (expiry m) (xs @ ys))"
  shows "\<exists>m'. list_resort t m = Some m' \<and> payloads m' = payloads m
    \<and> tmr_inv m' (timer_ins (expiry m) t (xs @ ys)) fs"
proof -
  obtain m1 where m1: "list_remove t m = Some m1" "relinked (set (xs @ ys)) m m1"
    "dlist (cells m1) (timers m1) (xs @ ys)"
    using list_remove_correct [of m xs t ys] assms by auto
  obtain c where "cells m t = Some c"
    using assms(1) dseg_alloc unfolding dlist_def by fastforce
  then have "cells m1 t = Some c"
    using m1(2) assms(3) by (auto simp: relinked_def)
  then obtain m2 where m2: "list_add t m1 = Some m2" "relinked (insert t (set (xs @ ys))) m1 m2"
    "dlist (cells m2) (timers m2) (timer_ins (expiry m1) t (xs @ ys))"
    using list_add_correct [OF m1(3), of t c] assms(3) by auto
  have rel: "relinked (insert t (set (xs @ ys))) m m2"
    using relinked_trans [OF m1(2) m2(2)] by (rule relinked_mono) auto
  then have "fseg (cells m2) (free_timers m2) fs"
    using assms(2,3) relinked_fseg [OF rel, of fs] by (auto simp: relinked_def)
  moreover have "expiry m1 = expiry m" "expiry m2 = expiry m"
    using m1(2) rel relinked_expiry by blast+
  ultimately show ?thesis
    using m1(1) m2 rel assms(3,4)
    by (auto simp: list_resort_def tmr_inv_def relinked_def sorted_timer_ins)
qed

lemma tmr_cancel_correct:
  assumes "tmr_inv m (xs @ t # ys) fs"
  shows "\<exists>m'. tmr_cancel t m = Some m' \<and> payloads m' = payloads m
    \<and> tmr_inv m' (xs @ ys) (t # fs)"
proof -
  obtain m1 where m1: "list_remove t m = Some m1" "relinked (set (xs @ ys)) m m1"
    "dlist (cells m1) (timers m1) (xs @ ys)"
    using list_remove_correct [of m xs t ys] assms by (auto simp: tmr_inv_def)
  obtain c where c0: "cells m t = Some c"
    using tmr_inv_mem [OF assms] by fastforce
  then have c: "cells m1 t = Some c"
    using m1(2) assms by (auto simp: relinked_def tmr_inv_def)
  let ?m' = "m1\<lparr>cells := (cells m1)(t \<mapsto> c\<lparr>t_next := free_timers m1, t_prev := None\<rparr>),
                free_timers := Some t\<rparr>"
  have eq: "tmr_cancel t m = Some ?m'"
    using m1(1) c by (simp add: tmr_cancel_def)
  have "fseg (cells m1) (free_timers m1) fs"
    using assms m1(2) relinked_fseg [OF m1(2), of fs] by (auto simp: tmr_inv_def relinked_def)
  then have "fseg (cells ?m') (free_timers ?m') (t # fs)"
    using assms by (auto simp: tmr_inv_def)
  moreover have "dlist (cells ?m') (timers ?m') (xs @ ys)"
    using m1(3) assms by (auto simp: dlist_def tmr_inv_def)
  moreover have pay: "payloads ?m' = payloads m"
    using m1(2) c c0 by (auto simp: payloads_def relinked_def fun_eq_iff)
  moreover have "expiry ?m' = expiry m"
    by (rule ext, rule expiry_cong) (simp only: pay)
  ultimately show ?thesis
    using eq assms by (auto simp: tmr_inv_def sorted_append)
qed

text \<open>Changing the contents of one timer and leaving all links alone.\<close>

lemma dseg_same_links:
  assumes "h a = Some c" and "t_prev c' = t_prev c" and "t_next c' = t_next c"
  shows "dseg (h(a \<mapsto> c')) pv p as l q = dseg h pv p as l q"
  using assms by (induction as arbitrary: pv p) (auto split: option.splits)

lemma fseg_same_links:
  assumes "h a = Some c" and "t_next c' = t_next c"
  shows "fseg (h(a \<mapsto> c')) p as = fseg h p as"
  using assms by (induction as arbitrary: p) (auto split: option.splits)

text \<open>Re-sorting a timer whose contents were just changed in place.\<close>

lemma list_resort_changed:
  assumes "tmr_inv m (xs @ t # ys) fs" and "cells m t = Some c"
    and "t_prev c' = t_prev c" and "t_next c' = t_next c"
  defines "m1 \<equiv> m\<lparr>cells := (cells m)(t \<mapsto> c')\<rparr>"
  shows "\<exists>m'. list_resort t m1 = Some m' \<and> payloads m' = payloads m1
    \<and> tmr_inv m' (timer_ins (expiry m1) t (xs @ ys)) fs"
proof -
  have same: "expiry m1 a = expiry m a" if "a \<noteq> t" for a
    using that by (simp add: m1_def expiry_def)
  have notin: "t \<notin> set (xs @ ys)"
    using assms(1) by (auto simp: tmr_inv_def)
  then have "map (expiry m1) (xs @ ys) = map (expiry m) (xs @ ys)"
    by (intro map_cong refl same) auto
  moreover have "sorted (map (expiry m) (xs @ ys))"
    using assms(1) by (auto simp: tmr_inv_def sorted_append)
  ultimately have "sorted (map (expiry m1) (xs @ ys))" by (simp only:)
  moreover have "dlist (cells m1) (timers m1) (xs @ t # ys)"
    and "fseg (cells m1) (free_timers m1) fs"
    using assms by (auto simp: m1_def dlist_def tmr_inv_def dseg_same_links fseg_same_links)
  ultimately show ?thesis
    using assms(1) by (intro list_resort_correct) (auto simp: tmr_inv_def)
qed

lemma tmr_reset_correct:
  fixes m :: "('p, 'd) tmr_mem" and nowP clock
  assumes "tmr_inv m (xs @ t # ys) fs" and "cells m t = Some c"
  defines "c' \<equiv> c\<lparr>t_time := iperf_time_add_usecs (getnow nowP clock) (t_usecs c)\<rparr>"
  defines "m1 \<equiv> m\<lparr>cells := (cells m)(t \<mapsto> c')\<rparr>"
  shows "\<exists>m'. tmr_reset nowP clock t m = Some m' \<and> payloads m' = payloads m1
    \<and> tmr_inv m' (timer_ins (expiry m1) t (xs @ ys)) fs"
proof -
  have "tmr_reset nowP clock t m = list_resort t m1"
    using assms(2) by (simp add: tmr_reset_def m1_def c'_def)
  then show ?thesis
    using list_resort_changed [OF assms(1,2), of c'] by (simp add: c'_def m1_def)
qed

section \<open>Creation\<close>

text \<open>Where \<open>tmr_create\<close> takes its cell from: the free list first, the allocator otherwise.\<close>

fun new_cell :: "addr list \<Rightarrow> (addr \<times> ('p, 'd) timer_struct) option \<Rightarrow> addr option" where
  "new_cell (f # fs) malloc = Some f"
| "new_cell [] malloc = map_option fst malloc"

definition fresh_answer :: "('p, 'd) tmr_mem \<Rightarrow> (addr \<times> ('p, 'd) timer_struct) option \<Rightarrow> bool" where
  "fresh_answer m malloc \<longleftrightarrow> (case malloc of None \<Rightarrow> True | Some (a, _) \<Rightarrow> cells m a = None)"

lemma tmr_create_link:
  assumes "dlist (cells m) (timers m) as" and "fseg (cells m) (free_timers m) fs"
    and "distinct (t # as @ fs)" and "sorted (map (expiry m) as)"
  shows "\<exists>m'. list_add t (m\<lparr>cells := (cells m)(t \<mapsto> c')\<rparr>) = Some m'
    \<and> payloads m' = (payloads m)(t \<mapsto> payload c') \<and> tmr_inv m' (timer_ins (expiry m') t as) fs"
proof -
  let ?m = "m\<lparr>cells := (cells m)(t \<mapsto> c')\<rparr>"
  have "dlist (cells ?m) (timers ?m) as" "fseg (cells ?m) (free_timers ?m) fs"
    using assms(1-3) by (auto simp: dlist_def)
  moreover have "map (expiry ?m) as = map (expiry m) as"
    using assms(3) by (intro map_cong) (auto simp: expiry_def)
  then have "sorted (map (expiry ?m) (timer_ins (expiry ?m) t as))"
    using assms(4) by (simp only: sorted_timer_ins)
  moreover obtain m' where m': "list_add t ?m = Some m'" "relinked (insert t (set as)) ?m m'"
    "dlist (cells m') (timers m') (timer_ins (expiry ?m) t as)"
    using list_add_correct [of ?m as t c'] calculation(1) assms(3) by auto
  moreover have "expiry m' = expiry ?m"
    using m'(2) by (rule relinked_expiry)
  moreover have "fseg (cells m') (free_timers m') fs"
    using calculation(2) relinked_fseg [OF m'(2), of fs] assms(3) m'(2)
    by (auto simp: relinked_def)
  moreover have "payloads m' = (payloads m)(t \<mapsto> payload c')"
    using m'(2) by (auto simp: relinked_def payloads_def fun_eq_iff)
  ultimately show ?thesis
    using assms(3) by (auto simp: tmr_inv_def)
qed

lemma tmr_create_correct:
  fixes m :: "('p, 'd) tmr_mem"
  assumes "tmr_inv m as fs" and "fresh_answer m malloc" and "new_cell fs malloc = Some t"
  shows "\<exists>m' c. tmr_create nowP clock malloc proc cdata us per m = Some (Some t, m')
    \<and> tmr_inv m' (timer_ins (expiry m') t as) (tl fs)
    \<and> payloads m' = (payloads m)(t \<mapsto> c)
    \<and> timer_proc c = proc \<and> client_data c = cdata \<and> t_usecs c = us \<and> periodic c = per
    \<and> t_time c = iperf_time_add_usecs (getnow nowP clock) us"
proof -
  define new where "new c = c\<lparr>timer_proc := proc, client_data := cdata, t_usecs := us, periodic := per,
      t_time := iperf_time_add_usecs (getnow nowP clock) us\<rparr>" for c :: "('p, 'd) timer_struct"
  obtain m0 c0 where m0: "cells m0 t = Some c0" "timers m0 = timers m"
      "free_timers m0 = (case fs of [] \<Rightarrow> None | f # fs \<Rightarrow> t_next c0)"
      "\<And>a. a \<noteq> t \<Longrightarrow> cells m0 a = cells m a" "t \<notin> set as" "t \<notin> set (tl fs)"
      "fseg (cells m) (free_timers m0) (tl fs)"
    and eq: "tmr_create nowP clock malloc proc cdata us per m
      = Option.bind (list_add t (m0\<lparr>cells := (cells m0)(t \<mapsto> new c0)\<rparr>)) (\<lambda>m'. Some (Some t, m'))"
  proof (cases fs)
    case Nil
    then obtain junk where j: "malloc = Some (t, junk)"
      using assms(3) by auto
    moreover have "t \<notin> set as"
      using assms(1,2) j tmr_inv_mem unfolding fresh_answer_def by fastforce
    ultimately show ?thesis
      using that [of "m\<lparr>cells := (cells m)(t \<mapsto> junk)\<rparr>" junk] Nil assms(1)
      by (simp add: tmr_inv_def tmr_create_def new_def)
  next
    case (Cons f fs')
    then obtain c where "cells m t = Some c" "free_timers m = Some t" "f = t"
      "fseg (cells m) (t_next c) fs'"
      using assms(1,3) by (auto simp: tmr_inv_def split: option.splits)
    then show ?thesis
      using that [of "m\<lparr>free_timers := t_next c\<rparr>" c] Cons assms(1)
      by (simp add: tmr_inv_def tmr_create_def new_def)
  qed
  have "dlist (cells m0) (timers m0) as"
    using assms(1) m0(2,4,5) dseg_cong [of as "cells m0" "cells m"]
    unfolding tmr_inv_def dlist_def by metis
  moreover have "fseg (cells m0) (free_timers m0) (tl fs)"
    using m0(4,6,7) fseg_cong [of "tl fs" "cells m0" "cells m"] by metis
  moreover have "map (expiry m0) as = map (expiry m) as"
    using m0(4,5) unfolding expiry_def by (intro map_cong refl) metis
  then have "sorted (map (expiry m0) as)"
    using assms(1) by (simp only: tmr_inv_def)
  moreover have "distinct (t # as @ tl fs)"
    using assms(1) m0(5,6) by (cases fs) (auto simp: tmr_inv_def)
  ultimately obtain m' where "list_add t (m0\<lparr>cells := (cells m0)(t \<mapsto> new c0)\<rparr>) = Some m'"
    "payloads m' = (payloads m0)(t \<mapsto> payload (new c0))"
    "tmr_inv m' (timer_ins (expiry m') t as) (tl fs)"
    using tmr_create_link [of m0 as "tl fs" t "new c0"] by auto
  moreover have "(payloads m0)(t \<mapsto> payload (new c0)) = (payloads m)(t \<mapsto> payload (new c0))"
    using m0(4) by (auto simp: payloads_def fun_eq_iff)
  ultimately show ?thesis
    using eq by (intro exI [of _ m'] exI [of _ "payload (new c0)"]) (simp add: new_def payload_def)
qed

section \<open>Clean-up\<close>

lemma tmr_cleanup_correct:
  assumes "fseg (cells m) (free_timers m) fs" and "distinct fs"
  shows "tmr_cleanup m = Some (m\<lparr>cells := (\<lambda>a. if a \<in> set fs then None else cells m a),
                                 free_timers := None\<rparr>)"
  using assms
proof (induction fs arbitrary: m)
  case Nil
  then show ?case by (subst tmr_cleanup.simps) simp
next
  case (Cons f fs)
  then obtain c where c: "cells m f = Some c" "free_timers m = Some f" "fseg (cells m) (t_next c) fs"
    by (auto split: option.splits)
  let ?m = "m\<lparr>free_timers := t_next c, cells := (cells m)(f := None)\<rparr>"
  have "tmr_cleanup m = tmr_cleanup ?m"
    using c by (subst tmr_cleanup.simps) simp
  also have "fseg ((cells m)(f := None)) (t_next c) fs"
    using Cons.prems(2) c(3) fseg_upd [of f fs "cells m" None "t_next c"] by (simp del: fun_upd_apply)
  then have "tmr_cleanup ?m
      = Some (?m\<lparr>cells := (\<lambda>a. if a \<in> set fs then None else cells ?m a), free_timers := None\<rparr>)"
    using Cons.prems(2) by (intro Cons.IH) (simp_all del: fun_upd_apply)
  finally show ?case
    by (auto simp: fun_eq_iff)
qed

lemma tmr_destroy_loop_correct:
  assumes "tmr_inv m as fs"
  shows "\<exists>m'. tmr_destroy_loop m = Some m' \<and> tmr_inv m' [] (rev as @ fs) \<and> payloads m' = payloads m"
  using assms
proof (induction as arbitrary: m fs)
  case Nil
  then show ?case
    by (subst tmr_destroy_loop.simps) (auto simp: tmr_inv_def dlist_def)
next
  case (Cons t as)
  then have "timers m = Some t"
    by (auto simp: tmr_inv_def dlist_def)
  moreover obtain m' where m': "tmr_cancel t m = Some m'" "tmr_inv m' as (t # fs)" "payloads m' = payloads m"
    using tmr_cancel_correct [of m "[]" t as fs] Cons.prems by auto
  ultimately have "tmr_destroy_loop m = tmr_destroy_loop m'"
    by (subst tmr_destroy_loop.simps) simp
  then show ?case
    using Cons.IH [OF m'(2)] m'(3) by auto
qed

section \<open>Running the timers\<close>

text \<open>How far a timer is behind \<open>now\<close>, in microseconds plus one; 0 when it is not due.\<close>

definition late :: "iperf_time \<Rightarrow> ('p, 'd) tmr_mem \<Rightarrow> addr \<Rightarrow> nat" where
  "late now m a = Suc (time_us now) - time_us (expiry m a)"

text \<open>
  What \<open>tmr_run\<close> needs of every active timer to return: a normalised expiry and, for a
  periodic timer, a positive period that does not carry the expiry past the 32-bit seconds counter.
\<close>

definition cell_ok :: "iperf_time \<Rightarrow> ('p, 'd) timer_struct \<Rightarrow> bool" where
  "cell_ok now c \<longleftrightarrow> valid_time (t_time c) \<and>
     (periodic c \<noteq> 0 \<longrightarrow> 0 < unat (t_usecs c)
        \<and> time_us now + unat (t_usecs c) < 4294967296 * 1000000)"

definition timer_ok :: "iperf_time \<Rightarrow> ('p, 'd) tmr_mem \<Rightarrow> addr \<Rightarrow> bool" where
  "timer_ok now m a \<longleftrightarrow> (case cells m a of None \<Rightarrow> False | Some c \<Rightarrow> cell_ok now c)"

lemma cell_ok_payload: "payload c = payload d \<Longrightarrow> cell_ok now c = cell_ok now d"
  by (cases c; cases d) (simp add: payload_def cell_ok_def)

lemma late_cong: "payloads m' a = payloads m a \<Longrightarrow> late now m' a = late now m a"
  using expiry_cong [of m' a m] by (simp add: late_def)

lemma timer_ok_cong: "payloads m' a = payloads m a \<Longrightarrow> timer_ok now m' a = timer_ok now m a"
  by (auto simp: timer_ok_def payloads_def dest: cell_ok_payload split: option.splits)

lemma due_iff_late:
  assumes "valid_time now" and "timer_ok now m a" and "cells m a = Some c"
  shows "iperf_time_compare (t_time c) now > 0 \<longleftrightarrow> late now m a = 0"
proof -
  have "valid_time (t_time c)"
    using assms(2,3) by (simp add: timer_ok_def cell_ok_def)
  then show ?thesis
    using time_us_less_iff [OF assms(1), of "t_time c"] assms(3)
    by (simp add: late_def expiry_def time_simps Suc_le_eq)
qed

text \<open>Sum of the delays of the active timers: what every turn of the loop of \<open>tmr_run\<close> lowers.\<close>

definition backlog :: "iperf_time \<Rightarrow> ('p, 'd) tmr_mem \<Rightarrow> addr list \<Rightarrow> nat" where
  "backlog now m as = sum_list (map (late now m) as)"

lemma backlog_insert:
  "backlog now m (timer_ins k t as) = late now m t + backlog now m as"
  by (induction as) (auto simp: backlog_def)

lemma backlog_mono:
  assumes "\<And>a. a \<in> set as \<Longrightarrow> late now m' a \<le> late now m a"
  shows "backlog now m' as \<le> backlog now m as"
  using assms unfolding backlog_def by (intro sum_list_mono) auto

lemma backlog_perm:
  assumes "distinct as" and "distinct bs" and "set as = set bs"
  shows "backlog now m as = backlog now m bs"
  using assms unfolding backlog_def by (simp add: sum_list_distinct_conv_sum_set)

text \<open>A periodic timer that has just fired is rescheduled later, so it is less late.\<close>

lemma reschedule_later:
  assumes "timer_ok now m t" and "cells m t = Some c" and "periodic c \<noteq> 0" and "late now m t \<noteq> 0"
  defines "m1 \<equiv> m\<lparr>cells := (cells m)(t \<mapsto> c\<lparr>t_time := iperf_time_add_usecs (t_time c) (t_usecs c)\<rparr>)\<rparr>"
  shows "late now m1 t < late now m t" and "timer_ok now m1 t"
proof -
  have us: "0 < unat (t_usecs c)" "time_us now + unat (t_usecs c) < 4294967296 * 1000000"
    using assms(1-3) by (simp_all add: timer_ok_def cell_ok_def)
  have "time_us (t_time c) \<le> time_us now"
    using assms(2,4) by (simp add: late_def expiry_def)
  with us(2) have add: "time_us (iperf_time_add_usecs (t_time c) (t_usecs c)) = time_us (t_time c) + unat (t_usecs c)"
    by (intro add_usecs_exact) linarith
  have "late now m1 t = Suc (time_us now) - (time_us (t_time c) + unat (t_usecs c))"
    by (simp add: m1_def late_def expiry_def add)
  moreover have "late now m t = Suc (time_us now) - time_us (t_time c)"
    using assms(2) by (simp add: late_def expiry_def)
  ultimately show "late now m1 t < late now m t"
    using us(1) assms(4) by linarith
  show "timer_ok now m1 t"
    using us assms(3) add_usecs_valid
    by (simp add: m1_def timer_ok_def cell_ok_def)
qed

lemma dlist_next:
  assumes "dlist (cells m) p as" and "distinct as" and "t \<in> set as" and "cells m t = Some c"
    and "t_next c = Some n"
  shows "n \<in> set as \<and> n \<noteq> t"
proof -
  obtain xs ys where as: "as = xs @ t # ys"
    using assms(3) by (meson split_list)
  then have "dseg (cells m) (Some t) (t_next c) ys (last_opt as) None"
    using assms(1,4) unfolding as dlist_split by (auto split: option.splits)
  then show ?thesis
    using assms(2,5) as by (cases ys) (auto split: option.splits)
qed

text \<open>What never changes in a timer between its creation and its cancellation.\<close>

definition static :: "('p, 'd) tmr_mem \<Rightarrow> addr \<Rightarrow> ('p \<times> 'd \<times> i64 \<times> int) option" where
  "static m a = map_option (\<lambda>c. (timer_proc c, client_data c, t_usecs c, periodic c)) (cells m a)"

lemma static_cong: "payloads m' a = payloads m a \<Longrightarrow> static m' a = static m a"
proof -
  have eq: "static m a = map_option (\<lambda>c. (timer_proc c, client_data c, t_usecs c, periodic c)) (payloads m a)"
    for m :: "('p, 'd) tmr_mem"
    by (simp add: static_def payloads_def payload_def option.map_comp o_def)
  show "payloads m' a = payloads m a \<Longrightarrow> static m' a = static m a"
    by (simp only: eq)
qed

text \<open>
  One turn of the loop after the callback: a periodic timer is moved to its next expiry, a one-shot
  timer goes to the free list; the backlog shrinks in both cases.
\<close>

definition retire :: "addr \<Rightarrow> ('p, 'd) timer_struct \<Rightarrow> ('p, 'd) tmr_mem \<Rightarrow> ('p, 'd) tmr_mem option" where
  "retire t c m = (if periodic c \<noteq> 0
     then do { m \<leftarrow> store t (\<lambda>c. c\<lparr>t_time := iperf_time_add_usecs (t_time c) (t_usecs c)\<rparr>) m; list_resort t m }
     else tmr_cancel t m)"

lemma retire_correct:
  assumes inv: "tmr_inv m as fs" and t: "t \<in> set as" and c: "cells m t = Some c"
    and ok: "\<forall>a\<in>set as. timer_ok now m a" and due: "late now m t \<noteq> 0"
  shows "\<exists>m' as' fs'. retire t c m = Some m' \<and> tmr_inv m' as' fs'
    \<and> set as' = (if periodic c \<noteq> 0 then set as else set as - {t})
    \<and> set as' \<union> set fs' = set as \<union> set fs
    \<and> (\<forall>a\<in>set as. static m' a = static m a \<and> timer_ok now m' a)
    \<and> backlog now m' as' < backlog now m as"
proof -
  obtain xs ys where as: "as = xs @ t # ys"
    using t by (meson split_list)
  have notin: "t \<notin> set (xs @ ys)"
    using inv as by (auto simp: tmr_inv_def)
  have split: "backlog now m as = late now m t + backlog now m (xs @ ys)"
    by (simp add: as backlog_def)
  show ?thesis
  proof (cases "periodic c = 0")
    case True
    then obtain m' where m': "retire t c m = Some m'" "payloads m' = payloads m"
      "tmr_inv m' (xs @ ys) (t # fs)"
      using tmr_cancel_correct [of m xs t ys fs] inv as by (auto simp: retire_def)
    have "late now m' = late now m"
      using m'(2) by (intro ext late_cong) simp
    then have "backlog now m' (xs @ ys) = backlog now m (xs @ ys)"
      by (simp add: backlog_def)
    with split due have "backlog now m' (xs @ ys) < backlog now m as" by simp
    moreover have "\<forall>a\<in>set as. static m' a = static m a \<and> timer_ok now m' a"
      using m'(2) ok static_cong [of m' _ m] timer_ok_cong [of m' _ m now] by auto
    ultimately show ?thesis
      using m'(1,3) as notin True
      by (intro exI [of _ m'] exI [of _ "xs @ ys"] exI [of _ "t # fs"]) auto
  next
    case False
    define m1 where "m1 = m\<lparr>cells := (cells m)(t \<mapsto> c\<lparr>t_time := iperf_time_add_usecs (t_time c) (t_usecs c)\<rparr>)\<rparr>"
    obtain m' where m': "retire t c m = Some m'" "payloads m' = payloads m1"
      "tmr_inv m' (timer_ins (expiry m1) t (xs @ ys)) fs"
      using list_resort_changed [of m xs t ys fs c "c\<lparr>t_time := iperf_time_add_usecs (t_time c) (t_usecs c)\<rparr>"]
        inv as c False unfolding m1_def by (auto simp: retire_def)
    have later: "late now m1 t < late now m t" "timer_ok now m1 t"
      using reschedule_later [of now m t c] ok t c False due unfolding m1_def by auto
    have others: "payloads m1 a = payloads m a" if "a \<noteq> t" for a
      using that by (simp add: m1_def payloads_def)
    have "backlog now m' (timer_ins (expiry m1) t (xs @ ys)) = late now m1 t + backlog now m (xs @ ys)"
    proof -
      have late: "late now m' = late now m1"
        using m'(2) by (intro ext late_cong) simp
      have "map (late now m1) (xs @ ys) = map (late now m) (xs @ ys)"
        using notin by (intro map_cong refl late_cong others) auto
      then have "backlog now m1 (xs @ ys) = backlog now m (xs @ ys)"
        by (simp only: backlog_def)
      then show ?thesis
        using late by (simp only: backlog_insert) (simp only: backlog_def late)
    qed
    with split later(1) have "backlog now m' (timer_ins (expiry m1) t (xs @ ys)) < backlog now m as"
      by simp
    moreover have "static m1 t = static m t"
      using c by (simp add: static_def m1_def)
    then have "\<forall>a\<in>set as. static m' a = static m a \<and> timer_ok now m' a"
      using m'(2) ok later(2) others
      by (metis static_cong timer_ok_cong)
    ultimately show ?thesis
      using m'(1,3) as False
      by (intro exI [of _ m'] exI [of _ "timer_ins (expiry m1) t (xs @ ys)"] exI [of _ fs]) auto
  qed
qed

text \<open>
  The contract of the callbacks: run on well-formed memory they return, keep it well formed,
  take no timer off the active list, leave what is fixed in a timer alone and make no timer
  later. \<open>good\<close> is what the client keeps true of its own pointers to timers.
\<close>

locale timer_callbacks =
  fixes call :: "'p \<Rightarrow> 'd \<Rightarrow> iperf_time \<Rightarrow> 'w \<Rightarrow> ('p, 'd) tmr_mem \<Rightarrow> ('w \<times> ('p, 'd) tmr_mem) option"
    and good :: "'w \<Rightarrow> ('p, 'd) tmr_mem \<Rightarrow> addr set \<Rightarrow> bool"
  assumes good_static:
    "\<lbrakk>good w m A; \<forall>a\<in>A. static m' a = static m a\<rbrakk> \<Longrightarrow> good w m' A"
  and call_returns:
    "\<lbrakk>valid_time now; tmr_inv m as fs; \<forall>a\<in>set as. timer_ok now m a; t \<in> set as;
      good w m (set as); cells m t = Some c; late now m t \<noteq> 0\<rbrakk>
     \<Longrightarrow> \<exists>w' m' as'. call (timer_proc c) (client_data c) now w m = Some (w', m')
       \<and> tmr_inv m' as' fs \<and> set as' = set as
       \<and> (\<forall>a\<in>set as. static m' a = static m a \<and> timer_ok now m' a \<and> late now m' a \<le> late now m a)
       \<and> late now m' t \<noteq> 0
       \<and> good w' m' (if periodic c \<noteq> 0 then set as else set as - {t})"
begin

lemma run_loop_returns:
  assumes "valid_time now" and "tmr_inv m as fs" and "\<forall>a\<in>set as. timer_ok now m a"
    and "good w m (set as)" and "set_option tp \<subseteq> set as"
  shows "\<exists>w' m' as' fs'. tmr_run_loop call now tp w m = Some (w', m') \<and> tmr_inv m' as' fs'
    \<and> set as' \<subseteq> set as \<and> set as' \<union> set fs' = set as \<union> set fs
    \<and> good w' m' (set as') \<and> (\<forall>a\<in>set as'. timer_ok now m' a)"
  using assms(2-5)
proof (induction "backlog now m as" arbitrary: m as fs w tp rule: less_induct)
  case less
  show ?case
  proof (cases tp)
    case None
    then show ?thesis
      using less.prems by (subst tmr_run_loop.simps) auto
  next
    case (Some t)
    with less.prems(4) have t: "t \<in> set as" by simp
    then obtain c where c: "cells m t = Some c"
      using tmr_inv_mem [OF less.prems(1)] by blast
    show ?thesis
    proof (cases "iperf_time_compare (t_time c) now > 0")
      case True
      then show ?thesis
        using less.prems Some c by (subst tmr_run_loop.simps) auto
    next
      case False
      with t c less.prems(2) have due: "late now m t \<noteq> 0"
        using due_iff_late [OF assms(1), of m t c] by auto
      obtain w1 m1 as1 where call: "call (timer_proc c) (client_data c) now w m = Some (w1, m1)"
        and inv1: "tmr_inv m1 as1 fs" and as1: "set as1 = set as"
        and ok1: "\<forall>a\<in>set as. static m1 a = static m a \<and> timer_ok now m1 a \<and> late now m1 a \<le> late now m a"
        and due1: "late now m1 t \<noteq> 0"
        and good1: "good w1 m1 (if periodic c \<noteq> 0 then set as else set as - {t})"
        using call_returns [OF assms(1) less.prems(1,2) t less.prems(3) c due] by blast
      obtain c1 where c1: "cells m1 t = Some c1" and per: "periodic c1 = periodic c"
        using ok1 t c by (fastforce simp: static_def)
      obtain m2 as2 fs2 where m2: "retire t c1 m1 = Some m2" "tmr_inv m2 as2 fs2"
        "set as2 = (if periodic c1 \<noteq> 0 then set as1 else set as1 - {t})"
        "set as2 \<union> set fs2 = set as1 \<union> set fs"
        "\<forall>a\<in>set as1. static m2 a = static m1 a \<and> timer_ok now m2 a"
        "backlog now m2 as2 < backlog now m1 as1"
        using retire_correct [OF inv1 _ c1 _ due1] t as1 ok1 by auto
      have "backlog now m1 as1 \<le> backlog now m as"
        using backlog_perm [of as1 as now m1] backlog_mono [of as now m1 m] inv1 less.prems(1) as1 ok1
        by (auto simp: tmr_inv_def)
      with m2(6) have smaller: "backlog now m2 as2 < backlog now m as" by simp
      have good2: "good w1 m2 (set as2)"
        using good_static [OF good1, of m2] m2(3,5) as1 per by (auto split: if_splits)
      have nxt: "set_option (t_next c) \<subseteq> set as2"
        using dlist_next [of m "timers m" as t c] less.prems(1) t c m2(3) as1
        by (cases "t_next c") (auto simp: tmr_inv_def)
      have ok2: "\<forall>a\<in>set as2. timer_ok now m2 a"
        using m2(3,5) by (auto split: if_splits)
      have "tmr_run_loop call now tp w m = tmr_run_loop call now (t_next c) w1 m2"
        using Some c False call c1 m2(1) by (subst tmr_run_loop.simps) (simp add: retire_def)
      moreover obtain w3 m3 as3 fs3 where
        "tmr_run_loop call now (t_next c) w1 m2 = Some (w3, m3)" "tmr_inv m3 as3 fs3"
        "set as3 \<subseteq> set as2" "set as3 \<union> set fs3 = set as2 \<union> set fs2" "good w3 m3 (set as3)"
        "\<forall>a\<in>set as3. timer_ok now m3 a"
        using less.hyps [OF smaller m2(2) ok2 good2 nxt] by blast
      moreover have "set as2 \<subseteq> set as"
        using m2(3) as1 by auto
      ultimately show ?thesis
        using m2(4) as1 by (intro exI [of _ w3] exI [of _ m3] exI [of _ as3] exI [of _ fs3]) auto
    qed
  qed
qed

lemma run_returns:
  assumes "valid_time (getnow nowP clock)" and "tmr_inv m as fs"
    and "\<forall>a\<in>set as. timer_ok (getnow nowP clock) m a" and "good w m (set as)"
  shows "\<exists>w' m' as' fs'. tmr_run call nowP clock w m = Some (w', m') \<and> tmr_inv m' as' fs'
    \<and> set as' \<subseteq> set as \<and> set as' \<union> set fs' = set as \<union> set fs \<and> good w' m' (set as')"
proof -
  have "set_option (timers m) \<subseteq> set as"
    using assms(2) by (cases as) (auto simp: tmr_inv_def dlist_def)
  then show ?thesis
    using run_loop_returns [OF assms] unfolding tmr_run_def by blast
qed

end

text \<open>
  With one-shot timers and callbacks that leave the timers alone, the loop fires exactly the due
  timers, in the order of their expiry, and moves them to the free list.
\<close>

definition due :: "iperf_time \<Rightarrow> ('p, 'd) tmr_mem \<Rightarrow> addr \<Rightarrow> bool" where
  "due now m a \<longleftrightarrow> expiry m a \<le> now"

definition fire :: "('p \<Rightarrow> 'd \<Rightarrow> iperf_time \<Rightarrow> 'w \<Rightarrow> 'w) \<Rightarrow> iperf_time \<Rightarrow> ('p, 'd) tmr_mem \<Rightarrow> addr \<Rightarrow> 'w \<Rightarrow> 'w" where
  "fire f now m a w = (case cells m a of None \<Rightarrow> w | Some c \<Rightarrow> f (timer_proc c) (client_data c) now w)"

definition neutral :: "('p \<Rightarrow> 'd \<Rightarrow> iperf_time \<Rightarrow> 'w \<Rightarrow> 'w)
    \<Rightarrow> 'p \<Rightarrow> 'd \<Rightarrow> iperf_time \<Rightarrow> 'w \<Rightarrow> ('p, 'd) tmr_mem \<Rightarrow> ('w \<times> ('p, 'd) tmr_mem) option" where
  "neutral f p d now w m = Some (f p d now w, m)"

lemma fire_cong:
  assumes "payloads m' = payloads m"
  shows "fire f now m' = fire f now m"
proof -
  have eq: "fire f now m a = (\<lambda>w. case static m a of None \<Rightarrow> w | Some (p, d, _, _) \<Rightarrow> f p d now w)" for m a
    by (auto simp: fire_def static_def fun_eq_iff split: option.splits)
  show ?thesis
    unfolding fun_eq_iff eq using static_cong [of m' _ m] assms by simp
qed

lemma sorted_due_prefix:
  assumes "sorted (map (expiry m) (t # ys))" and "\<not> due now m t"
  shows "filter (due now m) (t # ys) = []"
  using assms by (force simp: due_def filter_empty_conv)

lemma run_loop_oneshot:
  assumes "tmr_inv m as fs" and "\<forall>a\<in>set as. \<exists>c. cells m a = Some c \<and> periodic c = 0"
  shows "\<exists>m'. tmr_run_loop (neutral f) now (timers m) w m
      = Some (fold (fire f now m) (filter (due now m) as) w, m')
    \<and> payloads m' = payloads m
    \<and> tmr_inv m' (filter (\<lambda>a. \<not> due now m a) as) (rev (filter (due now m) as) @ fs)"
  using assms
proof (induction as arbitrary: m fs w)
  case Nil
  then show ?case
    by (subst tmr_run_loop.simps) (auto simp: tmr_inv_def dlist_def)
next
  case (Cons t ys)
  from Cons.prems obtain c where head: "timers m = Some t" and c: "cells m t = Some c" "periodic c = 0"
    by (auto simp: tmr_inv_def dlist_def)
  have due: "iperf_time_compare (t_time c) now > 0 \<longleftrightarrow> \<not> due now m t"
    using c by (simp add: time_simps due_def expiry_def not_le)
  show ?case
  proof (cases "due now m t")
    case False
    then have none: "filter (due now m) (t # ys) = []"
      using Cons.prems(1) by (intro sorted_due_prefix) (auto simp: tmr_inv_def)
    then have "\<forall>a\<in>set (t # ys). \<not> due now m a"
      by (simp only: filter_empty_conv)
    then have "filter (\<lambda>a. \<not> due now m a) (t # ys) = t # ys"
      by (intro filter_True)
    with none show ?thesis
      using Cons.prems(1) False due head c by (subst tmr_run_loop.simps) (simp only:, simp)
  next
    case True
    obtain m1 where m1: "tmr_cancel t m = Some m1" "payloads m1 = payloads m" "tmr_inv m1 ys (t # fs)"
      using tmr_cancel_correct [of m "[]" t ys fs] Cons.prems(1) by auto
    have next1: "t_next c = timers m1"
    proof (cases ys)
      case Nil
      then show ?thesis
        using Cons.prems(1) m1(3) c by (auto simp: tmr_inv_def dlist_def)
    next
      case (Cons b zs)
      then show ?thesis
        using Cons.prems(1) m1(3) c by (auto simp: tmr_inv_def dlist_def)
    qed
    have per: "\<forall>a\<in>set ys. \<exists>c. cells m1 a = Some c \<and> periodic c = 0"
    proof
      fix a
      assume "a \<in> set ys"
      then obtain d where "cells m a = Some d" "periodic d = 0"
        using Cons.prems(2) by auto
      then have "static m1 a = Some (timer_proc d, client_data d, t_usecs d, 0)"
        using static_cong [of m1 a m] m1(2) by (simp add: static_def)
      then show "\<exists>c. cells m1 a = Some c \<and> periodic c = 0"
        by (auto simp: static_def)
    qed
    have same: "due now m1 = due now m" "fire f now m1 = fire f now m"
      using expiry_cong [of m1 _ m] m1(2) fire_cong [OF m1(2)] by (simp_all add: due_def fun_eq_iff)
    have "tmr_run_loop (neutral f) now (timers m) w m
        = tmr_run_loop (neutral f) now (timers m1) (fire f now m t w) m1"
      using True due head c m1(1) next1
      by (subst tmr_run_loop.simps) (simp add: neutral_def fire_def)
    then show ?thesis
      using Cons.IH [OF m1(3) per, of "fire f now m t w"] True same m1(2) by simp
  qed
qed

section \<open>The time to the next timer\<close>

lemma timeout_exact:
  assumes "valid_time now" and "valid_time t"
  defines "us \<equiv> (if fst (iperf_time_diff t now) \<noteq> 0 then 0
                 else sint (iperf_time_in_usecs (snd (iperf_time_diff t now))))"
  shows "us = max 0 (int (time_us t) - int (time_us now))"
proof -
  have "time_us (snd (iperf_time_diff t now)) < 9223372036854775808"
    using time_us_bound [OF time_diff_exact(1) [OF assms(2,1)]] by simp
  then have "sint (iperf_time_in_usecs (snd (iperf_time_diff t now)))
      = \<bar>int (time_us t) - int (time_us now)\<bar>"
    using time_diff_exact(2) [OF assms(2,1)] by (simp add: sint_small_u64 in_usecs_exact)
  moreover have "t \<le> now \<longleftrightarrow> time_us t \<le> time_us now"
    using time_us_less_iff [OF assms(1,2)] by (auto simp: not_less [symmetric])
  ultimately show ?thesis
    using time_diff_exact(3) [OF assms(2,1)] by (simp add: us_def)
qed

section \<open>Properties\<close>

text \<open>
  C19: creating a timer on well-formed memory returns the recycled or allocated cell, with the
  expiry \<open>now + usecs\<close> and the arguments stored in it, inserts it into the active list after every
  timer that expires no later (so the list stays sorted and doubly linked) and changes nothing
  else of any timer.
\<close>

theorem tmr_create_inserts_sorted:
  assumes "tmr_inv m as fs" and "fresh_answer m malloc" and "new_cell fs malloc = Some t"
  shows "\<exists>m' c. tmr_create nowP clock malloc proc cdata us per m = Some (Some t, m')
    \<and> tmr_inv m' (timer_ins (expiry m') t as) (tl fs)
    \<and> payloads m' = (payloads m)(t \<mapsto> c)
    \<and> timer_proc c = proc \<and> client_data c = cdata \<and> t_usecs c = us \<and> periodic c = per
    \<and> t_time c = iperf_time_add_usecs (getnow nowP clock) us"
  using assms by (rule tmr_create_correct)

definition no_timers :: "(nat, nat) tmr_mem" where
  "no_timers = \<lparr>cells = (\<lambda>_. None), timers = None, free_timers = None\<rparr>"

definition one_timer :: "int \<Rightarrow> (nat, nat) tmr_mem" where
  "one_timer per = \<lparr>cells = (\<lambda>_. None)(7 \<mapsto> \<lparr>timer_proc = 1, client_data = 2, t_usecs = 1000000, periodic = per,
      t_time = \<lparr>secs = 10, usecs = 5\<rparr>, t_prev = None, t_next = None\<rparr>),
     timers = Some 7, free_timers = None\<rparr>"

lemma one_timer_inv: "tmr_inv (one_timer per) [7] []"
  by (simp add: one_timer_def tmr_inv_def dlist_def last_opt_def)

theorem tmr_create_inserts_sorted_witness:
  "\<exists>m' c. tmr_create None \<lparr>secs = 9, usecs = 0\<rparr>
       (Some (3, \<lparr>timer_proc = 0, client_data = 0, t_usecs = 0, periodic = 0,
                  t_time = \<lparr>secs = 0, usecs = 0\<rparr>, t_prev = Some 99, t_next = Some 99\<rparr>))
       (4 :: nat) (5 :: nat) 2000000 1 (one_timer 0) = Some (Some 3, m')
    \<and> tmr_inv m' (timer_ins (expiry m') 3 [7]) []
    \<and> payloads m' = (payloads (one_timer 0))(3 \<mapsto> c)
    \<and> timer_proc c = 4 \<and> client_data c = 5 \<and> t_usecs c = 2000000 \<and> periodic c = 1
    \<and> t_time c = iperf_time_add_usecs \<lparr>secs = 9, usecs = 0\<rparr> 2000000"
  using tmr_create_inserts_sorted [OF one_timer_inv [of 0],
      of "Some (3, \<lparr>timer_proc = 0, client_data = 0, t_usecs = 0, periodic = 0,
                  t_time = \<lparr>secs = 0, usecs = 0\<rparr>, t_prev = Some 99, t_next = Some 99\<rparr>)" 3
      None "\<lparr>secs = 9, usecs = 0\<rparr>" 4 5 2000000 1]
  by (simp add: fresh_answer_def one_timer_def getnow_def)



text \<open>
  C32: \<open>tmr_destroy\<close> returns on well-formed memory, frees every active and every recycled timer
  exactly once, frees nothing else and leaves both lists empty.
\<close>

theorem tmr_destroy_frees_all:
  assumes "tmr_inv m as fs"
  shows "\<exists>m'. tmr_destroy m = Some m' \<and> timers m' = None \<and> free_timers m' = None
    \<and> (\<forall>a. cells m' a = None \<longleftrightarrow> a \<in> set as \<union> set fs \<or> cells m a = None)"
proof -
  obtain m1 where m1: "tmr_destroy_loop m = Some m1" "tmr_inv m1 [] (rev as @ fs)" "payloads m1 = payloads m"
    using tmr_destroy_loop_correct [OF assms] by auto
  have "cells m1 a = None \<longleftrightarrow> cells m a = None" for a
    using m1(3) by (metis comp_apply option.map_disc_iff payloads_def)
  then show ?thesis
    using tmr_cleanup_correct [of m1 "rev as @ fs"] m1(1,2)
    by (auto simp: tmr_destroy_def tmr_inv_def dlist_def)
qed

theorem tmr_destroy_frees_all_witness:
  "\<exists>m'. tmr_destroy (one_timer 1) = Some m' \<and> timers m' = None \<and> free_timers m' = None
    \<and> (\<forall>a. cells m' a = None \<longleftrightarrow> a \<in> {7} \<union> {} \<or> cells (one_timer 1) a = None)"
  using tmr_destroy_frees_all [OF one_timer_inv [of 1]] by simp

text \<open>
  \<open>tmr_timeout\<close> looks at the first timer only, and its answer is right for all of them: a
  normalised \<open>timeval\<close> holding the distance from now to the earliest expiry, zero if that
  is past; it answers that there is none exactly when no timer is active.
\<close>

lemma tmr_timeout_earliest:
  assumes "tmr_inv m as fs" and "valid_time (getnow nowP clock)"
    and "\<forall>a\<in>set as. valid_time (expiry m a)"
  shows "if as = [] then tmr_timeout nowP clock m = Some None
    else \<exists>s u. tmr_timeout nowP clock m = Some (Some (s, u)) \<and> 0 \<le> s \<and> 0 \<le> u \<and> u < 1000000
      \<and> (\<exists>a\<in>set as. s * 1000000 + u
            = max 0 (int (time_us (expiry m a)) - int (time_us (getnow nowP clock))))
      \<and> (\<forall>a\<in>set as. s * 1000000 + u
            \<le> max 0 (int (time_us (expiry m a)) - int (time_us (getnow nowP clock))))"
proof (cases as)
  case Nil
  then show ?thesis
    using assms(1) by (simp add: tmr_inv_def dlist_def tmr_timeout_def Let_def)
next
  case (Cons t ys)
  let ?now = "getnow nowP clock"
  let ?us = "max 0 (int (time_us (expiry m t)) - int (time_us ?now))"
  obtain c where c: "timers m = Some t" "cells m t = Some c" "expiry m t = t_time c"
    using assms(1) Cons by (auto simp: tmr_inv_def dlist_def expiry_def split: option.splits)
  have "tmr_timeout nowP clock m = Some (Some (?us sdiv 1000000, ?us smod 1000000))"
    using timeout_exact [OF assms(2), of "t_time c"] assms(3) Cons c
    by (simp add: tmr_timeout_def Let_def case_prod_beta)
  moreover have "?us sdiv 1000000 * 1000000 + ?us smod 1000000 = ?us"
    by (rule sdiv_mult_smod_eq)
  moreover have "0 \<le> ?us sdiv 1000000" "0 \<le> ?us smod 1000000" "?us smod 1000000 < 1000000"
    by (simp_all add: signed_divide_int_def signed_modulo_int_def sgn_if)
  moreover have "?us \<le> max 0 (int (time_us (expiry m a)) - int (time_us ?now))" if "a \<in> set as" for a
  proof -
    have "expiry m t \<le> expiry m a"
      using assms(1) Cons that by (auto simp: tmr_inv_def)
    then have "time_us (expiry m t) \<le> time_us (expiry m a)"
      using time_us_less_iff [of "expiry m a" "expiry m t"] assms(3) Cons that by (auto simp: not_less [symmetric])
    then show ?thesis by simp
  qed
  ultimately show ?thesis
    using Cons by auto
qed

theorem tmr_timeout_earliest_witness:
  "\<exists>s u. tmr_timeout (Some \<lparr>secs = 8, usecs = 6\<rparr>) \<lparr>secs = 0, usecs = 0\<rparr> (one_timer 0) = Some (Some (s, u))
      \<and> s * 1000000 + u = 1999999"
  using tmr_timeout_earliest [OF one_timer_inv [of 0], of "Some \<lparr>secs = 8, usecs = 6\<rparr>" "\<lparr>secs = 0, usecs = 0\<rparr>"]
  by (auto simp: getnow_def one_timer_def expiry_def valid_time_def time_us_def)

end
