(* ===== verification/CString.thy ===== *)
theory CString
  imports Prelude "HOL-Library.Signed_Division"
begin

text \<open>
  The part of the C string library that the sources use, on NUL-free character lists:
  character classes, decimal output as printed by \<open>%d\<close>, \<open>strcasecmp\<close>, \<open>strtol\<close> and \<open>atoi\<close>, and
  the truncation of \<open>snprintf\<close> and \<open>strncat\<close>. A \<open>long\<close> has 32 bits, as with the Microsoft
  compiler; a number out of its range saturates.
\<close>

section \<open>Characters\<close>

definition char_code :: "char \<Rightarrow> nat" where
  "char_code c = of_char c"

definition is_space :: "char \<Rightarrow> bool" where
  "is_space c \<longleftrightarrow> char_code c = 32 \<or> (9 \<le> char_code c \<and> char_code c \<le> 13)"

definition is_digit :: "char \<Rightarrow> bool" where
  "is_digit c \<longleftrightarrow> 48 \<le> char_code c \<and> char_code c \<le> 57"

definition is_upper :: "char \<Rightarrow> bool" where
  "is_upper c \<longleftrightarrow> 65 \<le> char_code c \<and> char_code c \<le> 90"

definition is_lower :: "char \<Rightarrow> bool" where
  "is_lower c \<longleftrightarrow> 97 \<le> char_code c \<and> char_code c \<le> 122"

definition to_lower :: "char \<Rightarrow> char" where
  "to_lower c = (if is_upper c then char_of (char_code c + 32) else c)"

definition to_upper :: "char \<Rightarrow> char" where
  "to_upper c = (if is_lower c then char_of (char_code c - 32) else c)"

definition strcaseeq :: "string \<Rightarrow> string \<Rightarrow> bool" where
  "strcaseeq s t \<longleftrightarrow> map to_lower s = map to_lower t"

definition digit :: "nat \<Rightarrow> char" where
  "digit d = char_of (48 + d)"

definition digit_value :: "char \<Rightarrow> nat" where
  "digit_value c = (if is_digit c then char_code c - 48
     else if is_upper c then char_code c - 55
     else if is_lower c then char_code c - 87 else 99)"

lemma strcaseeq_refl [simp]: "strcaseeq s s"
  by (simp add: strcaseeq_def)

lemma char_code_of [simp]: "n < 256 \<Longrightarrow> char_code (char_of n) = n"
  by (simp add: char_code_def)

lemma digit_props [simp]:
  assumes "d < 10"
  shows "is_digit (digit d)" and "digit_value (digit d) = d" and "\<not> is_space (digit d)"
    and "digit d \<noteq> CHR ''-''" and "digit d \<noteq> CHR ''+''"
  using assms by (auto simp: is_digit_def digit_def digit_value_def is_space_def
      dest: arg_cong [where f = char_code] simp: char_code_def)

section \<open>Decimal output\<close>

fun show_nat :: "nat \<Rightarrow> string" where
  "show_nat n = (if n < 10 then [digit n] else show_nat (n div 10) @ [digit (n mod 10)])"

declare show_nat.simps [simp del]

definition show_int :: "int \<Rightarrow> string" where
  "show_int i = (if i < 0 then CHR ''-'' # show_nat (nat (- i)) else show_nat (nat i))"

section \<open>Reading numbers\<close>

fun split_while :: "('a \<Rightarrow> bool) \<Rightarrow> 'a list \<Rightarrow> 'a list \<times> 'a list" where
  "split_while P [] = ([], [])"
| "split_while P (x # xs) = (if P x then let (ys, zs) = split_while P xs in (x # ys, zs) else ([], x # xs))"

definition digits_value :: "nat \<Rightarrow> string \<Rightarrow> nat" where
  "digits_value base ds = foldl (\<lambda>a c. base * a + digit_value c) 0 ds"

definition LONG_MAX :: int where "LONG_MAX = 2147483647"
definition LONG_MIN :: int where "LONG_MIN = - 2147483648"

definition clamp_long :: "int \<Rightarrow> int" where
  "clamp_long v = max LONG_MIN (min LONG_MAX v)"

definition scan_sign :: "string \<Rightarrow> bool \<times> string" where
  "scan_sign s = (case s of [] \<Rightarrow> (False, [])
     | c # r \<Rightarrow> if c = CHR ''-'' then (True, r) else if c = CHR ''+'' then (False, r) else (False, s))"

text \<open>
  The digits of a number in base 10 or, with base 0, in the base its prefix names. The prefix
  \<open>0x\<close> counts only when a hexadecimal digit follows it.
\<close>

definition is_xdigit :: "char \<Rightarrow> bool" where
  "is_xdigit c \<longleftrightarrow> digit_value c < 16"

definition scan_base :: "nat \<Rightarrow> string \<Rightarrow> nat \<times> string" where
  "scan_base b s =
     (if b \<noteq> 0 then (b, s)
      else case s of
        z # x # d # r \<Rightarrow> if z = CHR ''0'' \<and> to_lower x = CHR ''x'' \<and> is_xdigit d then (16, d # r)
                         else if z = CHR ''0'' then (8, s) else (10, s)
      | z # r \<Rightarrow> if z = CHR ''0'' then (8, s) else (10, s)
      | [] \<Rightarrow> (10, s))"

text \<open>\<open>strtol\<close> returns the value and the text after it: the whole text when there is no number.\<close>

definition strtol :: "nat \<Rightarrow> string \<Rightarrow> int \<times> string" where
  "strtol b s =
     (let (neg, s1) = scan_sign (snd (split_while is_space s));
          (base, s2) = scan_base b s1;
          (ds, rest) = split_while (\<lambda>c. digit_value c < base) s2;
          v = int (digits_value base ds)
      in if ds = [] then (0, s) else (clamp_long (if neg then - v else v), rest))"

definition atoi :: "string \<Rightarrow> int" where
  "atoi s = fst (strtol 10 s)"

section \<open>Bounded buffers\<close>

definition snprintf :: "nat \<Rightarrow> string \<Rightarrow> string" where
  "snprintf len s = take (len - 1) s"

definition strncat :: "string \<Rightarrow> string \<Rightarrow> nat \<Rightarrow> string" where
  "strncat dst src n = dst @ take n src"

lemma snprintf_fits: "0 < len \<Longrightarrow> length (snprintf len s) < len"
  by (simp add: snprintf_def)

lemma strncat_fits: "length dst < len \<Longrightarrow> length (strncat dst src (len - length dst - 1)) < len"
  by (simp add: strncat_def)

section \<open>Reading what was printed\<close>

lemma split_while_append:
  assumes "\<forall>x\<in>set xs. P x" and "\<And>y zs. ys = y # zs \<Longrightarrow> \<not> P y"
  shows "split_while P (xs @ ys) = (xs, ys)"
  using assms by (induction xs) (auto simp: neq_Nil_conv elim: list.set_cases intro: list.exhaust [of ys])

lemma show_nat_digits: "\<forall>c\<in>set (show_nat n). is_digit c"
  by (induction n rule: show_nat.induct) (subst show_nat.simps, auto)

lemma show_nat_nonempty [simp]: "show_nat n \<noteq> []"
  by (subst show_nat.simps) simp

lemma digits_value_show_nat [simp]: "digits_value 10 (show_nat n) = n"
proof (induction n rule: show_nat.induct)
  case (1 n)
  then show ?case
    by (subst show_nat.simps) (auto simp: digits_value_def)
qed

lemma show_nat_neq_minus:
  assumes "show_nat n = c # r"
  shows "is_digit c"
  using assms show_nat_digits [of n] by simp

lemma is_digit_cases:
  assumes "is_digit c"
  shows "c \<noteq> CHR ''-''" and "c \<noteq> CHR ''+''" and "\<not> is_space c" and "digit_value c < 10"
  using assms by (auto simp: is_digit_def is_space_def char_code_def digit_value_def)

lemma strtol_show_int:
  assumes "LONG_MIN \<le> i" and "i \<le> LONG_MAX"
    and "\<And>c r. rest = c # r \<Longrightarrow> \<not> digit_value c < 10"
  shows "strtol 10 (show_int i @ rest) = (i, rest)"
proof -
  have digits: "split_while (\<lambda>c. digit_value c < 10) (show_nat n @ rest) = (show_nat n, rest)" for n
    using show_nat_digits [of n] assms(3) by (intro split_while_append) (auto dest: is_digit_cases)
  obtain c r where n: "show_nat (nat \<bar>i\<bar>) = c # r" and "is_digit c"
    using show_nat_nonempty [of "nat \<bar>i\<bar>"] show_nat_neq_minus by (metis neq_Nil_conv)
  then show ?thesis
    using assms(1,2) digits [of "nat \<bar>i\<bar>"] digits_value_show_nat [of "nat \<bar>i\<bar>"] is_digit_cases [of c]
    by (cases "i < 0")
      (auto simp: strtol_def show_int_def scan_sign_def scan_base_def clamp_long_def Let_def
        is_space_def char_code_def)
qed

lemma atoi_show_int: "LONG_MIN \<le> i \<Longrightarrow> i \<le> LONG_MAX \<Longrightarrow> atoi (show_int i) = i"
  using strtol_show_int [of i "[]"] by (simp add: atoi_def)

end
