(* ===== verification/Dscp.thy ===== *)
theory Dscp
  imports CString
begin

text \<open>
  The lookup of IP type-of-service values of \<open>dscp.c\<close>: the table of names, \<open>parse_qos\<close>, which
  reads a name or a DSCP number, and \<open>iptos2str\<close>, which prints a value. Arguments that may be
  \<open>NULL\<close> are options.
\<close>

definition ipqos :: "(string \<times> int) list" where
  "ipqos =
     [(''af11'', 0x28), (''af12'', 0x30), (''af13'', 0x38), (''af21'', 0x48), (''af22'', 0x50),
      (''af23'', 0x58), (''af31'', 0x68), (''af32'', 0x70), (''af33'', 0x78), (''af41'', 0x88),
      (''af42'', 0x90), (''af43'', 0x98), (''cs0'', 0x00), (''cs1'', 0x20), (''cs2'', 0x40),
      (''cs3'', 0x60), (''cs4'', 0x80), (''cs5'', 0xa0), (''cs6'', 0xc0), (''cs7'', 0xe0),
      (''ef'', 0xb8), (''va'', 0xb0), (''lowdelay'', 0x10), (''throughput'', 0x08),
      (''reliability'', 0x04)]"

definition parse_qos :: "string option \<Rightarrow> int" where
  "parse_qos cp =
     (case cp of
        None \<Rightarrow> - 1
      | Some s \<Rightarrow>
          (case find (\<lambda>(name, _). strcaseeq s name) ipqos of
             Some (_, value) \<Rightarrow> value
           | None \<Rightarrow>
               let (val, ep) = strtol 0 s
               in if s = [] \<or> ep \<noteq> [] \<or> val < 0 \<or> val > 63 then - 1 else val * 4))"

definition hex_digit :: "nat \<Rightarrow> char" where
  "hex_digit d = (if d < 10 then digit d else char_of (87 + d))"

definition iptos2str :: "int \<Rightarrow> string" where
  "iptos2str iptos =
     (let iptos = (if iptos < 0 \<or> iptos > 64 then 0 else iptos)
      in case find (\<lambda>(_, value). value = iptos) ipqos of
           Some (name, _) \<Rightarrow> name
         | None \<Rightarrow> ''0x'' @ [hex_digit (nat iptos div 16), hex_digit (nat iptos mod 16)])"

lemma ipqos_values: "(name, v) \<in> set ipqos \<Longrightarrow> 0 \<le> v \<and> v \<le> 0xe0 \<and> v mod 4 = 0"
  unfolding ipqos_def by auto

lemma parse_qos_name:
  assumes "i < length ipqos"
  shows "find (\<lambda>(name, _). strcaseeq (fst (ipqos ! i)) name) ipqos = Some (ipqos ! i)"
proof -
  have "list_all (\<lambda>i. find (\<lambda>(name, _). strcaseeq (fst (ipqos ! i)) name) ipqos = Some (ipqos ! i))
      [0..<length ipqos]"
    by code_simp
  then show ?thesis using assms by (simp add: list_all_iff)
qed

lemma find_number: "find (\<lambda>(name, _). strcaseeq (show_nat n) name) ipqos = None"
proof -
  have letters: "\<forall>(name, _)\<in>set ipqos. name \<noteq> [] \<and> \<not> is_digit (to_lower (hd name))"
    by code_simp
  obtain d r where d: "show_nat n = d # r" and "is_digit d"
    using show_nat_nonempty [of n] show_nat_neq_minus by (metis neq_Nil_conv)
  then have "to_lower d = d"
    by (auto simp: to_lower_def is_upper_def is_digit_def)
  with letters d \<open>is_digit d\<close> show ?thesis
    by (auto simp: find_None_iff strcaseeq_def neq_Nil_conv)
qed

lemma strtol_number:
  assumes "n < 64"
  shows "strtol 0 (show_nat n) = (int n, [])"
proof -
  have dig: "split_while (\<lambda>c. digit_value c < 10) (show_nat n) = (show_nat n, [])"
    using split_while_append [of "show_nat n" "\<lambda>c. digit_value c < 10" "[]"] show_nat_digits [of n]
    by (auto dest: is_digit_cases)
  obtain d r where d: "show_nat n = d # r" "is_digit d"
    using show_nat_nonempty [of n] show_nat_neq_minus by (metis neq_Nil_conv)
  have lead: "scan_sign (snd (split_while is_space (show_nat n))) = (False, show_nat n)"
    using d is_digit_cases [of d] by (simp add: scan_sign_def)
  show ?thesis
  proof (cases "n = 0")
    case True
    then show ?thesis by (simp only:) code_simp
  next
    case False
    have "hd (show_nat n) = digit (if n < 10 then n else n div 10)"
      using assms by (subst show_nat.simps, subst show_nat.simps) auto
    then have "d \<noteq> CHR ''0''"
      using d False assms by (auto dest!: arg_cong [where f = char_code] simp: digit_def char_code_def split: if_splits)
    then have "scan_base 0 (show_nat n) = (10, show_nat n)"
      using d by (auto simp: scan_base_def split: list.splits)
    then show ?thesis
      using lead dig assms by (simp add: strtol_def clamp_long_def LONG_MAX_def LONG_MIN_def)
  qed
qed

text \<open>
  whatever its argument, \<open>parse_qos\<close> returns \<open>-1\<close> or a value that fits the six DSCP bits of the
  type-of-service byte: between 0 and 252 and a multiple of 4.
\<close>

lemma parse_qos_range: "parse_qos cp = - 1 \<or> (0 \<le> parse_qos cp \<and> parse_qos cp \<le> 252 \<and> parse_qos cp mod 4 = 0)"
proof (cases "parse_qos cp = - 1")
  case False
  then obtain s where s: "cp = Some s" by (cases cp) (auto simp: parse_qos_def)
  show ?thesis
  proof (cases "find (\<lambda>(name, _). strcaseeq s name) ipqos")
    case None
    then show ?thesis
      using False by (auto simp: s parse_qos_def Let_def split: prod.splits if_splits)
  next
    case (Some p)
    then have "p \<in> set ipqos"
      by (metis find_Some_iff nth_mem)
    then show ?thesis
      using Some ipqos_values [of "fst p" "snd p"] by (auto simp: s parse_qos_def split: prod.splits)
  qed
qed simp

text \<open>
  every name of the table is read in any mix of cases as its value, and every DSCP number from
  0 to 63 printed in decimal is read as that number shifted by two bits.
\<close>

lemma parse_qos_reads_names:
  "(\<forall>(name, value)\<in>set ipqos. \<forall>s. strcaseeq s name \<longrightarrow> parse_qos (Some s) = value)
   \<and> (\<forall>n<64. parse_qos (Some (show_nat n)) = 4 * int n)"
proof (intro conjI ballI allI impI)
  fix p :: "string \<times> int"
  assume "p \<in> set ipqos"
  then obtain i where i: "i < length ipqos" "p = ipqos ! i"
    by (auto simp: in_set_conv_nth)
  have "parse_qos (Some s) = snd p" if "strcaseeq s (fst p)" for s
  proof -
    have "strcaseeq s = strcaseeq (fst p)"
      using that by (auto simp: strcaseeq_def fun_eq_iff)
    then show ?thesis
      using parse_qos_name [OF i(1)] i(2) by (simp add: parse_qos_def case_prod_beta)
  qed
  then show "case p of (name, value) \<Rightarrow> \<forall>s. strcaseeq s name \<longrightarrow> parse_qos (Some s) = value"
    by (cases p) simp
next
  show "parse_qos (Some (show_nat n)) = 4 * int n" if "n < 64" for n
    using that find_number [of n] strtol_number [of n] by (simp add: parse_qos_def)
qed

theorem parse_qos_reads_names_witness:
  "parse_qos (Some ''Ef'') = 0xb8 \<and> parse_qos (Some (show_nat 46)) = 184"
proof -
  have "(''ef'', 0xb8) \<in> set ipqos" by (simp add: ipqos_def)
  moreover have "strcaseeq ''Ef'' ''ef''" by code_simp
  ultimately show ?thesis using parse_qos_reads_names by fastforce
qed



end
