(* ===== verification/Getopt.thy ===== *)
theory Getopt
  imports CString
begin

text \<open>
  The option scanner \<open>windows/compat/src/getopt_long.c\<close>. Its global variables form a record; the
  static pointer \<open>next_short\<close> is the rest of the word it points into, \<open>None\<close> when it is \<open>NULL\<close>.
  The long index it reports is part of the result.
\<close>

section \<open>The scanner\<close>

datatype has_arg = No_argument | Required_argument | Optional_argument

record longopt =
  lo_name :: string
  lo_has_arg :: has_arg
  lo_flag :: "nat option"
  lo_val :: int

record getopt_state =
  optarg :: "string option"
  optind :: nat
  optopt :: int
  next_short :: "string option"
  flags :: "nat \<Rightarrow> int"

definition getopt_init :: getopt_state where
  "getopt_init = \<lparr>optarg = None, optind = 1, optopt = 0, next_short = None, flags = (\<lambda>_. 0)\<rparr>"

abbreviation QUESTION :: int where "QUESTION \<equiv> 63"

definition strchr :: "string \<Rightarrow> char \<Rightarrow> string option" where
  "strchr s c = (case dropWhile (\<lambda>d. d \<noteq> c) s of [] \<Rightarrow> None | p \<Rightarrow> Some p)"

text \<open>Whether the option takes an argument, and whether that is optional.\<close>

definition opt_requires_arg :: "string \<Rightarrow> char \<Rightarrow> bool \<times> bool" where
  "opt_requires_arg optstring opt =
     (case strchr optstring opt of
        None \<Rightarrow> (False, False)
      | Some p \<Rightarrow>
          (case tl p of
             a # r \<Rightarrow> if a = CHR '':'' then (True, r \<noteq> [] \<and> hd r = CHR '':'') else (False, False)
           | [] \<Rightarrow> (False, False)))"

fun find_long :: "longopt list \<Rightarrow> string \<Rightarrow> nat \<Rightarrow> (nat \<times> longopt) option" where
  "find_long [] name i = None"
| "find_long (l # ls) name i = (if lo_name l = name then Some (i, l) else find_long ls name (i + 1))"

definition advance :: "(getopt_state, unit) state" where
  "advance = update_state (optind_update Suc)"

definition set_optarg :: "string option \<Rightarrow> (getopt_state, unit) state" where
  "set_optarg a = update_state (optarg_update (\<lambda>_. a))"

definition set_optopt :: "int \<Rightarrow> (getopt_state, unit) state" where
  "set_optopt v = update_state (optopt_update (\<lambda>_. v))"

definition set_next :: "string option \<Rightarrow> (getopt_state, unit) state" where
  "set_next n = update_state (next_short_update (\<lambda>_. n))"

text \<open>
  The argument of a long option that was found: \<open>False\<close> when a required one is missing.
\<close>

definition long_arg :: "string list \<Rightarrow> longopt \<Rightarrow> string option \<Rightarrow> (getopt_state, bool) state" where
  "long_arg argv l value =
     (case lo_has_arg l of
        Required_argument \<Rightarrow>
          (case value of
             Some v \<Rightarrow> do { _ \<leftarrow> set_optarg (Some v); State_Monad.return True }
           | None \<Rightarrow> do {
               i \<leftarrow> reads optind;
               if i + 1 < length argv then do {
                 _ \<leftarrow> advance;
                 _ \<leftarrow> set_optarg (Some (argv ! (i + 1)));
                 State_Monad.return True }
               else do { _ \<leftarrow> set_optopt (lo_val l); State_Monad.return False } })
      | Optional_argument \<Rightarrow> do { _ \<leftarrow> set_optarg value; State_Monad.return True }
      | No_argument \<Rightarrow> do { _ \<leftarrow> set_optarg None; State_Monad.return True })"

definition handle_long ::
  "string list \<Rightarrow> string \<Rightarrow> longopt list \<Rightarrow> (getopt_state, int \<times> nat option) state" where
  "handle_long argv arg longopts =
     (let (name, rest) = split_while (\<lambda>c. c \<noteq> CHR ''='') (drop 2 arg);
          value = (case rest of [] \<Rightarrow> None | _ # v \<Rightarrow> Some v)
      in case find_long longopts name 0 of
           None \<Rightarrow> do { _ \<leftarrow> advance; State_Monad.return (QUESTION, None) }
         | Some (i, l) \<Rightarrow> do {
             ok \<leftarrow> long_arg argv l value;
             if \<not> ok then State_Monad.return (QUESTION, Some i)
             else do {
               _ \<leftarrow> advance;
               case lo_flag l of
                 Some p \<Rightarrow> do {
                   _ \<leftarrow> update_state (flags_update (\<lambda>f. f(p := lo_val l)));
                   State_Monad.return (0, Some i) }
               | None \<Rightarrow> State_Monad.return (lo_val l, Some i) } })"

text \<open>One short option \<open>opt\<close>, with \<open>rest\<close> the characters after it in its word.\<close>

definition short_option :: "string list \<Rightarrow> string \<Rightarrow> char \<Rightarrow> string \<Rightarrow> (getopt_state, int) state" where
  "short_option argv optstring opt rest = do {
     _ \<leftarrow> set_next (Some rest);
     let (needs_arg, optional_arg) = opt_requires_arg optstring opt;
     i \<leftarrow> reads optind;
     if strchr optstring opt = None then do {
       _ \<leftarrow> set_optopt (int (char_code opt));
       _ \<leftarrow> (if rest = [] then advance else State_Monad.return ());
       State_Monad.return QUESTION }
     else if needs_arg then
       (if rest \<noteq> [] then do {
          _ \<leftarrow> set_optarg (Some rest);
          _ \<leftarrow> advance;
          _ \<leftarrow> set_next None;
          State_Monad.return (int (char_code opt)) }
        else if \<not> optional_arg \<and> i + 1 < length argv then do {
          _ \<leftarrow> advance;
          _ \<leftarrow> set_optarg (Some (argv ! (i + 1)));
          _ \<leftarrow> advance;
          _ \<leftarrow> set_next None;
          State_Monad.return (int (char_code opt)) }
        else if \<not> optional_arg then do {
          _ \<leftarrow> set_optopt (int (char_code opt));
          _ \<leftarrow> advance;
          _ \<leftarrow> set_next None;
          State_Monad.return QUESTION }
        else do {
          _ \<leftarrow> set_optarg None;
          _ \<leftarrow> advance;
          _ \<leftarrow> set_next None;
          State_Monad.return (int (char_code opt)) })
     else do {
       _ \<leftarrow> (if rest = [] then do { _ \<leftarrow> advance; set_next None } else State_Monad.return ());
       State_Monad.return (int (char_code opt)) } }"

definition getopt_long ::
  "string list \<Rightarrow> string \<Rightarrow> longopt list \<Rightarrow> (getopt_state, int \<times> nat option) state" where
  "getopt_long argv optstring longopts = do {
     _ \<leftarrow> set_optarg None;
     _ \<leftarrow> update_state (\<lambda>s. if optind s = 0 then s\<lparr>optind := 1, next_short := None\<rparr> else s);
     i \<leftarrow> reads optind;
     n \<leftarrow> reads next_short;
     case n of
       Some (opt # rest) \<Rightarrow> do { r \<leftarrow> short_option argv optstring opt rest; State_Monad.return (r, None) }
     | _ \<Rightarrow>
         if i \<ge> length argv then State_Monad.return (- 1, None)
         else (case argv ! i of
           d # opt # rest \<Rightarrow>
             if d \<noteq> CHR ''-'' then State_Monad.return (- 1, None)
             else if opt = CHR ''-'' \<and> rest = [] then do { _ \<leftarrow> advance; State_Monad.return (- 1, None) }
             else if opt = CHR ''-'' then handle_long argv (argv ! i) longopts
             else do { r \<leftarrow> short_option argv optstring opt rest; State_Monad.return (r, None) }
         | _ \<Rightarrow> State_Monad.return (- 1, None)) }"

section \<open>Scanning a whole command line\<close>

text \<open>
  The loop \<open>while ((flag = getopt_long (...)) != -1)\<close> of the callers, collecting each option
  with its argument; \<open>None\<close> means that the fuel ran out.
\<close>

fun getopt_all :: "nat \<Rightarrow> string list \<Rightarrow> string \<Rightarrow> longopt list \<Rightarrow> getopt_state \<Rightarrow> (int \<times> string option) list option" where
  "getopt_all 0 argv optstring longopts s = None"
| "getopt_all (Suc n) argv optstring longopts s =
     (let ((flag, _), s') = run_state (getopt_long argv optstring longopts) s
      in if flag = - 1 then Some []
         else map_option (Cons (flag, optarg s')) (getopt_all n argv optstring longopts s'))"

text \<open>The ways to write one option, and what reading it must give.\<close>

datatype written = Short char | Short_joined char string | Short_apart char string
  | Long string | Long_joined string string | Long_apart string string

fun write_option :: "written \<Rightarrow> string list" where
  "write_option (Short c) = [[CHR ''-'', c]]"
| "write_option (Short_joined c a) = [CHR ''-'' # c # a]"
| "write_option (Short_apart c a) = [[CHR ''-'', c], a]"
| "write_option (Long n) = [''--'' @ n]"
| "write_option (Long_joined n a) = [''--'' @ n @ CHR ''='' # a]"
| "write_option (Long_apart n a) = [''--'' @ n, a]"

definition long_ok :: "longopt list \<Rightarrow> string \<Rightarrow> has_arg \<Rightarrow> bool" where
  "long_ok longopts n h \<longleftrightarrow> n \<noteq> [] \<and> CHR ''='' \<notin> set n
     \<and> (\<exists>i l. find_long longopts n 0 = Some (i, l) \<and> lo_has_arg l = h \<and> lo_flag l = None \<and> lo_val l \<noteq> - 1)"

definition short_ok :: "string \<Rightarrow> char \<Rightarrow> bool \<Rightarrow> bool" where
  "short_ok optstring c arg \<longleftrightarrow> c \<noteq> CHR ''-'' \<and> strchr optstring c \<noteq> None \<and> opt_requires_arg optstring c = (arg, False)"

fun written_ok :: "string \<Rightarrow> longopt list \<Rightarrow> written \<Rightarrow> bool" where
  "written_ok os ls (Short c) = short_ok os c False"
| "written_ok os ls (Short_joined c a) = (short_ok os c True \<and> a \<noteq> [])"
| "written_ok os ls (Short_apart c a) = short_ok os c True"
| "written_ok os ls (Long n) = long_ok ls n No_argument"
| "written_ok os ls (Long_joined n a) = long_ok ls n Required_argument"
| "written_ok os ls (Long_apart n a) = long_ok ls n Required_argument"

fun meaning :: "longopt list \<Rightarrow> written \<Rightarrow> int \<times> string option" where
  "meaning ls (Short c) = (int (char_code c), None)"
| "meaning ls (Short_joined c a) = (int (char_code c), Some a)"
| "meaning ls (Short_apart c a) = (int (char_code c), Some a)"
| "meaning ls (Long n) = (lo_val (snd (the (find_long ls n 0))), None)"
| "meaning ls (Long_joined n a) = (lo_val (snd (the (find_long ls n 0))), Some a)"
| "meaning ls (Long_apart n a) = (lo_val (snd (the (find_long ls n 0))), Some a)"

lemmas getopt_defs = getopt_long_def short_option_def handle_long_def long_arg_def advance_def
  set_optarg_def set_optopt_def set_next_def

text \<open>One call reads one written option and stands behind it.\<close>

lemma getopt_long_reads_one:
  assumes "written_ok optstring longopts w" and "next_short s = None" and "optind s = length pre" and "pre \<noteq> []"
  shows "\<exists>i s'. run_state (getopt_long (pre @ write_option w @ post) optstring longopts) s
      = ((fst (meaning longopts w), i), s')
    \<and> optarg s' = snd (meaning longopts w) \<and> next_short s' = None
    \<and> optind s' = length (pre @ write_option w) \<and> fst (meaning longopts w) \<noteq> - 1"
proof -
  have eq: "split_while (\<lambda>c. c \<noteq> CHR ''='') (n @ r) = (n, r)" if "CHR ''='' \<notin> set n" "r = [] \<or> hd r = CHR ''=''" for n r
    using that by (intro split_while_append) auto
  show ?thesis
  proof (cases w)
    case (Long n)
    then show ?thesis using assms eq [of n "[]"]
      by (cases n) (auto simp: getopt_defs long_ok_def nth_append)
  next
    case (Long_joined n a)
    then show ?thesis using assms eq [of n "CHR ''='' # a"]
      by (cases n) (auto simp: getopt_defs long_ok_def nth_append)
  next
    case (Long_apart n a)
    then show ?thesis using assms eq [of n "[]"]
      by (cases n) (auto simp: getopt_defs long_ok_def nth_append)
  qed (use assms in \<open>auto simp: getopt_defs short_ok_def nth_append\<close>)
qed

lemma getopt_long_stops:
  assumes "next_short s = None" and "optind s = length pre" and "pre \<noteq> []"
    and "rest = [] \<or> take 1 (hd rest) \<noteq> ''-''"
  shows "fst (fst (run_state (getopt_long (pre @ rest) optstring longopts) s)) = - 1"
proof (cases rest)
  case (Cons r rs)
  then show ?thesis using assms by (cases r; cases "tl r") (auto simp: getopt_defs nth_append)
qed (use assms in \<open>simp add: getopt_defs\<close>)

lemma getopt_all_reads:
  assumes "\<forall>w\<in>set ws. written_ok optstring longopts w" and "rest = [] \<or> take 1 (hd rest) \<noteq> ''-''"
    and "next_short s = None" and "optind s = length pre" and "pre \<noteq> []" and "length ws < fuel"
  shows "getopt_all fuel (pre @ concat (map write_option ws) @ rest) optstring longopts s
    = Some (map (meaning longopts) ws)"
  using assms
proof (induction ws arbitrary: pre s fuel)
  case Nil
  then obtain n where "fuel = Suc n" by (cases fuel) auto
  then show ?case
    using getopt_long_stops [of s pre rest optstring longopts] Nil by (auto split: prod.splits)
next
  case (Cons w ws)
  then obtain n where n: "fuel = Suc n" "length ws < n" by (cases fuel) auto
  obtain i s' where s': "run_state (getopt_long (pre @ write_option w @ concat (map write_option ws) @ rest) optstring longopts) s
      = ((fst (meaning longopts w), i), s')" "optarg s' = snd (meaning longopts w)" "next_short s' = None"
      "optind s' = length (pre @ write_option w)" "fst (meaning longopts w) \<noteq> - 1"
    using getopt_long_reads_one [of optstring longopts w s pre "concat (map write_option ws) @ rest"] Cons.prems by auto
  moreover have "getopt_all n ((pre @ write_option w) @ concat (map write_option ws) @ rest) optstring longopts s'
      = Some (map (meaning longopts) ws)"
    using Cons.prems s'(3,4) n(2) by (intro Cons.IH) auto
  ultimately show ?case by (simp add: n(1))
qed

section \<open>Properties\<close>

text \<open>
  C27: reading a command line back gives what was written: for any sequence of options the tables
  allow, each written in any of the accepted forms (short, short with a joined or separate
  argument, long, long with \<open>=\<close> or a separate argument), followed by words that are no options,
  the scanning loop ends and reports exactly these options with their arguments, in order.
\<close>

theorem getopt_roundtrip:
  assumes "\<forall>w\<in>set ws. written_ok optstring longopts w" and "rest = [] \<or> take 1 (hd rest) \<noteq> ''-''"
    and "length ws < fuel"
  shows "getopt_all fuel (prog # concat (map write_option ws) @ rest) optstring longopts getopt_init
    = Some (map (meaning longopts) ws)"
  using getopt_all_reads [OF assms(1,2), of getopt_init "[prog]" fuel] assms(3) by (simp add: getopt_init_def)

theorem getopt_roundtrip_witness:
  "getopt_all 5 [''iperf3'', ''-s'', ''-p'', ''5201'', ''--format=m''] ''sp:f:''
     [\<lparr>lo_name = ''format'', lo_has_arg = Required_argument, lo_flag = None, lo_val = 102\<rparr>] getopt_init
   = Some [(115, None), (112, Some ''5201''), (102, Some ''m'')]"
  using getopt_roundtrip [of "[Short CHR ''s'', Short_apart CHR ''p'' ''5201'', Long_joined ''format'' ''m'']" "''sp:f:''"
      "[\<lparr>lo_name = ''format'', lo_has_arg = Required_argument, lo_flag = None, lo_val = 102\<rparr>]" "[]" 5 "''iperf3''"]
  by (simp add: short_ok_def long_ok_def opt_requires_arg_def strchr_def char_code_def)

text \<open>
  a long option whose required argument is missing at the end of the line is reported as an
  error, but the scanner does not move: every further call reports the same error, so a caller
  that skips errors never ends. (A short option in that place is passed over.)
\<close>

lemma getopt_long_missing_argument_stuck:
  assumes "long_ok longopts n Required_argument" and "next_short s = None" and "pre \<noteq> []"
    and "optind s = length pre"
  shows "\<exists>i v. run_state (getopt_long (pre @ [''--'' @ n]) optstring longopts) s
    = ((QUESTION, i), s\<lparr>optarg := None, optopt := v\<rparr>)"
proof -
  have "split_while (\<lambda>c. c \<noteq> CHR ''='') (n @ []) = (n, [])"
    using assms(1) by (intro split_while_append) (auto simp: long_ok_def)
  then show ?thesis
    using assms by (cases n) (auto simp: getopt_defs long_ok_def nth_append)
qed

theorem getopt_long_missing_argument_stuck_witness:
  "\<exists>i v. run_state (getopt_long ([''iperf3''] @ [''--'' @ ''port'']) ''sp:''
      [\<lparr>lo_name = ''port'', lo_has_arg = Required_argument, lo_flag = None, lo_val = 112\<rparr>]) getopt_init
    = ((QUESTION, i), getopt_init\<lparr>optarg := None, optopt := v\<rparr>)"
  using getopt_long_missing_argument_stuck [of
      "[\<lparr>lo_name = ''port'', lo_has_arg = Required_argument, lo_flag = None, lo_val = 112\<rparr>]" "''port''"
      getopt_init "[''iperf3'']"]
  by (simp add: long_ok_def getopt_init_def)

end
