(* ===== verification/Errors.thy ===== *)
theory Errors
  imports CString
begin

text \<open>
  The error reporting of iperf3: the error codes of \<open>iperf_api.h\<close>, the global error variables
  (\<open>i_errno\<close>, \<open>errarg\<close>, \<open>gerror\<close>, \<open>errno\<close>) as a record that every stateful component
  extends, and \<open>iperf_strerror\<close> of \<open>iperf_error.c\<close>. The texts of \<open>strerror\<close> and
  \<open>gai_strerror\<close> belong to the C library and are arguments.
\<close>

section \<open>Limits of iperf.h\<close>

abbreviation MB :: int where "MB \<equiv> 1024 * 1024"
abbreviation MAX_TCP_BUFFER :: int where "MAX_TCP_BUFFER \<equiv> 512 * MB"
abbreviation MAX_BLOCKSIZE :: int where "MAX_BLOCKSIZE \<equiv> MB"
abbreviation MIN_UDP_BLOCKSIZE :: int where "MIN_UDP_BLOCKSIZE \<equiv> 16"
abbreviation MAX_UDP_BLOCKSIZE :: int where "MAX_UDP_BLOCKSIZE \<equiv> 65507"
abbreviation MAX_TIME :: int where "MAX_TIME \<equiv> 86400"
abbreviation MAX_OMIT_TIME :: int where "MAX_OMIT_TIME \<equiv> 600"
abbreviation MAX_BURST :: int where "MAX_BURST \<equiv> 1000"
abbreviation MAX_MSS :: int where "MAX_MSS \<equiv> 32767"
abbreviation MAX_STREAMS :: int where "MAX_STREAMS \<equiv> 128"

section \<open>Error codes\<close>

abbreviation IENONE :: int where "IENONE \<equiv> 0"
abbreviation IESERVCLIENT :: int where "IESERVCLIENT \<equiv> 1"
abbreviation IENOROLE :: int where "IENOROLE \<equiv> 2"
abbreviation IESERVERONLY :: int where "IESERVERONLY \<equiv> 3"
abbreviation IECLIENTONLY :: int where "IECLIENTONLY \<equiv> 4"
abbreviation IEDURATION :: int where "IEDURATION \<equiv> 5"
abbreviation IENUMSTREAMS :: int where "IENUMSTREAMS \<equiv> 6"
abbreviation IEBLOCKSIZE :: int where "IEBLOCKSIZE \<equiv> 7"
abbreviation IEBUFSIZE :: int where "IEBUFSIZE \<equiv> 8"
abbreviation IEINTERVAL :: int where "IEINTERVAL \<equiv> 9"
abbreviation IEMSS :: int where "IEMSS \<equiv> 10"
abbreviation IENOSENDFILE :: int where "IENOSENDFILE \<equiv> 11"
abbreviation IEOMIT :: int where "IEOMIT \<equiv> 12"
abbreviation IEUNIMP :: int where "IEUNIMP \<equiv> 13"
abbreviation IEFILE :: int where "IEFILE \<equiv> 14"
abbreviation IEBURST :: int where "IEBURST \<equiv> 15"
abbreviation IEENDCONDITIONS :: int where "IEENDCONDITIONS \<equiv> 16"
abbreviation IELOGFILE :: int where "IELOGFILE \<equiv> 17"
abbreviation IENOSCTP :: int where "IENOSCTP \<equiv> 18"
abbreviation IEBIND :: int where "IEBIND \<equiv> 19"
abbreviation IEUDPBLOCKSIZE :: int where "IEUDPBLOCKSIZE \<equiv> 20"
abbreviation IEBADTOS :: int where "IEBADTOS \<equiv> 21"
abbreviation IESETCLIENTAUTH :: int where "IESETCLIENTAUTH \<equiv> 22"
abbreviation IESETSERVERAUTH :: int where "IESETSERVERAUTH \<equiv> 23"
abbreviation IEBADFORMAT :: int where "IEBADFORMAT \<equiv> 24"
abbreviation IEREVERSEBIDIR :: int where "IEREVERSEBIDIR \<equiv> 25"
abbreviation IEBADPORT :: int where "IEBADPORT \<equiv> 26"
abbreviation IETOTALRATE :: int where "IETOTALRATE \<equiv> 27"
abbreviation IETOTALINTERVAL :: int where "IETOTALINTERVAL \<equiv> 28"
abbreviation IESKEWTHRESHOLD :: int where "IESKEWTHRESHOLD \<equiv> 29"
abbreviation IEIDLETIMEOUT :: int where "IEIDLETIMEOUT \<equiv> 30"
abbreviation IERCVTIMEOUT :: int where "IERCVTIMEOUT \<equiv> 31"
abbreviation IERVRSONLYRCVTIMEOUT :: int where "IERVRSONLYRCVTIMEOUT \<equiv> 32"
abbreviation IESNDTIMEOUT :: int where "IESNDTIMEOUT \<equiv> 33"
abbreviation IEUDPFILETRANSFER :: int where "IEUDPFILETRANSFER \<equiv> 34"
abbreviation IESERVERAUTHUSERS :: int where "IESERVERAUTHUSERS \<equiv> 35"
abbreviation IECNTLKA :: int where "IECNTLKA \<equiv> 36"
abbreviation IEMAXSERVERTESTDURATIONEXCEEDED :: int where "IEMAXSERVERTESTDURATIONEXCEEDED \<equiv> 37"
abbreviation IEUNITVAL :: int where "IEUNITVAL \<equiv> 38"
abbreviation IENEWTEST :: int where "IENEWTEST \<equiv> 100"
abbreviation IEINITTEST :: int where "IEINITTEST \<equiv> 101"
abbreviation IELISTEN :: int where "IELISTEN \<equiv> 102"
abbreviation IECONNECT :: int where "IECONNECT \<equiv> 103"
abbreviation IEACCEPT :: int where "IEACCEPT \<equiv> 104"
abbreviation IESENDCOOKIE :: int where "IESENDCOOKIE \<equiv> 105"
abbreviation IERECVCOOKIE :: int where "IERECVCOOKIE \<equiv> 106"
abbreviation IECTRLWRITE :: int where "IECTRLWRITE \<equiv> 107"
abbreviation IECTRLREAD :: int where "IECTRLREAD \<equiv> 108"
abbreviation IECTRLCLOSE :: int where "IECTRLCLOSE \<equiv> 109"
abbreviation IEMESSAGE :: int where "IEMESSAGE \<equiv> 110"
abbreviation IESENDMESSAGE :: int where "IESENDMESSAGE \<equiv> 111"
abbreviation IERECVMESSAGE :: int where "IERECVMESSAGE \<equiv> 112"
abbreviation IESENDPARAMS :: int where "IESENDPARAMS \<equiv> 113"
abbreviation IERECVPARAMS :: int where "IERECVPARAMS \<equiv> 114"
abbreviation IEPACKAGERESULTS :: int where "IEPACKAGERESULTS \<equiv> 115"
abbreviation IESENDRESULTS :: int where "IESENDRESULTS \<equiv> 116"
abbreviation IERECVRESULTS :: int where "IERECVRESULTS \<equiv> 117"
abbreviation IESELECT :: int where "IESELECT \<equiv> 118"
abbreviation IECLIENTTERM :: int where "IECLIENTTERM \<equiv> 119"
abbreviation IESERVERTERM :: int where "IESERVERTERM \<equiv> 120"
abbreviation IEACCESSDENIED :: int where "IEACCESSDENIED \<equiv> 121"
abbreviation IESETNODELAY :: int where "IESETNODELAY \<equiv> 122"
abbreviation IESETMSS :: int where "IESETMSS \<equiv> 123"
abbreviation IESETBUF :: int where "IESETBUF \<equiv> 124"
abbreviation IESETTOS :: int where "IESETTOS \<equiv> 125"
abbreviation IESETCOS :: int where "IESETCOS \<equiv> 126"
abbreviation IESETFLOW :: int where "IESETFLOW \<equiv> 127"
abbreviation IEREUSEADDR :: int where "IEREUSEADDR \<equiv> 128"
abbreviation IENONBLOCKING :: int where "IENONBLOCKING \<equiv> 129"
abbreviation IESETWINDOWSIZE :: int where "IESETWINDOWSIZE \<equiv> 130"
abbreviation IEPROTOCOL :: int where "IEPROTOCOL \<equiv> 131"
abbreviation IEAFFINITY :: int where "IEAFFINITY \<equiv> 132"
abbreviation IEDAEMON :: int where "IEDAEMON \<equiv> 133"
abbreviation IESETCONGESTION :: int where "IESETCONGESTION \<equiv> 134"
abbreviation IEPIDFILE :: int where "IEPIDFILE \<equiv> 135"
abbreviation IEV6ONLY :: int where "IEV6ONLY \<equiv> 136"
abbreviation IESETSCTPDISABLEFRAG :: int where "IESETSCTPDISABLEFRAG \<equiv> 137"
abbreviation IESETSCTPNSTREAM :: int where "IESETSCTPNSTREAM \<equiv> 138"
abbreviation IESETSCTPBINDX :: int where "IESETSCTPBINDX \<equiv> 139"
abbreviation IESETPACING :: int where "IESETPACING \<equiv> 140"
abbreviation IESETBUF2 :: int where "IESETBUF2 \<equiv> 141"
abbreviation IEAUTHTEST :: int where "IEAUTHTEST \<equiv> 142"
abbreviation IEBINDDEV :: int where "IEBINDDEV \<equiv> 143"
abbreviation IENOMSG :: int where "IENOMSG \<equiv> 144"
abbreviation IESETDONTFRAGMENT :: int where "IESETDONTFRAGMENT \<equiv> 145"
abbreviation IEBINDDEVNOSUPPORT :: int where "IEBINDDEVNOSUPPORT \<equiv> 146"
abbreviation IEHOSTDEV :: int where "IEHOSTDEV \<equiv> 147"
abbreviation IESETUSERTIMEOUT :: int where "IESETUSERTIMEOUT \<equiv> 148"
abbreviation IEPTHREADCREATE :: int where "IEPTHREADCREATE \<equiv> 150"
abbreviation IEPTHREADCANCEL :: int where "IEPTHREADCANCEL \<equiv> 151"
abbreviation IEPTHREADJOIN :: int where "IEPTHREADJOIN \<equiv> 152"
abbreviation IEPTHREADATTRINIT :: int where "IEPTHREADATTRINIT \<equiv> 153"
abbreviation IEPTHREADATTRDESTROY :: int where "IEPTHREADATTRDESTROY \<equiv> 154"
abbreviation IESETCNTLKA :: int where "IESETCNTLKA \<equiv> 155"
abbreviation IESETCNTLKAKEEPIDLE :: int where "IESETCNTLKAKEEPIDLE \<equiv> 156"
abbreviation IESETCNTLKAINTERVAL :: int where "IESETCNTLKAINTERVAL \<equiv> 157"
abbreviation IESETCNTLKACOUNT :: int where "IESETCNTLKACOUNT \<equiv> 158"
abbreviation IEPTHREADSIGMASK :: int where "IEPTHREADSIGMASK \<equiv> 159"
abbreviation IESERVERTESTDURATIONEXPIRED :: int where "IESERVERTESTDURATIONEXPIRED \<equiv> 160"
abbreviation IECREATESTREAM :: int where "IECREATESTREAM \<equiv> 200"
abbreviation IEINITSTREAM :: int where "IEINITSTREAM \<equiv> 201"
abbreviation IESTREAMLISTEN :: int where "IESTREAMLISTEN \<equiv> 202"
abbreviation IESTREAMCONNECT :: int where "IESTREAMCONNECT \<equiv> 203"
abbreviation IESTREAMACCEPT :: int where "IESTREAMACCEPT \<equiv> 204"
abbreviation IESTREAMWRITE :: int where "IESTREAMWRITE \<equiv> 205"
abbreviation IESTREAMREAD :: int where "IESTREAMREAD \<equiv> 206"
abbreviation IESTREAMCLOSE :: int where "IESTREAMCLOSE \<equiv> 207"
abbreviation IESTREAMID :: int where "IESTREAMID \<equiv> 208"
abbreviation IENEWTIMER :: int where "IENEWTIMER \<equiv> 300"
abbreviation IEUPDATETIMER :: int where "IEUPDATETIMER \<equiv> 301"

section \<open>The error variables\<close>

record globals =
  i_errno :: int
  errarg :: string
  gerror :: int
  errno :: int

definition no_error :: globals where
  "no_error = \<lparr>i_errno = 0, errarg = [], gerror = 0, errno = 0\<rparr>"

definition set_i_errno :: "int \<Rightarrow> ('z globals_scheme, unit) state" where
  "set_i_errno e = update_state (i_errno_update (\<lambda>_. e))"

lemma run_set_i_errno [simp, exec_simps]: "run_state (set_i_errno e) s = ((), s\<lparr>i_errno := e\<rparr>)"
  by (simp add: set_i_errno_def)

section \<open>iperf_strerror\<close>

text \<open>
  The cases of the switch in order: the code, the text (\<open>arg\<close> is \<open>errarg\<close>) and the two flags
  \<open>perr\<close> and \<open>herr\<close>.
\<close>

definition strerror_cases1 :: "string \<Rightarrow> (int \<times> string \<times> bool \<times> bool) list" where
  "strerror_cases1 arg = [
     (IENONE, ''no error'', False, False),
     (IESERVCLIENT, ''cannot be both server and client'', False, False),
     (IENOROLE, ''must either be a client (-c) or server (-s)'', False, False),
     (IESERVERONLY, ''some option you are trying to set is server only'', False, False),
     (IECLIENTONLY, ''some option you are trying to set is client only'', False, False),
     (IEDURATION, ''test duration valid values are 0 to '' @ show_int MAX_TIME @ '' seconds'', False, False),
     (IENUMSTREAMS, ''number of parallel streams too large (maximum = '' @ show_int MAX_STREAMS @ '')'', False, False),
     (IEBLOCKSIZE, ''block size too large (maximum = '' @ show_int MAX_BLOCKSIZE @ '' bytes)'', False, False),
     (IEBUFSIZE, ''socket buffer size too large (maximum = '' @ show_int MAX_TCP_BUFFER @ '' bytes)'', False, False),
     (IEINTERVAL, ''invalid report interval (min = 0.1, max = 60 seconds)'', False, False),
     (IEBIND, ''--bind must be specified to use --cport'', False, False),
     (IEUDPBLOCKSIZE, ''block size invalid (minimum = '' @ show_int MIN_UDP_BLOCKSIZE @ '' bytes, maximum = '' @ show_int MAX_UDP_BLOCKSIZE @ '' bytes)'', False, False),
     (IEBADTOS, ''bad TOS value (must be between 0 and 255 inclusive)'', False, False),
     (IESETCLIENTAUTH, ''you must specify a username, password, and path to a valid RSA public key'', False, False),
     (IESETSERVERAUTH, ''you must specify a path to a valid RSA private key and a user credential file'', False, False),
     (IESERVERAUTHUSERS, ''cannot access authorized users file'', False, False),
     (IEBADFORMAT, ''bad format specifier (valid formats are in the set [kmgtKMGT])'', False, False),
     (IEBADPORT, ''port number must be between 1 and 65535 inclusive'', False, False),
     (IEMSS, ''TCP MSS too large (maximum = '' @ show_int MAX_MSS @ '' bytes)'', False, False),
     (IENOSENDFILE, ''this OS does not support sendfile'', False, False),
     (IEOMIT, ''bogus value for --omit (maximum = '' @ show_int MAX_OMIT_TIME @ '' seconds)'', False, False),
     (IEUNIMP, ''an option you are trying to set is not implemented yet'', False, False),
     (IEFILE, ''unable to open -F file'', True, False),
     (IEBURST, ''invalid burst count (maximum = '' @ show_int MAX_BURST @ '')'', False, False),
     (IEENDCONDITIONS, ''only one test end condition (-t, -n, -k) may be specified'', False, False),
     (IELOGFILE, ''unable to open log file'', True, False),
     (IENOSCTP, ''no SCTP support available'', False, False)]"

definition strerror_cases2 :: "string \<Rightarrow> (int \<times> string \<times> bool \<times> bool) list" where
  "strerror_cases2 arg = [
     (IENEWTEST, ''unable to create a new test'', True, False),
     (IEINITTEST, ''test initialization failed'', True, False),
     (IEAUTHTEST, ''test authorization failed'', False, False),
     (IELISTEN, ''unable to start listener for connections'', True, True),
     (IECONNECT, ''unable to connect to server - server may have stopped running or use a different port, firewall issue, etc.'', True, True),
     (IEACCEPT, ''unable to accept connection from client'', True, True),
     (IESENDCOOKIE, ''unable to send cookie to server'', True, False),
     (IERECVCOOKIE, ''unable to receive cookie at server'', True, False),
     (IECTRLWRITE, ''unable to write to the control socket'', True, False),
     (IECTRLREAD, ''unable to read from the control socket'', True, False),
     (IECTRLCLOSE, ''control socket has closed unexpectedly'', False, False),
     (IEMESSAGE, ''received an unknown control message (ensure other side is iperf3 and not iperf)'', False, False),
     (IESENDMESSAGE, ''unable to send control message - port may not be available, the other side may have stopped running, etc.'', True, False),
     (IERECVMESSAGE, ''unable to receive control message - port may not be available, the other side may have stopped running, etc.'', True, False),
     (IESENDPARAMS, ''unable to send parameters to server'', True, False),
     (IERECVPARAMS, ''unable to receive parameters from client'', True, False),
     (IEPACKAGERESULTS, ''unable to package results'', True, False),
     (IESENDRESULTS, ''unable to send results'', True, False),
     (IERECVRESULTS, ''unable to receive results'', True, False),
     (IESELECT, ''select failed'', True, False),
     (IECLIENTTERM, ''the client has terminated'', False, False),
     (IESERVERTERM, ''the server has terminated'', False, False),
     (IEACCESSDENIED, ''the server is busy running a test. try again later'', False, False),
     (IESETNODELAY, ''unable to set TCP/SCTP NODELAY'', True, False),
     (IESETMSS, ''unable to set TCP/SCTP MSS'', True, False),
     (IESETBUF, ''unable to set socket buffer size'', True, False),
     (IESETTOS, ''unable to set IP TOS'', True, False)]"

definition strerror_cases3 :: "string \<Rightarrow> (int \<times> string \<times> bool \<times> bool) list" where
  "strerror_cases3 arg = [
     (IESETCOS, ''unable to set IPv6 traffic class'', True, False),
     (IESETFLOW, ''unable to set IPv6 flow label'', False, False),
     (IEREUSEADDR, ''unable to reuse address on socket'', True, False),
     (IENONBLOCKING, ''unable to set socket to non-blocking'', True, False),
     (IESETWINDOWSIZE, ''unable to set socket window size'', True, False),
     (IEPROTOCOL, ''protocol does not exist'', False, False),
     (IEAFFINITY, ''unable to set CPU affinity'', True, False),
     (IERCVTIMEOUT, ''receive timeout value is incorrect or not in range'', True, False),
     (IESNDTIMEOUT, ''send timeout value is incorrect or not in range'', True, False),
     (IEUDPFILETRANSFER, ''cannot transfer file using UDP'', False, False),
     (IEUNITVAL, ''invalid unit value or suffix: '' @ [CHR 0x27] @ arg @ [CHR 0x27], False, False),
     (IERVRSONLYRCVTIMEOUT, ''client receive timeout is valid only in receiving mode'', True, False),
     (IEDAEMON, ''unable to become a daemon'', True, False),
     (IECREATESTREAM, ''unable to create a new stream'', True, True),
     (IEINITSTREAM, ''unable to initialize stream'', True, True),
     (IESTREAMLISTEN, ''unable to start stream listener'', True, True),
     (IESTREAMCONNECT, ''unable to connect stream'', True, True),
     (IESTREAMACCEPT, ''unable to accept stream connection'', True, False),
     (IESTREAMWRITE, ''unable to write to stream socket'', True, False),
     (IESTREAMREAD, ''unable to read from stream socket'', True, False),
     (IESTREAMCLOSE, ''stream socket has closed unexpectedly'', False, False),
     (IESTREAMID, ''stream has an invalid id'', False, False),
     (IENEWTIMER, ''unable to create new timer'', True, False),
     (IEUPDATETIMER, ''unable to update timer'', True, False),
     (IESETCONGESTION, ''unable to set TCP_CONGESTION: Supplied congestion control algorithm not supported on this host'', False, False),
     (IEPIDFILE, ''unable to write PID file'', True, False),
     (IEV6ONLY, ''Unable to set/reset IPV6_V6ONLY'', True, False)]"

definition strerror_cases4 :: "string \<Rightarrow> (int \<times> string \<times> bool \<times> bool) list" where
  "strerror_cases4 arg = [
     (IESETSCTPDISABLEFRAG, ''unable to set SCTP_DISABLE_FRAGMENTS'', True, False),
     (IESETSCTPNSTREAM, ''unable to set SCTP_INIT num of SCTP streams'' @ [CHR 0x0A], True, False),
     (IESETPACING, ''unable to set socket pacing'', True, False),
     (IESETBUF2, ''socket buffer size not set correctly'', False, False),
     (IEREVERSEBIDIR, ''cannot be both reverse and bidirectional'', False, False),
     (IETOTALRATE, ''total required bandwidth is larger than server limit'', False, False),
     (IETOTALINTERVAL, ''invalid time interval for calculating average data rate'', False, False),
     (IESKEWTHRESHOLD, ''skew threshold must be a positive number'', False, False),
     (IEIDLETIMEOUT, ''idle timeout parameter is not positive or larger than allowed limit'', False, False),
     (IEBINDDEV, ''Unable to bind-to-device (check perror, maybe permissions?)'', False, False),
     (IEBINDDEVNOSUPPORT, [CHR 0x60] @ ''<ip>%<dev>'' @ [CHR 0x60] @ '' is not supported as system does not support bind to device'', False, False),
     (IEHOSTDEV, ''host device name (ip%<dev>) is supported (and required) only for IPv6 link-local address'', False, False),
     (IENOMSG, ''idle timeout for receiving data'', False, False),
     (IESETDONTFRAGMENT, ''unable to set IP Do-Not-Fragment flag'', False, False),
     (IESETUSERTIMEOUT, ''unable to set TCP USER_TIMEOUT'', True, False),
     (IEPTHREADCREATE, ''unable to create thread'', True, False),
     (IEPTHREADCANCEL, ''unable to cancel thread'', True, False),
     (IEPTHREADJOIN, ''unable to join thread'', True, False),
     (IEPTHREADATTRINIT, ''unable to create thread attributes'', True, False),
     (IEPTHREADSIGMASK, ''unable to change mask of blocked signals'', False, False),
     (IEPTHREADATTRDESTROY, ''unable to destroy thread attributes'', False, False),
     (IECNTLKA, ''control connection Keepalive period should be larger than the full retry period (interval * count)'', True, False),
     (IESETCNTLKA, ''unable to set socket keepalive (SO_KEEPALIVE) option'', True, False),
     (IESETCNTLKAKEEPIDLE, ''unable to set socket keepalive TCP period (TCP_KEEPIDLE) option'', True, False),
     (IESETCNTLKAINTERVAL, ''unable to set/get socket keepalive TCP retry interval (TCP_KEEPINTVL) option'', True, False),
     (IESETCNTLKACOUNT, ''unable to set/get socket keepalive TCP number of retries (TCP_KEEPCNT) option'', True, False),
     (IEMAXSERVERTESTDURATIONEXCEEDED, ''client'' @ [CHR 0x27] @ ''s requested duration exceeds the server'' @ [CHR 0x27] @ ''s maximum permitted limit'', False, False),
     (IESERVERTESTDURATIONEXPIRED, ''server test duration expired'', True, False)]"

definition strerror_cases :: "string \<Rightarrow> (int \<times> string \<times> bool \<times> bool) list" where
  "strerror_cases arg = strerror_cases1 arg @ strerror_cases2 arg @ strerror_cases3 arg @ strerror_cases4 arg"

definition strerror_switch :: "string \<Rightarrow> int \<Rightarrow> string \<times> bool \<times> bool" where
  "strerror_switch arg int_errno =
     (case map_of (strerror_cases arg) int_errno of
        Some c \<Rightarrow> c
      | None \<Rightarrow> (''int_errno='' @ show_int int_errno, True, False))"

definition iperf_strerror ::
  "(int \<Rightarrow> string) \<Rightarrow> (int \<Rightarrow> string) \<Rightarrow> int \<Rightarrow> ('z globals_scheme, string) state" where
  "iperf_strerror strerror gai_strerror int_errno = do {
     arg \<leftarrow> reads errarg;
     eno \<leftarrow> reads errno;
     gai \<leftarrow> reads gerror;
     let len = 256;
     let (msg, perr, herr) = strerror_switch arg int_errno;
     let errstr = snprintf len msg;
     let errstr = (if herr \<or> perr then strncat errstr '': '' (len - length errstr - 1) else errstr);
     if eno \<noteq> 0 \<and> perr then
       State_Monad.return (strncat errstr (strerror eno) (len - length errstr - 1))
     else if herr \<and> gai \<noteq> 0 then do {
       _ \<leftarrow> update_state (gerror_update (\<lambda>_. 0));
       State_Monad.return (strncat errstr (gai_strerror gai) (len - length errstr - 1)) }
     else State_Monad.return errstr }"

section \<open>Properties\<close>


lemma strerror_codes:
  "map fst (strerror_cases arg) = [0, 1, 2, 3, 4, 5, 6, 7, 8, 9, 19, 20, 21, 22, 23, 35, 24, 26, 10, 11, 12, 13, 14, 15, 16, 17, 18, 100, 101, 142, 102, 103, 104, 105, 106, 107, 108, 109, 110, 111, 112, 113, 114, 115, 116, 117, 118, 119, 120, 121, 122, 123, 124, 125, 126, 127, 128, 129, 130, 131, 132, 31, 33, 34, 38, 32, 133, 200, 201, 202, 203, 204, 205, 206, 207, 208, 300, 301, 134, 135, 136, 137, 138, 140, 141, 25, 27, 28, 29, 30, 143, 146, 147, 144, 145, 148, 150, 151, 152, 153, 159, 154, 36, 155, 156, 157, 158, 37, 160]"
  unfolding strerror_cases_def strerror_cases1_def strerror_cases2_def strerror_cases3_def strerror_cases4_def
  by (simp only: map_append list.map fst_conv append.simps)

text \<open>
  no two cases of the switch share an error code, and exactly the codes of the enumeration have
  a case, except \<open>IESETSCTPBINDX\<close>, which gets the fallback text.
\<close>

lemma strerror_cases_complete:
  "distinct (map fst (strerror_cases arg))
   \<and> fst ` set (strerror_cases arg) = ({0..38} \<union> {100..148} \<union> {150..160} \<union> {200..208} \<union> {300, 301}) - {IESETSCTPBINDX}"
proof -
  have "distinct (map fst (strerror_cases arg))"
    unfolding strerror_codes by simp
  moreover have eq: "set (map fst (strerror_cases arg))
       = set (filter (\<lambda>c. c \<noteq> IESETSCTPBINDX) ([0..38] @ [100..148] @ [150..160] @ [200..208] @ [300, 301]))"
    unfolding strerror_codes by code_simp
  have "fst ` set (strerror_cases arg)
      = set ([0..38] @ [100..148] @ [150..160] @ [200..208] @ [300, 301]) - {IESETSCTPBINDX}"
    unfolding set_map [symmetric] eq by (simp only: set_filter) blast
  ultimately show ?thesis
    by (simp only: set_append set_upto Un_assoc list.set)
qed

end
