(* ===== verification/Sys.thy ===== *)
theory Sys
  imports Errors Iperf_Time
begin

text \<open>
  The operating system as the program sees it on Windows: the Winsock, C-runtime and clock calls,
  and the POSIX functions that \<open>windows/compat/src/win32_compat.c\<close> builds from them.

  The system is a function \<open>os\<close> from the calls made so far, with their answers, and the
  present call to its answer, so a theorem that holds for every \<open>os\<close> holds for every behaviour
  of the network and the peer. Every call is recorded in \<open>trace\<close>, latest first. Winsock calls
  report an error through \<open>WSAGetLastError\<close> and leave \<open>errno\<close> alone; the wrappers translate it.
\<close>

section \<open>Calls and answers\<close>

record sockaddr =
  sa_family :: int
  sa_host :: string
  sa_port :: int

record addrinfo =
  ai_id :: nat
  ai_family :: int
  ai_addr :: sockaddr

datatype syscall =
    Socket int int int
  | Bind int sockaddr
  | Listen int int
  | Accept int
  | Connect int sockaddr
  | Shutdown int int
  | Closesocket int
  | Crt_close int
  | Recv int nat int
  | Recvfrom int nat
  | Crt_read int nat
  | Send int "byte list"
  | Crt_write int "byte list"
  | Select "int list" "int list" "(int \<times> int) option"
  | WSAPoll int int int
  | Ioctl_FIONBIO int bool
  | Setsockopt int int int int
  | Getsockopt int int int
  | Getsockname int
  | Getaddrinfo "string option" "string option" int int int
  | Freeaddrinfo "nat option"
  | QueryPerformance
  | SystemTime
  | Getpeername int
  | Ioctl_TCP_INFO int
  | Ioctl_KEEPALIVE int int int
  | Crt_open string int
  | Crt_unlink string
  | Set_end_of_file int int
  | Calloc int
  | Malloc
  | Getenv string
  | Process_tick
  | GenRandom nat
  | CreateThread int
  | WaitThread int
  | SetAffinity int
  | GetAffinity
  | Fopen string string
  | ProcessTimes
  | Clock
  | Stat string
  | OpenProcess int
  | CurrentProcessId
  | WSAStartup
  | Time
  | Fprintf string
  | Fstat int

record answer =
  ret :: int
  err :: int
  bytes :: "byte list"
  val :: int
  info :: addrinfo

record sys = globals +
  wsa_error :: int
  os :: "(syscall \<times> answer) list \<Rightarrow> syscall \<Rightarrow> answer"
  trace :: "(syscall \<times> answer) list"

definition no_info :: addrinfo where
  "no_info = \<lparr>ai_id = 0, ai_family = 0, ai_addr = \<lparr>sa_family = 0, sa_host = [], sa_port = 0\<rparr>\<rparr>"

definition answers :: "int \<Rightarrow> answer" where
  "answers r = \<lparr>ret = r, err = 0, bytes = [], val = 0, info = no_info\<rparr>"

definition sys0 :: "((syscall \<times> answer) list \<Rightarrow> syscall \<Rightarrow> answer) \<Rightarrow> sys" where
  "sys0 f = \<lparr>i_errno = 0, errarg = [], gerror = 0, errno = 0, wsa_error = 0, os = f, trace = []\<rparr>"

section \<open>Numbers of the platform\<close>

abbreviation EINTR :: int where "EINTR \<equiv> 4"
abbreviation EIO :: int where "EIO \<equiv> 5"
abbreviation EBADF :: int where "EBADF \<equiv> 9"
abbreviation EAGAIN :: int where "EAGAIN \<equiv> 11"
abbreviation EINVAL :: int where "EINVAL \<equiv> 22"
abbreviation ENOSYS :: int where "ENOSYS \<equiv> 40"
abbreviation EAFNOSUPPORT :: int where "EAFNOSUPPORT \<equiv> 102"
abbreviation ECONNRESET :: int where "ECONNRESET \<equiv> 108"
abbreviation EINPROGRESS :: int where "EINPROGRESS \<equiv> 112"
abbreviation EMSGSIZE :: int where "EMSGSIZE \<equiv> 115"
abbreviation ENOBUFS :: int where "ENOBUFS \<equiv> 119"
abbreviation ENOTSUP :: int where "ENOTSUP \<equiv> 129"
abbreviation ETIMEDOUT :: int where "ETIMEDOUT \<equiv> 138"
abbreviation EWOULDBLOCK :: int where "EWOULDBLOCK \<equiv> 140"
abbreviation WSAEINTR :: int where "WSAEINTR \<equiv> 10004"
abbreviation WSAEINVAL :: int where "WSAEINVAL \<equiv> 10022"
abbreviation WSAEWOULDBLOCK :: int where "WSAEWOULDBLOCK \<equiv> 10035"
abbreviation WSAEINPROGRESS :: int where "WSAEINPROGRESS \<equiv> 10036"
abbreviation WSAENOTSOCK :: int where "WSAENOTSOCK \<equiv> 10038"
abbreviation WSAEMSGSIZE :: int where "WSAEMSGSIZE \<equiv> 10040"
abbreviation WSAECONNRESET :: int where "WSAECONNRESET \<equiv> 10054"
abbreviation WSAETIMEDOUT :: int where "WSAETIMEDOUT \<equiv> 10060"
abbreviation F_GETFL :: int where "F_GETFL \<equiv> 3"
abbreviation F_SETFL :: int where "F_SETFL \<equiv> 4"
abbreviation POLLOUT :: int where "POLLOUT \<equiv> 4"

definition O_NONBLOCK :: int where "O_NONBLOCK = 0x4000"

section \<open>Making a call\<close>

definition call :: "syscall \<Rightarrow> ('z sys_scheme, answer) state" where
  "call c = do {
     a \<leftarrow> reads (\<lambda>s. os s (trace s) c);
     _ \<leftarrow> update_state (trace_update (\<lambda>t. (c, a) # t));
     State_Monad.return a }"

definition winsock :: "syscall \<Rightarrow> ('z sys_scheme, answer) state" where
  "winsock c = do {
     a \<leftarrow> call c;
     _ \<leftarrow> (if ret a < 0 then update_state (wsa_error_update (\<lambda>_. err a)) else State_Monad.return ());
     State_Monad.return a }"

definition crt :: "syscall \<Rightarrow> ('z sys_scheme, answer) state" where
  "crt c = do {
     a \<leftarrow> call c;
     _ \<leftarrow> (if ret a < 0 then update_state (errno_update (\<lambda>_. err a)) else State_Monad.return ());
     State_Monad.return a }"

definition set_errno :: "int \<Rightarrow> ('z globals_scheme, unit) state" where
  "set_errno e = update_state (errno_update (\<lambda>_. e))"

text \<open>
  Receiving \<open>n\<close> bytes delivers at most \<open>n\<close> of them, and the result is their number; sending a
  buffer takes a prefix of it. A negative result is an error.
\<close>

definition received :: "nat \<Rightarrow> answer \<Rightarrow> int \<times> byte list" where
  "received n a = (if ret a < 0 then (- 1, []) else (int (length (take n (bytes a))), take n (bytes a)))"

definition sent :: "byte list \<Rightarrow> answer \<Rightarrow> int" where
  "sent buf a = (if ret a < 0 then - 1 else min (ret a) (int (length buf)))"

section \<open>The compatibility layer\<close>

definition win32_wsa_to_errno :: "int \<Rightarrow> int" where
  "win32_wsa_to_errno e =
     (if e = 0 then 0
      else if e = WSAEWOULDBLOCK then EWOULDBLOCK
      else if e = WSAEINPROGRESS then EINPROGRESS
      else if e = WSAECONNRESET then ECONNRESET
      else if e = WSAETIMEDOUT then ETIMEDOUT
      else if e = WSAEMSGSIZE then EMSGSIZE
      else if e = WSAEINTR then EINTR
      else if e = WSAEINVAL then EINVAL
      else if e = WSAENOTSOCK then EBADF
      else EIO)"

definition set_wsa_errno :: "('z sys_scheme, int) state" where
  "set_wsa_errno = do {
     e \<leftarrow> reads (\<lambda>s. win32_wsa_to_errno (wsa_error s));
     _ \<leftarrow> set_errno e;
     State_Monad.return e }"

definition iperf_win32_close :: "int \<Rightarrow> ('z sys_scheme, int) state" where
  "iperf_win32_close fd =
     (if fd < 0 then do { _ \<leftarrow> set_errno EBADF; State_Monad.return (- 1) }
      else do {
        a \<leftarrow> winsock (Closesocket fd);
        if ret a = 0 then State_Monad.return 0
        else do {
          e \<leftarrow> reads wsa_error;
          if e \<noteq> WSAENOTSOCK then do { _ \<leftarrow> set_wsa_errno; State_Monad.return (- 1) }
          else if 0 \<le> fd \<and> fd < 64 then do { b \<leftarrow> crt (Crt_close fd); State_Monad.return (ret b) }
          else do { _ \<leftarrow> set_errno EBADF; State_Monad.return (- 1) } } })"

definition iperf_win32_read :: "int \<Rightarrow> nat \<Rightarrow> ('z sys_scheme, int \<times> byte list) state" where
  "iperf_win32_read fd count = do {
     a \<leftarrow> winsock (Recv fd count 0);
     if 0 \<le> ret a then State_Monad.return (received count a)
     else do {
       e \<leftarrow> reads wsa_error;
       if e \<noteq> WSAENOTSOCK then do { _ \<leftarrow> set_wsa_errno; State_Monad.return (- 1, []) }
       else do { b \<leftarrow> crt (Crt_read fd count); State_Monad.return (received count b) } } }"

definition iperf_win32_write :: "int \<Rightarrow> byte list \<Rightarrow> ('z sys_scheme, int) state" where
  "iperf_win32_write fd buf = do {
     a \<leftarrow> winsock (Send fd buf);
     if 0 \<le> ret a then State_Monad.return (sent buf a)
     else do {
       e \<leftarrow> reads wsa_error;
       if e \<noteq> WSAENOTSOCK then do { _ \<leftarrow> set_wsa_errno; State_Monad.return (- 1) }
       else do { b \<leftarrow> crt (Crt_write fd buf); State_Monad.return (sent buf b) } } }"

definition poll :: "int \<Rightarrow> int \<Rightarrow> int \<Rightarrow> ('z sys_scheme, int) state" where
  "poll fd events timeout = do {
     a \<leftarrow> winsock (WSAPoll fd events timeout);
     if ret a = - 1 then do { _ \<leftarrow> set_wsa_errno; State_Monad.return (- 1) }
     else State_Monad.return (ret a) }"

definition fcntl :: "int \<Rightarrow> int \<Rightarrow> int \<Rightarrow> ('z sys_scheme, int) state" where
  "fcntl fd cmd arg =
     (if cmd = F_GETFL then State_Monad.return 0
      else if cmd \<noteq> F_SETFL then do { _ \<leftarrow> set_errno EINVAL; State_Monad.return (- 1) }
      else do {
        a \<leftarrow> winsock (Ioctl_FIONBIO fd (and arg O_NONBLOCK \<noteq> 0));
        if ret a = - 1 then do { _ \<leftarrow> set_wsa_errno; State_Monad.return (- 1) }
        else State_Monad.return 0 })"

text \<open>
  The clocks. \<open>QueryPerformance\<close> answers the counter in \<open>val\<close> and its frequency in \<open>ret\<close>;
  \<open>SystemTime\<close> answers the count of 100 ns units since 1601 in \<open>val\<close>. A \<open>time_t\<close> has 64 bits and
  a \<open>long\<close> 32.
\<close>

definition to_long :: "int \<Rightarrow> int" where
  "to_long x = sint (word_of_int x :: u32)"

definition gettimeofday :: "('z sys_scheme, int \<times> int) state" where
  "gettimeofday = do {
     a \<leftarrow> call SystemTime;
     let q = (word_of_int (val a) :: u64) - 116444736000000000;
     State_Monad.return (to_long (uint (q div 10000000)), to_long (uint (q mod 10000000 div 10))) }"

definition CLOCK_MONOTONIC :: int where "CLOCK_MONOTONIC = 1"
definition CLOCK_REALTIME :: int where "CLOCK_REALTIME = 0"

definition clock_gettime :: "int \<Rightarrow> ('z sys_scheme, int \<times> int) state" where
  "clock_gettime clk_id =
     (if clk_id = CLOCK_MONOTONIC then do {
        a \<leftarrow> call QueryPerformance;
        State_Monad.return (val a div ret a, to_long (val a mod ret a * 1000000000 div ret a)) }
      else do {
        (s, us) \<leftarrow> gettimeofday;
        State_Monad.return (s, us * 1000) })"

definition clock_gettime_helper :: "int \<Rightarrow> ('z sys_scheme, iperf_time) state" where
  "clock_gettime_helper clk_id = do {
     (s, ns) \<leftarrow> clock_gettime clk_id;
     State_Monad.return \<lparr>secs = word_of_int s, usecs = word_of_int ns div 1000\<rparr> }"

definition iperf_time_now :: "('z sys_scheme, iperf_time) state" where
  "iperf_time_now = clock_gettime_helper CLOCK_MONOTONIC"

definition iperf_time_now_wallclock :: "('z sys_scheme, iperf_time) state" where
  "iperf_time_now_wallclock = clock_gettime_helper CLOCK_REALTIME"

section \<open>Facts\<close>

lemma run_call [exec_simps]:
  "run_state (call c) s = (let a = os s (trace s) c in (a, s\<lparr>trace := (c, a) # trace s\<rparr>))"
  by (simp add: call_def Let_def)

lemma run_set_errno [simp, exec_simps]: "run_state (set_errno e) s = ((), s\<lparr>errno := e\<rparr>)"
  by (simp add: set_errno_def)

lemma received_length: "fst (received n a) \<le> int n" "0 \<le> fst (received n a) \<Longrightarrow> fst (received n a) = int (length (snd (received n a)))"
  by (auto simp: received_def)

lemma received_pair:
  assumes "received n a = (r, bs)"
  shows "length bs \<le> n" and "0 \<le> r \<Longrightarrow> r = int (length bs)" and "r < 0 \<Longrightarrow> r = - 1 \<and> bs = []"
  using assms by (auto simp: received_def split: if_splits)

lemma sent_bounds: "- 1 \<le> sent buf a" "sent buf a \<le> int (length buf)"
  by (auto simp: sent_def)

end
