(* ===== verification/Net.thy ===== *)
theory Net
  imports Sys
begin

unbundle bit_operations_syntax

text \<open>
  The socket layer of \<open>net.c\<close>: making and connecting sockets, and the loops that read and write a
  given number of bytes. A buffer that a call fills is part of its result: the bytes stored, in
  order. The configuration is the one of \<open>iperf_config.h\<close>: no \<open>SO_BINDTODEVICE\<close>, no
  \<open>sendfile\<close>, no segmentation offload.
\<close>

section \<open>Constants\<close>

abbreviation NET_SOFTERROR :: int where "NET_SOFTERROR \<equiv> - 1"
abbreviation NET_HARDERROR :: int where "NET_HARDERROR \<equiv> - 2"
abbreviation AF_UNSPEC :: int where "AF_UNSPEC \<equiv> 0"
abbreviation AF_INET :: int where "AF_INET \<equiv> 2"
abbreviation AF_INET6 :: int where "AF_INET6 \<equiv> 23"
abbreviation SOCK_STREAM :: int where "SOCK_STREAM \<equiv> 1"
abbreviation SOCK_DGRAM :: int where "SOCK_DGRAM \<equiv> 2"
abbreviation SOL_SOCKET :: int where "SOL_SOCKET \<equiv> 0xffff"
abbreviation SO_REUSEADDR :: int where "SO_REUSEADDR \<equiv> 4"
abbreviation SO_KEEPALIVE :: int where "SO_KEEPALIVE \<equiv> 8"
abbreviation SO_SNDBUF :: int where "SO_SNDBUF \<equiv> 0x1001"
abbreviation SO_RCVBUF :: int where "SO_RCVBUF \<equiv> 0x1002"
abbreviation SO_ERROR :: int where "SO_ERROR \<equiv> 0x1007"
abbreviation IPPROTO_IP :: int where "IPPROTO_IP \<equiv> 0"
abbreviation IPPROTO_TCP :: int where "IPPROTO_TCP \<equiv> 6"
abbreviation IPPROTO_IPV6 :: int where "IPPROTO_IPV6 \<equiv> 41"
abbreviation IPV6_V6ONLY :: int where "IPV6_V6ONLY \<equiv> 27"
abbreviation AI_PASSIVE :: int where "AI_PASSIVE \<equiv> 1"
abbreviation SHUT_WR :: int where "SHUT_WR \<equiv> 1"
abbreviation MSG_TRUNC :: int where "MSG_TRUNC \<equiv> 0x100"
abbreviation INT_MAX :: int where "INT_MAX \<equiv> 2147483647"

section \<open>Making sockets\<close>

definition timeout_connect :: "int \<Rightarrow> sockaddr \<Rightarrow> int \<Rightarrow> ('z sys_scheme, int) state" where
  "timeout_connect s name timeout = do {
     flags \<leftarrow> (if timeout \<noteq> - 1 then fcntl s F_GETFL 0 else State_Monad.return 0);
     r \<leftarrow> (if timeout \<noteq> - 1 then fcntl s F_SETFL (flags OR O_NONBLOCK) else State_Monad.return 0);
     if r = - 1 then State_Monad.return (- 1)
     else do {
       c \<leftarrow> winsock (Connect s name);
       eno \<leftarrow> reads errno;
       rv \<leftarrow>
         (if ret c \<noteq> 0 \<and> eno = EINPROGRESS then do {
            p \<leftarrow> poll s POLLOUT timeout;
            if p = 1 then do {
              g \<leftarrow> winsock (Getsockopt s SOL_SOCKET SO_ERROR);
              if ret g = 0 then do {
                _ \<leftarrow> set_errno (val g);
                State_Monad.return (if val g = 0 then 0 else - 1) }
              else State_Monad.return (ret g) }
            else if p = 0 then do {
              _ \<leftarrow> set_errno ETIMEDOUT;
              State_Monad.return (- 1) }
            else State_Monad.return (- 1) }
          else State_Monad.return (ret c));
       q \<leftarrow> (if timeout \<noteq> - 1 then fcntl s F_SETFL flags else State_Monad.return 0);
       State_Monad.return (if q = - 1 then - 1 else rv) } }"

definition bind_to_device :: "int \<Rightarrow> int \<Rightarrow> string \<Rightarrow> ('z sys_scheme, int) state" where
  "bind_to_device s domain bind_dev = do {
     _ \<leftarrow> set_errno ENOTSUP;
     State_Monad.return (- 1) }"

definition freeaddrinfo :: "addrinfo option \<Rightarrow> ('z sys_scheme, unit) state" where
  "freeaddrinfo ai = do { _ \<leftarrow> call (Freeaddrinfo (map_option ai_id ai)); State_Monad.return () }"

text \<open>The error exits that close the socket, free what was looked up and keep \<open>errno\<close>.\<close>

definition fail_close :: "int \<Rightarrow> addrinfo option list \<Rightarrow> ('z sys_scheme, int) state" where
  "fail_close s ais = do {
     saved_errno \<leftarrow> reads errno;
     _ \<leftarrow> iperf_win32_close s;
     _ \<leftarrow> fold (\<lambda>ai m. do { _ \<leftarrow> m; freeaddrinfo ai }) ais (State_Monad.return ());
     _ \<leftarrow> set_errno saved_errno;
     State_Monad.return (- 1) }"

definition getaddrinfo ::
  "string option \<Rightarrow> string option \<Rightarrow> int \<Rightarrow> int \<Rightarrow> int \<Rightarrow> ('z sys_scheme, int \<times> addrinfo) state" where
  "getaddrinfo node service family socktype flags = do {
     a \<leftarrow> call (Getaddrinfo node service family socktype flags);
     _ \<leftarrow> update_state (gerror_update (\<lambda>_. ret a));
     State_Monad.return (ret a, info a) }"

definition free_local :: "string option \<Rightarrow> addrinfo option \<Rightarrow> ('z sys_scheme, unit) state" where
  "free_local local local_res = (if local \<noteq> None then freeaddrinfo local_res else State_Monad.return ())"

text \<open>The binding of the new socket: to the local name, or to the local port only.\<close>

definition bind_local ::
  "int \<Rightarrow> string option \<Rightarrow> addrinfo option \<Rightarrow> int \<Rightarrow> addrinfo \<Rightarrow> ('z sys_scheme, int) state" where
  "bind_local s local local_res local_port server_res =
     (case local_res of
        Some lr \<Rightarrow> do {
          let addr = (if local_port \<noteq> 0 then (ai_addr lr)\<lparr>sa_port := local_port mod 65536\<rparr> else ai_addr lr);
          b \<leftarrow> winsock (Bind s addr);
          if ret b < 0 then fail_close s [Some lr, Some server_res]
          else do { _ \<leftarrow> freeaddrinfo (Some lr); State_Monad.return s } }
      | None \<Rightarrow>
          if local_port \<noteq> 0 then
            (if ai_family server_res = AF_INET \<or> ai_family server_res = AF_INET6 then do {
               b \<leftarrow> winsock (Bind s \<lparr>sa_family = ai_family server_res, sa_host = [], sa_port = local_port mod 65536\<rparr>);
               if ret b < 0 then fail_close s [Some server_res] else State_Monad.return s }
             else do {
               _ \<leftarrow> iperf_win32_close s;
               _ \<leftarrow> freeaddrinfo (Some server_res);
               _ \<leftarrow> set_errno EAFNOSUPPORT;
               State_Monad.return (- 1) })
          else State_Monad.return s)"

definition create_socket ::
  "int \<Rightarrow> int \<Rightarrow> int \<Rightarrow> string option \<Rightarrow> string option \<Rightarrow> int \<Rightarrow> string option \<Rightarrow> int
    \<Rightarrow> ('z sys_scheme, int \<times> addrinfo option) state" where
  "create_socket domain type proto local bind_dev local_port server port = do {
     (gerr, lr) \<leftarrow> (if local \<noteq> None then getaddrinfo local None domain type 0 else State_Monad.return (0, no_info));
     let local_res = (if local \<noteq> None then Some lr else None);
     if gerr \<noteq> 0 then State_Monad.return (- 1, None)
     else do {
       (gerr, server_res) \<leftarrow> getaddrinfo server (Some (snprintf 6 (show_int port))) domain type 0;
       if gerr \<noteq> 0 then do { _ \<leftarrow> free_local local local_res; State_Monad.return (- 1, None) }
       else do {
         a \<leftarrow> winsock (Socket (ai_family server_res) type proto);
         let s = ret a;
         if s < 0 then do {
           _ \<leftarrow> free_local local local_res;
           _ \<leftarrow> freeaddrinfo (Some server_res);
           State_Monad.return (- 1, None) }
         else do {
           d \<leftarrow> (case bind_dev of Some dev \<Rightarrow> bind_to_device s domain dev | None \<Rightarrow> State_Monad.return 0);
           if d < 0 then do {
             r \<leftarrow> fail_close s [local_res, Some server_res];
             State_Monad.return (r, None) }
           else do {
             r \<leftarrow> bind_local s local local_res local_port server_res;
             State_Monad.return (if r < 0 then (r, None) else (r, Some server_res)) } } } } }"

definition netdial ::
  "int \<Rightarrow> int \<Rightarrow> string option \<Rightarrow> string option \<Rightarrow> int \<Rightarrow> string option \<Rightarrow> int \<Rightarrow> int
    \<Rightarrow> ('z sys_scheme, int) state" where
  "netdial domain proto local bind_dev local_port server port timeout = do {
     (s, res) \<leftarrow> create_socket domain proto 0 local bind_dev local_port server port;
     case res of
       None \<Rightarrow> State_Monad.return (- 1)
     | Some server_res \<Rightarrow> do {
         r \<leftarrow> timeout_connect s (ai_addr server_res) timeout;
         eno \<leftarrow> reads errno;
         if r < 0 \<and> eno \<noteq> EINPROGRESS then fail_close s [Some server_res]
         else do { _ \<leftarrow> freeaddrinfo (Some server_res); State_Monad.return s } } }"

definition netannounce ::
  "int \<Rightarrow> int \<Rightarrow> string option \<Rightarrow> string option \<Rightarrow> int \<Rightarrow> ('z sys_scheme, int) state" where
  "netannounce domain proto local bind_dev port = do {
     let family = (if domain = AF_UNSPEC \<and> local = None then AF_INET6 else domain);
     (gerr, res) \<leftarrow> getaddrinfo local (Some (snprintf 6 (show_int port))) family proto AI_PASSIVE;
     if gerr \<noteq> 0 then State_Monad.return (- 1)
     else do {
       a \<leftarrow> winsock (Socket (ai_family res) proto 0);
       let s = ret a;
       if s < 0 then do { _ \<leftarrow> freeaddrinfo (Some res); State_Monad.return (- 1) }
       else if bind_dev \<noteq> None then fail_close s [Some res]
       else do {
         r \<leftarrow> winsock (Setsockopt s SOL_SOCKET SO_REUSEADDR 1);
         if ret r < 0 then fail_close s [Some res]
         else do {
           v \<leftarrow> (if ai_family res = AF_INET6 \<and> (domain = AF_UNSPEC \<or> domain = AF_INET6)
                then winsock (Setsockopt s IPPROTO_IPV6 IPV6_V6ONLY (if domain = AF_UNSPEC then 0 else 1))
                else State_Monad.return (answers 0));
           if ret v < 0 then fail_close s [Some res]
           else do {
             b \<leftarrow> winsock (Bind s (ai_addr res));
             if ret b < 0 then fail_close s [Some res]
             else do {
               _ \<leftarrow> freeaddrinfo (Some res);
               l \<leftarrow> (if proto = SOCK_STREAM then winsock (Listen s INT_MAX) else State_Monad.return (answers 0));
               if ret l < 0 then fail_close s [] else State_Monad.return s } } } } } }"

section \<open>Reading and writing\<close>

definition read_or_recv :: "int \<Rightarrow> nat \<Rightarrow> int \<Rightarrow> ('z sys_scheme, int \<times> byte list) state" where
  "read_or_recv fd nleft sock_opt =
     (if sock_opt \<noteq> 0 then do { a \<leftarrow> winsock (Recv fd nleft sock_opt); State_Monad.return (received nleft a) }
      else iperf_win32_read fd nleft)"

definition retry_errno :: "int \<Rightarrow> bool" where
  "retry_errno e \<longleftrightarrow> e = EINTR \<or> e = EAGAIN \<or> e = EWOULDBLOCK"

definition nread_read_timeout :: int where "nread_read_timeout = 10"
definition nread_overall_timeout :: u64 where "nread_overall_timeout = 30"

definition copied :: "int \<Rightarrow> nat \<Rightarrow> byte list \<Rightarrow> nat" where
  "copied sock_opt nleft bs = (if sock_opt AND MSG_TRUNC \<noteq> 0 then min (length bs) nleft else length bs)"

text \<open>
  The loop of \<open>Nrecv\<close>. The bytes read so far are \<open>acc\<close>; \<open>Inl\<close> is a return from within the
  loop, \<open>Inr\<close> falls through to the end.
\<close>

function Nrecv_loop ::
  "int \<Rightarrow> int \<Rightarrow> nat \<Rightarrow> iperf_time \<Rightarrow> byte list \<Rightarrow> ('z sys_scheme, int + byte list) state" where
  "Nrecv_loop fd sock_opt nleft ftimeout acc =
     (if nleft = 0 then State_Monad.return (Inr acc)
      else do {
        (r, bs) \<leftarrow> read_or_recv fd nleft sock_opt;
        eno \<leftarrow> reads errno;
        if r < 0 then State_Monad.return (if retry_errno eno then Inr acc else Inl NET_HARDERROR)
        else if bs = [] then State_Monad.return (Inr acc)
        else do {
          let nleft' = nleft - copied sock_opt nleft bs;
          if nleft' = 0 then State_Monad.return (Inr (acc @ bs))
          else do {
            now \<leftarrow> iperf_time_now;
            let ftimeout = (if secs ftimeout = 0
                            then iperf_time_add_usecs now (nread_overall_timeout * 1000000) else ftimeout);
            if iperf_time_compare ftimeout now < 0 then State_Monad.return (Inr (acc @ bs))
            else do {
              q \<leftarrow> winsock (Select [fd] [] (Some (nread_read_timeout, 0)));
              if ret q < 0 then State_Monad.return (Inl NET_HARDERROR)
              else if ret q = 0 then State_Monad.return (Inr (acc @ bs))
              else Nrecv_loop fd sock_opt nleft' ftimeout (acc @ bs) } } } })"
  by auto
termination
  by (relation "measure (\<lambda>(_, _, nleft, _, _). nleft)") (auto simp: copied_def neq_Nil_conv)

definition Nrecv :: "int \<Rightarrow> nat \<Rightarrow> int \<Rightarrow> int \<Rightarrow> ('z sys_scheme, int \<times> byte list) state" where
  "Nrecv fd count prot sock_opt = do {
     q \<leftarrow> winsock (Select [fd] [] (Some (nread_read_timeout, 0)));
     if ret q < 0 then State_Monad.return (NET_HARDERROR, [])
     else if ret q = 0 then State_Monad.return (0, [])
     else do {
       out \<leftarrow> Nrecv_loop fd sock_opt count \<lparr>secs = 0, usecs = 0\<rparr> [];
       State_Monad.return (case out of Inl e \<Rightarrow> (e, []) | Inr bs \<Rightarrow> (int (length bs), bs)) } }"

definition Nread :: "int \<Rightarrow> nat \<Rightarrow> int \<Rightarrow> ('z sys_scheme, int \<times> byte list) state" where
  "Nread fd count prot = Nrecv fd count prot 0"

function Nrecv_no_select_loop ::
  "int \<Rightarrow> int \<Rightarrow> nat \<Rightarrow> byte list \<Rightarrow> ('z sys_scheme, int + byte list) state" where
  "Nrecv_no_select_loop fd sock_opt nleft acc =
     (if nleft = 0 then State_Monad.return (Inr acc)
      else do {
        (r, bs) \<leftarrow> read_or_recv fd nleft sock_opt;
        eno \<leftarrow> reads errno;
        if r < 0 then State_Monad.return (if retry_errno eno then Inr acc else Inl NET_HARDERROR)
        else if bs = [] then State_Monad.return (Inr acc)
        else Nrecv_no_select_loop fd sock_opt (nleft - copied sock_opt nleft bs) (acc @ bs) })"
  by auto
termination
  by (relation "measure (\<lambda>(_, _, nleft, _). nleft)") (auto simp: copied_def neq_Nil_conv)

definition Nrecv_no_select :: "int \<Rightarrow> nat \<Rightarrow> int \<Rightarrow> int \<Rightarrow> ('z sys_scheme, int \<times> byte list) state" where
  "Nrecv_no_select fd count prot sock_opt = do {
     out \<leftarrow> Nrecv_no_select_loop fd sock_opt count [];
     State_Monad.return (case out of Inl e \<Rightarrow> (e, []) | Inr bs \<Rightarrow> (int (length bs), bs)) }"

definition Nread_no_select :: "int \<Rightarrow> nat \<Rightarrow> int \<Rightarrow> ('z sys_scheme, int \<times> byte list) state" where
  "Nread_no_select fd count prot = Nrecv_no_select fd count prot 0"

definition Nread_gro :: "int \<Rightarrow> nat \<Rightarrow> int \<Rightarrow> ('z sys_scheme, int) state" where
  "Nread_gro fd count prot = State_Monad.return NET_HARDERROR"

text \<open>The loop of \<open>Nwrite\<close> on the unsent rest of a buffer of \<open>count\<close> bytes.\<close>

function Nwrite_loop :: "int \<Rightarrow> nat \<Rightarrow> byte list \<Rightarrow> ('z sys_scheme, int) state" where
  "Nwrite_loop fd count buf =
     (if buf = [] then State_Monad.return (int count)
      else do {
        r \<leftarrow> iperf_win32_write fd buf;
        eno \<leftarrow> reads errno;
        if r < 0 then
          State_Monad.return
            (if retry_errno eno then (if count = length buf then NET_SOFTERROR else int (count - length buf))
             else if eno = ENOBUFS then NET_SOFTERROR
             else NET_HARDERROR)
        else if r = 0 then State_Monad.return NET_SOFTERROR
        else Nwrite_loop fd count (drop (nat r) buf) })"
  by auto
termination
  by (relation "measure (\<lambda>(_, _, buf). length buf)") (auto simp: neq_Nil_conv)

definition Nwrite :: "int \<Rightarrow> byte list \<Rightarrow> int \<Rightarrow> ('z sys_scheme, int) state" where
  "Nwrite fd buf prot = Nwrite_loop fd (length buf) buf"

definition Nwrite_gso :: "int \<Rightarrow> byte list \<Rightarrow> int \<Rightarrow> u16 \<Rightarrow> ('z sys_scheme, int) state" where
  "Nwrite_gso fd buf prot gso_size = State_Monad.return NET_HARDERROR"

definition has_sendfile :: int where
  "has_sendfile = 0"

definition Nsendfile :: "int \<Rightarrow> int \<Rightarrow> byte list \<Rightarrow> ('z sys_scheme, int) state" where
  "Nsendfile fromfd tofd buf = do {
     _ \<leftarrow> set_errno ENOSYS;
     State_Monad.return NET_HARDERROR }"

definition setnonblocking :: "int \<Rightarrow> bool \<Rightarrow> ('z sys_scheme, int) state" where
  "setnonblocking fd nonblocking = do {
     flags \<leftarrow> fcntl fd F_GETFL 0;
     if flags < 0 then State_Monad.return (- 1)
     else do {
       let newflags = (if nonblocking then flags OR O_NONBLOCK else flags AND NOT O_NONBLOCK);
       if newflags \<noteq> flags then do {
         r \<leftarrow> fcntl fd F_SETFL newflags;
         State_Monad.return (if r < 0 then - 1 else 0) }
       else State_Monad.return 0 } }"

definition getsockdomain :: "int \<Rightarrow> ('z sys_scheme, int) state" where
  "getsockdomain sock = do {
     a \<leftarrow> winsock (Getsockname sock);
     State_Monad.return (if ret a < 0 then - 1 else sa_family (ai_addr (info a))) }"

declare Nrecv_loop.simps [simp del] Nrecv_no_select_loop.simps [simp del] Nwrite_loop.simps [simp del]

end
