(* ===== verification/Doubles.thy ===== *)
theory Doubles
  imports Prelude "HOL-Library.Log_Nat"
begin

text \<open>
  The arithmetic of C \<open>double\<close>. A finite double is a rational number; every operation of the
  source is the exact operation followed by \<open>fl64\<close>, the rounding to the nearest number with a
  53-bit significand, ties to even. The exponent range is not bounded: overflow to infinity
  and subnormal numbers do not occur for the quantities the program computes (bytes, seconds and
  rates), and there are no NaNs.
\<close>

type_synonym double = rat

section \<open>Rounding\<close>

definition exponent :: "rat \<Rightarrow> int" where
  "exponent x =
     (let (p, q) = quotient_of \<bar>x\<bar>; k = bitlen p - bitlen q
      in if 2 powi k \<le> \<bar>x\<bar> then k else k - 1)"

definition round_even :: "rat \<Rightarrow> int" where
  "round_even x =
     (let n = \<lfloor>x\<rfloor>; r = x - of_int n
      in if r < 1 / 2 then n else if r > 1 / 2 then n + 1 else if even n then n else n + 1)"

definition fl64 :: "rat \<Rightarrow> double" where
  "fl64 x = (if x = 0 then 0
     else let u = 2 powi (exponent x - 52) in of_int (round_even (x / u)) * u)"

definition is_double :: "rat \<Rightarrow> bool" where
  "is_double x \<longleftrightarrow> (\<exists>m e. x = of_int m * 2 powi e \<and> \<bar>m\<bar> \<le> 2 ^ 53)"

text \<open>The cast \<open>(uint64_t) x\<close> of a double: defined by C for values between 0 and the type's maximum.\<close>

definition truncate :: "double \<Rightarrow> int" where
  "truncate x = (if x < 0 then - \<lfloor>- x\<rfloor> else \<lfloor>x\<rfloor>)"

definition double_to_u64 :: "double \<Rightarrow> u64" where
  "double_to_u64 x = word_of_int (truncate x)"

definition u64_to_double :: "u64 \<Rightarrow> double" where
  "u64_to_double x = fl64 (of_int (uint x))"

section \<open>Facts\<close>

lemma powi_2_pos [simp]: "0 < (2 :: rat) powi k"
  by simp

lemma powi_2_less: "(2 :: rat) powi a < 2 powi b \<Longrightarrow> a < b"
  by (rule ccontr) (simp add: not_less power_int_increasing leD)

lemma powi_2_split: "(2 :: rat) powi (a + b) = 2 powi a * 2 powi b"
  by (simp add: power_int_add)

lemma bitlen_bounds_rat:
  assumes "0 < p"
  shows "2 powi (bitlen p - 1) \<le> (of_int p :: rat)" and "(of_int p :: rat) < 2 powi bitlen p"
proof -
  have b: "2 ^ nat (bitlen p - 1) \<le> p \<and> p < 2 ^ nat (bitlen p)"
    using bitlen_bounds [OF assms] by simp
  have pos: "0 \<le> bitlen p - 1" "0 \<le> bitlen p"
    using bitlen_ge_iff_power [of 1 p] assms by (simp_all add: bitlen_nonneg)
  have "(2 :: rat) powi (bitlen p - 1) = of_int (2 ^ nat (bitlen p - 1))"
    using pos by (simp add: power_int_def)
  also have "\<dots> \<le> of_int p"
    using b by (simp only: of_int_le_iff)
  finally show "2 powi (bitlen p - 1) \<le> (of_int p :: rat)" .
  have "(of_int p :: rat) < of_int (2 ^ nat (bitlen p))"
    using b by (simp only: of_int_less_iff)
  also have "\<dots> = 2 powi bitlen p"
    using pos by (simp add: power_int_def)
  finally show "(of_int p :: rat) < 2 powi bitlen p" .
qed

lemma exponent_bounds:
  assumes "x \<noteq> 0"
  shows "2 powi exponent x \<le> \<bar>x\<bar>" and "\<bar>x\<bar> < 2 powi (exponent x + 1)"
proof -
  obtain p q where pq: "quotient_of \<bar>x\<bar> = (p, q)" by fastforce
  then have q: "0 < q" and x: "\<bar>x\<bar> = of_int p / of_int q"
    using quotient_of_denom_pos quotient_of_div by blast+
  then have p: "0 < p"
    using assms by (metis abs_le_zero_iff divide_nonpos_pos not_less of_int_0_less_iff of_int_le_0_iff)
  let ?k = "bitlen p - bitlen q"
  have "2 powi (bitlen p - 1) / 2 powi bitlen q \<le> \<bar>x\<bar>"
    unfolding x using bitlen_bounds_rat [OF p] bitlen_bounds_rat [OF q] q p
    by (intro frac_le) auto
  then have lo: "2 powi (?k - 1) \<le> \<bar>x\<bar>"
    by (simp add: power_int_diff [symmetric] algebra_simps)
  have "\<bar>x\<bar> < 2 powi bitlen p / 2 powi (bitlen q - 1)"
    unfolding x using bitlen_bounds_rat [OF p] bitlen_bounds_rat [OF q] q p
    by (intro frac_less) auto
  then have hi: "\<bar>x\<bar> < 2 powi (?k + 1)"
    by (simp add: power_int_diff [symmetric] algebra_simps)
  show "2 powi exponent x \<le> \<bar>x\<bar>" "\<bar>x\<bar> < 2 powi (exponent x + 1)"
    using lo hi pq by (auto simp: exponent_def Let_def)
qed

lemma exponent_unique:
  assumes "2 powi k \<le> \<bar>x\<bar>" and "\<bar>x\<bar> < 2 powi (k + 1)"
  shows "exponent x = k"
proof -
  have "x \<noteq> 0" using assms(1) powi_2_pos [of k] by linarith
  note b = exponent_bounds [OF this]
  have "(2 :: rat) powi exponent x < 2 powi (k + 1)" "(2 :: rat) powi k < 2 powi (exponent x + 1)"
    using b assms by (auto intro: le_less_trans)
  then have "exponent x < k + 1" "k < exponent x + 1"
    by (simp_all only: powi_2_less)
  then show ?thesis by simp
qed

lemma round_even_near: "\<bar>of_int (round_even x) - x\<bar> \<le> 1 / 2"
proof -
  have "of_int \<lfloor>x\<rfloor> \<le> x" "x < of_int \<lfloor>x\<rfloor> + 1"
    by linarith+
  then show ?thesis
    unfolding round_even_def Let_def by (simp add: abs_le_iff; linarith)
qed

lemma round_even_int [simp]: "round_even (of_int n) = n"
  by (simp add: round_even_def Let_def)

lemma round_even_mono: "x \<le> y \<Longrightarrow> round_even x \<le> round_even y"
proof -
  assume le: "x \<le> y"
  then consider "\<lfloor>x\<rfloor> = \<lfloor>y\<rfloor>" | "\<lfloor>x\<rfloor> + 1 \<le> \<lfloor>y\<rfloor>"
    using floor_mono [OF le] by linarith
  then show ?thesis
  proof cases
    case 1
    then show ?thesis using le by (auto simp: round_even_def Let_def)
  next
    case 2
    have "round_even x \<le> \<lfloor>x\<rfloor> + 1" "\<lfloor>y\<rfloor> \<le> round_even y"
      by (auto simp: round_even_def Let_def)
    with 2 show ?thesis by linarith
  qed
qed

lemma round_even_minus: "round_even (- x) = - round_even x"
proof (cases "x \<in> \<int>")
  case True
  then obtain n where "x = of_int n" by (auto elim: Ints_cases)
  then show ?thesis by (metis of_int_minus round_even_int)
next
  case False
  then have "\<lfloor>- x\<rfloor> = - \<lfloor>x\<rfloor> - 1"
    by (simp add: floor_minus ceiling_altdef) (metis Ints_of_int)
  then show ?thesis
    by (auto simp: round_even_def Let_def)
qed

lemma exponent_minus [simp]: "exponent (- x) = exponent x"
  by (simp add: exponent_def)

lemma fl64_minus [simp]: "fl64 (- x) = - fl64 x"
  using round_even_minus by (simp add: fl64_def Let_def)

lemma fl64_0 [simp]: "fl64 0 = 0"
  by (simp add: fl64_def)

lemma fl64_range:
  assumes "0 < x"
  shows "2 powi exponent x \<le> fl64 x" and "fl64 x \<le> 2 powi (exponent x + 1)"
proof -
  let ?u = "2 powi (exponent x - 52) :: rat"
  have b: "2 powi exponent x \<le> x" "x < 2 powi (exponent x + 1)"
    using exponent_bounds [of x] assms by auto
  have e: "2 powi exponent x = of_int (2 ^ 52) * ?u" "2 powi (exponent x + 1) = of_int (2 ^ 53) * ?u"
    using powi_2_split [of 52 "exponent x - 52"] powi_2_split [of 53 "exponent x - 52"]
    by (simp_all add: algebra_simps)
  have u: "0 < ?u" by simp
  then have "of_int (2 ^ 52) \<le> x / ?u" "x / ?u \<le> of_int (2 ^ 53)"
    using b unfolding e by (simp_all add: pos_le_divide_eq pos_divide_le_eq del: of_int_power)
  then have "2 ^ 52 \<le> round_even (x / ?u)" "round_even (x / ?u) \<le> 2 ^ 53"
    using round_even_mono round_even_int by metis+
  then have "of_int (2 ^ 52) * ?u \<le> of_int (round_even (x / ?u)) * ?u"
    "of_int (round_even (x / ?u)) * ?u \<le> of_int (2 ^ 53) * ?u"
    using u by (simp_all only: mult_le_cancel_right_pos of_int_le_iff)
  then show "2 powi exponent x \<le> fl64 x" "fl64 x \<le> 2 powi (exponent x + 1)"
    using assms unfolding e by (simp_all only: fl64_def Let_def, simp_all)
qed

lemma fl64_mono_pos:
  assumes "0 < x" and "x \<le> y"
  shows "fl64 x \<le> fl64 y"
proof (cases "exponent x = exponent y")
  case True
  have "round_even (x / 2 powi (exponent x - 52)) \<le> round_even (y / 2 powi (exponent x - 52))"
    using assms by (intro round_even_mono divide_right_mono) simp_all
  then show ?thesis
    using assms True by (auto simp: fl64_def Let_def)
next
  case False
  have "(2 :: rat) powi exponent x < 2 powi (exponent y + 1)"
    using exponent_bounds [of x] exponent_bounds [of y] assms by auto
  then have "exponent x < exponent y"
    using False powi_2_less [of "exponent x" "exponent y + 1"] by simp
  then have "(2 :: rat) powi (exponent x + 1) \<le> 2 powi exponent y"
    by (intro power_int_increasing) auto
  then show ?thesis
    using fl64_range [of x] fl64_range [of y] assms by linarith
qed

lemma fl64_nonneg: "0 \<le> x \<Longrightarrow> 0 \<le> fl64 x"
  using fl64_range(1) [of x] powi_2_pos [of "exponent x"] by (cases "x = 0") (simp, linarith)

lemma fl64_mono: "x \<le> y \<Longrightarrow> fl64 x \<le> fl64 y"
proof -
  assume le: "x \<le> y"
  consider "0 < x" | "x \<le> 0" "0 \<le> y" | "y < 0" by linarith
  then show ?thesis
  proof cases
    case 1
    then show ?thesis using le by (rule fl64_mono_pos)
  next
    case 2
    then show ?thesis using fl64_nonneg [of "- x"] fl64_nonneg [of y] by simp
  next
    case 3
    then show ?thesis using le fl64_mono_pos [of "- y" "- x"] by simp
  qed
qed

lemma fl64_representable:
  assumes "is_double x"
  shows "fl64 x = x"
proof (cases "x = 0")
  case False
  obtain m e where x: "x = of_int m * 2 powi e" and m: "\<bar>m\<bar> \<le> 2 ^ 53"
    using assms by (auto simp: is_double_def)
  let ?u = "2 powi (exponent x - 52) :: rat"
  have "x / ?u \<in> \<int>"
  proof (cases "e \<ge> exponent x - 52")
    case True
    have "x / ?u = of_int m * 2 powi (e - (exponent x - 52))"
      by (simp add: power_int_diff) (simp add: x)
    also have "\<dots> = of_int (m * 2 ^ nat (e - (exponent x - 52)))"
      using True by (simp add: power_int_def)
    finally show ?thesis by (metis Ints_of_int)
  next
    case gap: False
    have "(2 :: rat) powi exponent x \<le> of_int \<bar>m\<bar> * 2 powi e"
      using exponent_bounds(1) [OF False] by (simp add: x abs_mult)
    also have "\<dots> \<le> of_int (2 ^ 53) * 2 powi e"
      using m by (intro mult_right_mono) (simp_all only: of_int_le_iff, simp)
    also have "\<dots> = (2 :: rat) powi (53 + e)"
      by (simp add: power_int_add)
    finally have "(2 :: rat) powi exponent x < 2 powi (53 + e + 1)"
      by (rule le_less_trans) (simp add: power_int_add)
    then have "exponent x < 53 + e + 1" by (rule powi_2_less)
    with gap have ex: "exponent x = 53 + e" by simp
    have "of_int (2 ^ 53) * 2 powi e \<le> of_int \<bar>m\<bar> * (2 powi e :: rat)"
      using exponent_bounds(1) [OF False] unfolding ex by (simp add: x abs_mult power_int_add)
    then have "\<bar>m\<bar> = 2 ^ 53"
      using m by (simp only: mult_le_cancel_right_pos [OF powi_2_pos] of_int_le_iff)
    then have "m = 2 * (if m < 0 then - (2 ^ 52) else 2 ^ 52)"
      by (auto simp: abs_if split: if_splits)
    then obtain h where "m = 2 * h" by blast
    then have "x / ?u = of_int h"
      unfolding ex by (simp add: x power_int_add)
    then show ?thesis by simp
  qed
  then obtain n where n: "x / ?u = of_int n" by (auto elim: Ints_cases)
  then have "fl64 x = x / ?u * ?u"
    using False by (simp only: fl64_def Let_def round_even_int if_False)
  then show ?thesis by simp
qed simp

lemma is_double_fl64: "is_double (fl64 x)"
proof (cases "x = 0")
  case True
  then show ?thesis by (auto simp: is_double_def intro: exI [of _ 0])
next
  case False
  have pos: "is_double (fl64 y)" if "0 < y" for y
  proof -
    let ?u = "2 powi (exponent y - 52) :: rat"
    have "of_int (round_even (y / ?u)) * ?u \<le> of_int (2 ^ 53) * ?u"
      "of_int 0 * ?u \<le> of_int (round_even (y / ?u)) * ?u"
      using fl64_range(2) [OF that] fl64_nonneg [of y] powi_2_split [of 53 "exponent y - 52"] that
      by (simp_all add: fl64_def Let_def algebra_simps)
    then have "round_even (y / ?u) \<le> 2 ^ 53" "0 \<le> round_even (y / ?u)"
      by (simp_all only: mult_le_cancel_right_pos [OF powi_2_pos] of_int_le_iff)
    then show ?thesis
      using that by (auto simp: is_double_def fl64_def Let_def)
  qed
  have "is_double (- y) \<Longrightarrow> is_double y" for y
    unfolding is_double_def by (metis abs_minus_cancel minus_minus minus_mult_left of_int_minus)
  with False pos [of x] pos [of "- x"] show ?thesis
    by (metis fl64_minus linorder_neqE_linordered_idom neg_0_less_iff_less)
qed

lemma is_double_int: "\<bar>n\<bar> \<le> 2 ^ 53 \<Longrightarrow> is_double (of_int n * 2 powi e)"
  by (auto simp: is_double_def)

lemma fl64_int: "\<bar>n\<bar> \<le> 2 ^ 53 \<Longrightarrow> fl64 (of_int n) = of_int n"
  using fl64_representable [OF is_double_int, of n 0] by simp

lemma fl64_relative_error: "\<bar>fl64 x - x\<bar> \<le> \<bar>x\<bar> / 2 ^ 53"
proof (cases "x = 0")
  case False
  let ?u = "2 powi (exponent x - 52) :: rat"
  have "fl64 x - x = (of_int (round_even (x / ?u)) - x / ?u) * ?u"
    using False by (simp add: fl64_def Let_def left_diff_distrib)
  then have "\<bar>fl64 x - x\<bar> = \<bar>of_int (round_even (x / ?u)) - x / ?u\<bar> * ?u"
    by (simp add: abs_mult)
  also have "\<dots> \<le> 1 / 2 * ?u"
    by (intro mult_right_mono round_even_near) simp
  also have "\<dots> = 2 powi exponent x / 2 ^ 53"
    by (simp add: power_int_diff)
  also have "\<dots> \<le> \<bar>x\<bar> / 2 ^ 53"
    using exponent_bounds(1) [OF False] by (intro divide_right_mono) simp_all
  finally show ?thesis .
qed simp

section \<open>What a client may rely on\<close>

text \<open>
  Comparisons of a rounded result with a representable number decide as the exact ones do, up to
  equality.
\<close>

locale rounding =
  fixes rnd :: "rat \<Rightarrow> rat" and repr :: "rat \<Rightarrow> bool"
  assumes mono: "x \<le> y \<Longrightarrow> rnd x \<le> rnd y"
    and exact: "repr x \<Longrightarrow> rnd x = x"
    and closed: "repr (rnd x)"
begin

lemma idem [simp]: "rnd (rnd x) = rnd x"
  by (rule exact) (rule closed)

lemma ge_repr: "repr c \<Longrightarrow> c \<le> x \<Longrightarrow> c \<le> rnd x"
  using mono [of c x] exact [of c] by simp

lemma le_repr: "repr c \<Longrightarrow> x \<le> c \<Longrightarrow> rnd x \<le> c"
  using mono [of x c] exact [of c] by simp

lemma less_repr: "repr c \<Longrightarrow> rnd x < c \<Longrightarrow> x < c"
  using ge_repr [of c x] by linarith

lemma gr_repr: "repr c \<Longrightarrow> c < rnd x \<Longrightarrow> c < x"
  using le_repr [of c x] by linarith

end

interpretation binary64: rounding fl64 is_double
  by unfold_locales (simp_all add: fl64_mono fl64_representable is_double_fl64)

end
