(* ===== verification/Json.thy ===== *)
theory Json
  imports CString Doubles
begin

text \<open>
  JSON values as the program handles them through \<open>cjson.c\<close>: a tree whose objects are lists of
  named members in order. A number is its \<open>valuedouble\<close>; its \<open>valueint\<close> is derived from it with
  saturation, as \<open>cJSON_CreateNumber\<close> and the parser do. The text form is not modelled here.
\<close>

datatype cjson =
    JNull
  | JBool bool
  | JNumber double
  | JString string
  | JArray "cjson list"
  | JObject "(string \<times> cjson) list"

definition valueint :: "double \<Rightarrow> int" where
  "valueint num =
     (if num \<ge> 9223372036854775808 then 9223372036854775807
      else if num \<le> - 9223372036854775808 then - 9223372036854775808
      else truncate num)"

fun cJSON_GetObjectItem :: "cjson \<Rightarrow> string \<Rightarrow> cjson option" where
  "cJSON_GetObjectItem (JObject ms) name = map_option snd (find (\<lambda>(n, _). strcaseeq name n) ms)"
| "cJSON_GetObjectItem _ name = None"

fun cJSON_AddItemToObject :: "cjson \<Rightarrow> string \<Rightarrow> cjson \<Rightarrow> cjson" where
  "cJSON_AddItemToObject (JObject ms) name v = JObject (ms @ [(name, v)])"
| "cJSON_AddItemToObject j name v = j"

fun cJSON_GetArraySize :: "cjson \<Rightarrow> nat" where
  "cJSON_GetArraySize (JArray xs) = length xs"
| "cJSON_GetArraySize (JObject ms) = length ms"
| "cJSON_GetArraySize _ = 0"

fun json_type :: "cjson \<Rightarrow> string" where
  "json_type JNull = ''null''"
| "json_type (JBool _) = ''bool''"
| "json_type (JNumber _) = ''number''"
| "json_type (JString _) = ''string''"
| "json_type (JArray _) = ''array''"
| "json_type (JObject _) = ''object''"

text \<open>\<open>iperf_cJSON_GetObjectItemType\<close> of \<open>iperf_util.c\<close>: the member, if it has the expected type.\<close>

datatype expected_type = Expect_bool | Expect_string | Expect_number | Expect_array

fun has_type :: "expected_type \<Rightarrow> cjson \<Rightarrow> bool" where
  "has_type Expect_bool (JBool _) = True"
| "has_type Expect_string (JString _) = True"
| "has_type Expect_number (JNumber _) = True"
| "has_type Expect_array (JArray _) = True"
| "has_type _ _ = False"

definition iperf_cJSON_GetObjectItemType :: "cjson \<Rightarrow> string \<Rightarrow> expected_type \<Rightarrow> cjson option" where
  "iperf_cJSON_GetObjectItemType j item_string expected_type =
     (case cJSON_GetObjectItem j item_string of
        None \<Rightarrow> None
      | Some j_p \<Rightarrow> if has_type expected_type j_p then Some j_p else None)"

text \<open>Typed access: the forms in which the callers read members.\<close>

definition get_int :: "cjson \<Rightarrow> string \<Rightarrow> int option" where
  "get_int j k = (case iperf_cJSON_GetObjectItemType j k Expect_number of Some (JNumber d) \<Rightarrow> Some (valueint d) | _ \<Rightarrow> None)"

definition get_double :: "cjson \<Rightarrow> string \<Rightarrow> double option" where
  "get_double j k = (case iperf_cJSON_GetObjectItemType j k Expect_number of Some (JNumber d) \<Rightarrow> Some d | _ \<Rightarrow> None)"

definition get_string :: "cjson \<Rightarrow> string \<Rightarrow> string option" where
  "get_string j k = (case iperf_cJSON_GetObjectItemType j k Expect_string of Some (JString s) \<Rightarrow> Some s | _ \<Rightarrow> None)"

definition has_member :: "cjson \<Rightarrow> string \<Rightarrow> expected_type \<Rightarrow> bool" where
  "has_member j k t \<longleftrightarrow> iperf_cJSON_GetObjectItemType j k t \<noteq> None"

section \<open>Facts\<close>

lemma truncate_int [simp]: "truncate (of_int n) = n"
  by (simp add: truncate_def)

lemma valueint_of_int:
  assumes "- 9223372036854775808 < n" and "n < 9223372036854775808"
  shows "valueint (of_int n) = n"
proof -
  have "(of_int n :: rat) < of_int 9223372036854775808" "of_int (- 9223372036854775808) < (of_int n :: rat)"
    using assms by (simp_all only: of_int_less_iff)
  then show ?thesis by (simp add: valueint_def not_le)
qed

text \<open>
  An integer sent as a JSON number comes back unchanged when a double represents it, which is so
  for all up to \<open>2 ^ 53\<close>.
\<close>

lemma valueint_exact:
  assumes "\<bar>n\<bar> \<le> 2 ^ 53"
  shows "valueint (fl64 (of_int n)) = n"
  using assms by (simp add: fl64_int valueint_of_int)

lemma find_append [simp]: "find P (xs @ ys) = (case find P xs of None \<Rightarrow> find P ys | r \<Rightarrow> r)"
  by (induction xs) simp_all

text \<open>A member that was added is found again unless an earlier one has the same name up to case.\<close>

lemma get_added:
  "cJSON_GetObjectItem (cJSON_AddItemToObject (JObject ms) k v) k'
    = (case cJSON_GetObjectItem (JObject ms) k' of Some w \<Rightarrow> Some w | None \<Rightarrow> if strcaseeq k' k then Some v else None)"
  by (auto split: option.splits)

end
