(* ===== verification/Util.thy ===== *)
theory Util
  imports Net Json
begin

text \<open>
  The helpers of \<open>iperf_util.c\<close>. Entropy is an argument: the bytes the random generator gave.
\<close>

section \<open>Buffers and cookies\<close>

abbreviation COOKIE_SIZE :: nat where "COOKIE_SIZE \<equiv> 37"

fun fill_loop :: "nat \<Rightarrow> int \<Rightarrow> byte list" where
  "fill_loop 0 counter = []"
| "fill_loop (Suc n) counter =
     word_of_int (48 + counter) # fill_loop n (if counter \<ge> 9 then 0 else counter + 1)"

definition fill_with_repeating_pattern :: "nat \<Rightarrow> byte list" where
  "fill_with_repeating_pattern outsize = fill_loop outsize 0"

definition rndchars :: string where
  "rndchars = ''abcdefghijklmnopqrstuvwxyz234567''"

definition rndchar :: "byte \<Rightarrow> byte" where
  "rndchar b = of_char (rndchars ! (unat b mod length rndchars))"

text \<open>The cookie made from \<open>COOKIE_SIZE\<close> bytes of entropy: its last byte becomes the terminator.\<close>

definition make_cookie :: "byte list \<Rightarrow> byte list" where
  "make_cookie entropy = map rndchar (take (COOKIE_SIZE - 1) entropy) @ [0]"

section \<open>Sockets and times\<close>

definition is_closed :: "int \<Rightarrow> ('z sys_scheme, bool) state" where
  "is_closed fd = do {
     a \<leftarrow> winsock (Select [fd] [] (Some (0, 0)));
     eno \<leftarrow> reads errno;
     State_Monad.return (ret a < 0 \<and> eno = EBADF) }"

type_synonym timeval = "int \<times> int"

definition timeval_to_double :: "timeval \<Rightarrow> double" where
  "timeval_to_double tv = fl64 (of_int (fst tv + snd tv sdiv 1000000))"

definition timeval_equals :: "timeval \<Rightarrow> timeval \<Rightarrow> int" where
  "timeval_equals tv0 tv1 = (if fst tv0 = fst tv1 \<and> snd tv0 = snd tv1 then 1 else 0)"

definition timeval_diff :: "timeval \<Rightarrow> timeval \<Rightarrow> double" where
  "timeval_diff tv0 tv1 =
     (let time1 = fl64 (of_int (fst tv0) + fl64 (of_int (snd tv0) / 1000000));
          time2 = fl64 (of_int (fst tv1) + fl64 (of_int (snd tv1) / 1000000));
          time1 = fl64 (time1 - time2)
      in if time1 < 0 then - time1 else time1)"

definition iperf_time_in_secs :: "iperf_time \<Rightarrow> double" where
  "iperf_time_in_secs t = fl64 (of_int (uint (secs t)) + fl64 (of_int (uint (usecs t)) / 1000000))"

text \<open>
  The CPU usage between two samples: a sample is the time, the processor clock and the user and
  system times of \<open>getrusage\<close>; \<open>CLOCKS_PER_SEC\<close> is 1000 with the Microsoft runtime.
\<close>

record cpu_sample =
  cs_time :: iperf_time
  cs_clock :: int
  cs_utime :: timeval
  cs_stime :: timeval

definition rusage_us :: "timeval \<Rightarrow> double" where
  "rusage_us tv = fl64 (fl64 (of_int (fst tv) * 1000000) + of_int (snd tv))"

definition cpu_util :: "cpu_sample \<Rightarrow> cpu_sample \<Rightarrow> double \<times> double \<times> double" where
  "cpu_util before now =
     (let temp_time = snd (iperf_time_diff (cs_time now) (cs_time before));
          timediff = u64_to_double (iperf_time_in_usecs temp_time);
          userdiff = fl64 (rusage_us (cs_utime now) - rusage_us (cs_utime before));
          systemdiff = fl64 (rusage_us (cs_stime now) - rusage_us (cs_stime before));
          clockus = fl64 (fl64 (of_int (cs_clock now - cs_clock before) * 1000000) / 1000)
      in (fl64 (fl64 (clockus / timediff) * 100), fl64 (fl64 (userdiff / timediff) * 100),
          fl64 (fl64 (systemdiff / timediff) * 100)))"

section \<open>Texts\<close>

text \<open>
  The list of optional features: each with its text, compiled in or not. The configuration of
  \<open>iperf_config.h\<close> has CPU affinity, \<open>HAVE_DONT_FRAGMENT\<close> and threads.
\<close>

definition add_feature :: "bool \<times> string \<Rightarrow> string \<times> nat \<Rightarrow> string \<times> nat" where
  "add_feature f acc =
     (let (features, numfeatures) = acc
      in if fst f then
           let features = (if numfeatures > 0 then strncat features '', '' (1024 - length features - 1) else features)
           in (strncat features (snd f) (1024 - length features - 1), numfeatures + 1)
         else acc)"

definition feature_table :: "(bool \<times> string) list" where
  "feature_table =
     [(True, ''CPU affinity setting''), (False, ''IPv6 flow label''), (False, ''SCTP''),
      (False, ''TCP congestion algorithm setting''), (False, ''sendfile / zerocopy''), (False, ''socket pacing''),
      (False, ''authentication''), (False, ''bind to device''), (True, ''support IPv4 don'' @ CHR 0x27 # ''t fragment''),
      (True, ''POSIX threads''), (False, ''GSO/GRO support'')]"

definition get_optional_features :: "(bool \<times> string) list \<Rightarrow> string" where
  "get_optional_features table =
     (let (features, numfeatures) = fold add_feature table (snprintf 1024 ''Optional features available: '', 0)
      in if numfeatures = 0 then strncat features ''None'' (1024 - length features - 1) else features)"

definition state_to_text :: "int \<Rightarrow> string" where
  "state_to_text state =
     (case map_of
        [(0, ''Test reset''), (1, ''TEST_START - starting a new test''), (2, ''TEST_RUNNING''), (4, ''TEST_END''),
         (9, ''PARAM_EXCHANGE - Client to Server Parameters Exchange''), (10, ''CREATE_STREAMS''),
         (11, ''SERVER_TERMINATE''), (12, ''CLIENT_TERMINATE''), (13, ''EXCHANGE_RESULTS''),
         (14, ''DISPLAY_RESULTS''), (15, ''IPERF_START - waiting for a new test''), (16, ''IPERF_DONE''),
         (- 1, ''ACCESS_DENIED - Server is busy''), (- 2, ''SERVER_ERROR'')] state of
        Some txt \<Rightarrow> txt | None \<Rightarrow> ''Unknown State'')"

section \<open>Building JSON objects by format\<close>

datatype json_arg = Arg_b int | Arg_d int | Arg_f double | Arg_s string

text \<open>
  \<open>iperf_json_printf\<close>: \<open>name\<close> is the text collected at \<open>np\<close>, \<open>field\<close> the terminated name. The
  arguments are consumed in order; \<open>None\<close> is the \<open>NULL\<close> result for an unknown conversion. An
  argument of the wrong type for its conversion has no defined meaning in C, and the formats of
  the program have nothing but blanks between a colon and its conversion.
\<close>

fun json_conv :: "char \<Rightarrow> json_arg \<Rightarrow> cjson option" where
  "json_conv c (Arg_b b) = (if c = CHR ''b'' then Some (JBool (b \<noteq> 0)) else None)"
| "json_conv c (Arg_d i) = (if c = CHR ''d'' then Some (JNumber (fl64 (of_int i))) else None)"
| "json_conv c (Arg_f d) = (if c = CHR ''f'' then Some (JNumber d) else None)"
| "json_conv c (Arg_s s) = (if c = CHR ''s'' then Some (JString s) else None)"

fun json_printf_loop :: "string \<Rightarrow> json_arg list \<Rightarrow> string \<Rightarrow> string \<Rightarrow> cjson \<Rightarrow> cjson option" where
  "json_printf_loop [] args name field j = Some j"
| "json_printf_loop (c # fmt) args name field j =
     (if c = CHR '' '' then json_printf_loop fmt args name field j
      else if c = CHR '':'' then json_printf_loop fmt args name name j
      else if c = CHR ''%'' then
        (case (fmt, args) of
           (d # fmt', a # args') \<Rightarrow>
             (case json_conv d a of
                None \<Rightarrow> None
              | Some v \<Rightarrow> json_printf_loop fmt' args' [] field (cJSON_AddItemToObject j field v))
         | _ \<Rightarrow> None)
      else json_printf_loop fmt args (name @ [c]) field j)"

definition iperf_json_printf :: "string \<Rightarrow> json_arg list \<Rightarrow> cjson option" where
  "iperf_json_printf format args = json_printf_loop format args [] [] (JObject [])"

section \<open>Facts\<close>

lemma fill_loop_nth: "i < n \<Longrightarrow> c \<le> 9 \<Longrightarrow> fill_loop n (int c) ! i = word_of_int (48 + int ((c + i) mod 10))"
proof (induction n arbitrary: i c)
  case (Suc n)
  show ?case
  proof (cases i)
    case (Suc j)
    show ?thesis
    proof (cases "c = 9")
      case True
      have "(9 + i) mod 10 = j mod 10" by (simp add: Suc)
      then show ?thesis using Suc Suc.prems Suc.IH [of j 0] True by simp
    next
      case False
      then show ?thesis using Suc Suc.prems Suc.IH [of j "Suc c"] by (simp add: add.commute)
    qed
  qed (use Suc.prems in simp)
qed simp

lemma length_fill_loop [simp]: "length (fill_loop n c) = n"
  by (induction n arbitrary: c) simp_all

lemma strncat_1024: "length d < 1024 \<Longrightarrow> length (strncat d s (1023 - length d)) < 1024"
  using strncat_fits [of d 1024 s] by simp

lemma add_feature_fits: "length (fst acc) < 1024 \<Longrightarrow> length (fst (add_feature f acc)) < 1024"
  by (auto simp: add_feature_def Let_def case_prod_beta intro!: strncat_1024)

lemma fold_add_feature_fits: "length (fst acc) < 1024 \<Longrightarrow> length (fst (fold add_feature table acc)) < 1024"
  by (induction table arbitrary: acc) (simp_all add: add_feature_fits)

section \<open>Properties\<close>

text \<open>
  C38: the counting loop of \<open>fill_with_repeating_pattern\<close> equals its closed form: byte \<open>i\<close> of the buffer is the
  digit \<open>i mod 10\<close>.
\<close>

theorem fill_pattern_closed_form:
  "fill_with_repeating_pattern n = map (\<lambda>i. word_of_int (48 + int (i mod 10))) [0..<n]"
  using fill_loop_nth [of _ n 0] by (intro nth_equalityI) (simp_all add: fill_with_repeating_pattern_def)

lemma rndchars_facts: "length rndchars = 32" "distinct rndchars" "\<forall>c\<in>set rndchars. (of_char c :: byte) \<noteq> 0"
  by (simp_all add: rndchars_def)

lemma of_char_byte_inj: "of_char c = (of_char d :: byte) \<Longrightarrow> c = d"
proof -
  assume "of_char c = (of_char d :: byte)"
  then have "(of_nat (of_char c) :: byte) = of_nat (of_char d)" by (simp only: of_nat_of_char)
  then have "unat (of_nat (of_char c) :: byte) = unat (of_nat (of_char d) :: byte)" by (simp only:)
  then have "(of_char c :: nat) mod 256 = of_char d mod 256" by (simp only: unat_of_nat) simp
  then show ?thesis by simp
qed

lemma card_residue: "k < 32 \<Longrightarrow> card {b :: byte. unat b mod 32 = k} = 8"
proof -
  assume k: "k < 32"
  let ?f = "\<lambda>j. of_nat (32 * j + k) :: byte"
  have val: "unat (?f j) = 32 * j + k" if "j < 8" for j
    using that k by (simp only: unat_of_nat) simp
  have "{b :: byte. unat b mod 32 = k} = ?f ` {0..<8}"
  proof (intro set_eqI iffI)
    fix b :: byte
    assume "b \<in> {b. unat b mod 32 = k}"
    then have "b = ?f (unat b div 32)"
      by (metis (mono_tags) mem_Collect_eq mult_div_mod_eq of_nat_unat ucast_id)
    moreover have "unat b div 32 < 8"
      using unsigned_less [of b, where ?'a = nat] by (simp add: less_mult_imp_div_less)
    ultimately show "b \<in> ?f ` {0..<8}" by auto
  qed (use val k in auto)
  moreover have "inj_on ?f {0..<8}"
    using val by (intro inj_onI) (metis add_right_cancel atLeastLessThan_iff mult_left_cancel zero_neq_numeral)
  ultimately show ?thesis by (simp add: card_image)
qed

text \<open>
  a cookie made from at least \<open>COOKIE_SIZE - 1\<close> random bytes is a C string that fills its 37-byte
  buffer: 36 characters of the alphabet, then the terminator; and the choice of each character is
  fair, since each character of the alphabet comes from exactly 8 of the 256 byte values.
\<close>

lemma make_cookie_spec:
  assumes "COOKIE_SIZE - 1 \<le> length entropy"
  shows "length (make_cookie entropy) = COOKIE_SIZE \<and> make_cookie entropy ! 36 = 0
    \<and> (\<forall>i<36. make_cookie entropy ! i \<in> of_char ` set rndchars \<and> make_cookie entropy ! i \<noteq> 0)
    \<and> (\<forall>c\<in>set rndchars. card {b. rndchar b = of_char c} = 8)"
proof (intro conjI ballI)
  let ?c = "make_cookie entropy"
  show "length ?c = COOKIE_SIZE" "?c ! 36 = 0"
    using assms by (simp_all add: make_cookie_def nth_append)
  have "rndchars ! (unat b mod 32) \<in> set rndchars" for b :: byte
    using rndchars_facts(1) by (intro nth_mem) simp
  then show "\<forall>i<36. ?c ! i \<in> of_char ` set rndchars \<and> ?c ! i \<noteq> 0"
    using assms rndchars_facts by (auto simp: make_cookie_def nth_append rndchar_def)
next
  fix c
  assume "c \<in> set rndchars"
  then obtain k where k: "k < 32" "c = rndchars ! k"
    using rndchars_facts(1) by (auto simp: in_set_conv_nth)
  have "rndchar b = of_char c \<longleftrightarrow> unat b mod 32 = k" for b
    using k rndchars_facts(1,2) by (auto simp: rndchar_def nth_eq_iff_index_eq dest: of_char_byte_inj)
  then show "card {b. rndchar b = of_char c} = 8"
    using card_residue [OF k(1)] by simp
qed

theorem make_cookie_spec_witness:
  "length (make_cookie (replicate 37 33)) = COOKIE_SIZE \<and> make_cookie (replicate 37 33) ! 36 = 0"
  using make_cookie_spec [of "replicate 37 33"] by simp

text \<open>
  the feature line always fits its 1024-byte buffer, whatever is compiled in; for the
  configuration of this port it names CPU affinity, don't-fragment and threads.
\<close>

lemma get_optional_features_spec:
  "length (get_optional_features table) < 1024
   \<and> get_optional_features feature_table
     = ''Optional features available: CPU affinity setting, support IPv4 don'' @ CHR 0x27 # ''t fragment, POSIX threads''"
proof
  have "length (fst (fold add_feature table (snprintf 1024 ''Optional features available: '', 0))) < 1024"
    by (rule fold_add_feature_fits) (simp add: snprintf_def)
  then show "length (get_optional_features table) < 1024"
    by (auto simp: get_optional_features_def Let_def case_prod_beta intro!: strncat_1024)
  show "get_optional_features feature_table
     = ''Optional features available: CPU affinity setting, support IPv4 don'' @ CHR 0x27 # ''t fragment, POSIX threads''"
    by (simp add: get_optional_features_def feature_table_def add_feature_def snprintf_def strncat_def)
qed

end
