(* ===== verification/Test_State.thy ===== *)
theory Test_State
  imports Util
begin

text \<open>
  The data model of \<open>iperf.h\<close>: the settings, the results of an interval and of a stream, a stream
  and a test as records with the members of the C structures. A pointer to a string or an object
  that may be \<open>NULL\<close> is an option, a list head a list, an \<open>fd_set\<close> the list of its members, a
  timer its address and a callback a number. A stream's pointer to the settings always is the one
  of its test, so the settings are stored once, in the test. Members of other builds (SSL, SCTP,
  processor sets) are left out.

  The state of the whole program, \<open>world\<close>, extends the system state by the test.
\<close>

section \<open>Constants\<close>

abbreviation Ptcp :: int where "Ptcp \<equiv> SOCK_STREAM"
abbreviation Pudp :: int where "Pudp \<equiv> SOCK_DGRAM"
abbreviation Psctp :: int where "Psctp \<equiv> 12"
abbreviation SENDER :: int where "SENDER \<equiv> 1"
abbreviation RECEIVER :: int where "RECEIVER \<equiv> 0"
abbreviation BIDIRECTIONAL :: int where "BIDIRECTIONAL \<equiv> - 1"
abbreviation TEST_START :: int where "TEST_START \<equiv> 1"
abbreviation TEST_RUNNING :: int where "TEST_RUNNING \<equiv> 2"
abbreviation TEST_END :: int where "TEST_END \<equiv> 4"
abbreviation PARAM_EXCHANGE :: int where "PARAM_EXCHANGE \<equiv> 9"
abbreviation CREATE_STREAMS :: int where "CREATE_STREAMS \<equiv> 10"
abbreviation SERVER_TERMINATE :: int where "SERVER_TERMINATE \<equiv> 11"
abbreviation CLIENT_TERMINATE :: int where "CLIENT_TERMINATE \<equiv> 12"
abbreviation EXCHANGE_RESULTS :: int where "EXCHANGE_RESULTS \<equiv> 13"
abbreviation DISPLAY_RESULTS :: int where "DISPLAY_RESULTS \<equiv> 14"
abbreviation IPERF_START :: int where "IPERF_START \<equiv> 15"
abbreviation IPERF_DONE :: int where "IPERF_DONE \<equiv> 16"
abbreviation ACCESS_DENIED :: int where "ACCESS_DENIED \<equiv> - 1"
abbreviation SERVER_ERROR :: int where "SERVER_ERROR \<equiv> - 2"
abbreviation DEFAULT_UDP_BLKSIZE :: int where "DEFAULT_UDP_BLKSIZE \<equiv> 1460"
abbreviation DEFAULT_TCP_BLKSIZE :: int where "DEFAULT_TCP_BLKSIZE \<equiv> 128 * 1024"
abbreviation DEFAULT_SCTP_BLKSIZE :: int where "DEFAULT_SCTP_BLKSIZE \<equiv> 64 * 1024"
abbreviation DEFAULT_PACING_TIMER :: int where "DEFAULT_PACING_TIMER \<equiv> 1000"
abbreviation DEFAULT_NO_MSG_RCVD_TIMEOUT :: int where "DEFAULT_NO_MSG_RCVD_TIMEOUT \<equiv> 120000"
abbreviation MIN_NO_MSG_RCVD_TIMEOUT :: int where "MIN_NO_MSG_RCVD_TIMEOUT \<equiv> 100"
abbreviation UDP_RATE :: u64 where "UDP_RATE \<equiv> 1048576"
abbreviation OMIT :: int where "OMIT \<equiv> 0"
abbreviation DURATION :: int where "DURATION \<equiv> 10"
abbreviation PORT :: int where "PORT \<equiv> 5201"
abbreviation GSO_BF_MAX_SIZE :: int where "GSO_BF_MAX_SIZE \<equiv> 65507"
abbreviation GRO_BF_MAX_SIZE :: int where "GRO_BF_MAX_SIZE \<equiv> 65507"

section \<open>Structures\<close>

record iperf_interval_results =
  ir_bytes_transferred :: "u64"
  ir_interval_start_time :: "iperf_time"
  ir_interval_end_time :: "iperf_time"
  ir_interval_duration :: "double"
  ir_interval_packet_count :: "i64"
  ir_interval_outoforder_packets :: "i64"
  ir_interval_cnt_error :: "i64"
  ir_packet_count :: "i64"
  ir_jitter :: "double"
  ir_outoforder_packets :: "i64"
  ir_cnt_error :: "i64"
  ir_omitted :: "int"
  ir_interval_retrans :: "int"
  ir_snd_cwnd :: "int"
  ir_snd_wnd :: "int"
  ir_rtt :: "int"
  ir_rttvar :: "int"
  ir_pmtu :: "int"
  ir_reorder :: "int"

record iperf_stream_result =
  res_bytes_received :: "u64"
  res_bytes_sent :: "u64"
  res_bytes_received_this_interval :: "u64"
  res_bytes_sent_this_interval :: "u64"
  res_bytes_sent_omit :: "u64"
  res_stream_prev_total_retrans :: "int"
  res_stream_retrans :: "int"
  res_stream_reorder :: "int"
  res_stream_max_rtt :: "int"
  res_stream_min_rtt :: "int"
  res_stream_sum_rtt :: "int"
  res_stream_count_rtt :: "int"
  res_stream_max_snd_cwnd :: "int"
  res_stream_max_snd_wnd :: "int"
  res_start_time :: "iperf_time"
  res_end_time :: "iperf_time"
  res_start_time_fixed :: "iperf_time"
  res_sender_time :: "double"
  res_receiver_time :: "double"
  res_interval_results :: "iperf_interval_results list"

record iperf_settings =
  cfg_domain :: "int"
  cfg_socket_bufsize :: "int"
  cfg_blksize :: "int"
  cfg_rate :: "u64"
  cfg_bitrate_limit :: "u64"
  cfg_bitrate_limit_interval :: "double"
  cfg_bitrate_limit_stats_per_interval :: "int"
  cfg_fqrate :: "u64"
  cfg_pacing_timer :: "int"
  cfg_burst :: "int"
  cfg_mss :: "int"
  cfg_ttl :: "int"
  cfg_tos :: "int"
  cfg_flowlabel :: "int"
  cfg_bytes :: "u64"
  cfg_blocks :: "u64"
  cfg_unit_format :: "char"
  cfg_num_ostreams :: "int"
  cfg_dont_fragment :: "int"
  cfg_skip_rx_copy :: "int"
  cfg_connect_timeout :: "int"
  cfg_idle_timeout :: "int"
  cfg_snd_timeout :: "u32"
  cfg_rcv_timeout :: "iperf_time"
  cfg_cntl_ka :: "int"
  cfg_cntl_ka_keepidle :: "int"
  cfg_cntl_ka_interval :: "int"
  cfg_cntl_ka_count :: "int"
  cfg_gso :: "int"
  cfg_gso_dg_size :: "int"
  cfg_gso_bf_size :: "int"
  cfg_gro :: "int"
  cfg_gro_bf_size :: "int"

record iperf_stream =
  sp_thread_created :: "int"
  sp_done :: "int"
  sp_local_port :: "int"
  sp_remote_port :: "int"
  sp_socket :: "int"
  sp_id :: "int"
  sp_sender :: "int"
  sp_result :: "iperf_stream_result"
  sp_send_timer :: "nat option"
  sp_green_light :: "int"
  sp_buffer_fd :: "int"
  sp_buffer :: "byte list"
  sp_pending_size :: "int"
  sp_diskfile_fd :: "int"
  sp_diskfile_left :: "int"
  sp_packet_count :: "i64"
  sp_peer_packet_count :: "i64"
  sp_peer_omitted_packet_count :: "i64"
  sp_omitted_packet_count :: "i64"
  sp_jitter :: "double"
  sp_prev_transit :: "double"
  sp_outoforder_packets :: "i64"
  sp_omitted_outoforder_packets :: "i64"
  sp_cnt_error :: "i64"
  sp_omitted_cnt_error :: "i64"
  sp_target :: "u64"

record protocol =
  prot_id :: int
  prot_name :: string

record iperf_test =
  test_role :: "char option"
  test_mode :: "int"
  test_sender_has_retransmits :: "int"
  test_other_side_has_retransmits :: "int"
  test_protocol :: "protocol option"
  test_state :: "int"
  test_server_hostname :: "string option"
  test_tmp_template :: "string option"
  test_bind_address :: "string option"
  test_bind_dev :: "string option"
  test_xbind_addrs :: "string list"
  test_bind_port :: "int"
  test_server_port :: "int"
  test_omit :: "int"
  test_duration :: "int"
  test_max_server_duration :: "int"
  test_diskfile_name :: "string option"
  test_affinity :: "int"
  test_server_affinity :: "int"
  test_title :: "string option"
  test_extra_data :: "string option"
  test_congestion :: "string option"
  test_congestion_used :: "string option"
  test_remote_congestion_used :: "string option"
  test_pidfile :: "string option"
  test_logfile :: "string option"
  test_outfile :: "nat option"
  test_ctrl_sck :: "int"
  test_mapped_v4 :: "int"
  test_listener :: "int"
  test_prot_listener :: "int"
  test_ctrl_sck_mss :: "int"
  test_daemon :: "int"
  test_one_off :: "int"
  test_no_delay :: "int"
  test_reverse :: "int"
  test_bidirectional :: "int"
  test_verbose :: "int"
  test_json_output :: "int"
  test_json_stream :: "int"
  test_json_stream_full_output :: "int"
  test_json_callback :: "nat option"
  test_zerocopy :: "int"
  test_debug :: "int"
  test_debug_level :: "int"
  test_get_server_output :: "int"
  test_udp_counters_64bit :: "int"
  test_forceflush :: "int"
  test_multisend :: "int"
  test_repeating_payload :: "int"
  test_timestamps :: "int"
  test_timestamp_format :: "string option"
  test_mptcp :: "int"
  test_json_output_string :: "string option"
  test_max_fd :: "int"
  test_read_set :: "int list"
  test_write_set :: "int list"
  test_omitting :: "int"
  test_stats_interval :: "double"
  test_reporter_interval :: "double"
  test_stats_callback :: "nat option"
  test_reporter_callback :: "nat option"
  test_omit_timer :: "nat option"
  test_timer :: "nat option"
  test_done :: "int"
  test_stats_timer :: "nat option"
  test_reporter_timer :: "nat option"
  test_cpu_util :: "double \<times> double \<times> double"
  test_remote_cpu_util :: "double \<times> double \<times> double"
  test_num_streams :: "int"
  test_bytes_sent :: "u64"
  test_blocks_sent :: "u64"
  test_bytes_received :: "u64"
  test_blocks_received :: "u64"
  test_bitrate_limit_stats_count :: "u64"
  test_bitrate_limit_intervals_traffic_bytes :: "u64 list"
  test_bitrate_limit_last_interval_index :: "u64"
  test_bitrate_limit_exceeded :: "int"
  test_server_last_run_rc :: "int"
  test_server_forced_idle_restarts_count :: "u32"
  test_server_forced_no_msg_restarts_count :: "u32"
  test_server_test_number :: "u32"
  test_cookie :: "byte list"
  test_streams :: "iperf_stream list"
  test_settings :: "iperf_settings"
  test_protocols :: "protocol list"
  test_on_new_stream :: "nat option"
  test_on_test_start :: "nat option"
  test_on_connect :: "nat option"
  test_on_test_finish :: "nat option"
  test_json_top :: "cjson option"
  test_json_start :: "cjson option"
  test_json_connected :: "cjson option"
  test_json_intervals :: "cjson option"
  test_json_end :: "cjson option"
  test_server_output_text :: "string option"
  test_json_server_output :: "cjson option"
  test_server_output_list :: "string list"

record world = sys +
  the_test :: iperf_test

section \<open>The JSON output\<close>

text \<open>
  \<open>json_start\<close>, \<open>json_connected\<close>, \<open>json_intervals\<close> and \<open>json_end\<close> point into the tree \<open>json_top\<close>. The model
  keeps each part in its own member and puts the tree together where it is printed or sent.
\<close>

fun json_put :: "string \<Rightarrow> cjson option \<Rightarrow> cjson \<Rightarrow> cjson" where
  "json_put k (Some v) (JObject ms) = JObject (map (\<lambda>(n, x). if n = k then (n, v) else (n, x)) ms)"
| "json_put k v j = j"

definition json_document :: "iperf_test \<Rightarrow> cjson option" where
  "json_document t =
     map_option (\<lambda>top. json_put ''start'' (map_option (json_put ''connected'' (test_json_connected t)) (test_json_start t))
         (json_put ''intervals'' (test_json_intervals t) (json_put ''end'' (test_json_end t) top)))
       (test_json_top t)"

section \<open>Zeroed structures\<close>

text \<open>The state of an object after \<open>memset\<close> to zero.\<close>

definition zero_settings :: iperf_settings where
  "zero_settings = \<lparr>
     cfg_domain = 0, cfg_socket_bufsize = 0, cfg_blksize = 0, cfg_rate = 0,
     cfg_bitrate_limit = 0, cfg_bitrate_limit_interval = 0, cfg_bitrate_limit_stats_per_interval = 0, cfg_fqrate = 0,
     cfg_pacing_timer = 0, cfg_burst = 0, cfg_mss = 0, cfg_ttl = 0,
     cfg_tos = 0, cfg_flowlabel = 0, cfg_bytes = 0, cfg_blocks = 0,
     cfg_unit_format = CHR 0x00, cfg_num_ostreams = 0, cfg_dont_fragment = 0, cfg_skip_rx_copy = 0,
     cfg_connect_timeout = 0, cfg_idle_timeout = 0, cfg_snd_timeout = 0, cfg_rcv_timeout = \<lparr>secs = 0, usecs = 0\<rparr>,
     cfg_cntl_ka = 0, cfg_cntl_ka_keepidle = 0, cfg_cntl_ka_interval = 0, cfg_cntl_ka_count = 0,
     cfg_gso = 0, cfg_gso_dg_size = 0, cfg_gso_bf_size = 0, cfg_gro = 0,
     cfg_gro_bf_size = 0\<rparr>"

definition zero_stream_result :: iperf_stream_result where
  "zero_stream_result = \<lparr>
     res_bytes_received = 0, res_bytes_sent = 0, res_bytes_received_this_interval = 0, res_bytes_sent_this_interval = 0,
     res_bytes_sent_omit = 0, res_stream_prev_total_retrans = 0, res_stream_retrans = 0, res_stream_reorder = 0,
     res_stream_max_rtt = 0, res_stream_min_rtt = 0, res_stream_sum_rtt = 0, res_stream_count_rtt = 0,
     res_stream_max_snd_cwnd = 0, res_stream_max_snd_wnd = 0, res_start_time = \<lparr>secs = 0, usecs = 0\<rparr>, res_end_time = \<lparr>secs = 0, usecs = 0\<rparr>,
     res_start_time_fixed = \<lparr>secs = 0, usecs = 0\<rparr>, res_sender_time = 0, res_receiver_time = 0, res_interval_results = []\<rparr>"

definition zero_interval :: iperf_interval_results where
  "zero_interval = \<lparr>
     ir_bytes_transferred = 0, ir_interval_start_time = \<lparr>secs = 0, usecs = 0\<rparr>, ir_interval_end_time = \<lparr>secs = 0, usecs = 0\<rparr>, ir_interval_duration = 0,
     ir_interval_packet_count = 0, ir_interval_outoforder_packets = 0, ir_interval_cnt_error = 0, ir_packet_count = 0,
     ir_jitter = 0, ir_outoforder_packets = 0, ir_cnt_error = 0, ir_omitted = 0,
     ir_interval_retrans = 0, ir_snd_cwnd = 0, ir_snd_wnd = 0, ir_rtt = 0,
     ir_rttvar = 0, ir_pmtu = 0, ir_reorder = 0\<rparr>"

definition zero_stream :: iperf_stream where
  "zero_stream = \<lparr>
     sp_thread_created = 0, sp_done = 0, sp_local_port = 0, sp_remote_port = 0,
     sp_socket = 0, sp_id = 0, sp_sender = 0, sp_result = zero_stream_result,
     sp_send_timer = None, sp_green_light = 0, sp_buffer_fd = 0, sp_buffer = [],
     sp_pending_size = 0, sp_diskfile_fd = 0, sp_diskfile_left = 0, sp_packet_count = 0,
     sp_peer_packet_count = 0, sp_peer_omitted_packet_count = 0, sp_omitted_packet_count = 0, sp_jitter = 0,
     sp_prev_transit = 0, sp_outoforder_packets = 0, sp_omitted_outoforder_packets = 0, sp_cnt_error = 0,
     sp_omitted_cnt_error = 0, sp_target = 0\<rparr>"

definition zero_test :: iperf_test where
  "zero_test = \<lparr>
     test_role = None, test_mode = 0, test_sender_has_retransmits = 0, test_other_side_has_retransmits = 0,
     test_protocol = None, test_state = 0, test_server_hostname = None, test_tmp_template = None,
     test_bind_address = None, test_bind_dev = None, test_xbind_addrs = [], test_bind_port = 0,
     test_server_port = 0, test_omit = 0, test_duration = 0, test_max_server_duration = 0,
     test_diskfile_name = None, test_affinity = 0, test_server_affinity = 0, test_title = None,
     test_extra_data = None, test_congestion = None, test_congestion_used = None, test_remote_congestion_used = None,
     test_pidfile = None, test_logfile = None, test_outfile = None, test_ctrl_sck = 0,
     test_mapped_v4 = 0, test_listener = 0, test_prot_listener = 0, test_ctrl_sck_mss = 0,
     test_daemon = 0, test_one_off = 0, test_no_delay = 0, test_reverse = 0,
     test_bidirectional = 0, test_verbose = 0, test_json_output = 0, test_json_stream = 0,
     test_json_stream_full_output = 0, test_json_callback = None, test_zerocopy = 0, test_debug = 0,
     test_debug_level = 0, test_get_server_output = 0, test_udp_counters_64bit = 0, test_forceflush = 0,
     test_multisend = 0, test_repeating_payload = 0, test_timestamps = 0, test_timestamp_format = None,
     test_mptcp = 0, test_json_output_string = None, test_max_fd = 0, test_read_set = [],
     test_write_set = [], test_omitting = 0, test_stats_interval = 0, test_reporter_interval = 0,
     test_stats_callback = None, test_reporter_callback = None, test_omit_timer = None, test_timer = None,
     test_done = 0, test_stats_timer = None, test_reporter_timer = None, test_cpu_util = (0, 0, 0),
     test_remote_cpu_util = (0, 0, 0), test_num_streams = 0, test_bytes_sent = 0, test_blocks_sent = 0,
     test_bytes_received = 0, test_blocks_received = 0, test_bitrate_limit_stats_count = 0, test_bitrate_limit_intervals_traffic_bytes = [],
     test_bitrate_limit_last_interval_index = 0, test_bitrate_limit_exceeded = 0, test_server_last_run_rc = 0, test_server_forced_idle_restarts_count = 0,
     test_server_forced_no_msg_restarts_count = 0, test_server_test_number = 0, test_cookie = [], test_streams = [],
     test_settings = zero_settings, test_protocols = [], test_on_new_stream = None, test_on_test_start = None,
     test_on_connect = None, test_on_test_finish = None, test_json_top = None, test_json_start = None,
     test_json_connected = None, test_json_intervals = None, test_json_end = None, test_server_output_text = None,
     test_json_server_output = None, test_server_output_list = []\<rparr>"

definition world0 :: "((syscall \<times> answer) list \<Rightarrow> syscall \<Rightarrow> answer) \<Rightarrow> iperf_test \<Rightarrow> world" where
  "world0 f t = \<lparr>i_errno = 0, errarg = [], gerror = 0, errno = 0, wsa_error = 0, os = f, trace = [], the_test = t\<rparr>"

lemma world0_simps [simp]:
  "trace (world0 f t) = []" "the_test (world0 f t) = t" "os (world0 f t) = f" "errno (world0 f t) = 0" "i_errno (world0 f t) = 0"
  by (simp_all add: world0_def)

end
