(* ===== verification/Api.thy ===== *)
theory Api
  imports Test_State
begin

text \<open>
  The accessors of a test in \<open>iperf_api.c\<close>: one definition per getter and setter, in the order of
  the source. A setter returns the changed test. The setters that duplicate their string argument
  store a copy, so the stored value is the argument; memory exhaustion is not modelled. The debug
  message of \<open>iperf_set_test_state\<close> is output only.
\<close>

section \<open>Getters\<close>

definition iperf_get_verbose :: "iperf_test \<Rightarrow> int" where
  "iperf_get_verbose ipt = test_verbose ipt"

definition iperf_get_control_socket :: "iperf_test \<Rightarrow> int" where
  "iperf_get_control_socket ipt = test_ctrl_sck ipt"

definition iperf_get_control_socket_mss :: "iperf_test \<Rightarrow> int" where
  "iperf_get_control_socket_mss ipt = test_ctrl_sck_mss ipt"

definition iperf_get_test_omit :: "iperf_test \<Rightarrow> int" where
  "iperf_get_test_omit ipt = test_omit ipt"

definition iperf_get_test_duration :: "iperf_test \<Rightarrow> int" where
  "iperf_get_test_duration ipt = test_duration ipt"

definition iperf_get_test_rate :: "iperf_test \<Rightarrow> u64" where
  "iperf_get_test_rate ipt = cfg_rate (test_settings ipt)"

definition iperf_get_test_bitrate_limit :: "iperf_test \<Rightarrow> u64" where
  "iperf_get_test_bitrate_limit ipt = cfg_bitrate_limit (test_settings ipt)"

definition iperf_get_test_bitrate_limit_interval :: "iperf_test \<Rightarrow> double" where
  "iperf_get_test_bitrate_limit_interval ipt = cfg_bitrate_limit_interval (test_settings ipt)"

definition iperf_get_test_bitrate_limit_stats_per_interval :: "iperf_test \<Rightarrow> int" where
  "iperf_get_test_bitrate_limit_stats_per_interval ipt = cfg_bitrate_limit_stats_per_interval (test_settings ipt)"

definition iperf_get_test_fqrate :: "iperf_test \<Rightarrow> u64" where
  "iperf_get_test_fqrate ipt = cfg_fqrate (test_settings ipt)"

definition iperf_get_test_pacing_timer :: "iperf_test \<Rightarrow> int" where
  "iperf_get_test_pacing_timer ipt = cfg_pacing_timer (test_settings ipt)"

definition iperf_get_test_bytes :: "iperf_test \<Rightarrow> u64" where
  "iperf_get_test_bytes ipt = cfg_bytes (test_settings ipt)"

definition iperf_get_test_blocks :: "iperf_test \<Rightarrow> u64" where
  "iperf_get_test_blocks ipt = cfg_blocks (test_settings ipt)"

definition iperf_get_test_burst :: "iperf_test \<Rightarrow> int" where
  "iperf_get_test_burst ipt = cfg_burst (test_settings ipt)"

definition iperf_get_test_role :: "iperf_test \<Rightarrow> char option" where
  "iperf_get_test_role ipt = test_role ipt"

definition iperf_get_test_reverse :: "iperf_test \<Rightarrow> int" where
  "iperf_get_test_reverse ipt = test_reverse ipt"

definition iperf_get_test_bidirectional :: "iperf_test \<Rightarrow> int" where
  "iperf_get_test_bidirectional ipt = test_bidirectional ipt"

definition iperf_get_test_blksize :: "iperf_test \<Rightarrow> int" where
  "iperf_get_test_blksize ipt = cfg_blksize (test_settings ipt)"

definition iperf_get_test_outfile :: "iperf_test \<Rightarrow> nat option" where
  "iperf_get_test_outfile ipt = test_outfile ipt"

definition iperf_get_test_socket_bufsize :: "iperf_test \<Rightarrow> int" where
  "iperf_get_test_socket_bufsize ipt = cfg_socket_bufsize (test_settings ipt)"

definition iperf_get_test_reporter_interval :: "iperf_test \<Rightarrow> double" where
  "iperf_get_test_reporter_interval ipt = test_reporter_interval ipt"

definition iperf_get_test_stats_interval :: "iperf_test \<Rightarrow> double" where
  "iperf_get_test_stats_interval ipt = test_stats_interval ipt"

definition iperf_get_test_num_streams :: "iperf_test \<Rightarrow> int" where
  "iperf_get_test_num_streams ipt = test_num_streams ipt"

definition iperf_get_test_timestamps :: "iperf_test \<Rightarrow> int" where
  "iperf_get_test_timestamps ipt = test_timestamps ipt"

definition iperf_get_test_timestamp_format :: "iperf_test \<Rightarrow> string option" where
  "iperf_get_test_timestamp_format ipt = test_timestamp_format ipt"

definition iperf_get_test_repeating_payload :: "iperf_test \<Rightarrow> int" where
  "iperf_get_test_repeating_payload ipt = test_repeating_payload ipt"

definition iperf_get_test_bind_port :: "iperf_test \<Rightarrow> int" where
  "iperf_get_test_bind_port ipt = test_bind_port ipt"

definition iperf_get_test_server_port :: "iperf_test \<Rightarrow> int" where
  "iperf_get_test_server_port ipt = test_server_port ipt"

definition iperf_get_test_server_hostname :: "iperf_test \<Rightarrow> string option" where
  "iperf_get_test_server_hostname ipt = test_server_hostname ipt"

definition iperf_get_test_template :: "iperf_test \<Rightarrow> string option" where
  "iperf_get_test_template ipt = test_tmp_template ipt"

definition iperf_get_test_json_output :: "iperf_test \<Rightarrow> int" where
  "iperf_get_test_json_output ipt = test_json_output ipt"

definition iperf_get_test_json_output_string :: "iperf_test \<Rightarrow> string option" where
  "iperf_get_test_json_output_string ipt = test_json_output_string ipt"

definition iperf_get_test_json_stream :: "iperf_test \<Rightarrow> int" where
  "iperf_get_test_json_stream ipt = test_json_stream ipt"

definition iperf_get_test_zerocopy :: "iperf_test \<Rightarrow> int" where
  "iperf_get_test_zerocopy ipt = test_zerocopy ipt"

definition iperf_get_test_get_server_output :: "iperf_test \<Rightarrow> int" where
  "iperf_get_test_get_server_output ipt = test_get_server_output ipt"

definition iperf_get_test_unit_format :: "iperf_test \<Rightarrow> char" where
  "iperf_get_test_unit_format ipt = cfg_unit_format (test_settings ipt)"

definition iperf_get_test_bind_address :: "iperf_test \<Rightarrow> string option" where
  "iperf_get_test_bind_address ipt = test_bind_address ipt"

definition iperf_get_test_bind_dev :: "iperf_test \<Rightarrow> string option" where
  "iperf_get_test_bind_dev ipt = test_bind_dev ipt"

definition iperf_get_test_udp_counters_64bit :: "iperf_test \<Rightarrow> int" where
  "iperf_get_test_udp_counters_64bit ipt = test_udp_counters_64bit ipt"

definition iperf_get_test_one_off :: "iperf_test \<Rightarrow> int" where
  "iperf_get_test_one_off ipt = test_one_off ipt"

definition iperf_get_test_tos :: "iperf_test \<Rightarrow> int" where
  "iperf_get_test_tos ipt = cfg_tos (test_settings ipt)"

definition iperf_get_test_extra_data :: "iperf_test \<Rightarrow> string option" where
  "iperf_get_test_extra_data ipt = test_extra_data ipt"

definition iperf_get_test_no_delay :: "iperf_test \<Rightarrow> int" where
  "iperf_get_test_no_delay ipt = test_no_delay ipt"

definition iperf_get_test_connect_timeout :: "iperf_test \<Rightarrow> int" where
  "iperf_get_test_connect_timeout ipt = cfg_connect_timeout (test_settings ipt)"

definition iperf_get_test_idle_timeout :: "iperf_test \<Rightarrow> int" where
  "iperf_get_test_idle_timeout ipt = cfg_idle_timeout (test_settings ipt)"

definition iperf_get_dont_fragment :: "iperf_test \<Rightarrow> int" where
  "iperf_get_dont_fragment ipt = cfg_dont_fragment (test_settings ipt)"

definition iperf_get_test_congestion_control :: "iperf_test \<Rightarrow> string option" where
  "iperf_get_test_congestion_control ipt = test_congestion ipt"

definition iperf_get_test_mss :: "iperf_test \<Rightarrow> int" where
  "iperf_get_test_mss ipt = cfg_mss (test_settings ipt)"

definition iperf_get_mapped_v4 :: "iperf_test \<Rightarrow> int" where
  "iperf_get_mapped_v4 ipt = test_mapped_v4 ipt"

definition iperf_get_test_protocol_id :: "iperf_test \<Rightarrow> int option" where
  "iperf_get_test_protocol_id ipt = map_option prot_id (test_protocol ipt)"

definition iperf_get_test_rcv_timeout :: "iperf_test \<Rightarrow> iperf_time" where
  "iperf_get_test_rcv_timeout ipt = cfg_rcv_timeout (test_settings ipt)"

definition iperf_get_iperf_version :: string where
  "iperf_get_iperf_version = ''3.21''"

section \<open>Setters\<close>

definition iperf_set_verbose :: "iperf_test \<Rightarrow> int \<Rightarrow> iperf_test" where
  "iperf_set_verbose ipt v = ipt\<lparr>test_verbose := v\<rparr>"

definition iperf_set_control_socket :: "iperf_test \<Rightarrow> int \<Rightarrow> iperf_test" where
  "iperf_set_control_socket ipt v = ipt\<lparr>test_ctrl_sck := v\<rparr>"

definition iperf_set_test_omit :: "iperf_test \<Rightarrow> int \<Rightarrow> iperf_test" where
  "iperf_set_test_omit ipt v = ipt\<lparr>test_omit := v\<rparr>"

definition iperf_set_test_duration :: "iperf_test \<Rightarrow> int \<Rightarrow> iperf_test" where
  "iperf_set_test_duration ipt v = ipt\<lparr>test_duration := v\<rparr>"

definition iperf_set_test_reporter_interval :: "iperf_test \<Rightarrow> double \<Rightarrow> iperf_test" where
  "iperf_set_test_reporter_interval ipt v = ipt\<lparr>test_reporter_interval := v\<rparr>"

definition iperf_set_test_stats_interval :: "iperf_test \<Rightarrow> double \<Rightarrow> iperf_test" where
  "iperf_set_test_stats_interval ipt v = ipt\<lparr>test_stats_interval := v\<rparr>"

definition iperf_set_test_blksize :: "iperf_test \<Rightarrow> int \<Rightarrow> iperf_test" where
  "iperf_set_test_blksize ipt v = ipt\<lparr>test_settings := (test_settings ipt)\<lparr>cfg_blksize := v\<rparr>\<rparr>"

definition iperf_set_test_logfile :: "iperf_test \<Rightarrow> string \<Rightarrow> iperf_test" where
  "iperf_set_test_logfile ipt v = ipt\<lparr>test_logfile := Some v\<rparr>"

definition iperf_set_test_rate :: "iperf_test \<Rightarrow> u64 \<Rightarrow> iperf_test" where
  "iperf_set_test_rate ipt v = ipt\<lparr>test_settings := (test_settings ipt)\<lparr>cfg_rate := v\<rparr>\<rparr>"

definition iperf_set_test_bitrate_limit_maximum :: "iperf_test \<Rightarrow> u64 \<Rightarrow> iperf_test" where
  "iperf_set_test_bitrate_limit_maximum ipt v = ipt\<lparr>test_settings := (test_settings ipt)\<lparr>cfg_bitrate_limit := v\<rparr>\<rparr>"

definition iperf_set_test_bitrate_limit_interval :: "iperf_test \<Rightarrow> u64 \<Rightarrow> iperf_test" where
  "iperf_set_test_bitrate_limit_interval ipt v = ipt\<lparr>test_settings := (test_settings ipt)\<lparr>cfg_bitrate_limit_interval := u64_to_double v\<rparr>\<rparr>"

definition iperf_set_test_bitrate_limit_stats_per_interval :: "iperf_test \<Rightarrow> u64 \<Rightarrow> iperf_test" where
  "iperf_set_test_bitrate_limit_stats_per_interval ipt v = ipt\<lparr>test_settings := (test_settings ipt)\<lparr>cfg_bitrate_limit_stats_per_interval := to_long (uint v)\<rparr>\<rparr>"

definition iperf_set_test_fqrate :: "iperf_test \<Rightarrow> u64 \<Rightarrow> iperf_test" where
  "iperf_set_test_fqrate ipt v = ipt\<lparr>test_settings := (test_settings ipt)\<lparr>cfg_fqrate := v\<rparr>\<rparr>"

definition iperf_set_test_pacing_timer :: "iperf_test \<Rightarrow> int \<Rightarrow> iperf_test" where
  "iperf_set_test_pacing_timer ipt v = ipt\<lparr>test_settings := (test_settings ipt)\<lparr>cfg_pacing_timer := v\<rparr>\<rparr>"

definition iperf_set_test_bytes :: "iperf_test \<Rightarrow> u64 \<Rightarrow> iperf_test" where
  "iperf_set_test_bytes ipt v = ipt\<lparr>test_settings := (test_settings ipt)\<lparr>cfg_bytes := v\<rparr>\<rparr>"

definition iperf_set_test_blocks :: "iperf_test \<Rightarrow> u64 \<Rightarrow> iperf_test" where
  "iperf_set_test_blocks ipt v = ipt\<lparr>test_settings := (test_settings ipt)\<lparr>cfg_blocks := v\<rparr>\<rparr>"

definition iperf_set_test_burst :: "iperf_test \<Rightarrow> int \<Rightarrow> iperf_test" where
  "iperf_set_test_burst ipt v = ipt\<lparr>test_settings := (test_settings ipt)\<lparr>cfg_burst := v\<rparr>\<rparr>"

definition iperf_set_test_bind_port :: "iperf_test \<Rightarrow> int \<Rightarrow> iperf_test" where
  "iperf_set_test_bind_port ipt v = ipt\<lparr>test_bind_port := v\<rparr>"

definition iperf_set_test_server_port :: "iperf_test \<Rightarrow> int \<Rightarrow> iperf_test" where
  "iperf_set_test_server_port ipt v = ipt\<lparr>test_server_port := v\<rparr>"

definition iperf_set_test_socket_bufsize :: "iperf_test \<Rightarrow> int \<Rightarrow> iperf_test" where
  "iperf_set_test_socket_bufsize ipt v = ipt\<lparr>test_settings := (test_settings ipt)\<lparr>cfg_socket_bufsize := v\<rparr>\<rparr>"

definition iperf_set_test_num_streams :: "iperf_test \<Rightarrow> int \<Rightarrow> iperf_test" where
  "iperf_set_test_num_streams ipt v = ipt\<lparr>test_num_streams := v\<rparr>"

definition iperf_set_test_repeating_payload :: "iperf_test \<Rightarrow> int \<Rightarrow> iperf_test" where
  "iperf_set_test_repeating_payload ipt v = ipt\<lparr>test_repeating_payload := v\<rparr>"

definition iperf_set_test_timestamps :: "iperf_test \<Rightarrow> int \<Rightarrow> iperf_test" where
  "iperf_set_test_timestamps ipt v = ipt\<lparr>test_timestamps := v\<rparr>"

definition iperf_set_test_timestamp_format :: "iperf_test \<Rightarrow> string \<Rightarrow> iperf_test" where
  "iperf_set_test_timestamp_format ipt v = ipt\<lparr>test_timestamp_format := Some v\<rparr>"

definition iperf_set_mapped_v4 :: "iperf_test \<Rightarrow> int \<Rightarrow> iperf_test" where
  "iperf_set_mapped_v4 ipt v = ipt\<lparr>test_mapped_v4 := v\<rparr>"

definition iperf_set_on_new_stream_callback :: "iperf_test \<Rightarrow> nat option \<Rightarrow> iperf_test" where
  "iperf_set_on_new_stream_callback ipt v = ipt\<lparr>test_on_new_stream := v\<rparr>"

definition iperf_set_on_test_start_callback :: "iperf_test \<Rightarrow> nat option \<Rightarrow> iperf_test" where
  "iperf_set_on_test_start_callback ipt v = ipt\<lparr>test_on_test_start := v\<rparr>"

definition iperf_set_on_test_connect_callback :: "iperf_test \<Rightarrow> nat option \<Rightarrow> iperf_test" where
  "iperf_set_on_test_connect_callback ipt v = ipt\<lparr>test_on_connect := v\<rparr>"

definition iperf_set_on_test_finish_callback :: "iperf_test \<Rightarrow> nat option \<Rightarrow> iperf_test" where
  "iperf_set_on_test_finish_callback ipt v = ipt\<lparr>test_on_test_finish := v\<rparr>"

definition iperf_set_test_server_hostname :: "iperf_test \<Rightarrow> string \<Rightarrow> iperf_test" where
  "iperf_set_test_server_hostname ipt v = ipt\<lparr>test_server_hostname := Some v\<rparr>"

definition iperf_set_test_template :: "iperf_test \<Rightarrow> string \<Rightarrow> iperf_test" where
  "iperf_set_test_template ipt v = ipt\<lparr>test_tmp_template := Some v\<rparr>"

definition iperf_set_test_json_output :: "iperf_test \<Rightarrow> int \<Rightarrow> iperf_test" where
  "iperf_set_test_json_output ipt v = ipt\<lparr>test_json_output := v\<rparr>"

definition iperf_set_test_json_stream :: "iperf_test \<Rightarrow> int \<Rightarrow> iperf_test" where
  "iperf_set_test_json_stream ipt v = ipt\<lparr>test_json_stream := v\<rparr>"

definition iperf_set_test_json_stream_full_output :: "iperf_test \<Rightarrow> int \<Rightarrow> iperf_test" where
  "iperf_set_test_json_stream_full_output ipt v = ipt\<lparr>test_json_stream_full_output := v\<rparr>"

definition iperf_set_test_json_callback :: "iperf_test \<Rightarrow> nat option \<Rightarrow> iperf_test" where
  "iperf_set_test_json_callback ipt v = ipt\<lparr>test_json_callback := v\<rparr>"

definition iperf_set_test_get_server_output :: "iperf_test \<Rightarrow> int \<Rightarrow> iperf_test" where
  "iperf_set_test_get_server_output ipt v = ipt\<lparr>test_get_server_output := v\<rparr>"

definition iperf_set_test_unit_format :: "iperf_test \<Rightarrow> char \<Rightarrow> iperf_test" where
  "iperf_set_test_unit_format ipt v = ipt\<lparr>test_settings := (test_settings ipt)\<lparr>cfg_unit_format := v\<rparr>\<rparr>"

definition iperf_set_test_bind_address :: "iperf_test \<Rightarrow> string \<Rightarrow> iperf_test" where
  "iperf_set_test_bind_address ipt v = ipt\<lparr>test_bind_address := Some v\<rparr>"

definition iperf_set_test_bind_dev :: "iperf_test \<Rightarrow> string \<Rightarrow> iperf_test" where
  "iperf_set_test_bind_dev ipt v = ipt\<lparr>test_bind_dev := Some v\<rparr>"

definition iperf_set_test_udp_counters_64bit :: "iperf_test \<Rightarrow> int \<Rightarrow> iperf_test" where
  "iperf_set_test_udp_counters_64bit ipt v = ipt\<lparr>test_udp_counters_64bit := v\<rparr>"

definition iperf_set_test_one_off :: "iperf_test \<Rightarrow> int \<Rightarrow> iperf_test" where
  "iperf_set_test_one_off ipt v = ipt\<lparr>test_one_off := v\<rparr>"

definition iperf_set_test_tos :: "iperf_test \<Rightarrow> int \<Rightarrow> iperf_test" where
  "iperf_set_test_tos ipt v = ipt\<lparr>test_settings := (test_settings ipt)\<lparr>cfg_tos := v\<rparr>\<rparr>"

definition iperf_set_test_extra_data :: "iperf_test \<Rightarrow> string \<Rightarrow> iperf_test" where
  "iperf_set_test_extra_data ipt v = ipt\<lparr>test_extra_data := Some v\<rparr>"

definition iperf_set_test_no_delay :: "iperf_test \<Rightarrow> int \<Rightarrow> iperf_test" where
  "iperf_set_test_no_delay ipt v = ipt\<lparr>test_no_delay := v\<rparr>"

definition iperf_set_test_connect_timeout :: "iperf_test \<Rightarrow> int \<Rightarrow> iperf_test" where
  "iperf_set_test_connect_timeout ipt v = ipt\<lparr>test_settings := (test_settings ipt)\<lparr>cfg_connect_timeout := v\<rparr>\<rparr>"

definition iperf_set_test_idle_timeout :: "iperf_test \<Rightarrow> int \<Rightarrow> iperf_test" where
  "iperf_set_test_idle_timeout ipt v = ipt\<lparr>test_settings := (test_settings ipt)\<lparr>cfg_idle_timeout := v\<rparr>\<rparr>"

definition iperf_set_dont_fragment :: "iperf_test \<Rightarrow> int \<Rightarrow> iperf_test" where
  "iperf_set_dont_fragment ipt v = ipt\<lparr>test_settings := (test_settings ipt)\<lparr>cfg_dont_fragment := v\<rparr>\<rparr>"

definition iperf_set_test_congestion_control :: "iperf_test \<Rightarrow> string \<Rightarrow> iperf_test" where
  "iperf_set_test_congestion_control ipt v = ipt\<lparr>test_congestion := Some v\<rparr>"

definition iperf_set_test_mss :: "iperf_test \<Rightarrow> int \<Rightarrow> iperf_test" where
  "iperf_set_test_mss ipt v = ipt\<lparr>test_settings := (test_settings ipt)\<lparr>cfg_mss := v\<rparr>\<rparr>"

text \<open>
  The functions of \<open>tcp_info.c\<close> depend on whether the headers of the platform define both
  \<open>SIO_TCP_INFO\<close> and \<open>TCP_INFO_v0\<close> as macros: \<open>sdk\<close>. The number of retransmissions is not known either way.
\<close>

definition has_tcpinfo :: "bool \<Rightarrow> int" where "has_tcpinfo sdk = (if sdk then 1 else 0)"
definition has_tcpinfo_retransmits :: int where "has_tcpinfo_retransmits = 0"

definition check_sender_has_retransmits :: "iperf_test \<Rightarrow> iperf_test" where
  "check_sender_has_retransmits ipt =
     ipt\<lparr>test_sender_has_retransmits :=
       (if test_mode ipt \<noteq> RECEIVER \<and> map_option prot_id (test_protocol ipt) = Some Ptcp \<and> has_tcpinfo_retransmits \<noteq> 0
        then 1 else 0)\<rparr>"

definition iperf_set_test_state :: "iperf_test \<Rightarrow> int \<Rightarrow> iperf_test" where
  "iperf_set_test_state ipt v = ipt\<lparr>test_state := v\<rparr>"

definition iperf_set_test_role :: "iperf_test \<Rightarrow> char \<Rightarrow> iperf_test" where
  "iperf_set_test_role ipt role =
     (let ipt = ipt\<lparr>test_role := Some role\<rparr>;
          mode = (if test_reverse ipt = 0 then
                    (if test_bidirectional ipt \<noteq> 0 then BIDIRECTIONAL
                     else if role = CHR ''c'' then SENDER
                     else if role = CHR ''s'' then RECEIVER else test_mode ipt)
                  else
                    (if role = CHR ''c'' then RECEIVER
                     else if role = CHR ''s'' then SENDER else test_mode ipt))
      in check_sender_has_retransmits (ipt\<lparr>test_mode := mode\<rparr>))"

definition iperf_set_test_reverse :: "iperf_test \<Rightarrow> int \<Rightarrow> iperf_test" where
  "iperf_set_test_reverse ipt reverse =
     (let ipt = ipt\<lparr>test_reverse := reverse\<rparr>;
          mode = (if reverse = 0 then
                    (if test_role ipt = Some CHR ''c'' then SENDER
                     else if test_role ipt = Some CHR ''s'' then RECEIVER else test_mode ipt)
                  else
                    (if test_role ipt = Some CHR ''c'' then RECEIVER
                     else if test_role ipt = Some CHR ''s'' then SENDER else test_mode ipt))
      in check_sender_has_retransmits (ipt\<lparr>test_mode := mode\<rparr>))"

definition iperf_has_zerocopy :: int where
  "iperf_has_zerocopy = has_sendfile"

definition iperf_set_test_zerocopy :: "iperf_test \<Rightarrow> int \<Rightarrow> iperf_test" where
  "iperf_set_test_zerocopy ipt zerocopy =
     ipt\<lparr>test_zerocopy := (if zerocopy \<noteq> 0 \<and> has_sendfile \<noteq> 0 then 1 else 0)\<rparr>"

definition iperf_set_test_bidirectional :: "iperf_test \<Rightarrow> int \<Rightarrow> iperf_test" where
  "iperf_set_test_bidirectional ipt bidirectional =
     (let ipt = ipt\<lparr>test_bidirectional := bidirectional\<rparr>
      in if bidirectional \<noteq> 0 then ipt\<lparr>test_mode := BIDIRECTIONAL\<rparr>
         else iperf_set_test_reverse ipt (test_reverse ipt))"

definition iperf_set_test_rcv_timeout :: "iperf_test \<Rightarrow> iperf_time \<Rightarrow> iperf_test" where
  "iperf_set_test_rcv_timeout ipt to =
     ipt\<lparr>test_settings := (test_settings ipt)\<lparr>cfg_rcv_timeout := \<lparr>secs = secs to, usecs = usecs to\<rparr>\<rparr>\<rparr>"

section \<open>Protocols\<close>

definition get_protocol :: "int \<Rightarrow> ('z world_scheme, protocol option) state" where
  "get_protocol prot_id' = do {
     prot \<leftarrow> reads (\<lambda>s. find (\<lambda>p. prot_id p = prot_id') (test_protocols (the_test s)));
     _ \<leftarrow> (if prot = None then set_i_errno IEPROTOCOL else State_Monad.return ());
     State_Monad.return prot }"

definition set_protocol :: "int \<Rightarrow> ('z world_scheme, int) state" where
  "set_protocol prot_id' = do {
     prot \<leftarrow> reads (\<lambda>s. find (\<lambda>p. prot_id p = prot_id') (test_protocols (the_test s)));
     case prot of
       Some p \<Rightarrow> do {
         _ \<leftarrow> update_state (the_test_update (\<lambda>t. check_sender_has_retransmits (t\<lparr>test_protocol := Some p\<rparr>)));
         State_Monad.return 0 }
     | None \<Rightarrow> do {
         _ \<leftarrow> set_i_errno IEPROTOCOL;
         State_Monad.return (- 1) } }"

section \<open>The accessor contract\<close>

text \<open>
  A field of a test: reading gives what was written last, writing back what was read changes
  nothing, and only the last write counts.
\<close>

locale field =
  fixes get :: "'s \<Rightarrow> 'v" and put :: "'s \<Rightarrow> 'v \<Rightarrow> 's"
  assumes get_put: "get (put s v) = v"
    and put_get: "put s (get s) = s"
    and put_put: "put (put s v) w = put s w"
begin

lemma put_inject: "put s v = put s w \<longleftrightarrow> v = w"
  by (metis get_put)

lemma put_same: "get s = v \<Longrightarrow> put s v = s"
  using put_get by blast

lemma get_put_iff: "get (put s v) = get (put t w) \<longleftrightarrow> v = w"
  by (simp add: get_put)

end

text \<open>Two fields that do not share storage: writing one is not seen by the other, and the order of writes is immaterial.\<close>

locale two_fields = a: field get1 put1 + b: field get2 put2
  for get1 :: "'s \<Rightarrow> 'v" and put1 :: "'s \<Rightarrow> 'v \<Rightarrow> 's" and get2 :: "'s \<Rightarrow> 'u" and put2 :: "'s \<Rightarrow> 'u \<Rightarrow> 's" +
  assumes commute: "put1 (put2 s u) v = put2 (put1 s v) u"
begin

lemma get2_put1: "get2 (put1 s v) = get2 s"
  by (metis b.get_put b.put_get commute)

lemma get1_put2: "get1 (put2 s u) = get1 s"
  by (metis a.get_put a.put_get commute)

end

interpretation fld_verbose: field iperf_get_verbose iperf_set_verbose
  by unfold_locales (simp_all add: iperf_get_verbose_def iperf_set_verbose_def)

interpretation fld_ctrl_sck: field iperf_get_control_socket iperf_set_control_socket
  by unfold_locales (simp_all add: iperf_get_control_socket_def iperf_set_control_socket_def)

interpretation fld_omit: field iperf_get_test_omit iperf_set_test_omit
  by unfold_locales (simp_all add: iperf_get_test_omit_def iperf_set_test_omit_def)

interpretation fld_duration: field iperf_get_test_duration iperf_set_test_duration
  by unfold_locales (simp_all add: iperf_get_test_duration_def iperf_set_test_duration_def)

interpretation fld_reporter_interval: field iperf_get_test_reporter_interval iperf_set_test_reporter_interval
  by unfold_locales (simp_all add: iperf_get_test_reporter_interval_def iperf_set_test_reporter_interval_def)

interpretation fld_stats_interval: field iperf_get_test_stats_interval iperf_set_test_stats_interval
  by unfold_locales (simp_all add: iperf_get_test_stats_interval_def iperf_set_test_stats_interval_def)

interpretation fld_blksize: field iperf_get_test_blksize iperf_set_test_blksize
  by unfold_locales (simp_all add: iperf_get_test_blksize_def iperf_set_test_blksize_def)

interpretation fld_rate: field iperf_get_test_rate iperf_set_test_rate
  by unfold_locales (simp_all add: iperf_get_test_rate_def iperf_set_test_rate_def)

interpretation fld_bitrate_limit: field iperf_get_test_bitrate_limit iperf_set_test_bitrate_limit_maximum
  by unfold_locales (simp_all add: iperf_get_test_bitrate_limit_def iperf_set_test_bitrate_limit_maximum_def)

interpretation fld_fqrate: field iperf_get_test_fqrate iperf_set_test_fqrate
  by unfold_locales (simp_all add: iperf_get_test_fqrate_def iperf_set_test_fqrate_def)

interpretation fld_pacing_timer: field iperf_get_test_pacing_timer iperf_set_test_pacing_timer
  by unfold_locales (simp_all add: iperf_get_test_pacing_timer_def iperf_set_test_pacing_timer_def)

interpretation fld_bytes: field iperf_get_test_bytes iperf_set_test_bytes
  by unfold_locales (simp_all add: iperf_get_test_bytes_def iperf_set_test_bytes_def)

interpretation fld_blocks: field iperf_get_test_blocks iperf_set_test_blocks
  by unfold_locales (simp_all add: iperf_get_test_blocks_def iperf_set_test_blocks_def)

interpretation fld_burst: field iperf_get_test_burst iperf_set_test_burst
  by unfold_locales (simp_all add: iperf_get_test_burst_def iperf_set_test_burst_def)

interpretation fld_bind_port: field iperf_get_test_bind_port iperf_set_test_bind_port
  by unfold_locales (simp_all add: iperf_get_test_bind_port_def iperf_set_test_bind_port_def)

interpretation fld_server_port: field iperf_get_test_server_port iperf_set_test_server_port
  by unfold_locales (simp_all add: iperf_get_test_server_port_def iperf_set_test_server_port_def)

interpretation fld_socket_bufsize: field iperf_get_test_socket_bufsize iperf_set_test_socket_bufsize
  by unfold_locales (simp_all add: iperf_get_test_socket_bufsize_def iperf_set_test_socket_bufsize_def)

interpretation fld_num_streams: field iperf_get_test_num_streams iperf_set_test_num_streams
  by unfold_locales (simp_all add: iperf_get_test_num_streams_def iperf_set_test_num_streams_def)

interpretation fld_repeating_payload: field iperf_get_test_repeating_payload iperf_set_test_repeating_payload
  by unfold_locales (simp_all add: iperf_get_test_repeating_payload_def iperf_set_test_repeating_payload_def)

interpretation fld_timestamps: field iperf_get_test_timestamps iperf_set_test_timestamps
  by unfold_locales (simp_all add: iperf_get_test_timestamps_def iperf_set_test_timestamps_def)

interpretation fld_mapped_v4: field iperf_get_mapped_v4 iperf_set_mapped_v4
  by unfold_locales (simp_all add: iperf_get_mapped_v4_def iperf_set_mapped_v4_def)

interpretation fld_json_output: field iperf_get_test_json_output iperf_set_test_json_output
  by unfold_locales (simp_all add: iperf_get_test_json_output_def iperf_set_test_json_output_def)

interpretation fld_json_stream: field iperf_get_test_json_stream iperf_set_test_json_stream
  by unfold_locales (simp_all add: iperf_get_test_json_stream_def iperf_set_test_json_stream_def)

interpretation fld_get_server_output: field iperf_get_test_get_server_output iperf_set_test_get_server_output
  by unfold_locales (simp_all add: iperf_get_test_get_server_output_def iperf_set_test_get_server_output_def)

interpretation fld_unit_format: field iperf_get_test_unit_format iperf_set_test_unit_format
  by unfold_locales (simp_all add: iperf_get_test_unit_format_def iperf_set_test_unit_format_def)

interpretation fld_udp_counters_64bit: field iperf_get_test_udp_counters_64bit iperf_set_test_udp_counters_64bit
  by unfold_locales (simp_all add: iperf_get_test_udp_counters_64bit_def iperf_set_test_udp_counters_64bit_def)

interpretation fld_one_off: field iperf_get_test_one_off iperf_set_test_one_off
  by unfold_locales (simp_all add: iperf_get_test_one_off_def iperf_set_test_one_off_def)

interpretation fld_tos: field iperf_get_test_tos iperf_set_test_tos
  by unfold_locales (simp_all add: iperf_get_test_tos_def iperf_set_test_tos_def)

interpretation fld_no_delay: field iperf_get_test_no_delay iperf_set_test_no_delay
  by unfold_locales (simp_all add: iperf_get_test_no_delay_def iperf_set_test_no_delay_def)

interpretation fld_connect_timeout: field iperf_get_test_connect_timeout iperf_set_test_connect_timeout
  by unfold_locales (simp_all add: iperf_get_test_connect_timeout_def iperf_set_test_connect_timeout_def)

interpretation fld_idle_timeout: field iperf_get_test_idle_timeout iperf_set_test_idle_timeout
  by unfold_locales (simp_all add: iperf_get_test_idle_timeout_def iperf_set_test_idle_timeout_def)

interpretation fld_dont_fragment: field iperf_get_dont_fragment iperf_set_dont_fragment
  by unfold_locales (simp_all add: iperf_get_dont_fragment_def iperf_set_dont_fragment_def)

interpretation fld_mss: field iperf_get_test_mss iperf_set_test_mss
  by unfold_locales (simp_all add: iperf_get_test_mss_def iperf_set_test_mss_def)

interpretation rate_and_burst: two_fields iperf_get_test_rate iperf_set_test_rate iperf_get_test_burst iperf_set_test_burst
  by unfold_locales (simp_all add: iperf_set_test_rate_def iperf_set_test_burst_def)

interpretation duration_and_bytes: two_fields iperf_get_test_duration iperf_set_test_duration iperf_get_test_bytes iperf_set_test_bytes
  by unfold_locales (simp_all add: iperf_set_test_duration_def iperf_set_test_bytes_def)

interpretation bytes_and_blocks: two_fields iperf_get_test_bytes iperf_set_test_bytes iperf_get_test_blocks iperf_set_test_blocks
  by unfold_locales (simp_all add: iperf_set_test_bytes_def iperf_set_test_blocks_def)

section \<open>Properties\<close>

text \<open>
  The direction of the data flow that the options ask for: both ways for \<open>--bidir\<close>; otherwise the
  client sends and the server receives, and the other way round for \<open>--reverse\<close>.
\<close>

definition asked_mode :: "char \<Rightarrow> int \<Rightarrow> int \<Rightarrow> int" where
  "asked_mode role reverse bidirectional =
     (if bidirectional \<noteq> 0 then BIDIRECTIONAL
      else if (role = CHR ''c'') = (reverse = 0) then SENDER else RECEIVER)"

definition mode_ok :: "iperf_test \<Rightarrow> bool" where
  "mode_ok t \<longleftrightarrow> (\<exists>role. test_role t = Some role \<and> (role = CHR ''c'' \<or> role = CHR ''s'')
     \<and> test_mode t = asked_mode role (test_reverse t) (test_bidirectional t))"

text \<open>
  C33: setting the role makes the mode agree with the options (which exclude reverse together with
  bidirectional), and from then on setting or clearing reverse or bidirectional keeps it in
  agreement; client and server with the same options always have opposite modes, so exactly one
  of them sends, or both do.
\<close>

theorem mode_follows_options:
  "((r = CHR ''c'' \<or> r = CHR ''s'') \<and> (test_reverse t = 0 \<or> test_bidirectional t = 0) \<longrightarrow> mode_ok (iperf_set_test_role t r))
   \<and> (mode_ok t \<and> test_bidirectional t = 0 \<longrightarrow> mode_ok (iperf_set_test_reverse t v))
   \<and> (mode_ok t \<longrightarrow> mode_ok (iperf_set_test_bidirectional t v))
   \<and> (asked_mode CHR ''c'' v w = SENDER \<longleftrightarrow> asked_mode CHR ''s'' v w = RECEIVER)"
  by (auto simp: mode_ok_def asked_mode_def iperf_set_test_role_def iperf_set_test_reverse_def
      iperf_set_test_bidirectional_def check_sender_has_retransmits_def Let_def)

theorem mode_follows_options_witness:
  "mode_ok (iperf_set_test_role zero_test CHR ''s'')
   \<and> mode_ok (iperf_set_test_bidirectional (iperf_set_test_role zero_test CHR ''c'') 1)
   \<and> mode_ok (iperf_set_test_reverse (iperf_set_test_role zero_test CHR ''c'') 1)"
proof -
  have z: "test_reverse zero_test = 0" "test_bidirectional zero_test = 0"
    by (simp_all add: zero_test_def)
  then have ok: "mode_ok (iperf_set_test_role zero_test CHR ''c'')" "mode_ok (iperf_set_test_role zero_test CHR ''s'')"
    using mode_follows_options [of "CHR ''c''" zero_test] mode_follows_options [of "CHR ''s''" zero_test] by simp_all
  moreover have "test_bidirectional (iperf_set_test_role zero_test CHR ''c'') = 0"
    using z by (simp add: iperf_set_test_role_def check_sender_has_retransmits_def Let_def)
  ultimately show ?thesis
    using mode_follows_options [of _ "iperf_set_test_role zero_test CHR ''c''" 1] by simp
qed

text \<open>
  calling \<open>iperf_set_test_reverse\<close> on a bidirectional test, even to clear reverse, drops the
  bidirectional mode although the option stays set: the mode becomes one-way.
\<close>

lemma set_reverse_drops_bidirectional:
  assumes "mode_ok t" and "test_bidirectional t \<noteq> 0"
  shows "test_mode (iperf_set_test_reverse t v) \<noteq> BIDIRECTIONAL
    \<and> test_bidirectional (iperf_set_test_reverse t v) \<noteq> 0 \<and> \<not> mode_ok (iperf_set_test_reverse t v)"
  using assms
  by (auto simp: mode_ok_def asked_mode_def iperf_set_test_reverse_def check_sender_has_retransmits_def Let_def)

theorem set_reverse_drops_bidirectional_witness:
  "test_mode (iperf_set_test_reverse (zero_test\<lparr>test_role := Some CHR ''c'', test_bidirectional := 1, test_mode := BIDIRECTIONAL\<rparr>) 0)
    \<noteq> BIDIRECTIONAL"
  using set_reverse_drops_bidirectional
    [of "zero_test\<lparr>test_role := Some CHR ''c'', test_bidirectional := 1, test_mode := BIDIRECTIONAL\<rparr>" 0]
  by (simp add: mode_ok_def asked_mode_def zero_test_def)

text \<open>
  selecting a protocol picks the first registered one with that number and succeeds, or leaves
  the test alone and reports \<open>IEPROTOCOL\<close> when there is none.
\<close>

lemma set_protocol_spec:
  "run_state (set_protocol i) s =
     (case find (\<lambda>p. prot_id p = i) (test_protocols (the_test s)) of
        Some p \<Rightarrow> (0, s\<lparr>the_test := (the_test s)\<lparr>test_protocol := Some p, test_sender_has_retransmits := 0\<rparr>\<rparr>)
      | None \<Rightarrow> (- 1, s\<lparr>i_errno := IEPROTOCOL\<rparr>))"
  by (auto simp: set_protocol_def check_sender_has_retransmits_def has_tcpinfo_retransmits_def split: option.splits)

end
