(* ===== verification/Endian.thy ===== *)
theory Endian
  imports Prelude
begin

unbundle bit_operations_syntax

text \<open>
  The byte order of integers: the network order of \<open>htonl\<close> and \<open>htobe64\<close>, and the little-endian
  order in which the host stores integers it sends as they are.
\<close>

section \<open>Encodings\<close>

definition le32 :: "u32 \<Rightarrow> byte list" where
  "le32 w = [ucast w, ucast (drop_bit 8 w), ucast (drop_bit 16 w), ucast (drop_bit 24 w)]"

definition be32 :: "u32 \<Rightarrow> byte list" where
  "be32 w = rev (le32 w)"

definition le64 :: "u64 \<Rightarrow> byte list" where
  "le64 w = map (\<lambda>i. ucast (drop_bit (8 * i) w)) [0, 1, 2, 3, 4, 5, 6, 7]"

definition be64 :: "u64 \<Rightarrow> byte list" where
  "be64 w = rev (le64 w)"

fun from_le32 :: "byte list \<Rightarrow> u32" where
  "from_le32 [] = 0"
| "from_le32 (b # bs) = ucast b OR push_bit 8 (from_le32 bs)"

fun from_le64 :: "byte list \<Rightarrow> u64" where
  "from_le64 [] = 0"
| "from_le64 (b # bs) = ucast b OR push_bit 8 (from_le64 bs)"

definition from_be32 :: "byte list \<Rightarrow> u32" where
  "from_be32 bs = from_le32 (rev bs)"

definition from_be64 :: "byte list \<Rightarrow> u64" where
  "from_be64 bs = from_le64 (rev bs)"

section \<open>Facts\<close>

lemma length_encodings [simp]: "length (le32 w) = 4" "length (be32 w) = 4" "length (le64 v) = 8" "length (be64 v) = 8"
  by (simp_all add: le32_def be32_def le64_def be64_def)

lemma split_byte_u32: "ucast (ucast w :: byte) OR push_bit 8 (drop_bit 8 w) = (w :: u32)"
proof (rule bit_word_eqI)
  fix n
  show "bit (ucast (ucast w :: byte) OR push_bit 8 (drop_bit 8 w)) n = bit w n" if "n < LENGTH(32)"
    using that by (cases "n < 8") (auto simp: bit_simps)
qed

lemma split_byte_u64: "ucast (ucast w :: byte) OR push_bit 8 (drop_bit 8 w) = (w :: u64)"
proof (rule bit_word_eqI)
  fix n
  show "bit (ucast (ucast w :: byte) OR push_bit 8 (drop_bit 8 w)) n = bit w n" if "n < LENGTH(64)"
    using that by (cases "n < 8") (auto simp: bit_simps)
qed

lemma from_le32_le32 [simp]: "from_le32 (le32 w) = w"
proof -
  have "drop_bit 32 w = 0" by (rule bit_word_eqI) (auto simp: bit_simps dest: bit_imp_le_length)
  then show ?thesis
    using split_byte_u32 [of w] split_byte_u32 [of "drop_bit 8 w"] split_byte_u32 [of "drop_bit 16 w"]
      split_byte_u32 [of "drop_bit 24 w"]
    by (simp add: le32_def)
qed

lemma from_le64_le64 [simp]: "from_le64 (le64 w) = w"
proof -
  have "drop_bit 64 w = 0" by (rule bit_word_eqI) (auto simp: bit_simps dest: bit_imp_le_length)
  then show ?thesis
    using split_byte_u64 [of w] split_byte_u64 [of "drop_bit 8 w"] split_byte_u64 [of "drop_bit 16 w"]
      split_byte_u64 [of "drop_bit 24 w"] split_byte_u64 [of "drop_bit 32 w"] split_byte_u64 [of "drop_bit 40 w"]
      split_byte_u64 [of "drop_bit 48 w"] split_byte_u64 [of "drop_bit 56 w"]
    by (simp add: le64_def)
qed

lemma from_be_be [simp]: "from_be32 (be32 w) = w" "from_be64 (be64 v) = v"
  by (simp_all add: from_be32_def from_be64_def be32_def be64_def)

end
