(* ===== verification/Udp.thy ===== *)
theory Udp
  imports Api Endian
begin

unbundle bit_operations_syntax

text \<open>
  The UDP streams of \<open>iperf_udp.c\<close>. A function on a stream returns the changed stream with its
  result; the test is part of the state. Sequence numbers and loss counters are 64-bit words: the
  source mixes \<open>int64_t\<close> counters with \<open>uint64_t\<close> packet numbers, so its comparisons are
  unsigned, except the test of \<open>cnt_error\<close> against zero.
\<close>

section \<open>Packet headers\<close>

text \<open>The header at the front of a datagram: time of sending and packet number, with 64 or 32 bits.\<close>

definition write_header :: "bool \<Rightarrow> iperf_time \<Rightarrow> i64 \<Rightarrow> byte list \<Rightarrow> byte list" where
  "write_header wide before packet_count buf =
     (let h = be32 (secs before) @ be32 (usecs before)
              @ (if wide then be64 packet_count else be32 (ucast packet_count))
      in h @ drop (length h) buf)"

definition read_header :: "bool \<Rightarrow> byte list \<Rightarrow> iperf_time \<times> u64" where
  "read_header wide buf =
     (\<lparr>secs = from_be32 (take 4 buf), usecs = from_be32 (take 4 (drop 4 buf))\<rparr>,
      if wide then from_be64 (take 8 (drop 8 buf)) else ucast (from_be32 (take 4 (drop 8 buf))))"

section \<open>Receiving\<close>

text \<open>Sequence tracking: highest number seen, losses, packets out of order.\<close>

record seq_state =
  sq_packet_count :: i64
  sq_cnt_error :: i64
  sq_outoforder :: i64

definition seq_step :: "u64 \<Rightarrow> seq_state \<Rightarrow> seq_state" where
  "seq_step pcount sq =
     (if pcount \<ge> sq_packet_count sq + 1 then
        sq\<lparr>sq_cnt_error := (if pcount > sq_packet_count sq + 1
                           then sq_cnt_error sq + ((pcount - 1) - sq_packet_count sq) else sq_cnt_error sq),
           sq_packet_count := pcount\<rparr>
      else
        sq\<lparr>sq_outoforder := sq_outoforder sq + 1,
           sq_cnt_error := (if sint (sq_cnt_error sq) > 0 then sq_cnt_error sq - 1 else sq_cnt_error sq)\<rparr>)"

text \<open>The smoothed jitter of RFC 1889: \<open>prev\<close> is the transit time of the previous packet.\<close>

definition jitter_step :: "bool \<Rightarrow> double \<Rightarrow> double \<Rightarrow> double \<Rightarrow> double" where
  "jitter_step first_packet transit prev jitter =
     (let prev = (if first_packet then transit else prev);
          d = fl64 (transit - prev);
          d = (if d < 0 then - d else d)
      in fl64 (jitter + fl64 (fl64 (d - jitter) / 16)))"

definition get_seq :: "iperf_stream \<Rightarrow> seq_state" where
  "get_seq sp = \<lparr>sq_packet_count = sp_packet_count sp, sq_cnt_error = sp_cnt_error sp, sq_outoforder = sp_outoforder_packets sp\<rparr>"

definition put_seq :: "seq_state \<Rightarrow> iperf_stream \<Rightarrow> iperf_stream" where
  "put_seq sq sp = sp\<lparr>sp_packet_count := sq_packet_count sq, sp_cnt_error := sq_cnt_error sq, sp_outoforder_packets := sq_outoforder sq\<rparr>"

definition udp_packet :: "bool \<Rightarrow> bool \<Rightarrow> byte list \<Rightarrow> iperf_stream \<Rightarrow> ('z sys_scheme, iperf_stream) state" where
  "udp_packet wide first_packet dgram sp = do {
     let (sent_time, pcount) = read_header wide dgram;
     let sp = put_seq (seq_step pcount (get_seq sp)) sp;
     arrival_time \<leftarrow> iperf_time_now;
     let temp_time = snd (iperf_time_diff arrival_time sent_time);
     let transit = iperf_time_in_secs temp_time;
     State_Monad.return
       (sp\<lparr>sp_jitter := jitter_step first_packet transit (sp_prev_transit sp) (sp_jitter sp), sp_prev_transit := transit\<rparr>) }"

text \<open>
  The loop over the datagrams in the buffer. A positive number of bytes was read into a buffer of
  the block size, so the block size \<open>dgram_sz\<close> is positive.
\<close>

function udp_packets :: "bool \<Rightarrow> int \<Rightarrow> bool \<Rightarrow> byte list \<Rightarrow> iperf_stream \<Rightarrow> ('z sys_scheme, iperf_stream) state" where
  "udp_packets wide dgram_sz first_packet buf sp =
     (if 0 < dgram_sz \<and> int (length buf) \<ge> dgram_sz \<and> \<not> length buf < 12 \<and> \<not> (wide \<and> length buf < 16) then do {
        sp \<leftarrow> udp_packet wide first_packet buf sp;
        udp_packets wide dgram_sz False (drop (nat dgram_sz) buf) sp }
      else State_Monad.return sp)"
  by auto
termination by (relation "measure (\<lambda>(_, _, _, buf, _). length buf)") auto

declare udp_packets.simps [simp del]

definition store_buffer :: "byte list \<Rightarrow> iperf_stream \<Rightarrow> iperf_stream" where
  "store_buffer bs sp = sp\<lparr>sp_buffer := bs @ drop (length bs) (sp_buffer sp)\<rparr>"

definition count_received :: "u64 \<Rightarrow> iperf_stream \<Rightarrow> iperf_stream" where
  "count_received r sp =
     sp\<lparr>sp_result := (sp_result sp)\<lparr>
         res_bytes_received := res_bytes_received (sp_result sp) + r,
         res_bytes_received_this_interval := res_bytes_received_this_interval (sp_result sp) + r\<rparr>\<rparr>"

definition count_sent :: "u64 \<Rightarrow> iperf_stream \<Rightarrow> iperf_stream" where
  "count_sent r sp =
     sp\<lparr>sp_result := (sp_result sp)\<lparr>
         res_bytes_sent := res_bytes_sent (sp_result sp) + r,
         res_bytes_sent_this_interval := res_bytes_sent_this_interval (sp_result sp) + r\<rparr>\<rparr>"

definition iperf_udp_recv :: "iperf_stream \<Rightarrow> ('z world_scheme, int \<times> iperf_stream) state" where
  "iperf_udp_recv sp = do {
     test \<leftarrow> reads the_test;
     let cfg = test_settings test;
     (r, bs) \<leftarrow>
       (if cfg_gro cfg \<noteq> 0 then do {
          r \<leftarrow> Nread_gro (sp_socket sp) (nat (cfg_gro_bf_size cfg)) Pudp;
          State_Monad.return (r, []) }
        else Nrecv_no_select (sp_socket sp) (nat (cfg_blksize cfg)) Pudp 0);
     if r \<le> 0 then State_Monad.return (r, sp)
     else if test_state test = TEST_RUNNING then do {
       let first_packet = (res_bytes_received (sp_result sp) = 0);
       let sp = count_received (word_of_int r) (store_buffer bs sp);
       sp \<leftarrow> udp_packets (test_udp_counters_64bit test \<noteq> 0) (cfg_blksize cfg) first_packet bs sp;
       State_Monad.return (r, sp) }
     else State_Monad.return (r, store_buffer bs sp) }"

section \<open>Sending\<close>

text \<open>
  The loop that numbers the datagrams of the buffer; \<open>off\<close> is the offset of \<open>dgram_buf\<close>. The sizes
  are positive: the block size of a UDP test is at least \<open>MIN_UDP_BLOCKSIZE\<close> and the offload sizes
  are validated before.
\<close>

definition number_datagram :: "bool \<Rightarrow> iperf_time \<Rightarrow> nat \<Rightarrow> iperf_stream \<Rightarrow> iperf_stream" where
  "number_datagram wide before off sp =
     (let pc = sp_packet_count sp + 1
      in sp\<lparr>sp_packet_count := pc,
            sp_buffer := take off (sp_buffer sp) @ write_header wide before pc (drop off (sp_buffer sp))\<rparr>)"

function udp_number_loop :: "bool \<Rightarrow> int \<Rightarrow> int \<Rightarrow> nat \<Rightarrow> iperf_stream \<Rightarrow> ('z sys_scheme, iperf_stream) state" where
  "udp_number_loop wide dgram_sz buf_sz off sp =
     (if 0 < dgram_sz \<and> 0 < buf_sz \<and> dgram_sz \<le> buf_sz then do {
        before \<leftarrow> iperf_time_now;
        udp_number_loop wide dgram_sz (buf_sz - dgram_sz) (off + nat dgram_sz) (number_datagram wide before off sp) }
      else State_Monad.return sp)"
  by auto
termination by (relation "measure (\<lambda>(_, _, buf_sz, _, _). nat buf_sz)") auto

declare udp_number_loop.simps [simp del]

definition disable_gso :: "iperf_test \<Rightarrow> iperf_test" where
  "disable_gso t = t\<lparr>test_settings := (test_settings t)\<lparr>cfg_gso := 0\<rparr>\<rparr>"

definition disable_gro :: "iperf_test \<Rightarrow> iperf_test" where
  "disable_gro t = t\<lparr>test_settings := (test_settings t)\<lparr>cfg_gro := 0\<rparr>\<rparr>"

definition iperf_udp_send :: "iperf_stream \<Rightarrow> ('z world_scheme, int \<times> iperf_stream) state" where
  "iperf_udp_send sp = do {
     test \<leftarrow> reads the_test;
     let cfg = test_settings test;
     let size = cfg_blksize cfg;
     let invalid = (cfg_gso_dg_size cfg \<le> 0 \<or> cfg_gso_dg_size cfg < 12 \<or> cfg_gso_dg_size cfg > cfg_gso_bf_size cfg);
     let use_gso = (cfg_gso cfg \<noteq> 0 \<and> \<not> invalid);
     _ \<leftarrow> (if cfg_gso cfg \<noteq> 0 \<and> invalid then update_state (the_test_update disable_gso) else State_Monad.return ());
     let dgram_sz = (if use_gso then cfg_gso_dg_size cfg else size);
     let buf_sz = (if use_gso then cfg_gso_bf_size cfg else size);
     sp \<leftarrow> udp_number_loop (test_udp_counters_64bit test \<noteq> 0) dgram_sz buf_sz 0 sp;
     r \<leftarrow> (if use_gso then Nwrite_gso (sp_socket sp) (take (nat buf_sz) (sp_buffer sp)) Pudp (word_of_int (cfg_gso_dg_size cfg))
          else Nwrite (sp_socket sp) (take (nat size) (sp_buffer sp)) Pudp);
     let sp = (if r \<le> 0 then sp\<lparr>sp_packet_count := sp_packet_count sp - 1\<rparr> else sp);
     if r < 0 then State_Monad.return (r, sp)
     else State_Monad.return (r, count_sent (word_of_int r) sp) }"

section \<open>Setting up the sockets\<close>

abbreviation UDP_CONNECT_MSG :: u32 where "UDP_CONNECT_MSG \<equiv> 0x36373839"
abbreviation UDP_CONNECT_REPLY :: u32 where "UDP_CONNECT_REPLY \<equiv> 0x39383736"
abbreviation LEGACY_UDP_CONNECT_REPLY :: u32 where "LEGACY_UDP_CONNECT_REPLY \<equiv> 987654321"
abbreviation UDP_BUFFER_EXTRA :: int where "UDP_BUFFER_EXTRA \<equiv> 1024"
abbreviation MAX_REVERSE_OUT_OF_ORDER_PACKETS :: int where "MAX_REVERSE_OUT_OF_ORDER_PACKETS \<equiv> 2"
abbreviation SO_RCVTIMEO :: int where "SO_RCVTIMEO \<equiv> 0x1006"
abbreviation IP_TOS :: int where "IP_TOS \<equiv> 3"
abbreviation IPV6_TCLASS :: int where "IPV6_TCLASS \<equiv> 39"

definition fail :: "int \<Rightarrow> ('z globals_scheme, int) state" where
  "fail e = do { _ \<leftarrow> set_i_errno e; State_Monad.return (- 1) }"

definition add_json_start :: "string \<Rightarrow> int \<Rightarrow> iperf_test \<Rightarrow> iperf_test" where
  "add_json_start k v t =
     (if test_json_output t \<noteq> 0 then
        t\<lparr>test_json_start := map_option (\<lambda>j. if cJSON_GetObjectItem j k = None
             then cJSON_AddItemToObject j k (JNumber (fl64 (of_int v))) else j) (test_json_start t)\<rparr>
      else t)"

definition iperf_udp_buffercheck :: "int \<Rightarrow> ('z world_scheme, int) state" where
  "iperf_udp_buffercheck s = do {
     bufsize \<leftarrow> reads (\<lambda>w. cfg_socket_bufsize (test_settings (the_test w)));
     blksize \<leftarrow> reads (\<lambda>w. cfg_blksize (test_settings (the_test w)));
     a \<leftarrow> (if bufsize \<noteq> 0 then winsock (Setsockopt s SOL_SOCKET SO_RCVBUF bufsize) else State_Monad.return (answers 0));
     if ret a < 0 then fail IESETBUF
     else do {
       b \<leftarrow> (if bufsize \<noteq> 0 then winsock (Setsockopt s SOL_SOCKET SO_SNDBUF bufsize) else State_Monad.return (answers 0));
       if ret b < 0 then fail IESETBUF
       else do {
         sb \<leftarrow> winsock (Getsockopt s SOL_SOCKET SO_SNDBUF);
         if ret sb < 0 then fail IESETBUF
         else if bufsize \<noteq> 0 \<and> bufsize > val sb then fail IESETBUF2
         else do {
           rb \<leftarrow> winsock (Getsockopt s SOL_SOCKET SO_RCVBUF);
           if ret rb < 0 then fail IESETBUF
           else if bufsize \<noteq> 0 \<and> bufsize > val rb then fail IESETBUF2
           else do {
             _ \<leftarrow> update_state (the_test_update
                  (\<lambda>t. add_json_start ''rcvbuf_actual'' (val rb)
                        (add_json_start ''sndbuf_actual'' (val sb)
                          (add_json_start ''sock_bufsize'' bufsize t))));
             State_Monad.return (if blksize > val sb \<or> blksize > val rb then 1 else 0) } } } } }"

definition iperf_udp_gso :: "int \<Rightarrow> ('z world_scheme, int) state" where
  "iperf_udp_gso s = do { _ \<leftarrow> update_state (the_test_update disable_gso); State_Monad.return (- 1) }"

definition iperf_udp_gro :: "int \<Rightarrow> ('z world_scheme, int) state" where
  "iperf_udp_gro s = do { _ \<leftarrow> update_state (the_test_update disable_gro); State_Monad.return (- 1) }"

text \<open>The second attempt with a larger buffer when the default one is too small.\<close>

definition grow_udp_buffer :: "int \<Rightarrow> int \<Rightarrow> ('z world_scheme, int) state" where
  "grow_udp_buffer s rc = do {
     cfg \<leftarrow> reads (\<lambda>w. test_settings (the_test w));
     if rc > 0 \<and> cfg_socket_bufsize cfg = 0 then do {
       _ \<leftarrow> update_state (the_test_update (\<lambda>t. t\<lparr>test_settings := (test_settings t)\<lparr>cfg_socket_bufsize := cfg_blksize cfg + UDP_BUFFER_EXTRA\<rparr>\<rparr>));
       iperf_udp_buffercheck s }
     else State_Monad.return rc }"

definition try_offload :: "int \<Rightarrow> ('z world_scheme, unit) state" where
  "try_offload s = do {
     cfg \<leftarrow> reads (\<lambda>w. test_settings (the_test w));
     _ \<leftarrow> (if cfg_gso cfg \<noteq> 0 then iperf_udp_gso s else State_Monad.return 0);
     _ \<leftarrow> (if cfg_gro cfg \<noteq> 0 then iperf_udp_gro s else State_Monad.return 0);
     State_Monad.return () }"

text \<open>An \<open>fd_set\<close> of Winsock is an array of at most 64 sockets.\<close>

definition FD_SET :: "int \<Rightarrow> int list \<Rightarrow> int list" where
  "FD_SET s set' = (if s \<in> set set' \<or> length set' \<ge> 64 then set' else set' @ [s])"

definition FD_CLR :: "int \<Rightarrow> int list \<Rightarrow> int list" where
  "FD_CLR s set' = remove1 s set'"

definition listen_on :: "int \<Rightarrow> iperf_test \<Rightarrow> iperf_test" where
  "listen_on s t = t\<lparr>test_read_set := FD_SET s (test_read_set t), test_max_fd := max (test_max_fd t) s\<rparr>"

definition iperf_udp_accept :: "('z world_scheme, int) state" where
  "iperf_udp_accept = do {
     s \<leftarrow> reads (\<lambda>w. test_prot_listener (the_test w));
     a \<leftarrow> winsock (Recvfrom s 4);
     if ret a < 0 then fail IESTREAMACCEPT
     else do {
       c \<leftarrow> winsock (Connect s (ai_addr (info a)));
       if ret c < 0 then fail IESTREAMACCEPT
       else do {
         rc \<leftarrow> iperf_udp_buffercheck s;
         if rc < 0 then State_Monad.return rc
         else do {
           rc \<leftarrow> grow_udp_buffer s rc;
           if rc < 0 then State_Monad.return rc
           else do {
             _ \<leftarrow> try_offload s;
             test \<leftarrow> reads the_test;
             l \<leftarrow> netannounce (cfg_domain (test_settings test)) Pudp (test_bind_address test) (test_bind_dev test) (test_server_port test);
             _ \<leftarrow> update_state (the_test_update (\<lambda>t. t\<lparr>test_read_set := FD_CLR s (test_read_set t), test_prot_listener := l\<rparr>));
             if l < 0 then fail IESTREAMLISTEN
             else do {
               _ \<leftarrow> update_state (the_test_update (listen_on l));
               r \<leftarrow> iperf_win32_write s (le32 UDP_CONNECT_REPLY);
               if r < 0 then fail IESTREAMWRITE
               else State_Monad.return s } } } } } }"

definition iperf_udp_listen :: "('z world_scheme, int) state" where
  "iperf_udp_listen = do {
     test \<leftarrow> reads the_test;
     s \<leftarrow> netannounce (cfg_domain (test_settings test)) Pudp (test_bind_address test) (test_bind_dev test) (test_server_port test);
     if s < 0 then fail IESTREAMLISTEN else State_Monad.return s }"

definition iperf_common_sockopts :: "int \<Rightarrow> ('z world_scheme, int) state" where
  "iperf_common_sockopts s = do {
     opt \<leftarrow> reads (\<lambda>w. cfg_tos (test_settings (the_test w)));
     mapped \<leftarrow> reads (\<lambda>w. iperf_get_mapped_v4 (the_test w));
     if opt \<noteq> 0 then do {
       d \<leftarrow> getsockdomain s;
       if d = AF_INET6 then do {
         a \<leftarrow> winsock (Setsockopt s IPPROTO_IPV6 IPV6_TCLASS opt);
         if ret a < 0 then fail IESETCOS
         else if mapped \<noteq> 0 then do {
           _ \<leftarrow> winsock (Setsockopt s IPPROTO_IP IP_TOS opt);
           State_Monad.return 0 }
         else State_Monad.return 0 }
       else do {
         a \<leftarrow> winsock (Setsockopt s IPPROTO_IP IP_TOS opt);
         if ret a < 0 then fail IESETTOS else State_Monad.return 0 } }
     else State_Monad.return 0 }"

text \<open>
  Waiting for the reply of the server: at most \<open>left\<close> more bytes are looked at. The four bytes at
  \<open>buf\<close> keep what a shorter datagram does not overwrite. A datagram without data does not use up
  \<open>left\<close>, so the number of reads is bounded by \<open>fuel\<close>; \<open>None\<close> is running out of it.
\<close>

fun udp_await_reply :: "nat \<Rightarrow> int \<Rightarrow> int \<Rightarrow> byte list \<Rightarrow> ('z sys_scheme, (int + u32) option) state" where
  "udp_await_reply 0 s left buf = State_Monad.return None"
| "udp_await_reply (Suc fuel) s left buf = do {
     a \<leftarrow> winsock (Recv s 4 0);
     let (sz, bs) = received 4 a;
     if sz < 0 then State_Monad.return (Some (Inl (- 1)))
     else do {
       let buf = bs @ drop (length bs) buf;
       let v = from_le32 buf;
       if v \<noteq> UDP_CONNECT_REPLY \<and> v \<noteq> LEGACY_UDP_CONNECT_REPLY \<and> left - sz > 0
       then udp_await_reply fuel s (left - sz) buf
       else State_Monad.return (Some (Inr v)) } }"

text \<open>
  The receive timeout is passed as a \<open>struct timeval\<close> of 30 seconds, of which Winsock reads the
  first 32 bits as a number of milliseconds.
\<close>

definition iperf_udp_connect :: "nat \<Rightarrow> ('z world_scheme, int option) state" where
  "iperf_udp_connect fuel = do {
     test \<leftarrow> reads the_test;
     s \<leftarrow> netdial (cfg_domain (test_settings test)) Pudp (test_bind_address test) (test_bind_dev test) (test_bind_port test)
            (test_server_hostname test) (test_server_port test) (- 1);
     if s < 0 then do { r \<leftarrow> fail IESTREAMCONNECT; State_Monad.return (Some r) }
     else do {
       rc \<leftarrow> iperf_udp_buffercheck s;
       if rc < 0 then State_Monad.return (Some rc)
       else do {
         _ \<leftarrow> try_offload s;
         rc \<leftarrow> grow_udp_buffer s rc;
         if rc < 0 then State_Monad.return (Some rc)
         else do {
           _ \<leftarrow> iperf_common_sockopts s;
           _ \<leftarrow> winsock (Setsockopt s SOL_SOCKET SO_RCVTIMEO 30);
           w \<leftarrow> iperf_win32_write s (le32 UDP_CONNECT_MSG);
           if w < 0 then do { r \<leftarrow> fail IESTREAMWRITE; State_Monad.return (Some r) }
           else do {
             test \<leftarrow> reads the_test;
             let left = 4 + (if test_reverse test \<noteq> 0
                             then MAX_REVERSE_OUT_OF_ORDER_PACKETS * cfg_blksize (test_settings test) else 0);
             v \<leftarrow> udp_await_reply fuel s left (le32 UDP_CONNECT_MSG);
             case v of
               None \<Rightarrow> State_Monad.return None
             | Some (Inl e) \<Rightarrow> do { r \<leftarrow> fail IESTREAMREAD; State_Monad.return (Some r) }
             | Some (Inr buf) \<Rightarrow>
                 if buf \<noteq> UDP_CONNECT_REPLY \<and> buf \<noteq> LEGACY_UDP_CONNECT_REPLY
                 then do { r \<leftarrow> fail IESTREAMREAD; State_Monad.return (Some r) }
                 else State_Monad.return (Some s) } } } } }"

definition iperf_udp_init :: "('z world_scheme, int) state" where
  "iperf_udp_init = State_Monad.return 0"

end
