(* ===== verification/Trace_Logic.thy ===== *)
theory Trace_Logic
  imports Sys
begin

text \<open>
  A small program logic for what a program does to the outside world: \<open>emits m Q\<close> says that
  whatever the state and whatever the system answers, running \<open>m\<close> appends some calls to the
  trace and its result together with those calls satisfies \<open>Q\<close>. The rules compute the
  precondition of a program from its text.
\<close>

named_theorems emits_rules \<open>rules that reduce a program to the calls it makes\<close>

type_synonym events = "(syscall \<times> answer) list"

definition emits :: "('z sys_scheme, 'a) state \<Rightarrow> ('a \<Rightarrow> events \<Rightarrow> bool) \<Rightarrow> bool" where
  "emits m Q \<longleftrightarrow> (\<forall>s. \<exists>new. trace (snd (run_state m s)) = new @ trace s \<and> Q (fst (run_state m s)) new)"

lemma emitsD:
  assumes "emits m Q" and "run_state m s = (r, s')"
  obtains new where "trace s' = new @ trace s" and "Q r new"
  using assms by (auto simp: emits_def) (metis fst_conv snd_conv)

lemma emits_mono: "emits m P \<Longrightarrow> (\<And>r n. P r n \<Longrightarrow> Q r n) \<Longrightarrow> emits m Q"
  unfolding emits_def by meson

lemma emits_return [emits_rules]: "Q x [] \<Longrightarrow> emits (State_Monad.return x) Q"
  by (simp add: emits_def)

lemma emits_bind [emits_rules]:
  assumes "emits m (\<lambda>r new. emits (f r) (\<lambda>r' new'. Q r' (new' @ new)))"
  shows "emits (State_Monad.bind m f) Q"
  unfolding emits_def
proof
  fix s
  obtain r s1 where m: "run_state m s = (r, s1)" by fastforce
  obtain new where new: "trace s1 = new @ trace s" "emits (f r) (\<lambda>r' new'. Q r' (new' @ new))"
    using assms m by (rule emitsD)
  obtain r' s2 where f: "run_state (f r) s1 = (r', s2)" by fastforce
  obtain new' where "trace s2 = new' @ trace s1" "Q r' (new' @ new)"
    using new(2) f by (rule emitsD)
  then show "\<exists>new. trace (snd (run_state (State_Monad.bind m f) s)) = new @ trace s
      \<and> Q (fst (run_state (State_Monad.bind m f) s)) new"
    using m f new(1) by auto
qed

lemma emits_reads [emits_rules]: "(\<And>v. Q v []) \<Longrightarrow> emits (reads f) Q"
  by (simp add: emits_def)

text \<open>A program that starts by reading the state, in a given state.\<close>

lemma emits_from:
  assumes "run_state (State_Monad.bind (reads f) g) s = (r, s')" and "emits (g (f s)) Q"
  shows "\<exists>new. trace s' = new @ trace s \<and> Q r new"
  using emitsD [OF assms(2), of s r s'] assms(1) by auto

lemma emits_call [emits_rules]: "(\<And>a. Q a [(c, a)]) \<Longrightarrow> emits (call c) Q"
  by (simp add: emits_def run_call Let_def)

lemma emits_if [emits_rules]: "(b \<Longrightarrow> emits m Q) \<Longrightarrow> (\<not> b \<Longrightarrow> emits n Q) \<Longrightarrow> emits (if b then m else n) Q"
  by simp

lemma emits_let [emits_rules]: "(\<And>x. x = e \<Longrightarrow> emits (m x) Q) \<Longrightarrow> emits (let x = e in m x) Q"
  by simp

lemma emits_case_option [emits_rules]:
  "(x = None \<Longrightarrow> emits m Q) \<Longrightarrow> (\<And>y. x = Some y \<Longrightarrow> emits (n y) Q) \<Longrightarrow> emits (case x of None \<Rightarrow> m | Some y \<Rightarrow> n y) Q"
  by (cases x) simp_all

lemma emits_case_prod [emits_rules]:
  "(\<And>a b. x = (a, b) \<Longrightarrow> emits (m a b) Q) \<Longrightarrow> emits (case x of (a, b) \<Rightarrow> m a b) Q"
  by (cases x) simp

lemma emits_case_sum [emits_rules]:
  "(\<And>a. x = Inl a \<Longrightarrow> emits (m a) Q) \<Longrightarrow> (\<And>b. x = Inr b \<Longrightarrow> emits (n b) Q)
    \<Longrightarrow> emits (case x of Inl a \<Rightarrow> m a | Inr b \<Rightarrow> n b) Q"
  by (cases x) simp_all

text \<open>Assignments to anything but the trace emit nothing.\<close>

lemma emits_update:
  assumes "\<And>s. trace (f s) = trace s" and "Q () []"
  shows "emits (update_state f) Q"
  using assms by (simp add: emits_def)

lemma emits_set_errno [emits_rules]: "Q () [] \<Longrightarrow> emits (set_errno e) Q"
  unfolding set_errno_def by (rule emits_update) simp_all

lemma emits_set_i_errno [emits_rules]: "Q () [] \<Longrightarrow> emits (set_i_errno e) Q"
  unfolding set_i_errno_def by (rule emits_update) simp_all

lemma emits_set_gerror [emits_rules]: "Q () [] \<Longrightarrow> emits (update_state (gerror_update f)) Q"
  by (rule emits_update) simp_all

lemma emits_set_wsa_error [emits_rules]: "Q () [] \<Longrightarrow> emits (update_state (wsa_error_update f)) Q"
  by (rule emits_update) simp_all

lemma emits_winsock [emits_rules]: "(\<And>a. Q a [(c, a)]) \<Longrightarrow> emits (winsock c) Q"
  unfolding winsock_def by (intro emits_rules) simp_all

lemma emits_crt [emits_rules]: "(\<And>a. Q a [(c, a)]) \<Longrightarrow> emits (crt c) Q"
  unfolding crt_def by (intro emits_rules emits_update) simp_all

lemma emits_set_wsa_errno [emits_rules]: "(\<And>e. Q e []) \<Longrightarrow> emits set_wsa_errno Q"
  unfolding set_wsa_errno_def by (intro emits_rules) simp_all

lemma emits_time_now [emits_rules]: "(\<And>t a. Q t [(QueryPerformance, a)]) \<Longrightarrow> emits iperf_time_now Q"
  unfolding iperf_time_now_def clock_gettime_helper_def clock_gettime_def
  by (intro emits_rules) (simp_all add: CLOCK_MONOTONIC_def)

section \<open>Accounting for resources and bytes\<close>

text \<open>Sockets opened and closed, lookups made and released, in the order of the calls.\<close>

fun opens :: "syscall \<times> answer \<Rightarrow> int list" where
  "opens (Socket d t p, a) = (if ret a < 0 then [] else [ret a])"
| "opens (Accept fd, a) = (if ret a < 0 then [] else [ret a])"
| "opens _ = []"

fun closes :: "syscall \<times> answer \<Rightarrow> int list" where
  "closes (Closesocket fd, a) = [fd]"
| "closes _ = []"

fun looks_up :: "syscall \<times> answer \<Rightarrow> nat list" where
  "looks_up (Getaddrinfo n s f t fl, a) = (if ret a = 0 then [ai_id (info a)] else [])"
| "looks_up _ = []"

fun releases :: "syscall \<times> answer \<Rightarrow> nat list" where
  "releases (Freeaddrinfo (Some i), a) = [i]"
| "releases _ = []"

text \<open>Threads created and waited for.\<close>

fun spawns :: "syscall \<times> answer \<Rightarrow> int list" where
  "spawns (CreateThread i, a) = (if ret a = 0 then [] else [i])"
| "spawns _ = []"

fun waits :: "syscall \<times> answer \<Rightarrow> int list" where
  "waits (WaitThread i, a) = [i]"
| "waits _ = []"

fun delivers :: "int \<Rightarrow> syscall \<times> answer \<Rightarrow> byte list" where
  "delivers fd (Recv fd' n f, a) = (if fd' = fd then snd (received n a) else [])"
| "delivers fd (Crt_read fd' n, a) = (if fd' = fd then snd (received n a) else [])"
| "delivers fd _ = []"

fun accepts :: "int \<Rightarrow> syscall \<times> answer \<Rightarrow> byte list" where
  "accepts fd (Send fd' b, a) = (if fd' = fd then take (nat (sent b a)) b else [])"
| "accepts fd (Crt_write fd' b, a) = (if fd' = fd then take (nat (sent b a)) b else [])"
| "accepts fd _ = []"

definition gather :: "(syscall \<times> answer \<Rightarrow> 'b list) \<Rightarrow> events \<Rightarrow> 'b list" where
  "gather f new = concat (map f (rev new))"

lemma gather_simps [simp]:
  "gather f [] = []" "gather f (e # new) = gather f new @ f e" "gather f (xs @ ys) = gather f ys @ gather f xs"
  by (simp_all add: gather_def)

text \<open>
  Calls that neither open nor close a socket, neither look up nor release an address, and neither create
  nor join a thread.
\<close>

fun quiet_event :: "syscall \<times> answer \<Rightarrow> bool" where
  "quiet_event (Socket d t p, a) = False"
| "quiet_event (Accept fd, a) = False"
| "quiet_event (Closesocket fd, a) = False"
| "quiet_event (Getaddrinfo n s f t fl, a) = False"
| "quiet_event (Freeaddrinfo i, a) = False"
| "quiet_event (CreateThread i, a) = False"
| "quiet_event (WaitThread i, a) = False"
| "quiet_event _ = True"

definition quiet :: "events \<Rightarrow> bool" where
  "quiet new \<longleftrightarrow> list_all quiet_event new"

lemma quiet_simps [simp]:
  "quiet []" "quiet (e # es) \<longleftrightarrow> quiet_event e \<and> quiet es" "quiet (xs @ ys) \<longleftrightarrow> quiet xs \<and> quiet ys"
  by (simp_all add: quiet_def)

lemma quiet_eventD:
  assumes "quiet_event e"
  shows "opens e = []" and "closes e = []" and "looks_up e = []" and "releases e = []"
    and "spawns e = []" and "waits e = []"
  using assms by (cases e rule: quiet_event.cases; simp)+

lemma quiet_gather [simp]:
  assumes "quiet new"
  shows "gather opens new = []" and "gather closes new = []" and "gather looks_up new = []" and "gather releases new = []"
    and "gather spawns new = []" and "gather waits new = []"
  using assms by (induction new) (auto simp: quiet_eventD)

fun is_read :: "int \<Rightarrow> syscall \<times> answer \<Rightarrow> bool" where
  "is_read fd (Recv fd' n f, a) = (fd' = fd)"
| "is_read fd (Crt_read fd' n, a) = (fd' = fd)"
| "is_read fd _ = False"

text \<open>The outcome of one read of at most \<open>n\<close> bytes: the result is \<open>-1\<close> or the number of bytes.\<close>

definition read_ok :: "int \<Rightarrow> nat \<Rightarrow> int \<Rightarrow> byte list \<Rightarrow> events \<Rightarrow> bool" where
  "read_ok fd n r bs new \<longleftrightarrow> gather (delivers fd) new = bs \<and> length bs \<le> n \<and> quiet new
     \<and> (if r < 0 then r = - 1 \<and> bs = [] else r = int (length bs))
     \<and> (\<exists>e es. new = e # es \<and> is_read fd e \<and> (bs = [] \<longrightarrow> delivers fd e = []))"

lemma emits_read [emits_rules]:
  assumes "\<And>r bs new. read_ok fd n r bs new \<Longrightarrow> Q (r, bs) new"
  shows "emits (iperf_win32_read fd n) Q"
  unfolding iperf_win32_read_def
  by (intro emits_rules) (auto intro!: assms simp: received_def read_ok_def)

text \<open>Calls that deliver no data.\<close>

definition silent :: "events \<Rightarrow> bool" where
  "silent new \<longleftrightarrow> (\<forall>fd. gather (delivers fd) new = [])"

lemma silent_append [simp]: "silent (xs @ ys) \<longleftrightarrow> silent xs \<and> silent ys"
  by (auto simp: silent_def)

lemma silentD [simp]: "silent new \<Longrightarrow> gather (delivers fd) new = []"
  by (simp add: silent_def)

lemma emits_write [emits_rules]:
  assumes "\<And>r new. gather (accepts fd) new = take (nat r) buf \<Longrightarrow> quiet new \<Longrightarrow> silent new
      \<Longrightarrow> - 1 \<le> r \<Longrightarrow> r \<le> int (length buf) \<Longrightarrow> Q r new"
  shows "emits (iperf_win32_write fd buf) Q"
  unfolding iperf_win32_write_def
  by (intro emits_rules) (auto intro!: assms simp: sent_def silent_def)

section \<open>Frames\<close>

text \<open>
  \<open>keeps m\<close>: the program changes nothing beyond the system's own part of the state, in particular
  not the test that the state of the whole program adds to it.
\<close>

named_theorems keeps_rules \<open>rules for programs that keep the rest of the state\<close>

definition keeps :: "('z sys_scheme, 'a) state \<Rightarrow> bool" where
  "keeps m \<longleftrightarrow> (\<forall>s. sys.more (snd (run_state m s)) = sys.more s)"

lemma keeps_return [keeps_rules]: "keeps (State_Monad.return x)"
  by (simp add: keeps_def)

lemma keeps_bind [keeps_rules]: "keeps m \<Longrightarrow> (\<And>r. keeps (f r)) \<Longrightarrow> keeps (State_Monad.bind m f)"
  by (simp add: keeps_def case_prod_beta)

lemma keeps_reads [keeps_rules]: "keeps (reads f)"
  by (simp add: keeps_def)

lemma keeps_call [keeps_rules]: "keeps (call c)"
  by (simp add: keeps_def run_call Let_def)

lemma keeps_if [keeps_rules]: "(b \<Longrightarrow> keeps m) \<Longrightarrow> (\<not> b \<Longrightarrow> keeps n) \<Longrightarrow> keeps (if b then m else n)"
  by simp

lemma keeps_let [keeps_rules]: "(\<And>x. x = e \<Longrightarrow> keeps (m x)) \<Longrightarrow> keeps (let x = e in m x)"
  by simp

lemma keeps_case [keeps_rules]:
  "keeps a \<Longrightarrow> (\<And>y. keeps (b y)) \<Longrightarrow> keeps (case x of None \<Rightarrow> a | Some y \<Rightarrow> b y)"
  "(\<And>u v. keeps (c u v)) \<Longrightarrow> keeps (case p of (u, v) \<Rightarrow> c u v)"
  by (auto split: option.splits prod.splits)

lemma keeps_updates [keeps_rules]:
  "keeps (update_state (errno_update f))" "keeps (update_state (i_errno_update f))"
  "keeps (update_state (gerror_update f))" "keeps (update_state (wsa_error_update f))"
  "keeps (set_errno e)" "keeps (set_i_errno e)"
  by (simp_all add: keeps_def)

lemma keeps_sys [keeps_rules]: "keeps (winsock c)" "keeps (crt c)" "keeps set_wsa_errno" "keeps iperf_time_now"
  unfolding winsock_def crt_def set_wsa_errno_def iperf_time_now_def clock_gettime_helper_def clock_gettime_def gettimeofday_def
  by (intro keeps_rules)+

lemma keeps_wrappers [keeps_rules]:
  "keeps (iperf_win32_close fd)" "keeps (iperf_win32_read fd n)" "keeps (iperf_win32_write fd b)"
  "keeps (poll fd e t)" "keeps (fcntl fd c a)"
  unfolding iperf_win32_close_def iperf_win32_read_def iperf_win32_write_def poll_def fcntl_def
  by (intro keeps_rules)+

section \<open>Answers of the system\<close>

text \<open>
  \<open>genuine f tr\<close>: every answer in the trace is the one that the system \<open>f\<close> gives at that point. \<open>honest m\<close>:
  the program changes neither the system nor the past; what it adds to the trace are answers of the system.
\<close>

named_theorems honest_rules \<open>rules for programs that leave the system alone\<close>

fun genuine :: "(events \<Rightarrow> syscall \<Rightarrow> answer) \<Rightarrow> events \<Rightarrow> bool" where
  "genuine f [] \<longleftrightarrow> True"
| "genuine f ((c, a) # tr) \<longleftrightarrow> a = f tr c \<and> genuine f tr"

definition honest :: "('z sys_scheme, 'a) state \<Rightarrow> bool" where
  "honest m \<longleftrightarrow> (\<forall>s. os (snd (run_state m s)) = os s \<and> (genuine (os s) (trace s) \<longrightarrow> genuine (os s) (trace (snd (run_state m s)))))"

lemma honestD:
  assumes "honest m"
  shows "os (snd (run_state m s)) = os s" and "genuine (os s) (trace s) \<Longrightarrow> genuine (os s) (trace (snd (run_state m s)))"
  using assms by (simp_all add: honest_def)

lemma honest_return [honest_rules]: "honest (State_Monad.return x)"
  by (simp add: honest_def)

lemma honest_bind [honest_rules]: "honest m \<Longrightarrow> (\<And>r. honest (f r)) \<Longrightarrow> honest (State_Monad.bind m f)"
  unfolding honest_def by (simp add: case_prod_beta) metis

lemma honest_reads [honest_rules]: "honest (reads f)"
  by (simp add: honest_def)

lemma honest_call [honest_rules]: "honest (call c)"
  by (simp add: honest_def run_call Let_def)

lemma honest_if [honest_rules]: "(b \<Longrightarrow> honest m) \<Longrightarrow> (\<not> b \<Longrightarrow> honest n) \<Longrightarrow> honest (if b then m else n)"
  by simp

lemma honest_let [honest_rules]: "(\<And>x. x = e \<Longrightarrow> honest (m x)) \<Longrightarrow> honest (let x = e in m x)"
  by simp

lemma honest_case [honest_rules]:
  "honest a \<Longrightarrow> (\<And>y. honest (b y)) \<Longrightarrow> honest (case x of None \<Rightarrow> a | Some y \<Rightarrow> b y)"
  "(\<And>u v. honest (c u v)) \<Longrightarrow> honest (case p of (u, v) \<Rightarrow> c u v)"
  by (auto split: option.splits prod.splits)

lemma honest_updates [honest_rules]:
  "honest (update_state (errno_update f))" "honest (update_state (i_errno_update f))"
  "honest (update_state (gerror_update f))" "honest (update_state (wsa_error_update f))"
  "honest (set_errno e)" "honest (set_i_errno e)"
  by (simp_all add: honest_def)

lemma honest_sys [honest_rules]: "honest (winsock c)" "honest (crt c)" "honest set_wsa_errno" "honest iperf_time_now"
  unfolding winsock_def crt_def set_wsa_errno_def iperf_time_now_def clock_gettime_helper_def clock_gettime_def gettimeofday_def
  by (intro honest_rules)+

lemma honest_wrappers [honest_rules]:
  "honest (iperf_win32_close fd)" "honest (iperf_win32_read fd n)" "honest (iperf_win32_write fd b)"
  "honest (poll fd e t)" "honest (fcntl fd c a)"
  unfolding iperf_win32_close_def iperf_win32_read_def iperf_win32_write_def poll_def fcntl_def
  by (intro honest_rules)+

text \<open>A peer that sends at most \<open>n\<close> bytes: once they are delivered, a read delivers nothing.\<close>

definition ends_after :: "int \<Rightarrow> nat \<Rightarrow> (events \<Rightarrow> syscall \<Rightarrow> answer) \<Rightarrow> bool" where
  "ends_after fd n f \<longleftrightarrow> (\<forall>tr c. n \<le> length (gather (delivers fd) tr) \<longrightarrow> delivers fd (c, f tr c) = [])"

lemma nothing_left:
  assumes "ends_after fd n f" and "n \<le> length (gather (delivers fd) tr)" and "genuine f (new @ tr)"
  shows "gather (delivers fd) new = []"
  using assms(3)
proof (induction new)
  case (Cons e new)
  obtain c a where e: "e = (c, a)" by fastforce
  then have "a = f (new @ tr) c" "n \<le> length (gather (delivers fd) (new @ tr))"
    using Cons.prems assms(2) by simp_all
  then show ?case
    using Cons e assms(1) by (auto simp: ends_after_def)
qed simp

end
