(* ===== verification/Net_Correct.thy ===== *)
theory Net_Correct
  imports Net Trace_Logic "HOL-Library.Multiset"
begin

text \<open>
  Properties of the socket layer: the read and write loops move exactly the bytes they report, no
  error path of the connecting functions leaks a socket or a lookup, and two consequences of the
  way the Windows layer maps non-blocking mode.
\<close>

section \<open>Reading and writing\<close>

lemma emits_read_or_recv [emits_rules]:
  assumes "\<And>r bs new. read_ok fd n r bs new \<Longrightarrow> Q (r, bs) new"
  shows "emits (read_or_recv fd n opt) Q"
  unfolding read_or_recv_def
  by (intro emits_rules) (auto intro!: assms simp: received_def read_ok_def)

text \<open>
  What may end a read loop early: a read that delivered nothing, a \<open>select\<close> that ran into its
  timeout, or a look at the clock.
\<close>

fun stops :: "int \<Rightarrow> syscall \<times> answer \<Rightarrow> bool" where
  "stops fd (Select r w t, a) = (ret a = 0)"
| "stops fd (QueryPerformance, a) = True"
| "stops fd e = (is_read fd e \<and> delivers fd e = [])"

definition reads_ok :: "int \<Rightarrow> byte list \<Rightarrow> nat \<Rightarrow> int + byte list \<Rightarrow> events \<Rightarrow> bool" where
  "reads_ok fd acc nleft out new \<longleftrightarrow> quiet new \<and>
     (case out of Inl e \<Rightarrow> e = NET_HARDERROR \<and> length (gather (delivers fd) new) < nleft
      | Inr bs \<Rightarrow> bs = acc @ gather (delivers fd) new \<and> length (gather (delivers fd) new) \<le> nleft
          \<and> (length (gather (delivers fd) new) < nleft \<longrightarrow> new \<noteq> [] \<and> stops fd (hd new)))"

lemma reads_ok_simps [simp]:
  "reads_ok fd acc nleft (Inl e) new \<longleftrightarrow> quiet new \<and> e = NET_HARDERROR \<and> length (gather (delivers fd) new) < nleft"
  "reads_ok fd acc nleft (Inr bs) new \<longleftrightarrow> quiet new \<and> bs = acc @ gather (delivers fd) new
     \<and> length (gather (delivers fd) new) \<le> nleft
     \<and> (length (gather (delivers fd) new) < nleft \<longrightarrow> new \<noteq> [] \<and> stops fd (hd new))"
  by (simp_all add: reads_ok_def)

lemma copied_all [simp]: "length bs \<le> nleft \<Longrightarrow> copied opt nleft bs = length bs"
  by (simp add: copied_def)

lemma reads_ok_step:
  assumes "reads_ok fd (acc @ gather (delivers fd) n1) (nleft - length (gather (delivers fd) n1)) out n2"
    and "length (gather (delivers fd) n1) \<le> nleft" and "quiet n1"
  shows "reads_ok fd acc nleft out (n2 @ n1)"
  using assms by (cases out) auto

lemma read_ok_cases:
  assumes "read_ok fd n r bs new"
  shows "quiet new" and "gather (delivers fd) new = bs" and "length bs \<le> n"
    and "r < 0 \<Longrightarrow> bs = []" and "bs = [] \<Longrightarrow> new \<noteq> [] \<and> stops fd (hd new)"
  using assms by (auto simp: read_ok_def split: if_splits elim!: is_read.elims)

lemma read_ok_short:
  assumes "read_ok fd n r bs new" and "0 < n \<and> r < 0 \<or> \<not> n \<le> copied opt n bs"
  shows "length (gather (delivers fd) new) < n"
  using assms read_ok_cases [OF assms(1)] by auto

lemma emits_Nrecv_loop:
  "emits (Nrecv_loop fd opt nleft ft acc :: ('z sys_scheme, int + byte list) state) (reads_ok fd acc nleft)"
proof (induction nleft arbitrary: ft acc rule: less_induct)
  case (less nleft)
  have IH: "emits (Nrecv_loop fd opt (nleft - copied opt nleft bs) ft' (acc @ bs) :: ('z sys_scheme, _) state)
      (\<lambda>out new. reads_ok fd acc nleft out (new @ (Select f w t, a2) # (QueryPerformance, a1) # n1))"
    if "read_ok fd nleft r bs n1" "bs \<noteq> []" "\<not> nleft \<le> copied opt nleft bs" for r bs ft' f w t a1 a2 n1
    using that(2,3) read_ok_cases [OF that(1)] reads_ok_step [of fd acc "(Select f w t, a2) # (QueryPerformance, a1) # n1"]
    by (intro emits_mono [OF less]) auto
  show ?case
    by (subst Nrecv_loop.simps, intro emits_rules) (auto dest: read_ok_cases intro!: IH intro: read_ok_short)
qed

lemma emits_Nrecv_no_select_loop:
  "emits (Nrecv_no_select_loop fd opt nleft acc :: ('z sys_scheme, int + byte list) state) (reads_ok fd acc nleft)"
proof (induction nleft arbitrary: acc rule: less_induct)
  case (less nleft)
  have IH: "emits (Nrecv_no_select_loop fd opt (nleft - copied opt nleft bs) (acc @ bs) :: ('z sys_scheme, _) state)
      (\<lambda>out new. reads_ok fd acc nleft out (new @ n1))"
    if "read_ok fd nleft r bs n1" "bs \<noteq> []" "0 < nleft" for r bs n1
    using that(2,3) read_ok_cases [OF that(1)] reads_ok_step [of fd acc n1] by (intro emits_mono [OF less]) auto
  show ?case
    by (subst Nrecv_no_select_loop.simps, intro emits_rules) (auto dest: read_ok_cases intro!: IH intro: read_ok_short)
qed

definition writes_ok :: "int \<Rightarrow> nat \<Rightarrow> byte list \<Rightarrow> int \<Rightarrow> events \<Rightarrow> bool" where
  "writes_ok fd cnt buf r new \<longleftrightarrow>
     (\<exists>n\<le>length buf. gather (accepts fd) new = take n buf
       \<and> (0 \<le> r \<longrightarrow> r = int (cnt - length buf + n)) \<and> r \<in> {NET_HARDERROR, NET_SOFTERROR} \<union> {0..int cnt})"

lemma writes_ok_final:
  assumes "gather (accepts fd) new = []" and "length buf \<le> cnt"
    and "r = NET_HARDERROR \<or> r = NET_SOFTERROR \<or> r = int (cnt - length buf)"
  shows "writes_ok fd cnt buf r new"
  unfolding writes_ok_def using assms by (intro exI [of _ 0]) auto

lemma writes_ok_step:
  assumes "gather (accepts fd) n1 = take k buf" and "k \<le> length buf" and "length buf \<le> cnt"
    and "writes_ok fd cnt (drop k buf) r n2"
  shows "writes_ok fd cnt buf r (n2 @ n1)"
proof -
  obtain n where n: "n \<le> length buf - k" "gather (accepts fd) n2 = take n (drop k buf)"
    "0 \<le> r \<longrightarrow> r = int (cnt - (length buf - k) + n)" "r \<in> {NET_HARDERROR, NET_SOFTERROR} \<union> {0..int cnt}"
    using assms(4) by (auto simp: writes_ok_def)
  then have "gather (accepts fd) (n2 @ n1) = take (k + n) buf"
    using assms(1,2) by (simp add: take_add)
  with n assms(2,3) show ?thesis
    unfolding writes_ok_def by (intro exI [of _ "k + n"]) auto
qed

lemma emits_Nwrite_loop:
  assumes "length buf \<le> cnt"
  shows "emits (Nwrite_loop fd cnt buf :: ('z sys_scheme, int) state) (writes_ok fd cnt buf)"
  using assms
proof (induction "length buf" arbitrary: buf rule: less_induct)
  case less
  have IH: "emits (Nwrite_loop fd cnt (drop (nat r) buf) :: ('z sys_scheme, _) state)
      (\<lambda>r' new. writes_ok fd cnt buf r' (new @ n1))"
    if "gather (accepts fd) n1 = take (nat r) buf" "0 < r" "r \<le> int (length buf)" for r n1
    using that less.prems writes_ok_step [OF that(1), of cnt] by (intro emits_mono [OF less.hyps]) auto
  show ?case
    using less.prems by (subst Nwrite_loop.simps, intro emits_rules) (auto intro!: IH writes_ok_final)
qed

lemma emits_Nwrite:
  "emits (Nwrite fd buf prot) (\<lambda>r new. \<exists>n. n \<le> length buf \<and> gather (accepts fd) new = take n buf
     \<and> (if r < 0 then r = NET_SOFTERROR \<or> r = NET_HARDERROR else r = int n))"
  unfolding Nwrite_def
  by (rule emits_mono [OF emits_Nwrite_loop]) (auto simp: writes_ok_def)

lemma emits_Nrecv:
  "emits (Nrecv fd n prot opt) (\<lambda>(r, bs) new. quiet new \<and>
     (r = NET_HARDERROR \<and> bs = []
      \<or> r = int (length bs) \<and> bs = gather (delivers fd) new \<and> length bs \<le> n
        \<and> (length bs < n \<longrightarrow> new \<noteq> [] \<and> stops fd (hd new))))"
  unfolding Nrecv_def
proof (intro emits_rules emits_mono [OF emits_Nrecv_loop], goal_cases)
  case (3 a out new)
  then show ?case by (cases out) (auto simp: neq_Nil_conv)
qed auto

text \<open>\<open>Nread\<close> returns what it was asked for exactly if the system delivered it.\<close>

lemma emits_Nread_exact:
  assumes "0 < n"
  shows "emits (Nread fd n prot) (\<lambda>(r, bs) new. quiet new \<and> length (gather (delivers fd) new) \<le> n
     \<and> (r = int n \<longleftrightarrow> length (gather (delivers fd) new) = n) \<and> (r = int n \<longrightarrow> bs = gather (delivers fd) new))"
  unfolding Nread_def Nrecv_def
proof (intro emits_rules emits_mono [OF emits_Nrecv_loop], goal_cases)
  case (3 a out new)
  then show ?case using assms by (cases out) auto
qed (use assms in auto)

lemma emits_Nread_no_select:
  "emits (Nread_no_select fd n prot) (\<lambda>(r, bs) new. quiet new \<and>
     (r = NET_HARDERROR \<and> bs = []
      \<or> r = int (length bs) \<and> bs = gather (delivers fd) new \<and> length bs \<le> n
        \<and> (length bs < n \<longrightarrow> new \<noteq> [] \<and> stops fd (hd new))))"
  unfolding Nread_no_select_def Nrecv_no_select_def
proof (intro emits_rules emits_mono [OF emits_Nrecv_no_select_loop], goal_cases)
  case (1 out new)
  then show ?case by (cases out) auto
qed

section \<open>Sockets and lookups are not leaked\<close>

text \<open>
  \<open>balanced r new\<close>: if the result is an error every socket opened has been closed again,
  otherwise exactly the returned one is open; either way every lookup has been released once.
\<close>

definition balanced :: "int \<Rightarrow> events \<Rightarrow> bool" where
  "balanced r new \<longleftrightarrow> mset (gather looks_up new) = mset (gather releases new)
     \<and> (if r < 0 then mset (gather opens new) = mset (gather closes new)
        else gather opens new = [r] \<and> gather closes new = [])"

text \<open>The same before the lookup \<open>ai\<close> of the server is released.\<close>

definition holding :: "int \<times> addrinfo option \<Rightarrow> events \<Rightarrow> bool" where
  "holding out new \<longleftrightarrow>
     (case out of (r, None) \<Rightarrow> r < 0 \<and> balanced r new
      | (r, Some ai) \<Rightarrow> 0 \<le> r \<and> gather opens new = [r] \<and> gather closes new = []
          \<and> mset (gather looks_up new) = add_mset (ai_id ai) (mset (gather releases new)))"

lemma emits_freeaddrinfo [emits_rules]:
  "(\<And>a. Q () [(Freeaddrinfo (map_option ai_id ai), a)]) \<Longrightarrow> emits (freeaddrinfo ai) Q"
  unfolding freeaddrinfo_def by (intro emits_rules) simp

lemma emits_getaddrinfo [emits_rules]:
  "(\<And>a. Q (ret a, info a) [(Getaddrinfo n sv f t fl, a)]) \<Longrightarrow> emits (getaddrinfo n sv f t fl) Q"
  unfolding getaddrinfo_def by (intro emits_rules) simp

lemma emits_close [emits_rules]:
  assumes "0 \<le> fd" and "\<And>r new. gather opens new = [] \<Longrightarrow> gather closes new = [fd] \<Longrightarrow> gather looks_up new = []
      \<Longrightarrow> gather releases new = [] \<Longrightarrow> silent new \<Longrightarrow> Q r new"
  shows "emits (iperf_win32_close fd) Q"
  unfolding iperf_win32_close_def using assms(1) by (intro emits_rules) (auto intro!: assms(2) simp: silent_def)

lemma emits_fail_close [emits_rules]:
  assumes "0 \<le> s" and "length ais \<le> 2"
    and "\<And>new. gather opens new = [] \<Longrightarrow> gather closes new = [s] \<Longrightarrow> gather looks_up new = []
      \<Longrightarrow> gather releases new = concat (map (\<lambda>ai. case ai of None \<Rightarrow> [] | Some i \<Rightarrow> [ai_id i]) ais) \<Longrightarrow> Q (- 1) new"
  shows "emits (fail_close s ais) Q"
proof -
  consider "ais = []" | a where "ais = [a]" | a b where "ais = [a, b]"
    using assms(2) by (cases ais; cases "tl ais") auto
  then show ?thesis
    unfolding fail_close_def
    by cases (simp_all, (intro emits_rules assms(1) assms(3); auto split: option.splits)+)
qed

lemma emits_fcntl [emits_rules]:
  "(\<And>r new. quiet new \<Longrightarrow> Q r new) \<Longrightarrow> emits (fcntl fd cmd arg) Q"
  unfolding fcntl_def by (intro emits_rules) auto

lemma emits_poll [emits_rules]: "(\<And>r new. quiet new \<Longrightarrow> Q r new) \<Longrightarrow> emits (poll fd ev t) Q"
  unfolding poll_def by (intro emits_rules) auto

lemma emits_timeout_connect [emits_rules]:
  assumes "\<And>r new. quiet new \<Longrightarrow> Q r new"
  shows "emits (timeout_connect s name t) Q"
  unfolding timeout_connect_def by (intro emits_rules) (auto intro!: assms)

lemma emits_bind_local:
  assumes "0 \<le> s"
  shows "emits (bind_local s local local_res port server_res)
    (\<lambda>r new. gather opens new = [] \<and> gather looks_up new = []
       \<and> (if r < 0 then gather closes new = [s] \<and> mset (gather releases new)
             = add_mset (ai_id server_res) (case local_res of None \<Rightarrow> {#} | Some i \<Rightarrow> {#ai_id i#})
          else r = s \<and> gather closes new = [] \<and> mset (gather releases new)
             = (case local_res of None \<Rightarrow> {#} | Some i \<Rightarrow> {#ai_id i#})))"
  unfolding bind_local_def by (intro emits_rules assms) (use assms in auto)

lemma emits_create_socket:
  "emits (create_socket domain type proto local bind_dev lport server port) holding"
  unfolding create_socket_def free_local_def bind_to_device_def
  by (intro emits_rules emits_mono [OF emits_bind_local])
    (auto simp: holding_def balanced_def split: if_splits option.splits)

lemma emits_netdial:
  "emits (netdial domain proto local bind_dev lport server port timeout) balanced"
  unfolding netdial_def
  by (intro emits_rules emits_mono [OF emits_create_socket])
    (auto simp: holding_def balanced_def split: if_splits option.splits prod.splits)

lemma emits_netannounce:
  "emits (netannounce domain proto local bind_dev port) balanced"
  unfolding netannounce_def
  by (intro emits_rules) (auto simp: balanced_def answers_def split: if_splits)

section \<open>The rest of the state\<close>

lemma keeps_read_loops [keeps_rules]:
  "keeps (Nrecv_loop fd opt nleft ft acc :: ('z sys_scheme, int + byte list) state)"
  "keeps (Nrecv_no_select_loop fd opt nleft acc :: ('z sys_scheme, int + byte list) state)"
proof -
  show "keeps (Nrecv_loop fd opt nleft ft acc :: ('z sys_scheme, int + byte list) state)"
  proof (induction nleft arbitrary: ft acc rule: less_induct)
    case (less n)
    show ?case
      unfolding Nrecv_loop.simps [of fd opt n] read_or_recv_def
      by (intro keeps_rules less) (auto simp: copied_def neq_Nil_conv)
  qed
  show "keeps (Nrecv_no_select_loop fd opt nleft acc :: ('z sys_scheme, int + byte list) state)"
  proof (induction nleft arbitrary: acc rule: less_induct)
    case (less n)
    show ?case
      unfolding Nrecv_no_select_loop.simps [of fd opt n] read_or_recv_def
      by (intro keeps_rules less) (auto simp: copied_def neq_Nil_conv)
  qed
qed

lemma keeps_Nwrite_loop [keeps_rules]: "keeps (Nwrite_loop fd n buf :: ('z sys_scheme, int) state)"
proof (induction "length buf" arbitrary: buf rule: less_induct)
  case less
  show ?case
    by (subst Nwrite_loop.simps, intro keeps_rules less) auto
qed

lemma keeps_io [keeps_rules]:
  "keeps (Nrecv fd n p opt)" "keeps (Nread fd n p)" "keeps (Nrecv_no_select fd n p opt)" "keeps (Nread_no_select fd n p)"
  "keeps (Nwrite fd b p)" "keeps (Nwrite_gso fd b p g)" "keeps (Nread_gro fd n p)"
  unfolding Nrecv_def Nread_def Nrecv_no_select_def Nread_no_select_def Nwrite_def Nwrite_gso_def Nread_gro_def
  by (intro keeps_rules)+

lemma honest_read_loop [honest_rules]: "honest (Nrecv_loop fd opt nleft ft acc :: ('z sys_scheme, int + byte list) state)"
proof (induction nleft arbitrary: ft acc rule: less_induct)
  case (less n)
  show ?case
    unfolding Nrecv_loop.simps [of fd opt n] read_or_recv_def
    by (intro honest_rules less) (auto simp: copied_def neq_Nil_conv)
qed

lemma honest_Nwrite_loop [honest_rules]: "honest (Nwrite_loop fd n buf :: ('z sys_scheme, int) state)"
proof (induction "length buf" arbitrary: buf rule: less_induct)
  case less
  show ?case
    by (subst Nwrite_loop.simps, intro honest_rules less) auto
qed

lemma honest_io [honest_rules]: "honest (Nrecv fd n p opt)" "honest (Nread fd n p)" "honest (Nwrite fd b p)"
  unfolding Nrecv_def Nread_def Nwrite_def by (intro honest_rules)+

section \<open>Properties\<close>



text \<open>
  \<open>Nread_no_select\<close> has the same contract without the time limits: it stops short of \<open>count\<close> only
  at a read that delivered nothing.
\<close>

lemma Nread_no_select_delivers:
  "emits (Nread_no_select fd n prot) (\<lambda>(r, bs) new. quiet new \<and>
     (r = NET_HARDERROR \<and> bs = []
      \<or> r = int (length bs) \<and> bs = gather (delivers fd) new \<and> length bs \<le> n
        \<and> (length bs < n \<longrightarrow> new \<noteq> [] \<and> stops fd (hd new))))"
  by (rule emits_Nread_no_select)

theorem Nread_no_select_delivers_witness:
  "let os = (\<lambda>_ c. case c of Recv fd n f \<Rightarrow> (answers 1)\<lparr>bytes := [7]\<rparr> | _ \<Rightarrow> answers 1)
   in fst (run_state (Nread_no_select 3 2 0) (sys0 os)) = (2, [7, 7])
      \<and> gather (delivers 3) (trace (snd (run_state (Nread_no_select 3 2 0) (sys0 os)))) = [7, 7]"
proof -
  define f where "f = (\<lambda>(_ :: (syscall \<times> answer) list) c. case c of Recv fd n f \<Rightarrow> (answers 1)\<lparr>bytes := [7]\<rparr> | _ \<Rightarrow> answers 1)"
  have run: "fst (run_state (Nread_no_select 3 2 0) (sys0 f)) = (2, [7, 7])"
    by (simp add: Nread_no_select_def Nrecv_no_select_def Nrecv_no_select_loop.simps winsock_def run_call sys0_def
        f_def answers_def read_or_recv_def iperf_win32_read_def received_def copied_def Let_def)
  from Nread_no_select_delivers [of 3 2 0, unfolded emits_def, rule_format, of "sys0 f"] run
  show ?thesis
    by (auto simp: Let_def f_def [symmetric] sys0_def)
qed

text \<open>
  C22: \<open>Nwrite\<close> returns a soft or hard error or a count between 0 and the size of the buffer; the
  system accepted a prefix of the buffer, and when the result is not an error the prefix has
  exactly that length. (After an error the length of the prefix is not reported.)
\<close>

theorem Nwrite_sends_prefix:
  "emits (Nwrite fd buf prot) (\<lambda>r new. \<exists>n. n \<le> length buf \<and> gather (accepts fd) new = take n buf
     \<and> (if r < 0 then r = NET_SOFTERROR \<or> r = NET_HARDERROR else r = int n))"
  by (rule emits_Nwrite)

text \<open>
  C23: no error path of \<open>netdial\<close> and \<open>netannounce\<close> leaks: when they fail every socket they opened
  has been closed, when they succeed the returned socket is the only one opened and it is still
  open, and every successful address lookup has been released exactly once.
\<close>

theorem netdial_netannounce_no_leak:
  "emits (netdial domain proto local bind_dev local_port server port timeout) balanced
   \<and> emits (netannounce domain proto local bind_dev port) balanced"
  using emits_netdial emits_netannounce by blast

text \<open>
  on this platform a connection attempt with a timeout cannot wait: the non-blocking \<open>connect\<close>
  fails with \<open>WSAEWOULDBLOCK\<close> and leaves \<open>errno\<close> alone, so unless \<open>errno\<close> held \<open>EINPROGRESS\<close>
  from before, \<open>timeout_connect\<close> returns \<open>-1\<close> at once and never polls.
\<close>

lemma timeout_connect_never_polls:
  assumes "timeout \<noteq> - 1" and "errno s \<noteq> EINPROGRESS" and "\<forall>t. ret (os s t (Connect sock name)) = - 1"
    and "\<forall>t b. ret (os s t (Ioctl_FIONBIO sock b)) = 0"
  shows "\<exists>a1 a2 a3. run_state (timeout_connect sock name timeout) s
    = (- 1, s\<lparr>wsa_error := err a2,
             trace := (Ioctl_FIONBIO sock False, a3) # (Connect sock name, a2) # (Ioctl_FIONBIO sock True, a1) # trace s\<rparr>)"
  using assms
  by (simp add: timeout_connect_def fcntl_def winsock_def run_call Let_def O_NONBLOCK_def)
    ((rule exI)+, rule refl)

theorem timeout_connect_never_polls_witness:
  "fst (run_state (timeout_connect 5 \<lparr>sa_family = 2, sa_host = ''10.0.0.1'', sa_port = 5201\<rparr> 1000)
     (sys0 (\<lambda>_ c. case c of Connect s n \<Rightarrow> (answers (- 1))\<lparr>err := WSAEWOULDBLOCK\<rparr> | _ \<Rightarrow> answers 0))) = - 1"
  using timeout_connect_never_polls [of 1000
      "sys0 (\<lambda>_ c. case c of Connect s n \<Rightarrow> (answers (- 1))\<lparr>err := WSAEWOULDBLOCK\<rparr> | _ \<Rightarrow> answers 0)" 5
      "\<lparr>sa_family = 2, sa_host = ''10.0.0.1'', sa_port = 5201\<rparr>"]
  by (auto simp: sys0_def answers_def)

text \<open>
  \<open>setnonblocking\<close> turns non-blocking mode on by one system call, but turning it off does
  nothing: \<open>fcntl (F_GETFL)\<close> always answers 0 here, so the flag never seems to be set and the
  socket stays non-blocking although the function reports success.
\<close>

lemma setnonblocking_off_is_noop:
  "run_state (setnonblocking fd False) s = (0, s)
   \<and> (\<exists>a s'. run_state (setnonblocking fd True) s = (if ret a = - 1 then - 1 else 0, s')
         \<and> trace s' = (Ioctl_FIONBIO fd True, a) # trace s)"
  by (simp add: setnonblocking_def fcntl_def winsock_def run_call Let_def O_NONBLOCK_def set_wsa_errno_def)

end
