(* ===== verification/Units.thy ===== *)
theory Units
  imports Errors Doubles
begin

text \<open>
  The unit conversions of \<open>units.c\<close>: reading numbers with a binary or decimal suffix and
  printing a quantity so that it fits in four places. The number syntax read by \<open>sscanf\<close> is
  the decimal one of C (sign, digits, point, exponent); the words for infinities and NaNs and
  hexadecimal numbers are left out.
\<close>

section \<open>Reading a number\<close>

definition scan_exponent :: "string \<Rightarrow> (int \<times> string) option" where
  "scan_exponent s =
     (case s of
        c # r \<Rightarrow>
          if to_lower c = CHR ''e'' then
            let (neg, r1) = scan_sign r; (ds, rest) = split_while is_digit r1; e = int (digits_value 10 ds)
            in if ds = [] then None else Some (if neg then - e else e, rest)
          else Some (0, s)
      | [] \<Rightarrow> Some (0, s))"

definition scan_fraction :: "string \<Rightarrow> string \<times> string" where
  "scan_fraction s =
     (case s of c # r \<Rightarrow> if c = CHR ''.'' then split_while is_digit r else ([], s) | [] \<Rightarrow> ([], s))"

definition scan_lf :: "string \<Rightarrow> (double \<times> string) option" where
  "scan_lf s =
     (let (neg, s1) = scan_sign (snd (split_while is_space s));
          (ip, s2) = split_while is_digit s1;
          (fp, s3) = scan_fraction s2
      in if ip = [] \<and> fp = [] then None
         else case scan_exponent s3 of
           None \<Rightarrow> None
         | Some (e, rest) \<Rightarrow>
             let v = of_nat (digits_value 10 (ip @ fp)) * 10 powi (e - int (length fp))
             in Some (fl64 (if neg then - v else v), rest))"

text \<open>\<open>sscanf (s, "%lf%c", &n, &suffix)\<close>: the suffix keeps its initial NUL at the end of the text.\<close>

definition scan_unit :: "string \<Rightarrow> (double \<times> char option) option" where
  "scan_unit s = (case scan_lf s of None \<Rightarrow> None
     | Some (n, rest) \<Rightarrow> Some (n, case rest of [] \<Rightarrow> None | c # _ \<Rightarrow> Some c))"

definition unit_factor :: "rat \<Rightarrow> char option \<Rightarrow> rat option" where
  "unit_factor kilo suffix =
     (case suffix of
        None \<Rightarrow> Some 1
      | Some c \<Rightarrow>
          if to_lower c = CHR ''t'' then Some (kilo * kilo * kilo * kilo)
          else if to_lower c = CHR ''g'' then Some (kilo * kilo * kilo)
          else if to_lower c = CHR ''m'' then Some (kilo * kilo)
          else if to_lower c = CHR ''k'' then Some kilo
          else None)"

definition unit_error :: "string \<Rightarrow> ('z globals_scheme, unit) state" where
  "unit_error s = do { _ \<leftarrow> set_i_errno IEUNITVAL; update_state (errarg_update (\<lambda>_. s)) }"

definition unit_atof :: "string \<Rightarrow> ('z globals_scheme, double) state" where
  "unit_atof s =
     (case scan_unit s of
        None \<Rightarrow> do { _ \<leftarrow> unit_error s; State_Monad.return 0 }
      | Some (n, suffix) \<Rightarrow>
          (case unit_factor 1024 suffix of
             Some f \<Rightarrow> State_Monad.return (fl64 (n * f))
           | None \<Rightarrow> do { _ \<leftarrow> unit_error s; State_Monad.return n }))"

definition unit_atof_rate :: "string \<Rightarrow> ('z globals_scheme, double) state" where
  "unit_atof_rate s =
     (case scan_unit s of
        None \<Rightarrow> do { _ \<leftarrow> unit_error s; State_Monad.return 0 }
      | Some (n, suffix) \<Rightarrow>
          (case unit_factor 1000 suffix of
             Some f \<Rightarrow> State_Monad.return (fl64 (n * f))
           | None \<Rightarrow> do { _ \<leftarrow> unit_error s; State_Monad.return n }))"

definition unit_atoi :: "string \<Rightarrow> ('z globals_scheme, u64) state" where
  "unit_atoi s =
     (case scan_unit s of
        None \<Rightarrow> do { _ \<leftarrow> unit_error s; State_Monad.return 0 }
      | Some (n, suffix) \<Rightarrow>
          (case unit_factor 1024 suffix of
             Some f \<Rightarrow> State_Monad.return (double_to_u64 (fl64 (n * f)))
           | None \<Rightarrow> do { _ \<leftarrow> unit_error s; State_Monad.return 0 }))"

section \<open>Printing a quantity\<close>

definition conversion_bytes :: "double list" where
  "conversion_bytes =
     [1, fl64 (1 / 1024), fl64 (fl64 (1 / 1024) / 1024), fl64 (fl64 (fl64 (1 / 1024) / 1024) / 1024),
      fl64 (fl64 (fl64 (fl64 (1 / 1024) / 1024) / 1024) / 1024)]"

definition conversion_bits :: "double list" where
  "conversion_bits =
     [1, fl64 (1 / 1000), fl64 (fl64 (1 / 1000) / 1000), fl64 (fl64 (fl64 (1 / 1000) / 1000) / 1000),
      fl64 (fl64 (fl64 (fl64 (1 / 1000) / 1000) / 1000) / 1000)]"

definition label_byte :: "string list" where
  "label_byte = [''Byte'', ''KByte'', ''MByte'', ''GByte'', ''TByte'']"

definition label_bit :: "string list" where
  "label_bit = [''bit'', ''Kbit'', ''Mbit'', ''Gbit'', ''Tbit'']"

text \<open>The loop of the adaptive formats: \<open>TERA_CONV\<close> is 4.\<close>

function adapt :: "rat \<Rightarrow> double \<Rightarrow> nat \<Rightarrow> nat" where
  "adapt kilo tmpNum conv =
     (if kilo \<le> tmpNum \<and> conv < 4 then adapt kilo (fl64 (tmpNum / kilo)) (conv + 1) else conv)"
  by auto
termination by (relation "measure (\<lambda>(_, _, conv). 4 - conv)") auto

declare adapt.simps [simp del]

text \<open>\<open>%W.Pf\<close>: the exact value rounded to \<open>P\<close> decimals, padded on the left to width \<open>W\<close>.\<close>

definition pad_left :: "nat \<Rightarrow> char \<Rightarrow> string \<Rightarrow> string" where
  "pad_left w c s = replicate (w - length s) c @ s"

definition show_fixed :: "nat \<Rightarrow> nat \<Rightarrow> double \<Rightarrow> string" where
  "show_fixed w p x =
     (let n = nat (round_even (\<bar>x\<bar> * 10 ^ p));
          body = show_nat (n div 10 ^ p)
                 @ (if p = 0 then [] else CHR ''.'' # pad_left p CHR ''0'' (show_nat (n mod 10 ^ p)))
      in pad_left w CHR '' '' (if x < 0 then CHR ''-'' # body else body))"

definition unit_conv :: "double \<Rightarrow> char \<Rightarrow> nat" where
  "unit_conv inNum inFormat =
     (let c = to_upper inFormat
      in if c = CHR ''B'' then 0 else if c = CHR ''K'' then 1 else if c = CHR ''M'' then 2
         else if c = CHR ''G'' then 3 else if c = CHR ''T'' then 4
         else if is_upper inFormat then adapt 1024 inNum 0 else adapt 1000 inNum 0)"

definition unit_format :: "double \<Rightarrow> string" where
  "unit_format inNum =
     (if inNum < fl64 9.995 then show_fixed 4 2 inNum
      else if inNum < fl64 99.95 then show_fixed 4 1 inNum
      else show_fixed 4 0 inNum)"

definition unit_snprintf :: "nat \<Rightarrow> double \<Rightarrow> char \<Rightarrow> string" where
  "unit_snprintf inLen inNum inFormat =
     (let inNum = (if is_upper inFormat then inNum else fl64 (inNum * 8));
          conv = unit_conv inNum inFormat;
          inNum = (if is_upper inFormat then fl64 (inNum * conversion_bytes ! conv)
                   else fl64 (inNum * conversion_bits ! conv));
          suffix = (if is_upper inFormat then label_byte ! conv else label_bit ! conv)
      in snprintf inLen (unit_format inNum @ CHR '' '' # suffix))"

section \<open>Reading is exact\<close>

lemma unit_suffix_stops:
  assumes "unit_factor k (Some c) = Some f"
  shows "\<not> is_digit c" and "c \<noteq> CHR ''.''" and "to_lower c \<noteq> CHR ''e''"
  using assms by (auto simp: unit_factor_def is_digit_def to_lower_def is_upper_def char_code_def split: if_splits)

lemma split_while_show_nat:
  assumes "\<And>c r. rest = c # r \<Longrightarrow> \<not> is_digit c"
  shows "split_while is_digit (show_nat n @ rest) = (show_nat n, rest)"
  using show_nat_digits [of n] assms by (intro split_while_append) auto

lemma scan_unit_show_nat:
  assumes "rest = [] \<or> (\<exists>c f. rest = [c] \<and> unit_factor k (Some c) = Some f)"
  shows "scan_unit (show_nat n @ rest) = Some (fl64 (of_nat n), case rest of [] \<Rightarrow> None | c # _ \<Rightarrow> Some c)"
proof -
  obtain d r where d: "show_nat n = d # r" and "is_digit d"
    using show_nat_nonempty [of n] show_nat_neq_minus by (metis neq_Nil_conv)
  then have lead: "scan_sign (snd (split_while is_space (show_nat n @ rest))) = (False, show_nat n @ rest)"
    using is_digit_cases [of d] by (simp add: scan_sign_def)
  have dig: "split_while is_digit (show_nat n @ rest) = (show_nat n, rest)"
    using assms unit_suffix_stops by (intro split_while_show_nat) auto
  have fr: "scan_fraction rest = ([], rest)" "scan_exponent rest = Some (0, rest)"
    using assms unit_suffix_stops by (auto simp: scan_fraction_def scan_exponent_def)
  show ?thesis
    by (simp add: scan_unit_def scan_lf_def lead dig fr)
qed

lemma u64_fl64_int:
  assumes "is_double (of_nat n)"
  shows "double_to_u64 (fl64 (of_nat n)) = of_nat n"
  using fl64_representable [OF assms] by (simp add: double_to_u64_def truncate_def not_less)

lemma unit_atoi_value:
  assumes "n \<le> 2 ^ 53" and "unit_factor 1024 suffix = Some (2 ^ p)"
  shows "run_state (unit_atoi (show_nat n @ (case suffix of None \<Rightarrow> [] | Some c \<Rightarrow> [c]))) s
    = (of_nat (n * 2 ^ p), s)"
proof -
  have "int n \<le> int (2 ^ 53)"
    using assms(1) by (simp only: of_nat_le_iff)
  then have n: "\<bar>int n\<bar> \<le> 2 ^ 53" by simp
  have sc: "scan_unit (show_nat n @ (case suffix of None \<Rightarrow> [] | Some c \<Rightarrow> [c])) = Some (of_nat n, suffix)"
    using assms(2) fl64_int [OF n] by (subst scan_unit_show_nat [where k = 1024]) (auto split: option.splits)
  have "is_double (of_nat (n * 2 ^ p))"
    using is_double_int [OF n, of "int p"] by simp
  then have "double_to_u64 (fl64 (of_nat n * 2 ^ p)) = of_nat (n * 2 ^ p)"
    using u64_fl64_int [of "n * 2 ^ p"] by simp
  then show ?thesis
    using sc assms(2) by (simp add: unit_atoi_def)
qed

section \<open>The printed text fits\<close>

lemma length_show_nat: "n < 10 ^ k \<Longrightarrow> 0 < k \<Longrightarrow> length (show_nat n) \<le> k"
proof (induction k arbitrary: n)
  case (Suc k)
  show ?case
  proof (cases "n < 10")
    case False
    then have "n div 10 < 10 ^ k" "0 < k"
      using Suc.prems by (auto simp: less_mult_imp_div_less intro: Nat.gr0I)
    then show ?thesis
      using Suc.IH False by (subst show_nat.simps) simp
  qed (subst show_nat.simps, simp)
qed simp

lemma length_pad_left: "length s \<le> w \<Longrightarrow> length (pad_left w c s) = w"
  by (simp add: pad_left_def)

lemma round_even_below: "x < of_int n - 1 / 2 \<Longrightarrow> round_even x < n"
  using round_even_near [of x] by linarith

lemma length_show_fixed:
  assumes "0 \<le> x" and "x * 10 ^ p < of_nat (10 ^ (w - (if p = 0 then 0 else 1))) - 1 / 2"
    and "p + 1 < w"
  shows "length (show_fixed w p x) = w"
proof -
  let ?d = "w - (if p = 0 then 0 else 1)"
  define n where "n = nat (round_even (x * 10 ^ p))"
  have "round_even (x * 10 ^ p) < int (10 ^ ?d)"
    using assms(2) by (intro round_even_below) simp
  moreover have "0 \<le> round_even (x * 10 ^ p)"
    using round_even_mono [of 0 "x * 10 ^ p"] round_even_int [of 0] assms(1) by simp
  ultimately have n: "n < 10 ^ ?d"
    by (simp add: n_def nat_less_iff)
  have "?d = p + (?d - p)" "0 < ?d - p"
    using assms(3) by auto
  then have "n div 10 ^ p < 10 ^ (?d - p)"
    using n by (metis less_mult_imp_div_less mult.commute power_add)
  then have "length (show_nat (n div 10 ^ p)) \<le> ?d - p"
    using \<open>0 < ?d - p\<close> by (intro length_show_nat) simp_all
  moreover have "length (pad_left p CHR ''0'' (show_nat (n mod 10 ^ p))) = p" if "p \<noteq> 0"
    using that by (intro length_pad_left length_show_nat) simp_all
  ultimately show ?thesis
    using assms(1,3) by (auto simp: show_fixed_def Let_def n_def [symmetric] intro!: length_pad_left)
qed

lemma unit_format_length:
  assumes "is_double x" and "0 \<le> x" and "x < 9999.5"
  shows "length (unit_format x) = 4"
proof -
  have "x < c" if "x < fl64 c" for c
    using that fl64_mono [of c x] fl64_representable [OF assms(1)] by linarith
  from this [of "9.995"] this [of "99.95"] show ?thesis
    using assms(2,3) unfolding unit_format_def by (auto intro!: length_show_fixed)
qed

lemma fl64_upper: "0 \<le> x \<Longrightarrow> fl64 x \<le> x * 1.0001"
  using abs_le_D1 [OF fl64_relative_error [of x]] by simp

lemma fl64_lower: "0 \<le> x \<Longrightarrow> x * 0.9999 \<le> fl64 x"
  using abs_le_D2 [OF fl64_relative_error [of x]] by simp

lemma adapt_bound:
  assumes "x * 0.9999 ^ conv / k ^ conv \<le> tmp" and "0 \<le> tmp" and "0 < k" and "conv \<le> 4"
  shows "adapt k tmp conv \<le> 4
    \<and> (adapt k tmp conv = 4 \<or> x * 0.9999 ^ adapt k tmp conv / k ^ adapt k tmp conv < k)"
  using assms
proof (induction k tmp conv rule: adapt.induct)
  case (1 k tmp conv)
  show ?case
  proof (cases "k \<le> tmp \<and> conv < 4")
    case True
    have "x * 0.9999 ^ (conv + 1) / k ^ (conv + 1) = x * 0.9999 ^ conv / k ^ conv * 0.9999 / k"
      by (simp add: ac_simps)
    also have "\<dots> \<le> tmp * 0.9999 / k"
      using 1(2-4) by (intro divide_right_mono mult_right_mono) simp_all
    also have "\<dots> \<le> fl64 (tmp / k)"
      using fl64_lower [of "tmp / k"] 1(3,4) by simp
    finally show ?thesis
      using 1(1) [OF True] True 1(3,4) fl64_nonneg [of "tmp / k"] by (subst (1 2 3 4) adapt.simps) simp
  qed (use 1 in \<open>subst (1 2 3 4) adapt.simps, auto\<close>)
qed

lemma conversion_step:
  assumes "0 \<le> c" and "c \<le> 1.0001 ^ i / 1000 ^ i"
  shows "0 \<le> fl64 (c / 1000)" and "fl64 (c / 1000) \<le> 1.0001 ^ Suc i / 1000 ^ Suc i"
proof -
  have "fl64 (c / 1000) \<le> c / 1000 * 1.0001"
    using assms(1) by (intro fl64_upper) simp
  also have "\<dots> \<le> (1.0001 ^ i / 1000 ^ i) / 1000 * 1.0001"
    using assms(2) by (intro mult_right_mono divide_right_mono) simp_all
  finally show "fl64 (c / 1000) \<le> 1.0001 ^ Suc i / 1000 ^ Suc i" by (simp add: ac_simps)
  show "0 \<le> fl64 (c / 1000)"
    using assms(1) by (intro fl64_nonneg) simp
qed

lemma conversion_bits_bounds:
  assumes "i \<le> 4"
  shows "0 \<le> conversion_bits ! i" and "conversion_bits ! i \<le> 1.0001 ^ i / 1000 ^ i"
proof -
  have c0: "0 \<le> (1 :: rat)" "(1 :: rat) \<le> 1.0001 ^ 0 / 1000 ^ 0" by simp_all
  note c1 = conversion_step [OF c0]
  note c2 = conversion_step [OF c1]
  note c3 = conversion_step [OF c2]
  note c4 = conversion_step [OF c3]
  have "i = 0 \<or> i = 1 \<or> i = 2 \<or> i = 3 \<or> i = 4" using assms by arith
  then show "0 \<le> conversion_bits ! i" "conversion_bits ! i \<le> 1.0001 ^ i / 1000 ^ i"
    unfolding conversion_bits_def using c0 c1 c2 c3 c4 by (auto simp: numeral_eq_Suc)
qed

lemma conversion_bytes_exact: "i \<le> 4 \<Longrightarrow> conversion_bytes ! i = 1 / 1024 ^ i"
proof -
  have e: "fl64 (1 / 2 ^ n) = 1 / 2 ^ n" for n
    using fl64_representable [OF is_double_int [of 1 "- int n"]]
    by (simp add: power_int_minus divide_inverse)
  have "fl64 (1 / 1024) = 1 / 1024" "fl64 (1 / 1024 / 1024) = 1 / 1024 / 1024"
    "fl64 (1 / 1024 / 1024 / 1024) = 1 / 1024 / 1024 / 1024"
    "fl64 (1 / 1024 / 1024 / 1024 / 1024) = 1 / 1024 / 1024 / 1024 / 1024"
    using e [of 10] e [of 20] e [of 30] e [of 40] by simp_all
  then have l: "conversion_bytes = [1, 1 / 1024, 1 / 1024 ^ 2, 1 / 1024 ^ 3, 1 / 1024 ^ 4]"
    unfolding conversion_bytes_def by (simp only: list.inject) simp
  assume "i \<le> 4"
  then have "i = 0 \<or> i = 1 \<or> i = 2 \<or> i = 3 \<or> i = 4" by arith
  then show ?thesis unfolding l by (elim disjE) (simp_all add: numeral_eq_Suc)
qed

text \<open>
  The adaptive formats pick the scale at which the scaled number stays below 10000, as long as
  the quantity is below \<open>9990 * 1000 ^ 4\<close> bits or \<open>9990 * 1024 ^ 4\<close> bytes.
\<close>

lemma scaled_bound:
  assumes "0 \<le> x" and "k = 1000 \<or> k = 1024" and "x < 9990 * k ^ 4"
    and "0 \<le> c" and "c \<le> 1.0001 ^ adapt k x 0 / k ^ adapt k x 0"
  shows "0 \<le> fl64 (x * c)" and "fl64 (x * c) < 9999.5"
proof -
  define i where "i = adapt k x 0"
  have k: "0 < k" "k \<le> 1024" using assms(2) by auto
  have i: "i \<le> 4" "i = 4 \<or> x * 0.9999 ^ i / k ^ i < k"
    using adapt_bound [of x 0 k x] assms(1) k by (auto simp: i_def)
  have "0.999 \<le> (0.9999 :: rat) ^ i"
    using power_decreasing [OF i(1), of "0.9999 :: rat"] by (simp add: power_numeral_even)
  then have "x * 0.999 \<le> x * 0.9999 ^ i"
    using assms(1) by (rule mult_left_mono)
  then have "x * 0.999 / k ^ i \<le> x * 0.9999 ^ i / k ^ i"
    using k by (intro divide_right_mono) simp_all
  then have "x / k ^ i * 0.999 < 1024 \<or> i = 4"
    using i(2) k by fastforce
  then have scaled: "x / k ^ i < 9990"
  proof
    assume "i = 4"
    then show ?thesis using assms(3) k by (simp add: divide_less_eq)
  qed simp
  have "x * c \<le> x * (1.0001 ^ i / k ^ i)"
    using assms(1,5) by (intro mult_left_mono) (simp_all add: i_def)
  also have "\<dots> = x / k ^ i * 1.0001 ^ i"
    by simp
  also have "\<dots> \<le> x / k ^ i * 1.0001 ^ 4"
    using i(1) assms(1) k by (intro mult_left_mono power_increasing) simp_all
  also have "\<dots> < 9990 * 1.0001 ^ 4"
    using scaled by (intro mult_strict_right_mono) simp_all
  finally have "x * c < 9995" by (simp add: power_numeral_even)
  then show "fl64 (x * c) < 9999.5"
    using fl64_upper [of "x * c"] assms(1,4) by simp
  show "0 \<le> fl64 (x * c)"
    using assms(1,4) by (intro fl64_nonneg) simp
qed

lemma ball_label [simp]: "\<forall>l\<in>set label_byte. length l \<le> 5" "\<forall>l\<in>set label_bit. length l \<le> 5"
  by (simp_all add: label_byte_def label_bit_def)

lemma unit_snprintf_adaptive:
  shows "unit_snprintf len x CHR ''A'' =
      (let i = adapt 1024 x 0
       in snprintf len (unit_format (fl64 (x * conversion_bytes ! i)) @ CHR '' '' # label_byte ! i))"
    and "unit_snprintf len x CHR ''a'' =
      (let y = fl64 (x * 8); i = adapt 1000 y 0
       in snprintf len (unit_format (fl64 (y * conversion_bits ! i)) @ CHR '' '' # label_bit ! i))"
proof -
  have "to_upper CHR ''A'' = CHR ''A''" "to_upper CHR ''a'' = CHR ''A''"
    "is_upper CHR ''A''" "\<not> is_upper CHR ''a''"
    by code_simp+
  then show "unit_snprintf len x CHR ''A'' =
      (let i = adapt 1024 x 0
       in snprintf len (unit_format (fl64 (x * conversion_bytes ! i)) @ CHR '' '' # label_byte ! i))"
    and "unit_snprintf len x CHR ''a'' =
      (let y = fl64 (x * 8); i = adapt 1000 y 0
       in snprintf len (unit_format (fl64 (y * conversion_bits ! i)) @ CHR '' '' # label_bit ! i))"
    by (simp_all add: unit_snprintf_def unit_conv_def Let_def)
qed

section \<open>Properties\<close>

text \<open>
  C28: \<open>unit_atoi\<close> reads a decimal number of at most \<open>2 ^ 53\<close> with a suffix k, m, g or t in either
  case as that number times 1024, 1024 squared, cubed or to the fourth, exactly although it
  computes with doubles, as long as the product fits in 64 bits; it reports no error.
\<close>

theorem unit_atoi_exact:
  assumes "n \<le> 2 ^ 53" and "n * 2 ^ p < 2 ^ 64"
    and "(to_lower c, p) \<in> {(CHR ''k'', 10), (CHR ''m'', 20), (CHR ''g'', 30), (CHR ''t'', 40)}"
  shows "unat (fst (run_state (unit_atoi (show_nat n @ [c])) s)) = n * 2 ^ p
    \<and> snd (run_state (unit_atoi (show_nat n @ [c])) s) = s"
proof -
  have "unit_factor 1024 (Some c) = Some (2 ^ p)"
    using assms(3) by (auto simp: unit_factor_def)
  note run = unit_atoi_value [OF assms(1) this, of s, simplified option.case]
  show ?thesis
    unfolding run using assms(2) by (simp add: unat_of_nat del: of_nat_mult)
qed

theorem unit_atoi_exact_witness:
  "unat (fst (run_state (unit_atoi (show_nat 20 @ ''M'')) no_error)) = 20971520"
proof -
  have "to_lower CHR ''M'' = CHR ''m''" by code_simp
  then show ?thesis using unit_atoi_exact [of 20 20 "CHR ''M''" no_error] by simp
qed

text \<open>
  with a suffix that is not one of k, m, g, t, all three readers set \<open>i_errno\<close> to
  \<open>IEUNITVAL\<close> and \<open>errarg\<close> to the text; \<open>unit_atoi\<close> then returns 0, \<open>unit_atof\<close> and
  \<open>unit_atof_rate\<close> return the number without a factor.
\<close>

lemma unit_bad_suffix:
  assumes "scan_unit s = Some (n, Some c)" and "to_lower c \<notin> set ''kmgt''"
  shows "run_state (unit_atoi s) g = (0, g\<lparr>i_errno := IEUNITVAL, errarg := s\<rparr>)
    \<and> run_state (unit_atof s) g = (n, g\<lparr>i_errno := IEUNITVAL, errarg := s\<rparr>)
    \<and> run_state (unit_atof_rate s) g = (n, g\<lparr>i_errno := IEUNITVAL, errarg := s\<rparr>)"
  using assms by (simp add: unit_atoi_def unit_atof_def unit_atof_rate_def unit_factor_def unit_error_def)

theorem unit_bad_suffix_witness:
  "run_state (unit_atof ''10x'') no_error = (10, no_error\<lparr>i_errno := 38, errarg := ''10x''\<rparr>)
   \<and> run_state (unit_atoi ''10x'') no_error = (0, no_error\<lparr>i_errno := 38, errarg := ''10x''\<rparr>)"
proof -
  have "scan_unit ''10x'' = Some (10, Some CHR ''x'')" "to_lower CHR ''x'' = CHR ''x''" by code_simp+
  from unit_bad_suffix [OF this(1), of no_error] this(2) show ?thesis by simp
qed

text \<open>
  the adaptive formats of \<open>unit_snprintf\<close> print any quantity below \<open>10 ^ 15\<close> bytes in exactly
  four places, a blank and a unit label, so that the text with its terminator fits in the
  eleven bytes the comment asks for.
\<close>

lemma unit_snprintf_fits:
  assumes "is_double x" and "0 \<le> x" and "x < 10 ^ 15" and "f = CHR ''a'' \<or> f = CHR ''A''"
    and "11 \<le> inLen"
  shows "\<exists>num unit. unit_snprintf inLen x f = num @ CHR '' '' # unit \<and> length num = 4
    \<and> unit \<in> set (if f = CHR ''A'' then label_byte else label_bit)
    \<and> length (unit_snprintf inLen x f) \<le> 10"
proof -
  have fmt: "\<exists>num unit. unit_snprintf inLen x f = num @ CHR '' '' # unit \<and> length num = 4
      \<and> unit \<in> set labels \<and> length (unit_snprintf inLen x f) \<le> 10"
    if "unit_snprintf inLen x f = snprintf inLen (unit_format y @ CHR '' '' # unit)"
      "is_double y" "0 \<le> y" "y < 9999.5" "unit \<in> set labels" "\<forall>l\<in>set labels. length l \<le> 5"
    for y unit labels
  proof -
    have "length (unit_format y) = 4" using that(2-4) by (rule unit_format_length)
    then show ?thesis
      using that(1,5,6) assms(5) by (intro exI [of _ "unit_format y"] exI [of _ unit]) (auto simp: snprintf_def)
  qed
  show ?thesis
  proof (cases "f = CHR ''A''")
    case True
    let ?i = "adapt 1024 x 0"
    have i: "?i \<le> 4" using adapt_bound [of x 0 1024 x] assms(2) by simp
    then have "0 \<le> conversion_bytes ! ?i" "conversion_bytes ! ?i \<le> 1.0001 ^ ?i / 1024 ^ ?i"
      using conversion_bytes_exact by (simp_all add: divide_right_mono)
    then have "0 \<le> fl64 (x * conversion_bytes ! ?i)" "fl64 (x * conversion_bytes ! ?i) < 9999.5"
      using scaled_bound [of x 1024] assms(2,3) by simp_all
    moreover have "label_byte ! ?i \<in> set label_byte"
      using i by (intro nth_mem) (simp add: label_byte_def)
    ultimately show ?thesis
      using True fmt [of "fl64 (x * conversion_bytes ! ?i)" "label_byte ! ?i" label_byte] is_double_fl64
      by (simp add: unit_snprintf_adaptive Let_def ball_label)
  next
    case False
    let ?x = "fl64 (x * 8)"
    let ?i = "adapt 1000 ?x 0"
    have x: "0 \<le> ?x" "?x < 9990 * 1000 ^ 4"
      using fl64_nonneg [of "x * 8"] fl64_upper [of "x * 8"] assms(2,3) by simp_all
    have i: "?i \<le> 4" using adapt_bound [of ?x 0 1000 ?x] x by simp
    have "0 \<le> fl64 (?x * conversion_bits ! ?i)" "fl64 (?x * conversion_bits ! ?i) < 9999.5"
      using scaled_bound [of ?x 1000] x conversion_bits_bounds [OF i] by simp_all
    moreover have "label_bit ! ?i \<in> set label_bit"
      using i by (intro nth_mem) (simp add: label_bit_def)
    ultimately show ?thesis
      using False assms(4) fmt [of "fl64 (?x * conversion_bits ! ?i)" "label_bit ! ?i" label_bit] is_double_fl64
      by (simp add: unit_snprintf_adaptive Let_def ball_label)
  qed
qed

theorem unit_snprintf_fits_witness:
  "\<exists>num unit. unit_snprintf 32 12345 CHR ''a'' = num @ CHR '' '' # unit \<and> length num = 4
    \<and> unit \<in> set label_bit \<and> length (unit_snprintf 32 12345 CHR ''a'') \<le> 10"
  using unit_snprintf_fits [of 12345 "CHR ''a''" 32] is_double_int [of 12345 0] by simp

end
