(* ===== verification/Udp_Correct.thy ===== *)
theory Udp_Correct
  imports Udp Net_Correct Units
begin

text \<open>
  Properties of the UDP streams: the header survives the network, the loss counter is exact when no
  packet is duplicated, the jitter is a weighted mean of the transit differences, and what sending
  and receiving add to the counters.
\<close>

section \<open>Loss accounting\<close>

abbreviation seq0 :: seq_state where
  "seq0 \<equiv> \<lparr>sq_packet_count = 0, sq_cnt_error = 0, sq_outoforder = 0\<rparr>"

definition run_seq :: "nat list \<Rightarrow> seq_state" where
  "run_seq ps = fold seq_step (map of_nat ps) seq0"

definition highest :: "nat list \<Rightarrow> nat" where
  "highest ps = Max (insert 0 (set ps))"

text \<open>Arrivals after a packet with a higher number.\<close>

definition late_arrivals :: "nat list \<Rightarrow> nat" where
  "late_arrivals ps = length (filter (\<lambda>i. ps ! i < highest (take i ps)) [0..<length ps])"

lemma highest_snoc: "highest (ps @ [p]) = max (highest ps) p"
proof -
  have "highest (ps @ [p]) = Max (insert p (insert 0 (set ps)))"
    by (simp add: highest_def insert_commute)
  also have "\<dots> = max p (highest ps)"
    unfolding highest_def by (rule Max_insert) simp_all
  finally show ?thesis by (simp add: max.commute)
qed

lemma late_arrivals_snoc: "late_arrivals (ps @ [p]) = late_arrivals ps + (if p < highest ps then 1 else 0)"
proof -
  have "filter (\<lambda>i. (ps @ [p]) ! i < highest (take i (ps @ [p]))) [0..<length ps]
      = filter (\<lambda>i. ps ! i < highest (take i ps)) [0..<length ps]"
    by (rule filter_cong) (auto simp: nth_append)
  then show ?thesis by (simp add: late_arrivals_def)
qed

lemma highest_bounds: "p \<in> set ps \<Longrightarrow> p \<le> highest ps" "(\<forall>p\<in>set ps. p < b) \<Longrightarrow> 0 < b \<Longrightarrow> highest ps < b"
  by (auto simp: highest_def)

lemma distinct_length_highest:
  assumes "distinct ps" and "\<forall>p\<in>set ps. 1 \<le> p"
  shows "length ps \<le> highest ps"
proof -
  have "set ps \<subseteq> {1..highest ps}"
    using assms(2) highest_bounds(1) by auto
  then have "card (set ps) \<le> highest ps"
    using card_mono [of "{1..highest ps}"] by simp
  then show ?thesis using assms(1) by (simp add: distinct_card)
qed

text \<open>A packet that is late and new leaves a gap that was counted as lost.\<close>

lemma distinct_late_gap:
  assumes "distinct (ps @ [p])" and "\<forall>q\<in>set (ps @ [p]). 1 \<le> q" and "p < highest ps"
  shows "length ps < highest ps"
  using distinct_length_highest [of "ps @ [p]"] assms by (simp add: highest_snoc max_def)

lemma unat_u64_small: "n \<le> 2 ^ 63 \<Longrightarrow> unat (of_nat n :: u64) = n"
  by (simp add: unat_of_nat)

lemma sint_of_nat_u64: "n < 2 ^ 63 \<Longrightarrow> sint (of_nat n :: u64) = int n"
  by (subst sint_small_u64) (simp_all only: unat_u64_small less_imp_le, simp)

lemma run_seq_correct:
  assumes "distinct ps" and "\<forall>p\<in>set ps. 1 \<le> p \<and> p < 2 ^ 63"
  shows "run_seq ps = \<lparr>sq_packet_count = of_nat (highest ps), sq_cnt_error = of_nat (highest ps - length ps),
                       sq_outoforder = of_nat (late_arrivals ps)\<rparr>"
  using assms
proof (induction ps rule: rev_induct)
  case Nil
  then show ?case by (simp add: run_seq_def highest_def late_arrivals_def)
next
  case (snoc p ps)
  have IH: "run_seq ps = \<lparr>sq_packet_count = of_nat (highest ps), sq_cnt_error = of_nat (highest ps - length ps),
      sq_outoforder = of_nat (late_arrivals ps)\<rparr>"
    using snoc by simp
  have p: "1 \<le> p" "p < 2 ^ 63" "p \<notin> set ps" and hi: "highest ps < 2 ^ 63"
    using snoc.prems highest_bounds(2) [of ps "2 ^ 63"] by auto
  have len: "length ps \<le> highest ps"
    using distinct_length_highest [of ps] snoc.prems by auto
  have up: "unat (of_nat (highest ps) + 1 :: u64) = highest ps + 1"
    using hi unat_u64_small [of "Suc (highest ps)"] by (simp add: add.commute)
  have up_p: "unat (of_nat p :: u64) = p" using p by (simp add: unat_u64_small)
  have run: "run_seq (ps @ [q]) = seq_step (of_nat q) (run_seq ps)" for q
    by (simp add: run_seq_def)
  show ?case
  proof (cases "p < highest ps \<or> p = highest ps")
    case True
    then have late: "p < highest ps"
    proof
      assume "p = highest ps"
      then have "p \<in> insert 0 (set ps)"
        unfolding highest_def by (metis List.finite_set Max_in finite_insert insert_not_empty)
      with p show ?thesis by simp
    qed
    then have gap: "length ps < highest ps"
      using distinct_late_gap [of ps p] snoc.prems by auto
    then have pos: "sint (of_nat (highest ps - length ps) :: u64) > 0"
      using hi by (subst sint_of_nat_u64) auto
    have "\<not> (of_nat p :: u64) \<ge> of_nat (highest ps) + 1"
      using late up up_p by (simp add: word_le_nat_alt)
    moreover have "of_nat (highest ps - length ps) - 1 = (of_nat (highest ps - Suc (length ps)) :: u64)"
    proof -
      obtain k where "highest ps - length ps = Suc k" "highest ps - Suc (length ps) = k"
        using gap by (metis Suc_diff_Suc)
      then show ?thesis by simp
    qed
    ultimately show ?thesis
      using late pos by (simp add: run IH seq_step_def highest_snoc late_arrivals_snoc max_def)
  next
    case False
    then have ahead: "highest ps < p" by simp
    then have "(of_nat p :: u64) \<ge> of_nat (highest ps) + 1"
      using up up_p by (simp add: word_le_nat_alt)
    moreover have "(of_nat p :: u64) > of_nat (highest ps) + 1 \<longleftrightarrow> p > highest ps + 1"
      using up up_p by (simp add: word_less_nat_alt)
    moreover have "of_nat (highest ps - length ps) + ((of_nat p - 1) - of_nat (highest ps))
        = (of_nat (p - Suc (length ps)) :: u64)"
      using ahead len by (simp add: of_nat_diff)
    ultimately show ?thesis
      using ahead len
      by (cases "p = Suc (highest ps)") (auto simp: run IH seq_step_def highest_snoc late_arrivals_snoc max_def)
  qed
qed

section \<open>Jitter\<close>

lemma fl64_sixteenth: "0 \<le> x \<Longrightarrow> fl64 (fl64 x / 16) \<le> x"
  using fl64_upper [of x] fl64_upper [of "fl64 x / 16"] fl64_nonneg [of x] by simp

lemma jitter_step_bounds:
  assumes "is_double b" and "0 \<le> j" and "j \<le> b"
    and "0 \<le> d" and "d \<le> b"
  shows "0 \<le> fl64 (j + fl64 (fl64 (d - j) / 16))" and "fl64 (j + fl64 (fl64 (d - j) / 16)) \<le> b"
proof -
  have "0 \<le> j + fl64 (fl64 (d - j) / 16) \<and> j + fl64 (fl64 (d - j) / 16) \<le> b"
  proof (cases "j \<le> d")
    case True
    then have "0 \<le> fl64 (fl64 (d - j) / 16)" "fl64 (fl64 (d - j) / 16) \<le> d - j"
      using fl64_sixteenth [of "d - j"] by (simp_all add: fl64_nonneg)
    then show ?thesis using assms by linarith
  next
    case False
    then have "0 \<le> fl64 (fl64 (j - d) / 16)" "fl64 (fl64 (j - d) / 16) \<le> j - d"
      using fl64_sixteenth [of "j - d"] by (simp_all add: fl64_nonneg)
    moreover have "fl64 (fl64 (d - j) / 16) = - fl64 (fl64 (j - d) / 16)"
      using fl64_minus [of "j - d"] fl64_minus [of "fl64 (j - d) / 16"] by simp
    ultimately show ?thesis using assms by linarith
  qed
  then show "0 \<le> fl64 (j + fl64 (fl64 (d - j) / 16))" "fl64 (j + fl64 (fl64 (d - j) / 16)) \<le> b"
    using binary64.le_repr [OF assms(1)] by (simp_all add: fl64_nonneg)
qed

section \<open>What sending and receiving count\<close>

lemma more_the_test: "sys.more s' = sys.more s \<Longrightarrow> the_test (s' :: 'z world_scheme) = the_test s"
  by (cases s, cases s') simp

lemma keeps_test: "keeps m \<Longrightarrow> the_test (snd (run_state m s) :: 'z world_scheme) = the_test s"
  by (rule more_the_test) (simp add: keeps_def)

lemma run_bind_reads [simp]: "run_state (State_Monad.bind (reads f) g) s = run_state (g (f s)) s"
  by simp

lemma put_seq_result [simp]: "sp_result (put_seq q sp) = sp_result sp"
  by (simp add: put_seq_def)

text \<open>Processing packets leaves the byte counters alone.\<close>

lemma udp_packets_result:
  "sp_result (fst (run_state (udp_packets wide sz first buf sp) (s :: 'z sys_scheme))) = sp_result sp"
proof (induction "length buf" arbitrary: first buf sp s rule: less_induct)
  case less
  have "sp_result (fst (run_state (udp_packet wide first buf sp) s)) = sp_result sp"
    by (simp add: udp_packet_def Let_def case_prod_beta)
  then show ?case
    using less by (subst udp_packets.simps) (auto simp: case_prod_beta)
qed

lemma keeps_udp_packets [keeps_rules]: "keeps (udp_packets wide sz first buf sp :: ('z sys_scheme, iperf_stream) state)"
proof (induction "length buf" arbitrary: first buf sp rule: less_induct)
  case less
  show ?case
    unfolding udp_packets.simps [of wide sz first buf sp] udp_packet_def
    by (intro keeps_rules less) auto
qed

lemma keeps_udp_number_loop [keeps_rules]:
  "keeps (udp_number_loop wide dg bs off sp :: ('z sys_scheme, iperf_stream) state)"
proof (induction "nat bs" arbitrary: bs off sp rule: less_induct)
  case less
  show ?case
    unfolding udp_number_loop.simps [of wide dg bs off sp] by (intro keeps_rules less) auto
qed

text \<open>Without offload the numbering loop handles one datagram.\<close>

lemma udp_number_one:
  assumes "0 < sz"
  shows "udp_number_loop wide sz sz 0 sp = do {
     before \<leftarrow> iperf_time_now;
     State_Monad.return (number_datagram wide before 0 sp) }"
  using assms by (subst udp_number_loop.simps, subst udp_number_loop.simps) simp

section \<open>Properties\<close>

text \<open>
  C26: the receiver reads from a packet exactly the time stamp and, with 64-bit counters, the packet
  number that the sender wrote into it; with 32-bit counters it reads the number modulo \<open>2 ^ 32\<close>.
\<close>

theorem udp_header_roundtrip:
  "read_header wide (write_header wide t n buf)
    = (t, if wide then n else ucast (ucast n :: u32))"
  by (cases t) (simp add: read_header_def write_header_def Let_def)

text \<open>
  C6: if no packet is duplicated, the loss accounting is exact whatever the order of arrival: after
  the packets numbered \<open>ps\<close> (distinct, from 1) the counter is the highest number, the losses are
  the numbers up to it that have not arrived, and the packets out of order are those that arrived
  after a higher number.
\<close>

theorem udp_loss_accounting:
  assumes "distinct ps" and "\<forall>p\<in>set ps. 1 \<le> p \<and> p < 2 ^ 63"
  shows "unat (sq_packet_count (run_seq ps)) = highest ps
    \<and> sint (sq_cnt_error (run_seq ps)) = int (card ({1..highest ps} - set ps))
    \<and> sq_outoforder (run_seq ps) = of_nat (late_arrivals ps)"
proof -
  have hi: "highest ps < 2 ^ 63" using assms(2) highest_bounds(2) [of ps "2 ^ 63"] by simp
  have sub: "set ps \<subseteq> {1..highest ps}"
    using assms(2) highest_bounds(1) by auto
  then have "card ({1..highest ps} - set ps) = highest ps - length ps"
    using assms(1) by (simp add: card_Diff_subset distinct_card)
  then show ?thesis
    using run_seq_correct [OF assms] hi
    by (simp add: unat_u64_small sint_of_nat_u64 del: of_nat_diff)
qed

theorem udp_loss_accounting_witness:
  "unat (sq_packet_count (run_seq [1, 4, 2, 6])) = highest [1, 4, 2, 6]
    \<and> sint (sq_cnt_error (run_seq [1, 4, 2, 6])) = int (card ({1..highest [1, 4, 2, 6]} - {1, 4, 2, 6}))
    \<and> sq_outoforder (run_seq [1, 4, 2, 6]) = of_nat (late_arrivals [1, 4, 2, 6])"
  using udp_loss_accounting [of "[1, 4, 2, 6]"] by simp

text \<open>
  C29: the jitter stays between 0 and any bound (a double) that the absolute transit differences keep,
  in spite of rounding: it is a mean of them.
\<close>

theorem udp_jitter_bounded:
  assumes "is_double b" and "0 \<le> jitter" and "jitter \<le> b" and "\<bar>transit - prev\<bar> \<le> b"
  shows "0 \<le> jitter_step first transit prev jitter \<and> jitter_step first transit prev jitter \<le> b"
proof -
  let ?p = "if first then transit else prev"
  let ?d = "if fl64 (transit - ?p) < 0 then - fl64 (transit - ?p) else fl64 (transit - ?p)"
  have b: "0 \<le> b" using assms(2,3) by linarith
  have "?d = \<bar>fl64 (transit - ?p)\<bar>" by simp
  also have "\<dots> = fl64 \<bar>transit - ?p\<bar>"
    using fl64_minus [of "transit - ?p"] fl64_nonneg [of "transit - ?p"] fl64_nonneg [of "?p - transit"]
    by (cases "0 \<le> transit - ?p") (auto simp: abs_if)
  finally have d: "0 \<le> ?d" "?d \<le> b"
    using assms(4) b binary64.le_repr [OF assms(1), of "\<bar>transit - ?p\<bar>"] by (auto simp: fl64_nonneg)
  show ?thesis
    using jitter_step_bounds [OF assms(1-3) d] by (simp add: jitter_step_def Let_def)
qed

theorem udp_jitter_bounded_witness: "0 \<le> jitter_step False 3 1 0 \<and> jitter_step False 3 1 0 \<le> 2"
  using udp_jitter_bounded [of 2 0 3 1 False] is_double_int [of 2 0] by simp

text \<open>
  receiving adds exactly the bytes read to the two byte counters of the stream, and only while the
  test runs; a failed or empty read, or one outside the running state, changes neither the counters
  nor the sequence tracking. The test itself is not changed.
\<close>

lemma udp_recv_counts:
  "case run_state (iperf_udp_recv sp) w of ((r, sp'), w') \<Rightarrow>
     the_test w' = the_test w
     \<and> (if 0 < r \<and> test_state (the_test w) = TEST_RUNNING
        then sp_result sp' = (sp_result sp)\<lparr>
               res_bytes_received := res_bytes_received (sp_result sp) + word_of_int r,
               res_bytes_received_this_interval := res_bytes_received_this_interval (sp_result sp) + word_of_int r\<rparr>
        else sp_result sp' = sp_result sp \<and> get_seq sp' = get_seq sp \<and> sp_jitter sp' = sp_jitter sp)"
proof -
  have "the_test (snd (run_state (iperf_udp_recv sp) w)) = the_test w"
    unfolding iperf_udp_recv_def by (intro keeps_test keeps_rules)
  then show ?thesis
    by (auto simp: iperf_udp_recv_def Let_def case_prod_beta udp_packets_result count_received_def store_buffer_def get_seq_def)
qed

text \<open>
  sending one datagram without offload numbers it with the next packet number, hands a prefix of
  exactly that datagram to the system, and counts it (packet and bytes) only if some of it was
  sent; after an error or an empty write the packet number is free again.
\<close>

lemma udp_send_counts:
  fixes w :: "'z world_scheme"
  assumes "cfg_gso (test_settings (the_test w)) = 0" and "0 < cfg_blksize (test_settings (the_test w))"
    and "run_state (iperf_udp_send sp) w = ((r, sp'), w')"
  shows "\<exists>new before n. trace w' = new @ trace w
    \<and> gather (accepts (sp_socket sp)) new
      = take n (write_header (test_udp_counters_64bit (the_test w) \<noteq> 0) before (sp_packet_count sp + 1) (sp_buffer sp))
    \<and> (0 \<le> r \<longrightarrow> int n = r)
    \<and> sp_packet_count sp' = (if 0 < r then sp_packet_count sp + 1 else sp_packet_count sp)
    \<and> res_bytes_sent (sp_result sp') = res_bytes_sent (sp_result sp) + (if 0 < r then word_of_int r else 0)
    \<and> the_test w' = the_test w"
proof -
  let ?wide = "test_udp_counters_64bit (the_test w) \<noteq> 0"
  let ?size = "cfg_blksize (test_settings (the_test w))"
  obtain before w1 where t: "run_state iperf_time_now w = (before, w1)" by fastforce
  define sp1 where "sp1 = number_datagram ?wide before 0 sp"
  obtain q w2 where n: "run_state (Nwrite (sp_socket sp1) (take (nat ?size) (sp_buffer sp1)) Pudp) w1 = (q, w2)" by fastforce
  have run: "run_state (iperf_udp_send sp) w = ((q,
      let sp2 = (if q \<le> 0 then sp1\<lparr>sp_packet_count := sp_packet_count sp1 - 1\<rparr> else sp1)
      in if q < 0 then sp2 else count_sent (word_of_int q) sp2), w2)"
    using assms(1,2) t n by (simp add: iperf_udp_send_def Let_def udp_number_one sp1_def)
  obtain n1 where n1: "trace w1 = n1 @ trace w" "gather (accepts (sp_socket sp)) n1 = []"
    using emitsD [OF emits_time_now t, of "\<lambda>_ new. gather (accepts (sp_socket sp)) new = []"] by auto
  obtain n2 k where n2: "trace w2 = n2 @ trace w1"
      "gather (accepts (sp_socket sp1)) n2 = take k (take (nat ?size) (sp_buffer sp1))"
      "if q < 0 then q = NET_SOFTERROR \<or> q = NET_HARDERROR else q = int k" "k \<le> nat ?size"
    using emitsD [OF emits_Nwrite n] by (metis length_take min.bounded_iff)
  have "keeps iperf_time_now" "keeps (Nwrite (sp_socket sp1) (take (nat ?size) (sp_buffer sp1)) Pudp :: ('z world_scheme, int) state)"
    by (intro keeps_rules)+
  then have test: "the_test w2 = the_test w"
    using keeps_test t n by (metis snd_conv)
  have buf: "sp_buffer sp1 = write_header ?wide before (sp_packet_count sp + 1) (sp_buffer sp)"
    "sp_packet_count sp1 = sp_packet_count sp + 1" "sp_result sp1 = sp_result sp" "sp_socket sp1 = sp_socket sp"
    by (simp_all add: sp1_def number_datagram_def Let_def)
  have eq: "q = r" "w2 = w'" "sp' = (let sp2 = (if q \<le> 0 then sp1\<lparr>sp_packet_count := sp_packet_count sp1 - 1\<rparr> else sp1)
      in if q < 0 then sp2 else count_sent (word_of_int q) sp2)"
    using run assms(3) by simp_all
  show ?thesis
  proof (intro exI conjI)
    show "trace w' = (n2 @ n1) @ trace w" using n1 n2 eq by simp
    show "gather (accepts (sp_socket sp)) (n2 @ n1)
        = take k (write_header ?wide before (sp_packet_count sp + 1) (sp_buffer sp))"
      using n1 n2 buf by (simp add: min_def)
    show "0 \<le> r \<longrightarrow> int k = r"
      using n2(3) eq(1) by auto
  qed (use eq buf test in \<open>auto simp: Let_def count_sent_def\<close>)
qed

theorem udp_send_counts_witness:
  "\<exists>r sp' w'. run_state (iperf_udp_send (zero_stream\<lparr>sp_buffer := replicate 16 0\<rparr>))
      (world0 (\<lambda>_ _. answers 16) (zero_test\<lparr>test_settings := zero_settings\<lparr>cfg_blksize := 16\<rparr>\<rparr>)) = ((r, sp'), w')
    \<and> sp_packet_count sp' = (if 0 < r then 1 else 0)"
proof -
  let ?sp = "zero_stream\<lparr>sp_buffer := replicate 16 0\<rparr>"
  let ?w = "world0 (\<lambda>_ _. answers 16) (zero_test\<lparr>test_settings := zero_settings\<lparr>cfg_blksize := 16\<rparr>\<rparr>)"
  obtain r sp' w' where run: "run_state (iperf_udp_send ?sp) ?w = ((r, sp'), w')" by (metis surj_pair)
  show ?thesis
    using udp_send_counts [OF _ _ run] run by (auto simp: world0_def zero_settings_def zero_stream_def)
qed



text \<open>
  \<open>iperf_udp_connect\<close> leaks its socket on every error after \<open>netdial\<close>: for example when the buffer
  size cannot be read it returns \<open>-1\<close> with the socket still open.
\<close>

lemma udp_connect_leaks_socket:
  "let os = (\<lambda>_ c. case c of Getsockopt s l x \<Rightarrow> answers (- 1) | Socket d t p \<Rightarrow> answers 5 | _ \<Rightarrow> answers 0);
       (r, w) = run_state (iperf_udp_connect fuel) (world0 os zero_test)
   in r = Some (- 1) \<and> i_errno w = IESETBUF \<and> gather opens (trace w) = [5] \<and> gather closes (trace w) = []"
  by (simp add: iperf_udp_connect_def netdial_def create_socket_def getaddrinfo_def bind_local_def timeout_connect_def
      freeaddrinfo_def winsock_def run_call Let_def world0_def answers_def zero_test_def zero_settings_def no_info_def
      iperf_udp_buffercheck_def fail_def)

end
