(* ===== verification/Tcp.thy ===== *)
theory Tcp
  imports Udp
begin

unbundle bit_operations_syntax

text \<open>
  The TCP streams of \<open>iperf_tcp.c\<close>, for the build configuration of the port (no flow labels, no
  socket pacing, no multipath TCP, no \<open>TCP_USER_TIMEOUT\<close>). Debug and pacing messages are left out.
\<close>

abbreviation TCP_NODELAY :: int where "TCP_NODELAY \<equiv> 1"
abbreviation TCP_MAXSEG :: int where "TCP_MAXSEG \<equiv> 4"

section \<open>Data\<close>

definition iperf_tcp_recv :: "iperf_stream \<Rightarrow> ('z world_scheme, int \<times> iperf_stream) state" where
  "iperf_tcp_recv sp = do {
     test \<leftarrow> reads the_test;
     (r, bs) \<leftarrow> Nrecv_no_select (sp_socket sp) (nat (cfg_blksize (test_settings test))) Ptcp 0;
     if r < 0 then State_Monad.return (r, sp)
     else if test_state test = TEST_RUNNING then State_Monad.return (r, count_received (word_of_int r) (store_buffer bs sp))
     else State_Monad.return (r, store_buffer bs sp) }"

definition iperf_tcp_send :: "iperf_stream \<Rightarrow> ('z world_scheme, int \<times> iperf_stream) state" where
  "iperf_tcp_send sp = do {
     test \<leftarrow> reads the_test;
     let sp = (if sp_pending_size sp = 0 then sp\<lparr>sp_pending_size := cfg_blksize (test_settings test)\<rparr> else sp);
     r \<leftarrow> (if test_zerocopy test \<noteq> 0
          then Nsendfile (sp_buffer_fd sp) (sp_socket sp) (take (nat (sp_pending_size sp)) (sp_buffer sp))
          else Nwrite (sp_socket sp) (take (nat (sp_pending_size sp)) (sp_buffer sp)) Ptcp);
     if r < 0 then State_Monad.return (r, sp)
     else State_Monad.return (r, count_sent (word_of_int r) (sp\<lparr>sp_pending_size := sp_pending_size sp - r\<rparr>)) }"

section \<open>Connections\<close>

text \<open>The bytes of a cookie up to its terminator, as \<open>strncmp\<close> compares them.\<close>

definition cookie_text :: "byte list \<Rightarrow> byte list" where
  "cookie_text c = takeWhile (\<lambda>b. b \<noteq> 0) (take COOKIE_SIZE c)"

definition pad_cookie :: "byte list \<Rightarrow> byte list" where
  "pad_cookie bs = take COOKIE_SIZE (bs @ replicate COOKIE_SIZE 0)"

definition iperf_tcp_accept :: "('z world_scheme, int) state" where
  "iperf_tcp_accept = do {
     test \<leftarrow> reads the_test;
     a \<leftarrow> winsock (Accept (test_listener test));
     let s = ret a;
     if s < 0 then fail IESTREAMCONNECT
     else do {
       (r, bs) \<leftarrow> Nread s COOKIE_SIZE Ptcp;
       if r < 0 then do {
         _ \<leftarrow> set_i_errno IERECVCOOKIE;
         _ \<leftarrow> iperf_win32_close s;
         State_Monad.return (- 1) }
       else if cookie_text (test_cookie test) \<noteq> cookie_text (pad_cookie bs) then do {
         _ \<leftarrow> Nwrite s [word_of_int ACCESS_DENIED] Ptcp;
         _ \<leftarrow> iperf_win32_close s;
         State_Monad.return s }
       else State_Monad.return s } }"

text \<open>Error exits: with \<open>errno\<close> saved over the cleanup, or without.\<close>

definition fail_cleanup :: "int \<Rightarrow> int \<Rightarrow> addrinfo option list \<Rightarrow> ('z world_scheme, int) state" where
  "fail_cleanup e s ais = do { _ \<leftarrow> fail_close s ais; fail e }"

definition fail_buf2 :: "int \<Rightarrow> addrinfo option \<Rightarrow> ('z world_scheme, int) state" where
  "fail_buf2 s ai = do {
     _ \<leftarrow> iperf_win32_close s;
     _ \<leftarrow> (if ai \<noteq> None then freeaddrinfo ai else State_Monad.return ());
     fail IESETBUF2 }"

text \<open>
  Setting one option if it is asked for: the option's value, or the code of the error.
\<close>

definition set_opt :: "bool \<Rightarrow> int \<Rightarrow> int \<Rightarrow> int \<Rightarrow> int \<Rightarrow> ('z world_scheme, bool) state" where
  "set_opt asked s level opt v =
     (if asked then do { a \<leftarrow> winsock (Setsockopt s level opt v); State_Monad.return (0 \<le> ret a) }
      else State_Monad.return True)"

text \<open>
  The options that both ends set on a fresh socket, in order; the result is the error code of the
  first that fails.
\<close>

definition tcp_options :: "iperf_test \<Rightarrow> int \<Rightarrow> ('z world_scheme, int option) state" where
  "tcp_options test s = do {
     ok \<leftarrow> set_opt (test_no_delay test \<noteq> 0) s IPPROTO_TCP TCP_NODELAY 1;
     if \<not> ok then State_Monad.return (Some IESETNODELAY)
     else do {
       ok \<leftarrow> set_opt (cfg_mss (test_settings test) \<noteq> 0) s IPPROTO_TCP TCP_MAXSEG (cfg_mss (test_settings test));
       if \<not> ok then State_Monad.return (Some IESETMSS)
       else do {
         let bufsize = cfg_socket_bufsize (test_settings test);
         ok \<leftarrow> set_opt (bufsize \<noteq> 0) s SOL_SOCKET SO_RCVBUF bufsize;
         if \<not> ok then State_Monad.return (Some IESETBUF)
         else do {
           ok \<leftarrow> set_opt (bufsize \<noteq> 0) s SOL_SOCKET SO_SNDBUF bufsize;
           State_Monad.return (if ok then None else Some IESETBUF) } } } }"

text \<open>
  Reading back the buffer sizes: \<open>Inr\<close> the two sizes, or \<open>Inl\<close> the error code, \<open>IESETBUF\<close> if they
  cannot be read and \<open>IESETBUF2\<close> if one is smaller than asked for.
\<close>

definition read_bufsizes :: "iperf_test \<Rightarrow> int \<Rightarrow> ('z world_scheme, int + int \<times> int) state" where
  "read_bufsizes test s = do {
     let bufsize = cfg_socket_bufsize (test_settings test);
     sb \<leftarrow> winsock (Getsockopt s SOL_SOCKET SO_SNDBUF);
     if ret sb < 0 then State_Monad.return (Inl IESETBUF)
     else if bufsize \<noteq> 0 \<and> bufsize > val sb then State_Monad.return (Inl IESETBUF2)
     else do {
       rb \<leftarrow> winsock (Getsockopt s SOL_SOCKET SO_RCVBUF);
       State_Monad.return
         (if ret rb < 0 then Inl IESETBUF
          else if bufsize \<noteq> 0 \<and> bufsize > val rb then Inl IESETBUF2
          else Inr (val sb, val rb)) } }"

definition fail_bufsizes :: "int \<Rightarrow> int \<Rightarrow> addrinfo option \<Rightarrow> ('z world_scheme, int) state" where
  "fail_bufsizes e s ai =
     (if e = IESETBUF2 then fail_buf2 s ai
      else fail_cleanup e s (case ai of None \<Rightarrow> [] | Some _ \<Rightarrow> [ai]))"

text \<open>
  Replacing the listening socket by one with the options of the test: \<open>Inl\<close> is a return with an
  error, \<open>Inr\<close> the new socket.
\<close>

definition tcp_relisten :: "iperf_test \<Rightarrow> ('z world_scheme, int + int) state" where
  "tcp_relisten test = do {
     let domain = cfg_domain (test_settings test);
     _ \<leftarrow> update_state (the_test_update (\<lambda>t. t\<lparr>test_read_set := FD_CLR (test_listener test) (test_read_set t)\<rparr>));
     _ \<leftarrow> iperf_win32_close (test_listener test);
     let family = (if domain = AF_UNSPEC \<and> test_bind_address test = None then AF_INET6 else domain);
     (gerr, res) \<leftarrow> getaddrinfo (test_bind_address test) (Some (snprintf 6 (show_int (test_server_port test)))) family SOCK_STREAM AI_PASSIVE;
     if gerr \<noteq> 0 then do { r \<leftarrow> fail IESTREAMLISTEN; State_Monad.return (Inl r) }
     else do {
       a \<leftarrow> winsock (Socket (ai_family res) SOCK_STREAM 0);
       let s = ret a;
       if s < 0 then do {
         _ \<leftarrow> freeaddrinfo (Some res);
         r \<leftarrow> fail IESTREAMLISTEN;
         State_Monad.return (Inl r) }
       else do {
         e \<leftarrow> tcp_options test s;
         case e of
           Some e \<Rightarrow> do { r \<leftarrow> fail_cleanup e s [Some res]; State_Monad.return (Inl r) }
         | None \<Rightarrow> do {
             ok \<leftarrow> set_opt True s SOL_SOCKET SO_REUSEADDR 1;
             if \<not> ok then do { r \<leftarrow> fail_cleanup IEREUSEADDR s [Some res]; State_Monad.return (Inl r) }
             else do {
               ok \<leftarrow> set_opt (ai_family res = AF_INET6 \<and> (domain = AF_UNSPEC \<or> domain = AF_INET))
                      s IPPROTO_IPV6 IPV6_V6ONLY (if domain = AF_UNSPEC then 0 else 1);
               if \<not> ok then do { r \<leftarrow> fail_cleanup IEV6ONLY s [Some res]; State_Monad.return (Inl r) }
               else do {
                 b \<leftarrow> winsock (Bind s (ai_addr res));
                 if ret b < 0 then do { r \<leftarrow> fail_cleanup IESTREAMLISTEN s [Some res]; State_Monad.return (Inl r) }
                 else do {
                   _ \<leftarrow> freeaddrinfo (Some res);
                   l \<leftarrow> winsock (Listen s INT_MAX);
                   if ret l < 0 then do {
                     _ \<leftarrow> set_i_errno IESTREAMLISTEN;
                     _ \<leftarrow> iperf_win32_close s;
                     State_Monad.return (Inl (- 1)) }
                   else do {
                     _ \<leftarrow> update_state (the_test_update (\<lambda>t. t\<lparr>test_listener := s\<rparr>));
                     State_Monad.return (Inr s) } } } } } } } }"

definition add_json_number :: "string \<Rightarrow> int \<Rightarrow> iperf_test \<Rightarrow> iperf_test" where
  "add_json_number k v t =
     (if test_json_output t \<noteq> 0
      then t\<lparr>test_json_start := map_option (\<lambda>j. cJSON_AddItemToObject j k (JNumber (fl64 (of_int v)))) (test_json_start t)\<rparr>
      else t)"

definition iperf_tcp_listen :: "('z world_scheme, int) state" where
  "iperf_tcp_listen = do {
     test \<leftarrow> reads the_test;
     let bufsize = cfg_socket_bufsize (test_settings test);
     o1 \<leftarrow> (if test_no_delay test \<noteq> 0 \<or> test_mptcp test \<noteq> 0 \<or> cfg_mss (test_settings test) \<noteq> 0 \<or> bufsize \<noteq> 0
           then tcp_relisten test else State_Monad.return (Inr (test_listener test)));
     case o1 of
       Inl r \<Rightarrow> State_Monad.return r
     | Inr s \<Rightarrow> do {
         sizes \<leftarrow> read_bufsizes test s;
         case sizes of
           Inl e \<Rightarrow> fail_bufsizes e s None
         | Inr (sndbuf, rcvbuf) \<Rightarrow> do {
             _ \<leftarrow> update_state (the_test_update
                  (\<lambda>t. add_json_number ''rcvbuf_actual'' rcvbuf
                        (add_json_number ''sndbuf_actual'' sndbuf (add_json_number ''sock_bufsize'' bufsize t))));
             State_Monad.return s } } }"

definition iperf_tcp_connect :: "('z world_scheme, int) state" where
  "iperf_tcp_connect = do {
     test \<leftarrow> reads the_test;
     let cfg = test_settings test;
     (s, res) \<leftarrow> create_socket (cfg_domain cfg) SOCK_STREAM 0 (test_bind_address test) (test_bind_dev test) (test_bind_port test)
                  (test_server_hostname test) (test_server_port test);
     case res of
       None \<Rightarrow> fail IESTREAMCONNECT
     | Some server_res \<Rightarrow> do {
         e \<leftarrow> tcp_options test s;
         case e of
           Some e \<Rightarrow> fail_cleanup e s [Some server_res]
         | None \<Rightarrow> do {
             sizes \<leftarrow> read_bufsizes test s;
             case sizes of
               Inl e \<Rightarrow> fail_bufsizes e s (Some server_res)
             | Inr (sndbuf, rcvbuf) \<Rightarrow> do {
                 _ \<leftarrow> update_state (the_test_update
                      (\<lambda>t. add_json_start ''rcvbuf_actual'' rcvbuf
                            (add_json_start ''sndbuf_actual'' sndbuf
                              (add_json_start ''sock_bufsize'' (cfg_socket_bufsize cfg) t))));
                 _ \<leftarrow> iperf_common_sockopts s;
                 c \<leftarrow> winsock (Connect s (ai_addr server_res));
                 eno \<leftarrow> reads errno;
                 if ret c < 0 \<and> eno \<noteq> EINPROGRESS then fail_cleanup IESTREAMCONNECT s [Some server_res]
                 else do {
                   _ \<leftarrow> freeaddrinfo (Some server_res);
                   r \<leftarrow> Nwrite s (take COOKIE_SIZE (test_cookie test)) Ptcp;
                   if r < 0 then fail_cleanup IESENDCOOKIE s []
                   else State_Monad.return s } } } } }"

end
