(* ===== verification/Rate.thy ===== *)
theory Rate
  imports Tcp Trace_Logic
begin

text \<open>
  Sending at a rate: the pacing of a stream, the total-rate limit of a server, and the
  operations that send and receive one burst for a stream (\<open>iperf_api.c\<close>). The build has neither
  \<open>clock_nanosleep\<close> nor \<open>nanosleep\<close> configured, so a stream over its rate only loses its green
  light.

  The rates are computed in doubles and converted to \<open>uint64_t\<close>. C leaves the conversion of an
  infinity or of a value outside the type undefined; \<open>u\<close> stands for what it gives.
\<close>

section \<open>Pacing\<close>

definition quotient_u64 :: "u64 \<Rightarrow> u64 \<Rightarrow> double \<Rightarrow> u64" where
  "quotient_u64 u bits seconds =
     (let q = Doubles.truncate (fl64 (u64_to_double bits / seconds))
      in if seconds = 0 \<or> q < 0 \<or> 2 ^ 64 \<le> q then u else word_of_int q)"

definition iperf_check_throttle :: "u64 \<Rightarrow> iperf_test \<Rightarrow> iperf_time \<Rightarrow> iperf_stream \<Rightarrow> iperf_stream" where
  "iperf_check_throttle u test now sp =
     (if test_done test \<noteq> 0 \<or> cfg_rate (test_settings test) = 0 then sp
      else let temp_time = snd (iperf_time_diff (res_start_time_fixed (sp_result sp)) now);
               seconds = iperf_time_in_secs temp_time;
               bits_sent = res_bytes_sent (sp_result sp) * 8;
               bits_per_second = quotient_u64 u bits_sent seconds;
               missing_rate = sint (cfg_rate (test_settings test) - bits_per_second)
           in sp\<lparr>sp_green_light := (if missing_rate > 0 then 1 else 0)\<rparr>)"

section \<open>The limit on the total rate\<close>

text \<open>
  \<open>None\<close> is an access outside the array of \<open>MAX_INTERVAL\<close> entries. The limit's number of intervals
  is an \<open>int\<close> that C compares with the unsigned index and count.
\<close>

definition iperf_check_total_rate :: "u64 \<Rightarrow> u64 \<Rightarrow> iperf_test \<Rightarrow> iperf_test option" where
  "iperf_check_total_rate u last_interval_bytes t =
     (let cfg = test_settings t;
          per = cfg_bitrate_limit_stats_per_interval cfg
      in if test_done t \<noteq> 0 \<or> cfg_bitrate_limit cfg = 0 then Some t
         else let i = test_bitrate_limit_last_interval_index t + 1;
                  i = (if i \<ge> word_of_int per then 0 else i)
              in if length (test_bitrate_limit_intervals_traffic_bytes t) \<le> unat i then None
                 else let arr = (test_bitrate_limit_intervals_traffic_bytes t)[unat i := last_interval_bytes];
                          cnt = test_bitrate_limit_stats_count t + 1;
                          t = t\<lparr>test_bitrate_limit_last_interval_index := i,
                                test_bitrate_limit_intervals_traffic_bytes := arr,
                                test_bitrate_limit_stats_count := cnt\<rparr>
                      in if cnt < word_of_int per then Some t
                         else if int (length arr) < per then None
                         else let total_bytes = sum_list (take (nat per) arr);
                                  seconds = fl64 (test_stats_interval t * of_int per);
                                  bits_per_second = quotient_u64 u (total_bytes * 8) seconds
                              in Some (if bits_per_second > cfg_bitrate_limit cfg
                                       then t\<lparr>test_bitrate_limit_exceeded := 1\<rparr> else t))"

section \<open>Sending and receiving\<close>

text \<open>The functions of the protocol, which a new stream takes over.\<close>

definition protocol_snd :: "iperf_stream \<Rightarrow> ('z world_scheme, int \<times> iperf_stream) state" where
  "protocol_snd sp = do {
     test \<leftarrow> reads the_test;
     if map_option prot_id (test_protocol test) = Some Pudp then iperf_udp_send sp else iperf_tcp_send sp }"

definition protocol_rcv :: "iperf_stream \<Rightarrow> ('z world_scheme, int \<times> iperf_stream) state" where
  "protocol_rcv sp = do {
     test \<leftarrow> reads the_test;
     if map_option prot_id (test_protocol test) = Some Pudp then iperf_udp_recv sp else iperf_tcp_recv sp }"

text \<open>
  Sending from and receiving into a file. The file is read to the front of the buffer, also when
  bytes of the last block are still waiting there. A failed read of the file (\<open>r = -1\<close> with nothing
  waiting) makes the size to send negative, which the C code takes for a huge one; the model sends
  nothing then. The final \<open>memcpy\<close> copies the bytes as they were before it.
\<close>

definition set_done :: "int \<Rightarrow> ('z world_scheme, unit) state" where
  "set_done d = update_state (the_test_update (test_done_update (\<lambda>_. d)))"

definition diskfile_load :: "iperf_stream \<Rightarrow> ('z world_scheme, int \<times> iperf_stream) state" where
  "diskfile_load sp = do {
     test \<leftarrow> reads the_test;
     let blk = cfg_blksize (test_settings test);
     if sp_diskfile_left sp < blk \<and> test_done test = 0 then do {
       (r, bs) \<leftarrow> iperf_win32_read (sp_diskfile_fd sp) (nat (blk - sp_diskfile_left sp));
       let buffer_left = sp_diskfile_left sp + r;
       let sp = store_buffer bs sp;
       let sp = (if buffer_left \<noteq> blk then sp\<lparr>sp_pending_size := buffer_left\<rparr> else sp);
       _ \<leftarrow> (if buffer_left = 0 then set_done 1 else State_Monad.return ());
       State_Monad.return (buffer_left, sp) }
     else State_Monad.return (sp_diskfile_left sp, sp) }"

definition slide_buffer :: "int \<Rightarrow> int \<Rightarrow> iperf_stream \<Rightarrow> iperf_stream" where
  "slide_buffer blk left sp =
     (let b = sp_buffer sp
      in sp\<lparr>sp_diskfile_left := left,
            sp_buffer := (if left \<noteq> 0 \<and> left < blk
                          then take (nat left) (drop (nat (blk - left)) b) @ drop (nat left) b else b)\<rparr>)"

definition diskfile_send :: "iperf_stream \<Rightarrow> ('z world_scheme, int \<times> iperf_stream) state" where
  "diskfile_send sp = do {
     (buffer_left, sp) \<leftarrow> diskfile_load sp;
     test \<leftarrow> reads the_test;
     if test_done test \<noteq> 0 \<or> buffer_left = 0 then do { _ \<leftarrow> set_done 1; State_Monad.return (0, sp) }
     else do {
       (r, sp) \<leftarrow> protocol_snd sp;
       if r < 0 then State_Monad.return (r, sp)
       else State_Monad.return (r, slide_buffer (cfg_blksize (test_settings test)) (buffer_left - r) sp) } }"

definition diskfile_recv :: "iperf_stream \<Rightarrow> ('z world_scheme, int \<times> iperf_stream) state" where
  "diskfile_recv sp = do {
     (r, sp) \<leftarrow> protocol_rcv sp;
     _ \<leftarrow> (if r > 0 then iperf_win32_write (sp_diskfile_fd sp) (take (nat r) (sp_buffer sp)) else State_Monad.return 0);
     State_Monad.return (r, sp) }"

text \<open>\<open>sp->snd\<close> and \<open>sp->rcv\<close>: a stream without a file has the file descriptor \<open>- 1\<close>.\<close>

definition stream_snd :: "iperf_stream \<Rightarrow> ('z world_scheme, int \<times> iperf_stream) state" where
  "stream_snd sp = (if sp_diskfile_fd sp = - 1 then protocol_snd sp else diskfile_send sp)"

definition stream_rcv :: "iperf_stream \<Rightarrow> ('z world_scheme, int \<times> iperf_stream) state" where
  "stream_rcv sp = (if sp_diskfile_fd sp = - 1 then protocol_rcv sp else diskfile_recv sp)"

definition count_block :: "int \<Rightarrow> bool \<Rightarrow> iperf_test \<Rightarrow> iperf_test" where
  "count_block r whole t =
     t\<lparr>test_bytes_sent := test_bytes_sent t + word_of_int r,
       test_blocks_sent := (if whole then test_blocks_sent t + 1 else test_blocks_sent t)\<rparr>"

text \<open>The loop, with \<open>multisend\<close> iterations left; the result has the return value and \<open>message_sent\<close>.\<close>

fun send_loop ::
  "u64 \<Rightarrow> bool \<Rightarrow> nat \<Rightarrow> bool \<Rightarrow> iperf_time \<Rightarrow> iperf_stream \<Rightarrow> ('z world_scheme, int \<times> bool \<times> iperf_stream) state" where
  "send_loop u per_message 0 message_sent now sp = State_Monad.return (0, message_sent, sp)"
| "send_loop u per_message (Suc k) message_sent now sp = do {
     test \<leftarrow> reads the_test;
     let cfg = test_settings test;
     if sp_green_light sp = 0 then State_Monad.return (0, message_sent, sp)
     else if k > 0 \<and> cfg_bytes cfg \<noteq> 0 \<and> test_bytes_sent test \<ge> cfg_bytes cfg then State_Monad.return (0, message_sent, sp)
     else if k > 0 \<and> cfg_blocks cfg \<noteq> 0 \<and> test_blocks_sent test \<ge> cfg_blocks cfg then State_Monad.return (0, message_sent, sp)
     else do {
       (r, sp) \<leftarrow> stream_snd sp;
       if r = NET_SOFTERROR then State_Monad.return (0, message_sent, sp)
       else if r < 0 then do { _ \<leftarrow> set_i_errno IESTREAMWRITE; State_Monad.return (r, message_sent, sp) }
       else do {
         _ \<leftarrow> update_state (the_test_update (count_block r (sp_pending_size sp = 0)));
         if per_message then do {
           now \<leftarrow> (if message_sent then State_Monad.return now else iperf_time_now);
           test \<leftarrow> reads the_test;
           send_loop u per_message k True now (iperf_check_throttle u test now sp) }
         else send_loop u per_message k True now sp } } }"

definition iperf_send_mt :: "u64 \<Rightarrow> iperf_stream \<Rightarrow> ('z world_scheme, int \<times> iperf_stream) state" where
  "iperf_send_mt u sp = do {
     test \<leftarrow> reads the_test;
     let cfg = test_settings test;
     let multisend = (if cfg_burst cfg \<noteq> 0 then cfg_burst cfg
                      else if cfg_rate cfg = 0 then test_multisend test else 1);
     let per_message = (cfg_rate cfg \<noteq> 0 \<and> cfg_burst cfg = 0);
     (r, message_sent, sp) \<leftarrow> send_loop u per_message (nat multisend) False \<lparr>secs = 0, usecs = 0\<rparr> sp;
     if r < 0 then State_Monad.return (r, sp)
     else if \<not> per_message \<or> \<not> message_sent then do {
       now \<leftarrow> iperf_time_now;
       test \<leftarrow> reads the_test;
       State_Monad.return (0, iperf_check_throttle u test now sp) }
     else State_Monad.return (0, sp) }"

definition iperf_recv_mt :: "iperf_stream \<Rightarrow> ('z world_scheme, int \<times> iperf_stream) state" where
  "iperf_recv_mt sp = do {
     (r, sp) \<leftarrow> stream_rcv sp;
     if r < 0 then do { _ \<leftarrow> set_i_errno IESTREAMREAD; State_Monad.return (r, sp) }
     else do {
       _ \<leftarrow> (if r > 0
            then update_state (the_test_update (\<lambda>t. t\<lparr>test_bytes_received := test_bytes_received t + word_of_int r,
                                                      test_blocks_received := test_blocks_received t + 1\<rparr>))
            else State_Monad.return ());
       State_Monad.return (0, sp) } }"

end
