(* ===== verification/Tcp_Correct.thy ===== *)
theory Tcp_Correct
  imports Tcp Udp_Correct
begin

text \<open>
  Properties of the TCP streams: connecting never leaks, a sender keeps to its block size, cookies are
  checked, and two defects in the handling of closed sockets.
\<close>

section \<open>Calls made\<close>

lemma emits_the_test [emits_rules]: "Q () [] \<Longrightarrow> emits (update_state (the_test_update f) :: ('z world_scheme, unit) state) Q"
  by (rule emits_update) simp_all

lemma emits_fail [emits_rules]: "Q (- 1) [] \<Longrightarrow> emits (fail e :: ('z sys_scheme, int) state) Q"
  unfolding fail_def by (intro emits_rules) simp_all

lemma emits_fail_cleanup [emits_rules]:
  assumes "0 \<le> s" and "length ais \<le> 2"
    and "\<And>new. gather opens new = [] \<Longrightarrow> gather closes new = [s] \<Longrightarrow> gather looks_up new = []
      \<Longrightarrow> gather releases new = concat (map (\<lambda>ai. case ai of None \<Rightarrow> [] | Some i \<Rightarrow> [ai_id i]) ais) \<Longrightarrow> Q (- 1) new"
  shows "emits (fail_cleanup e s ais) Q"
  unfolding fail_cleanup_def using assms by (intro emits_rules) simp_all

lemma emits_set_opt [emits_rules]:
  "(\<And>r new. quiet new \<Longrightarrow> Q r new) \<Longrightarrow> emits (set_opt b s l k v) Q"
  unfolding set_opt_def by (intro emits_rules) auto

lemma emits_tcp_options [emits_rules]:
  assumes "\<And>r new. quiet new \<Longrightarrow> Q r new"
  shows "emits (tcp_options test s) Q"
  unfolding tcp_options_def by (intro emits_rules) (auto intro!: assms)

lemma emits_read_bufsizes [emits_rules]:
  assumes "\<And>r new. quiet new \<Longrightarrow> Q r new"
  shows "emits (read_bufsizes test s) Q"
  unfolding read_bufsizes_def by (intro emits_rules) (auto intro!: assms)

lemma emits_getsockdomain [emits_rules]:
  "(\<And>r a. Q r [(Getsockname s, a)]) \<Longrightarrow> emits (getsockdomain s) Q"
  unfolding getsockdomain_def by (intro emits_rules) simp

lemma emits_common_sockopts [emits_rules]:
  assumes "\<And>r new. quiet new \<Longrightarrow> Q r new"
  shows "emits (iperf_common_sockopts s) Q"
  unfolding iperf_common_sockopts_def by (intro emits_rules) (auto intro!: assms)

lemma emits_fail_bufsizes [emits_rules]:
  assumes "0 \<le> s"
    and "\<And>new. gather opens new = [] \<Longrightarrow> gather closes new = [s] \<Longrightarrow> gather looks_up new = []
      \<Longrightarrow> gather releases new = (case ai of None \<Rightarrow> [] | Some i \<Rightarrow> [ai_id i]) \<Longrightarrow> Q (- 1) new"
  shows "emits (fail_bufsizes e s ai) Q"
  unfolding fail_bufsizes_def fail_buf2_def
  by (intro emits_rules assms) (auto split: option.splits)

lemma emits_Nwrite_loop_quiet: "emits (Nwrite_loop fd n buf :: ('z sys_scheme, int) state) (\<lambda>r new. quiet new \<and> silent new)"
proof (induction "length buf" arbitrary: buf rule: less_induct)
  case less
  have IH: "emits (Nwrite_loop fd n (drop (nat r) buf) :: ('z sys_scheme, int) state) (\<lambda>r' new. quiet new \<and> silent new)"
    if "0 < r" "buf \<noteq> []" for r
    using that by (intro emits_mono [OF less]) auto
  show ?case
    by (subst Nwrite_loop.simps, intro emits_rules) (auto intro!: IH simp: silent_def [of "[]"])
qed

lemma emits_Nwrite_quiet [emits_rules]:
  "(\<And>r new. quiet new \<Longrightarrow> silent new \<Longrightarrow> Q r new) \<Longrightarrow> emits (Nwrite fd buf p) Q"
  unfolding Nwrite_def by (rule emits_mono [OF emits_Nwrite_loop_quiet]) simp

lemma emits_Nread:
  "emits (Nread fd n prot) (\<lambda>(r, bs) new. quiet new \<and>
     (r = NET_HARDERROR \<and> bs = [] \<or> r = int (length bs) \<and> bs = gather (delivers fd) new))"
  unfolding Nread_def by (rule emits_mono [OF emits_Nrecv]) auto

lemma emits_tcp_connect: "emits iperf_tcp_connect balanced"
  unfolding iperf_tcp_connect_def
  by (intro emits_rules emits_mono [OF emits_create_socket])
    (auto simp: holding_def balanced_def split: option.splits prod.splits sum.splits if_splits)

section \<open>Properties\<close>

text \<open>
  C24: no error path of \<open>iperf_tcp_connect\<close> leaks: it fails with everything it opened closed, or returns
  the one open socket; each address lookup is released exactly once.
\<close>

theorem tcp_connect_no_leak: "emits iperf_tcp_connect balanced"
  by (rule emits_tcp_connect)

text \<open>
  a TCP sender keeps to its blocks: if what is pending is within the block size, a call sends at
  most the rest of the current block (or starts a new one when nothing is pending), the pending
  size drops by exactly what was sent and stays within the block size, and the byte counters grow
  by the same amount; an error changes no counter.
\<close>

lemma tcp_send_blocks:
  assumes "0 < blk" and "cfg_blksize (test_settings (the_test w)) = blk" and "0 \<le> sp_pending_size sp"
    and "sp_pending_size sp \<le> blk" and "test_zerocopy (the_test w) = 0"
    and "run_state (iperf_tcp_send sp) w = ((r, sp'), w')"
  shows "let pending = (if sp_pending_size sp = 0 then blk else sp_pending_size sp)
    in (if r < 0 then sp_result sp' = sp_result sp \<and> sp_pending_size sp' = pending
        else r \<le> pending \<and> sp_pending_size sp' = pending - r
          \<and> res_bytes_sent (sp_result sp') = res_bytes_sent (sp_result sp) + word_of_int r
          \<and> res_bytes_sent_this_interval (sp_result sp') = res_bytes_sent_this_interval (sp_result sp) + word_of_int r)
       \<and> 0 \<le> sp_pending_size sp' \<and> sp_pending_size sp' \<le> blk"
proof -
  define sp1 where "sp1 = (if sp_pending_size sp = 0 then sp\<lparr>sp_pending_size := blk\<rparr> else sp)"
  obtain q w1 where n: "run_state (Nwrite (sp_socket sp1) (take (nat (sp_pending_size sp1)) (sp_buffer sp1)) Ptcp) w = (q, w1)"
    by fastforce
  obtain k where "k \<le> length (take (nat (sp_pending_size sp1)) (sp_buffer sp1))"
      "if q < 0 then q = NET_SOFTERROR \<or> q = NET_HARDERROR else q = int k"
    using emitsD [OF emits_Nwrite n] by metis
  then have q: "q \<le> sp_pending_size sp1"
    using assms(1,3) by (auto simp: sp1_def split: if_splits)
  have "run_state (iperf_tcp_send sp) w =
      ((q, if q < 0 then sp1 else count_sent (word_of_int q) (sp1\<lparr>sp_pending_size := sp_pending_size sp1 - q\<rparr>)), w1)"
    using assms(2,5) n by (cases "sp_pending_size sp = 0") (simp_all add: iperf_tcp_send_def Let_def sp1_def)
  then show ?thesis
    using assms(1,3,4,6) q by (auto simp: Let_def count_sent_def sp1_def split: if_splits)
qed

theorem tcp_send_blocks_witness:
  "\<exists>r sp' w'. run_state (iperf_tcp_send (zero_stream\<lparr>sp_buffer := replicate 8 0\<rparr>))
      (world0 (\<lambda>_ _. answers 5) (zero_test\<lparr>test_settings := zero_settings\<lparr>cfg_blksize := 8\<rparr>\<rparr>)) = ((r, sp'), w')
    \<and> 0 \<le> sp_pending_size sp' \<and> sp_pending_size sp' \<le> 8"
proof -
  let ?sp = "zero_stream\<lparr>sp_buffer := replicate 8 0\<rparr>"
  let ?w = "world0 (\<lambda>_ _. answers 5) (zero_test\<lparr>test_settings := zero_settings\<lparr>cfg_blksize := 8\<rparr>\<rparr>)"
  obtain r sp' w' where run: "run_state (iperf_tcp_send ?sp) ?w = ((r, sp'), w')" by (metis surj_pair)
  show ?thesis
    using tcp_send_blocks [OF _ _ _ _ _ run, of 8] run
    by (simp add: world0_def zero_stream_def zero_test_def Let_def)
qed

text \<open>
  receiving on a TCP stream adds exactly the bytes read to the byte counters, and only while the
  test runs.
\<close>

lemma tcp_recv_counts:
  "case run_state (iperf_tcp_recv sp) w of ((r, sp'), w') \<Rightarrow>
     (if 0 \<le> r \<and> test_state (the_test w) = TEST_RUNNING
      then sp_result sp' = (sp_result sp)\<lparr>
             res_bytes_received := res_bytes_received (sp_result sp) + word_of_int r,
             res_bytes_received_this_interval := res_bytes_received_this_interval (sp_result sp) + word_of_int r\<rparr>
      else sp_result sp' = sp_result sp)"
  by (auto simp: iperf_tcp_recv_def case_prod_beta count_received_def store_buffer_def)



text \<open>
  \<open>is_closed\<close>, by which the server recognises the sockets that \<open>iperf_tcp_accept\<close> has closed, looks at
  \<open>errno\<close> after \<open>select\<close>; but Winsock does not set \<open>errno\<close>, so it never answers yes unless
  \<open>errno\<close> happened to be \<open>EBADF\<close> before.
\<close>

lemma is_closed_never_true:
  assumes "errno s \<noteq> EBADF"
  shows "fst (run_state (is_closed fd) s) = False \<and> errno (snd (run_state (is_closed fd) s)) = errno s"
  using assms by (simp add: is_closed_def winsock_def run_call Let_def)

theorem is_closed_never_true_witness:
  "fst (run_state (is_closed 9) (sys0 (\<lambda>_ c. (answers (- 1))\<lparr>err := WSAENOTSOCK\<rparr>))) = False"
  using is_closed_never_true [of "sys0 (\<lambda>_ c. (answers (- 1))\<lparr>err := WSAENOTSOCK\<rparr>)" 9] by (simp add: sys0_def)

text \<open>
  when \<open>iperf_tcp_listen\<close> replaces the listening socket and fails, it has closed the old socket but
  leaves its number in the test, so the cleanup of the server will close that number again.
\<close>

lemma tcp_listen_keeps_closed_listener:
  "let os = (\<lambda>_ c. case c of Getaddrinfo n s f t fl \<Rightarrow> answers 11001 | _ \<Rightarrow> answers 0);
       (r, w) = run_state iperf_tcp_listen (world0 os (zero_test\<lparr>test_listener := 7, test_no_delay := 1\<rparr>))
   in r = - 1 \<and> i_errno w = IESTREAMLISTEN \<and> gather closes (trace w) = [7] \<and> test_listener (the_test w) = 7"
  by (simp add: iperf_tcp_listen_def tcp_relisten_def iperf_win32_close_def winsock_def run_call getaddrinfo_def fail_def
      Let_def world0_def answers_def zero_test_def zero_settings_def)

end
