(* ===== verification/Rate_Correct.thy ===== *)
theory Rate_Correct
  imports Rate Tcp_Correct
begin

text \<open>
  Properties of pacing and of the limit on the total rate: a paced stream never sends more than its
  rate allows plus one block, and the ring of interval counts holds the last intervals.
\<close>

section \<open>Reading the clock\<close>

definition clock_of :: "answer \<Rightarrow> iperf_time" where
  "clock_of a = \<lparr>secs = word_of_int (val a div ret a),
                 usecs = word_of_int (to_long (val a mod ret a * 1000000000 div ret a)) div 1000\<rparr>"

fun last_clock :: "(syscall \<times> answer) list \<Rightarrow> iperf_time" where
  "last_clock [] = \<lparr>secs = 0, usecs = 0\<rparr>"
| "last_clock ((c, a) # tr) = (if c = QueryPerformance then clock_of a else last_clock tr)"

lemma run_time_now:
  "run_state iperf_time_now w = (let a = os w (trace w) QueryPerformance in (clock_of a, w\<lparr>trace := (QueryPerformance, a) # trace w\<rparr>))"
  by (simp add: iperf_time_now_def clock_gettime_helper_def clock_gettime_def exec_simps Let_def clock_of_def)

lemma time_now_last:
  assumes "run_state iperf_time_now w = (t, w')"
  shows "t = last_clock (trace w')" and "the_test (w' :: 'z world_scheme) = the_test w"
  using assms by (auto simp: run_time_now Let_def)

section \<open>One message\<close>

lemma Nwrite_step:
  assumes "run_state (Nwrite fd buf p) (w :: 'z world_scheme) = (r, w')"
  shows "r \<le> int (length buf)" and "the_test w' = the_test w"
proof -
  obtain n where "n \<le> length buf" "if r < 0 then r = NET_SOFTERROR \<or> r = NET_HARDERROR else r = int n"
    using emitsD [OF emits_Nwrite assms] by metis
  then show "r \<le> int (length buf)" by (auto split: if_splits)
  have "keeps (Nwrite fd buf p :: ('z world_scheme, int) state)" by (intro keeps_rules)
  then show "the_test w' = the_test w"
    using keeps_test [of "Nwrite fd buf p" w] assms by simp
qed

text \<open>What one call of \<open>sp->snd\<close> may do to a stream.\<close>

definition sends_within :: "int \<Rightarrow> iperf_stream \<Rightarrow> int \<Rightarrow> iperf_stream \<Rightarrow> bool" where
  "sends_within blk sp r sp' \<longleftrightarrow>
     r \<le> blk \<and> sp_green_light sp' = sp_green_light sp
     \<and> res_start_time_fixed (sp_result sp') = res_start_time_fixed (sp_result sp)
     \<and> res_bytes_sent (sp_result sp') = res_bytes_sent (sp_result sp) + (if 0 < r then word_of_int r else 0)
     \<and> 0 \<le> sp_pending_size sp' \<and> sp_pending_size sp' \<le> blk"

lemma tcp_send_within:
  assumes "run_state (iperf_tcp_send sp) w = ((r, sp'), w')" and "0 < cfg_blksize (test_settings (the_test w))"
    and "test_zerocopy (the_test w) = 0" and "0 \<le> sp_pending_size sp" and "sp_pending_size sp \<le> cfg_blksize (test_settings (the_test w))"
  shows "sends_within (cfg_blksize (test_settings (the_test w))) sp r sp' \<and> the_test w' = the_test w"
proof -
  let ?blk = "cfg_blksize (test_settings (the_test w))"
  define sp1 where "sp1 = (if sp_pending_size sp = 0 then sp\<lparr>sp_pending_size := ?blk\<rparr> else sp)"
  obtain q w1 where n: "run_state (Nwrite (sp_socket sp1) (take (nat (sp_pending_size sp1)) (sp_buffer sp1)) Ptcp) w = (q, w1)"
    by fastforce
  have "(r, sp', w') = (q, if q < 0 then sp1 else count_sent (word_of_int q) (sp1\<lparr>sp_pending_size := sp_pending_size sp1 - q\<rparr>), w1)"
    using assms(1,3) n by (auto simp: iperf_tcp_send_def Let_def sp1_def split: if_splits)
  moreover have "q \<le> sp_pending_size sp1"
    using Nwrite_step(1) [OF n] assms(2,4) by (auto simp: sp1_def split: if_splits)
  ultimately show ?thesis
    using Nwrite_step(2) [OF n] assms(2,4,5) by (auto simp: sends_within_def count_sent_def sp1_def split: if_splits)
qed

lemma udp_number_frame:
  "run_state (udp_number_loop wide dg n off sp) w = (sp', w')
   \<Longrightarrow> sp_result sp' = sp_result sp \<and> sp_green_light sp' = sp_green_light sp \<and> sp_pending_size sp' = sp_pending_size sp
     \<and> sp_socket sp' = sp_socket sp"
proof (induction wide dg n off sp arbitrary: w sp' w' rule: udp_number_loop.induct)
  case (1 wide dg n off sp)
  show ?case
  proof (cases "0 < dg \<and> 0 < n \<and> dg \<le> n")
    case True
    obtain t w1 where t: "run_state iperf_time_now w = (t, w1)" by fastforce
    show ?thesis
      using 1(1) [OF True, of t w1 sp' w'] 1(2) True t
      by (simp add: udp_number_loop.simps [of wide dg n off] number_datagram_def Let_def)
  next
    case False
    then show ?thesis
      using 1(2) by (simp add: udp_number_loop.simps [of wide dg n off] del: not_less split: if_splits)
  qed
qed

lemma udp_send_within:
  fixes w :: "'z world_scheme"
  assumes "run_state (iperf_udp_send sp) w = ((r, sp'), w')" and "0 < cfg_blksize (test_settings (the_test w))"
    and "cfg_gso (test_settings (the_test w)) = 0" and "0 \<le> sp_pending_size sp" and "sp_pending_size sp \<le> cfg_blksize (test_settings (the_test w))"
  shows "sends_within (cfg_blksize (test_settings (the_test w))) sp r sp' \<and> the_test w' = the_test w"
proof -
  let ?blk = "cfg_blksize (test_settings (the_test w))"
  let ?loop = "udp_number_loop (test_udp_counters_64bit (the_test w) \<noteq> 0) ?blk ?blk 0 sp :: ('z world_scheme, iperf_stream) state"
  obtain sp1 w1 where l: "run_state ?loop w = (sp1, w1)" by fastforce
  have k: "the_test w1 = the_test w"
    using keeps_test [OF keeps_udp_number_loop] l by (metis snd_conv)
  obtain q w2 where n: "run_state (Nwrite (sp_socket sp1) (take (nat ?blk) (sp_buffer sp1)) Pudp) w1 = (q, w2)" by fastforce
  have "(r, sp', w') = (q, let sp2 = (if q \<le> 0 then sp1\<lparr>sp_packet_count := sp_packet_count sp1 - 1\<rparr> else sp1)
      in if q < 0 then sp2 else count_sent (word_of_int q) sp2, w2)"
    using assms(1,3) n l by (auto simp: iperf_udp_send_def Let_def split: if_splits)
  then show ?thesis
    using Nwrite_step [OF n] k udp_number_frame [OF l] assms(2,4,5)
    by (auto simp: sends_within_def count_sent_def Let_def split: if_splits)
qed

lemma stream_snd_within:
  fixes w :: "'z world_scheme"
  assumes "run_state (stream_snd sp) w = ((r, sp'), w')" and "sp_diskfile_fd sp = - 1"
    and "0 < cfg_blksize (test_settings (the_test w))" and "cfg_gso (test_settings (the_test w)) = 0" and "test_zerocopy (the_test w) = 0"
    and "0 \<le> sp_pending_size sp" and "sp_pending_size sp \<le> cfg_blksize (test_settings (the_test w))"
  shows "sends_within (cfg_blksize (test_settings (the_test w))) sp r sp' \<and> the_test w' = the_test w"
  using assms tcp_send_within [of sp w r sp' w'] udp_send_within [of sp w r sp' w']
  by (simp add: stream_snd_def protocol_snd_def split: if_splits)

section \<open>The green light\<close>

definition elapsed :: "iperf_stream \<Rightarrow> iperf_time \<Rightarrow> double" where
  "elapsed sp t = iperf_time_in_secs (snd (iperf_time_diff (res_start_time_fixed (sp_result sp)) t))"

definition bits_sent :: "iperf_stream \<Rightarrow> int" where
  "bits_sent sp = 8 * uint (res_bytes_sent (sp_result sp))"

lemma truncate_floor: "0 \<le> x \<Longrightarrow> Doubles.truncate x = \<lfloor>x\<rfloor>"
  by (simp add: Doubles.truncate_def)

lemma sub_range: "0 \<le> a \<Longrightarrow> a \<le> 2 ^ 53 \<Longrightarrow> 0 \<le> b \<Longrightarrow> b \<le> 2 ^ 62 \<Longrightarrow> signed_take_bit 63 (a - b) = a - (b :: int)"
  by (rule signed_take_bit_int_eq_self) auto

text \<open>
  The comparison of rates decides exactly one way and up to rounding the other way, as long as the
  numbers of bits are exact doubles and the rate reached fits in 63 bits.
\<close>

lemma missing_rate:
  assumes "0 < s" and "uint bits \<le> 2 ^ 53" and "of_int (uint bits) < 2 ^ 62 * s" and "uint rate \<le> 2 ^ 53"
  shows "0 < sint (rate - quotient_u64 u bits s) \<longleftrightarrow> fl64 (of_int (uint bits) / s) < of_int (uint rate)"
proof -
  let ?x = "fl64 (of_int (uint bits) / s)"
  let ?q = "Doubles.truncate ?x"
  have b: "u64_to_double bits = of_int (uint bits)"
    unfolding u64_to_double_def using assms(2) by (intro fl64_int) simp
  have "of_int (uint bits) / s \<le> 2 ^ 62"
    using assms(1,3) by (simp add: divide_le_eq)
  moreover have "is_double (2 ^ 62)"
    using is_double_int [of 1 62] by (simp add: power_int_def)
  ultimately have "?x \<le> 2 ^ 62"
    using binary64.le_repr by blast
  moreover have "0 \<le> of_int (uint bits) / s"
    using assms(1) by (intro divide_nonneg_pos) (simp_all only: of_int_0_le_iff uint_nonnegative)
  ultimately have x: "0 \<le> ?x" "?x \<le> 2 ^ 62"
    using fl64_nonneg by blast+
  then have q: "?q = \<lfloor>?x\<rfloor>" "0 \<le> ?q" "?q \<le> 2 ^ 62"
    by (simp_all add: truncate_floor floor_le_iff)
  then have quot: "quotient_u64 u bits s = word_of_int ?q"
    using assms(1) by (simp add: quotient_u64_def b)
  have "sint (rate - word_of_int ?q) = signed_take_bit 63 (uint rate - ?q)"
    by (simp add: sint_uint uint_word_ariths uint_word_of_int signed_take_bit_eq_iff_take_bit_eq take_bit_eq_mod mod_simps)
  also have "\<dots> = uint rate - ?q"
    using assms(4) q(2,3) by (intro sub_range) simp_all
  finally have "0 < sint (rate - quotient_u64 u bits s) \<longleftrightarrow> \<lfloor>?x\<rfloor> < uint rate"
    using q(1) quot by simp
  then show ?thesis
    by (simp only: floor_less_iff)
qed

lemma green_light_rate:
  assumes "test_done test = 0" and "cfg_rate (test_settings test) = rate" and "rate \<noteq> 0" and "uint rate \<le> 2 ^ 53"
    and "0 < elapsed sp t" and "bits_sent sp \<le> 2 ^ 53" and "of_int (bits_sent sp) < 2 ^ 62 * elapsed sp t"
    and "sp_green_light (iperf_check_throttle u test t sp) \<noteq> 0"
  shows "of_int (bits_sent sp) < of_int (uint rate) * elapsed sp t"
proof -
  have "uint (res_bytes_sent (sp_result sp) * 8) = bits_sent sp"
    using assms(6) by (simp add: bits_sent_def uint_word_ariths mod_pos_pos_trivial)
  then have "fl64 (of_int (bits_sent sp) / elapsed sp t) < of_int (uint rate)"
    using assms missing_rate [of "elapsed sp t" "res_bytes_sent (sp_result sp) * 8" rate u]
    by (simp add: iperf_check_throttle_def Let_def elapsed_def split: if_splits)
  then have "of_int (bits_sent sp) / elapsed sp t < of_int (uint rate)"
    using binary64.less_repr [of "of_int (uint rate)"] is_double_int [of "uint rate" 0] assms(4) by simp
  then show ?thesis
    using assms(5) by (simp add: divide_less_eq)
qed

text \<open>
  The pacing invariant at a time \<open>t\<close>: what was sent exceeds the allowance by at most one block, and
  a green light means that it does not exceed it at all.
\<close>

definition paced :: "u64 \<Rightarrow> int \<Rightarrow> iperf_time \<Rightarrow> iperf_stream \<Rightarrow> bool" where
  "paced rate blk t sp \<longleftrightarrow>
     of_int (bits_sent sp) \<le> of_int (uint rate) * elapsed sp t + of_int (8 * blk)
     \<and> (sp_green_light sp \<noteq> 0 \<longrightarrow> of_int (bits_sent sp) \<le> of_int (uint rate) * elapsed sp t)"

lemma throttle_frame [simp]:
  "sp_result (iperf_check_throttle u test t sp) = sp_result sp"
  "sp_pending_size (iperf_check_throttle u test t sp) = sp_pending_size sp"
  by (simp_all add: iperf_check_throttle_def Let_def)

lemma throttle_paced:
  assumes "test_done test = 0" and "cfg_rate (test_settings test) = rate" and "rate \<noteq> 0" and "uint rate \<le> 2 ^ 53"
    and "0 < elapsed sp t" and "bits_sent sp \<le> 2 ^ 53" and "of_int (bits_sent sp) < 2 ^ 62 * elapsed sp t"
    and "of_int (bits_sent sp) \<le> of_int (uint rate) * elapsed sp t + of_int (8 * blk)"
  shows "paced rate blk t (iperf_check_throttle u test t sp)"
  using green_light_rate [OF assms(1-7), of u] assms(8) by (auto simp: paced_def bits_sent_def elapsed_def)

lemma sends_within_bits:
  assumes "sends_within blk sp r sp'" and "0 \<le> blk" and "bits_sent sp + 8 * blk < 2 ^ 64"
  shows "bits_sent sp \<le> bits_sent sp'" and "bits_sent sp' \<le> bits_sent sp + 8 * blk" and "elapsed sp' = elapsed sp"
proof -
  have e: "elapsed sp' = elapsed sp"
    using assms(1) by (auto simp: elapsed_def sends_within_def)
  have b: "0 \<le> uint (res_bytes_sent (sp_result sp))" by (rule uint_nonnegative)
  have "uint (res_bytes_sent (sp_result sp')) = uint (res_bytes_sent (sp_result sp)) + max r 0"
  proof (cases "0 < r")
    case True
    have "uint (res_bytes_sent (sp_result sp)) + r < 2 ^ 64"
      using assms b True by (auto simp: sends_within_def bits_sent_def)
    then show ?thesis
      using assms(1) True b by (simp add: sends_within_def uint_word_ariths uint_word_of_int take_bit_eq_mod mod_simps mod_pos_pos_trivial)
  qed (use assms(1) in \<open>simp add: sends_within_def\<close>)
  moreover have "max r 0 \<le> blk"
    using assms(1,2) by (simp add: sends_within_def)
  ultimately show "bits_sent sp \<le> bits_sent sp'" "bits_sent sp' \<le> bits_sent sp + 8 * blk" "elapsed sp' = elapsed sp"
    using e by (auto simp: bits_sent_def)
qed

text \<open>
  A paced call without bursts sends at most one message, then reads the clock and sets the light; with
  no light or a soft error it sends nothing.
\<close>

lemma send_mt_one:
  fixes w :: "'z world_scheme"
  assumes run: "run_state (iperf_send_mt u sp) w = ((r, sp'), w')" and r: "0 \<le> r"
    and rate: "cfg_rate (test_settings (the_test w)) \<noteq> 0" and burst: "cfg_burst (test_settings (the_test w)) = 0"
    and within: "\<And>q sp1 w1. run_state (stream_snd sp) w = ((q, sp1), w1) \<Longrightarrow> sends_within blk sp q sp1 \<and> the_test w1 = the_test w"
    and blk: "0 \<le> blk" and pend: "0 \<le> sp_pending_size sp" "sp_pending_size sp \<le> blk"
  shows "\<exists>sp1 q test. sends_within blk sp q sp1 \<and> sp' = iperf_check_throttle u test (last_clock (trace w')) sp1
    \<and> test_settings test = test_settings (the_test w) \<and> test_done test = test_done (the_test w)
    \<and> (sp_green_light sp = 0 \<longrightarrow> sp1 = sp)"
proof (cases "sp_green_light sp = 0")
  case True
  obtain t w1 where t: "run_state iperf_time_now w = (t, w1)" by fastforce
  have "sp' = iperf_check_throttle u (the_test w1) t sp" "w' = w1"
    using run True rate burst t by (auto simp: iperf_send_mt_def Let_def numeral_2_eq_2 [symmetric])
  moreover have "sends_within blk sp 0 sp"
    using blk pend by (simp add: sends_within_def)
  ultimately show ?thesis
    using time_now_last [OF t] True by (intro exI [of _ sp] exI [of _ 0] exI [of _ "the_test w1"]) simp
next
  case False
  obtain q sp1 w1 where q: "run_state (stream_snd sp) w = ((q, sp1), w1)" by (metis surj_pair)
  define w2 where "w2 = (if q < 0 then w1 else the_test_update (count_block q (sp_pending_size sp1 = 0)) w1)"
  obtain t w3 where t: "run_state iperf_time_now w2 = (t, w3)" by fastforce
  have "q = NET_SOFTERROR \<or> 0 \<le> q"
    using run q r rate burst False by (auto simp: iperf_send_mt_def Let_def split: if_splits)
  then have "sp' = iperf_check_throttle u (the_test w3) t sp1 \<and> w' = w3"
    using run False rate burst t q by (auto simp: iperf_send_mt_def Let_def w2_def)
  moreover have "the_test w3 = the_test w2"
    by (rule time_now_last [OF t])
  moreover have "test_settings (the_test w2) = test_settings (the_test w)" "test_done (the_test w2) = test_done (the_test w)"
    using within [OF q] by (auto simp: w2_def count_block_def)
  ultimately show ?thesis
    using time_now_last(1) [OF t] within [OF q] False by metis
qed

section \<open>Properties\<close>


definition pacing_os :: "(syscall \<times> answer) list \<Rightarrow> syscall \<Rightarrow> answer" where
  "pacing_os tr c = (if c = QueryPerformance then (answers 1)\<lparr>val := 5\<rparr> else answers 8)"

definition pacing_stream :: iperf_stream where
  "pacing_stream = zero_stream\<lparr>sp_green_light := 1, sp_buffer := replicate 8 0, sp_diskfile_fd := - 1\<rparr>"

definition pacing_test :: iperf_test where
  "pacing_test = zero_test\<lparr>test_settings := zero_settings\<lparr>cfg_blksize := 8, cfg_rate := 100\<rparr>\<rparr>"

lemma pacing_run:
  "run_state (iperf_send_mt 0 pacing_stream) (world0 pacing_os pacing_test) = ((r, sp'), w')
   \<Longrightarrow> r = 0 \<and> last_clock (trace w') = \<lparr>secs = 5, usecs = 0\<rparr>"
  by (auto simp: pacing_stream_def pacing_os_def pacing_test_def iperf_send_mt_def Let_def world0_simps
      zero_stream_def zero_test_def zero_settings_def stream_snd_def protocol_snd_def iperf_tcp_send_def Nwrite_def
      Nwrite_loop.simps iperf_win32_write_def winsock_def exec_simps run_time_now answers_def sent_def
      to_long_def clock_of_def)

lemma pacing_elapsed: "elapsed pacing_stream \<lparr>secs = 5, usecs = 0\<rparr> = 5"
  using fl64_int [of 5]
  by (simp add: elapsed_def pacing_stream_def zero_stream_def zero_stream_result_def iperf_time_diff_def iperf_time_compare_def
      time_sub_def iperf_time_in_secs_def)

lemma pacing_start: "paced 100 8 \<lparr>secs = 0, usecs = 0\<rparr> pacing_stream" "elapsed pacing_stream \<lparr>secs = 0, usecs = 0\<rparr> = 0"
  by (simp_all add: paced_def bits_sent_def elapsed_def pacing_stream_def zero_stream_def zero_stream_result_def
      iperf_time_diff_def iperf_time_compare_def time_sub_def iperf_time_in_secs_def)


section \<open>The ring of intervals\<close>

lemma ring_write:
  assumes "p < length a"
  shows "drop (Suc p) a @ take p a @ [x] = tl (drop p a @ take p a) @ [x]"
    and "(Suc p) < length a \<Longrightarrow> drop (Suc p) (a[p := x]) @ take (Suc p) (a[p := x]) = drop (Suc p) a @ take p a @ [x]"
    and "(Suc p) = length a \<Longrightarrow> a[p := x] = take p a @ [x]"
proof -
  have "tl (drop p a) = drop (Suc p) a" "drop p a \<noteq> []" using assms by (simp_all add: drop_Suc tl_drop)
  then show "drop (Suc p) a @ take p a @ [x] = tl (drop p a @ take p a) @ [x]" by simp
  show "drop (Suc p) (a[p := x]) @ take (Suc p) (a[p := x]) = drop (Suc p) a @ take p a @ [x]" if "(Suc p) < length a"
    using assms by (simp add: take_Suc_conv_app_nth)
  show "a[p := x] = take p a @ [x]" if "(Suc p) = length a"
    using assms that by (simp add: upd_conv_take_nth_drop)
qed

text \<open>The slot after the last one written, where the oldest count is, and the counts from there on.\<close>

definition next_slot :: "nat \<Rightarrow> iperf_test \<Rightarrow> nat" where
  "next_slot n t = (let i = Suc (unat (test_bitrate_limit_last_interval_index t)) in if i \<ge> n then 0 else i)"

definition ring :: "nat \<Rightarrow> iperf_test \<Rightarrow> u64 list" where
  "ring n t = (let a = take n (test_bitrate_limit_intervals_traffic_bytes t); p = next_slot n t in drop p a @ take p a)"

fun feed :: "u64 \<Rightarrow> u64 list \<Rightarrow> iperf_test \<Rightarrow> iperf_test option" where
  "feed u [] t = Some t"
| "feed u (x # xs) t = (case iperf_check_total_rate u x t of None \<Rightarrow> None | Some t \<Rightarrow> feed u xs t)"

definition over_limit :: "u64 \<Rightarrow> iperf_test \<Rightarrow> u64 list \<Rightarrow> bool" where
  "over_limit u t xs \<longleftrightarrow>
     quotient_u64 u (sum_list xs * 8) (fl64 (test_stats_interval t * of_int (cfg_bitrate_limit_stats_per_interval (test_settings t))))
     > cfg_bitrate_limit (test_settings t)"

text \<open>What the check needs of the test: the limit is on and its intervals fit in the array.\<close>

definition limiting :: "nat \<Rightarrow> iperf_test \<Rightarrow> bool" where
  "limiting n t \<longleftrightarrow> test_done t = 0 \<and> cfg_bitrate_limit (test_settings t) \<noteq> 0
     \<and> cfg_bitrate_limit_stats_per_interval (test_settings t) = int n \<and> 0 < n
     \<and> n \<le> length (test_bitrate_limit_intervals_traffic_bytes t) \<and> n < 2 ^ 31
     \<and> unat (test_bitrate_limit_last_interval_index t) < n"

lemma unat_next: "Suc (unat x) < 2 ^ 64 \<Longrightarrow> unat (x + 1 :: u64) = Suc (unat x)"
  by (simp add: unat_word_ariths)

lemma sum_list_rotated: "sum_list (drop p a @ take p a) = sum_list (a :: u64 list)"
  by (metis add.commute append_take_drop_id sum_list_append)

lemma ring_length [simp]: "limiting n t \<Longrightarrow> length (ring n t) = n"
  by (auto simp: limiting_def ring_def Let_def next_slot_def)

lemma total_rate_step:
  assumes "limiting n t" and "Suc (unat (test_bitrate_limit_stats_count t)) < 2 ^ 64"
  shows "\<exists>t'. iperf_check_total_rate u x t = Some t' \<and> limiting n t' \<and> ring n t' = tl (ring n t) @ [x]
    \<and> unat (test_bitrate_limit_stats_count t') = Suc (unat (test_bitrate_limit_stats_count t))
    \<and> over_limit u t' = over_limit u t
    \<and> test_bitrate_limit_exceeded t' =
        (if n \<le> Suc (unat (test_bitrate_limit_stats_count t)) \<and> over_limit u t (tl (ring n t) @ [x]) then 1
         else test_bitrate_limit_exceeded t)"
proof -
  let ?arr = "test_bitrate_limit_intervals_traffic_bytes t"
  let ?i = "test_bitrate_limit_last_interval_index t"
  let ?c = "test_bitrate_limit_stats_count t"
  let ?p = "next_slot n t"
  have n: "0 < n" "n \<le> length ?arr" "n < 2 ^ 31" "unat ?i < n" "int n = cfg_bitrate_limit_stats_per_interval (test_settings t)"
    using assms(1) by (auto simp: limiting_def)
  have un: "unat (word_of_int (int n) :: u64) = n"
    using n(3) by (simp add: unat_of_nat)
  have i1: "unat (?i + 1) = Suc (unat ?i)"
    using n(3,4) by (intro unat_next) auto
  have i: "(if ?i + 1 \<ge> word_of_int (int n) then 0 else ?i + 1) = of_nat ?p"
  proof (cases "n \<le> Suc (unat ?i)")
    case True
    then show ?thesis by (simp add: word_le_nat_alt i1 un next_slot_def del: of_int_of_nat_eq)
  next
    case False
    then have "\<not> word_of_int (int n) \<le> ?i + 1" "?p = Suc (unat ?i)"
      by (simp_all add: word_le_nat_alt i1 un next_slot_def Let_def del: of_int_of_nat_eq)
    moreover have "?i + 1 = of_nat (Suc (unat ?i))" by simp
    ultimately show ?thesis by (simp only: if_False)
  qed
  have p: "?p < n" "unat (of_nat ?p :: u64) = ?p"
    using n by (auto simp: next_slot_def Let_def unat_of_nat)
  have c: "unat (?c + 1) = Suc (unat ?c)"
    using assms(2) by (rule unat_next)
  define t1 where "t1 = t\<lparr>test_bitrate_limit_last_interval_index := of_nat ?p,
      test_bitrate_limit_intervals_traffic_bytes := ?arr[?p := x], test_bitrate_limit_stats_count := ?c + 1\<rparr>"
  have slot: "next_slot n t1 = (if Suc ?p \<ge> n then 0 else Suc ?p)"
    using p by (simp add: next_slot_def t1_def)
  have a: "take n (?arr[?p := x]) = (take n ?arr)[?p := x]" "?p < length (take n ?arr)"
    using p(1) n(2) by (simp_all add: take_update_swap)
  have r1: "ring n t1 = drop (next_slot n t1) ((take n ?arr)[?p := x]) @ take (next_slot n t1) ((take n ?arr)[?p := x])"
    unfolding ring_def Let_def a(1) [symmetric] by (simp add: t1_def)
  have r0: "ring n t = drop ?p (take n ?arr) @ take ?p (take n ?arr)"
    by (simp add: ring_def Let_def)
  have r: "ring n t1 = tl (ring n t) @ [x]"
  proof (cases "Suc ?p < n")
    case True
    then show ?thesis
      unfolding r1 slot r0 using ring_write(1,2) [OF a(2), of x] n(2) by auto
  next
    case False
    then have "Suc ?p = n" using p(1) by simp
    then show ?thesis
      unfolding r1 slot r0 using ring_write(1,3) [OF a(2), of x] n(2) by auto
  qed
  have lim: "limiting n t1"
    using assms(1) p by (simp add: limiting_def t1_def)
  have sum: "sum_list (take n (?arr[?p := x])) = sum_list (tl (ring n t) @ [x])"
    unfolding r [symmetric] r1 sum_list_rotated a(1) by (rule refl)
  define e where "e = (n \<le> Suc (unat ?c) \<and> over_limit u t (tl (ring n t) @ [x]))"
  have le: "\<not> length ?arr \<le> ?p" "\<not> int (length ?arr) < int n"
    using n p by auto
  have cn: "?c + 1 < of_nat n \<longleftrightarrow> \<not> n \<le> Suc (unat ?c)"
    using un c by (simp add: word_less_nat_alt not_le)
  have i': "(if of_nat n \<le> ?i + 1 then 0 else ?i + 1) = of_nat ?p"
    using i by simp
  have per: "cfg_bitrate_limit_stats_per_interval (test_settings t) = int n" "test_done t = 0" "cfg_bitrate_limit (test_settings t) \<noteq> 0"
    using assms(1) by (simp_all add: limiting_def)
  have "iperf_check_total_rate u x t = Some (if e then t1\<lparr>test_bitrate_limit_exceeded := 1\<rparr> else t1)"
    unfolding iperf_check_total_rate_def Let_def per(1) of_int_of_nat_eq i' p(2) cn
    using per le sum by (simp add: e_def over_limit_def t1_def del: sum_list_append)
  moreover have "over_limit u (t1\<lparr>test_bitrate_limit_exceeded := k\<rparr>) = over_limit u t" "over_limit u t1 = over_limit u t" for k
    by (simp_all add: over_limit_def fun_eq_iff t1_def)
  ultimately show ?thesis
    using lim r c by (cases e) (auto simp: limiting_def ring_def next_slot_def t1_def e_def)
qed

lemma ex_from_one: "\<not> P 0 \<Longrightarrow> (\<exists>k. P k) \<longleftrightarrow> P 1 \<or> (\<exists>k>0. P (Suc k))" for P :: "nat \<Rightarrow> bool"
proof
  assume z: "\<not> P 0"
  assume "\<exists>k. P k"
  then obtain k where "P k" ..
  with z show "P 1 \<or> (\<exists>k>0. P (Suc k))"
    by (cases k; cases "k - 1") auto
qed auto

lemma feed_correct:
  assumes "limiting n t" and "unat (test_bitrate_limit_stats_count t) + length xs < 2 ^ 64"
  shows "\<exists>t'. feed u xs t = Some t' \<and> limiting n t' \<and> ring n t' = drop (length xs) (ring n t @ xs)
    \<and> (test_bitrate_limit_exceeded t' \<noteq> 0 \<longleftrightarrow> test_bitrate_limit_exceeded t \<noteq> 0
        \<or> (\<exists>k. 0 < k \<and> k \<le> length xs \<and> n \<le> unat (test_bitrate_limit_stats_count t) + k
             \<and> over_limit u t (drop k (ring n t @ take k xs))))"
  using assms
proof (induction xs arbitrary: t)
  case (Cons x xs)
  obtain t1 where t1: "iperf_check_total_rate u x t = Some t1" "limiting n t1" "ring n t1 = tl (ring n t) @ [x]"
    "unat (test_bitrate_limit_stats_count t1) = Suc (unat (test_bitrate_limit_stats_count t))"
    "over_limit u t1 = over_limit u t"
    "test_bitrate_limit_exceeded t1 =
        (if n \<le> Suc (unat (test_bitrate_limit_stats_count t)) \<and> over_limit u t (tl (ring n t) @ [x]) then 1
         else test_bitrate_limit_exceeded t)"
    using total_rate_step [OF Cons.prems(1), of u x] Cons.prems(2) by auto
  obtain t' where t': "feed u xs t1 = Some t'" "limiting n t'" "ring n t' = drop (length xs) (ring n t1 @ xs)"
    "test_bitrate_limit_exceeded t' \<noteq> 0 \<longleftrightarrow> test_bitrate_limit_exceeded t1 \<noteq> 0
        \<or> (\<exists>k. 0 < k \<and> k \<le> length xs \<and> n \<le> unat (test_bitrate_limit_stats_count t1) + k
             \<and> over_limit u t1 (drop k (ring n t1 @ take k xs)))"
    using Cons.IH [OF t1(2)] Cons.prems(2) t1(4) by auto
  have "length (ring n t) = n" "0 < n"
    using Cons.prems(1) by (simp, simp add: limiting_def)
  then have "ring n t \<noteq> []" by auto
  then obtain y ys where ys: "ring n t = y # ys" by (cases "ring n t") auto
  have step: "(\<exists>k. 0 < k \<and> k \<le> length (x # xs) \<and> n \<le> unat (test_bitrate_limit_stats_count t) + k
         \<and> over_limit u t (drop k (ring n t @ take k (x # xs))))
     \<longleftrightarrow> n \<le> Suc (unat (test_bitrate_limit_stats_count t)) \<and> over_limit u t (tl (ring n t) @ [x])
       \<or> (\<exists>k. 0 < k \<and> k \<le> length xs \<and> n \<le> unat (test_bitrate_limit_stats_count t1) + k
             \<and> over_limit u t1 (drop k (ring n t1 @ take k xs)))" (is "(\<exists>k. ?P k) \<longleftrightarrow> ?A \<or> (\<exists>k. ?Q k)")
  proof -
    have P1: "?P 1 \<longleftrightarrow> ?A" by (simp add: ys)
    have PS: "?P (Suc k) \<longleftrightarrow> ?Q k" if "0 < k" for k
      using that t1(3-5) ys by simp
    have "(\<exists>k. ?P k) \<longleftrightarrow> ?P 1 \<or> (\<exists>k>0. ?P (Suc k))"
      by (rule ex_from_one) simp
    also have "\<dots> \<longleftrightarrow> ?A \<or> (\<exists>k>0. ?Q k)" using P1 PS by blast
    finally show ?thesis by blast
  qed
  have "ring n t' = drop (length (x # xs)) (ring n t @ x # xs)"
    using t'(3) t1(3) ys by simp
  then show ?case
    using t' t1(1,6) step by (auto split: if_splits)
qed auto

section \<open>The limit on the total rate\<close>

text \<open>
  C2: the limit on the total rate looks at exactly the last \<open>n\<close> intervals: if the intervals of the
  limit fit in the array, no sequence of interval counts makes the check touch anything outside
  it, and the limit counts as exceeded from the first moment on at which the mean rate of the
  last \<open>n\<close> intervals (never of fewer) is above it.
\<close>

theorem total_rate_window:
  assumes "limiting n t" and "test_bitrate_limit_stats_count t = 0" and "length xs < 2 ^ 64" and "test_bitrate_limit_exceeded t = 0"
  shows "\<exists>t'. feed u xs t = Some t'
    \<and> (test_bitrate_limit_exceeded t' \<noteq> 0
       \<longleftrightarrow> (\<exists>k. n \<le> k \<and> k \<le> length xs \<and> over_limit u t (drop (k - n) (take k xs))))"
proof -
  have n: "0 < n" "length (ring n t) = n" using assms(1) by (auto simp: limiting_def)
  have "drop k (ring n t @ take k xs) = drop (k - n) (take k xs)" if "n \<le> k" for k
    using that n(2) by simp
  then show ?thesis
    using feed_correct [of n t xs u] assms n(1) by (metis (no_types, lifting) add_0 gr0I leD unat_0)
qed

definition limit_test :: iperf_test where
  "limit_test = zero_test\<lparr>test_settings := zero_settings\<lparr>cfg_bitrate_limit := 100, cfg_bitrate_limit_stats_per_interval := 2\<rparr>,
     test_stats_interval := 1, test_bitrate_limit_intervals_traffic_bytes := replicate 60 0\<rparr>"

lemma limit_test_facts: "limiting 2 limit_test" "test_bitrate_limit_stats_count limit_test = 0" "test_bitrate_limit_exceeded limit_test = 0"
  by (simp_all add: limiting_def limit_test_def zero_test_def zero_settings_def)

theorem total_rate_window_witness:
  "\<exists>t'. feed 0 [1, 2, 300] limit_test = Some t'
    \<and> (test_bitrate_limit_exceeded t' \<noteq> 0
       \<longleftrightarrow> (\<exists>k. 2 \<le> k \<and> k \<le> 3 \<and> over_limit 0 limit_test (drop (k - 2) (take k [1, 2, 300]))))"
  using total_rate_window [of 2 limit_test "[1, 2, 300]" 0] limit_test_facts by (simp add: numeral_3_eq_3)

end
