(* ===== verification/Cjson_Number.thy ===== *)
theory Cjson_Number
  imports Json Units
begin

text \<open>
  Numbers in the text form of JSON (\<open>cjson.c\<close>): how \<open>print_number\<close> writes a double and how
  \<open>parse_number\<close> reads one, with the C library functions behind them (\<open>sprintf\<close> with \<open>%g\<close> and
  \<open>strtod\<close>), and what of a number survives.
\<close>

section \<open>Writing\<close>

text \<open>The decimal exponent of a nonzero number: \<open>10 ^ k \<le> \<bar>x\<bar> < 10 ^ (k + 1)\<close>.\<close>

definition dec_exponent :: "rat \<Rightarrow> int" where
  "dec_exponent x =
     (let (p, q) = quotient_of \<bar>x\<bar>; k = int (length (show_nat (nat p))) - int (length (show_nat (nat q)))
      in if 10 powi k \<le> \<bar>x\<bar> then k else k - 1)"

text \<open>
  The conversion \<open>%1.<P>g\<close>: \<open>P\<close> significant digits, rounded to nearest with ties to even, without
  trailing zeros, in scientific form if the exponent is below \<open>- 4\<close> or not below \<open>P\<close>.
\<close>

definition g_digits :: "nat \<Rightarrow> rat \<Rightarrow> int \<times> nat" where
  "g_digits P x =
     (let k = dec_exponent x; m = nat (round_even (\<bar>x\<bar> / 10 powi (k - int P + 1)))
      in if m = 10 ^ P then (k + 1, 10 ^ (P - 1)) else (k, m))"

definition strip_zeros :: "string \<Rightarrow> string" where
  "strip_zeros ds = rev (dropWhile (\<lambda>c. c = CHR ''0'') (rev ds))"

definition show_exponent :: "int \<Rightarrow> string" where
  "show_exponent k = CHR ''e'' # (if k < 0 then CHR ''-'' else CHR ''+'') # pad_left 2 CHR ''0'' (show_nat (nat \<bar>k\<bar>))"

definition point :: "string \<Rightarrow> string" where
  "point fp = (if fp = [] then [] else CHR ''.'' # fp)"

definition g_text :: "nat \<Rightarrow> int \<Rightarrow> nat \<Rightarrow> string" where
  "g_text P k m =
     (let full = show_nat m; ds = strip_zeros full
      in if k < - 4 \<or> int P \<le> k then take 1 ds @ point (drop 1 ds) @ show_exponent k
         else if 0 \<le> k then take (nat k + 1) full @ point (drop (nat k + 1) ds)
         else CHR ''0'' # point (replicate (nat (- k - 1)) CHR ''0'' @ ds))"

definition show_g :: "nat \<Rightarrow> double \<Rightarrow> string" where
  "show_g P x =
     (if x = 0 then ''0''
      else let (k, m) = g_digits P x in (if x < 0 then [CHR ''-''] else []) @ g_text P k m)"

definition DBL_EPSILON :: double where "DBL_EPSILON = 1 / 2 ^ 52"

definition compare_double :: "double \<Rightarrow> double \<Rightarrow> bool" where
  "compare_double a b \<longleftrightarrow> \<bar>fl64 (a - b)\<bar> \<le> fl64 (max \<bar>a\<bar> \<bar>b\<bar> * DBL_EPSILON)"

definition print_number :: "double \<Rightarrow> string option" where
  "print_number d =
     (let text =
        (if d = fl64 (of_int (valueint d)) then show_int (valueint d)
         else let t = show_g 15 d
              in case scan_lf t of
                   None \<Rightarrow> show_g 17 d
                 | Some (test, _) \<Rightarrow> if compare_double test d then t else show_g 17 d)
      in if length text > 25 then None else Some text)"

section \<open>Reading\<close>

definition strtod :: "string \<Rightarrow> (double \<times> string) option" where
  "strtod s =
     (let (neg, s1) = scan_sign (snd (split_while is_space s));
          (ip, s2) = split_while is_digit s1;
          (fp, s3) = scan_fraction s2;
          (e, rest) = (case scan_exponent s3 of None \<Rightarrow> (0, s3) | Some r \<Rightarrow> r);
          v = of_nat (digits_value 10 (ip @ fp)) * 10 powi (e - int (length fp))
      in if ip = [] \<and> fp = [] then None else Some (fl64 (if neg then - v else v), rest))"

definition number_char :: "char \<Rightarrow> bool" where
  "number_char c \<longleftrightarrow> is_digit c \<or> c \<in> {CHR ''+'', CHR ''-'', CHR ''e'', CHR ''E'', CHR ''.''}"

text \<open>The text of at most 63 characters that may belong to a number goes through \<open>strtod\<close>.\<close>

definition parse_number :: "string \<Rightarrow> (cjson \<times> string) option" where
  "parse_number s =
     (let c_string = fst (split_while number_char (take 63 s))
      in case strtod c_string of
           None \<Rightarrow> None
         | Some (number, after_end) \<Rightarrow> Some (JNumber number, drop (length c_string - length after_end) s))"

section \<open>Digits\<close>

lemma show_nat_less: "n < 10 ^ length (show_nat n)"
proof (induction n rule: show_nat.induct)
  case (1 n)
  then show ?case
    by (subst show_nat.simps) (auto simp: div_less_iff_less_mult mult.commute)
qed

lemma show_nat_ge: "0 < n \<Longrightarrow> 10 ^ (length (show_nat n) - 1) \<le> n"
proof (induction n rule: show_nat.induct)
  case (1 n)
  show ?case
  proof (cases "n < 10")
    case True
    then have "length (show_nat n) = 1" by (subst show_nat.simps) simp
    then show ?thesis using 1 by simp
  next
    case False
    define l where "l = length (show_nat (n div 10))"
    have l: "0 < l" "length (show_nat n) = Suc l"
      using False by (simp_all add: l_def) (subst show_nat.simps, simp)
    have "10 ^ (l - 1) \<le> n div 10"
      using 1 False by (simp add: l_def)
    then have "10 * 10 ^ (l - 1) \<le> n"
      using div_times_less_eq_dividend [of n 10] by linarith
    then show ?thesis
      using l by (cases l) simp_all
  qed
qed

lemma digits_value_append: "digits_value 10 (a @ b) = digits_value 10 a * 10 ^ length b + digits_value 10 b"
proof (induction b rule: rev_induct)
  case (snoc c b)
  then show ?case by (simp add: digits_value_def algebra_simps)
qed (simp add: digits_value_def)

lemma digit_value_zero [simp]: "digit_value CHR ''0'' = 0"
  by (simp add: digit_value_def char_code_def is_digit_def)

lemma digits_value_zeros [simp]: "digits_value 10 (replicate n CHR ''0'') = 0" "digits_value 10 [] = 0"
proof -
  show "digits_value 10 (replicate n CHR ''0'') = 0"
    by (induction n) (simp_all add: digits_value_def)
qed (simp add: digits_value_def)

lemma digits_value_lead [simp]: "digits_value 10 (CHR ''0'' # ds) = digits_value 10 ds"
  using digits_value_append [of "[CHR ''0'']" ds] digits_value_zeros(1) [of 1] by simp

lemma strip_zeros_split: "ds = strip_zeros ds @ replicate (length ds - length (strip_zeros ds)) CHR ''0''"
proof -
  let ?t = "takeWhile (\<lambda>c. c = CHR ''0'') (rev ds)"
  have "\<forall>c\<in>set ?t. c = CHR ''0''"
    by (auto dest: set_takeWhileD)
  then have t: "?t = replicate (length ?t) CHR ''0''"
    by (simp add: replicate_length_same)
  have "rev (?t @ dropWhile (\<lambda>c. c = CHR ''0'') (rev ds)) = rev (rev ds)"
    by (simp only: takeWhile_dropWhile_id)
  then have "ds = strip_zeros ds @ rev ?t"
    by (simp only: strip_zeros_def rev_append rev_rev_ident)
  moreover have "rev ?t = replicate (length ?t) CHR ''0''"
    by (subst t) (simp only: rev_replicate)
  ultimately have eq: "ds = strip_zeros ds @ replicate (length ?t) CHR ''0''" by simp
  then have "length ds = length (strip_zeros ds) + length ?t"
    by (metis length_append length_replicate)
  then show ?thesis using eq by simp
qed

lemma strip_zeros_digits: "\<forall>c\<in>set ds. is_digit c \<Longrightarrow> \<forall>c\<in>set (strip_zeros ds). is_digit c"
  by (auto simp: strip_zeros_def dest: set_dropWhileD)

lemma strip_zeros_value:
  "digits_value 10 ds = digits_value 10 (strip_zeros ds) * 10 ^ (length ds - length (strip_zeros ds))"
  "length (strip_zeros ds) \<le> length ds"
proof -
  have "digits_value 10 ds = digits_value 10 (strip_zeros ds @ replicate (length ds - length (strip_zeros ds)) CHR ''0'')"
    using strip_zeros_split [of ds] by simp
  then show "digits_value 10 ds = digits_value 10 (strip_zeros ds) * 10 ^ (length ds - length (strip_zeros ds))"
    by (simp only: digits_value_append digits_value_zeros length_replicate)
  show "length (strip_zeros ds) \<le> length ds"
    using length_dropWhile_le [of "\<lambda>c. c = CHR ''0''" "rev ds"] by (simp add: strip_zeros_def)
qed

section \<open>The decimal exponent\<close>

lemma powi_10_less: "(10 :: rat) powi a < 10 powi b \<Longrightarrow> a < b"
  by (rule ccontr) (simp add: not_less power_int_increasing leD)

lemma show_nat_powi:
  assumes "0 < p"
  shows "10 powi (int (length (show_nat (nat p))) - 1) \<le> (of_int p :: rat)" "(of_int p :: rat) < 10 powi int (length (show_nat (nat p)))"
proof -
  let ?l = "length (show_nat (nat p))"
  have l: "1 \<le> ?l" by (simp add: Suc_le_eq)
  have "(10 :: int) ^ (?l - 1) \<le> p"
    using show_nat_ge [of "nat p"] assms by (metis nat_numeral nat_power_eq of_nat_0_less_iff of_nat_le_iff pos_int_cases zero_le_numeral nat_int of_nat_numeral of_nat_power)
  then have "(of_int (10 ^ (?l - 1)) :: rat) \<le> of_int p" by (simp only: of_int_le_iff)
  then show "10 powi (int ?l - 1) \<le> (of_int p :: rat)"
    using l by (simp add: power_int_def nat_diff_distrib)
  have "p < 10 ^ ?l"
    using show_nat_less [of "nat p"] assms by (simp add: nat_less_iff)
  then have "(of_int p :: rat) < of_int (10 ^ ?l)" by (simp only: of_int_less_iff)
  then show "(of_int p :: rat) < 10 powi int ?l" by simp
qed

lemma dec_exponent_bounds:
  assumes "x \<noteq> 0"
  shows "10 powi dec_exponent x \<le> \<bar>x\<bar>" and "\<bar>x\<bar> < 10 powi (dec_exponent x + 1)"
proof -
  obtain p q where pq: "quotient_of \<bar>x\<bar> = (p, q)" by fastforce
  then have q: "0 < q" and x: "\<bar>x\<bar> = of_int p / of_int q"
    using quotient_of_denom_pos quotient_of_div by blast+
  then have p: "0 < p"
    using assms by (metis abs_le_zero_iff divide_nonpos_pos not_less of_int_0_less_iff of_int_le_0_iff)
  let ?a = "int (length (show_nat (nat p)))" and ?b = "int (length (show_nat (nat q)))"
  have "10 powi (?a - 1) / 10 powi ?b \<le> \<bar>x\<bar>"
    unfolding x using show_nat_powi [OF p] show_nat_powi [OF q] q p by (intro frac_le) auto
  then have lo: "10 powi (?a - ?b - 1) \<le> \<bar>x\<bar>"
    using power_int_diff [of "10 :: rat" "?a - 1" ?b] by (simp add: algebra_simps)
  have "\<bar>x\<bar> < 10 powi ?a / 10 powi (?b - 1)"
    unfolding x using show_nat_powi [OF p] show_nat_powi [OF q] q p by (intro frac_less) auto
  then have hi: "\<bar>x\<bar> < 10 powi (?a - ?b + 1)"
    using power_int_diff [of "10 :: rat" ?a "?b - 1"] by (simp add: algebra_simps)
  show "10 powi dec_exponent x \<le> \<bar>x\<bar>" "\<bar>x\<bar> < 10 powi (dec_exponent x + 1)"
    using lo hi pq by (auto simp: dec_exponent_def Let_def)
qed

lemma dec_split: "(10 :: rat) powi k = of_int (10 ^ n) * 10 powi (k - int n)"
proof -
  have "(10 :: rat) powi (int n + (k - int n)) = 10 powi int n * 10 powi (k - int n)"
    by (rule power_int_add) simp
  then show ?thesis by simp
qed

lemma g_digits_bounds:
  assumes "x \<noteq> 0" and "0 < P" and "g_digits P x = (k, m)"
  shows "10 ^ (P - 1) \<le> m" and "m < 10 ^ P"
    and "\<bar>of_nat m * 10 powi (k - int P + 1) - \<bar>x\<bar>\<bar> \<le> 10 powi (dec_exponent x - int P + 1) / 2"
    and "dec_exponent x \<le> k" and "k \<le> dec_exponent x + 1"
proof -
  let ?k = "dec_exponent x"
  let ?u = "10 powi (?k - int P + 1) :: rat"
  let ?n = "round_even (\<bar>x\<bar> / ?u)"
  have u: "0 < ?u" by simp
  have e: "10 powi ?k = of_int (10 ^ (P - 1)) * ?u" "10 powi (?k + 1) = of_int (10 ^ P) * ?u"
    using dec_split [of ?k "P - 1"] dec_split [of "?k + 1" P] assms(2) by (simp_all add: of_nat_diff algebra_simps)
  have "of_int (10 ^ (P - 1)) \<le> \<bar>x\<bar> / ?u" "\<bar>x\<bar> / ?u \<le> of_int (10 ^ P)"
    using dec_exponent_bounds [OF assms(1)] u unfolding e by (simp_all add: pos_le_divide_eq pos_divide_le_eq del: of_int_power)
  then have n: "10 ^ (P - 1) \<le> ?n" "?n \<le> 10 ^ P"
    using round_even_mono round_even_int by metis+
  then have n0: "0 \<le> ?n" by (meson order_trans zero_le_numeral zero_le_power)
  have nn: "10 ^ (P - 1) \<le> nat ?n" "nat ?n \<le> 10 ^ P"
    using n n0 by (simp_all add: nat_le_iff le_nat_iff)
  have val: "of_nat m * 10 powi (k - int P + 1) = (of_int ?n :: rat) * ?u"
  proof (cases "nat ?n = 10 ^ P")
    case True
    then have "?n = 10 ^ P" using n0 by (metis nat_eq_iff of_nat_numeral of_nat_power zero_neq_numeral power_not_zero)
    moreover have "(10 :: rat) ^ P = 10 ^ (P - 1) * 10"
      using assms(2) by (metis Suc_pred' mult.commute power_Suc)
    ultimately show ?thesis
      using assms(3) True dec_split [of "?k + 1 - int P" 1] by (auto simp: g_digits_def Let_def power_int_add)
  next
    case False
    then show ?thesis
      using assms(3) n0 by (auto simp: g_digits_def Let_def)
  qed
  have "of_int ?n * ?u - \<bar>x\<bar> = (of_int ?n - \<bar>x\<bar> / ?u) * ?u"
    by (simp add: left_diff_distrib)
  then have "\<bar>of_int ?n * ?u - \<bar>x\<bar>\<bar> = \<bar>of_int ?n - \<bar>x\<bar> / ?u\<bar> * ?u"
    by (simp only: abs_mult) simp
  also have "\<dots> \<le> 1 / 2 * ?u"
    using round_even_near [of "\<bar>x\<bar> / ?u"] u by (intro mult_right_mono) simp_all
  finally show "\<bar>of_nat m * 10 powi (k - int P + 1) - \<bar>x\<bar>\<bar> \<le> ?u / 2"
    unfolding val by simp
  show "10 ^ (P - 1) \<le> m" "m < 10 ^ P" "?k \<le> k" "k \<le> ?k + 1"
    using assms(2,3) nn by (auto simp: g_digits_def Let_def split: if_splits)
qed

section \<open>Reading what was written\<close>

text \<open>A text that no number goes on with.\<close>

definition number_ends :: "string \<Rightarrow> bool" where
  "number_ends rest \<longleftrightarrow> (\<forall>c r. rest = c # r \<longrightarrow> \<not> number_char c)"

lemma split_digits:
  assumes "\<forall>c\<in>set ds. is_digit c" and "\<And>c r. rest = c # r \<Longrightarrow> \<not> is_digit c"
  shows "split_while is_digit (ds @ rest) = (ds, rest)"
  using assms by (intro split_while_append) auto

lemma not_digits [simp]: "\<not> is_digit CHR ''.''" "\<not> is_digit CHR ''e''" "\<not> is_digit CHR ''-''" "\<not> is_digit CHR ''+''"
  by (simp_all add: is_digit_def char_code_def)

lemma digit_zero [simp]: "is_digit CHR ''0''"
  by (simp add: is_digit_def char_code_def)

lemma to_lower_e [simp]: "to_lower CHR ''e'' = CHR ''e''"
  by (simp add: to_lower_def is_upper_def char_code_def)

lemma pad_digits: "\<forall>c\<in>set (pad_left w CHR ''0'' (show_nat n)). is_digit c" "pad_left w c (show_nat n) \<noteq> []"
  "digits_value 10 (pad_left w CHR ''0'' (show_nat n)) = n"
  using show_nat_digits [of n] by (auto simp: pad_left_def digits_value_append)

lemma scan_exponent_shown: "scan_exponent (show_exponent k) = Some (k, [])"
proof -
  let ?d = "pad_left 2 CHR ''0'' (show_nat (nat \<bar>k\<bar>))"
  have "split_while is_digit ?d = (?d, [])"
    using split_digits [of ?d "[]"] pad_digits(1) by simp
  then show ?thesis
    using pad_digits(3) [of 2 "nat \<bar>k\<bar>"]
    by (auto simp: show_exponent_def scan_exponent_def scan_sign_def Let_def pad_digits(2))
qed

lemma not_space_digit: "is_digit c \<Longrightarrow> \<not> is_space c \<and> c \<noteq> CHR ''-'' \<and> c \<noteq> CHR ''+''"
  using is_digit_cases by blast

text \<open>A sign, digits, an optional fraction and an optional exponent.\<close>

lemma strtod_decimal:
  assumes "ip \<noteq> []" and "\<forall>c\<in>set ip. is_digit c" and "\<forall>c\<in>set fp. is_digit c"
    and "ex = [] \<and> e = 0 \<or> ex = show_exponent e"
  shows "strtod ((if neg then [CHR ''-''] else []) @ ip @ point fp @ ex)
    = Some (fl64 ((if neg then - 1 else 1) * (of_nat (digits_value 10 (ip @ fp)) * 10 powi (e - int (length fp)))), [])"
    and "scan_lf ((if neg then [CHR ''-''] else []) @ ip @ point fp @ ex)
    = Some (fl64 ((if neg then - 1 else 1) * (of_nat (digits_value 10 (ip @ fp)) * 10 powi (e - int (length fp)))), [])"
proof -
  have ex: "scan_exponent ex = Some (e, [])"
    using assms(4) scan_exponent_shown by (auto simp: scan_exponent_def)
  have exd: "\<not> is_digit c" if "ex = c # r" for c r
    using that assms(4) by (auto simp: show_exponent_def)
  have fr: "scan_fraction (point fp @ ex) = (fp, ex)"
  proof (cases "fp = []")
    case True
    then show ?thesis
      using assms(4) by (auto simp: scan_fraction_def point_def show_exponent_def)
  next
    case False
    then show ?thesis
      using split_digits [OF assms(3), of ex] exd by (simp add: scan_fraction_def point_def)
  qed
  have dig: "split_while is_digit (ip @ point fp @ ex) = (ip, point fp @ ex)"
    using exd by (intro split_digits [OF assms(2)]) (auto simp: point_def split: if_splits)
  obtain c r where "ip = c # r" "is_digit c"
    using assms(1,2) by (cases ip) auto
  then have sign: "scan_sign (snd (split_while is_space ((if neg then [CHR ''-''] else []) @ ip @ point fp @ ex))) = (neg, ip @ point fp @ ex)"
    using not_space_digit [of c] by (auto simp: scan_sign_def is_space_def char_code_def)
  show "strtod ((if neg then [CHR ''-''] else []) @ ip @ point fp @ ex)
      = Some (fl64 ((if neg then - 1 else 1) * (of_nat (digits_value 10 (ip @ fp)) * 10 powi (e - int (length fp)))), [])"
    "scan_lf ((if neg then [CHR ''-''] else []) @ ip @ point fp @ ex)
      = Some (fl64 ((if neg then - 1 else 1) * (of_nat (digits_value 10 (ip @ fp)) * 10 powi (e - int (length fp)))), [])"
    using assms(1) unfolding strtod_def scan_lf_def sign by (simp_all add: dig fr ex)
qed

lemma length_show_nat_eq:
  assumes "10 ^ (P - 1) \<le> m" and "m < 10 ^ P" and "0 < P"
  shows "length (show_nat m) = P"
proof -
  have "length (show_nat m) \<le> P"
    using length_show_nat assms(2,3) by blast
  moreover have "10 ^ (P - 1) < (10 :: nat) ^ length (show_nat m)"
    using assms(1) show_nat_less [of m] by linarith
  then have "P - 1 < length (show_nat m)"
    by (simp add: power_less_imp_less_exp)
  ultimately show ?thesis using assms(3) by simp
qed

text \<open>
  The text of a number as integer part, fraction and exponent: \<open>v\<close> is its value, \<open>P\<close> the number
  of digits.
\<close>

definition decimal_parts :: "nat \<Rightarrow> int \<Rightarrow> rat \<Rightarrow> string \<Rightarrow> string \<Rightarrow> string \<Rightarrow> string \<Rightarrow> bool" where
  "decimal_parts P k v t ip fp ex \<longleftrightarrow>
     t = ip @ point fp @ ex \<and> ip \<noteq> [] \<and> (\<forall>c\<in>set ip. is_digit c) \<and> (\<forall>c\<in>set fp. is_digit c)
     \<and> (ex = [] \<or> ex = show_exponent k \<and> length ip + length fp \<le> P) \<and> length ip + length fp \<le> P + 4
     \<and> of_nat (digits_value 10 (ip @ fp)) * 10 powi ((if ex = [] then 0 else k) - int (length fp)) = v"

lemma g_text_parts:
  assumes "10 ^ (P - 1) \<le> m" and "m < 10 ^ P" and "0 < P"
  shows "\<exists>ip fp ex. decimal_parts P k (of_nat m * 10 powi (k - int P + 1)) (g_text P k m) ip fp ex"
proof -
  define full where "full = show_nat m"
  define ds where "ds = strip_zeros full"
  have full: "length full = P" "\<forall>c\<in>set full. is_digit c" "digits_value 10 full = m"
    using length_show_nat_eq [OF assms] show_nat_digits by (simp_all add: full_def)
  have m: "m = digits_value 10 ds * 10 ^ (P - length ds)" "length ds \<le> P" "\<forall>c\<in>set ds. is_digit c"
    using strip_zeros_value [of full] full strip_zeros_digits by (auto simp: ds_def)
  have "0 < m" using assms(1) by (metis gr_zeroI le_zero_eq power_not_zero zero_neq_numeral)
  then have ne: "ds \<noteq> []" using m(1) by auto
  have tot: "(of_nat m * 10 powi (k - int P + 1) :: rat) = of_nat (digits_value 10 ds) * 10 powi (k + 1 - int (length ds))"
  proof -
    have "(10 :: rat) ^ (P - length ds) * 10 powi (k - int P + 1) = 10 powi (k + 1 - int (length ds))"
      using dec_split [of "k + 1 - int (length ds)" "P - length ds"] m(2) by (simp add: of_nat_diff algebra_simps)
    then show ?thesis by (subst m(1)) (simp add: mult.assoc)
  qed
  have fullds: "full = ds @ replicate (P - length ds) CHR ''0''"
    using strip_zeros_split [of full] full(1) by (simp add: ds_def)
  consider (exp) "k < - 4 \<or> int P \<le> k" | (pos) "0 \<le> k" "k < int P" | (neg) "- 4 \<le> k" "k < 0" by linarith
  then show ?thesis
  proof cases
    case exp
    have one: "take 1 ds \<noteq> []" "take 1 ds @ drop 1 ds = ds" "length (take 1 ds) + length (drop 1 ds) = length ds"
      using ne by (cases ds; simp)+
    have "show_exponent k \<noteq> []" by (simp add: show_exponent_def)
    moreover have "g_text P k m = take 1 ds @ point (drop 1 ds) @ show_exponent k"
      using exp by (simp add: g_text_def full_def ds_def Let_def)
    moreover have "k - int (length (drop 1 ds)) = k + 1 - int (length ds)"
      using ne by (cases ds) simp_all
    moreover have "\<forall>c\<in>set (take 1 ds). is_digit c" "\<forall>c\<in>set (drop 1 ds). is_digit c"
      using m(3) by (auto dest: in_set_takeD in_set_dropD)
    ultimately have "decimal_parts P k (of_nat m * 10 powi (k - int P + 1)) (g_text P k m) (take 1 ds) (drop 1 ds) (show_exponent k)"
      unfolding decimal_parts_def tot using one m(2) by (simp add: diff_diff_eq2)
    then show ?thesis by blast
  next
    case pos
    define n where "n = nat k + 1"
    have n: "n \<le> P" "k + 1 = int n" using pos by (auto simp: n_def)
    have digits: "of_nat (digits_value 10 (take n full @ drop n ds)) * 10 powi (0 - int (length (drop n ds)))
        = (of_nat (digits_value 10 ds) * 10 powi (k + 1 - int (length ds)) :: rat)"
    proof (cases "n \<le> length ds")
      case True
      then have "take n full @ drop n ds = ds" by (simp add: fullds)
      then show ?thesis using True n by (simp add: of_nat_diff)
    next
      case False
      then have "take n full @ drop n ds = ds @ replicate (n - length ds) CHR ''0''"
        using n(1) by (simp add: fullds min_absorb1)
      then show ?thesis
        using False n by (simp add: digits_value_append power_int_def nat_diff_distrib)
    qed
    have "g_text P k m = take n full @ point (drop n ds) @ []"
      using pos by (simp add: g_text_def full_def ds_def n_def Let_def)
    moreover have "\<forall>c\<in>set (take n full). is_digit c" "\<forall>c\<in>set (drop n ds). is_digit c"
      using full(2) m(3) by (auto dest: in_set_takeD in_set_dropD)
    moreover have "take n full \<noteq> []" "length (take n full) + length (drop n ds) \<le> P"
      using full(1) assms(3) n(1) m(2) by (auto simp: n_def)
    ultimately have "decimal_parts P k (of_nat m * 10 powi (k - int P + 1)) (g_text P k m) (take n full) (drop n ds) []"
      unfolding decimal_parts_def tot using digits by simp
    then show ?thesis by blast
  next
    case neg
    define z where "z = replicate (nat (- k - 1)) CHR ''0'' @ ds"
    have "digits_value 10 ([CHR ''0''] @ z) = digits_value 10 ds"
      by (simp add: digits_value_append z_def)
    moreover have "g_text P k m = [CHR ''0''] @ point z @ []"
      using neg by (simp add: g_text_def full_def ds_def Let_def z_def)
    moreover have "0 - int (length z) = k + 1 - int (length ds)"
      using neg by (simp add: z_def)
    moreover have "length [CHR ''0''] + length z \<le> P + 4" "\<forall>c\<in>set z. is_digit c"
      using neg m(2,3) by (auto simp: z_def)
    ultimately have "decimal_parts P k (of_nat m * 10 powi (k - int P + 1)) (g_text P k m) [CHR ''0''] z []"
      unfolding decimal_parts_def tot by simp
    then show ?thesis by blast
  qed
qed

lemma decimal_parts_read:
  assumes "decimal_parts P k v t ip fp ex"
  shows "strtod ((if neg then [CHR ''-''] else []) @ t) = Some (fl64 ((if neg then - 1 else 1) * v), [])"
    and "scan_lf ((if neg then [CHR ''-''] else []) @ t) = Some (fl64 ((if neg then - 1 else 1) * v), [])"
proof -
  have p: "ip \<noteq> []" "\<forall>c\<in>set ip. is_digit c" "\<forall>c\<in>set fp. is_digit c"
    "ex = [] \<and> (if ex = [] then 0 else k) = 0 \<or> ex = show_exponent (if ex = [] then 0 else k)"
    using assms by (auto simp: decimal_parts_def)
  show "strtod ((if neg then [CHR ''-''] else []) @ t) = Some (fl64 ((if neg then - 1 else 1) * v), [])"
    "scan_lf ((if neg then [CHR ''-''] else []) @ t) = Some (fl64 ((if neg then - 1 else 1) * v), [])"
    using strtod_decimal [OF p, of neg] assms unfolding decimal_parts_def by auto
qed

lemma number_char_digit: "is_digit c \<Longrightarrow> number_char c"
  by (simp add: number_char_def)

lemma show_exponent_chars: "\<forall>c\<in>set (show_exponent k). number_char c"
  using pad_digits(1) by (auto simp: show_exponent_def number_char_def)

lemma length_show_exponent: "\<bar>k\<bar> < 1000 \<Longrightarrow> length (show_exponent k) \<le> 5"
  using length_show_nat [of "nat \<bar>k\<bar>" 3] by (auto simp: show_exponent_def pad_left_def nat_less_iff)

lemma decimal_parts_text:
  assumes "decimal_parts P k v t ip fp ex"
  shows "\<forall>c\<in>set t. number_char c" and "\<bar>k\<bar> < 1000 \<Longrightarrow> length t \<le> P + 6"
proof -
  show "\<forall>c\<in>set t. number_char c"
    using assms show_exponent_chars [of k]
    by (auto simp: decimal_parts_def point_def number_char_digit split: if_splits) (simp add: number_char_def)+
  have pt: "length (point fp) \<le> Suc (length fp)" by (simp add: point_def)
  show "length t \<le> P + 6" if "\<bar>k\<bar> < 1000"
    using assms length_show_exponent [OF that] pt by (auto simp: decimal_parts_def)
qed

text \<open>Seventeen significant digits determine a double.\<close>

lemma fl64_same_binade:
  assumes "of_int (2 ^ 52) * u \<le> y" and "y < of_int (2 ^ 53) * u" and "\<bar>y - of_int M * u\<bar> < u / 2" and "u = 2 powi (e - 52)"
  shows "fl64 y = of_int M * u"
proof -
  have u: "0 < u" by (simp add: assms(4))
  have pw: "2 powi e = of_int (2 ^ 52) * u" "2 powi (e + 1) = of_int (2 ^ 53) * u"
    using powi_2_split [of 52 "e - 52"] powi_2_split [of 53 "e - 52"] by (simp_all add: assms(4) algebra_simps)
  have y: "0 < y" using assms(1) u by (meson less_le_trans mult_pos_pos of_int_0_less_iff zero_less_numeral zero_less_power)
  then have ex: "exponent y = e"
    using exponent_unique [of e y] assms(1,2) unfolding pw by simp
  have "y / u - of_int M = (y - of_int M * u) / u" using u by (simp add: diff_divide_distrib)
  then have "\<bar>y / u - of_int M\<bar> = \<bar>y - of_int M * u\<bar> / u" using u by simp
  also have "\<dots> < 1 / 2" using assms(3) u by (simp add: divide_less_eq)
  finally have "round_even (y / u) = M"
    using round_even_near [of "y / u"] by linarith
  then show ?thesis using y by (simp add: fl64_def Let_def ex assms(4))
qed

lemma fl64_near_grid:
  assumes "d = of_int M * u" and "u = 2 powi (e - 52)" and "2 ^ 52 \<le> M" and "M < 2 ^ 53"
    and "\<bar>y - d\<bar> \<le> 10 powi (k - 16) / 2" and "10 powi k \<le> d"
  shows "fl64 y = d"
proof -
  have u: "0 < u" by (simp add: assms(2))
  have k16: "(10 :: rat) powi (k - 16) = 10 powi k / 10 ^ 16"
    by (simp add: power_int_diff)
  have M: "(of_int (2 ^ 52) :: rat) \<le> of_int M" "(of_int M :: rat) \<le> of_int (2 ^ 53 - 1)"
    using assms(3,4) by (simp_all only: of_int_le_iff)
  then have Mu: "of_int (2 ^ 52) * u \<le> d" "d \<le> of_int (2 ^ 53 - 1) * u"
    unfolding assms(1) using u by (simp_all only: mult_le_cancel_right_pos)
  have small: "10 powi (k - 16) / 2 < u / 2"
    unfolding k16 using assms(6) Mu(2) u by (simp add: algebra_simps)
  have ab: "y - d \<le> 10 powi (k - 16) / 2" "d - y \<le> 10 powi (k - 16) / 2"
    using assms(5) by linarith+
  have hi: "y < of_int (2 ^ 53) * u"
    using ab(1) small Mu(2) u by (simp add: algebra_simps)
  show ?thesis
  proof (cases "of_int (2 ^ 52) * u \<le> y")
    case True
    then show ?thesis
      using fl64_same_binade [of u y M e] hi small assms(1,2,5) by simp
  next
    case False
    moreover have "of_int (M - 1) * u = d - u" by (simp add: assms(1) left_diff_distrib)
    ultimately have "of_int (M - 1) * u < of_int (2 ^ 52) * u"
      using small ab(2) u by linarith
    then have "M - 1 < 2 ^ 52"
      using u by (simp only: mult_less_cancel_right_pos of_int_less_iff)
    then have "M = 2 ^ 52" using assms(3) by linarith
    then have de: "d = of_int (2 ^ 53) * (u / 2)" by (simp add: assms(1))
    have tiny: "10 powi (k - 16) / 2 < u / 2 / 2"
      unfolding k16 using assms(6) u de by simp
    have v: "u / 2 = 2 powi ((e - 1) - 52)"
      using powi_2_split [of 1 "e - 1 - 52"] by (simp add: assms(2) algebra_simps)
    have "of_int (2 ^ 52) * (u / 2) \<le> y" "y < of_int (2 ^ 53) * (u / 2)"
      using False ab(2) tiny de u by simp_all
    then show ?thesis
      using fl64_same_binade [of "u / 2" y "2 ^ 53" "e - 1"] tiny assms(5) v de by simp
  qed
qed

lemma fl64_near:
  assumes "d \<noteq> 0" and "is_double d" and "\<bar>y - \<bar>d\<bar>\<bar> \<le> 10 powi (dec_exponent d - 16) / 2"
  shows "fl64 y = \<bar>d\<bar>"
proof -
  define a where "a = \<bar>d\<bar>"
  define e where "e = exponent a"
  define u where "u = (2 powi (e - 52) :: rat)"
  define M where "M = round_even (a / u)"
  have a: "0 < a" "is_double a"
    using assms(1,2) is_double_fl64 [of a] fl64_representable [OF assms(2)] fl64_minus [of d]
    by (auto simp: a_def abs_if)
  have u: "0 < u" by (simp add: u_def)
  have "a = of_int M * u"
    using fl64_representable [OF a(2)] a(1) by (simp add: fl64_def Let_def M_def u_def e_def)
  moreover have "2 powi e = of_int (2 ^ 52) * u" "2 powi (e + 1) = of_int (2 ^ 53) * u"
    using powi_2_split [of 52 "e - 52"] powi_2_split [of 53 "e - 52"] by (simp_all add: u_def algebra_simps)
  moreover have "2 powi e \<le> a" "a < 2 powi (e + 1)"
    using exponent_bounds [of a] a(1) by (auto simp: e_def)
  ultimately have "2 ^ 52 \<le> M" "M < 2 ^ 53"
    using u by (simp_all only: mult_le_cancel_right_pos mult_less_cancel_right_pos of_int_le_iff of_int_less_iff)
  then show ?thesis
    using fl64_near_grid [of a M u e y "dec_exponent d"] \<open>a = of_int M * u\<close> u_def assms(3) dec_exponent_bounds(1) [OF assms(1)]
    by (simp add: a_def)
qed

section \<open>The round trip of a number\<close>

text \<open>
  What comes back of a number: the number itself, or one that \<open>compare_double\<close> takes for equal.
\<close>

definition same_number :: "double \<Rightarrow> double \<Rightarrow> bool" where
  "same_number d d' \<longleftrightarrow> d' = d \<or> d \<noteq> fl64 (of_int (valueint d)) \<and> compare_double d' d"

lemma show_g_read:
  assumes "x \<noteq> 0" and "0 < P" and "\<bar>dec_exponent x\<bar> < 999"
  shows "\<exists>y. strtod (show_g P x) = Some (y, []) \<and> scan_lf (show_g P x) = Some (y, [])
    \<and> (is_double x \<and> P = 17 \<longrightarrow> y = x) \<and> (\<forall>c\<in>set (show_g P x). number_char c)
    \<and> length (show_g P x) \<le> P + 7 \<and> show_g P x \<noteq> [] \<and> (hd (show_g P x) = CHR ''-'' \<or> is_digit (hd (show_g P x)))"
proof -
  obtain k m where km: "g_digits P x = (k, m)" by fastforce
  note g = g_digits_bounds [OF assms(1,2) km]
  let ?v = "of_nat m * 10 powi (k - int P + 1) :: rat"
  obtain ip fp ex where d: "decimal_parts P k ?v (g_text P k m) ip fp ex"
    using g_text_parts [OF g(1,2) assms(2)] by blast
  have t: "show_g P x = (if x < 0 then [CHR ''-''] else []) @ g_text P k m"
    using assms(1) km by (simp add: show_g_def)
  let ?y = "fl64 ((if x < 0 then - 1 else 1) * ?v)"
  have "?y = x" if "is_double x" "P = 17"
  proof -
    have "fl64 ?v = \<bar>x\<bar>"
      using fl64_near [OF assms(1) that(1), of ?v] g(3) that(2) by simp
    then show ?thesis by (cases "x < 0") simp_all
  qed
  moreover have k: "\<bar>k\<bar> < 1000" using g(4,5) assms(3) by linarith
  moreover have "\<forall>c\<in>set (show_g P x). number_char c" "length (show_g P x) \<le> P + 7"
    using decimal_parts_text(1) [OF d] decimal_parts_text(2) [OF d k] unfolding t by (auto simp: number_char_def)
  moreover have "show_g P x \<noteq> []" "hd (show_g P x) = CHR ''-'' \<or> is_digit (hd (show_g P x))"
    using d unfolding t by (cases ip; auto simp: decimal_parts_def)+
  ultimately show ?thesis
    using decimal_parts_read [OF d, of "x < 0"] unfolding t by blast
qed

lemma show_int_read:
  "strtod (show_int i) = Some (fl64 (of_int i), [])" "\<forall>c\<in>set (show_int i). number_char c" "show_int i \<noteq> []"
  "hd (show_int i) = CHR ''-'' \<or> is_digit (hd (show_int i))"
proof -
  have s: "show_int i = (if i < 0 then [CHR ''-''] else []) @ show_nat (nat \<bar>i\<bar>) @ point [] @ []"
    by (simp add: show_int_def point_def)
  have "(if i < 0 then - 1 else 1) * (of_nat (nat \<bar>i\<bar>) :: rat) = of_int i"
    by (cases "i < 0") (simp_all add: of_nat_nat)
  then show "strtod (show_int i) = Some (fl64 (of_int i), [])"
    unfolding s using strtod_decimal(1) [of "show_nat (nat \<bar>i\<bar>)" "[]" "[]" 0 "i < 0"] show_nat_digits [of "nat \<bar>i\<bar>"] by simp
  show "\<forall>c\<in>set (show_int i). number_char c" "show_int i \<noteq> []"
    using show_nat_digits [of "nat \<bar>i\<bar>"] unfolding s by (auto simp: number_char_def point_def)
  show "hd (show_int i) = CHR ''-'' \<or> is_digit (hd (show_int i))"
    using show_nat_digits [of "nat \<bar>i\<bar>"] show_nat_nonempty [of "nat \<bar>i\<bar>"] unfolding s by (cases "show_nat (nat \<bar>i\<bar>)") auto
qed

lemma length_show_int: "\<bar>i\<bar> < 10 ^ 20 \<Longrightarrow> length (show_int i) \<le> 21"
  using length_show_nat [of "nat \<bar>i\<bar>" 20] by (auto simp: show_int_def nat_less_iff)

lemma valueint_bound: "\<bar>valueint d\<bar> \<le> 2 ^ 63"
proof (cases "- 9223372036854775808 < d \<and> d < 9223372036854775808")
  case True
  then have b: "\<lfloor>\<bar>d\<bar>\<rfloor> \<le> 9223372036854775808" "0 \<le> \<lfloor>\<bar>d\<bar>\<rfloor>"
    by (simp_all add: floor_le_iff abs_less_iff)
  have "Doubles.truncate d = (if d < 0 then - \<lfloor>\<bar>d\<bar>\<rfloor> else \<lfloor>\<bar>d\<bar>\<rfloor>)"
    by (simp add: Doubles.truncate_def)
  then have "- 9223372036854775808 \<le> Doubles.truncate d \<and> Doubles.truncate d \<le> 9223372036854775808"
    using b by (cases "d < 0"; intro conjI; simp only: if_True if_False; linarith)
  then show ?thesis using True by (auto simp: valueint_def)
qed (auto simp: valueint_def)

text \<open>The numbers of the type \<open>double\<close>, with its range of exponents.\<close>

definition finite_double :: "rat \<Rightarrow> bool" where
  "finite_double d \<longleftrightarrow> is_double d \<and> (d = 0 \<or> 10 powi - 330 \<le> \<bar>d\<bar> \<and> \<bar>d\<bar> < 10 powi 309)"

lemma finite_double_exponent:
  assumes "finite_double d" and "d \<noteq> 0"
  shows "\<bar>dec_exponent d\<bar> < 999"
proof -
  have "(10 :: rat) powi dec_exponent d < 10 powi 309" "(10 :: rat) powi - 330 < 10 powi (dec_exponent d + 1)"
    using dec_exponent_bounds [OF assms(2)] assms by (auto simp: finite_double_def)
  then have "dec_exponent d < 309" "- 330 < dec_exponent d + 1"
    by (simp_all only: powi_10_less)
  then show ?thesis by simp
qed

lemma print_parse_number:
  assumes "finite_double d"
  shows "\<exists>t d'. print_number d = Some t \<and> t \<noteq> [] \<and> (hd t = CHR ''-'' \<or> is_digit (hd t))
    \<and> (\<forall>c\<in>set t. number_char c) \<and> same_number d d' \<and> (\<forall>rest. number_ends rest \<longrightarrow> parse_number (t @ rest) = Some (JNumber d', rest))"
proof -
  have parse: "parse_number (t @ rest) = Some (JNumber y, rest)"
    if "strtod t = Some (y, [])" "\<forall>c\<in>set t. number_char c" "length t \<le> 25" "number_ends rest" for t y rest
  proof -
    have "take 63 (t @ rest) = t @ take (63 - length t) rest" using that(3) by simp
    moreover have "split_while number_char (t @ take (63 - length t) rest) = (t, take (63 - length t) rest)"
    proof (rule split_while_append)
      fix c zs
      assume "take (63 - length t) rest = c # zs"
      then have "rest = c # drop 1 rest" by (cases rest) (simp_all add: take_Cons' split: if_splits)
      then show "\<not> number_char c" using that(4) unfolding number_ends_def by blast
    qed (use that(2) in blast)
    ultimately show ?thesis using that(1) by (simp add: parse_number_def)
  qed
  show ?thesis
  proof (cases "d = fl64 (of_int (valueint d))")
    case True
    have "\<bar>valueint d\<bar> < 10 ^ 20"
      using valueint_bound [of d] by simp
    then have "length (show_int (valueint d)) \<le> 21" by (rule length_show_int)
    then show ?thesis
      using parse [OF show_int_read(1,2)] show_int_read(2,3,4) True
      by (intro exI [of _ "show_int (valueint d)"] exI [of _ d]) (simp add: print_number_def same_number_def)
  next
    case False
    have d: "d \<noteq> 0" using False by (auto simp: valueint_def Doubles.truncate_def)
    have dd: "is_double d" using assms(1) by (simp add: finite_double_def)
    obtain y where y: "strtod (show_g 15 d) = Some (y, [])" "scan_lf (show_g 15 d) = Some (y, [])"
      "\<forall>c\<in>set (show_g 15 d). number_char c" "length (show_g 15 d) \<le> 22" "show_g 15 d \<noteq> []"
      "hd (show_g 15 d) = CHR ''-'' \<or> is_digit (hd (show_g 15 d))"
      using show_g_read [OF d, of 15] finite_double_exponent [OF assms(1) d] by auto
    have z: "strtod (show_g 17 d) = Some (d, [])" "\<forall>c\<in>set (show_g 17 d). number_char c" "length (show_g 17 d) \<le> 24"
      "show_g 17 d \<noteq> []" "hd (show_g 17 d) = CHR ''-'' \<or> is_digit (hd (show_g 17 d))"
      using show_g_read [OF d, of 17] finite_double_exponent [OF assms(1) d] dd by auto
    show ?thesis
    proof (cases "compare_double y d")
      case True
      then show ?thesis
        using parse [OF y(1,3)] y False
        by (intro exI [of _ "show_g 15 d"] exI [of _ y]) (simp add: print_number_def same_number_def)
    next
      case nc: False
      then show ?thesis
        using parse [OF z(1,2)] z y(2) False
        by (intro exI [of _ "show_g 17 d"] exI [of _ d]) (simp add: print_number_def same_number_def)
    qed
  qed
qed

end
