(* ===== verification/Cjson_Text.thy ===== *)
theory Cjson_Text
  imports Cjson_Number Dscp
begin

unbundle bit_operations_syntax

text \<open>
  The text form of JSON values (\<open>cjson.c\<close>). The parser works on a buffer that holds the text and
  its terminating NUL; a position in it is the rest of the buffer from there on. The recursion
  goes down the levels of nesting that the parser allows; the loops over elements and members are
  bounded by the length of the buffer, and \<open>loop_bound\<close> shows that they never need more. The printer grows its buffer as needed; what it writes is the result. A printed value is
  read back as the value, numbers up to the precision of \<open>compare_double\<close>.
\<close>

section \<open>Strings\<close>

abbreviation NUL :: char where "NUL \<equiv> CHR 0x00"
abbreviation QUOTE :: char where "QUOTE \<equiv> CHR 0x22"
abbreviation BACKSLASH :: char where "BACKSLASH \<equiv> CHR 0x5C"
abbreviation BS :: char where "BS \<equiv> CHR 0x08"
abbreviation TAB :: char where "TAB \<equiv> CHR 0x09"
abbreviation NEWLINE :: char where "NEWLINE \<equiv> CHR 0x0A"
abbreviation FF :: char where "FF \<equiv> CHR 0x0C"
abbreviation CR :: char where "CR \<equiv> CHR 0x0D"

definition hex_nibble :: "char \<Rightarrow> nat option" where
  "hex_nibble c =
     (if is_digit c then Some (char_code c - 48)
      else if 65 \<le> char_code c \<and> char_code c \<le> 70 then Some (10 + char_code c - 65)
      else if 97 \<le> char_code c \<and> char_code c \<le> 102 then Some (10 + char_code c - 97)
      else None)"

definition parse_hex4 :: "string \<Rightarrow> nat" where
  "parse_hex4 input =
     (case those (map hex_nibble (take 4 input)) of
        None \<Rightarrow> 0
      | Some ds \<Rightarrow> foldl (\<lambda>h d. 16 * h + d) 0 ds)"

fun utf8_tail :: "nat \<Rightarrow> nat \<Rightarrow> string \<Rightarrow> nat \<times> string" where
  "utf8_tail 0 codepoint acc = (codepoint, acc)"
| "utf8_tail (Suc k) codepoint acc =
     utf8_tail k (drop_bit 6 codepoint) (char_of ((codepoint OR 0x80) AND 0xBF) # acc)"

definition utf8_encode :: "nat \<Rightarrow> string option" where
  "utf8_encode codepoint =
     (let bytes = (\<lambda>utf8_length first_byte_mark.
            let (cp, tail) = utf8_tail (utf8_length - 1) codepoint []
            in Some ((if utf8_length > 1 then char_of ((cp OR first_byte_mark) AND 0xFF)
                      else char_of (cp AND 0x7F)) # tail))
      in if codepoint < 0x80 then bytes 1 0
         else if codepoint < 0x800 then bytes 2 0xC0
         else if codepoint < 0x10000 then bytes 3 0xE0
         else if codepoint \<le> 0x10FFFF then bytes 4 0xF0
         else None)"

text \<open>The result has the length of the sequence and the bytes it stands for.\<close>

definition utf16_literal_to_utf8 :: "string \<Rightarrow> (nat \<times> string) option" where
  "utf16_literal_to_utf8 input =
     (let first_code = parse_hex4 (drop 2 input)
      in if length input < 6 then None
         else if 0xDC00 \<le> first_code \<and> first_code \<le> 0xDFFF then None
         else if 0xD800 \<le> first_code \<and> first_code \<le> 0xDBFF then
           (let second_sequence = drop 6 input; second_code = parse_hex4 (drop 2 second_sequence)
            in if length second_sequence < 6 then None
               else if second_sequence ! 0 \<noteq> BACKSLASH \<or> second_sequence ! 1 \<noteq> CHR ''u'' then None
               else if second_code < 0xDC00 \<or> second_code > 0xDFFF then None
               else map_option (Pair 12)
                      (utf8_encode (0x10000 + ((push_bit 10 (first_code AND 0x3FF)) OR (second_code AND 0x3FF)))))
         else map_option (Pair 6) (utf8_encode first_code))"

text \<open>The literal up to the closing quote, and the buffer after it.\<close>

fun scan_literal :: "string \<Rightarrow> (string \<times> string) option" where
  "scan_literal [] = None"
| "scan_literal (c # s) =
     (if c = QUOTE then Some ([], s)
      else if c = BACKSLASH then
        (case s of [] \<Rightarrow> None
         | d # s' \<Rightarrow> map_option (\<lambda>(body, rest). (c # d # body, rest)) (scan_literal s'))
      else map_option (\<lambda>(body, rest). (c # body, rest)) (scan_literal s))"

definition unescape_char :: "char \<Rightarrow> char option" where
  "unescape_char c =
     (if c = CHR ''b'' then Some BS
      else if c = CHR ''f'' then Some FF
      else if c = CHR ''n'' then Some NEWLINE
      else if c = CHR ''r'' then Some CR
      else if c = CHR ''t'' then Some TAB
      else if c = QUOTE \<or> c = BACKSLASH \<or> c = CHR ''/'' then Some c
      else None)"

text \<open>
  The loop over the literal. Where a \<open>\u\<close> sequence ended inside an escape sequence, a backslash can
  be the last character; the code then reads the closing quote.
\<close>

function unescape :: "string \<Rightarrow> string option" where
  "unescape input =
     (case input of
        [] \<Rightarrow> Some []
      | c # s \<Rightarrow>
          if c \<noteq> BACKSLASH then map_option (Cons c) (unescape s)
          else case s of
            [] \<Rightarrow> Some [QUOTE]
          | d # s' \<Rightarrow>
              if d = CHR ''u'' then
                (case utf16_literal_to_utf8 input of
                   None \<Rightarrow> None
                 | Some (sequence_length, bytes) \<Rightarrow>
                     if sequence_length = 0 then None
                     else map_option ((@) bytes) (unescape (drop sequence_length input)))
              else (case unescape_char d of
                  None \<Rightarrow> None
                | Some e \<Rightarrow> map_option (Cons e) (unescape s')))"
  by pat_completeness auto
termination
  by (relation "measure length") auto

declare unescape.simps [simp del]

text \<open>The string is read as a C string later, so it ends at the first NUL.\<close>

definition c_string :: "string \<Rightarrow> string" where
  "c_string s = takeWhile (\<lambda>c. c \<noteq> NUL) s"

definition parse_string :: "string \<Rightarrow> (string \<times> string) option" where
  "parse_string s =
     (case s of
        [] \<Rightarrow> None
      | c # s' \<Rightarrow>
          if c \<noteq> QUOTE then None
          else case scan_literal s' of
            None \<Rightarrow> None
          | Some (body, rest) \<Rightarrow> map_option (\<lambda>output. (c_string output, rest)) (unescape body))"

definition escape_char :: "char \<Rightarrow> string" where
  "escape_char c =
     (if char_code c > 31 \<and> c \<noteq> QUOTE \<and> c \<noteq> BACKSLASH then [c]
      else BACKSLASH #
        (if c = BACKSLASH then [BACKSLASH]
         else if c = QUOTE then [QUOTE]
         else if c = BS then ''b''
         else if c = FF then ''f''
         else if c = NEWLINE then ''n''
         else if c = CR then ''r''
         else if c = TAB then ''t''
         else ''u00'' @ [hex_digit (char_code c div 16), hex_digit (char_code c mod 16)]))"

definition print_string_ptr :: "string \<Rightarrow> string" where
  "print_string_ptr s = [QUOTE] @ concat (map escape_char s) @ [QUOTE]"

section \<open>Positions in the buffer\<close>

definition buffer_skip_whitespace :: "string \<Rightarrow> string" where
  "buffer_skip_whitespace s =
     (if s = [] then []
      else case snd (split_while (\<lambda>c. char_code c \<le> 32) s) of
             [] \<Rightarrow> [last s]
           | r \<Rightarrow> r)"

definition skip_utf8_bom :: "string \<Rightarrow> string" where
  "skip_utf8_bom s =
     (if 4 < length s \<and> take 3 s = [CHR 0xEF, CHR 0xBB, CHR 0xBF] then drop 3 s else s)"

definition starts_with :: "string \<Rightarrow> string \<Rightarrow> bool" where
  "starts_with lit s \<longleftrightarrow> take (length lit) s = lit"

definition at_char :: "char \<Rightarrow> string \<Rightarrow> bool" where
  "at_char c s \<longleftrightarrow> (case s of [] \<Rightarrow> False | d # _ \<Rightarrow> d = c)"

section \<open>The parser\<close>

abbreviation CJSON_NESTING_LIMIT :: nat where "CJSON_NESTING_LIMIT \<equiv> 1000"

type_synonym 'a parser = "string \<Rightarrow> ('a \<times> string) option"

text \<open>
  The loops over the elements of an array and the members of an object, entered in front of the
  first one: they end at a character that is not a comma. \<open>p\<close> reads one element or member; for them
  \<open>pv\<close> is \<open>parse_value\<close> one level deeper. Every round passes a comma, so the length of the buffer bounds their number.
\<close>

fun parse_loop :: "'a parser \<Rightarrow> nat \<Rightarrow> 'a list parser" where
  "parse_loop p 0 s = None"
| "parse_loop p (Suc f) s =
     (case p (buffer_skip_whitespace s) of
        None \<Rightarrow> None
      | Some (x, r) \<Rightarrow>
          let r = buffer_skip_whitespace r
          in if at_char CHR '','' r
             then map_option (\<lambda>(xs, r). (x # xs, r)) (parse_loop p f (tl r))
             else Some ([x], r))"

definition parse_member :: "cjson parser \<Rightarrow> (string \<times> cjson) parser" where
  "parse_member pv s =
     (case parse_string s of
        None \<Rightarrow> None
      | Some (name, r) \<Rightarrow>
          let r = buffer_skip_whitespace r
          in if \<not> at_char CHR '':'' r then None
             else map_option (\<lambda>(v, r). ((name, v), r)) (pv (buffer_skip_whitespace (tl r))))"

text \<open>Without a parser for the next level the nesting limit is reached.\<close>

definition parse_array :: "cjson parser option \<Rightarrow> cjson parser" where
  "parse_array pv s =
     (case pv of
        None \<Rightarrow> None
      | Some pv \<Rightarrow>
          if \<not> at_char CHR ''['' s then None
          else let s = buffer_skip_whitespace (tl s)
               in if at_char CHR '']'' s then Some (JArray [], tl s)
                  else if s = [] then None
                  else case parse_loop pv (length s) s of
                         None \<Rightarrow> None
                       | Some (xs, r) \<Rightarrow> if at_char CHR '']'' r then Some (JArray xs, tl r) else None)"

definition parse_object :: "cjson parser option \<Rightarrow> cjson parser" where
  "parse_object pv s =
     (case pv of
        None \<Rightarrow> None
      | Some pv \<Rightarrow>
          if \<not> at_char CHR ''{'' s then None
          else let s = buffer_skip_whitespace (tl s)
               in if at_char CHR ''}'' s then Some (JObject [], tl s)
                  else if s = [] then None
                  else case parse_loop (parse_member pv) (length s) s of
                         None \<Rightarrow> None
                       | Some (ms, r) \<Rightarrow> if at_char CHR ''}'' r then Some (JObject ms, tl r) else None)"

definition parse_item :: "cjson parser option \<Rightarrow> cjson parser" where
  "parse_item pv s =
     (if starts_with ''null'' s then Some (JNull, drop 4 s)
      else if starts_with ''false'' s then Some (JBool False, drop 5 s)
      else if starts_with ''true'' s then Some (JBool True, drop 4 s)
      else if at_char QUOTE s then map_option (\<lambda>(v, r). (JString v, r)) (parse_string s)
      else if at_char CHR ''-'' s \<or> (s \<noteq> [] \<and> is_digit (hd s)) then parse_number s
      else if at_char CHR ''['' s then parse_array pv s
      else if at_char CHR ''{'' s then parse_object pv s
      else None)"

text \<open>The number counts the levels that are left, \<open>CJSON_NESTING_LIMIT - input_buffer->depth\<close>.\<close>

primrec parse_value :: "nat \<Rightarrow> cjson parser" where
  "parse_value 0 = parse_item None"
| "parse_value (Suc levels) = parse_item (Some (parse_value levels))"

text \<open>The text is a C string; the buffer holds its terminator too.\<close>

definition cJSON_ParseWithLengthOpts :: "string \<Rightarrow> bool \<Rightarrow> cjson option" where
  "cJSON_ParseWithLengthOpts buffer require_null_terminated =
     (if buffer = [] then None
      else case parse_value CJSON_NESTING_LIMIT (buffer_skip_whitespace (skip_utf8_bom buffer)) of
             None \<Rightarrow> None
           | Some (item, r) \<Rightarrow>
               if require_null_terminated \<and> \<not> at_char NUL (buffer_skip_whitespace r) then None else Some item)"

definition cJSON_ParseWithOpts :: "string \<Rightarrow> bool \<Rightarrow> cjson option" where
  "cJSON_ParseWithOpts value require_null_terminated =
     cJSON_ParseWithLengthOpts (c_string value @ [NUL]) require_null_terminated"

definition cJSON_Parse :: "string \<Rightarrow> cjson option" where
  "cJSON_Parse value = cJSON_ParseWithOpts value False"

section \<open>The printer\<close>

fun print_value :: "bool \<Rightarrow> nat \<Rightarrow> cjson \<Rightarrow> string option"
  and print_elements :: "bool \<Rightarrow> nat \<Rightarrow> cjson list \<Rightarrow> string option"
  and print_members :: "bool \<Rightarrow> nat \<Rightarrow> (string \<times> cjson) list \<Rightarrow> string option" where
  "print_value format depth JNull = Some ''null''"
| "print_value format depth (JBool b) = Some (if b then ''true'' else ''false'')"
| "print_value format depth (JNumber d) = print_number d"
| "print_value format depth (JString s) = Some (print_string_ptr s)"
| "print_value format depth (JArray xs) =
     map_option (\<lambda>t. ''['' @ t @ '']'') (print_elements format (depth + 1) xs)"
| "print_value format depth (JObject ms) =
     map_option (\<lambda>t. CHR ''{'' # (if format then [NEWLINE] else []) @ t
                      @ (if format then replicate depth TAB else []) @ ''}'')
       (print_members format (depth + 1) ms)"
| "print_elements format depth [] = Some []"
| "print_elements format depth (x # xs) =
     (case (print_value format depth x, print_elements format depth xs) of
        (Some t, Some u) \<Rightarrow> Some (t @ (if xs = [] then [] else if format then '', '' else '','') @ u)
      | _ \<Rightarrow> None)"
| "print_members format depth [] = Some []"
| "print_members format depth ((k, v) # ms) =
     (case (print_value format depth v, print_members format depth ms) of
        (Some t, Some u) \<Rightarrow>
          Some ((if format then replicate depth TAB else []) @ print_string_ptr k
                @ CHR '':'' # (if format then [TAB] else []) @ t
                @ (if ms = [] then [] else '','') @ (if format then [NEWLINE] else []) @ u)
      | _ \<Rightarrow> None)"

definition cJSON_Print :: "cjson \<Rightarrow> string option" where
  "cJSON_Print item = print_value True 0 item"

definition cJSON_PrintUnformatted :: "cjson \<Rightarrow> string option" where
  "cJSON_PrintUnformatted item = print_value False 0 item"

section \<open>The loops end\<close>

text \<open>
  What the loops rely on: a parser that succeeds has moved forward. Then the bound that the model
  puts on the number of rounds never cuts a loop short.
\<close>

lemma length_skip: "length (buffer_skip_whitespace s) \<le> length s"
proof -
  have "length (snd (split_while P s)) \<le> length s" for P :: "char \<Rightarrow> bool"
    by (induction s) (auto split: prod.splits)
  from this [of "\<lambda>c. char_code c \<le> 32"] show ?thesis
    by (cases s) (auto simp: buffer_skip_whitespace_def split: list.splits)
qed

locale consuming =
  fixes p :: "'a parser"
  assumes consumes: "p s = Some (x, r) \<Longrightarrow> length r < length s"
begin

lemma fails_at_end: "p [] = None"
  using consumes [of "[]"] by (cases "p []") auto

lemma loop_bound: "length s \<le> f \<Longrightarrow> parse_loop p f s = parse_loop p (length s) s"
proof (induction "length s" arbitrary: s f rule: less_induct)
  case less
  show ?case
  proof (cases s)
    case Nil
    then show ?thesis by (cases f) (simp_all add: buffer_skip_whitespace_def fails_at_end)
  next
    case (Cons a t)
    then obtain g where g: "f = Suc g" "length t \<le> g" using less.prems by (cases f) auto
    have "parse_loop p g (tl r') = parse_loop p (length t) (tl r')"
      if "p (buffer_skip_whitespace s) = Some (x, r)" "r' = buffer_skip_whitespace r" for x r r'
    proof -
      have "length (tl r') < length s" "length (tl r') \<le> length t"
        using consumes [OF that(1)] length_skip [of s] length_skip [of r] that(2) by (simp_all add: Cons)
      then show ?thesis using less.hyps [of "tl r'" g] less.hyps [of "tl r'" "length t"] g(2) by simp
    qed
    then show ?thesis
      by (auto simp: Cons g(1) Let_def split: option.splits)
  qed
qed

lemma loop_consumes: "parse_loop p f s = Some (xs, r) \<Longrightarrow> length r < length s"
proof (induction f arbitrary: s xs)
  case (Suc f)
  obtain x r1 where x: "p (buffer_skip_whitespace s) = Some (x, r1)"
    using Suc.prems by (auto split: option.splits)
  then have "length (buffer_skip_whitespace r1) < length s"
    using consumes [OF x] length_skip [of s] length_skip [of r1] by simp
  then show ?case
    using Suc.prems Suc.IH [of "tl (buffer_skip_whitespace r1)"] x
    by (fastforce simp: Let_def split: if_splits)
qed simp

end

lemma scan_literal_consumes: "scan_literal s = Some (body, r) \<Longrightarrow> length r < length s"
  by (induction s arbitrary: body rule: scan_literal.induct) (auto split: if_splits list.splits, fastforce+)

lemma parse_string_consumes: "parse_string s = Some (v, r) \<Longrightarrow> length r < length s"
  by (auto simp: parse_string_def split: list.splits if_splits option.splits dest: scan_literal_consumes)

lemma length_split_while: "split_while P s = (a, b) \<Longrightarrow> length a + length b = length s"
  by (induction s arbitrary: a b) (auto split: if_splits prod.splits)

lemma strtod_consumes:
  assumes "strtod s = Some (d, r)"
  shows "length r < length s"
proof -
  obtain w s0 where w: "split_while is_space s = (w, s0)" by fastforce
  obtain neg s1 where n: "scan_sign s0 = (neg, s1)" by fastforce
  obtain ip s2 where i: "split_while is_digit s1 = (ip, s2)" by fastforce
  obtain fp s3 where f: "scan_fraction s2 = (fp, s3)" by fastforce
  have "length s1 \<le> length s" "length ip + length s2 = length s1"
    using length_split_while [OF w] n length_split_while [OF i] by (auto simp: scan_sign_def split: list.splits if_splits)
  moreover have "length fp + length s3 \<le> length s2"
    using f by (auto simp: scan_fraction_def split: list.splits if_splits dest: length_split_while)
  moreover have "length q \<le> length s3" if "scan_exponent s3 = Some (e, q)" for e q
    using that by (auto simp: scan_exponent_def scan_sign_def Let_def split: list.splits if_splits prod.splits dest!: length_split_while)
  ultimately show ?thesis
    using assms by (auto simp: strtod_def w n i f Let_def split: option.splits if_splits) (fastforce simp: neq_Nil_conv)+
qed

lemma parse_number_consumes: "parse_number s = Some (v, r) \<Longrightarrow> length r < length s"
proof -
  assume a: "parse_number s = Some (v, r)"
  obtain c q where c: "split_while number_char (take 63 s) = (c, q)" by fastforce
  then obtain d u where "strtod c = Some (d, u)" "r = drop (length c - length u) s"
    using a by (auto simp: parse_number_def split: option.splits)
  then show ?thesis
    using strtod_consumes [of c d u] length_split_while [OF c] by simp
qed

lemma consuming_member:
  assumes "consuming pv"
  shows "consuming (parse_member pv)"
proof
  fix s x r
  assume "parse_member pv s = Some (x, r)"
  then obtain name r1 v where p: "parse_string s = Some (name, r1)"
    and v: "pv (buffer_skip_whitespace (tl (buffer_skip_whitespace r1))) = Some (v, r)"
    by (auto simp: parse_member_def Let_def split: option.splits if_splits)
  show "length r < length s"
    using parse_string_consumes [OF p] consuming.consumes [OF assms v]
      length_skip [of "tl (buffer_skip_whitespace r1)"] length_skip [of r1] by simp
qed

lemma at_char_length: "at_char c s \<Longrightarrow> length (tl s) < length s"
  by (cases s) (simp_all add: at_char_def)

lemma parse_array_consumes:
  assumes "consuming p" and "parse_array (Some p) s = Some (x, r)"
  shows "length r < length s"
  using assms(2) length_skip [of "tl s"] at_char_length [of "CHR ''[''" s]
  by (fastforce simp: parse_array_def Let_def split: if_splits option.splits
      dest!: consuming.loop_consumes [OF assms(1)] at_char_length)

lemma parse_object_consumes:
  assumes "consuming p" and "parse_object (Some p) s = Some (x, r)"
  shows "length r < length s"
  using assms(2) length_skip [of "tl s"] at_char_length [of "CHR ''{''" s]
  by (fastforce simp: parse_object_def Let_def split: if_splits option.splits
      dest!: consuming.loop_consumes [OF consuming_member [OF assms(1)]] at_char_length)

lemma starts_with_length: "starts_with lit s \<Longrightarrow> length lit \<le> length s"
  by (metis length_take min.cobounded1 starts_with_def)

lemma parse_item_consumes:
  assumes "\<And>p. pv = Some p \<Longrightarrow> consuming p"
  shows "consuming (parse_item pv)"
proof
  fix s x r
  assume "parse_item pv s = Some (x, r)"
  then show "length r < length s"
    using parse_array_consumes [OF assms] parse_object_consumes [OF assms]
    by (cases pv) (auto simp: parse_item_def parse_array_def [of None] parse_object_def [of None]
        split: if_splits dest!: starts_with_length parse_string_consumes parse_number_consumes)
qed

interpretation pv: consuming "parse_value n" for n
  by (induction n) (auto intro!: parse_item_consumes)

interpretation pm: consuming "parse_member (parse_value n)" for n
  by (rule consuming_member) unfold_locales

section \<open>Strings are read as written\<close>

lemma hex_nibble_digit: "d < 16 \<Longrightarrow> hex_nibble (hex_digit d) = Some d"
  by (auto simp: hex_nibble_def hex_digit_def digit_def is_digit_def)

lemma parse_hex4_byte:
  assumes "n < 256"
  shows "parse_hex4 (CHR ''0'' # CHR ''0'' # hex_digit (n div 16) # hex_digit (n mod 16) # t) = n"
proof -
  have "hex_nibble CHR ''0'' = Some 0" by (simp add: hex_nibble_def char_code_def)
  moreover have "n div 16 < 16" using assms by (simp add: div_less_iff_less_mult)
  ultimately show ?thesis
    by (simp add: parse_hex4_def hex_nibble_digit)
qed

lemma utf8_encode_ascii: "n < 128 \<Longrightarrow> utf8_encode n = Some [char_of n]"
proof -
  assume n: "n < 128"
  have "n AND mask 7 = n"
    using n by (simp add: take_bit_eq_mod flip: take_bit_eq_mask)
  then show ?thesis
    using n by (simp add: utf8_encode_def mask_eq_exp_minus_1)
qed

lemma char_of_code [simp]: "char_of (char_code c) = c"
  by (simp add: char_code_def)

lemma unescape_plain: "c \<noteq> BACKSLASH \<Longrightarrow> unescape (c # t) = map_option (Cons c) (unescape t)"
  by (subst unescape.simps) simp

lemma unescape_short:
  "unescape_char d = Some c \<Longrightarrow> d \<noteq> CHR ''u'' \<Longrightarrow> unescape (BACKSLASH # d # t) = map_option (Cons c) (unescape t)"
  by (subst unescape.simps) simp

lemma unescape_escape_char:
  assumes "c \<noteq> NUL"
  shows "unescape (escape_char c @ t) = map_option (Cons c) (unescape t)"
proof (cases "char_code c > 31 \<and> c \<noteq> QUOTE \<and> c \<noteq> BACKSLASH")
  case True
  then show ?thesis by (simp add: escape_char_def unescape_plain)
next
  case plain: False
  show ?thesis
  proof (cases "c \<in> {BACKSLASH, QUOTE, BS, FF, NEWLINE, CR, TAB}")
    case True
    then show ?thesis
      by (auto simp: escape_char_def char_code_def unescape_char_def unescape_short)
  next
    case False
    then have c: "char_code c < 32" using plain by auto
    have e: "escape_char c @ t
      = BACKSLASH # CHR ''u'' # CHR ''0'' # CHR ''0'' # hex_digit (char_code c div 16) # hex_digit (char_code c mod 16) # t"
      using False plain by (simp add: escape_char_def)
    have "utf16_literal_to_utf8 (escape_char c @ t) = Some (6, [c])"
      using c parse_hex4_byte [of "char_code c" t] utf8_encode_ascii [of "char_code c"]
      by (simp add: utf16_literal_to_utf8_def e Let_def)
    then show ?thesis
      by (subst unescape.simps) (cases "unescape t"; simp add: e)
  qed
qed

lemma scan_escape_char:
  "scan_literal (escape_char c @ t) = map_option (\<lambda>(body, rest). (escape_char c @ body, rest)) (scan_literal t)"
proof -
  have hex: "hex_digit d \<noteq> QUOTE" "hex_digit d \<noteq> BACKSLASH" if "d < 16" for d
    using hex_nibble_digit [OF that] by (auto simp: hex_nibble_def char_code_def is_digit_def)
  have "char_code c div 16 < 16" if "char_code c < 32"
    using that by (simp add: div_less_iff_less_mult)
  then show ?thesis
    using hex by (cases "scan_literal t") (auto simp: escape_char_def not_less)
qed

lemma parse_print_string:
  assumes "NUL \<notin> set s"
  shows "parse_string (print_string_ptr s @ rest) = Some (s, rest)"
proof -
  have "scan_literal (concat (map escape_char s) @ QUOTE # rest) = Some (concat (map escape_char s), rest)"
    by (induction s) (simp_all add: scan_escape_char)
  moreover have "unescape (concat (map escape_char s)) = Some s"
    using assms by (induction s) (auto simp: unescape_escape_char unescape.simps [of "[]"])
  moreover have "c_string s = s"
    using assms by (auto simp: c_string_def takeWhile_eq_all_conv)
  ultimately show ?thesis
    by (simp add: parse_string_def print_string_ptr_def)
qed

section \<open>Printed values are read back\<close>

text \<open>
  The values whose text reads back: strings without NUL, finite numbers, and at most so many levels
  of nesting.
\<close>

fun printable :: "nat \<Rightarrow> cjson \<Rightarrow> bool"
  and printable_elements :: "nat \<Rightarrow> cjson list \<Rightarrow> bool"
  and printable_members :: "nat \<Rightarrow> (string \<times> cjson) list \<Rightarrow> bool" where
  "printable n (JNumber d) = finite_double d"
| "printable n (JString s) = (NUL \<notin> set s)"
| "printable n (JArray xs) = (0 < n \<and> printable_elements (n - 1) xs)"
| "printable n (JObject ms) = (0 < n \<and> printable_members (n - 1) ms)"
| "printable n JNull = True"
| "printable n (JBool b) = True"
| "printable_elements n [] = True"
| "printable_elements n (x # xs) = (printable n x \<and> printable_elements n xs)"
| "printable_members n [] = True"
| "printable_members n ((k, v) # ms) = (NUL \<notin> set k \<and> printable n v \<and> printable_members n ms)"

text \<open>The same value up to the precision in which numbers are written.\<close>

fun same_json :: "cjson \<Rightarrow> cjson \<Rightarrow> bool"
  and same_elements :: "cjson list \<Rightarrow> cjson list \<Rightarrow> bool"
  and same_members :: "(string \<times> cjson) list \<Rightarrow> (string \<times> cjson) list \<Rightarrow> bool" where
  "same_json (JNumber d) j = (case j of JNumber d' \<Rightarrow> same_number d d' | _ \<Rightarrow> False)"
| "same_json (JString s) j = (j = JString s)"
| "same_json (JArray xs) j = (case j of JArray ys \<Rightarrow> same_elements xs ys | _ \<Rightarrow> False)"
| "same_json (JObject ms) j = (case j of JObject ns \<Rightarrow> same_members ms ns | _ \<Rightarrow> False)"
| "same_json JNull j = (j = JNull)"
| "same_json (JBool b) j = (j = JBool b)"
| "same_elements [] ys = (ys = [])"
| "same_elements (x # xs) ys = (case ys of [] \<Rightarrow> False | y # ys' \<Rightarrow> same_json x y \<and> same_elements xs ys')"
| "same_members [] ns = (ns = [])"
| "same_members ((k, v) # ms) ns =
     (case ns of [] \<Rightarrow> False | (k', v') # ns' \<Rightarrow> k' = k \<and> same_json v v' \<and> same_members ms ns')"

lemma skip_whitespace:
  assumes "\<forall>x\<in>set ws. char_code x \<le> 32" and "32 < char_code c"
  shows "buffer_skip_whitespace (ws @ c # s) = c # s"
proof -
  have "split_while (\<lambda>c. char_code c \<le> 32) (ws @ c # s) = (ws, c # s)"
    using assms by (intro split_while_append) auto
  then show ?thesis by (simp add: buffer_skip_whitespace_def)
qed

lemma skip_nothing [simp]: "32 < char_code c \<Longrightarrow> buffer_skip_whitespace (c # s) = c # s"
  using skip_whitespace [of "[]"] by simp

lemma skip_prefix: "rest \<noteq> [] \<Longrightarrow> \<forall>x\<in>set ws. char_code x \<le> 32 \<Longrightarrow> buffer_skip_whitespace (ws @ rest) = buffer_skip_whitespace rest"
  by (induction ws) (auto simp: buffer_skip_whitespace_def split: prod.splits list.splits)

text \<open>The first character of a value.\<close>

definition value_char :: "char \<Rightarrow> bool" where
  "value_char c \<longleftrightarrow> 32 < char_code c \<and> c \<notin> {CHR '','', CHR '']'', CHR ''}'', CHR 0xEF}"

text \<open>What the induction shows of a text that a parser \<open>p\<close> is to read.\<close>

definition reads_as :: "'a parser \<Rightarrow> string \<Rightarrow> 'a \<Rightarrow> bool" where
  "reads_as p t x \<longleftrightarrow> t \<noteq> [] \<and> value_char (hd t) \<and> (\<forall>rest. number_ends rest \<longrightarrow> p (t @ rest) = Some (x, rest))"

definition list_reads_as :: "'a parser \<Rightarrow> string \<Rightarrow> 'a list \<Rightarrow> bool" where
  "list_reads_as p t xs \<longleftrightarrow>
     (\<exists>ws c u. t = ws @ c # u \<and> (\<forall>x\<in>set ws. char_code x \<le> 32) \<and> value_char c \<and> length xs \<le> length (c # u))
     \<and> (\<forall>f rest c r. length xs \<le> f \<longrightarrow> number_ends rest \<longrightarrow> buffer_skip_whitespace rest = c # r \<longrightarrow> c \<noteq> CHR '',''
          \<longrightarrow> parse_loop p f (t @ rest) = Some (xs, c # r))"

lemma value_charE:
  assumes "t \<noteq> []" and "value_char (hd t)"
  obtains c u where "t = c # u" and "value_char c" and "32 < char_code c"
  using assms by (cases t) (auto simp: value_char_def)

lemma list_reads_single:
  assumes "reads_as p t x" and "\<forall>x\<in>set ws. char_code x \<le> 32" and "\<forall>x\<in>set ws'. char_code x \<le> 32 \<and> \<not> number_char x"
  shows "list_reads_as p (ws @ t @ ws') [x]"
proof -
  obtain c u where t: "t = c # u" "value_char c" "32 < char_code c"
    using assms(1) unfolding reads_as_def by (auto elim: value_charE)
  have "parse_loop p f (ws @ t @ ws' @ rest) = Some ([x], d # r)"
    if "1 \<le> f" "number_ends rest" "buffer_skip_whitespace rest = d # r" "d \<noteq> CHR '',''" for f rest d r
  proof -
    have "number_ends (ws' @ rest)"
      using assms(3) that(2) by (cases ws') (auto simp: number_ends_def)
    then have "p (c # u @ ws' @ rest) = Some (x, ws' @ rest)"
      using assms(1) unfolding reads_as_def t(1) by auto
    moreover have "buffer_skip_whitespace (ws' @ rest) = d # r"
      using that(3) assms(3) skip_prefix [of rest ws'] by (cases "rest = []") (simp_all add: buffer_skip_whitespace_def [of "[]"])
    ultimately show ?thesis
      using that skip_whitespace [OF assms(2) t(3)] by (cases f) (auto simp: t(1) at_char_def)
  qed
  moreover have "ws @ t @ ws' = ws @ c # (u @ ws')" by (simp add: t(1))
  ultimately show ?thesis
    using t(2) assms(2) unfolding list_reads_as_def by (intro conjI exI [of _ ws] exI [of _ c] exI [of _ "u @ ws'"]) simp_all
qed

lemma list_reads_cons:
  assumes "reads_as p t x" and "list_reads_as p us xs" and "\<forall>x\<in>set ws. char_code x \<le> 32"
  shows "list_reads_as p (ws @ t @ '','' @ us) (x # xs)"
proof -
  obtain c u where t: "t = c # u" "value_char c" "32 < char_code c"
    using assms(1) unfolding reads_as_def by (auto elim: value_charE)
  have p: "p (c # u @ '','' @ v) = Some (x, CHR '','' # v)" for v
    using assms(1) unfolding reads_as_def t(1) by (auto simp: number_ends_def number_char_def is_digit_def char_code_def)
  have sk: "buffer_skip_whitespace (CHR '','' # v) = CHR '','' # v" for v
    by (simp add: char_code_def)
  have "parse_loop p f (ws @ t @ '','' @ us @ rest) = Some (x # xs, d # r)"
    if "Suc (length xs) \<le> f" "number_ends rest" "buffer_skip_whitespace rest = d # r" "d \<noteq> CHR '',''" for f rest d r
    using that assms(2) skip_whitespace [OF assms(3) t(3)] p [of "us @ rest"] sk
    by (cases f) (auto simp: t(1) at_char_def list_reads_as_def)
  moreover have "length xs \<le> length us"
    using assms(2) by (auto simp: list_reads_as_def)
  moreover have "ws @ t @ '','' @ us = ws @ c # (u @ '','' @ us)" by (simp add: t(1))
  ultimately show ?thesis
    using t(2) assms(3) unfolding list_reads_as_def by (intro conjI exI [of _ ws] exI [of _ c] exI [of _ "u @ '','' @ us"]) simp_all
qed

lemma parse_loop_skip: "buffer_skip_whitespace s = buffer_skip_whitespace s' \<Longrightarrow> parse_loop p f s = parse_loop p f s'"
  by (cases f) simp_all

lemma list_reads_closing:
  assumes "list_reads_as p t xs" and "\<forall>x\<in>set ws. char_code x \<le> 32 \<and> \<not> number_char x"
    and "32 < char_code b" and "\<not> number_char b" and "b \<noteq> CHR '',''"
  obtains c u where "value_char c" and "buffer_skip_whitespace (t @ ws @ b # rest) = c # u"
    and "parse_loop p (length (c # u)) (c # u) = Some (xs, b # rest)"
proof -
  obtain vs c u where t: "t = vs @ c # u" "\<forall>x\<in>set vs. char_code x \<le> 32" "value_char c" "length xs \<le> length (c # u)"
    using assms(1) unfolding list_reads_as_def by blast
  have c: "32 < char_code c" using t(3) by (simp add: value_char_def)
  have sk: "buffer_skip_whitespace (t @ ws @ b # rest) = c # u @ ws @ b # rest"
    using skip_whitespace [OF t(2) c] by (simp add: t(1))
  have "number_ends (ws @ b # rest)"
    using assms(2,4) by (cases ws) (auto simp: number_ends_def)
  moreover have "buffer_skip_whitespace (ws @ b # rest) = b # rest"
    using assms(2,3) by (intro skip_whitespace) auto
  ultimately have "parse_loop p f (t @ ws @ b # rest) = Some (xs, b # rest)" if "length xs \<le> f" for f
    using assms(1,5) that unfolding list_reads_as_def by blast
  moreover have "parse_loop p f (t @ ws @ b # rest) = parse_loop p f (c # u @ ws @ b # rest)" for f
    using sk c by (intro parse_loop_skip) simp
  ultimately have "parse_loop p (length (c # u @ ws @ b # rest)) (c # u @ ws @ b # rest) = Some (xs, b # rest)"
    using t(4) by (simp del: parse_loop.simps)
  then show thesis by (rule that [OF t(3) sk])
qed

lemma reads_as_member:
  assumes "reads_as pv t v" and "NUL \<notin> set k" and "\<forall>x\<in>set ws. char_code x \<le> 32"
  shows "reads_as (parse_member pv) (print_string_ptr k @ CHR '':'' # ws @ t) (k, v)"
proof -
  obtain c u where t: "t = c # u" "value_char c" "32 < char_code c"
    using assms(1) unfolding reads_as_def by (auto elim: value_charE)
  have "parse_member pv ((print_string_ptr k @ CHR '':'' # ws @ t) @ rest) = Some ((k, v), rest)" if "number_ends rest" for rest
    using assms(1) that parse_print_string [OF assms(2), of "CHR '':'' # ws @ t @ rest"] skip_whitespace [OF assms(3) t(3)]
    by (simp add: parse_member_def at_char_def reads_as_def t(1) char_code_def)
  then show ?thesis
    by (simp add: reads_as_def print_string_ptr_def value_char_def char_code_def)
qed

lemma parse_item_scalars:
  "reads_as (parse_item pv) ''null'' JNull" "reads_as (parse_item pv) (if b then ''true'' else ''false'') (JBool b)"
  "NUL \<notin> set s \<Longrightarrow> reads_as (parse_item pv) (print_string_ptr s) (JString s)"
proof -
  show "reads_as (parse_item pv) ''null'' JNull" "reads_as (parse_item pv) (if b then ''true'' else ''false'') (JBool b)"
    by (auto simp: reads_as_def parse_item_def starts_with_def value_char_def char_code_def)
  show "reads_as (parse_item pv) (print_string_ptr s) (JString s)" if "NUL \<notin> set s"
    using parse_print_string [OF that]
    by (simp add: reads_as_def parse_item_def starts_with_def at_char_def value_char_def char_code_def print_string_ptr_def)
qed

lemma number_start:
  assumes "c = CHR ''-'' \<or> is_digit c"
  shows "value_char c" and "parse_item pv (c # s) = parse_number (c # s)"
  using assms by (auto simp: value_char_def parse_item_def starts_with_def at_char_def char_code_def is_digit_def)

lemma parse_item_array:
  assumes "list_reads_as pv t xs"
  shows "reads_as (parse_item (Some pv)) (''['' @ t @ '']'') (JArray xs)"
proof -
  have "parse_array (Some pv) (CHR ''['' # t @ CHR '']'' # rest) = Some (JArray xs, rest)" for rest
  proof -
    obtain c u where "value_char c" "buffer_skip_whitespace (t @ [] @ CHR '']'' # rest) = c # u"
      "parse_loop pv (length (c # u)) (c # u) = Some (xs, CHR '']'' # rest)"
      by (rule list_reads_closing [OF assms, of "[]" "CHR '']''" rest])
        (simp_all add: char_code_def number_char_def is_digit_def del: parse_loop.simps)
    then show ?thesis
      by (simp add: parse_array_def at_char_def value_char_def del: parse_loop.simps)
  qed
  then show ?thesis
    by (simp add: reads_as_def parse_item_def starts_with_def at_char_def value_char_def char_code_def is_digit_def)
qed

lemma parse_item_object:
  assumes "list_reads_as (parse_member pv) t ms" and "\<forall>x\<in>set ws. char_code x \<le> 32" and "\<forall>x\<in>set ws'. char_code x \<le> 32 \<and> \<not> number_char x"
  shows "reads_as (parse_item (Some pv)) (CHR ''{'' # ws @ t @ ws' @ ''}'') (JObject ms)"
proof -
  have "parse_object (Some pv) (CHR ''{'' # ws @ t @ ws' @ CHR ''}'' # rest) = Some (JObject ms, rest)" for rest
  proof -
    obtain c u where "value_char c" "buffer_skip_whitespace (t @ ws' @ CHR ''}'' # rest) = c # u"
      "parse_loop (parse_member pv) (length (c # u)) (c # u) = Some (ms, CHR ''}'' # rest)"
      by (rule list_reads_closing [OF assms(1,3), of "CHR ''}''" rest])
        (simp_all add: char_code_def number_char_def is_digit_def del: parse_loop.simps)
    then show ?thesis
      using skip_prefix [of "t @ ws' @ CHR ''}'' # rest" ws] assms(2)
      by (simp add: parse_object_def at_char_def value_char_def del: parse_loop.simps)
  qed
  then show ?thesis
    by (simp add: reads_as_def parse_item_def starts_with_def at_char_def value_char_def char_code_def is_digit_def)
qed

lemma parse_item_empty:
  "reads_as (parse_item (Some pv)) ''[]'' (JArray [])"
  "\<forall>x\<in>set ws. char_code x \<le> 32 \<Longrightarrow> reads_as (parse_item (Some pv)) (CHR ''{'' # ws @ ''}'') (JObject [])"
  using skip_whitespace [of ws "CHR ''}''"]
  by (simp_all add: reads_as_def parse_item_def parse_array_def parse_object_def starts_with_def at_char_def value_char_def
      char_code_def is_digit_def)

lemma blanks: "char_code TAB \<le> 32" "char_code NEWLINE \<le> 32" "char_code CHR '' '' \<le> 32"
  "\<not> number_char TAB" "\<not> number_char NEWLINE"
  by (simp_all add: char_code_def number_char_def is_digit_def)

lemma list_reads_ws:
  assumes "list_reads_as p t xs" and "\<forall>x\<in>set ws. char_code x \<le> 32"
  shows "list_reads_as p (ws @ t) xs"
proof -
  obtain vs c u where t: "t = vs @ c # u" "\<forall>x\<in>set vs. char_code x \<le> 32" "value_char c" "length xs \<le> length (c # u)"
    using assms(1) unfolding list_reads_as_def by blast
  have "parse_loop p f (ws @ t @ rest) = parse_loop p f (t @ rest)" for f rest
    using assms(2) t(1) by (intro parse_loop_skip skip_prefix) simp_all
  then show ?thesis
    using assms(1) t assms(2) unfolding list_reads_as_def
    by (intro conjI exI [of _ "ws @ vs"] exI [of _ c] exI [of _ u]) auto
qed

lemma print_reads:
  "printable n j \<Longrightarrow> \<exists>t j'. print_value format depth j = Some t \<and> same_json j j' \<and> reads_as (parse_value n) t j'"
  "printable_elements n xs \<Longrightarrow> \<exists>t ys. print_elements format depth xs = Some t \<and> same_elements xs ys
    \<and> (if xs = [] then t = [] else list_reads_as (parse_value n) t ys)"
  "printable_members n ms \<Longrightarrow> \<exists>t ns. print_members format depth ms = Some t \<and> same_members ms ns
    \<and> (if ms = [] then t = [] else list_reads_as (parse_member (parse_value n)) t ns)"
proof (induction format depth j and format depth xs and format depth ms arbitrary: n and n and n
    rule: print_value_print_elements_print_members.induct)
  case (3 format depth d)
  obtain t d' where t: "print_number d = Some t" "t \<noteq> []" "hd t = CHR ''-'' \<or> is_digit (hd t)" "same_number d d'"
    "\<forall>rest. number_ends rest \<longrightarrow> parse_number (t @ rest) = Some (JNumber d', rest)"
    using print_parse_number [of d] 3 by auto
  moreover obtain c u where "t = c # u" using t(2) by (cases t) auto
  ultimately have "reads_as (parse_item pv) t (JNumber d')" for pv
    using number_start [of c] by (auto simp: reads_as_def)
  then show ?case
    using t(1,4) by (intro exI [of _ t] exI [of _ "JNumber d'"]) (cases n; simp)
next
  case (5 format depth xs)
  then obtain m where n: "n = Suc m" "printable_elements m xs" by (cases n) auto
  then obtain t ys where t: "print_elements format (depth + 1) xs = Some t" "same_elements xs ys"
    "if xs = [] then t = [] else list_reads_as (parse_value m) t ys"
    using "5.IH" by blast
  then have "reads_as (parse_value n) (''['' @ t @ '']'') (JArray ys)"
    using parse_item_array [of "parse_value m" t ys] parse_item_empty(1) [of "parse_value m"]
    by (cases xs) (simp_all add: n)
  then show ?case using t(1,2) by (intro exI [of _ "''['' @ t @ '']''"] exI [of _ "JArray ys"]) simp
next
  case (6 format depth ms)
  then obtain m where n: "n = Suc m" "printable_members m ms" by (cases n) auto
  then obtain t ns where t: "print_members format (depth + 1) ms = Some t" "same_members ms ns"
    "if ms = [] then t = [] else list_reads_as (parse_member (parse_value m)) t ns"
    using "6.IH" by blast
  let ?nl = "if format then [NEWLINE] else []" and ?tabs = "if format then replicate depth TAB else []"
  have "reads_as (parse_value n) (CHR ''{'' # ?nl @ t @ ?tabs @ ''}'') (JObject ns)"
    using t parse_item_object [of "parse_value m" t ns ?nl ?tabs] parse_item_empty(2) [of "?nl @ ?tabs" "parse_value m"] blanks
    by (cases ms) (auto simp: n)
  then show ?case using t(1,2) by (intro exI [of _ "CHR ''{'' # ?nl @ t @ ?tabs @ ''}''"] exI [of _ "JObject ns"]) simp
next
  case (8 format depth x xs)
  have "printable n x" "printable_elements n xs" using 8(3) by simp_all
  note IH = "8.IH"(1) [OF this(1)] "8.IH"(2) [OF this(2)]
  obtain t x' where t: "print_value format depth x = Some t" "same_json x x'" "reads_as (parse_value n) t x'"
    using IH(1) by blast
  obtain u ys where u: "print_elements format depth xs = Some u" "same_elements xs ys"
    "if xs = [] then u = [] else list_reads_as (parse_value n) u ys"
    using IH(2) by blast
  let ?t = "t @ (if xs = [] then [] else if format then '', '' else '','') @ u"
  have "list_reads_as (parse_value n) (t @ (if xs = [] then [] else if format then '', '' else '','') @ u) (x' # ys)"
  proof (cases "xs = []")
    case True
    then show ?thesis using list_reads_single [OF t(3), of "[]" "[]"] u by simp
  next
    case False
    let ?sp = "if format then '' '' else []"
    have "list_reads_as (parse_value n) (?sp @ u) ys"
      using u(3) False blanks(3) by (intro list_reads_ws) simp_all
    then show ?thesis using list_reads_cons [OF t(3), of "?sp @ u" ys "[]"] False by auto
  qed
  then show ?case using t(1,2) u(1,2) by (intro exI [of _ ?t] exI [of _ "x' # ys"]) simp
next
  case (10 format depth k v ms)
  have k: "NUL \<notin> set k" "printable n v" "printable_members n ms" using 10(3) by simp_all
  note IH = "10.IH"(1) [OF k(2)] "10.IH"(2) [OF k(3)]
  obtain t v' where t: "print_value format depth v = Some t" "same_json v v'" "reads_as (parse_value n) t v'"
    using IH(1) by blast
  obtain u ns where u: "print_members format depth ms = Some u" "same_members ms ns"
    "if ms = [] then u = [] else list_reads_as (parse_member (parse_value n)) u ns"
    using IH(2) by blast
  let ?tabs = "if format then replicate depth TAB else []" and ?tab = "if format then [TAB] else []"
    and ?nl = "if format then [NEWLINE] else []"
  let ?m = "print_string_ptr k @ CHR '':'' # ?tab @ t"
  have m: "reads_as (parse_member (parse_value n)) ?m (k, v')"
    using t(3) k(1) blanks(1) by (intro reads_as_member) auto
  have "list_reads_as (parse_member (parse_value n)) (?tabs @ ?m @ (if ms = [] then [] else '','') @ ?nl @ u) ((k, v') # ns)"
  proof (cases "ms = []")
    case True
    then show ?thesis using list_reads_single [OF m, of ?tabs ?nl] u blanks by auto
  next
    case False
    have "list_reads_as (parse_member (parse_value n)) (?nl @ u) ns"
      using u(3) False blanks(2) by (intro list_reads_ws) simp_all
    then show ?thesis using list_reads_cons [OF m, of "?nl @ u" ns ?tabs] False blanks by auto
  qed
  then show ?case using t(1,2) u(1,2)
    by (intro exI [of _ "?tabs @ ?m @ (if ms = [] then [] else '','') @ ?nl @ u"] exI [of _ "(k, v') # ns"]) simp
next
  case (1 format depth)
  then show ?case by (cases n) (simp_all add: parse_item_scalars)
next
  case (2 format depth b)
  then show ?case using parse_item_scalars(2) by (cases n) fastforce+
next
  case (4 format depth s)
  then show ?case by (cases n) (simp_all add: parse_item_scalars)
qed auto

lemma escape_char_no_nul: "c \<noteq> NUL \<Longrightarrow> NUL \<notin> set (escape_char c)"
proof -
  have "hex_digit d \<noteq> NUL" if "d < 16" for d
    using hex_nibble_digit [OF that] by (auto simp: hex_nibble_def char_code_def is_digit_def)
  then have "hex_digit (char_code c div 16) \<noteq> NUL" "hex_digit (char_code c mod 16) \<noteq> NUL" if "char_code c \<le> 31"
    using that by (simp_all add: div_less_iff_less_mult)
  then show "c \<noteq> NUL \<Longrightarrow> NUL \<notin> set (escape_char c)"
    by (auto simp: escape_char_def not_less)
qed

lemma print_string_no_nul: "NUL \<notin> set s \<Longrightarrow> NUL \<notin> set (print_string_ptr s)"
proof -
  assume "NUL \<notin> set s"
  then have "NUL \<notin> set (concat (map escape_char s))"
  proof (induction s)
    case (Cons c s)
    then show ?case using escape_char_no_nul [of c] by auto
  qed simp
  then show ?thesis by (simp add: print_string_ptr_def)
qed

lemma print_no_nul:
  "printable n j \<Longrightarrow> print_value format depth j = Some t \<Longrightarrow> NUL \<notin> set t"
  "printable_elements n xs \<Longrightarrow> print_elements format depth xs = Some t \<Longrightarrow> NUL \<notin> set t"
  "printable_members n ms \<Longrightarrow> print_members format depth ms = Some t \<Longrightarrow> NUL \<notin> set t"
proof (induction format depth j and format depth xs and format depth ms arbitrary: n t and n t and n t
    rule: print_value_print_elements_print_members.induct)
  case (3 format depth d)
  then have "\<forall>c\<in>set t. number_char c" using print_parse_number [of d] by auto
  then show ?case by (auto simp: number_char_def is_digit_def char_code_def)
next
  case (5 format depth xs)
  then show ?case by auto
next
  case (6 format depth ms)
  then show ?case by (auto split: if_splits)
next
  case (8 format depth x xs)
  then show ?case by (auto split: option.splits if_splits)
next
  case (10 format depth k v ms)
  then show ?case using print_string_no_nul by (auto split: option.splits if_splits)
qed (auto simp: print_string_no_nul)

lemma json_reads:
  assumes "printable CJSON_NESTING_LIMIT j"
  shows "\<exists>t j'. print_value format 0 j = Some t \<and> cJSON_Parse t = Some j' \<and> same_json j j'"
proof -
  obtain t j' where t: "print_value format 0 j = Some t" "same_json j j'" "reads_as (parse_value CJSON_NESTING_LIMIT) t j'"
    using print_reads(1) [OF assms] by blast
  moreover have "c_string t = t"
    using print_no_nul(1) [OF assms t(1)] by (auto simp: c_string_def takeWhile_eq_all_conv)
  moreover have "number_ends [NUL]" by (simp add: number_ends_def number_char_def is_digit_def char_code_def)
  moreover obtain c u where "t = c # u" "value_char c" "32 < char_code c"
    using t(3) unfolding reads_as_def by (auto elim: value_charE)
  ultimately show ?thesis
    by (auto simp: cJSON_Parse_def cJSON_ParseWithOpts_def cJSON_ParseWithLengthOpts_def skip_utf8_bom_def reads_as_def value_char_def)
qed

text \<open>
  C18: The text that \<open>cJSON_Print\<close> or \<open>cJSON_PrintUnformatted\<close> writes for a value with finite numbers,
  strings without NUL and at most \<open>CJSON_NESTING_LIMIT\<close> levels is read by \<open>cJSON_Parse\<close> as the
  same value: the same structure, names and strings, and numbers that are equal or that
  \<open>compare_double\<close> takes for equal.
\<close>

theorem json_roundtrip:
  assumes "printable CJSON_NESTING_LIMIT j"
  shows "\<exists>t j'. print_value format 0 j = Some t \<and> cJSON_Parse t = Some j' \<and> same_json j j'"
  using json_reads [OF assms] .

definition sample_json :: cjson where
  "sample_json =
     JObject [(''tcp'', JBool True), (''time'', JNumber 10), (''title'', JString [CHR ''a'', QUOTE, NEWLINE]),
              (''streams'', JArray [JNumber (- 1 / 4), JNull, JObject []])]"

theorem json_roundtrip_witness:
  "\<exists>t j'. print_value True 0 sample_json = Some t \<and> cJSON_Parse t = Some j' \<and> same_json sample_json j'"
proof -
  have "is_double 10" "is_double (- 1 / 4)"
    unfolding is_double_def by (rule exI [of _ 10], rule exI [of _ 0], simp) (rule exI [of _ "- 1"], rule exI [of _ "- 2"], simp)
  moreover have "(10 :: rat) powi - 330 \<le> 10 powi - 1" "(10 :: rat) powi 2 \<le> 10 powi 309"
    by (rule power_int_increasing; simp)+
  then have "(10 :: rat) powi - 330 \<le> 1 / 4" "(100 :: rat) \<le> 10 powi 309"
    by (simp_all del: power_int_numeral add: power_int_def [of _ 2])
  ultimately have "finite_double 10" "finite_double (- 1 / 4)"
    unfolding finite_double_def by (auto simp del: power_int_numeral)
  then have "printable CJSON_NESTING_LIMIT sample_json"
    by (simp add: sample_json_def)
  then show ?thesis by (rule json_roundtrip)
qed

end
