(* ===== verification/Params.thy ===== *)
theory Params
  imports Rate Cjson_Text
begin

text \<open>
  The control connection (\<open>iperf_api.c\<close>): states as single bytes, JSON values as a length and a
  text, and the parameters that the client sends and the server takes over. The build has
  \<open>HAVE_DONT_FRAGMENT\<close> and neither SSL nor multipath TCP. Debug output and warnings are left out,
  and memory allocation is taken to succeed.
\<close>

section \<open>Values on the control connection\<close>

definition string_bytes :: "string \<Rightarrow> byte list" where
  "string_bytes s = map (\<lambda>c. of_nat (char_code c)) s"

definition bytes_string :: "byte list \<Rightarrow> string" where
  "bytes_string bs = map (\<lambda>b. char_of (unat b)) bs"

definition JSON_write :: "int \<Rightarrow> cjson \<Rightarrow> ('z sys_scheme, int) state" where
  "JSON_write fd json =
     (case cJSON_PrintUnformatted json of
        None \<Rightarrow> State_Monad.return (- 1)
      | Some str \<Rightarrow> do {
          let hsize = (of_nat (length str) :: u32);
          r \<leftarrow> Nwrite fd (be32 hsize) Ptcp;
          if r < 0 then State_Monad.return (- 1)
          else do {
            r \<leftarrow> Nwrite fd (string_bytes (take (unat hsize) str)) Ptcp;
            State_Monad.return (if r < 0 then - 1 else 0) } })"

text \<open>
  The size of the buffer is computed in 32 bits, so a length of \<open>2 ^ 32 - 1\<close> gives an empty one and
  is refused.
\<close>

definition JSON_read :: "int \<Rightarrow> nat \<Rightarrow> ('z sys_scheme, cjson option) state" where
  "JSON_read fd max_size = do {
     (rc, bs) \<leftarrow> Nread fd 4 Ptcp;
     if rc = 4 then do {
       let hsize = from_be32 bs;
       if hsize > 0 \<and> (max_size = 0 \<or> unat hsize \<le> max_size) \<and> hsize + 1 \<noteq> 0 then do {
         (rc, bs) \<leftarrow> Nread fd (unat hsize) Ptcp;
         State_Monad.return (if rc = int (unat hsize) then cJSON_Parse (bytes_string bs) else None) }
       else State_Monad.return None }
     else State_Monad.return None }"

definition iperf_set_send_state :: "int \<Rightarrow> ('z world_scheme, int) state" where
  "iperf_set_send_state st = do {
     test \<leftarrow> reads the_test;
     if test_ctrl_sck test \<ge> 0 then do {
       _ \<leftarrow> update_state (the_test_update (\<lambda>t. iperf_set_test_state t st));
       r \<leftarrow> Nwrite (test_ctrl_sck test) [word_of_int st] Ptcp;
       if r < 0 then fail IESENDMESSAGE else State_Monad.return 0 }
     else State_Monad.return 0 }"

section \<open>Sending the parameters\<close>

abbreviation MAX_PARAMS_JSON_STRING :: nat where "MAX_PARAMS_JSON_STRING \<equiv> 8 * 1024"
abbreviation IPERF_VERSION :: string where "IPERF_VERSION \<equiv> ''3.21''"

definition member_if :: "bool \<Rightarrow> string \<Rightarrow> cjson \<Rightarrow> (string \<times> cjson) list" where
  "member_if b k v = (if b then [(k, v)] else [])"

definition jint :: "int \<Rightarrow> cjson" where "jint i = JNumber (fl64 (of_int i))"
definition ju64 :: "u64 \<Rightarrow> cjson" where "ju64 w = JNumber (u64_to_double w)"

definition jstr :: "string option \<Rightarrow> cjson" where
  "jstr s = (case s of None \<Rightarrow> JString [] | Some x \<Rightarrow> JString x)"

definition protocol_is :: "int \<Rightarrow> iperf_test \<Rightarrow> bool" where
  "protocol_is p t \<longleftrightarrow> map_option prot_id (test_protocol t) = Some p"

definition parameters1 :: "iperf_test \<Rightarrow> (string \<times> cjson) list" where
  "parameters1 t =
     (let cfg = test_settings t
      in member_if (protocol_is Ptcp t) ''tcp'' (JBool True)
       @ member_if (\<not> protocol_is Ptcp t \<and> protocol_is Pudp t) ''udp'' (JBool True)
       @ member_if (\<not> protocol_is Ptcp t \<and> \<not> protocol_is Pudp t \<and> protocol_is Psctp t) ''sctp'' (JBool True)
       @ [(''omit'', jint (test_omit t))]
       @ member_if (test_server_affinity t \<noteq> - 1) ''server_affinity'' (jint (test_server_affinity t))
       @ [(''time'', jint (test_duration t)), (''num'', ju64 (cfg_bytes cfg)), (''blockcount'', ju64 (cfg_blocks cfg))]
       @ member_if (cfg_mss cfg \<noteq> 0) ''MSS'' (jint (cfg_mss cfg))
       @ member_if (test_no_delay t \<noteq> 0) ''nodelay'' (JBool True)
       @ [(''parallel'', jint (test_num_streams t))]
       @ member_if (test_reverse t \<noteq> 0) ''reverse'' (JBool True)
       @ member_if (test_bidirectional t \<noteq> 0) ''bidirectional'' (JBool True)
       @ member_if (cfg_socket_bufsize cfg \<noteq> 0) ''window'' (jint (cfg_socket_bufsize cfg))
       @ member_if (cfg_blksize cfg \<noteq> 0) ''len'' (jint (cfg_blksize cfg))
       @ member_if (cfg_rate cfg \<noteq> 0) ''bandwidth'' (ju64 (cfg_rate cfg))
       @ member_if (cfg_fqrate cfg \<noteq> 0) ''fqrate'' (ju64 (cfg_fqrate cfg))
       @ member_if (cfg_pacing_timer cfg \<noteq> 0) ''pacing_timer'' (jint (cfg_pacing_timer cfg))
       @ member_if (cfg_burst cfg \<noteq> 0) ''burst'' (jint (cfg_burst cfg)))"

definition parameters2 :: "iperf_test \<Rightarrow> (string \<times> cjson) list" where
  "parameters2 t =
     (let cfg = test_settings t
      in (if protocol_is Pudp t
          then [(''gso'', jint (cfg_gso cfg)), (''gso_dg_size'', jint (cfg_gso_dg_size cfg)),
                (''gso_bf_size'', jint (cfg_gso_bf_size cfg)), (''gro'', jint (cfg_gro cfg)),
                (''gro_bf_size'', jint (cfg_gro_bf_size cfg))]
          else [])
       @ member_if (cfg_tos cfg \<noteq> 0) ''TOS'' (jint (cfg_tos cfg))
       @ member_if (cfg_flowlabel cfg \<noteq> 0) ''flowlabel'' (jint (cfg_flowlabel cfg))
       @ member_if (test_title t \<noteq> None) ''title'' (jstr (test_title t))
       @ member_if (test_extra_data t \<noteq> None) ''extra_data'' (jstr (test_extra_data t))
       @ member_if (test_congestion t \<noteq> None) ''congestion'' (jstr (test_congestion t))
       @ member_if (test_congestion_used t \<noteq> None) ''congestion_used'' (jstr (test_congestion_used t))
       @ member_if (test_get_server_output t \<noteq> 0) ''get_server_output'' (jint (iperf_get_test_get_server_output t))
       @ member_if (test_udp_counters_64bit t \<noteq> 0) ''udp_counters_64bit'' (jint (iperf_get_test_udp_counters_64bit t))
       @ member_if (test_repeating_payload t \<noteq> 0) ''repeating_payload'' (jint (test_repeating_payload t))
       @ member_if (test_zerocopy t \<noteq> 0) ''zerocopy'' (jint (test_zerocopy t))
       @ member_if (cfg_dont_fragment cfg \<noteq> 0) ''dont_fragment'' (jint (cfg_dont_fragment cfg))
       @ member_if (cfg_skip_rx_copy cfg \<noteq> 0) ''skip_rx_copy'' (jint (cfg_skip_rx_copy cfg))
       @ [(''client_version'', JString IPERF_VERSION)])"

definition parameters :: "iperf_test \<Rightarrow> cjson" where
  "parameters t = JObject (parameters1 t @ parameters2 t)"

definition send_parameters :: "('z world_scheme, int) state" where
  "send_parameters = do {
     test \<leftarrow> reads the_test;
     r \<leftarrow> JSON_write (test_ctrl_sck test) (parameters test);
     if r < 0 then fail IESENDPARAMS else State_Monad.return 0 }"

section \<open>Taking the parameters over\<close>

text \<open>\<open>valueint\<close> has 64 bits; stored into an \<open>int\<close> it keeps the low 32 of them.\<close>

definition to_int :: "int \<Rightarrow> int" where
  "to_int v = sint (word_of_int v :: u32)"

definition on_int :: "cjson \<Rightarrow> string \<Rightarrow> (int \<Rightarrow> iperf_test \<Rightarrow> iperf_test) \<Rightarrow> iperf_test \<Rightarrow> iperf_test" where
  "on_int j k f t = (case get_int j k of None \<Rightarrow> t | Some v \<Rightarrow> f v t)"

definition on_cfg :: "cjson \<Rightarrow> string \<Rightarrow> (int \<Rightarrow> iperf_settings \<Rightarrow> iperf_settings) \<Rightarrow> iperf_test \<Rightarrow> iperf_test" where
  "on_cfg j k f t = on_int j k (\<lambda>v. test_settings_update (f v)) t"

definition on_str :: "cjson \<Rightarrow> string \<Rightarrow> (string \<Rightarrow> iperf_test \<Rightarrow> iperf_test) \<Rightarrow> iperf_test \<Rightarrow> iperf_test" where
  "on_str j k f t = (case get_string j k of None \<Rightarrow> t | Some v \<Rightarrow> f v t)"

definition on_true :: "cjson \<Rightarrow> string \<Rightarrow> (iperf_test \<Rightarrow> iperf_test) \<Rightarrow> iperf_test \<Rightarrow> iperf_test" where
  "on_true j k f t = (if has_member j k Expect_bool then f t else t)"

text \<open>The protocol; a transfer of a file cannot use UDP.\<close>

definition take_protocol :: "cjson \<Rightarrow> ('z world_scheme, int) state" where
  "take_protocol j = do {
     _ \<leftarrow> (if has_member j ''tcp'' Expect_bool then set_protocol Ptcp else State_Monad.return 0);
     test \<leftarrow> reads the_test;
     r \<leftarrow> (if has_member j ''udp'' Expect_bool then
             if test_diskfile_name test \<noteq> None then fail IEUDPFILETRANSFER
             else do { _ \<leftarrow> set_protocol Pudp; State_Monad.return 0 }
           else State_Monad.return 0);
     _ \<leftarrow> (if has_member j ''sctp'' Expect_bool then set_protocol Psctp else State_Monad.return 0);
     State_Monad.return r }"

definition take_amounts :: "cjson \<Rightarrow> iperf_test \<Rightarrow> iperf_test" where
  "take_amounts j t =
     (let t = on_int j ''omit'' (\<lambda>v. test_omit_update (\<lambda>_. to_int v)) t;
          t = on_int j ''server_affinity'' (\<lambda>v. test_server_affinity_update (\<lambda>_. to_int v)) t;
          t = on_int j ''time'' (\<lambda>v. test_duration_update (\<lambda>_. to_int v)) t;
          t = test_settings_update (cfg_bytes_update (\<lambda>_. 0)) t;
          t = on_cfg j ''num'' (\<lambda>v. cfg_bytes_update (\<lambda>_. word_of_int v)) t;
          t = test_settings_update (cfg_blocks_update (\<lambda>_. 0)) t;
          t = on_cfg j ''blockcount'' (\<lambda>v. cfg_blocks_update (\<lambda>_. word_of_int v)) t;
          t = on_cfg j ''MSS'' (\<lambda>v. cfg_mss_update (\<lambda>_. to_int v)) t;
          t = on_true j ''nodelay'' (test_no_delay_update (\<lambda>_. 1)) t;
          t = on_int j ''parallel'' (\<lambda>v. test_num_streams_update (\<lambda>_. to_int v)) t;
          t = on_true j ''reverse'' (\<lambda>t. iperf_set_test_reverse t 1) t
      in on_true j ''bidirectional'' (\<lambda>t. iperf_set_test_bidirectional t 1) t)"

text \<open>A client that does not know the offload sizes.\<close>

definition derive_gso :: "iperf_test \<Rightarrow> iperf_test" where
  "derive_gso t =
     (let cfg = test_settings t
      in if protocol_is Pudp t \<and> cfg_gso cfg = 1 \<and> cfg_gso_dg_size cfg = 0 then
           t\<lparr>test_settings :=
               (let cfg = cfg\<lparr>cfg_gso_dg_size := cfg_blksize cfg\<rparr>
                in if cfg_gso_dg_size cfg > 0
                   then cfg\<lparr>cfg_gso_bf_size := (cfg_gso_bf_size cfg sdiv cfg_gso_dg_size cfg) * cfg_gso_dg_size cfg\<rparr>
                   else cfg\<lparr>cfg_gso_dg_size := DEFAULT_UDP_BLKSIZE\<rparr>)\<rparr>
         else t)"

definition take_sizes :: "cjson \<Rightarrow> iperf_test \<Rightarrow> iperf_test" where
  "take_sizes j t =
     (let t = on_cfg j ''window'' (\<lambda>v. cfg_socket_bufsize_update (\<lambda>_. to_int v)) t;
          t = on_cfg j ''len'' (\<lambda>v. cfg_blksize_update (\<lambda>_. to_int v)) t;
          t = on_cfg j ''gso'' (\<lambda>v. cfg_gso_update (\<lambda>_. to_int v)) t;
          t = on_cfg j ''gso_dg_size'' (\<lambda>v. cfg_gso_dg_size_update (\<lambda>_. to_int v)) t;
          t = on_cfg j ''gso_bf_size'' (\<lambda>v. cfg_gso_bf_size_update (\<lambda>_. to_int v)) t;
          t = derive_gso t;
          t = on_cfg j ''gro'' (\<lambda>v. cfg_gro_update (\<lambda>_. to_int v)) t;
          t = on_cfg j ''gro_bf_size'' (\<lambda>v. cfg_gro_bf_size_update (\<lambda>_. to_int v)) t;
          t = on_cfg j ''bandwidth'' (\<lambda>v. cfg_rate_update (\<lambda>_. word_of_int v)) t;
          t = on_cfg j ''fqrate'' (\<lambda>v. cfg_fqrate_update (\<lambda>_. word_of_int v)) t;
          t = on_cfg j ''pacing_timer'' (\<lambda>v. cfg_pacing_timer_update (\<lambda>_. to_int v)) t;
          t = on_cfg j ''burst'' (\<lambda>v. cfg_burst_update (\<lambda>_. to_int v)) t;
          t = on_cfg j ''TOS'' (\<lambda>v. cfg_tos_update (\<lambda>_. to_int v)) t
      in on_cfg j ''flowlabel'' (\<lambda>v. cfg_flowlabel_update (\<lambda>_. to_int v)) t)"

text \<open>\<open>skip_rx_copy\<close> is read without a look at its type: \<open>valueint\<close> of a parsed \<open>true\<close> is 1.\<close>

definition any_valueint :: "cjson \<Rightarrow> int" where
  "any_valueint j = (case j of JNumber d \<Rightarrow> valueint d | JBool True \<Rightarrow> 1 | _ \<Rightarrow> 0)"

definition take_options :: "cjson \<Rightarrow> iperf_test \<Rightarrow> iperf_test" where
  "take_options j t =
     (let t = on_str j ''title'' (\<lambda>s. test_title_update (\<lambda>_. Some s)) t;
          t = on_str j ''extra_data'' (\<lambda>s. test_extra_data_update (\<lambda>_. Some s)) t;
          t = on_str j ''congestion'' (\<lambda>s. test_congestion_update (\<lambda>_. Some s)) t;
          t = on_str j ''congestion_used'' (\<lambda>s. test_congestion_used_update (\<lambda>_. Some s)) t;
          t = on_int j ''get_server_output'' (\<lambda>_ t. iperf_set_test_get_server_output t 1) t;
          t = on_int j ''udp_counters_64bit'' (\<lambda>_ t. iperf_set_test_udp_counters_64bit t 1) t;
          t = on_int j ''repeating_payload'' (\<lambda>_. test_repeating_payload_update (\<lambda>_. 1)) t;
          t = on_int j ''zerocopy'' (\<lambda>v. test_zerocopy_update (\<lambda>_. to_int v)) t;
          t = on_cfg j ''dont_fragment'' (\<lambda>v. cfg_dont_fragment_update (\<lambda>_. to_int v)) t
      in case cJSON_GetObjectItem j ''skip_rx_copy'' of
           None \<Rightarrow> t
         | Some v \<Rightarrow> test_settings_update (cfg_skip_rx_copy_update (\<lambda>_. to_int (any_valueint v))) t)"

definition note_rate :: "iperf_test \<Rightarrow> iperf_test" where
  "note_rate t =
     (let t = (if test_mode t \<noteq> 0 \<and> protocol_is Ptcp t \<and> has_tcpinfo_retransmits \<noteq> 0
               then t\<lparr>test_sender_has_retransmits := 1\<rparr> else t)
      in if cfg_rate (test_settings t) \<noteq> 0
         then t\<lparr>test_json_start := map_option (\<lambda>j. cJSON_AddItemToObject j ''target_bitrate'' (ju64 (cfg_rate (test_settings t))))
                                     (test_json_start t)\<rparr>
         else t)"

text \<open>The limits of the server. The sum and the products wrap.\<close>

definition total_requested_rate :: "iperf_test \<Rightarrow> u64 \<Rightarrow> u64" where
  "total_requested_rate t rate = word_of_int (test_num_streams t) * rate * (if test_mode t = BIDIRECTIONAL then 2 else 1)"

definition too_long :: "iperf_test \<Rightarrow> bool" where
  "too_long t \<longleftrightarrow> test_max_server_duration t > 0
     \<and> (to_int (test_duration t + test_omit t) > test_max_server_duration t \<or> test_duration t = 0)"

definition too_fast :: "iperf_test \<Rightarrow> u64 \<Rightarrow> bool" where
  "too_fast t rate \<longleftrightarrow> cfg_bitrate_limit (test_settings t) \<noteq> 0
     \<and> total_requested_rate t rate > cfg_bitrate_limit (test_settings t)"

definition check_limits :: "int \<Rightarrow> ('z world_scheme, int) state" where
  "check_limits r = do {
     t \<leftarrow> reads the_test;
     r \<leftarrow> (if too_long t then fail IEMAXSERVERTESTDURATIONEXCEEDED else State_Monad.return r);
     r \<leftarrow> (if too_fast t (cfg_rate (test_settings t)) then fail IETOTALRATE else State_Monad.return r);
     if too_fast t (cfg_fqrate (test_settings t)) then fail IETOTALRATE else State_Monad.return r }"

definition apply_parameters :: "cjson \<Rightarrow> iperf_test \<Rightarrow> iperf_test" where
  "apply_parameters j t = note_rate (take_options j (take_sizes j (take_amounts j t)))"

definition get_parameters :: "('z world_scheme, int) state" where
  "get_parameters = do {
     test \<leftarrow> reads the_test;
     jo \<leftarrow> JSON_read (test_ctrl_sck test) MAX_PARAMS_JSON_STRING;
     case jo of
       None \<Rightarrow> fail IERECVPARAMS
     | Some j \<Rightarrow> do {
         r \<leftarrow> take_protocol j;
         _ \<leftarrow> update_state (the_test_update (apply_parameters j));
         check_limits r } }"

section \<open>The exchange\<close>

definition protocol_listen :: "('z world_scheme, int) state" where
  "protocol_listen = do {
     test \<leftarrow> reads the_test;
     if protocol_is Pudp test then iperf_udp_listen else iperf_tcp_listen }"

definition iperf_exchange_parameters :: "('z world_scheme, int) state" where
  "iperf_exchange_parameters = do {
     test \<leftarrow> reads the_test;
     if test_role test = Some CHR ''c'' then do {
       r \<leftarrow> send_parameters;
       State_Monad.return (if r < 0 then - 1 else 0) }
     else do {
       r \<leftarrow> get_parameters;
       if r < 0 then State_Monad.return (- 1)
       else do {
         s \<leftarrow> protocol_listen;
         if s < 0 then State_Monad.return (- 1)
         else do {
           _ \<leftarrow> update_state (the_test_update (\<lambda>t. t\<lparr>test_read_set := FD_SET s (test_read_set t),
                 test_max_fd := max s (test_max_fd t), test_prot_listener := s\<rparr>));
           r \<leftarrow> iperf_set_send_state CREATE_STREAMS;
           State_Monad.return (if r \<noteq> 0 then - 1 else 0) } } } }"

end
