(* ===== verification/Results.thy ===== *)
theory Results
  imports Params
begin

text \<open>
  The exchange of results after a test (\<open>iperf_api.c\<close>): each side sends what it counted for its
  streams, and takes over what the other side counted for the stream of the same number. Debug
  output is left out.
\<close>

section \<open>Sending\<close>

definition ji64 :: "i64 \<Rightarrow> cjson" where "ji64 w = JNumber (fl64 (of_int (sint w)))"

definition stream_results :: "iperf_test \<Rightarrow> iperf_stream \<Rightarrow> cjson" where
  "stream_results test sp =
     (let rp = sp_result sp;
          bytes_transferred = (if sp_sender sp \<noteq> 0 then res_bytes_sent rp - res_bytes_sent_omit rp else res_bytes_received rp);
          retransmits = (if sp_sender sp \<noteq> 0 \<and> test_sender_has_retransmits test \<noteq> 0 then res_stream_retrans rp else - 1);
          start_time = iperf_time_in_secs (snd (iperf_time_diff (res_start_time rp) (res_start_time rp)));
          end_time = iperf_time_in_secs (snd (iperf_time_diff (res_start_time rp) (res_end_time rp)))
      in JObject
           [(''id'', jint (sp_id sp)), (''bytes'', ju64 bytes_transferred), (''retransmits'', jint retransmits),
            (''jitter'', JNumber (sp_jitter sp)), (''errors'', ji64 (sp_cnt_error sp)),
            (''omitted_errors'', ji64 (sp_omitted_cnt_error sp)), (''packets'', ji64 (sp_packet_count sp)),
            (''omitted_packets'', ji64 (sp_omitted_packet_count sp)), (''start_time'', JNumber start_time),
            (''end_time'', JNumber end_time)])"

text \<open>The server's own output, if the client asked for it.\<close>

definition server_output :: "iperf_test \<Rightarrow> (string \<times> cjson) list" where
  "server_output test =
     (if test_role test = Some CHR ''s'' \<and> test_get_server_output test \<noteq> 0 then
        (if test_json_output test \<noteq> 0
         then (case json_document test of None \<Rightarrow> [] | Some j \<Rightarrow> [(''server_output_json'', j)])
         else [(''server_output_text'', JString (concat (test_server_output_list test)))])
      else [])"

definition results :: "iperf_test \<Rightarrow> cjson" where
  "results test =
     (let (tot, user, system) = test_cpu_util test
      in JObject
           ([(''cpu_util_total'', JNumber tot), (''cpu_util_user'', JNumber user), (''cpu_util_system'', JNumber system),
             (''sender_has_retransmits'', jint (if test_mode test = RECEIVER then - 1 else test_sender_has_retransmits test))]
            @ member_if (test_congestion_used test \<noteq> None) ''congestion_used'' (jstr (test_congestion_used test))
            @ server_output test
            @ [(''streams'', JArray (map (stream_results test) (test_streams test)))]))"

definition send_results :: "('z world_scheme, int) state" where
  "send_results = do {
     test \<leftarrow> reads the_test;
     r \<leftarrow> JSON_write (test_ctrl_sck test) (results test);
     if r < 0 then fail IESENDRESULTS else State_Monad.return 0 }"

section \<open>Taking over\<close>

record peer_result =
  pr_bytes :: u64
  pr_retransmits :: int
  pr_jitter :: double
  pr_errors :: i64
  pr_packets :: i64
  pr_omitted :: "(i64 \<times> i64) option"
  pr_times :: "(double \<times> double) option"

text \<open>
  The members of one stream: its number and the counts. Omitted counts come in pairs or not at all,
  for peers that do not send them; the times may be missing too.
\<close>

definition both :: "'a option \<Rightarrow> 'b option \<Rightarrow> ('a \<times> 'b) option" where
  "both x y = (case x of None \<Rightarrow> None | Some a \<Rightarrow> map_option (Pair a) y)"

definition read_stream :: "cjson \<Rightarrow> (int \<times> peer_result) option" where
  "read_stream j =
     (let oe = get_int j ''omitted_errors''; op = get_int j ''omitted_packets''
      in case (get_int j ''id'', get_int j ''bytes'', get_int j ''retransmits'', get_double j ''jitter'',
               get_int j ''errors'', get_int j ''packets'') of
           (Some sid, Some b, Some r, Some jit, Some e, Some p) \<Rightarrow>
             if (oe = None) \<noteq> (op = None) then None
             else Some (to_int sid, \<lparr>pr_bytes = word_of_int b, pr_retransmits = to_int r, pr_jitter = jit,
                    pr_errors = word_of_int e, pr_packets = word_of_int p,
                    pr_omitted = both (map_option word_of_int oe) (map_option word_of_int op),
                    pr_times = both (get_double j ''start_time'') (get_double j ''end_time'')\<rparr>)
         | _ \<Rightarrow> None)"

definition span :: "(double \<times> double) option \<Rightarrow> double" where
  "span ts = (case ts of None \<Rightarrow> 0 | Some (s, e) \<Rightarrow> fl64 (e - s))"

text \<open>A sending stream learns what was received, a receiving one what was sent.\<close>

definition take_result :: "peer_result \<Rightarrow> iperf_stream \<Rightarrow> iperf_stream" where
  "take_result pr sp =
     (if sp_sender sp \<noteq> 0 then
        let sp = sp\<lparr>sp_jitter := pr_jitter pr, sp_cnt_error := pr_errors pr, sp_peer_packet_count := pr_packets pr,
                    sp_result := (sp_result sp)\<lparr>res_bytes_received := pr_bytes pr, res_receiver_time := span (pr_times pr)\<rparr>\<rparr>
        in (case pr_omitted pr of
              Some (e, p) \<Rightarrow> sp\<lparr>sp_omitted_cnt_error := e, sp_peer_omitted_packet_count := p\<rparr>
            | None \<Rightarrow>
                sp\<lparr>sp_peer_omitted_packet_count := sp_omitted_packet_count sp,
                   sp_omitted_cnt_error := (if sint (sp_omitted_packet_count sp) > 0
                                            then (if sint (sp_cnt_error sp) > 0 then - 1 else 0) else sp_cnt_error sp)\<rparr>)
      else
        sp\<lparr>sp_peer_packet_count := pr_packets pr,
           sp_result := (sp_result sp)\<lparr>res_bytes_sent := pr_bytes pr, res_stream_retrans := pr_retransmits pr,
                                       res_sender_time := span (pr_times pr)\<rparr>,
           sp_peer_omitted_packet_count := (case pr_omitted pr of Some (e, p) \<Rightarrow> p | None \<Rightarrow> pr_packets pr)\<rparr>)"

fun update_first :: "('a \<Rightarrow> bool) \<Rightarrow> ('a \<Rightarrow> 'a) \<Rightarrow> 'a list \<Rightarrow> 'a list" where
  "update_first P f [] = []"
| "update_first P f (x # xs) = (if P x then f x # xs else x # update_first P f xs)"

definition take_stream :: "cjson \<Rightarrow> ('z world_scheme, int) state" where
  "take_stream j_stream =
     (case read_stream j_stream of
        None \<Rightarrow> fail IERECVRESULTS
      | Some (sid, pr) \<Rightarrow> do {
          test \<leftarrow> reads the_test;
          if find (\<lambda>sp. sp_id sp = sid) (test_streams test) = None then fail IESTREAMID
          else do {
            _ \<leftarrow> update_state (the_test_update (test_streams_update (update_first (\<lambda>sp. sp_id sp = sid) (take_result pr))));
            State_Monad.return 0 } })"

fun take_streams :: "cjson list \<Rightarrow> int \<Rightarrow> ('z world_scheme, int) state" where
  "take_streams [] r = State_Monad.return r"
| "take_streams (j # js) r = do {
     q \<leftarrow> take_stream j;
     take_streams js (if q < 0 then - 1 else r) }"

definition take_server_output :: "cjson \<Rightarrow> iperf_test \<Rightarrow> iperf_test" where
  "take_server_output j test =
     (if test_role test = Some CHR ''c'' \<and> iperf_get_test_get_server_output test \<noteq> 0 then
        (case cJSON_GetObjectItem j ''server_output_json'' of
           Some out \<Rightarrow> test\<lparr>test_json_server_output := Some out\<rparr>
         | None \<Rightarrow> on_str j ''server_output_text'' (\<lambda>s. test_server_output_text_update (\<lambda>_. Some s)) test)
      else test)"

definition take_header :: "double \<times> double \<times> double \<Rightarrow> int \<Rightarrow> iperf_test \<Rightarrow> iperf_test" where
  "take_header util result_has_retransmits test =
     (let test = test\<lparr>test_remote_cpu_util := util\<rparr>
      in if test_mode test = RECEIVER
         then test\<lparr>test_sender_has_retransmits := result_has_retransmits, test_other_side_has_retransmits := 0\<rparr>
         else if test_mode test = BIDIRECTIONAL then test\<lparr>test_other_side_has_retransmits := result_has_retransmits\<rparr>
         else test)"

definition take_results :: "cjson \<Rightarrow> ('z world_scheme, int) state" where
  "take_results j =
     (case (get_double j ''cpu_util_total'', get_double j ''cpu_util_user'', get_double j ''cpu_util_system'',
            get_int j ''sender_has_retransmits'') of
        (Some tot, Some user, Some system, Some h) \<Rightarrow> do {
          _ \<leftarrow> update_state (the_test_update (take_header (tot, user, system) (to_int h)));
          case iperf_cJSON_GetObjectItemType j ''streams'' Expect_array of
            Some (JArray js) \<Rightarrow> do {
              r \<leftarrow> take_streams js 0;
              _ \<leftarrow> update_state (the_test_update (take_server_output j));
              State_Monad.return r }
          | _ \<Rightarrow> fail IERECVRESULTS }
      | _ \<Rightarrow> fail IERECVRESULTS)"

definition get_results :: "('z world_scheme, int) state" where
  "get_results = do {
     test \<leftarrow> reads the_test;
     jo \<leftarrow> JSON_read (test_ctrl_sck test) 0;
     case jo of
       None \<Rightarrow> fail IERECVRESULTS
     | Some j \<Rightarrow> do {
         r \<leftarrow> take_results j;
         _ \<leftarrow> update_state (the_test_update (on_str j ''congestion_used'' (\<lambda>s. test_remote_congestion_used_update (\<lambda>_. Some s))));
         State_Monad.return r } }"

definition iperf_exchange_results :: "('z world_scheme, int) state" where
  "iperf_exchange_results = do {
     test \<leftarrow> reads the_test;
     if test_role test = Some CHR ''c'' then do {
       r \<leftarrow> send_results;
       if r < 0 then State_Monad.return (- 1)
       else do { r \<leftarrow> get_results; State_Monad.return (if r < 0 then - 1 else 0) } }
     else do {
       r \<leftarrow> get_results;
       if r < 0 then State_Monad.return (- 1)
       else do { r \<leftarrow> send_results; State_Monad.return (if r < 0 then - 1 else 0) } } }"


end
