(* ===== verification/Params_Correct.thy ===== *)
theory Params_Correct
  imports Params Net_Correct
begin

text \<open>
  The exchange of parameters: what the client writes onto the control connection is what the server
  takes over, and the limits that the server puts on it.
\<close>

section \<open>Values that survive exactly\<close>

fun exact_value :: "cjson \<Rightarrow> bool" where
  "exact_value (JNumber d) = (finite_double d \<and> d = fl64 (of_int (valueint d)))"
| "exact_value (JString s) = (NUL \<notin> set s)"
| "exact_value (JBool b) = True"
| "exact_value JNull = True"
| "exact_value _ = False"

lemma exact_scalar: "exact_value j \<Longrightarrow> printable n j" "exact_value j \<Longrightarrow> same_json j j' \<Longrightarrow> j' = j"
  by (cases j; auto simp: same_number_def split: cjson.splits)+

text \<open>An object of such values is read back as it was.\<close>

lemma exact_object:
  assumes "\<forall>(k, v)\<in>set ms. NUL \<notin> set k \<and> exact_value v"
  shows "\<exists>t. cJSON_PrintUnformatted (JObject ms) = Some t \<and> cJSON_Parse t = Some (JObject ms)"
proof -
  have "printable_members n ms" for n
    using assms by (induction ms) (auto simp: exact_scalar)
  then have "printable CJSON_NESTING_LIMIT (JObject ms)" by simp
  then obtain t j' where t: "print_value False 0 (JObject ms) = Some t" "cJSON_Parse t = Some j'" "same_json (JObject ms) j'"
    using json_reads by blast
  have "same_members ms ns \<Longrightarrow> ns = ms" for ns
    using assms by (induction ms arbitrary: ns) (auto dest: exact_scalar(2) split: list.splits)
  then show ?thesis
    using t by (auto simp: cJSON_PrintUnformatted_def split: cjson.splits)
qed

lemma small_int_double:
  assumes "\<bar>i\<bar> \<le> 2 ^ 53"
  shows "exact_value (JNumber (fl64 (of_int i)))" and "valueint (fl64 (of_int i)) = i"
proof -
  show v: "valueint (fl64 (of_int i)) = i" by (rule valueint_exact [OF assms])
  have f: "fl64 (of_int i) = of_int i" using assms by (simp add: fl64_int)
  have "\<bar>of_int i :: rat\<bar> \<le> of_int (2 ^ 53)" using assms by (metis of_int_abs of_int_le_iff)
  moreover have "(10 :: rat) powi 20 \<le> 10 powi 309" "(10 :: rat) powi - 330 \<le> 10 powi 0"
    by (rule power_int_increasing; simp)+
  moreover have "i = 0 \<or> 1 \<le> \<bar>of_int i :: rat\<bar>" by (cases "i = 0") (simp_all add: abs_if)
  ultimately have "i = 0 \<or> 10 powi - 330 \<le> \<bar>of_int i :: rat\<bar> \<and> \<bar>of_int i :: rat\<bar> < 10 powi 309"
    by (auto simp del: power_int_numeral simp: power_int_def [of _ 20])
  then show "exact_value (JNumber (fl64 (of_int i)))"
    using is_double_fl64 [of "of_int i"] v f by (auto simp: finite_double_def)
qed

section \<open>Looking the parameters up\<close>

lemma lookup_simps:
  "cJSON_GetObjectItem (JObject []) k = None"
  "cJSON_GetObjectItem (JObject ((n, v) # ms)) k = (if strcaseeq k n then Some v else cJSON_GetObjectItem (JObject ms) k)"
  "cJSON_GetObjectItem (JObject (member_if b n v @ ms)) k
    = (if b \<and> strcaseeq k n then Some v else cJSON_GetObjectItem (JObject ms) k)"
  "cJSON_GetObjectItem (JObject ((if b then l else []) @ ms)) k
    = (if b then cJSON_GetObjectItem (JObject (l @ ms)) k else cJSON_GetObjectItem (JObject ms) k)"
  by (auto simp: member_if_def)

lemma strcaseeq_simps:
  "strcaseeq [] []" "\<not> strcaseeq (c # s) []" "\<not> strcaseeq [] (d # t)"
  "strcaseeq (c # s) (d # t) \<longleftrightarrow> to_lower c = to_lower d \<and> strcaseeq s t"
  by (simp_all add: strcaseeq_def)

lemma lower_chars:
  "to_lower CHR ''4'' = CHR ''4''"
  "to_lower CHR ''6'' = CHR ''6''"
  "to_lower CHR ''M'' = CHR ''m''"
  "to_lower CHR ''O'' = CHR ''o''"
  "to_lower CHR ''S'' = CHR ''s''"
  "to_lower CHR ''T'' = CHR ''t''"
  "to_lower CHR ''_'' = CHR ''_''"
  "to_lower CHR ''a'' = CHR ''a''"
  "to_lower CHR ''b'' = CHR ''b''"
  "to_lower CHR ''c'' = CHR ''c''"
  "to_lower CHR ''d'' = CHR ''d''"
  "to_lower CHR ''e'' = CHR ''e''"
  "to_lower CHR ''f'' = CHR ''f''"
  "to_lower CHR ''g'' = CHR ''g''"
  "to_lower CHR ''h'' = CHR ''h''"
  "to_lower CHR ''i'' = CHR ''i''"
  "to_lower CHR ''k'' = CHR ''k''"
  "to_lower CHR ''l'' = CHR ''l''"
  "to_lower CHR ''m'' = CHR ''m''"
  "to_lower CHR ''n'' = CHR ''n''"
  "to_lower CHR ''o'' = CHR ''o''"
  "to_lower CHR ''p'' = CHR ''p''"
  "to_lower CHR ''q'' = CHR ''q''"
  "to_lower CHR ''r'' = CHR ''r''"
  "to_lower CHR ''s'' = CHR ''s''"
  "to_lower CHR ''t'' = CHR ''t''"
  "to_lower CHR ''u'' = CHR ''u''"
  "to_lower CHR ''v'' = CHR ''v''"
  "to_lower CHR ''w'' = CHR ''w''"
  "to_lower CHR ''x'' = CHR ''x''"
  "to_lower CHR ''y'' = CHR ''y''"
  "to_lower CHR ''z'' = CHR ''z''"
  by (simp_all add: to_lower_def is_upper_def char_code_def) code_simp+

declare cJSON_GetObjectItem.simps [simp del] find_append [simp del]

lemmas lookup = parameters_def parameters1_def parameters2_def Let_def lookup_simps strcaseeq_simps append_assoc lower_chars

lemma lookup_protocol:
  "cJSON_GetObjectItem (parameters t) ''tcp'' = (if protocol_is Ptcp t then Some (JBool True) else None)"
  "cJSON_GetObjectItem (parameters t) ''udp'' = (if \<not> protocol_is Ptcp t \<and> protocol_is Pudp t then Some (JBool True) else None)"
  "cJSON_GetObjectItem (parameters t) ''sctp'' = (if \<not> protocol_is Ptcp t \<and> \<not> protocol_is Pudp t \<and> protocol_is Psctp t then Some (JBool True) else None)"
  by (simp_all add: lookup)

lemma lookup_amounts:
  "cJSON_GetObjectItem (parameters t) ''omit'' = Some (jint (test_omit t))"
  "cJSON_GetObjectItem (parameters t) ''server_affinity'' = (if test_server_affinity t \<noteq> - 1 then Some (jint (test_server_affinity t)) else None)"
  "cJSON_GetObjectItem (parameters t) ''time'' = Some (jint (test_duration t))"
  "cJSON_GetObjectItem (parameters t) ''num'' = Some (ju64 (cfg_bytes (test_settings t)))"
  "cJSON_GetObjectItem (parameters t) ''blockcount'' = Some (ju64 (cfg_blocks (test_settings t)))"
  "cJSON_GetObjectItem (parameters t) ''MSS'' = (if cfg_mss (test_settings t) \<noteq> 0 then Some (jint (cfg_mss (test_settings t))) else None)"
  "cJSON_GetObjectItem (parameters t) ''nodelay'' = (if test_no_delay t \<noteq> 0 then Some (JBool True) else None)"
  "cJSON_GetObjectItem (parameters t) ''parallel'' = Some (jint (test_num_streams t))"
  "cJSON_GetObjectItem (parameters t) ''reverse'' = (if test_reverse t \<noteq> 0 then Some (JBool True) else None)"
  "cJSON_GetObjectItem (parameters t) ''bidirectional'' = (if test_bidirectional t \<noteq> 0 then Some (JBool True) else None)"
  by (simp_all add: lookup)

lemma lookup_sizes:
  "cJSON_GetObjectItem (parameters t) ''window'' = (if cfg_socket_bufsize (test_settings t) \<noteq> 0 then Some (jint (cfg_socket_bufsize (test_settings t))) else None)"
  "cJSON_GetObjectItem (parameters t) ''len'' = (if cfg_blksize (test_settings t) \<noteq> 0 then Some (jint (cfg_blksize (test_settings t))) else None)"
  "cJSON_GetObjectItem (parameters t) ''gso'' = (if protocol_is Pudp t then Some (jint (cfg_gso (test_settings t))) else None)"
  "cJSON_GetObjectItem (parameters t) ''gso_dg_size'' = (if protocol_is Pudp t then Some (jint (cfg_gso_dg_size (test_settings t))) else None)"
  "cJSON_GetObjectItem (parameters t) ''gso_bf_size'' = (if protocol_is Pudp t then Some (jint (cfg_gso_bf_size (test_settings t))) else None)"
  "cJSON_GetObjectItem (parameters t) ''gro'' = (if protocol_is Pudp t then Some (jint (cfg_gro (test_settings t))) else None)"
  "cJSON_GetObjectItem (parameters t) ''gro_bf_size'' = (if protocol_is Pudp t then Some (jint (cfg_gro_bf_size (test_settings t))) else None)"
  "cJSON_GetObjectItem (parameters t) ''bandwidth'' = (if cfg_rate (test_settings t) \<noteq> 0 then Some (ju64 (cfg_rate (test_settings t))) else None)"
  "cJSON_GetObjectItem (parameters t) ''fqrate'' = (if cfg_fqrate (test_settings t) \<noteq> 0 then Some (ju64 (cfg_fqrate (test_settings t))) else None)"
  "cJSON_GetObjectItem (parameters t) ''pacing_timer'' = (if cfg_pacing_timer (test_settings t) \<noteq> 0 then Some (jint (cfg_pacing_timer (test_settings t))) else None)"
  "cJSON_GetObjectItem (parameters t) ''burst'' = (if cfg_burst (test_settings t) \<noteq> 0 then Some (jint (cfg_burst (test_settings t))) else None)"
  "cJSON_GetObjectItem (parameters t) ''TOS'' = (if cfg_tos (test_settings t) \<noteq> 0 then Some (jint (cfg_tos (test_settings t))) else None)"
  "cJSON_GetObjectItem (parameters t) ''flowlabel'' = (if cfg_flowlabel (test_settings t) \<noteq> 0 then Some (jint (cfg_flowlabel (test_settings t))) else None)"
  by (simp_all add: lookup)

lemma lookup_options:
  "cJSON_GetObjectItem (parameters t) ''title'' = (if test_title t \<noteq> None then Some (jstr (test_title t)) else None)"
  "cJSON_GetObjectItem (parameters t) ''extra_data'' = (if test_extra_data t \<noteq> None then Some (jstr (test_extra_data t)) else None)"
  "cJSON_GetObjectItem (parameters t) ''congestion'' = (if test_congestion t \<noteq> None then Some (jstr (test_congestion t)) else None)"
  "cJSON_GetObjectItem (parameters t) ''congestion_used'' = (if test_congestion_used t \<noteq> None then Some (jstr (test_congestion_used t)) else None)"
  "cJSON_GetObjectItem (parameters t) ''get_server_output'' = (if test_get_server_output t \<noteq> 0 then Some (jint (iperf_get_test_get_server_output t)) else None)"
  "cJSON_GetObjectItem (parameters t) ''udp_counters_64bit'' = (if test_udp_counters_64bit t \<noteq> 0 then Some (jint (iperf_get_test_udp_counters_64bit t)) else None)"
  "cJSON_GetObjectItem (parameters t) ''repeating_payload'' = (if test_repeating_payload t \<noteq> 0 then Some (jint (test_repeating_payload t)) else None)"
  "cJSON_GetObjectItem (parameters t) ''zerocopy'' = (if test_zerocopy t \<noteq> 0 then Some (jint (test_zerocopy t)) else None)"
  "cJSON_GetObjectItem (parameters t) ''dont_fragment'' = (if cfg_dont_fragment (test_settings t) \<noteq> 0 then Some (jint (cfg_dont_fragment (test_settings t))) else None)"
  "cJSON_GetObjectItem (parameters t) ''skip_rx_copy'' = (if cfg_skip_rx_copy (test_settings t) \<noteq> 0 then Some (jint (cfg_skip_rx_copy (test_settings t))) else None)"
  by (simp_all add: lookup)

section \<open>What arrives\<close>

definition int32 :: "int \<Rightarrow> bool" where
  "int32 i \<longleftrightarrow> - 2147483648 \<le> i \<and> i < 2147483648"

text \<open>
  A test whose settings can be sent: the members of type \<open>int\<close> have 32 bits, strings end at their
  NUL, and the amounts of data and the rates are numbers that a double holds exactly.
\<close>

definition sendable :: "iperf_test \<Rightarrow> bool" where
  "sendable t \<longleftrightarrow>
     (let cfg = test_settings t
      in list_all int32 [test_omit t, test_server_affinity t, test_duration t, cfg_mss cfg, test_num_streams t,
           cfg_socket_bufsize cfg, cfg_blksize cfg, cfg_pacing_timer cfg, cfg_burst cfg, cfg_gso cfg, cfg_gso_dg_size cfg,
           cfg_gso_bf_size cfg, cfg_gro cfg, cfg_gro_bf_size cfg, cfg_tos cfg, cfg_flowlabel cfg, test_get_server_output t,
           test_udp_counters_64bit t, test_repeating_payload t, test_zerocopy t, cfg_dont_fragment cfg, cfg_skip_rx_copy cfg]
       \<and> list_all (\<lambda>w. unat w \<le> 2 ^ 53) [cfg_bytes cfg, cfg_blocks cfg, cfg_rate cfg, cfg_fqrate cfg]
       \<and> list_all (\<lambda>s. case s of None \<Rightarrow> True | Some x \<Rightarrow> NUL \<notin> set x)
           [test_title t, test_extra_data t, test_congestion t, test_congestion_used t])"

lemma to_int_id [simp]: "int32 i \<Longrightarrow> to_int i = i"
  by (simp add: int32_def to_int_def signed_of_int signed_take_bit_int_eq_self)

lemma jint_sent:
  assumes "int32 i"
  shows "exact_value (jint i)" and "has_type Expect_number (jint i)" and "\<exists>d. jint i = JNumber d \<and> valueint d = i"
proof -
  have "\<bar>i\<bar> \<le> 2 ^ 53" using assms by (simp add: int32_def abs_le_iff)
  from small_int_double [OF this]
  show "exact_value (jint i)" "has_type Expect_number (jint i)" "\<exists>d. jint i = JNumber d \<and> valueint d = i"
    by (simp_all add: jint_def)
qed

lemma ju64_sent:
  assumes "unat w \<le> 2 ^ 53"
  shows "exact_value (ju64 w)" and "has_type Expect_number (ju64 w)" and "\<exists>d. ju64 w = JNumber d \<and> valueint d = uint w"
proof -
  have "int (unat w) \<le> int (2 ^ 53)" using assms by (simp only: of_nat_le_iff)
  then have "\<bar>uint w\<bar> \<le> 2 ^ 53" by (simp only: uint_nat abs_of_nat of_nat_power of_nat_numeral)
  from small_int_double [OF this]
  show "exact_value (ju64 w)" "has_type Expect_number (ju64 w)" "\<exists>d. ju64 w = JNumber d \<and> valueint d = uint w"
    by (simp_all add: ju64_def u64_to_double_def)
qed

lemma jstr_sent: "exact_value (jstr s) \<longleftrightarrow> (case s of None \<Rightarrow> True | Some x \<Rightarrow> NUL \<notin> set x)"
  by (auto simp: jstr_def split: option.splits)

lemma parameters_exact:
  assumes "sendable t"
  shows "\<exists>text. cJSON_PrintUnformatted (parameters t) = Some text \<and> cJSON_Parse text = Some (parameters t)"
  unfolding parameters_def
proof (rule exact_object)
  show "\<forall>(k, v)\<in>set (parameters1 t @ parameters2 t). NUL \<notin> set k \<and> exact_value v"
    using assms
    by (auto simp: sendable_def parameters1_def parameters2_def member_if_def Let_def jint_sent ju64_sent jstr_sent
        iperf_get_test_get_server_output_def iperf_get_test_udp_counters_64bit_def)
qed

lemma on_int_sent:
  "cJSON_GetObjectItem j k = None \<Longrightarrow> on_int j k f t = t"
  "cJSON_GetObjectItem j k = Some (jint i) \<Longrightarrow> int32 i \<Longrightarrow> on_int j k f t = f i t"
  "cJSON_GetObjectItem j k = Some (ju64 w) \<Longrightarrow> unat w \<le> 2 ^ 53 \<Longrightarrow> on_int j k f t = f (uint w) t"
  "cJSON_GetObjectItem j k = (if b then Some (jint i) else None) \<Longrightarrow> int32 i \<Longrightarrow> on_int j k f t = (if b then f i t else t)"
  "cJSON_GetObjectItem j k = (if b then Some (ju64 w) else None) \<Longrightarrow> unat w \<le> 2 ^ 53
    \<Longrightarrow> on_int j k f t = (if b then f (uint w) t else t)"
  "on_cfg j k g t = on_int j k (\<lambda>v. test_settings_update (g v)) t"
  using jint_sent [of i] ju64_sent [of w]
  by (auto simp: on_int_def on_cfg_def get_int_def iperf_cJSON_GetObjectItemType_def)

lemma on_str_sent:
  "cJSON_GetObjectItem j k = (if s \<noteq> None then Some (jstr s) else None) \<Longrightarrow> on_str j k f t = (case s of None \<Rightarrow> t | Some x \<Rightarrow> f x t)"
  by (auto simp: on_str_def get_string_def iperf_cJSON_GetObjectItemType_def jstr_def split: option.splits)

lemma on_true_sent:
  "cJSON_GetObjectItem j k = (if b then Some (JBool True) else None) \<Longrightarrow> on_true j k f t = (if b then f t else t)"
  "cJSON_GetObjectItem j k = (if b then Some (JBool True) else None) \<Longrightarrow> has_member j k Expect_bool = b"
  by (auto simp: on_true_def has_member_def iperf_cJSON_GetObjectItemType_def)

text \<open>A setting that is sent only if it is not zero, or only if there is one.\<close>

definition sent_or :: "'a :: zero \<Rightarrow> 'a \<Rightarrow> 'a" where
  "sent_or x y = (if x \<noteq> 0 then x else y)"

lemma sent_or_fun: "sent_or x = (\<lambda>y. if x \<noteq> 0 then x else y)"
  by (auto simp: sent_or_def)

definition given_or :: "'a option \<Rightarrow> 'a option \<Rightarrow> 'a option" where
  "given_or x y = (if x \<noteq> None then x else y)"

definition merged_settings :: "bool \<Rightarrow> iperf_settings \<Rightarrow> iperf_settings \<Rightarrow> iperf_settings" where
  "merged_settings udp c s = s\<lparr>
     cfg_bytes := cfg_bytes c, cfg_blocks := cfg_blocks c, cfg_mss := sent_or (cfg_mss c) (cfg_mss s),
     cfg_socket_bufsize := sent_or (cfg_socket_bufsize c) (cfg_socket_bufsize s),
     cfg_blksize := sent_or (cfg_blksize c) (cfg_blksize s),
     cfg_gso := (if udp then cfg_gso c else cfg_gso s), cfg_gso_dg_size := (if udp then cfg_gso_dg_size c else cfg_gso_dg_size s),
     cfg_gso_bf_size := (if udp then cfg_gso_bf_size c else cfg_gso_bf_size s),
     cfg_gro := (if udp then cfg_gro c else cfg_gro s), cfg_gro_bf_size := (if udp then cfg_gro_bf_size c else cfg_gro_bf_size s),
     cfg_rate := sent_or (cfg_rate c) (cfg_rate s), cfg_fqrate := sent_or (cfg_fqrate c) (cfg_fqrate s),
     cfg_pacing_timer := sent_or (cfg_pacing_timer c) (cfg_pacing_timer s), cfg_burst := sent_or (cfg_burst c) (cfg_burst s),
     cfg_tos := sent_or (cfg_tos c) (cfg_tos s), cfg_flowlabel := sent_or (cfg_flowlabel c) (cfg_flowlabel s),
     cfg_dont_fragment := sent_or (cfg_dont_fragment c) (cfg_dont_fragment s),
     cfg_skip_rx_copy := sent_or (cfg_skip_rx_copy c) (cfg_skip_rx_copy s)\<rparr>"

definition merged :: "iperf_test \<Rightarrow> iperf_test \<Rightarrow> iperf_test" where
  "merged c s = s\<lparr>
     test_omit := test_omit c, test_duration := test_duration c, test_num_streams := test_num_streams c,
     test_server_affinity := (if test_server_affinity c \<noteq> - 1 then test_server_affinity c else test_server_affinity s),
     test_no_delay := (if test_no_delay c \<noteq> 0 then 1 else test_no_delay s),
     test_reverse := (if test_reverse c \<noteq> 0 then 1 else test_reverse s),
     test_bidirectional := (if test_bidirectional c \<noteq> 0 then 1 else test_bidirectional s),
     test_mode := (if test_bidirectional c \<noteq> 0 then BIDIRECTIONAL else if test_reverse c \<noteq> 0 then SENDER else test_mode s),
     test_sender_has_retransmits := (if test_reverse c \<noteq> 0 then 0 else test_sender_has_retransmits s),
     test_title := given_or (test_title c) (test_title s), test_extra_data := given_or (test_extra_data c) (test_extra_data s),
     test_congestion := given_or (test_congestion c) (test_congestion s),
     test_congestion_used := given_or (test_congestion_used c) (test_congestion_used s),
     test_get_server_output := (if test_get_server_output c \<noteq> 0 then 1 else test_get_server_output s),
     test_udp_counters_64bit := (if test_udp_counters_64bit c \<noteq> 0 then 1 else test_udp_counters_64bit s),
     test_repeating_payload := (if test_repeating_payload c \<noteq> 0 then 1 else test_repeating_payload s),
     test_zerocopy := sent_or (test_zerocopy c) (test_zerocopy s),
     test_settings := merged_settings (protocol_is Pudp c) (test_settings c) (test_settings s)\<rparr>"

text \<open>Each step takes one member over; written as one update, whether the member was sent or not.\<close>

lemma take_amounts_steps:
  assumes "sendable c"
  shows
    "on_int (parameters c) ''omit'' (\<lambda>v. test_omit_update (\<lambda>_. to_int v)) t = test_omit_update (\<lambda>_. test_omit c) t"
    "on_int (parameters c) ''server_affinity'' (\<lambda>v. test_server_affinity_update (\<lambda>_. to_int v)) t = test_server_affinity_update (\<lambda>x. if test_server_affinity c \<noteq> - 1 then test_server_affinity c else x) t"
    "on_int (parameters c) ''time'' (\<lambda>v. test_duration_update (\<lambda>_. to_int v)) t = test_duration_update (\<lambda>_. test_duration c) t"
    "on_cfg (parameters c) ''num'' (\<lambda>v. cfg_bytes_update (\<lambda>_. word_of_int v)) t
      = test_settings_update (cfg_bytes_update (\<lambda>_. cfg_bytes (test_settings c))) t"
    "on_cfg (parameters c) ''blockcount'' (\<lambda>v. cfg_blocks_update (\<lambda>_. word_of_int v)) t
      = test_settings_update (cfg_blocks_update (\<lambda>_. cfg_blocks (test_settings c))) t"
    "on_cfg (parameters c) ''MSS'' (\<lambda>v. cfg_mss_update (\<lambda>_. to_int v)) t
      = test_settings_update (cfg_mss_update (sent_or (cfg_mss (test_settings c)))) t"
    "on_int (parameters c) ''parallel'' (\<lambda>v. test_num_streams_update (\<lambda>_. to_int v)) t = test_num_streams_update (\<lambda>_. test_num_streams c) t"
  using assms by (simp_all add: sendable_def Let_def on_int_sent lookup_amounts sent_or_fun iperf_get_test_get_server_output_def
      iperf_get_test_udp_counters_64bit_def iperf_set_test_get_server_output_def iperf_set_test_udp_counters_64bit_def)

lemma take_sizes_steps:
  assumes "sendable c"
  shows
    "on_cfg (parameters c) ''window'' (\<lambda>v. cfg_socket_bufsize_update (\<lambda>_. to_int v)) t
      = test_settings_update (cfg_socket_bufsize_update (sent_or (cfg_socket_bufsize (test_settings c)))) t"
    "on_cfg (parameters c) ''len'' (\<lambda>v. cfg_blksize_update (\<lambda>_. to_int v)) t
      = test_settings_update (cfg_blksize_update (sent_or (cfg_blksize (test_settings c)))) t"
    "on_cfg (parameters c) ''gso'' (\<lambda>v. cfg_gso_update (\<lambda>_. to_int v)) t
      = test_settings_update (cfg_gso_update (\<lambda>x. if protocol_is Pudp c then cfg_gso (test_settings c) else x)) t"
    "on_cfg (parameters c) ''gso_dg_size'' (\<lambda>v. cfg_gso_dg_size_update (\<lambda>_. to_int v)) t
      = test_settings_update (cfg_gso_dg_size_update (\<lambda>x. if protocol_is Pudp c then cfg_gso_dg_size (test_settings c) else x)) t"
    "on_cfg (parameters c) ''gso_bf_size'' (\<lambda>v. cfg_gso_bf_size_update (\<lambda>_. to_int v)) t
      = test_settings_update (cfg_gso_bf_size_update (\<lambda>x. if protocol_is Pudp c then cfg_gso_bf_size (test_settings c) else x)) t"
    "on_cfg (parameters c) ''gro'' (\<lambda>v. cfg_gro_update (\<lambda>_. to_int v)) t
      = test_settings_update (cfg_gro_update (\<lambda>x. if protocol_is Pudp c then cfg_gro (test_settings c) else x)) t"
    "on_cfg (parameters c) ''gro_bf_size'' (\<lambda>v. cfg_gro_bf_size_update (\<lambda>_. to_int v)) t
      = test_settings_update (cfg_gro_bf_size_update (\<lambda>x. if protocol_is Pudp c then cfg_gro_bf_size (test_settings c) else x)) t"
    "on_cfg (parameters c) ''bandwidth'' (\<lambda>v. cfg_rate_update (\<lambda>_. word_of_int v)) t
      = test_settings_update (cfg_rate_update (sent_or (cfg_rate (test_settings c)))) t"
    "on_cfg (parameters c) ''fqrate'' (\<lambda>v. cfg_fqrate_update (\<lambda>_. word_of_int v)) t
      = test_settings_update (cfg_fqrate_update (sent_or (cfg_fqrate (test_settings c)))) t"
    "on_cfg (parameters c) ''pacing_timer'' (\<lambda>v. cfg_pacing_timer_update (\<lambda>_. to_int v)) t
      = test_settings_update (cfg_pacing_timer_update (sent_or (cfg_pacing_timer (test_settings c)))) t"
    "on_cfg (parameters c) ''burst'' (\<lambda>v. cfg_burst_update (\<lambda>_. to_int v)) t
      = test_settings_update (cfg_burst_update (sent_or (cfg_burst (test_settings c)))) t"
    "on_cfg (parameters c) ''TOS'' (\<lambda>v. cfg_tos_update (\<lambda>_. to_int v)) t
      = test_settings_update (cfg_tos_update (sent_or (cfg_tos (test_settings c)))) t"
    "on_cfg (parameters c) ''flowlabel'' (\<lambda>v. cfg_flowlabel_update (\<lambda>_. to_int v)) t
      = test_settings_update (cfg_flowlabel_update (sent_or (cfg_flowlabel (test_settings c)))) t"
  using assms by (simp_all add: sendable_def Let_def on_int_sent lookup_sizes sent_or_fun iperf_get_test_get_server_output_def
      iperf_get_test_udp_counters_64bit_def iperf_set_test_get_server_output_def iperf_set_test_udp_counters_64bit_def)

lemma take_options_steps:
  assumes "sendable c"
  shows
    "on_int (parameters c) ''zerocopy'' (\<lambda>v. test_zerocopy_update (\<lambda>_. to_int v)) t = test_zerocopy_update (sent_or (test_zerocopy c)) t"
    "on_cfg (parameters c) ''dont_fragment'' (\<lambda>v. cfg_dont_fragment_update (\<lambda>_. to_int v)) t
      = test_settings_update (cfg_dont_fragment_update (sent_or (cfg_dont_fragment (test_settings c)))) t"
    "on_int (parameters c) ''get_server_output'' (\<lambda>_ t. iperf_set_test_get_server_output t 1) t = test_get_server_output_update (\<lambda>x. if test_get_server_output c \<noteq> 0 then 1 else x) t"
    "on_int (parameters c) ''udp_counters_64bit'' (\<lambda>_ t. iperf_set_test_udp_counters_64bit t 1) t = test_udp_counters_64bit_update (\<lambda>x. if test_udp_counters_64bit c \<noteq> 0 then 1 else x) t"
    "on_int (parameters c) ''repeating_payload'' (\<lambda>_. test_repeating_payload_update (\<lambda>_. 1)) t = test_repeating_payload_update (\<lambda>x. if test_repeating_payload c \<noteq> 0 then 1 else x) t"
  using assms by (simp_all add: sendable_def Let_def on_int_sent lookup_options sent_or_fun iperf_get_test_get_server_output_def
      iperf_get_test_udp_counters_64bit_def iperf_set_test_get_server_output_def iperf_set_test_udp_counters_64bit_def)

lemma take_string_steps:
  "on_str (parameters c) ''title'' (\<lambda>s. test_title_update (\<lambda>_. Some s)) t = test_title_update (given_or (test_title c)) t"
  "on_str (parameters c) ''extra_data'' (\<lambda>s. test_extra_data_update (\<lambda>_. Some s)) t = test_extra_data_update (given_or (test_extra_data c)) t"
  "on_str (parameters c) ''congestion'' (\<lambda>s. test_congestion_update (\<lambda>_. Some s)) t = test_congestion_update (given_or (test_congestion c)) t"
  "on_str (parameters c) ''congestion_used'' (\<lambda>s. test_congestion_used_update (\<lambda>_. Some s)) t = test_congestion_used_update (given_or (test_congestion_used c)) t"
  by (auto simp: on_str_sent [OF lookup_options(1)] on_str_sent [OF lookup_options(2)] on_str_sent [OF lookup_options(3)]
      on_str_sent [OF lookup_options(4)] given_or_def split: option.splits)

lemma derive_gso_idle:
  "protocol_is Pudp t \<longrightarrow> cfg_gso (test_settings t) = 1 \<longrightarrow> cfg_gso_dg_size (test_settings t) \<noteq> 0 \<Longrightarrow> derive_gso t = t"
  by (auto simp: derive_gso_def Let_def)

lemma protocol_is_settings [simp]: "protocol_is p (test_settings_update f t) = protocol_is p t"
  by (simp add: protocol_is_def)

lemma take_mode:
  assumes "test_role t = Some CHR ''s''"
  shows "on_true (parameters c) ''bidirectional'' (\<lambda>t. iperf_set_test_bidirectional t 1)
      (on_true (parameters c) ''reverse'' (\<lambda>t. iperf_set_test_reverse t 1) t)
    = t\<lparr>test_reverse := (if test_reverse c \<noteq> 0 then 1 else test_reverse t),
        test_bidirectional := (if test_bidirectional c \<noteq> 0 then 1 else test_bidirectional t),
        test_mode := (if test_bidirectional c \<noteq> 0 then BIDIRECTIONAL else if test_reverse c \<noteq> 0 then SENDER else test_mode t),
        test_sender_has_retransmits := (if test_reverse c \<noteq> 0 then 0 else test_sender_has_retransmits t)\<rparr>"
  using assms
  by (simp add: on_true_sent(1) [OF lookup_amounts(9)] on_true_sent(1) [OF lookup_amounts(10)] iperf_set_test_reverse_def
      iperf_set_test_bidirectional_def check_sender_has_retransmits_def has_tcpinfo_retransmits_def Let_def)

lemma take_sizes_sent:
  assumes "sendable c" and "protocol_is Pudp t = protocol_is Pudp c"
    and "protocol_is Pudp c \<longrightarrow> cfg_gso (test_settings c) = 1 \<longrightarrow> cfg_gso_dg_size (test_settings c) \<noteq> 0"
  shows "take_sizes (parameters c) t = t\<lparr>test_settings := (merged_settings (protocol_is Pudp c) (test_settings c) (test_settings t))\<lparr>
    cfg_bytes := cfg_bytes (test_settings t), cfg_blocks := cfg_blocks (test_settings t), cfg_mss := cfg_mss (test_settings t),
    cfg_dont_fragment := cfg_dont_fragment (test_settings t), cfg_skip_rx_copy := cfg_skip_rx_copy (test_settings t)\<rparr>\<rparr>"
  using assms(2,3)
  by (cases "protocol_is Pudp c")
    (simp_all add: take_sizes_def Let_def take_sizes_steps [OF assms(1)] merged_settings_def derive_gso_idle)

lemma take_options_sent:
  assumes "sendable c"
  shows "take_options (parameters c) t = t\<lparr>
     test_title := given_or (test_title c) (test_title t), test_extra_data := given_or (test_extra_data c) (test_extra_data t),
     test_congestion := given_or (test_congestion c) (test_congestion t),
     test_congestion_used := given_or (test_congestion_used c) (test_congestion_used t),
     test_get_server_output := (if test_get_server_output c \<noteq> 0 then 1 else test_get_server_output t),
     test_udp_counters_64bit := (if test_udp_counters_64bit c \<noteq> 0 then 1 else test_udp_counters_64bit t),
     test_repeating_payload := (if test_repeating_payload c \<noteq> 0 then 1 else test_repeating_payload t),
     test_zerocopy := sent_or (test_zerocopy c) (test_zerocopy t),
     test_settings := (test_settings t)\<lparr>cfg_dont_fragment := sent_or (cfg_dont_fragment (test_settings c)) (cfg_dont_fragment (test_settings t)),
       cfg_skip_rx_copy := sent_or (cfg_skip_rx_copy (test_settings c)) (cfg_skip_rx_copy (test_settings t))\<rparr>\<rparr>"
proof -
  have i: "int32 (cfg_skip_rx_copy (test_settings c))"
    using assms by (simp add: sendable_def Let_def)
  then have "any_valueint (jint (cfg_skip_rx_copy (test_settings c))) = cfg_skip_rx_copy (test_settings c)"
    using jint_sent(3) [OF i] by (auto simp: any_valueint_def)
  then show ?thesis
    using i by (simp add: take_options_def Let_def take_options_steps [OF assms] take_string_steps lookup_options(10) sent_or_fun)
qed

lemma apply_parameters_merged:
  assumes "sendable c" and "test_role s = Some CHR ''s''" and "protocol_is Pudp s = protocol_is Pudp c"
    and "protocol_is Pudp c \<longrightarrow> cfg_gso (test_settings c) = 1 \<longrightarrow> cfg_gso_dg_size (test_settings c) \<noteq> 0"
  shows "apply_parameters (parameters c) s = note_rate (merged c s)"
proof -
  have amounts: "take_amounts (parameters c) s = (merged c s)\<lparr>
    test_title := test_title s, test_extra_data := test_extra_data s, test_congestion := test_congestion s,
    test_congestion_used := test_congestion_used s, test_get_server_output := test_get_server_output s,
    test_udp_counters_64bit := test_udp_counters_64bit s, test_repeating_payload := test_repeating_payload s,
    test_zerocopy := test_zerocopy s,
    test_settings := (test_settings s)\<lparr>cfg_bytes := cfg_bytes (test_settings c), cfg_blocks := cfg_blocks (test_settings c),
      cfg_mss := sent_or (cfg_mss (test_settings c)) (cfg_mss (test_settings s))\<rparr>\<rparr>"
    using assms(2)
    by (simp add: take_amounts_def Let_def take_amounts_steps [OF assms(1)] take_mode merged_def
        on_true_sent(1) [OF lookup_amounts(7)])
  have "protocol_is Pudp (take_amounts (parameters c) s) = protocol_is Pudp c"
    using assms(3) by (simp add: amounts protocol_is_def merged_def)
  note sizes = take_sizes_sent [OF assms(1) this assms(4)]
  show ?thesis
    unfolding apply_parameters_def sizes take_options_sent [OF assms(1)]
    unfolding amounts
    by (rule arg_cong [of _ _ note_rate]) (simp add: merged_def merged_settings_def cong: if_cong split del: if_split)
qed

section \<open>The limits of the server\<close>

text \<open>
  Both limits can be passed by a request that exceeds them: the product of the number of streams and
  the rate wraps at 64 bits, and a negative time to omit, which the server accepts, is subtracted from
  the duration.
\<close>

lemma rate_limit_wraps:
  "\<exists>t. cfg_bitrate_limit (test_settings t) \<noteq> 0 \<and> test_mode t \<noteq> BIDIRECTIONAL
     \<and> test_num_streams t * uint (cfg_rate (test_settings t)) > uint (cfg_bitrate_limit (test_settings t))
     \<and> \<not> too_fast t (cfg_rate (test_settings t))"
  by (rule exI [of _ "zero_test\<lparr>test_num_streams := 2,
        test_settings := zero_settings\<lparr>cfg_bitrate_limit := 1, cfg_rate := 9223372036854775808\<rparr>\<rparr>"]) code_simp

lemma negative_omit_escapes_limit:
  "\<exists>t. 0 < test_max_server_duration t \<and> test_duration t > test_max_server_duration t \<and> \<not> too_long t"
  by (rule exI [of _ "zero_test\<lparr>test_max_server_duration := 60, test_duration := 3600, test_omit := - 3600\<rparr>"]) code_simp

end
