(* ===== verification/Params_Wire.thy ===== *)
theory Params_Wire
  imports Params_Correct Udp_Correct
begin

text \<open>
  The parameters on the wire: how a JSON value crosses the control connection, and the exchange of
  parameters from the client's settings to the server's.
\<close>

section \<open>One value\<close>

text \<open>A message: the length in network order and the text.\<close>

definition message :: "string \<Rightarrow> byte list" where
  "message text = be32 (of_nat (length text)) @ string_bytes text"

lemma bytes_of_string [simp]: "bytes_string (string_bytes s) = s" "length (string_bytes s) = length s"
proof -
  have "unat (of_nat (char_code c) :: byte) = char_code c" for c
    using of_char_mod_256 [of c] by (simp add: unat_of_nat char_code_def)
  then show "bytes_string (string_bytes s) = s" "length (string_bytes s) = length s"
    by (simp_all add: bytes_string_def string_bytes_def comp_def)
qed

lemma emits_JSON_write:
  assumes "cJSON_PrintUnformatted j = Some text" and "length text < 4294967296"
  shows "emits (JSON_write fd j) (\<lambda>r new. \<exists>n m. gather (accepts fd) new = take n (be32 (of_nat (length text))) @ take m (string_bytes text))"
proof -
  have l: "unat (of_nat (length text) :: u32) = length text"
    using assms(2) by (simp add: unat_of_nat)
  have run: "JSON_write fd j = do {
      r \<leftarrow> Nwrite fd (be32 (of_nat (length text))) Ptcp;
      if r < 0 then State_Monad.return (- 1)
      else do {
        r \<leftarrow> Nwrite fd (string_bytes text) Ptcp;
        State_Monad.return (if r < 0 then - 1 else 0) } }"
    by (simp add: JSON_write_def assms(1) l Let_def cong: if_cong)
  show ?thesis
    unfolding run
  proof (intro emits_rules emits_mono [OF emits_Nwrite], goal_cases)
    case (1 r new)
    then obtain n where "gather (accepts fd) new = take n (be32 (of_nat (length text)))" by blast
    then show ?case by (intro exI [of _ n] exI [of _ 0]) simp
  next
    case (2 r new r' new')
    then obtain n m where "gather (accepts fd) new = take n (be32 (of_nat (length text)))"
      "gather (accepts fd) new' = take m (string_bytes text)" by blast
    then show ?case by (intro exI [of _ n] exI [of _ m]) simp
  qed
qed

lemma emits_send_parameters:
  assumes "run_state send_parameters w = (r, w')" and "cJSON_PrintUnformatted (parameters (the_test w)) = Some t" and "length t < 4294967296"
  shows "\<exists>new n m. trace w' = new @ trace w
    \<and> gather (accepts (test_ctrl_sck (the_test w))) new = take n (be32 (of_nat (length t))) @ take m (string_bytes t)"
proof -
  have "emits (do { r \<leftarrow> JSON_write (test_ctrl_sck (the_test w)) (parameters (the_test w));
      if r < 0 then fail IESENDPARAMS else State_Monad.return 0 } :: ('a world_scheme, int) state)
    (\<lambda>r new. \<exists>n m. gather (accepts (test_ctrl_sck (the_test w))) new = take n (be32 (of_nat (length t))) @ take m (string_bytes t))"
    unfolding fail_def by (intro emits_rules emits_mono [OF emits_JSON_write [OF assms(2,3)]]) simp_all
  from emits_from [OF assms(1) [unfolded send_parameters_def] this] show ?thesis by blast
qed

lemma length_message: "length (message text) = 4 + length text"
  by (simp add: message_def)

lemma emits_JSON_read:
  assumes "0 < length text" and "length text < 4294967296"
  shows "emits (JSON_read fd m) (\<lambda>jo new. gather (delivers fd) new = message text \<longrightarrow> jo = cJSON_Parse text)"
  unfolding JSON_read_def
proof (intro emits_rules, rule emits_mono [OF emits_Nread_exact], goal_cases)
  case (2 out new)
  obtain rc bs where out: "out = (rc, bs)" by fastforce
  let ?d = "gather (delivers fd) new"
  have d: "length ?d \<le> 4" "rc = 4 \<longleftrightarrow> length ?d = 4" "rc = 4 \<longrightarrow> bs = ?d" using 2 by (auto simp: out)
  have short: "?d \<noteq> message text" using d(1) assms(1) length_message [of "text"] by auto
  have l: "unat (of_nat (length text) :: u32) = length text"
    using assms(2) by (simp add: unat_of_nat)
  have whole: "bs = be32 (of_nat (length text)) \<and> d2 = string_bytes text" if "rc = 4" "?d @ d2 = message text" for d2
    using d that by (simp add: message_def append_eq_append_conv)
  have pos: "0 < unat h" if "h > 0" for h :: u32 using that by (simp add: word_less_nat_alt)
  show ?case
    unfolding out prod.case
  proof (intro emits_rules, goal_cases)
    case (1 hsize)
    have h: "unat hsize = length text" if "?d @ d2 = message text" for d2
      using whole [OF "1"(1) that] 1(2) l by simp
    show ?case
    proof (rule emits_mono [OF emits_Nread_exact [OF pos]], goal_cases)
      case (2 out2 n2)
      obtain rc2 bs2 where out2: "out2 = (rc2, bs2)" by fastforce
      have "rc2 = int (unat hsize) \<and> bs2 = string_bytes text" if "?d @ gather (delivers fd) n2 = message text"
        using 2 whole [OF "1"(1) that] h [OF that] by (auto simp: out2 simp del: of_nat_unat)
      then show ?case
        unfolding out2 prod.case by (intro emits_return) (auto simp del: of_nat_unat)
    qed (use 1 in simp)
  qed (use short in auto)
qed simp

lemma keeps_JSON_read [keeps_rules]: "keeps (JSON_read fd m)"
  unfolding JSON_read_def by (intro keeps_rules)

section \<open>The exchange\<close>

definition with_protocol :: "protocol \<Rightarrow> iperf_test \<Rightarrow> iperf_test" where
  "with_protocol p t = t\<lparr>test_protocol := Some p, test_sender_has_retransmits := 0\<rparr>"

lemma run_set_protocol:
  assumes "find (\<lambda>p. prot_id p = i) (test_protocols (the_test s)) = Some p"
  shows "run_state (set_protocol i) s = (0, s\<lparr>the_test := with_protocol p (the_test s)\<rparr>)"
  using assms by (simp add: set_protocol_def check_sender_has_retransmits_def has_tcpinfo_retransmits_def with_protocol_def)

lemma run_take_protocol:
  assumes "protocol_is i c" and "i = Ptcp \<or> i = Pudp" and "find (\<lambda>p. prot_id p = i) (test_protocols (the_test s)) = Some p"
    and "test_diskfile_name (the_test s) = None"
  shows "run_state (take_protocol (parameters c)) s = (0, s\<lparr>the_test := with_protocol p (the_test s)\<rparr>)"
proof -
  have "has_member (parameters c) ''tcp'' Expect_bool = (i = Ptcp)" "has_member (parameters c) ''udp'' Expect_bool = (i = Pudp)"
    "has_member (parameters c) ''sctp'' Expect_bool = False"
    using assms(1,2) by (auto simp: has_member_def iperf_cJSON_GetObjectItemType_def lookup_protocol protocol_is_def)
  then show ?thesis
    using assms(2-4) run_set_protocol [OF assms(3)] by (auto simp: take_protocol_def)
qed

definition refused :: "iperf_test \<Rightarrow> bool" where
  "refused t \<longleftrightarrow> too_long t \<or> too_fast t (cfg_rate (test_settings t)) \<or> too_fast t (cfg_fqrate (test_settings t))"

lemma run_check_limits:
  "fst (run_state (check_limits 0) s) = (if refused (the_test s) then - 1 else 0)"
  "the_test (snd (run_state (check_limits r) s)) = the_test s" "trace (snd (run_state (check_limits r) s)) = trace s"
  by (auto simp: check_limits_def refused_def fail_def)

lemma trace_take_protocol: "trace (snd (run_state (take_protocol j) s)) = trace s"
  by (auto simp: take_protocol_def set_protocol_def fail_def split: option.splits)

lemma get_parameters_taken:
  assumes "sendable c" and "cJSON_Parse text = Some (parameters c)" and "0 < length text" and "length text < 4294967296"
    and "protocol_is i c" and "i = Ptcp \<or> i = Pudp"
    and "protocol_is Pudp c \<longrightarrow> cfg_gso (test_settings c) = 1 \<longrightarrow> cfg_gso_dg_size (test_settings c) \<noteq> 0"
    and "test_role (the_test w) = Some CHR ''s''" and "test_diskfile_name (the_test w) = None"
    and "find (\<lambda>p. prot_id p = i) (test_protocols (the_test w)) = Some p"
    and "run_state get_parameters w = (r, w')" and "trace w' = new @ trace w"
    and "gather (delivers (test_ctrl_sck (the_test w))) new = message text"
  shows "the_test w' = note_rate (merged c (with_protocol p (the_test w)))" and "r = (if refused (the_test w') then - 1 else 0)"
proof -
  obtain jo w1 where jo: "run_state (JSON_read (test_ctrl_sck (the_test w)) MAX_PARAMS_JSON_STRING) w = (jo, w1)" by fastforce
  have t1: "the_test w1 = the_test w"
    using keeps_test [OF keeps_JSON_read, of "test_ctrl_sck (the_test w)" MAX_PARAMS_JSON_STRING w] jo by simp
  have "trace w' = trace w1"
  proof (cases jo)
    case (Some j)
    obtain q w2 where q: "run_state (take_protocol j) w1 = (q, w2)" by fastforce
    then show ?thesis
      using assms(11) jo Some trace_take_protocol [of j w1] run_check_limits(3) [of q "the_test_update (apply_parameters j) w2"]
      by (simp add: get_parameters_def)
  qed (use assms(11) jo in \<open>auto simp: get_parameters_def fail_def\<close>)
  then have "jo = Some (parameters c)"
    using emits_JSON_read [OF assms(3,4), of "test_ctrl_sck (the_test w)" MAX_PARAMS_JSON_STRING] jo assms(2,12,13)
    unfolding emits_def by (metis append_same_eq fst_conv snd_conv)
  define w2 where "w2 = w1\<lparr>the_test := apply_parameters (parameters c) (with_protocol p (the_test w))\<rparr>"
  have w2: "the_test w2 = apply_parameters (parameters c) (with_protocol p (the_test w))" "run_state (check_limits 0) w2 = (r, w')"
    using assms(11) jo \<open>jo = Some (parameters c)\<close> run_take_protocol [OF assms(5,6), of w1 p] assms(9,10) t1
    by (simp_all add: get_parameters_def comp_def w2_def)
  have i: "protocol_is Pudp (with_protocol p (the_test w)) = protocol_is Pudp c"
    using assms(5,10) by (auto simp: protocol_is_def with_protocol_def find_Some_iff)
  have "the_test w2 = note_rate (merged c (with_protocol p (the_test w)))"
    unfolding w2 using assms(1,7,8) i by (intro apply_parameters_merged) (simp_all add: with_protocol_def)
  then show "the_test w' = note_rate (merged c (with_protocol p (the_test w)))" "r = (if refused (the_test w') then - 1 else 0)"
    using run_check_limits(1) [of w2] run_check_limits(2) [of 0 w2] w2(2) by auto
qed

text \<open>
  C3: The exchange of parameters, end to end. A client with settings that can be sent runs
  \<open>send_parameters\<close>, and its system accepts the whole message; a server runs \<open>get_parameters\<close> while
  its system delivers these bytes. Then the server's test has the client's protocol and settings:
  \<open>merged\<close> names each member that changes, everything else is as it was; and the result is an error
  exactly if the request is refused for its duration or its rate.
\<close>

theorem parameters_arrive:
  assumes client: "c = the_test wc" "sendable c" "protocol_is i c" "i = Ptcp \<or> i = Pudp"
      "protocol_is Pudp c \<longrightarrow> cfg_gso (test_settings c) = 1 \<longrightarrow> cfg_gso_dg_size (test_settings c) \<noteq> 0"
    and sent: "run_state send_parameters wc = (rc, wc')" "trace wc' = newc @ trace wc"
      "cJSON_PrintUnformatted (parameters c) = Some t" "length t < 2 ^ 32"
      "length (gather (accepts (test_ctrl_sck c)) newc) = 4 + length t"
    and server: "s = the_test ws" "test_role s = Some CHR ''s''" "test_diskfile_name s = None"
      "find (\<lambda>p. prot_id p = i) (test_protocols s) = Some p"
    and received: "run_state get_parameters ws = (r, ws')" "trace ws' = news @ trace ws"
      "gather (delivers (test_ctrl_sck s)) news = gather (accepts (test_ctrl_sck c)) newc"
  shows "the_test ws' = note_rate (merged c (with_protocol p s)) \<and> r = (if refused (the_test ws') then - 1 else 0)"
proof -
  have parse: "cJSON_Parse t = Some (parameters c)"
    using parameters_exact [OF client(2)] sent(3) by auto
  have t: "0 < length t"
    using sent(3) by (auto simp: parameters_def cJSON_PrintUnformatted_def)
  have "\<exists>n m. gather (accepts (test_ctrl_sck c)) newc = take n (be32 (of_nat (length t))) @ take m (string_bytes t)"
    using emits_send_parameters [OF sent(1)] sent client(1) by auto
  then have "gather (accepts (test_ctrl_sck c)) newc = message t"
    using sent(5) by (auto simp: message_def min_def split: if_splits)
  then show ?thesis
    using get_parameters_taken [OF client(2) parse t _ client(3-5), of ws p r ws' news] sent(4) server received by simp
qed

definition tcp_protocol :: protocol where "tcp_protocol = \<lparr>prot_id = Ptcp, prot_name = ''TCP''\<rparr>"

definition sample_client :: iperf_test where
  "sample_client = zero_test\<lparr>test_role := Some CHR ''c'', test_protocol := Some tcp_protocol, test_ctrl_sck := 3,
     test_server_affinity := - 1, test_duration := 10, test_num_streams := 1, test_reverse := 1\<rparr>"

definition sample_server :: iperf_test where
  "sample_server = zero_test\<lparr>test_role := Some CHR ''s'', test_protocols := [tcp_protocol], test_ctrl_sck := 4\<rparr>"

definition sample_text :: string where
  "sample_text = the (cJSON_PrintUnformatted (parameters sample_client))"

text \<open>A system that takes everything, and one that delivers a message.\<close>

definition accepting_os :: "(syscall \<times> answer) list \<Rightarrow> syscall \<Rightarrow> answer" where
  "accepting_os tr c = (case c of Send fd b \<Rightarrow> answers (int (length b)) | _ \<Rightarrow> answers 0)"

definition delivering_os :: "string \<Rightarrow> (syscall \<times> answer) list \<Rightarrow> syscall \<Rightarrow> answer" where
  "delivering_os t tr c =
     (case c of
        Recv fd n f \<Rightarrow> (answers (int n))\<lparr>bytes := (if n = 4 then be32 (of_nat (length t)) else string_bytes t)\<rparr>
      | _ \<Rightarrow> answers 1)"

lemma string_bytes_empty: "string_bytes s = [] \<longleftrightarrow> s = []" and be32_nonempty: "be32 x \<noteq> []"
  by (simp_all add: string_bytes_def be32_def le32_def)

lemma run_Nwrite_accepting:
  assumes "os w = accepting_os" and "b \<noteq> []"
  shows "run_state (Nwrite fd b Ptcp) w = (int (length b), w\<lparr>trace := (Send fd b, answers (int (length b))) # trace w\<rparr>)"
proof -
  have loop: "Nwrite_loop fd (length b) b = do { r \<leftarrow> iperf_win32_write fd b; eno \<leftarrow> reads errno;
      if r < 0 then State_Monad.return (if retry_errno eno then NET_SOFTERROR else if eno = ENOBUFS then NET_SOFTERROR else NET_HARDERROR)
      else if r = 0 then State_Monad.return NET_SOFTERROR
      else Nwrite_loop fd (length b) (drop (nat r) b) }"
    using assms(2) by (subst Nwrite_loop.simps) (simp cong: if_cong)
  show ?thesis
    using assms by (simp add: Nwrite_def loop iperf_win32_write_def winsock_def run_call accepting_os_def answers_def sent_def Nwrite_loop.simps [of _ _ "[]"] Let_def)
qed

lemma run_JSON_write_accepting:
  assumes "os w = accepting_os" and "cJSON_PrintUnformatted j = Some t" and "t \<noteq> []" and "length t < 4294967296"
  shows "\<exists>new w'. run_state (JSON_write fd j) w = (0, w') \<and> trace w' = new @ trace w \<and> gather (accepts fd) new = message t"
proof -
  have l: "unat (of_nat (length t) :: u32) = length t" using assms(4) by (simp add: unat_of_nat)
  have ne: "be32 (of_nat (length t)) \<noteq> []" "string_bytes t \<noteq> []" using assms(3) by (simp_all add: string_bytes_empty be32_nonempty)
  then show ?thesis
    using assms l run_Nwrite_accepting [OF assms(1) ne(1), of fd]
    by (simp add: JSON_write_def run_Nwrite_accepting Let_def message_def answers_def sent_def)
qed

lemma run_Nread_delivering:
  assumes "os w = delivering_os t" and "0 < n" and "bs = (if n = 4 then be32 (of_nat (length t)) else string_bytes t)" and "length bs = n"
  shows "\<exists>w'. run_state (Nread fd n Ptcp) w = ((int n, bs), w') \<and> os w' = os w
      \<and> trace w' = (Recv fd n 0, (answers (int n))\<lparr>bytes := bs\<rparr>) # (Select [fd] [] (Some (10, 0)), answers 1) # trace w"
  using assms by (cases "n = 4") (auto simp: Nread_def Nrecv_def winsock_def run_call delivering_os_def answers_def Let_def nread_read_timeout_def
      Nrecv_loop.simps [of _ _ n] Nrecv_loop.simps [of _ _ 4] string_bytes_empty be32_nonempty read_or_recv_def iperf_win32_read_def received_def copied_def)

lemma run_JSON_read_delivering:
  assumes "os w = delivering_os t" and "t \<noteq> []" and "length t \<noteq> 4" and "Suc (length t) < 4294967296" and "m = 0 \<or> length t \<le> m"
  shows "\<exists>new w'. run_state (JSON_read fd m) w = (cJSON_Parse t, w') \<and> trace w' = new @ trace w \<and> gather (delivers fd) new = message t"
proof -
  have "uint (of_nat (length t) :: u32) = int (length t)" "uint (of_nat (length t) + 1 :: u32) = int (length t) + 1"
    using assms(4) by (simp_all add: unsigned_of_nat take_bit_nat_eq_self uint_plus_if_size word_size)
  then have l: "unat (of_nat (length t) :: u32) = length t" "(of_nat (length t) :: u32) + 1 \<noteq> 0" "(of_nat (length t) :: u32) > 0"
    using assms(2,4) by (auto simp: unat_of_nat word_less_nat_alt simp del: of_nat_eq_0_iff)
  obtain w1 where w1: "run_state (Nread fd 4 Ptcp) w = ((4, be32 (of_nat (length t))), w1)" "os w1 = delivering_os t"
    "trace w1 = (Recv fd 4 0, (answers 4)\<lparr>bytes := be32 (of_nat (length t))\<rparr>) # (Select [fd] [] (Some (10, 0)), answers 1) # trace w"
    using run_Nread_delivering [OF assms(1), of 4 "be32 (of_nat (length t))" fd] assms(1) by auto
  obtain w2 where w2: "run_state (Nread fd (length t) Ptcp) w1 = ((int (length t), string_bytes t), w2)"
    "trace w2 = (Recv fd (length t) 0, (answers (int (length t)))\<lparr>bytes := string_bytes t\<rparr>) # (Select [fd] [] (Some (10, 0)), answers 1) # trace w1"
    using run_Nread_delivering [OF w1(2), of "length t" "string_bytes t" fd] assms(2,3) by auto
  have "run_state (JSON_read fd m) w = (cJSON_Parse t, w2)"
    using w1(1) w2(1) l assms(5) by (simp add: JSON_read_def Let_def del: of_nat_unat)
  then show ?thesis
    using w1(3) w2(2) by (simp add: message_def received_def answers_def)
qed

lemma sample_sendable: "sendable sample_client"
  by (simp add: sample_client_def sendable_def int32_def zero_test_def zero_settings_def Let_def)

lemma sample_printed: "cJSON_PrintUnformatted (parameters sample_client) = Some sample_text" "length sample_text = 106"
proof -
  show "length sample_text = 106" by code_simp
  show "cJSON_PrintUnformatted (parameters sample_client) = Some sample_text"
    using parameters_exact [OF sample_sendable] by (auto simp: sample_text_def)
qed

lemma sample_wrote:
  "\<exists>new r w'. run_state send_parameters (world0 accepting_os sample_client) = (r, w') \<and> trace w' = new @ trace (world0 accepting_os sample_client)
     \<and> gather (accepts 3) new = message sample_text"
proof -
  have "sample_text \<noteq> []" using sample_printed(2) by auto
  then show ?thesis
    using run_JSON_write_accepting [OF _ sample_printed(1), of "world0 accepting_os sample_client" 3] sample_printed(2)
    by (auto simp: send_parameters_def world0_def sample_client_def)
qed

lemma sample_read:
  "\<exists>new r w'. run_state get_parameters (world0 (delivering_os sample_text) sample_server) = (r, w')
     \<and> trace w' = new @ trace (world0 (delivering_os sample_text) sample_server) \<and> gather (delivers 4) new = message sample_text"
proof -
  let ?w = "world0 (delivering_os sample_text) sample_server"
  have "sample_text \<noteq> []" using sample_printed(2) by auto
  then obtain new w2 where w2: "run_state (JSON_read 4 MAX_PARAMS_JSON_STRING) ?w = (cJSON_Parse sample_text, w2)" "trace w2 = new @ trace ?w"
    "gather (delivers 4) new = message sample_text"
    using run_JSON_read_delivering [of ?w sample_text MAX_PARAMS_JSON_STRING 4] sample_printed(2) by (auto simp: world0_def)
  obtain j where j: "cJSON_Parse sample_text = Some j" using parameters_exact [of sample_client] sample_printed(1) sample_sendable by auto
  obtain q w3 where q: "run_state (take_protocol j) w2 = (q, w3)" by fastforce
  obtain r w4 where r: "run_state (check_limits q) (the_test_update (apply_parameters j) w3) = (r, w4)" by fastforce
  have "trace w4 = trace w2"
    using trace_take_protocol [of j w2] run_check_limits(3) [of q "the_test_update (apply_parameters j) w3"] q r by simp
  then show ?thesis
    using w2 q r j by (simp add: get_parameters_def sample_server_def)
qed

theorem parameters_arrive_witness:
  "\<exists>r ws'. run_state get_parameters (world0 (delivering_os sample_text) sample_server) = (r, ws')
     \<and> the_test ws' = note_rate (merged sample_client (with_protocol tcp_protocol sample_server)) \<and> r = 0"
proof -
  let ?ws = "world0 (delivering_os sample_text) sample_server" and ?wc = "world0 accepting_os sample_client"
  obtain new r w' where r: "run_state get_parameters ?ws = (r, w')" "trace w' = new @ trace ?ws" "gather (delivers 4) new = message sample_text"
    using sample_read by blast
  obtain newc q wc' where c: "run_state send_parameters ?wc = (q, wc')" "trace wc' = newc @ trace ?wc" "gather (accepts 3) newc = message sample_text"
    using sample_wrote by blast
  have "the_test w' = note_rate (merged sample_client (with_protocol tcp_protocol sample_server)) \<and> r = (if refused (the_test w') then - 1 else 0)"
    using c r sample_printed
    by (intro parameters_arrive [of sample_client ?wc Ptcp q wc' newc sample_text sample_server ?ws tcp_protocol r w' new] sample_sendable)
      (simp_all add: sample_client_def sample_server_def zero_test_def tcp_protocol_def protocol_is_def length_message)
  moreover have "\<not> refused (note_rate (merged sample_client (with_protocol tcp_protocol sample_server)))"
    by code_simp
  ultimately show ?thesis using r by auto
qed

end
