(* ===== verification/Results_Correct.thy ===== *)
theory Results_Correct
  imports Results Params_Wire
begin

text \<open>
  The exchange of results: every stream of one side gets the counts that the other side has for the
  stream of the same number.
\<close>

section \<open>Members of a value that was sent\<close>

lemma same_lookup:
  assumes "same_members ms ns"
  shows "case cJSON_GetObjectItem (JObject ms) k of
      None \<Rightarrow> cJSON_GetObjectItem (JObject ns) k = None
    | Some v \<Rightarrow> \<exists>v'. cJSON_GetObjectItem (JObject ns) k = Some v' \<and> same_json v v'"
  using assms by (induction ms arbitrary: ns) (auto simp: lookup_simps split: list.splits option.splits)

lemma same_lookupD:
  assumes "same_json (JObject ms) j" and "cJSON_GetObjectItem (JObject ms) k = Some v"
  obtains v' where "cJSON_GetObjectItem j k = Some v'" and "same_json v v'"
proof -
  obtain ns where "j = JObject ns" "same_members ms ns" using assms(1) by (auto split: cjson.splits)
  then show thesis using same_lookup [of ms ns k] assms(2) that by auto
qed

lemma same_double:
  assumes "same_json (JObject ms) j" and "cJSON_GetObjectItem (JObject ms) k = Some (JNumber d)"
  shows "\<exists>d'. get_double j k = Some d' \<and> same_number d d'"
  using same_lookupD [OF assms]
  by (fastforce simp: get_double_def iperf_cJSON_GetObjectItemType_def split: cjson.splits)

text \<open>A whole number within 53 bits arrives as it is.\<close>

lemma same_int:
  assumes "same_json (JObject ms) j" and "cJSON_GetObjectItem (JObject ms) k = Some (JNumber (fl64 (of_int i)))" and "\<bar>i\<bar> \<le> 2 ^ 53"
  shows "get_int j k = Some i"
proof -
  obtain v' where v: "cJSON_GetObjectItem j k = Some v'" "same_json (JNumber (fl64 (of_int i))) v'"
    using same_lookupD [OF assms(1,2)] .
  then have "v' = JNumber (fl64 (of_int i))"
    using exact_scalar(2) small_int_double(1) [OF assms(3)] by blast
  then show ?thesis
    using v(1) small_int_double(2) [OF assms(3)] by (simp add: get_int_def iperf_cJSON_GetObjectItemType_def)
qed

section \<open>One stream\<close>

definition transferred :: "iperf_stream \<Rightarrow> u64" where
  "transferred sp = (if sp_sender sp \<noteq> 0 then res_bytes_sent (sp_result sp) - res_bytes_sent_omit (sp_result sp)
     else res_bytes_received (sp_result sp))"

definition retransmitted :: "iperf_test \<Rightarrow> iperf_stream \<Rightarrow> int" where
  "retransmitted test sp = (if sp_sender sp \<noteq> 0 \<and> test_sender_has_retransmits test \<noteq> 0 then res_stream_retrans (sp_result sp) else - 1)"

definition ran_for :: "iperf_stream \<Rightarrow> double" where
  "ran_for sp = iperf_time_in_secs (snd (iperf_time_diff (res_start_time (sp_result sp)) (res_end_time (sp_result sp))))"

definition small_i64 :: "i64 \<Rightarrow> bool" where "small_i64 w \<longleftrightarrow> \<bar>sint w\<bar> \<le> 2 ^ 53"

text \<open>Counts that a double holds exactly.\<close>

definition reportable :: "iperf_test \<Rightarrow> iperf_stream \<Rightarrow> bool" where
  "reportable test sp \<longleftrightarrow> int32 (sp_id sp) \<and> unat (transferred sp) \<le> 2 ^ 53 \<and> int32 (retransmitted test sp)
     \<and> list_all small_i64 [sp_cnt_error sp, sp_omitted_cnt_error sp, sp_packet_count sp, sp_omitted_packet_count sp]"

text \<open>What the peer reads: the counts exactly, jitter and duration within the precision of the text.\<close>

definition report_of :: "iperf_test \<Rightarrow> iperf_stream \<Rightarrow> peer_result \<Rightarrow> bool" where
  "report_of test sp pr \<longleftrightarrow> pr_bytes pr = transferred sp \<and> pr_retransmits pr = retransmitted test sp
     \<and> same_number (sp_jitter sp) (pr_jitter pr) \<and> pr_errors pr = sp_cnt_error sp \<and> pr_packets pr = sp_packet_count sp
     \<and> pr_omitted pr = Some (sp_omitted_cnt_error sp, sp_omitted_packet_count sp)
     \<and> (\<exists>e. pr_times pr = Some (0, e) \<and> same_number (ran_for sp) e)"

lemma small_abs: "int32 i \<Longrightarrow> \<bar>i\<bar> \<le> 2 ^ 53" "small_i64 w \<Longrightarrow> \<bar>sint w\<bar> \<le> 2 ^ 53"
  by (simp_all add: int32_def small_i64_def abs_le_iff)

lemma unat_abs: "unat (w :: u64) \<le> 2 ^ 53 \<Longrightarrow> \<bar>uint w\<bar> \<le> 2 ^ 53"
proof -
  assume "unat w \<le> 2 ^ 53"
  then have "int (unat w) \<le> int (2 ^ 53)" by (simp only: of_nat_le_iff)
  then show ?thesis by (simp only: uint_nat abs_of_nat of_nat_power of_nat_numeral)
qed

lemma time_zero: "iperf_time_in_secs (snd (iperf_time_diff t t)) = 0"
  by (simp add: iperf_time_diff_def iperf_time_compare_def iperf_time_in_secs_def)

lemma read_stream_sent:
  assumes "reportable test sp" and "same_json (stream_results test sp) j"
  shows "\<exists>pr. read_stream j = Some (sp_id sp, pr) \<and> report_of test sp pr"
proof -
  have r: "int32 (sp_id sp)" "unat (transferred sp) \<le> 2 ^ 53" "int32 (retransmitted test sp)" "small_i64 (sp_cnt_error sp)"
    "small_i64 (sp_omitted_cnt_error sp)" "small_i64 (sp_packet_count sp)" "small_i64 (sp_omitted_packet_count sp)"
    using assms(1) by (simp_all add: reportable_def)
  have sr: "stream_results test sp = JObject
           [(''id'', jint (sp_id sp)), (''bytes'', ju64 (transferred sp)), (''retransmits'', jint (retransmitted test sp)),
            (''jitter'', JNumber (sp_jitter sp)), (''errors'', ji64 (sp_cnt_error sp)),
            (''omitted_errors'', ji64 (sp_omitted_cnt_error sp)), (''packets'', ji64 (sp_packet_count sp)),
            (''omitted_packets'', ji64 (sp_omitted_packet_count sp)), (''start_time'', JNumber 0),
            (''end_time'', JNumber (ran_for sp))]"
    by (simp add: stream_results_def transferred_def retransmitted_def ran_for_def time_zero Let_def)
  note s = assms(2) [unfolded sr]
  note look = lookup_simps strcaseeq_simps lower_chars jint_def ju64_def ji64_def u64_to_double_def
  have ints: "get_int j ''id'' = Some (sp_id sp)" "get_int j ''bytes'' = Some (uint (transferred sp))"
    "get_int j ''retransmits'' = Some (retransmitted test sp)" "get_int j ''errors'' = Some (sint (sp_cnt_error sp))"
    "get_int j ''omitted_errors'' = Some (sint (sp_omitted_cnt_error sp))" "get_int j ''packets'' = Some (sint (sp_packet_count sp))"
    "get_int j ''omitted_packets'' = Some (sint (sp_omitted_packet_count sp))"
    using r by (intro same_int [OF s _ small_abs(1)] same_int [OF s _ unat_abs] same_int [OF s _ small_abs(2)]; simp add: look)+
  obtain jit where jit: "get_double j ''jitter'' = Some jit" "same_number (sp_jitter sp) jit"
    using same_double [OF s, of "''jitter''" "sp_jitter sp"] by (auto simp: look)
  obtain st where st: "get_double j ''start_time'' = Some st" "same_number 0 st"
    using same_double [OF s, of "''start_time''" 0] by (auto simp: look)
  obtain e where e: "get_double j ''end_time'' = Some e" "same_number (ran_for sp) e"
    using same_double [OF s, of "''end_time''" "ran_for sp"] by (auto simp: look)
  have "st = 0" using st(2) by (auto simp: same_number_def valueint_def Doubles.truncate_def)
  then show ?thesis
    using ints jit st(1) e r by (simp add: read_stream_def report_of_def both_def Let_def)
qed

section \<open>All streams\<close>

lemma update_first_append:
  "\<forall>x\<in>set P. \<not> Q x \<Longrightarrow> Q y \<Longrightarrow> update_first Q f (P @ y # ys) = P @ f y # ys"
  by (induction P) auto

lemma find_middle: "Q y \<Longrightarrow> find Q (P @ y # ys) \<noteq> None"
  by (auto simp: find_None_iff simp del: find_append not_None_eq)

lemma take_result_id [simp]: "sp_id (take_result pr sp) = sp_id sp"
  by (simp add: take_result_def Let_def split: option.split)

text \<open>Each report goes to the stream of its number, whatever the streams before it are.\<close>

lemma run_take_streams:
  assumes "map read_stream js = map2 (\<lambda>sp pr. Some (sp_id sp, pr)) sps prs" and "length js = length sps" and "length prs = length sps"
    and "test_streams (the_test s) = P @ sps" and "distinct (map sp_id (P @ sps))"
  shows "run_state (take_streams js r) s = (r, the_test_update (test_streams_update (\<lambda>_. P @ map2 take_result prs sps)) s)"
  using assms
proof (induction js arbitrary: sps prs P s)
  case Nil
  then have "test_streams (the_test s) = P" by simp
  then have "the_test_update (test_streams_update (\<lambda>_. P)) s = s" by (cases "the_test s") simp
  then show ?case using Nil by simp
next
  case (Cons j js)
  obtain sp sps' pr prs' where e: "sps = sp # sps'" "prs = pr # prs'"
    using Cons.prems(2,3) by (metis length_Suc_conv)
  let ?s = "the_test_update (test_streams_update (\<lambda>_. (P @ [take_result pr sp]) @ sps')) s"
  have up: "update_first (\<lambda>x. sp_id x = sp_id sp) (take_result pr) (P @ sp # sps') = P @ take_result pr sp # sps'"
    using Cons.prems(5) e by (intro update_first_append) (auto simp: image_iff)
  have "run_state (take_stream j) s = (0, ?s)"
    using Cons.prems(1,4) e up find_middle [of "\<lambda>x. sp_id x = sp_id sp" sp P sps'] by (simp add: take_stream_def del: find_append not_None_eq)
  moreover have "run_state (take_streams js r) ?s = (r, the_test_update (test_streams_update (\<lambda>_. (P @ [take_result pr sp]) @ map2 take_result prs' sps')) ?s)"
    using Cons.prems e by (intro Cons.IH) auto
  ultimately show ?case using e by (simp add: comp_def)
qed

lemma read_all_sent:
  assumes "list_all (reportable test) sps" and "same_elements (map (stream_results test) sps) js"
  shows "\<exists>prs. map read_stream js = map2 (\<lambda>sp pr. Some (sp_id sp, pr)) sps prs \<and> list_all2 (report_of test) sps prs"
  using assms
proof (induction sps arbitrary: js)
  case (Cons sp sps)
  then obtain j js' where j: "js = j # js'" "same_json (stream_results test sp) j" "same_elements (map (stream_results test) sps) js'"
    by (auto split: list.splits)
  obtain pr where "read_stream j = Some (sp_id sp, pr)" "report_of test sp pr"
    using read_stream_sent j(2) Cons.prems(1) by fastforce
  moreover obtain prs where "map read_stream js' = map2 (\<lambda>sp pr. Some (sp_id sp, pr)) sps prs" "list_all2 (report_of test) sps prs"
    using Cons.IH [OF _ j(3)] Cons.prems(1) by auto
  ultimately show ?case using j(1) by (intro exI [of _ "pr # prs"]) simp
qed simp

section \<open>The whole message\<close>

definition cpu_known :: "iperf_test \<Rightarrow> iperf_test \<Rightarrow> bool" where
  "cpu_known a b \<longleftrightarrow> same_number (fst (test_cpu_util a)) (fst (test_remote_cpu_util b))
     \<and> same_number (fst (snd (test_cpu_util a))) (fst (snd (test_remote_cpu_util b)))
     \<and> same_number (snd (snd (test_cpu_util a))) (snd (snd (test_remote_cpu_util b)))"

lemma lookup_results:
  assumes "test_cpu_util a = (tot, user, system)"
  shows "cJSON_GetObjectItem (results a) ''cpu_util_total'' = Some (JNumber tot)"
    and "cJSON_GetObjectItem (results a) ''cpu_util_user'' = Some (JNumber user)"
    and "cJSON_GetObjectItem (results a) ''cpu_util_system'' = Some (JNumber system)"
    and "cJSON_GetObjectItem (results a) ''sender_has_retransmits'' = Some (jint (if test_mode a = RECEIVER then - 1 else test_sender_has_retransmits a))"
    and "cJSON_GetObjectItem (results a) ''streams'' = Some (JArray (map (stream_results a) (test_streams a)))"
proof -
  have "cJSON_GetObjectItem (JObject (server_output a @ ms)) ''streams'' = cJSON_GetObjectItem (JObject ms) ''streams''" for ms
    by (auto simp: server_output_def strcaseeq_simps lower_chars split: option.split)
  then show "cJSON_GetObjectItem (results a) ''streams'' = Some (JArray (map (stream_results a) (test_streams a)))"
    by (simp add: assms results_def lookup_simps strcaseeq_simps lower_chars del: cJSON_GetObjectItem.simps)
qed (simp_all add: assms results_def lookup_simps strcaseeq_simps lower_chars del: cJSON_GetObjectItem.simps)

lemma taken_apart:
  "test_streams (take_header u h t) = test_streams t" "test_remote_cpu_util (take_header u h t) = u"
  "test_streams (take_server_output j t) = test_streams t" "test_remote_cpu_util (take_server_output j t) = test_remote_cpu_util t"
  by (auto simp: take_header_def take_server_output_def on_str_def Let_def split: option.split)

lemma run_take_results:
  assumes "same_json (results a) j" and "list_all (reportable a) (test_streams a)" and "int32 (test_sender_has_retransmits a)"
    and "map sp_id (test_streams (the_test s)) = map sp_id (test_streams a)" and "distinct (map sp_id (test_streams a))"
    and "run_state (take_results j) s = (r, s')"
  shows "r = 0 \<and> trace s' = trace s \<and> cpu_known a (the_test s')
    \<and> (\<exists>prs. list_all2 (report_of a) (test_streams a) prs \<and> test_streams (the_test s') = map2 take_result prs (test_streams (the_test s)))"
proof -
  obtain tot user system where cpu: "test_cpu_util a = (tot, user, system)" by (cases "test_cpu_util a") auto
  obtain ms where res: "results a = JObject ms" by (simp add: results_def cpu)
  note s = assms(1) [unfolded res] and l = lookup_results [OF cpu, unfolded res]
  obtain t u y where d: "get_double j ''cpu_util_total'' = Some t" "get_double j ''cpu_util_user'' = Some u" "get_double j ''cpu_util_system'' = Some y"
    and n: "same_number tot t" "same_number user u" "same_number system y"
    using same_double [OF s l(1)] same_double [OF s l(2)] same_double [OF s l(3)] by blast
  define h where "h = (if test_mode a = RECEIVER then - 1 else test_sender_has_retransmits a)"
  have "int32 h" using assms(3) by (simp add: h_def int32_def)
  then have i: "get_int j ''sender_has_retransmits'' = Some h"
    using l(4) by (intro same_int [OF s _ small_abs(1)]) (simp_all add: h_def jint_def)
  obtain v where v: "cJSON_GetObjectItem j ''streams'' = Some v" "same_json (JArray (map (stream_results a) (test_streams a))) v"
    using same_lookupD [OF s l(5)] .
  then obtain js where js: "cJSON_GetObjectItem j ''streams'' = Some (JArray js)" "same_elements (map (stream_results a) (test_streams a)) js"
    by (cases v) simp_all
  obtain prs where prs: "map read_stream js = map2 (\<lambda>sp pr. Some (sp_id sp, pr)) (test_streams a) prs" "list_all2 (report_of a) (test_streams a) prs"
    using read_all_sent [OF assms(2) js(2)] by blast
  let ?s = "the_test_update (take_header (t, u, y) (to_int h)) s"
  have len: "length prs = length (test_streams a)" "length (test_streams (the_test s)) = length (test_streams a)"
    using prs(2) assms(4) list_all2_lengthD map_eq_imp_length_eq by metis+
  have by_id: "map2 (\<lambda>sp pr. Some (sp_id sp, pr)) xs ps = map2 (\<lambda>i pr. Some (i, pr)) (map sp_id xs) ps" for xs and ps :: "peer_result list"
    by (simp add: zip_map1 comp_def case_prod_beta)
  then have "map read_stream js = map2 (\<lambda>sp pr. Some (sp_id sp, pr)) (test_streams (the_test s)) prs"
    using prs(1) assms(4) by (metis (no_types))
  then have "run_state (take_streams js 0) ?s = (0, the_test_update (test_streams_update (\<lambda>_. [] @ map2 take_result prs (test_streams (the_test s)))) ?s)"
    using prs(1) len assms(4,5) map_eq_imp_length_eq [OF prs(1)]
    by (intro run_take_streams) (simp_all add: taken_apart)
  then show ?thesis
    using assms(6) d i js(1) prs(2) n
    by (auto simp: take_results_def iperf_cJSON_GetObjectItemType_def taken_apart cpu_known_def cpu)
qed

lemma emits_send_results:
  assumes "run_state send_results w = (r, w')" and "cJSON_PrintUnformatted (results (the_test w)) = Some t" and "length t < 4294967296"
  shows "\<exists>new n m. trace w' = new @ trace w
    \<and> gather (accepts (test_ctrl_sck (the_test w))) new = take n (be32 (of_nat (length t))) @ take m (string_bytes t)"
proof -
  have "emits (do { r \<leftarrow> JSON_write (test_ctrl_sck (the_test w)) (results (the_test w));
      if r < 0 then fail IESENDRESULTS else State_Monad.return 0 } :: ('a world_scheme, int) state)
    (\<lambda>r new. \<exists>n m. gather (accepts (test_ctrl_sck (the_test w))) new = take n (be32 (of_nat (length t))) @ take m (string_bytes t))"
    unfolding fail_def by (intro emits_rules emits_mono [OF emits_JSON_write [OF assms(2,3)]]) simp_all
  from emits_from [OF assms(1) [unfolded send_results_def] this] show ?thesis by blast
qed

lemma trace_take_streams: "trace (snd (run_state (take_streams js r) s)) = trace s"
proof (induction js arbitrary: r s)
  case (Cons j js)
  have "trace (snd (run_state (take_stream j) s)) = trace s"
    by (auto simp: take_stream_def fail_def split: option.splits)
  then show ?case using Cons by (simp add: case_prod_beta)
qed simp

lemma trace_take_results: "trace (snd (run_state (take_results j) s)) = trace s"
  by (auto simp: take_results_def trace_take_streams fail_def case_prod_beta split: option.splits cjson.splits)

lemma get_results_taken:
  assumes "printable CJSON_NESTING_LIMIT (results a)" and "cJSON_PrintUnformatted (results a) = Some t" and "length t < 4294967296"
    and "list_all (reportable a) (test_streams a)" and "int32 (test_sender_has_retransmits a)"
    and "map sp_id (test_streams (the_test w)) = map sp_id (test_streams a)" and "distinct (map sp_id (test_streams a))"
    and "run_state get_results w = (r, w')" and "trace w' = new @ trace w"
    and "gather (delivers (test_ctrl_sck (the_test w))) new = message t"
  shows "r = 0 \<and> cpu_known a (the_test w')
    \<and> (\<exists>prs. list_all2 (report_of a) (test_streams a) prs \<and> test_streams (the_test w') = map2 take_result prs (test_streams (the_test w)))"
proof -
  obtain j where j: "cJSON_Parse t = Some j" "same_json (results a) j"
    using json_reads [OF assms(1), of False] assms(2) by (auto simp: cJSON_PrintUnformatted_def)
  have t: "0 < length t" using assms(2) by (auto simp: results_def cJSON_PrintUnformatted_def split: prod.splits)
  obtain jo w1 where jo: "run_state (JSON_read (test_ctrl_sck (the_test w)) 0) w = (jo, w1)" by fastforce
  have t1: "the_test w1 = the_test w"
    using keeps_test [OF keeps_JSON_read, of "test_ctrl_sck (the_test w)" 0 w] jo by simp
  have "trace w' = trace w1"
    using assms(8) jo trace_take_results
    by (cases jo) (auto simp: get_results_def fail_def case_prod_beta)
  then have "jo = Some j"
    using emits_JSON_read [OF t assms(3), of "test_ctrl_sck (the_test w)" 0] jo j(1) assms(9,10)
    unfolding emits_def by (metis append_same_eq fst_conv snd_conv)
  moreover obtain q w2 where q: "run_state (take_results j) w1 = (q, w2)" by fastforce
  ultimately show ?thesis
    using run_take_results [OF j(2) assms(4,5) _ assms(7) q] assms(6,8) jo t1
    by (auto simp: get_results_def on_str_def cpu_known_def split: option.splits)
qed


definition sample_sender :: iperf_test where
  "sample_sender = zero_test\<lparr>test_role := Some CHR ''c'', test_mode := SENDER, test_ctrl_sck := 3,
     test_streams := [zero_stream\<lparr>sp_id := 1, sp_sender := 1, sp_packet_count := 7,
       sp_result := zero_stream_result\<lparr>res_bytes_sent := 1000, res_bytes_sent_omit := 100\<rparr>\<rparr>]\<rparr>"

definition sample_receiver :: iperf_test where
  "sample_receiver = zero_test\<lparr>test_role := Some CHR ''s'', test_ctrl_sck := 4, test_streams := [zero_stream\<lparr>sp_id := 1\<rparr>]\<rparr>"

definition sample_report :: string where
  "sample_report = the (cJSON_PrintUnformatted (results sample_sender))"

lemma sample_reportable: "list_all (reportable sample_sender) (test_streams sample_sender)"
  by (simp add: sample_sender_def reportable_def int32_def small_i64_def transferred_def retransmitted_def zero_stream_def
      zero_stream_result_def zero_test_def Let_def)

lemma finite_int_double: "\<bar>i\<bar> \<le> 2 ^ 53 \<Longrightarrow> finite_double (fl64 (of_int i))"
  using small_int_double(1) by simp

lemma sample_printable: "printable CJSON_NESTING_LIMIT (results sample_sender)"
proof -
  have "finite_double 0" using finite_int_double [of 0] by (simp add: fl64_int)
  then show ?thesis
    using finite_int_double [of 0] finite_int_double [of 1] finite_int_double [of "- 1"] finite_int_double [of 7] finite_int_double [of 900]
    by (simp add: results_def sample_sender_def stream_results_def time_zero jint_def ju64_def ji64_def u64_to_double_def server_output_def
        member_if_def zero_test_def zero_stream_def zero_stream_result_def Let_def)
qed

lemma sample_report_printed: "cJSON_PrintUnformatted (results sample_sender) = Some sample_report" "length sample_report = 236"
proof -
  show "length sample_report = 236" by code_simp
  show "cJSON_PrintUnformatted (results sample_sender) = Some sample_report"
    using json_reads [OF sample_printable, of False] by (auto simp: sample_report_def cJSON_PrintUnformatted_def)
qed


end
