(* ===== verification/Stats.thy ===== *)
theory Stats
  imports Rate
begin

text \<open>
  The statistics of a running test: the information of the TCP stack (\<open>tcp_info.c\<close>), the record of
  an interval, the end of the omitted period and the start of the streams (\<open>iperf_api.c\<close>). A \<open>long\<close>
  has 32 bits. Debug output is left out.
\<close>

section \<open>Information of the TCP stack\<close>

text \<open>
  \<open>TCP_INFO_v0\<close> as the system call fills it: of its members the program reads three, of 32 bits each,
  at the offsets 20, 32 and 36.
\<close>

record win_tcp_info =
  RttUs :: u32
  Cwnd :: u32
  SndWnd :: u32

definition ulong_at :: "nat \<Rightarrow> byte list \<Rightarrow> u32" where
  "ulong_at i bs = from_le32 (take 4 (drop i bs))"

definition tcp_info_of :: "byte list \<Rightarrow> win_tcp_info" where
  "tcp_info_of bs = \<lparr>RttUs = ulong_at 20 bs, Cwnd = ulong_at 32 bs, SndWnd = ulong_at 36 bs\<rparr>"

definition save_tcpinfo :: "bool \<Rightarrow> iperf_stream \<Rightarrow> ('z sys_scheme, win_tcp_info) state" where
  "save_tcpinfo sdk sp =
     (if sdk then do {
        a \<leftarrow> winsock (Ioctl_TCP_INFO (sp_socket sp));
        State_Monad.return (tcp_info_of (if ret a < 0 then [] else bytes a)) }
      else State_Monad.return (tcp_info_of []))"

definition get_total_retransmits :: int where "get_total_retransmits = - 1"
definition get_snd_cwnd :: "bool \<Rightarrow> win_tcp_info \<Rightarrow> int" where
  "get_snd_cwnd sdk i = (if sdk then sint (Cwnd i) else - 1)"
definition get_snd_wnd :: "bool \<Rightarrow> win_tcp_info \<Rightarrow> int" where
  "get_snd_wnd sdk i = (if sdk then sint (SndWnd i) else - 1)"
definition get_rtt :: "bool \<Rightarrow> win_tcp_info \<Rightarrow> int" where
  "get_rtt sdk i = (if sdk then sint (RttUs i) else - 1)"
definition get_rttvar :: int where "get_rttvar = - 1"
definition get_pmtu :: int where "get_pmtu = - 1"
definition get_reorder :: int where "get_reorder = - 1"

section \<open>The record of an interval\<close>

text \<open>The interval's length is a \<open>float\<close>: 24 bits.\<close>

definition fl32 :: "rat \<Rightarrow> double" where
  "fl32 x = (if x = 0 then 0
     else let u = 2 powi (exponent x - 23) in of_int (round_even (x / u)) * u)"

definition add_to_interval_list :: "iperf_stream_result \<Rightarrow> iperf_interval_results \<Rightarrow> iperf_stream_result" where
  "add_to_interval_list rp new = rp\<lparr>res_interval_results := butlast (res_interval_results rp) @ [new]\<rparr>"

definition last_interval :: "iperf_stream_result \<Rightarrow> iperf_interval_results option" where
  "last_interval rp = (if res_interval_results rp = [] then None else Some (last (res_interval_results rp)))"

text \<open>
  The part of \<open>iperf_stats_callback\<close> for one stream. \<open>temp\<close> is one variable for all streams, so members
  that are not set keep the value of the stream before, or what the memory held.
\<close>

definition interval_times :: "iperf_time \<Rightarrow> iperf_stream_result \<Rightarrow> iperf_interval_results \<Rightarrow> iperf_interval_results" where
  "interval_times now rp temp =
     (let start = (if last_interval rp = None then res_start_time rp else res_end_time rp)
      in temp\<lparr>ir_interval_start_time := start, ir_interval_end_time := now,
              ir_interval_duration := fl32 (iperf_time_in_secs (snd (iperf_time_diff start now)))\<rparr>)"

definition tcp_interval ::
  "bool \<Rightarrow> win_tcp_info \<Rightarrow> iperf_interval_results \<Rightarrow> iperf_stream_result \<Rightarrow> iperf_interval_results \<times> iperf_stream_result" where
  "tcp_interval sdk i temp rp =
     (let temp = temp\<lparr>ir_interval_retrans := to_long (get_total_retransmits - res_stream_prev_total_retrans rp),
                      ir_snd_cwnd := get_snd_cwnd sdk i, ir_snd_wnd := get_snd_wnd sdk i, ir_rtt := get_rtt sdk i,
                      ir_rttvar := get_rttvar, ir_pmtu := get_pmtu, ir_reorder := get_reorder\<rparr>
      in (temp,
          rp\<lparr>res_stream_retrans := to_long (res_stream_retrans rp + ir_interval_retrans temp),
             res_stream_prev_total_retrans := get_total_retransmits,
             res_stream_max_snd_cwnd := max (ir_snd_cwnd temp) (res_stream_max_snd_cwnd rp),
             res_stream_max_snd_wnd := max (ir_snd_wnd temp) (res_stream_max_snd_wnd rp),
             res_stream_max_rtt := max (ir_rtt temp) (res_stream_max_rtt rp),
             res_stream_min_rtt := (if res_stream_min_rtt rp = 0 \<or> ir_rtt temp < res_stream_min_rtt rp
                                    then ir_rtt temp else res_stream_min_rtt rp),
             res_stream_sum_rtt := to_long (res_stream_sum_rtt rp + ir_rtt temp),
             res_stream_count_rtt := to_long (res_stream_count_rtt rp + 1),
             res_stream_reorder := ir_reorder temp\<rparr>))"

definition udp_interval :: "iperf_stream \<Rightarrow> iperf_interval_results option \<Rightarrow> iperf_interval_results \<Rightarrow> iperf_interval_results" where
  "udp_interval sp irp temp =
     (let before = (\<lambda>f. case irp of None \<Rightarrow> 0 | Some i \<Rightarrow> f i)
      in temp\<lparr>ir_interval_packet_count := sp_packet_count sp - before ir_packet_count,
              ir_interval_outoforder_packets := sp_outoforder_packets sp - before ir_outoforder_packets,
              ir_interval_cnt_error := sp_cnt_error sp - before ir_cnt_error,
              ir_packet_count := sp_packet_count sp, ir_jitter := sp_jitter sp,
              ir_outoforder_packets := sp_outoforder_packets sp, ir_cnt_error := sp_cnt_error sp\<rparr>)"

definition stream_interval ::
  "bool \<Rightarrow> iperf_test \<Rightarrow> iperf_time \<Rightarrow> win_tcp_info \<Rightarrow> iperf_interval_results \<Rightarrow> iperf_stream \<Rightarrow> iperf_interval_results \<times> iperf_stream" where
  "stream_interval sdk test now i temp sp =
     (let rp = sp_result sp;
          temp = temp\<lparr>ir_bytes_transferred := (if sp_sender sp \<noteq> 0 then res_bytes_sent_this_interval rp
                                              else res_bytes_received_this_interval rp)\<rparr>;
          temp = interval_times now rp temp;
          irp = last_interval rp;
          rp = rp\<lparr>res_end_time := now\<rparr>;
          (temp, rp) =
            (if map_option prot_id (test_protocol test) = Some Ptcp
             then if has_tcpinfo sdk \<noteq> 0 \<and> test_sender_has_retransmits test = 1 then tcp_interval sdk i temp rp else (temp, rp)
             else (udp_interval sp irp temp, rp));
          rp = add_to_interval_list rp temp
      in (temp, sp\<lparr>sp_result := rp\<lparr>res_bytes_received_this_interval := 0, res_bytes_sent_this_interval := 0\<rparr>\<rparr>))"

fun stats_loop ::
  "bool \<Rightarrow> iperf_test \<Rightarrow> iperf_interval_results \<Rightarrow> u64 \<Rightarrow> iperf_stream list \<Rightarrow> ('z sys_scheme, u64 \<times> iperf_stream list) state" where
  "stats_loop sdk test temp total_bytes [] = State_Monad.return (total_bytes, [])"
| "stats_loop sdk test temp total_bytes (sp # sps) = do {
     let total_bytes = total_bytes + (res_bytes_sent_this_interval (sp_result sp) + res_bytes_received_this_interval (sp_result sp));
     now \<leftarrow> iperf_time_now;
     i \<leftarrow> (if map_option prot_id (test_protocol test) = Some Ptcp \<and> has_tcpinfo sdk \<noteq> 0
           then save_tcpinfo sdk sp else State_Monad.return (tcp_info_of []));
     let (temp, sp) = stream_interval sdk test now i temp sp;
     (total_bytes, sps) \<leftarrow> stats_loop sdk test temp total_bytes sps;
     State_Monad.return (total_bytes, sp # sps) }"

text \<open>
  The callback for all streams, and the server's check of the total rate. \<open>None\<close> is an access outside
  the array of the rate limit; \<open>u\<close> and \<open>junk\<close> stand for what an undefined conversion gives and for
  what the variable \<open>temp\<close> held.
\<close>

definition iperf_stats_callback :: "bool \<Rightarrow> u64 \<Rightarrow> iperf_interval_results \<Rightarrow> 'z world_scheme \<Rightarrow> 'z world_scheme option" where
  "iperf_stats_callback sdk u junk w =
     (let test = the_test w;
          temp = junk\<lparr>ir_omitted := test_omitting test, ir_rtt := 0, ir_rttvar := 0, ir_pmtu := 0\<rparr>;
          ((total_bytes, sps), w) = run_state (stats_loop sdk test temp 0 (test_streams test)) w;
          test = test\<lparr>test_streams := sps\<rparr>
      in if test_role test = Some CHR ''s''
         then map_option (\<lambda>t. w\<lparr>the_test := t\<rparr>) (iperf_check_total_rate u total_bytes test)
         else Some (w\<lparr>the_test := test\<rparr>))"

section \<open>The omitted period and the start\<close>

definition reset_stream :: "iperf_test \<Rightarrow> iperf_time \<Rightarrow> iperf_stream \<Rightarrow> iperf_stream" where
  "reset_stream test now sp =
     (let rp = sp_result sp
      in sp\<lparr>sp_omitted_packet_count := sp_packet_count sp, sp_omitted_cnt_error := sp_cnt_error sp,
            sp_omitted_outoforder_packets := sp_outoforder_packets sp, sp_jitter := 0,
            sp_result := rp\<lparr>res_bytes_sent_omit := res_bytes_sent rp, res_bytes_received := 0,
              res_bytes_received_this_interval := 0, res_bytes_sent_this_interval := 0,
              res_stream_prev_total_retrans :=
                (if test_sender_has_retransmits test = 1 then get_total_retransmits else res_stream_prev_total_retrans rp),
              res_stream_retrans := 0, res_start_time := now\<rparr>\<rparr>)"

fun save_all :: "bool \<Rightarrow> iperf_stream list \<Rightarrow> ('z sys_scheme, unit) state" where
  "save_all sdk [] = State_Monad.return ()"
| "save_all sdk (sp # sps) = do { _ \<leftarrow> save_tcpinfo sdk sp; save_all sdk sps }"

definition iperf_reset_stats :: "bool \<Rightarrow> ('z world_scheme, unit) state" where
  "iperf_reset_stats sdk = do {
     _ \<leftarrow> update_state (the_test_update (\<lambda>t. t\<lparr>test_bytes_sent := 0, test_blocks_sent := 0\<rparr>));
     now \<leftarrow> iperf_time_now;
     test \<leftarrow> reads the_test;
     _ \<leftarrow> (if test_sender_has_retransmits test = 1 then save_all sdk (test_streams test) else State_Monad.return ());
     update_state (the_test_update (test_streams_update (map (reset_stream test now)))) }"

definition start_stream :: "iperf_time \<Rightarrow> iperf_stream \<Rightarrow> iperf_stream" where
  "start_stream now sp = sp\<lparr>sp_result := (sp_result sp)\<lparr>res_start_time := now, res_start_time_fixed := now\<rparr>\<rparr>"

text \<open>\<open>on_test_start\<close> is the function that the test's pointer names.\<close>

definition iperf_init_test ::
  "(nat \<Rightarrow> 'z world_scheme \<Rightarrow> 'z world_scheme option) \<Rightarrow> 'z world_scheme \<Rightarrow> (int \<times> 'z world_scheme) option" where
  "iperf_init_test callback w =
     (let (r, w) = (if map_option prot_id (test_protocol (the_test w)) = Some Pudp then run_state iperf_udp_init w else (0, w))
      in if r < 0 then Some (- 1, w)
         else let (now, w) = run_state iperf_time_now w;
                  w = the_test_update (test_streams_update (map (start_stream now))) w
              in case test_on_test_start (the_test w) of
                   None \<Rightarrow> Some (0, w)
                 | Some f \<Rightarrow> map_option (Pair 0) (callback f w))"

definition iperf_create_send_timers :: "('z world_scheme, int) state" where
  "iperf_create_send_timers = do {
     _ \<leftarrow> update_state (the_test_update (test_streams_update (map (sp_green_light_update (\<lambda>_. 1)))));
     State_Monad.return 0 }"

end
