(* ===== verification/Lifecycle.thy ===== *)
theory Lifecycle
  imports Stats Results Timer
begin

text \<open>
  The life of a test and of its streams (\<open>iperf_api.c\<close>): creation, defaults, reset, and the temporary
  file, the buffer and the numbering of a stream, with the file functions of \<open>win32_compat.c\<close>.

  The state of the whole program, \<open>iperf\<close>, extends the world by the memory of the timers and the first
  sample of the CPU times, which \<open>cpu_util\<close> keeps. A timer's
  client data always is the one test, so only its function is stored. An operation takes the state and
  gives its result with the new state; \<open>None\<close> stands for a run without one: an access outside an
  object, a null pointer, an endless loop, or the end of the process.
\<close>

section \<open>The state of the program\<close>

datatype timer_function =
    Test_timer | Client_stats_timer | Client_reporter_timer | Client_omit_timer
  | Server_timer | Server_stats_timer | Server_reporter_timer | Server_omit_timer

type_synonym tmem = "(timer_function, unit) tmr_mem"

record iperf = world +
  tmem :: tmem
  cpu_last :: cpu_sample

type_synonym 'a prog = "iperf \<Rightarrow> ('a \<times> iperf) option"

definition run :: "(iperf, 'a) state \<Rightarrow> 'a prog" where
  "run m w = Some (run_state m w)"

definition set_test :: "(iperf_test \<Rightarrow> iperf_test) \<Rightarrow> iperf \<Rightarrow> iperf" where
  "set_test f w = the_test_update f w"

definition iperf0 :: "((syscall \<times> answer) list \<Rightarrow> syscall \<Rightarrow> answer) \<Rightarrow> iperf_test \<Rightarrow> tmem \<Rightarrow> iperf" where
  "iperf0 f t m = \<lparr>i_errno = 0, errarg = [], gerror = 0, errno = 0, wsa_error = 0, os = f, trace = [], the_test = t, tmem = m,
     cpu_last = \<lparr>cs_time = \<lparr>secs = 0, usecs = 0\<rparr>, cs_clock = 0, cs_utime = (0, 0), cs_stime = (0, 0)\<rparr>\<rparr>"

lemma iperf0_simps [simp]:
  "trace (iperf0 f t m) = []" "the_test (iperf0 f t m) = t" "os (iperf0 f t m) = f" "tmem (iperf0 f t m) = m"
  by (simp_all add: iperf0_def)

text \<open>
  What the sources leave to the platform: whether the headers have the information of the TCP stack,
  the option for unfragmented datagrams with its value, what an undefined conversion to an integer
  gives, the contents of fresh memory, the texts of the system, and how many datagrams without data
  the model reads while a client waits for a UDP server.
\<close>

record platform =
  pf_sdk :: bool
  pf_dont_fragment :: "int \<times> int"
  pf_conversion :: u64
  pf_interval :: iperf_interval_results
  pf_strerror :: "int \<Rightarrow> string"
  pf_gai_strerror :: "int \<Rightarrow> string"
  pf_system_info :: string
  pf_patience :: nat

definition platform0 :: platform where
  "platform0 = \<lparr>pf_sdk = True, pf_dont_fragment = (0, 0), pf_conversion = 0, pf_interval = zero_interval, pf_strerror = (\<lambda>_. []),
     pf_gai_strerror = (\<lambda>_. []), pf_system_info = [], pf_patience = 0\<rparr>"

section \<open>Creation and defaults\<close>

abbreviation MAX_INTERVAL :: nat where "MAX_INTERVAL \<equiv> 60"
abbreviation STDOUT :: nat where "STDOUT \<equiv> 1"

text \<open>The functions that the pointers of a test can name; other numbers are functions of the caller.\<close>

abbreviation IPERF_STATS_CALLBACK :: nat where "IPERF_STATS_CALLBACK \<equiv> 1"
abbreviation IPERF_REPORTER_CALLBACK :: nat where "IPERF_REPORTER_CALLBACK \<equiv> 2"
abbreviation IPERF_ON_NEW_STREAM :: nat where "IPERF_ON_NEW_STREAM \<equiv> 3"
abbreviation IPERF_ON_TEST_START :: nat where "IPERF_ON_TEST_START \<equiv> 4"
abbreviation IPERF_ON_CONNECT :: nat where "IPERF_ON_CONNECT \<equiv> 5"
abbreviation IPERF_ON_TEST_FINISH :: nat where "IPERF_ON_TEST_FINISH \<equiv> 6"

definition iperf_new_test :: iperf_test where
  "iperf_new_test = zero_test\<lparr>test_bitrate_limit_intervals_traffic_bytes := replicate MAX_INTERVAL 0, test_outfile := Some STDOUT\<rparr>"

definition default_settings :: "iperf_settings \<Rightarrow> iperf_settings" where
  "default_settings cfg =
     cfg\<lparr>cfg_domain := AF_UNSPEC, cfg_unit_format := CHR ''a'', cfg_socket_bufsize := 0, cfg_blksize := DEFAULT_TCP_BLKSIZE,
         cfg_rate := 0, cfg_bitrate_limit := 0, cfg_bitrate_limit_interval := 5, cfg_bitrate_limit_stats_per_interval := 0,
         cfg_fqrate := 0, cfg_pacing_timer := DEFAULT_PACING_TIMER, cfg_burst := 0, cfg_gso := 0, cfg_gso_dg_size := 0,
         cfg_gso_bf_size := GSO_BF_MAX_SIZE, cfg_gro := 0, cfg_gro_bf_size := GRO_BF_MAX_SIZE, cfg_mss := 0,
         cfg_bytes := 0, cfg_blocks := 0, cfg_connect_timeout := - 1,
         cfg_rcv_timeout := \<lparr>secs = word_of_int (DEFAULT_NO_MSG_RCVD_TIMEOUT div 1000),
                             usecs = word_of_int (DEFAULT_NO_MSG_RCVD_TIMEOUT mod 1000 * 1000)\<rparr>,
         cfg_skip_rx_copy := 0, cfg_cntl_ka := 0, cfg_cntl_ka_keepidle := 0, cfg_cntl_ka_interval := 0, cfg_cntl_ka_count := 0\<rparr>"

definition tcp :: protocol where "tcp = \<lparr>prot_id = Ptcp, prot_name = ''TCP''\<rparr>"
definition udp :: protocol where "udp = \<lparr>prot_id = Pudp, prot_name = ''UDP''\<rparr>"

definition default_test :: "iperf_test \<Rightarrow> iperf_test" where
  "default_test t =
     t\<lparr>test_omit := OMIT, test_duration := DURATION, test_diskfile_name := None, test_affinity := - 1, test_server_affinity := - 1,
       test_xbind_addrs := [], test_title := None, test_extra_data := None, test_congestion := None, test_congestion_used := None,
       test_remote_congestion_used := None, test_server_port := PORT, test_ctrl_sck := - 1, test_listener := - 1,
       test_prot_listener := - 1, test_other_side_has_retransmits := 0, test_stats_callback := Some IPERF_STATS_CALLBACK,
       test_reporter_callback := Some IPERF_REPORTER_CALLBACK, test_stats_interval := 1, test_reporter_interval := 1,
       test_num_streams := 1, test_settings := default_settings (test_settings t), test_zerocopy := 0,
       test_json_callback := None, test_cookie := replicate 37 0, test_multisend := 10, test_streams := [],
       test_protocols := [tcp, udp]\<rparr>"

definition iperf_defaults :: "('z world_scheme, int) state" where
  "iperf_defaults = do {
     _ \<leftarrow> update_state (the_test_update default_test);
     _ \<leftarrow> set_protocol Ptcp;
     _ \<leftarrow> update_state (the_test_update (\<lambda>t. t\<lparr>test_on_new_stream := Some IPERF_ON_NEW_STREAM,
            test_on_test_start := Some IPERF_ON_TEST_START, test_on_connect := Some IPERF_ON_CONNECT,
            test_on_test_finish := Some IPERF_ON_TEST_FINISH, test_server_output_list := []\<rparr>));
     State_Monad.return 0 }"

section \<open>Streams\<close>

text \<open>
  The temporary file. The name's \<open>XXXXXX\<close> becomes six digits; the terminator after them ends the name.
  \<open>Process_tick\<close> answers the number of the process xor the tick count.
\<close>

definition hex_digit :: "nat \<Rightarrow> char" where
  "hex_digit n = ''0123456789ABCDEF'' ! (n mod 16)"

definition hex6 :: "nat \<Rightarrow> string" where
  "hex6 n = map (\<lambda>k. hex_digit (n div 16 ^ k)) [5, 4, 3, 2, 1, 0]"

fun before_XXXXXX :: "string \<Rightarrow> string option" where
  "before_XXXXXX s =
     (if take 6 s = ''XXXXXX'' then Some []
      else case s of [] \<Rightarrow> None | c # cs \<Rightarrow> map_option (Cons c) (before_XXXXXX cs))"

definition temporary_name :: "string \<Rightarrow> u32 \<Rightarrow> nat \<Rightarrow> string" where
  "temporary_name prefix value i = prefix @ hex6 (unat (and (value + of_nat i) 0xFFFFFF))"

abbreviation O_RDONLY :: int where "O_RDONLY \<equiv> 0"
abbreviation O_CREATE_WRITE :: int where "O_CREATE_WRITE \<equiv> 0x0301"
abbreviation O_TEMPORARY_EXCL :: int where "O_TEMPORARY_EXCL \<equiv> 0x8542"
abbreviation EEXIST :: int where "EEXIST \<equiv> 17"

fun mkstemp_loop :: "string \<Rightarrow> u32 \<Rightarrow> nat \<Rightarrow> nat \<Rightarrow> ('z sys_scheme, int \<times> string) state" where
  "mkstemp_loop prefix value i 0 = do { _ \<leftarrow> set_errno EEXIST; State_Monad.return (- 1, temporary_name prefix value (i - 1)) }"
| "mkstemp_loop prefix value i (Suc k) = do {
     let name = temporary_name prefix value i;
     a \<leftarrow> crt (Crt_open name O_TEMPORARY_EXCL);
     if ret a \<ge> 0 then State_Monad.return (ret a, name) else mkstemp_loop prefix value (Suc i) k }"

definition mkstemp :: "string \<Rightarrow> ('z sys_scheme, int \<times> string) state" where
  "mkstemp template =
     (case before_XXXXXX template of
        None \<Rightarrow> do { _ \<leftarrow> set_errno EINVAL; State_Monad.return (- 1, template) }
      | Some prefix \<Rightarrow> do {
          a \<leftarrow> call Process_tick;
          mkstemp_loop prefix (word_of_int (val a)) 0 100 })"

definition getenv :: "string \<Rightarrow> ('z sys_scheme, string option) state" where
  "getenv name = do {
     a \<leftarrow> call (Getenv name);
     State_Monad.return (if ret a < 0 then None else Some (bytes_string (bytes a))) }"

text \<open>
  The template: \<open>snprintf\<close> is \<open>_snprintf\<close>, which writes no terminator when the text fills the 1024
  characters, so then the array is no string.
\<close>

definition stream_template :: "iperf_test \<Rightarrow> ('z sys_scheme, string option) state" where
  "stream_template test = do {
     template \<leftarrow> (case test_tmp_template test of
         Some t \<Rightarrow> State_Monad.return t
       | None \<Rightarrow> do {
           d \<leftarrow> getenv ''TMPDIR'';
           d \<leftarrow> (if d = None then getenv ''TEMP'' else State_Monad.return d);
           d \<leftarrow> (if d = None then getenv ''TMP'' else State_Monad.return d);
           State_Monad.return ((case d of None \<Rightarrow> ''/tmp'' | Some t \<Rightarrow> t) @ ''/iperf3.XXXXXX'') });
     State_Monad.return (if length template < 1024 then Some template else None) }"

definition stream_buffer_size :: "iperf_test \<Rightarrow> int" where
  "stream_buffer_size test =
     (let cfg = test_settings test;
          len = cfg_blksize cfg;
          len = (if protocol_is Pudp test \<and> cfg_gso cfg \<noteq> 0 \<and> len < cfg_gso_bf_size cfg then cfg_gso_bf_size cfg else len)
      in if protocol_is Pudp test \<and> cfg_gro cfg \<noteq> 0 \<and> len < cfg_gro_bf_size cfg then cfg_gro_bf_size cfg else len)"

text \<open>\<open>BCryptGenRandom\<close> fills the buffer, or the program exits.\<close>

definition readentropy :: "nat \<Rightarrow> (byte list) prog" where
  "readentropy outsize w =
     (if outsize = 0 then Some ([], w)
      else do {
        (a, w) \<leftarrow> run (call (GenRandom outsize)) w;
        if ret a \<noteq> 0 then None else Some (take outsize (bytes a @ replicate outsize 0), w) })"

text \<open>\<open>mmap\<close> of the compatibility layer is \<open>calloc\<close>.\<close>

definition mmap :: "int \<Rightarrow> ('z sys_scheme, byte list option) state" where
  "mmap len = do {
     a \<leftarrow> call (Calloc len);
     State_Monad.return (if ret a < 0 \<or> len < 0 then None else Some (replicate (nat len) 0)) }"

definition iperf_init_stream :: "platform \<Rightarrow> iperf_stream \<Rightarrow> ('z world_scheme, int \<times> iperf_stream) state" where
  "iperf_init_stream pf sp = do {
     test \<leftarrow> reads the_test;
     a \<leftarrow> winsock (Getsockname (sp_socket sp));
     if ret a < 0 then do { r \<leftarrow> fail IEINITSTREAM; State_Monad.return (r, sp) }
     else do {
       b \<leftarrow> winsock (Getpeername (sp_socket sp));
       if ret b < 0 then do { r \<leftarrow> fail IEINITSTREAM; State_Monad.return (r, sp) }
       else do {
         let sp = sp\<lparr>sp_local_port := sa_port (ai_addr (info a)), sp_remote_port := sa_port (ai_addr (info b))\<rparr>;
         d \<leftarrow> (if protocol_is Pudp test then getsockdomain (sp_socket sp) else State_Monad.return 0);
         if protocol_is Pudp test \<and> d = AF_INET \<and> iperf_get_dont_fragment test \<noteq> 0 then do {
           c \<leftarrow> winsock (Setsockopt (sp_socket sp) IPPROTO_IP (fst (pf_dont_fragment pf)) (snd (pf_dont_fragment pf)));
           if ret c < 0 then do { r \<leftarrow> fail IESETDONTFRAGMENT; State_Monad.return (r, sp) }
           else State_Monad.return (0, sp) }
         else State_Monad.return (0, sp) } } }"

definition iperf_add_stream :: "iperf_stream \<Rightarrow> iperf_test \<Rightarrow> iperf_test" where
  "iperf_add_stream sp test =
     (if test_streams test = [] then test\<lparr>test_streams := [sp\<lparr>sp_id := 1\<rparr>]\<rparr>
      else test\<lparr>test_streams := test_streams test @ [sp\<lparr>sp_id := 2 + int (length (test_streams test))\<rparr>]\<rparr>)"

text \<open>The file to send from or to write into.\<close>

definition open_diskfile :: "iperf_test \<Rightarrow> int \<Rightarrow> ('z sys_scheme, int option) state" where
  "open_diskfile test sender =
     (case test_diskfile_name test of
        None \<Rightarrow> State_Monad.return (Some (- 1))
      | Some name \<Rightarrow> do {
          a \<leftarrow> crt (Crt_open name (if sender \<noteq> 0 then O_RDONLY else O_CREATE_WRITE));
          State_Monad.return (if ret a < 0 then None else Some (ret a)) })"

text \<open>The contents of the buffer: a pattern or random bytes, for the size of a block.\<close>

definition fill_buffer :: "iperf_test \<Rightarrow> byte list \<Rightarrow> (byte list) prog" where
  "fill_buffer test buf w =
     (if cfg_blksize (test_settings test) < 0 then None
      else let n = nat (cfg_blksize (test_settings test))
           in if test_repeating_payload test \<noteq> 0 then Some (fill_with_repeating_pattern n @ drop n buf, w)
              else do { (bs, w) \<leftarrow> readentropy n w; Some (bs @ drop n buf, w) })"

definition null_stream :: "int \<Rightarrow> bool prog" where
  "null_stream e w = do { (_, w) \<leftarrow> run (set_i_errno e) w; Some (False, w) }"

text \<open>The last steps, once the buffer is there.\<close>

definition finish_stream :: "platform \<Rightarrow> iperf_stream \<Rightarrow> bool prog" where
  "finish_stream pf sp w = do {
     (fd, w) \<leftarrow> run (open_diskfile (the_test w) (sp_sender sp)) w;
     (case fd of
        None \<Rightarrow> null_stream IEFILE w
      | Some fd \<Rightarrow> do {
          let sp = sp\<lparr>sp_diskfile_fd := fd\<rparr>;
          (buf, w) \<leftarrow> fill_buffer (the_test w) (sp_buffer sp) w;
          let sp = sp\<lparr>sp_buffer := buf\<rparr>;
          ((r, sp), w) \<leftarrow> run (iperf_init_stream pf sp) w;
          if r < 0 then do { (_, w) \<leftarrow> run (iperf_win32_close (sp_buffer_fd sp)) w; Some (False, w) }
          else Some (True, set_test (iperf_add_stream sp) w) }) }"

definition iperf_new_stream :: "platform \<Rightarrow> int \<Rightarrow> int \<Rightarrow> bool prog" where
  "iperf_new_stream pf s sender w = do {
     (template, w) \<leftarrow> run (stream_template (the_test w)) w;
     template \<leftarrow> template;
     let sp = zero_stream\<lparr>sp_sender := sender\<rparr>;
     ((fd, name), w) \<leftarrow> run (mkstemp template) w;
     let sp = sp\<lparr>sp_buffer_fd := fd\<rparr>;
     if fd = - 1 then null_stream IECREATESTREAM w
     else do {
       (_, w) \<leftarrow> run (call (Crt_unlink name)) w;
       let len = stream_buffer_size (the_test w);
       (a, w) \<leftarrow> run (crt (Set_end_of_file fd len)) w;
       if ret a < 0 then null_stream IECREATESTREAM w
       else do {
         (buf, w) \<leftarrow> run (mmap len) w;
         (case buf of
            None \<Rightarrow> null_stream IECREATESTREAM w
          | Some buf \<Rightarrow> finish_stream pf (sp\<lparr>sp_buffer := buf, sp_pending_size := 0, sp_socket := s\<rparr>) w) } } }"

section \<open>The end of streams and of a test\<close>

definition cancel_timer :: "addr option \<Rightarrow> iperf \<Rightarrow> iperf option" where
  "cancel_timer t w =
     (case t of None \<Rightarrow> Some w | Some a \<Rightarrow> map_option (\<lambda>m. w\<lparr>tmem := m\<rparr>) (tmr_cancel a (tmem w)))"

definition iperf_free_stream :: "iperf_stream \<Rightarrow> iperf \<Rightarrow> iperf option" where
  "iperf_free_stream sp w = do {
     (_, w) \<leftarrow> run (iperf_win32_close (sp_buffer_fd sp)) w;
     (_, w) \<leftarrow> (if sp_diskfile_fd sp \<ge> 0 then run (iperf_win32_close (sp_diskfile_fd sp)) w else Some (0, w));
     cancel_timer (sp_send_timer sp) w }"

fun free_streams :: "iperf_stream list \<Rightarrow> iperf \<Rightarrow> iperf option" where
  "free_streams [] w = Some (set_test (test_streams_update (\<lambda>_. [])) w)"
| "free_streams (sp # sps) w = do {
     w \<leftarrow> iperf_free_stream sp (set_test (test_streams_update (\<lambda>_. sps)) w);
     free_streams sps w }"

definition iperf_close_logfile :: "iperf_test \<Rightarrow> iperf_test" where
  "iperf_close_logfile t = (if test_outfile t \<noteq> None \<and> test_outfile t \<noteq> Some STDOUT then t\<lparr>test_outfile := None\<rparr> else t)"

definition cancel_timers :: "iperf \<Rightarrow> iperf option" where
  "cancel_timers w = do {
     w \<leftarrow> cancel_timer (test_omit_timer (the_test w)) w;
     let w = set_test (test_omit_timer_update (\<lambda>_. None)) w;
     w \<leftarrow> cancel_timer (test_timer (the_test w)) w;
     let w = set_test (test_timer_update (\<lambda>_. None)) w;
     w \<leftarrow> cancel_timer (test_stats_timer (the_test w)) w;
     let w = set_test (test_stats_timer_update (\<lambda>_. None)) w;
     w \<leftarrow> cancel_timer (test_reporter_timer (the_test w)) w;
     Some (set_test (test_reporter_timer_update (\<lambda>_. None)) w) }"

definition reset_settings :: "iperf_settings \<Rightarrow> iperf_settings" where
  "reset_settings cfg =
     cfg\<lparr>cfg_socket_bufsize := 0, cfg_blksize := DEFAULT_TCP_BLKSIZE, cfg_rate := 0, cfg_fqrate := 0, cfg_burst := 0,
         cfg_mss := 0, cfg_tos := 0, cfg_gso_dg_size := 0, cfg_gso_bf_size := GSO_BF_MAX_SIZE,
         cfg_gro_bf_size := GRO_BF_MAX_SIZE, cfg_dont_fragment := 0, cfg_skip_rx_copy := 0\<rparr>"

definition reset_before_protocol :: "iperf_test \<Rightarrow> iperf_test" where
  "reset_before_protocol t =
     t\<lparr>test_done := 0, test_streams := [], test_congestion := None, test_remote_congestion_used := None,
       test_role := Some CHR ''s'', test_mode := RECEIVER, test_sender_has_retransmits := 0\<rparr>"

definition reset_after_protocol :: "iperf_test \<Rightarrow> iperf_test" where
  "reset_after_protocol t =
     t\<lparr>test_omit := OMIT, test_duration := DURATION, test_server_affinity := - 1, test_state := 0, test_ctrl_sck := - 1,
       test_listener := - 1, test_prot_listener := - 1, test_bytes_sent := 0, test_blocks_sent := 0, test_bytes_received := 0,
       test_blocks_received := 0, test_other_side_has_retransmits := 0, test_bitrate_limit_stats_count := 0,
       test_bitrate_limit_last_interval_index := 0, test_bitrate_limit_exceeded := 0,
       test_bitrate_limit_intervals_traffic_bytes := replicate MAX_INTERVAL 0 @ drop MAX_INTERVAL (test_bitrate_limit_intervals_traffic_bytes t),
       test_reverse := 0, test_bidirectional := 0, test_no_delay := 0, test_read_set := [], test_write_set := [],
       test_num_streams := 1, test_settings := reset_settings (test_settings t), test_zerocopy := 0,
       test_cookie := replicate 37 0, test_multisend := 10, test_udp_counters_64bit := 0, test_title := None,
       test_extra_data := None, test_server_output_list := []\<rparr>"

definition iperf_reset_test :: "iperf \<Rightarrow> iperf option" where
  "iperf_reset_test w = do {
     let w = set_test iperf_close_logfile w;
     w \<leftarrow> free_streams (test_streams (the_test w)) w;
     w \<leftarrow> cancel_timers w;
     let w = set_test reset_before_protocol w;
     (_, w) \<leftarrow> run (set_protocol Ptcp) w;
     Some (set_test reset_after_protocol w) }"

end
