(* ===== verification/Test_Timers.thy ===== *)
theory Test_Timers
  imports Lifecycle Timer_Correct
begin

text \<open>
  The timers of a test: the functions that the timers of client and server call, and their creation
  (\<open>iperf_client_api.c\<close>, \<open>iperf_server_api.c\<close>). Messages to the user are left out.

  The pointers of a test to functions name the statistics callback of \<open>iperf_api.c\<close> or a function of
  the caller of the library; \<open>user\<close> says what those do, among them the reporting functions.
\<close>

section \<open>Calls through the pointers of a test\<close>

type_synonym callbacks = "nat \<Rightarrow> iperf \<Rightarrow> iperf option"

definition callback :: "platform \<Rightarrow> callbacks \<Rightarrow> callbacks" where
  "callback pf user f w =
     (if f = IPERF_STATS_CALLBACK then iperf_stats_callback (pf_sdk pf) (pf_conversion pf) (pf_interval pf) w
      else user f w)"

text \<open>A call that the code guards by a test of the pointer, and one that it does not.\<close>

definition call_if_set :: "platform \<Rightarrow> callbacks \<Rightarrow> nat option \<Rightarrow> iperf \<Rightarrow> iperf option" where
  "call_if_set pf user fp w = (case fp of None \<Rightarrow> Some w | Some f \<Rightarrow> callback pf user f w)"

definition call_pointer :: "platform \<Rightarrow> callbacks \<Rightarrow> nat option \<Rightarrow> iperf \<Rightarrow> iperf option" where
  "call_pointer pf user fp w = (case fp of None \<Rightarrow> None | Some f \<Rightarrow> callback pf user f w)"

section \<open>The functions of the client's timers\<close>

definition test_timer_proc :: "iperf \<Rightarrow> iperf option" where
  "test_timer_proc w = Some (set_test (\<lambda>t. t\<lparr>test_timer := None, test_done := 1\<rparr>) w)"

definition client_stats_timer_proc :: "platform \<Rightarrow> callbacks \<Rightarrow> iperf \<Rightarrow> iperf option" where
  "client_stats_timer_proc pf user w =
     (if test_done (the_test w) \<noteq> 0 then Some w else call_if_set pf user (test_stats_callback (the_test w)) w)"

definition client_reporter_timer_proc :: "platform \<Rightarrow> callbacks \<Rightarrow> iperf \<Rightarrow> iperf option" where
  "client_reporter_timer_proc pf user w =
     (if test_done (the_test w) \<noteq> 0 then Some w else call_if_set pf user (test_reporter_callback (the_test w)) w)"

definition reset_timer :: "iperf_time \<Rightarrow> addr option \<Rightarrow> iperf \<Rightarrow> iperf option" where
  "reset_timer now t w =
     (case t of None \<Rightarrow> Some w | Some a \<Rightarrow> map_option (\<lambda>m. w\<lparr>tmem := m\<rparr>) (tmr_reset (Some now) now a (tmem w)))"

definition client_omit_timer_proc :: "platform \<Rightarrow> iperf_time \<Rightarrow> iperf \<Rightarrow> iperf option" where
  "client_omit_timer_proc pf now w = do {
     let w = set_test (\<lambda>t. t\<lparr>test_omit_timer := None, test_omitting := 0\<rparr>) w;
     (_, w) \<leftarrow> run (iperf_reset_stats (pf_sdk pf)) w;
     w \<leftarrow> reset_timer now (test_stats_timer (the_test w)) w;
     reset_timer now (test_reporter_timer (the_test w)) w }"

section \<open>The functions of the server's timers\<close>

definition server_stats_timer_proc :: "platform \<Rightarrow> callbacks \<Rightarrow> iperf \<Rightarrow> iperf option" where
  "server_stats_timer_proc pf user w =
     (if test_done (the_test w) \<noteq> 0 then Some w else call_if_set pf user (test_stats_callback (the_test w)) w)"

definition server_reporter_timer_proc :: "platform \<Rightarrow> callbacks \<Rightarrow> iperf \<Rightarrow> iperf option" where
  "server_reporter_timer_proc pf user w =
     (if test_done (the_test w) \<noteq> 0 then Some w else call_if_set pf user (test_reporter_callback (the_test w)) w)"

definition server_omit_timer_proc :: "platform \<Rightarrow> iperf_time \<Rightarrow> iperf \<Rightarrow> iperf option" where
  "server_omit_timer_proc pf now w = do {
     let w = set_test (\<lambda>t. t\<lparr>test_omit_timer := None, test_omitting := 0\<rparr>) w;
     (_, w) \<leftarrow> run (iperf_reset_stats (pf_sdk pf)) w;
     w \<leftarrow> reset_timer now (test_stats_timer (the_test w)) w;
     reset_timer now (test_reporter_timer (the_test w)) w }"

text \<open>
  The end of the time that the server allows. The loop takes the first stream away only if its socket
  is open; with a closed one it never ends.
\<close>

fun close_and_free :: "iperf_stream list \<Rightarrow> iperf \<Rightarrow> iperf option" where
  "close_and_free [] w = Some w"
| "close_and_free (sp # sps) w =
     (if sp_socket sp = - 1 then None
      else do {
        let w = set_test (test_streams_update (\<lambda>_. sps)) w;
        (_, w) \<leftarrow> run (iperf_win32_close (sp_socket sp)) w;
        w \<leftarrow> iperf_free_stream (sp\<lparr>sp_socket := - 1\<rparr>) w;
        close_and_free sps w })"

definition tell_expired :: "(iperf, unit) state" where
  "tell_expired = do {
     r \<leftarrow> iperf_set_send_state SERVER_ERROR;
     if r = 0 then do {
       _ \<leftarrow> set_i_errno IESERVERTESTDURATIONEXPIRED;
       test \<leftarrow> reads the_test;
       n \<leftarrow> Nwrite (test_ctrl_sck test) (be32 (word_of_int IESERVERTESTDURATIONEXPIRED)) Ptcp;
       if n = 4 then do { _ \<leftarrow> Nwrite (test_ctrl_sck test) (be32 0) Ptcp; State_Monad.return () }
       else State_Monad.return () }
     else State_Monad.return () }"

definition server_timer_proc :: "iperf \<Rightarrow> iperf option" where
  "server_timer_proc w =
     (let w = set_test (test_timer_update (\<lambda>_. None)) w
      in if test_done (the_test w) \<noteq> 0 then Some w
         else do {
           let w = set_test (test_done_update (\<lambda>_. 1)) w;
           (_, w) \<leftarrow> run tell_expired w;
           w \<leftarrow> close_and_free (test_streams (the_test w)) w;
           (_, w) \<leftarrow> run (iperf_win32_close (test_ctrl_sck (the_test w))) w;
           Some (set_test (test_ctrl_sck_update (\<lambda>_. - 1)) w) })"

section \<open>Running the timers\<close>

fun timer_call :: "platform \<Rightarrow> callbacks \<Rightarrow> timer_function \<Rightarrow> iperf_time \<Rightarrow> iperf \<Rightarrow> iperf option" where
  "timer_call pf user Test_timer now w = test_timer_proc w"
| "timer_call pf user Client_stats_timer now w = client_stats_timer_proc pf user w"
| "timer_call pf user Client_reporter_timer now w = client_reporter_timer_proc pf user w"
| "timer_call pf user Client_omit_timer now w = client_omit_timer_proc pf now w"
| "timer_call pf user Server_timer now w = server_timer_proc w"
| "timer_call pf user Server_stats_timer now w = server_stats_timer_proc pf user w"
| "timer_call pf user Server_reporter_timer now w = server_reporter_timer_proc pf user w"
| "timer_call pf user Server_omit_timer now w = server_omit_timer_proc pf now w"

text \<open>The package of the timers passes its memory to a function and takes it back.\<close>

definition timer_dispatch ::
  "platform \<Rightarrow> callbacks \<Rightarrow> timer_function \<Rightarrow> unit \<Rightarrow> iperf_time \<Rightarrow> iperf \<Rightarrow> tmem \<Rightarrow> (iperf \<times> tmem) option" where
  "timer_dispatch pf user f d now w m = map_option (\<lambda>w. (w, tmem w)) (timer_call pf user f now (w\<lparr>tmem := m\<rparr>))"

definition run_timers :: "platform \<Rightarrow> callbacks \<Rightarrow> iperf \<Rightarrow> iperf option" where
  "run_timers pf user w = do {
     (now, w) \<leftarrow> run iperf_time_now w;
     (w, m) \<leftarrow> tmr_run (timer_dispatch pf user) (Some now) now w (tmem w);
     Some (w\<lparr>tmem := m\<rparr>) }"

section \<open>Creating the timers\<close>

text \<open>
  \<open>tmr_create\<close> takes a cell from the free list or from \<open>malloc\<close>, and sets every member of it.
\<close>

definition blank_timer :: "(timer_function, unit) timer_struct" where
  "blank_timer = \<lparr>timer_proc = Test_timer, client_data = (), t_usecs = 0, periodic = 0,
     t_time = \<lparr>secs = 0, usecs = 0\<rparr>, t_prev = None, t_next = None\<rparr>"

definition malloc_timer :: "((addr \<times> (timer_function, unit) timer_struct) option) prog" where
  "malloc_timer w =
     (if free_timers (tmem w) \<noteq> None then Some (None, w)
      else do {
        (a, w) \<leftarrow> run (call Malloc) w;
        Some (if ret a < 0 then None else Some (nat (val a), blank_timer), w) })"

definition new_timer :: "iperf_time \<Rightarrow> timer_function \<Rightarrow> i64 \<Rightarrow> int \<Rightarrow> (addr option) prog" where
  "new_timer now f us per w = do {
     (fresh, w) \<leftarrow> malloc_timer w;
     (t, m) \<leftarrow> tmr_create (Some now) now fresh f () us per (tmem w);
     Some (t, w\<lparr>tmem := m\<rparr>) }"

text \<open>The times in microseconds, as \<open>int64_t\<close>: a sum of ints, and a double times a million.\<close>

definition SEC_TO_US :: int where "SEC_TO_US = 1000000"

definition seconds_us :: "int \<Rightarrow> i64" where
  "seconds_us s = word_of_int (to_int s * SEC_TO_US)"

definition interval_us :: "double \<Rightarrow> i64" where
  "interval_us d = word_of_int (Doubles.truncate (fl64 (d * of_int SEC_TO_US)))"

definition init_failed :: "int prog" where
  "init_failed w = run (fail IEINITTEST) w"

definition create_periodic :: "iperf_time \<Rightarrow> timer_function \<Rightarrow> timer_function \<Rightarrow> int prog" where
  "create_periodic now stats reporter w = do {
     (ok, w) \<leftarrow> (if test_stats_interval (the_test w) = 0 then Some (True, w)
       else do {
         (t, w) \<leftarrow> new_timer now stats (interval_us (test_stats_interval (the_test w))) 1 w;
         Some (t \<noteq> None, set_test (test_stats_timer_update (\<lambda>_. t)) w) });
     if \<not> ok then init_failed w
     else if test_reporter_interval (the_test w) = 0 then Some (0, w)
     else do {
       (t, w) \<leftarrow> new_timer now reporter (interval_us (test_reporter_interval (the_test w))) 1 w;
       let w = set_test (test_reporter_timer_update (\<lambda>_. t)) w;
       if t = None then init_failed w else Some (0, w) } }"

definition no_timers :: "iperf_test \<Rightarrow> iperf_test" where
  "no_timers t = t\<lparr>test_timer := None, test_stats_timer := None, test_reporter_timer := None\<rparr>"

definition create_client_timers :: "int prog" where
  "create_client_timers w = do {
     (now, w) \<leftarrow> run iperf_time_now w;
     let w = set_test no_timers w;
     let test = the_test w;
     if test_duration test \<noteq> 0 then do {
       let w = set_test (test_done_update (\<lambda>_. 0)) w;
       (t, w) \<leftarrow> new_timer now Test_timer (seconds_us (test_duration test + test_omit test)) 0 w;
       let w = set_test (test_timer_update (\<lambda>_. t)) w;
       if t = None then init_failed w else create_periodic now Client_stats_timer Client_reporter_timer w }
     else create_periodic now Client_stats_timer Client_reporter_timer w }"

definition create_omit_timer :: "timer_function \<Rightarrow> int prog" where
  "create_omit_timer f w =
     (if test_omit (the_test w) = 0 then Some (0, set_test (\<lambda>t. t\<lparr>test_omit_timer := None, test_omitting := 0\<rparr>) w)
      else do {
        (now, w) \<leftarrow> run iperf_time_now w;
        let w = set_test (test_omitting_update (\<lambda>_. 1)) w;
        (t, w) \<leftarrow> new_timer now f (seconds_us (test_omit (the_test w))) 0 w;
        let w = set_test (test_omit_timer_update (\<lambda>_. t)) w;
        if t = None then init_failed w else Some (0, w) })"

definition create_client_omit_timer :: "int prog" where
  "create_client_omit_timer = create_omit_timer Client_omit_timer"

text \<open>The server gives a test forty seconds more than it asked for.\<close>

definition grace_period :: int where "grace_period = 4 * 10"

definition create_server_timers :: "int prog" where
  "create_server_timers w = do {
     (now, w) \<leftarrow> run iperf_time_now w;
     let w = set_test no_timers w;
     let test = the_test w;
     if test_duration test \<noteq> 0 then do {
       let w = set_test (test_done_update (\<lambda>_. 0)) w;
       (t, w) \<leftarrow> new_timer now Server_timer (seconds_us (test_duration test + test_omit test + grace_period)) 0 w;
       let w = set_test (test_timer_update (\<lambda>_. t)) w;
       if t = None then init_failed w else create_periodic now Server_stats_timer Server_reporter_timer w }
     else create_periodic now Server_stats_timer Server_reporter_timer w }"

definition create_server_omit_timer :: "int prog" where
  "create_server_omit_timer = create_omit_timer Server_omit_timer"

end
