(* ===== verification/Control.thy ===== *)
theory Control
  imports Test_Timers Cjson_Text
begin

text \<open>
  What client and server share: the CPU statistics, the end of the control connection, its keepalive,
  the JSON output of a test, the processor affinity, the threads of the streams and the work that a
  thread does (\<open>iperf_api.c\<close>, \<open>iperf_util.c\<close>, \<open>iperf_error.c\<close>, \<open>net.c\<close>, \<open>win32_compat.c\<close>). Texts for the user
  are left out, except where they become part of the JSON output.
\<close>

section \<open>CPU statistics\<close>

text \<open>\<open>ProcessTimes\<close> answers the two \<open>FILETIME\<close>s, kernel and user, as bytes, or fails with 0.\<close>

definition filetime_timeval :: "u64 \<Rightarrow> timeval" where
  "filetime_timeval t = (to_long (uint (t div 10000000)), to_long (uint (t mod 10000000 div 10)))"

definition getrusage :: "('z sys_scheme, timeval \<times> timeval) state" where
  "getrusage = do {
     a \<leftarrow> call ProcessTimes;
     State_Monad.return (if ret a = 0 then ((0, 0), (0, 0))
       else (filetime_timeval (from_le64 (take 8 (drop 8 (bytes a)))), filetime_timeval (from_le64 (take 8 (bytes a))))) }"

definition sample_cpu :: "('z sys_scheme, cpu_sample) state" where
  "sample_cpu = do {
     now \<leftarrow> iperf_time_now;
     c \<leftarrow> call Clock;
     (utime, stime) \<leftarrow> getrusage;
     State_Monad.return \<lparr>cs_time = now, cs_clock = to_long (val c), cs_utime = utime, cs_stime = stime\<rparr> }"

definition cpu_util_start :: "(iperf, unit) state" where
  "cpu_util_start = do { s \<leftarrow> sample_cpu; update_state (cpu_last_update (\<lambda>_. s)) }"

definition cpu_util_test :: "(iperf, unit) state" where
  "cpu_util_test = do {
     s \<leftarrow> sample_cpu;
     last \<leftarrow> reads cpu_last;
     update_state (the_test_update (test_cpu_util_update (\<lambda>_. cpu_util last s))) }"

section \<open>The control connection\<close>

partial_function (option) read_until_eof :: "int \<Rightarrow> iperf \<Rightarrow> iperf option" where
  "read_until_eof sock w =
     (case run_state (Nread sock 128 0) w of ((r, _), w') \<Rightarrow> if r > 0 then read_until_eof sock w' else Some w')"

declare read_until_eof.simps [code]

definition iperf_sync_close_socket :: "int \<Rightarrow> iperf \<Rightarrow> iperf option" where
  "iperf_sync_close_socket sock w = do {
     (_, w) \<leftarrow> run (winsock (Shutdown sock SHUT_WR)) w;
     w \<leftarrow> read_until_eof sock w;
     (_, w) \<leftarrow> run (iperf_win32_close sock) w;
     Some w }"

definition iperf_set_control_keepalive :: "('z world_scheme, int) state" where
  "iperf_set_control_keepalive = do {
     test \<leftarrow> reads the_test;
     let cfg = test_settings test;
     if cfg_cntl_ka cfg = 0 then State_Monad.return 0
     else do {
       a \<leftarrow> winsock (Setsockopt (test_ctrl_sck test) SOL_SOCKET SO_KEEPALIVE 1);
       if ret a \<noteq> 0 then fail IESETCNTLKA
       else if cfg_cntl_ka_keepidle cfg = 0 \<and> cfg_cntl_ka_interval cfg = 0 then State_Monad.return 0
       else do {
         let kaidle = (if cfg_cntl_ka_keepidle cfg \<noteq> 0 then cfg_cntl_ka_keepidle cfg else 7200);
         let kainterval = (if cfg_cntl_ka_interval cfg \<noteq> 0 then cfg_cntl_ka_interval cfg else 1);
         b \<leftarrow> winsock (Ioctl_KEEPALIVE (test_ctrl_sck test) (uint (word_of_int kaidle * 1000 :: u32)) (uint (word_of_int kainterval * 1000 :: u32)));
         if ret b = - 1 then fail IESETCNTLKA else State_Monad.return 0 } } }"

section \<open>The JSON output\<close>

definition add_top :: "string \<Rightarrow> cjson \<Rightarrow> iperf_test \<Rightarrow> iperf_test" where
  "add_top k v t = t\<lparr>test_json_top := map_option (\<lambda>j. cJSON_AddItemToObject j k v) (test_json_top t)\<rparr>"

text \<open>A message for the user goes into the JSON output if there is one.\<close>

definition iperf_err :: "string \<Rightarrow> ('z world_scheme, unit) state" where
  "iperf_err str = update_state (the_test_update (\<lambda>t.
     if test_json_output t \<noteq> 0 \<and> test_json_top t \<noteq> None then add_top ''error'' (JString (snprintf 1000 str)) t else t))"

definition iperf_json_start :: "iperf_test \<Rightarrow> iperf_test" where
  "iperf_json_start t =
     t\<lparr>test_json_top := Some (JObject [(''start'', JNull), (''intervals'', JNull), (''end'', JNull)]),
       test_json_start := Some (JObject [(''connected'', JNull)]), test_json_connected := Some (JArray []),
       test_json_intervals := Some (JArray []), test_json_end := Some (JObject [])\<rparr>"

text \<open>One event of the stream of JSON texts: only a function of the caller can see it.\<close>

definition JSONStream_Output :: "callbacks \<Rightarrow> string \<Rightarrow> cjson \<Rightarrow> iperf \<Rightarrow> iperf option" where
  "JSONStream_Output user event_name obj w =
     (case cJSON_PrintUnformatted (JObject [(''event'', JString event_name), (''data'', obj)]) of
        None \<Rightarrow> Some w
      | Some str \<Rightarrow> (case test_json_callback (the_test w) of None \<Rightarrow> Some w | Some f \<Rightarrow> user f w))"

definition output_if :: "callbacks \<Rightarrow> string \<Rightarrow> cjson option \<Rightarrow> iperf \<Rightarrow> iperf option" where
  "output_if user event_name obj w = (case obj of None \<Rightarrow> Some w | Some j \<Rightarrow> JSONStream_Output user event_name j w)"

definition add_top_if :: "string \<Rightarrow> cjson option \<Rightarrow> iperf_test \<Rightarrow> iperf_test" where
  "add_top_if k v t = (case v of None \<Rightarrow> t | Some j \<Rightarrow> add_top k j t)"

definition finish_top :: "iperf_test \<Rightarrow> iperf_test" where
  "finish_top t =
     add_top_if ''server_output_text'' (map_option JString (test_server_output_text t))
       (add_top_if ''server_output_json'' (test_json_server_output t)
         (add_top_if ''extra_data'' (map_option JString (test_extra_data t))
           (add_top_if ''title'' (map_option JString (test_title t)) t)))"

definition stream_end :: "callbacks \<Rightarrow> iperf \<Rightarrow> iperf option" where
  "stream_end user w = do {
     let error = (case test_json_top (the_test w) of None \<Rightarrow> None | Some j \<Rightarrow> iperf_cJSON_GetObjectItemType j ''error'' Expect_string);
     w \<leftarrow> output_if user ''error'' error w;
     w \<leftarrow> output_if user ''server_output_json'' (test_json_server_output (the_test w)) w;
     w \<leftarrow> output_if user ''server_output_text'' (map_option JString (test_server_output_text (the_test w))) w;
     output_if user ''end'' (test_json_end (the_test w)) w }"

definition drop_json :: "iperf_test \<Rightarrow> iperf_test" where
  "drop_json t = t\<lparr>test_json_top := None, test_json_start := None, test_json_connected := None, test_json_intervals := None,
     test_json_server_output := None, test_json_end := None\<rparr>"

definition print_document :: "callbacks \<Rightarrow> int prog" where
  "print_document user w =
     (case Option.bind (json_document (the_test w)) cJSON_Print of
        None \<Rightarrow> Some (- 1, w)
      | Some str \<Rightarrow>
          (let w = set_test (test_json_output_string_update (\<lambda>_. Some str)) w
           in map_option (Pair 0) (case test_json_callback (the_test w) of None \<Rightarrow> Some w | Some f \<Rightarrow> user f w)))"

definition iperf_json_finish :: "callbacks \<Rightarrow> int prog" where
  "iperf_json_finish user w =
     (if test_json_top (the_test w) = None then Some (0, set_test drop_json w)
      else do {
        let w = set_test finish_top w;
        w \<leftarrow> (if test_json_stream (the_test w) \<noteq> 0 then stream_end user w else Some w);
        (r, w) \<leftarrow> (if test_json_stream (the_test w) = 0 \<or> test_json_stream_full_output (the_test w) \<noteq> 0
          then print_document user w else Some (0, w));
        if r < 0 then Some (- 1, w) else Some (0, set_test drop_json w) })"

text \<open>The start of a run on either side, with the version and the system in the JSON output.\<close>

definition add_start :: "string \<Rightarrow> cjson \<Rightarrow> iperf_test \<Rightarrow> iperf_test" where
  "add_start k v t = t\<lparr>test_json_start := map_option (\<lambda>j. cJSON_AddItemToObject j k v) (test_json_start t)\<rparr>"

definition json_begin :: "platform \<Rightarrow> iperf_test \<Rightarrow> iperf_test" where
  "json_begin pf t =
     add_start ''system_info'' (JString (pf_system_info pf)) (add_start ''version'' (JString (''iperf '' @ IPERF_VERSION)) (iperf_json_start t))"

section \<open>Files and processors\<close>

definition iperf_open_logfile :: "('z world_scheme, int) state" where
  "iperf_open_logfile = do {
     test \<leftarrow> reads the_test;
     a \<leftarrow> call (Fopen (case test_logfile test of Some f \<Rightarrow> f | None \<Rightarrow> []) ''a+'');
     let file = (if ret a = 0 then None else Some (nat (ret a)));
     _ \<leftarrow> update_state (the_test_update (test_outfile_update (\<lambda>_. file)));
     if file = None then fail IELOGFILE else State_Monad.return 0 }"

text \<open>A mask has 64 bits.\<close>

definition iperf_setaffinity :: "int \<Rightarrow> ('z sys_scheme, int) state" where
  "iperf_setaffinity affinity =
     (if affinity < 0 \<or> affinity \<ge> 64 then fail IEAFFINITY
      else do {
        a \<leftarrow> call (SetAffinity (2 ^ nat affinity));
        if ret a = 0 then fail IEAFFINITY else State_Monad.return 0 })"

definition iperf_clearaffinity :: "('z sys_scheme, int) state" where
  "iperf_clearaffinity = do {
     a \<leftarrow> call GetAffinity;
     if ret a = 0 then fail IEAFFINITY
     else do {
       b \<leftarrow> call (SetAffinity (val a));
       if ret b = 0 then fail IEAFFINITY else State_Monad.return 0 } }"

end
