(* ===== verification/Threads.thy ===== *)
theory Threads
  imports Control
begin

text \<open>
  The threads of the streams: the functions of \<open>win32_compat.c\<close> that stand for POSIX threads, how the two
  sides create and stop the threads, and the loop that a thread runs (\<open>iperf_client_worker_run\<close>,
  \<open>iperf_server_worker_run\<close>).

  A thread has the number of its stream. One iteration of a thread's loop is one step; between the steps
  of the threads the main thread takes its own. Two steps at the same time are not modelled.
\<close>

section \<open>POSIX threads on Windows\<close>

abbreviation ESRCH :: int where "ESRCH \<equiv> 3"
abbreviation ENOMEM :: int where "ENOMEM \<equiv> 12"

definition pthread_create :: "int \<Rightarrow> ('z sys_scheme, int) state" where
  "pthread_create thread = do {
     start \<leftarrow> call (Calloc 16);
     if ret start < 0 then State_Monad.return ENOMEM
     else do {
       a \<leftarrow> call (CreateThread thread);
       State_Monad.return (if ret a = 0 then EAGAIN else 0) } }"

text \<open>Joining and cancelling are only asked for with the handle of a thread that was created.\<close>

definition pthread_join :: "int \<Rightarrow> ('z sys_scheme, int) state" where
  "pthread_join thread = do { _ \<leftarrow> call (WaitThread thread); State_Monad.return 0 }"

definition pthread_cancel :: "int \<Rightarrow> ('z sys_scheme, int) state" where
  "pthread_cancel thread = State_Monad.return 0"

section \<open>Starting and stopping\<close>

fun create_threads :: "iperf_stream list \<Rightarrow> ('z sys_scheme, bool \<times> iperf_stream list) state" where
  "create_threads [] = State_Monad.return (True, [])"
| "create_threads (sp # sps) = do {
     rc \<leftarrow> pthread_create (sp_id sp);
     if rc \<noteq> 0 then do { _ \<leftarrow> set_i_errno IEPTHREADCREATE; State_Monad.return (False, sp # sps) }
     else do {
       (ok, sps) \<leftarrow> create_threads sps;
       State_Monad.return (ok, sp\<lparr>sp_thread_created := 1\<rparr> # sps) } }"

definition thread_failed :: "platform \<Rightarrow> string \<Rightarrow> int \<Rightarrow> int \<Rightarrow> (iperf, bool) state" where
  "thread_failed pf what ie rc =
     (if rc \<noteq> 0 \<and> rc \<noteq> ESRCH then do {
        _ \<leftarrow> set_i_errno ie;
        _ \<leftarrow> set_errno rc;
        msg \<leftarrow> iperf_strerror (pf_strerror pf) (pf_gai_strerror pf) ie;
        _ \<leftarrow> iperf_err (what @ '' - '' @ msg);
        State_Monad.return True }
      else State_Monad.return False)"

text \<open>\<open>strict\<close>: a failure ends the loop; otherwise it is only reported.\<close>

definition stop_thread :: "platform \<Rightarrow> string \<Rightarrow> bool \<Rightarrow> iperf_stream \<Rightarrow> (iperf, bool \<times> iperf_stream) state" where
  "stop_thread pf what strict sp = do {
     let sp = sp\<lparr>sp_done := 1\<rparr>;
     if sp_thread_created sp \<noteq> 1 then State_Monad.return (True, sp)
     else do {
       rc \<leftarrow> pthread_cancel (sp_id sp);
       failed \<leftarrow> thread_failed pf (what @ '' in pthread_cancel'') IEPTHREADCANCEL rc;
       if failed \<and> strict then State_Monad.return (False, sp)
       else do {
         rc \<leftarrow> pthread_join (sp_id sp);
         failed \<leftarrow> thread_failed pf (what @ '' in pthread_join'') IEPTHREADJOIN rc;
         if failed \<and> strict then State_Monad.return (False, sp)
         else State_Monad.return (True, sp\<lparr>sp_thread_created := 0\<rparr>) } } }"

fun stop_threads ::
  "platform \<Rightarrow> string \<Rightarrow> bool \<Rightarrow> (iperf_stream \<Rightarrow> bool) \<Rightarrow> iperf_stream list \<Rightarrow> (iperf, bool \<times> iperf_stream list) state" where
  "stop_threads pf what strict sel [] = State_Monad.return (True, [])"
| "stop_threads pf what strict sel (sp # sps) =
     (if \<not> sel sp then do {
        (ok, sps) \<leftarrow> stop_threads pf what strict sel sps;
        State_Monad.return (ok, sp # sps) }
      else do {
        (ok, sp) \<leftarrow> stop_thread pf what strict sp;
        if \<not> ok then State_Monad.return (False, sp # sps)
        else do {
          (ok, sps) \<leftarrow> stop_threads pf what strict sel sps;
          State_Monad.return (ok, sp # sps) } })"

text \<open>A loop over the streams of the test that replaces them.\<close>

definition with_streams :: "(iperf_stream list \<Rightarrow> (iperf, 'a \<times> iperf_stream list) state) \<Rightarrow> (iperf, 'a) state" where
  "with_streams m = do {
     test \<leftarrow> reads the_test;
     (r, sps) \<leftarrow> m (test_streams test);
     _ \<leftarrow> update_state (the_test_update (test_streams_update (\<lambda>_. sps)));
     State_Monad.return r }"

section \<open>The work of a thread\<close>

definition worker_iteration :: "platform \<Rightarrow> iperf_stream \<Rightarrow> (iperf, int \<times> iperf_stream) state" where
  "worker_iteration pf sp = (if sp_sender sp \<noteq> 0 then iperf_send_mt (pf_conversion pf) sp else iperf_recv_mt sp)"

text \<open>
  The loop of the thread of the \<open>k\<close>th stream, from one test of its condition to the next; the result says
  whether the thread goes on. The loop is the same on both sides.
\<close>

definition iperf_client_worker_run :: "platform \<Rightarrow> nat \<Rightarrow> iperf \<Rightarrow> bool \<times> iperf" where
  "iperf_client_worker_run pf k w =
     (let sp = test_streams (the_test w) ! k
      in if test_done (the_test w) \<noteq> 0 \<or> sp_done sp \<noteq> 0 then (False, w)
         else let ((r, sp), w) = run_state (worker_iteration pf sp) w
              in (0 \<le> r, set_test (test_streams_update (\<lambda>sps. sps[k := sp])) w))"

definition iperf_server_worker_run :: "platform \<Rightarrow> nat \<Rightarrow> iperf \<Rightarrow> bool \<times> iperf" where
  "iperf_server_worker_run pf k w =
     (let sp = test_streams (the_test w) ! k
      in if test_done (the_test w) \<noteq> 0 \<or> sp_done sp \<noteq> 0 then (False, w)
         else let ((r, sp), w) = run_state (worker_iteration pf sp) w
              in (0 \<le> r, set_test (test_streams_update (\<lambda>sps. sps[k := sp])) w))"

end
