(* ===== verification/Client.thy ===== *)
theory Client
  imports Threads
begin

text \<open>
  The client (\<open>iperf_client_api.c\<close>): the control connection, the streams, the messages of the server, one
  iteration of the main loop, and the run of a test as a relation in which the steps of the main thread
  and of the threads of the streams alternate. The functions of this build are modelled: no choice of the
  congestion algorithm, no user timeout.
\<close>

section \<open>Streams\<close>

text \<open>\<open>test->protocol->connect\<close>; \<open>None\<close> also stands for a UDP server that sends empty datagrams only.\<close>

definition protocol_connect :: "platform \<Rightarrow> int prog" where
  "protocol_connect pf w =
     (if test_protocol (the_test w) = None then None
      else if protocol_is Pudp (the_test w) then do {
        (r, w) \<leftarrow> run (iperf_udp_connect (pf_patience pf)) w;
        map_option (\<lambda>s. (s, w)) r }
      else run iperf_tcp_connect w)"

definition stream_bind_port :: "iperf_test \<Rightarrow> int \<Rightarrow> int \<Rightarrow> int \<Rightarrow> int" where
  "stream_bind_port test sender orig i =
     (if orig = 0 then orig
      else if sender = 0 \<and> test_mode test = BIDIRECTIONAL then to_int (to_int (orig + i) + test_num_streams test)
      else to_int (orig + i))"

partial_function (option) create_streams_loop :: "platform \<Rightarrow> callbacks \<Rightarrow> int \<Rightarrow> int \<Rightarrow> int \<Rightarrow> int prog" where
  "create_streams_loop pf user sender orig i w =
     (if i < test_num_streams (the_test w) then do {
        let w = set_test (\<lambda>t. t\<lparr>test_bind_port := stream_bind_port t sender orig i\<rparr>) w;
        (s, w) \<leftarrow> protocol_connect pf w;
        let w = set_test (test_bind_port_update (\<lambda>_. orig)) w;
        if s < 0 then Some (- 1, w)
        else do {
          (ok, w) \<leftarrow> iperf_new_stream pf s sender w;
          if \<not> ok then Some (- 1, w)
          else do {
            w \<leftarrow> call_if_set pf user (test_on_new_stream (the_test w)) w;
            create_streams_loop pf user sender orig (i + 1) w } } }
      else Some (0, w))"

definition iperf_create_streams :: "platform \<Rightarrow> callbacks \<Rightarrow> int \<Rightarrow> int prog" where
  "iperf_create_streams pf user sender w = create_streams_loop pf user sender (test_bind_port (the_test w)) 0 w"

section \<open>The end of the control connection\<close>

fun close_sockets :: "iperf_stream list \<Rightarrow> ('z sys_scheme, unit) state" where
  "close_sockets [] = State_Monad.return ()"
| "close_sockets (sp # sps) = do { _ \<leftarrow> iperf_win32_close (sp_socket sp); close_sockets sps }"

definition iperf_client_end :: "platform \<Rightarrow> callbacks \<Rightarrow> int prog" where
  "iperf_client_end pf user w = do {
     (_, w) \<leftarrow> run (close_sockets (test_streams (the_test w))) w;
     w \<leftarrow> call_pointer pf user (test_reporter_callback (the_test w)) w;
     (r, w) \<leftarrow> (if test_state (the_test w) > 0 then run (iperf_set_send_state IPERF_DONE) w else Some (0, w));
     if r \<noteq> 0 then Some (- 1, w)
     else do {
       w \<leftarrow> (if test_ctrl_sck (the_test w) \<ge> 0 then iperf_sync_close_socket (test_ctrl_sck (the_test w)) w else Some w);
       Some (0, w) } }"

section \<open>Messages of the server\<close>

text \<open>The number of an error on the wire is an \<open>int32_t\<close> in network byte order.\<close>

definition int32_of :: "byte list \<Rightarrow> int" where
  "int32_of bs = sint (from_be32 bs)"

text \<open>A short read leaves the rest of the variable as it was.\<close>

definition overlay :: "byte list \<Rightarrow> byte list \<Rightarrow> byte list" where
  "overlay new old = new @ drop (length new) old"

definition read_server_error :: "platform \<Rightarrow> byte list \<Rightarrow> (iperf, int) state" where
  "read_server_error pf junk = do {
     test \<leftarrow> reads the_test;
     (n, bs) \<leftarrow> Nread (test_ctrl_sck test) 4 Ptcp;
     if n < 0 then fail IECTRLREAD
     else do {
       let ie = overlay bs junk;
       _ \<leftarrow> set_i_errno (int32_of ie);
       (n, bs) \<leftarrow> Nread (test_ctrl_sck test) 4 Ptcp;
       if n < 0 then fail IECTRLREAD
       else do {
         let eno = int32_of (overlay bs ie);
         _ \<leftarrow> set_errno eno;
         msg \<leftarrow> iperf_strerror (pf_strerror pf) (pf_gai_strerror pf) (int32_of ie);
         _ \<leftarrow> iperf_err (if eno > 0 then ''SERVER ERROR - '' @ msg @ '', errno: '' @ pf_strerror pf eno else ''SERVER ERROR - '' @ msg);
         State_Monad.return (- 1) } } }"

definition last_report :: "platform \<Rightarrow> callbacks \<Rightarrow> iperf \<Rightarrow> iperf option" where
  "last_report pf user w = do {
     let oldstate = test_state (the_test w);
     (_, w) \<leftarrow> run cpu_util_test w;
     let w = set_test (test_state_update (\<lambda>_. DISPLAY_RESULTS)) w;
     w \<leftarrow> call_pointer pf user (test_reporter_callback (the_test w)) w;
     Some (set_test (test_state_update (\<lambda>_. oldstate)) w) }"

definition client_test_start :: "platform \<Rightarrow> callbacks \<Rightarrow> int prog" where
  "client_test_start pf user w = do {
     (r, w) \<leftarrow> iperf_init_test (callback pf user) w;
     if r < 0 then Some (- 1, w)
     else do {
       (r, w) \<leftarrow> create_client_timers w;
       if r < 0 then Some (- 1, w)
       else do {
         (r, w) \<leftarrow> create_client_omit_timer w;
         if r < 0 then Some (- 1, w)
         else if test_mode (the_test w) \<noteq> 0 then do {
           (r, w) \<leftarrow> run iperf_create_send_timers w;
           Some (if r < 0 then - 1 else 0, w) }
         else Some (0, w) } } }"

definition client_create_streams :: "platform \<Rightarrow> callbacks \<Rightarrow> int prog" where
  "client_create_streams pf user w =
     (if test_mode (the_test w) = BIDIRECTIONAL then do {
        (r, w) \<leftarrow> iperf_create_streams pf user 1 w;
        if r < 0 then Some (- 1, w)
        else do {
          (r, w) \<leftarrow> iperf_create_streams pf user 0 w;
          Some (if r < 0 then - 1 else 0, w) } }
      else do {
        (r, w) \<leftarrow> iperf_create_streams pf user (test_mode (the_test w)) w;
        Some (if r < 0 then - 1 else 0, w) })"

text \<open>\<open>junk\<close> is what the variable for the server's error holds before it is read.\<close>

definition client_message :: "platform \<Rightarrow> callbacks \<Rightarrow> byte list \<Rightarrow> int prog" where
  "client_message pf user junk w =
     (let st = test_state (the_test w)
      in if st = PARAM_EXCHANGE then do {
           (r, w) \<leftarrow> run iperf_exchange_parameters w;
           if r < 0 then Some (- 1, w)
           else do { w \<leftarrow> call_if_set pf user (test_on_connect (the_test w)) w; Some (0, w) } }
         else if st = CREATE_STREAMS then client_create_streams pf user w
         else if st = TEST_START then client_test_start pf user w
         else if st = TEST_RUNNING then Some (0, w)
         else if st = EXCHANGE_RESULTS then do {
           (r, w) \<leftarrow> run iperf_exchange_results w;
           Some (if r < 0 then - 1 else 0, w) }
         else if st = DISPLAY_RESULTS then do {
           w \<leftarrow> call_if_set pf user (test_on_test_finish (the_test w)) w;
           (_, w) \<leftarrow> iperf_client_end pf user w;
           Some (0, w) }
         else if st = IPERF_DONE then Some (0, w)
         else if st = SERVER_TERMINATE then do {
           w \<leftarrow> last_report pf user (w\<lparr>i_errno := IESERVERTERM\<rparr>);
           Some (- 1, w) }
         else if st = ACCESS_DENIED then run (fail IEACCESSDENIED) w
         else if st = SERVER_ERROR then run (read_server_error pf junk) w
         else run (fail IEMESSAGE) w)"

definition iperf_handle_message_client :: "platform \<Rightarrow> callbacks \<Rightarrow> byte list \<Rightarrow> int prog" where
  "iperf_handle_message_client pf user junk w = do {
     ((rval, bs), w) \<leftarrow> run (iperf_win32_read (test_ctrl_sck (the_test w)) 1) w;
     if rval = 0 then run (fail IECTRLCLOSE) w
     else if rval < 0 then run (fail IERECVMESSAGE) w
     else client_message pf user junk (set_test (test_state_update (\<lambda>_. sint (hd bs))) w) }"

section \<open>Connecting\<close>

definition control_mss :: "answer \<Rightarrow> int" where
  "control_mss a = (if ret a < 0 then 0 else if val a > 0 \<and> val a \<le> MAX_UDP_BLOCKSIZE then val a else 0)"

text \<open>The sizes of a UDP test: the block size, and the sizes of segmentation offload derived from it.\<close>

definition udp_sizes :: "iperf_test \<Rightarrow> iperf_test" where
  "udp_sizes t =
     (if \<not> protocol_is Pudp t then t
      else let cfg = test_settings t;
               blksize = (if cfg_blksize cfg \<noteq> 0 then cfg_blksize cfg
                          else if test_ctrl_sck_mss t \<noteq> 0 then test_ctrl_sck_mss t else DEFAULT_UDP_BLKSIZE);
               cfg = cfg\<lparr>cfg_blksize := blksize\<rparr>;
               cfg = (if cfg_gso cfg = 0 then cfg
                      else if blksize > 0 then cfg\<lparr>cfg_gso_dg_size := blksize, cfg_gso_bf_size := (cfg_gso_bf_size cfg sdiv blksize) * blksize\<rparr>
                      else cfg\<lparr>cfg_gso_dg_size := DEFAULT_UDP_BLKSIZE\<rparr>)
           in t\<lparr>test_settings := cfg\<rparr>)"

definition connect_options :: "(iperf, int) state" where
  "connect_options = do {
     test \<leftarrow> reads the_test;
     let s = test_ctrl_sck test;
     a \<leftarrow> winsock (Setsockopt s IPPROTO_TCP TCP_NODELAY 1);
     if ret a \<noteq> 0 then fail IESETNODELAY
     else do {
       r \<leftarrow> iperf_set_control_keepalive;
       if r < 0 then State_Monad.return (- 1)
       else do {
         r \<leftarrow> Nwrite s (test_cookie test) Ptcp;
         if r < 0 then fail IESENDCOOKIE
         else do {
           _ \<leftarrow> update_state (the_test_update (\<lambda>t. t\<lparr>test_read_set := FD_SET s (test_read_set t), test_max_fd := max s (test_max_fd t)\<rparr>));
           m \<leftarrow> winsock (Getsockopt s IPPROTO_TCP TCP_MAXSEG);
           _ \<leftarrow> update_state (the_test_update (\<lambda>t. udp_sizes (t\<lparr>test_ctrl_sck_mss := control_mss m\<rparr>)));
           State_Monad.return 0 } } } }"

definition iperf_connect :: "int prog" where
  "iperf_connect w = do {
     let w = set_test (\<lambda>t. t\<lparr>test_read_set := [], test_write_set := []\<rparr>) w;
     (entropy, w) \<leftarrow> readentropy COOKIE_SIZE w;
     let w = set_test (test_cookie_update (\<lambda>_. make_cookie entropy)) w;
     let test = the_test w;
     (s, w) \<leftarrow> (if test_ctrl_sck test < 0
       then run (netdial (cfg_domain (test_settings test)) Ptcp (test_bind_address test) (test_bind_dev test) 0
                  (test_server_hostname test) (test_server_port test) (cfg_connect_timeout (test_settings test))) w
       else Some (test_ctrl_sck test, w));
     let w = set_test (test_ctrl_sck_update (\<lambda>_. s)) w;
     if s < 0 then run (fail IECONNECT) w
     else do {
       (r, w) \<leftarrow> run connect_options w;
       if r = 0 \<and> test_protocol (the_test w) = None then None else Some (r, w) } }"

section \<open>The main loop\<close>

text \<open>
  The answer to \<open>select\<close> has in \<open>bytes\<close> one flag per socket of the read set: the sockets that stay in it.
\<close>

definition ready_fds :: "int list \<Rightarrow> answer \<Rightarrow> int list" where
  "ready_fds fds a = map fst (filter (\<lambda>(fd, b). b \<noteq> 0) (zip fds (bytes a)))"

definition timeout_us :: "(int \<times> int) option \<Rightarrow> int" where
  "timeout_us t = (case t of None \<Rightarrow> - 1 | Some (s, us) \<Rightarrow> min SEC_TO_US (s * SEC_TO_US + us))"

definition time_long :: "iperf_time \<Rightarrow> int \<times> int" where
  "time_long t = (to_long (uint (secs t)), to_long (uint (usecs t)))"

text \<open>
  While data is expected, \<open>select\<close> waits for the next timer or for the receive timeout. The cap of one
  second is applied to the number that is compared, not to the time that is used.
\<close>

definition used_timeout :: "int \<Rightarrow> iperf_time \<Rightarrow> (int \<times> int) option \<Rightarrow> (int \<times> int) option" where
  "used_timeout rcv_timeout_us rcv_timeout t =
     (if timeout_us t < 0 \<or> timeout_us t > rcv_timeout_us then Some (time_long rcv_timeout) else t)"

record client_locals =
  cl_startup :: bool
  cl_last_receive_time :: iperf_time
  cl_last_receive_blocks :: u64

datatype 'l outcome = Goes_on 'l | Fails

definition idle_too_long :: "int \<Rightarrow> iperf_time \<Rightarrow> iperf_time \<Rightarrow> bool" where
  "idle_too_long limit_us now before =
     (let (past, diff) = iperf_time_diff now before in past = 0 \<and> sint (iperf_time_in_usecs diff) > limit_us)"

definition test_over :: "iperf_test \<Rightarrow> bool" where
  "test_over t =
     (let cfg = test_settings t
      in test_omitting t = 0 \<and>
         (test_done t \<noteq> 0
          \<or> (cfg_bytes cfg \<noteq> 0 \<and> (test_bytes_sent t \<ge> cfg_bytes cfg \<or> test_bytes_received t \<ge> cfg_bytes cfg))
          \<or> (cfg_blocks cfg \<noteq> 0 \<and> (test_blocks_sent t \<ge> cfg_blocks cfg \<or> test_blocks_received t \<ge> cfg_blocks cfg))))"

fun shutdown_senders :: "iperf_stream list \<Rightarrow> ('z sys_scheme, unit) state" where
  "shutdown_senders [] = State_Monad.return ()"
| "shutdown_senders (sp # sps) = do {
     _ \<leftarrow> (if sp_sender sp \<noteq> 0 \<and> sp_socket sp > - 1 then winsock (Shutdown (sp_socket sp) SHUT_WR) else State_Monad.return (answers 0));
     shutdown_senders sps }"

definition client_test_end :: "platform \<Rightarrow> callbacks \<Rightarrow> int prog" where
  "client_test_end pf user w = do {
     (ok, w) \<leftarrow> run (with_streams (stop_threads pf ''sender cancel'' True (\<lambda>sp. sp_sender sp \<noteq> 0))) w;
     if \<not> ok then Some (- 1, w)
     else do {
       (_, w) \<leftarrow> run (shutdown_senders (test_streams (the_test w))) w;
       let w = set_test (test_done_update (\<lambda>_. 1)) w;
       (_, w) \<leftarrow> run cpu_util_test w;
       w \<leftarrow> call_pointer pf user (test_stats_callback (the_test w)) w;
       (r, w) \<leftarrow> run (iperf_set_send_state TEST_END) w;
       Some (if r \<noteq> 0 then - 1 else 0, w) } }"

definition client_running :: "platform \<Rightarrow> callbacks \<Rightarrow> client_locals \<Rightarrow> client_locals outcome prog" where
  "client_running pf user l w = do {
     (ok, w) \<leftarrow> (if cl_startup l then run (with_streams create_threads) w else Some (True, w));
     if \<not> ok then Some (Fails, w)
     else do {
       w \<leftarrow> run_timers pf user w;
       (r, w) \<leftarrow> (if test_over (the_test w) then client_test_end pf user w else Some (0, w));
       Some (if r < 0 then Fails else Goes_on (l\<lparr>cl_startup := False\<rparr>), w) } }"

definition client_select :: "int \<Rightarrow> (answer \<times> iperf_time) prog" where
  "client_select rcv_timeout_us w = do {
     (now, w) \<leftarrow> run iperf_time_now w;
     t \<leftarrow> tmr_timeout (Some now) now (tmem w);
     let test = the_test w;
     let timeout = (if test_state test = TEST_RUNNING \<and> rcv_timeout_us > 0
                    then used_timeout rcv_timeout_us (cfg_rcv_timeout (test_settings test)) t else t);
     (a, w) \<leftarrow> run (winsock (Select (test_read_set test) (test_write_set test) timeout)) w;
     Some ((a, now), w) }"

definition client_iteration ::
  "platform \<Rightarrow> callbacks \<Rightarrow> byte list \<Rightarrow> int \<Rightarrow> client_locals \<Rightarrow> client_locals outcome prog" where
  "client_iteration pf user junk rcv_timeout_us l w = do {
     let read_set = test_read_set (the_test w);
     ((a, now), w) \<leftarrow> client_select rcv_timeout_us w;
     if ret a < 0 \<and> errno w \<noteq> EINTR then Some (Fails, w\<lparr>i_errno := IESELECT\<rparr>)
     else do {
       let watched = (ret a = 0 \<and> test_state (the_test w) = TEST_RUNNING \<and> rcv_timeout_us > 0);
       (now, w) \<leftarrow> (if watched then run iperf_time_now w else Some (now, w));
       if watched \<and> idle_too_long rcv_timeout_us now (cl_last_receive_time l)
          \<and> test_blocks_received (the_test w) = cl_last_receive_blocks l
       then Some (Fails, w\<lparr>i_errno := IENOMSG\<rparr>)
       else do {
         let l = (if test_blocks_received (the_test w) > cl_last_receive_blocks l
                  then l\<lparr>cl_last_receive_blocks := test_blocks_received (the_test w), cl_last_receive_time := now\<rparr> else l);
         (r, w) \<leftarrow> (if ret a > 0 \<and> test_ctrl_sck (the_test w) \<in> set (ready_fds read_set a)
           then iperf_handle_message_client pf user junk w else Some (0, w));
         if r < 0 then Some (Fails, w)
         else if test_state (the_test w) = TEST_RUNNING then client_running pf user l w
         else Some (Goes_on l, w) } } }"

section \<open>The run of a test\<close>

definition client_rcv_timeout :: "iperf_test \<Rightarrow> int" where
  "client_rcv_timeout t =
     (if test_mode t = SENDER then 0
      else uint (secs (cfg_rcv_timeout (test_settings t))) * SEC_TO_US + uint (usecs (cfg_rcv_timeout (test_settings t))))"

text \<open>The part before the loop: an early return, a failure that is cleaned up, or the start of the loop.\<close>

datatype client_start = Returns_early | Cannot_connect | Starts int client_locals

definition client_setup :: "platform \<Rightarrow> int prog" where
  "client_setup pf w = do {
     (r, w) \<leftarrow> (if test_logfile (the_test w) \<noteq> None then run iperf_open_logfile w else Some (0, w));
     if r < 0 then Some (- 1, w)
     else do {
       (r, w) \<leftarrow> (if test_affinity (the_test w) \<noteq> - 1 then run (iperf_setaffinity (test_affinity (the_test w))) w else Some (0, w));
       if r \<noteq> 0 then Some (- 1, w)
       else Some (0, if test_json_output (the_test w) \<noteq> 0 then set_test (json_begin pf) w else w) } }"

definition client_begin :: "platform \<Rightarrow> client_start prog" where
  "client_begin pf w = do {
     (r, w) \<leftarrow> client_setup pf w;
     if r < 0 then Some (Returns_early, w)
     else do {
       (r, w) \<leftarrow> iperf_connect w;
       if r < 0 then Some (Cannot_connect, w)
       else do {
         (_, w) \<leftarrow> run cpu_util_start w;
         let rcv_timeout_us = client_rcv_timeout (the_test w);
         (now, w) \<leftarrow> run iperf_time_now w;
         Some (Starts rcv_timeout_us \<lparr>cl_startup = True, cl_last_receive_time = now, cl_last_receive_blocks = 0\<rparr>, w) } } }"

text \<open>The end after \<open>IPERF_DONE\<close>: the threads of the receivers are stopped. \<open>None\<close> sends it to the clean-up.\<close>

definition client_finish :: "platform \<Rightarrow> callbacks \<Rightarrow> (int option) prog" where
  "client_finish pf user w = do {
     (ok, w) \<leftarrow> run (with_streams (stop_threads pf ''receiver cancel'' True (\<lambda>sp. sp_sender sp = 0))) w;
     if \<not> ok then Some (None, w)
     else if test_json_output (the_test w) \<noteq> 0 then do {
       (r, w) \<leftarrow> iperf_json_finish user w;
       Some (Some (if r < 0 then - 1 else 0), w) }
     else Some (Some 0, w) }"

definition client_cleanup :: "platform \<Rightarrow> callbacks \<Rightarrow> int prog" where
  "client_cleanup pf user w = do {
     let saved = i_errno w;
     (_, w) \<leftarrow> run (with_streams (stop_threads pf ''cleanup_and_fail'' False (\<lambda>sp. sp_done sp = 0))) w;
     (_, w) \<leftarrow> iperf_client_end pf user (w\<lparr>i_errno := saved\<rparr>);
     let w = w\<lparr>i_errno := saved\<rparr>;
     if test_json_output (the_test w) = 0 then Some (- 1, w)
     else do {
       (msg, w) \<leftarrow> run (iperf_strerror (pf_strerror pf) (pf_gai_strerror pf) saved) w;
       let w = set_test (add_top ''error'' (JString msg)) w;
       (_, w) \<leftarrow> iperf_json_finish user w;
       Some (- 1, w) } }"

text \<open>
  The loop with the threads: the main thread does an iteration, or the thread of some stream does one.
  A thread that has ended may be scheduled again; it then only tests its condition, or, after an error,
  tries again, which is more than the program does.
\<close>

inductive client_loop :: "platform \<Rightarrow> callbacks \<Rightarrow> byte list \<Rightarrow> int \<Rightarrow> client_locals \<Rightarrow> iperf \<Rightarrow> client_locals \<Rightarrow> iperf \<Rightarrow> bool"
  for pf user junk rcv l0 w0 where
  enter: "client_loop pf user junk rcv l0 w0 l0 w0"
| main: "client_loop pf user junk rcv l0 w0 l w \<Longrightarrow> test_state (the_test w) \<noteq> IPERF_DONE
    \<Longrightarrow> client_iteration pf user junk rcv l w = Some (Goes_on l', w') \<Longrightarrow> client_loop pf user junk rcv l0 w0 l' w'"
| thread: "client_loop pf user junk rcv l0 w0 l w \<Longrightarrow> k < length (test_streams (the_test w))
    \<Longrightarrow> sp_thread_created (test_streams (the_test w) ! k) = 1 \<Longrightarrow> iperf_client_worker_run pf k w = (b, w')
    \<Longrightarrow> client_loop pf user junk rcv l0 w0 l w'"

inductive iperf_run_client :: "platform \<Rightarrow> callbacks \<Rightarrow> byte list \<Rightarrow> iperf \<Rightarrow> int \<Rightarrow> iperf \<Rightarrow> bool"
  for pf user junk w0 where
  early: "client_begin pf w0 = Some (Returns_early, w) \<Longrightarrow> iperf_run_client pf user junk w0 (- 1) w"
| not_connected: "client_begin pf w0 = Some (Cannot_connect, w) \<Longrightarrow> client_cleanup pf user w = Some (r, w')
    \<Longrightarrow> iperf_run_client pf user junk w0 r w'"
| failed: "client_begin pf w0 = Some (Starts rcv l0, w1) \<Longrightarrow> client_loop pf user junk rcv l0 w1 l w \<Longrightarrow> test_state (the_test w) \<noteq> IPERF_DONE
    \<Longrightarrow> client_iteration pf user junk rcv l w = Some (Fails, w') \<Longrightarrow> client_cleanup pf user w' = Some (r, w'')
    \<Longrightarrow> iperf_run_client pf user junk w0 r w''"
| finished: "client_begin pf w0 = Some (Starts rcv l0, w1) \<Longrightarrow> client_loop pf user junk rcv l0 w1 l w \<Longrightarrow> test_state (the_test w) = IPERF_DONE
    \<Longrightarrow> client_finish pf user w = Some (Some r, w') \<Longrightarrow> iperf_run_client pf user junk w0 r w'"
| finish_failed: "client_begin pf w0 = Some (Starts rcv l0, w1) \<Longrightarrow> client_loop pf user junk rcv l0 w1 l w \<Longrightarrow> test_state (the_test w) = IPERF_DONE
    \<Longrightarrow> client_finish pf user w = Some (None, w') \<Longrightarrow> client_cleanup pf user w' = Some (r, w'')
    \<Longrightarrow> iperf_run_client pf user junk w0 r w''"

end
