(* ===== verification/Server.thy ===== *)
theory Server
  imports Client
begin

text \<open>
  The server (\<open>iperf_server_api.c\<close>): listening, accepting a client, its messages, the streams, the start of
  a test, the clean-up, one iteration of the main loop, and the run of a test as a relation in which the
  main thread and the threads of the streams take turns.
\<close>

section \<open>Listening and accepting\<close>

definition announce :: "('z world_scheme, int) state" where
  "announce = do {
     test \<leftarrow> reads the_test;
     s \<leftarrow> netannounce (cfg_domain (test_settings test)) Ptcp (test_bind_address test) (test_bind_dev test) (test_server_port test);
     _ \<leftarrow> update_state (the_test_update (test_listener_update (\<lambda>_. s)));
     State_Monad.return s }"

definition count_test :: "iperf_test \<Rightarrow> iperf_test" where
  "count_test t =
     (if test_json_output t = 0 \<and> test_server_last_run_rc t \<noteq> 2 then t\<lparr>test_server_test_number := test_server_test_number t + 1\<rparr> else t)"

text \<open>The second attempt is for IPv4, so there is no third.\<close>

definition iperf_server_listen :: "('z world_scheme, int) state" where
  "iperf_server_listen = do {
     s \<leftarrow> announce;
     eno \<leftarrow> reads errno;
     test \<leftarrow> reads the_test;
     s \<leftarrow> (if s < 0 \<and> eno = EAFNOSUPPORT \<and> cfg_domain (test_settings test) \<in> {AF_INET6, AF_UNSPEC}
       then do {
         _ \<leftarrow> update_state (the_test_update (test_settings_update (cfg_domain_update (\<lambda>_. AF_INET))));
         announce }
       else State_Monad.return s);
     if s < 0 then fail IELISTEN
     else do {
       _ \<leftarrow> update_state (the_test_update (\<lambda>t. (count_test t)\<lparr>test_read_set := FD_SET s [], test_write_set := [],
             test_max_fd := max s (test_max_fd t)\<rparr>));
       State_Monad.return 0 } }"

definition watch_control :: "iperf_test \<Rightarrow> iperf_test" where
  "watch_control t = t\<lparr>test_read_set := FD_SET (test_ctrl_sck t) (test_read_set t), test_max_fd := max (test_ctrl_sck t) (test_max_fd t)\<rparr>"

text \<open>The new client on the control connection, up to the call of \<open>on_connect\<close>.\<close>

definition accept_client :: "int \<Rightarrow> (iperf, int) state" where
  "accept_client s = do {
     _ \<leftarrow> update_state (the_test_update (test_ctrl_sck_update (\<lambda>_. s)));
     a \<leftarrow> winsock (Setsockopt s IPPROTO_TCP TCP_NODELAY 1);
     if ret a \<noteq> 0 then fail IESETNODELAY
     else do {
       r \<leftarrow> iperf_set_control_keepalive;
       if r < 0 then State_Monad.return (- 1)
       else do {
         (n, bs) \<leftarrow> Nread s COOKIE_SIZE Ptcp;
         _ \<leftarrow> update_state (the_test_update (test_cookie_update (overlay bs)));
         if n \<noteq> int COOKIE_SIZE then fail IERECVCOOKIE
         else do {
           _ \<leftarrow> update_state (the_test_update watch_control);
           r \<leftarrow> iperf_set_send_state PARAM_EXCHANGE;
           if r \<noteq> 0 then State_Monad.return (- 1)
           else do {
             r \<leftarrow> iperf_exchange_parameters;
             if r < 0 then State_Monad.return (- 1)
             else do {
               test \<leftarrow> reads the_test;
               r \<leftarrow> (if test_server_affinity test \<noteq> - 1 then iperf_setaffinity (test_server_affinity test) else State_Monad.return 0);
               State_Monad.return (if r \<noteq> 0 then - 1 else 0) } } } } } }"

definition refuse_client :: "int \<Rightarrow> (iperf, unit) state" where
  "refuse_client s = do {
     _ \<leftarrow> Nwrite s [word_of_int ACCESS_DENIED] Ptcp;
     _ \<leftarrow> iperf_win32_close s;
     State_Monad.return () }"

definition iperf_accept :: "platform \<Rightarrow> callbacks \<Rightarrow> int prog" where
  "iperf_accept pf user w = do {
     (a, w) \<leftarrow> run (winsock (Accept (test_listener (the_test w)))) w;
     if ret a < 0 then run (fail IEACCEPT) w
     else if test_ctrl_sck (the_test w) = - 1 then do {
       (r, w) \<leftarrow> run (accept_client (ret a)) w;
       if r < 0 then Some (- 1, w)
       else do { w \<leftarrow> call_if_set pf user (test_on_connect (the_test w)) w; Some (0, w) } }
     else do { (_, w) \<leftarrow> run (refuse_client (ret a)) w; Some (0, w) } }"

section \<open>Messages of the client\<close>

definition unwatch :: "iperf_stream \<Rightarrow> iperf_test \<Rightarrow> iperf_test" where
  "unwatch sp t = t\<lparr>test_read_set := FD_CLR (sp_socket sp) (test_read_set t), test_write_set := FD_CLR (sp_socket sp) (test_write_set t)\<rparr>"

text \<open>The sockets of the streams are closed; their numbers stay in the streams.\<close>

fun close_streams :: "iperf_stream list \<Rightarrow> ('z world_scheme, unit) state" where
  "close_streams [] = State_Monad.return ()"
| "close_streams (sp # sps) = do {
     _ \<leftarrow> update_state (the_test_update (unwatch sp));
     _ \<leftarrow> iperf_win32_close (sp_socket sp);
     close_streams sps }"

definition exchange_at_end :: "(iperf, int) state" where
  "exchange_at_end = do {
     r \<leftarrow> iperf_set_send_state EXCHANGE_RESULTS;
     if r \<noteq> 0 then State_Monad.return (- 1)
     else do {
       r \<leftarrow> iperf_exchange_results;
       if r < 0 then State_Monad.return (- 1)
       else do {
         r \<leftarrow> iperf_set_send_state DISPLAY_RESULTS;
         State_Monad.return (if r \<noteq> 0 then - 1 else 0) } } }"

definition server_test_end :: "platform \<Rightarrow> callbacks \<Rightarrow> int prog" where
  "server_test_end pf user w = do {
     let w = set_test (test_done_update (\<lambda>_. 1)) w;
     (_, w) \<leftarrow> run cpu_util_test w;
     w \<leftarrow> call_pointer pf user (test_stats_callback (the_test w)) w;
     (_, w) \<leftarrow> run (close_streams (test_streams (the_test w))) w;
     w \<leftarrow> call_pointer pf user (test_reporter_callback (the_test w)) w;
     (r, w) \<leftarrow> run exchange_at_end w;
     if r < 0 then Some (- 1, w)
     else do { w \<leftarrow> call_if_set pf user (test_on_test_finish (the_test w)) w; Some (0, w) } }"

definition client_terminated :: "platform \<Rightarrow> callbacks \<Rightarrow> int prog" where
  "client_terminated pf user w = do {
     w \<leftarrow> last_report pf user (w\<lparr>i_errno := IECLIENTTERM\<rparr>);
     (_, w) \<leftarrow> run (iperf_err ''the client has terminated'') w;
     (_, w) \<leftarrow> run (close_streams (test_streams (the_test w))) w;
     Some (0, set_test (\<lambda>t. iperf_set_test_state t IPERF_DONE) w) }"

definition iperf_handle_message_server :: "platform \<Rightarrow> callbacks \<Rightarrow> int prog" where
  "iperf_handle_message_server pf user w = do {
     ((rval, bs), w) \<leftarrow> run (Nread (test_ctrl_sck (the_test w)) 1 Ptcp) w;
     if rval = 0 then do {
       (_, w) \<leftarrow> run (iperf_err ''the client has unexpectedly closed the connection'') w;
       (_, w) \<leftarrow> run (set_i_errno IECTRLCLOSE) w;
       Some (0, set_test (\<lambda>t. iperf_set_test_state t IPERF_DONE) w) }
     else if rval < 0 then run (fail IERECVMESSAGE) w
     else do {
       let w = set_test (test_state_update (\<lambda>_. sint (hd bs))) w;
       let st = test_state (the_test w);
       if st = TEST_START then Some (0, w)
       else if st = TEST_END then server_test_end pf user w
       else if st = IPERF_DONE then Some (0, w)
       else if st = CLIENT_TERMINATE then client_terminated pf user w
       else run (fail IEMESSAGE) w } }"

section \<open>Cleaning up\<close>

definition tell_error :: "(iperf, unit) state" where
  "tell_error = do {
     ie \<leftarrow> reads i_errno;
     test \<leftarrow> reads the_test;
     if ie \<noteq> IENONE \<and> test_ctrl_sck test \<noteq> - 1 then do {
       r \<leftarrow> iperf_set_send_state SERVER_ERROR;
       if r = 0 then do {
         ie \<leftarrow> reads i_errno;
         n \<leftarrow> Nwrite (test_ctrl_sck test) (be32 (word_of_int ie)) Ptcp;
         if n \<ge> 0 then do {
           eno \<leftarrow> reads errno;
           _ \<leftarrow> Nwrite (test_ctrl_sck test) (be32 (word_of_int eno)) Ptcp;
           State_Monad.return () }
         else State_Monad.return () }
       else State_Monad.return () }
     else State_Monad.return () }"

fun close_stream_sockets :: "iperf_stream list \<Rightarrow> ('z sys_scheme, unit \<times> iperf_stream list) state" where
  "close_stream_sockets [] = State_Monad.return ((), [])"
| "close_stream_sockets (sp # sps) = do {
     sp \<leftarrow> (if sp_socket sp > - 1
       then do { _ \<leftarrow> iperf_win32_close (sp_socket sp); State_Monad.return (sp\<lparr>sp_socket := - 1\<rparr>) }
       else State_Monad.return sp);
     (_, sps) \<leftarrow> close_stream_sockets sps;
     State_Monad.return ((), sp # sps) }"

definition close_control :: "iperf \<Rightarrow> iperf option" where
  "close_control w =
     (if test_ctrl_sck (the_test w) > - 1 then do {
        w \<leftarrow> iperf_sync_close_socket (test_ctrl_sck (the_test w)) w;
        Some (set_test (test_ctrl_sck_update (\<lambda>_. - 1)) w) }
      else Some w)"

definition close_listeners :: "(iperf, unit) state" where
  "close_listeners = do {
     test \<leftarrow> reads the_test;
     _ \<leftarrow> (if test_listener test > - 1 then do {
            _ \<leftarrow> iperf_win32_close (test_listener test);
            update_state (the_test_update (test_listener_update (\<lambda>_. - 1))) }
          else State_Monad.return ());
     test \<leftarrow> reads the_test;
     if test_prot_listener test > - 1 then do {
       _ \<leftarrow> iperf_win32_close (test_prot_listener test);
       update_state (the_test_update (test_prot_listener_update (\<lambda>_. - 1))) }
     else State_Monad.return () }"

definition cancel_test_timers :: "iperf \<Rightarrow> iperf option" where
  "cancel_test_timers w = do {
     w \<leftarrow> cancel_timer (test_stats_timer (the_test w)) w;
     let w = set_test (test_stats_timer_update (\<lambda>_. None)) w;
     w \<leftarrow> cancel_timer (test_reporter_timer (the_test w)) w;
     let w = set_test (test_reporter_timer_update (\<lambda>_. None)) w;
     w \<leftarrow> cancel_timer (test_omit_timer (the_test w)) w;
     let w = set_test (\<lambda>t. t\<lparr>test_omit_timer := None, test_congestion_used := None\<rparr>) w;
     w \<leftarrow> cancel_timer (test_timer (the_test w)) w;
     Some (set_test (test_timer_update (\<lambda>_. None)) w) }"

definition cleanup_server :: "platform \<Rightarrow> iperf \<Rightarrow> iperf option" where
  "cleanup_server pf w = do {
     (_, w) \<leftarrow> run tell_error w;
     let saved = i_errno w;
     (_, w) \<leftarrow> run (with_streams (stop_threads pf ''cleanup_server'' False (\<lambda>_. True))) w;
     let w = w\<lparr>i_errno := saved\<rparr>;
     (_, w) \<leftarrow> run (with_streams close_stream_sockets) w;
     let w = set_test (\<lambda>t. t\<lparr>test_read_set := [], test_write_set := []\<rparr>) w;
     w \<leftarrow> close_control w;
     (_, w) \<leftarrow> run close_listeners w;
     cancel_test_timers w }"

section \<open>Streams and the start of a test\<close>

record server_locals =
  sl_last_receive_time :: iperf_time
  sl_last_receive_blocks :: u64
  sl_send_accepted :: int
  sl_rec_accepted :: int
  sl_to_send :: int
  sl_to_rec :: int
  sl_flag :: int

datatype 'l served = Serves 'l | Returns int | Exits

text \<open>
  What a part of the iteration comes to: it is done; it failed, and the server is cleaned up; or it
  failed and the number of the error is set after the clean-up.
\<close>

datatype 'a step = Done 'a | Broken | Broken_by int

definition give_up :: "platform \<Rightarrow> int option \<Rightarrow> 'l served prog" where
  "give_up pf e w = do {
     w \<leftarrow> cleanup_server pf w;
     Some (Returns (- 1), (case e of None \<Rightarrow> w | Some e \<Rightarrow> w\<lparr>i_errno := e\<rparr>)) }"

definition conclude :: "platform \<Rightarrow> ('a \<Rightarrow> 'l served prog) \<Rightarrow> 'a step \<Rightarrow> 'l served prog" where
  "conclude pf go_on s w =
     (case s of Done x \<Rightarrow> go_on x w | Broken \<Rightarrow> give_up pf None w | Broken_by e \<Rightarrow> give_up pf (Some e) w)"

definition protocol_accept :: "int prog" where
  "protocol_accept w =
     (if test_protocol (the_test w) = None then None
      else run (if protocol_is Pudp (the_test w) then iperf_udp_accept else iperf_tcp_accept) w)"

definition expected_streams :: "iperf_test \<Rightarrow> server_locals \<Rightarrow> server_locals" where
  "expected_streams t l =
     (if test_mode t = BIDIRECTIONAL then l\<lparr>sl_to_send := test_num_streams t, sl_to_rec := test_num_streams t\<rparr>
      else if test_mode t = RECEIVER then l\<lparr>sl_to_rec := test_num_streams t, sl_to_send := 0\<rparr>
      else l\<lparr>sl_to_send := test_num_streams t, sl_to_rec := 0\<rparr>)"

definition choose_direction :: "server_locals \<Rightarrow> server_locals" where
  "choose_direction l =
     (if sl_rec_accepted l \<noteq> sl_to_rec l then l\<lparr>sl_flag := 0, sl_rec_accepted := sl_rec_accepted l + 1\<rparr>
      else if sl_send_accepted l \<noteq> sl_to_send l then l\<lparr>sl_flag := 1, sl_send_accepted := sl_send_accepted l + 1\<rparr>
      else l)"

text \<open>A data connection: accepted, given its options and, unless it counts as closed, made a stream.\<close>

definition accept_stream :: "platform \<Rightarrow> callbacks \<Rightarrow> server_locals \<Rightarrow> (server_locals step) prog" where
  "accept_stream pf user l w = do {
     (s, w) \<leftarrow> protocol_accept w;
     if s < 0 then Some (Broken, w)
     else do {
       (r, w) \<leftarrow> run (iperf_common_sockopts s) w;
       if r < 0 then Some (Broken, w)
       else do {
         (closed, w) \<leftarrow> run (is_closed s) w;
         if closed then Some (Done l, w)
         else do {
           let l = choose_direction l;
           if sl_flag l = - 1 then Some (Done l, w)
           else do {
             (ok, w) \<leftarrow> iperf_new_stream pf s (sl_flag l) w;
             if \<not> ok then Some (Broken, w)
             else do {
               w \<leftarrow> call_if_set pf user (test_on_new_stream (the_test w)) (set_test (\<lambda>t. t\<lparr>test_max_fd := max s (test_max_fd t)\<rparr>) w);
               Some (Done (l\<lparr>sl_flag := - 1\<rparr>), w) } } } } } }"

text \<open>The listeners once every stream is there: a UDP listener is closed, a special TCP listener replaced.\<close>

definition drop_prot_listener :: "(iperf, unit) state" where
  "drop_prot_listener = do {
     test \<leftarrow> reads the_test;
     let s = test_prot_listener test;
     _ \<leftarrow> update_state (the_test_update (\<lambda>t. t\<lparr>test_read_set := FD_CLR s (test_read_set t)\<rparr>));
     _ \<leftarrow> iperf_win32_close s;
     update_state (the_test_update (test_prot_listener_update (\<lambda>_. - 1))) }"

definition replace_listener :: "(iperf, bool) state" where
  "replace_listener = do {
     test \<leftarrow> reads the_test;
     let l = test_listener test;
     _ \<leftarrow> update_state (the_test_update (\<lambda>t. t\<lparr>test_read_set := FD_CLR l (test_read_set t)\<rparr>));
     _ \<leftarrow> iperf_win32_close l;
     _ \<leftarrow> update_state (the_test_update (test_listener_update (\<lambda>_. - 1)));
     s \<leftarrow> netannounce (cfg_domain (test_settings test)) Ptcp (test_bind_address test) (test_bind_dev test) (test_server_port test);
     if s < 0 then State_Monad.return False
     else do {
       _ \<leftarrow> update_state (the_test_update (\<lambda>t. t\<lparr>test_listener := s, test_read_set := FD_SET s (test_read_set t), test_max_fd := max s (test_max_fd t)\<rparr>));
       State_Monad.return True } }"

definition settle_listeners :: "(iperf, bool) state" where
  "settle_listeners = do {
     test \<leftarrow> reads the_test;
     ok \<leftarrow> (if \<not> protocol_is Ptcp test then do { _ \<leftarrow> drop_prot_listener; State_Monad.return True }
       else if test_no_delay test \<noteq> 0 \<or> cfg_mss (test_settings test) \<noteq> 0 \<or> cfg_socket_bufsize (test_settings test) \<noteq> 0
       then replace_listener
       else State_Monad.return True);
     if \<not> ok then State_Monad.return False
     else do {
       _ \<leftarrow> update_state (the_test_update (test_prot_listener_update (\<lambda>_. - 1)));
       State_Monad.return True } }"

definition rate_message :: "iperf_test \<Rightarrow> string" where
  "rate_message t =
     ''Client total requested throughput rate of '' @ show_nat (unat (total_requested_rate t (cfg_rate (test_settings t))))
     @ '' bps exceeded '' @ show_nat (unat (cfg_bitrate_limit (test_settings t))) @ '' bps limit''"

text \<open>From \<open>TEST_START\<close> to \<open>TEST_RUNNING\<close>, in the order of the code.\<close>

definition announce_start :: "platform \<Rightarrow> callbacks \<Rightarrow> int prog" where
  "announce_start pf user w = do {
     (_, w) \<leftarrow> run cpu_util_start w;
     (r, w) \<leftarrow> run (iperf_set_send_state TEST_START) w;
     if r \<noteq> 0 then Some (- 1, w)
     else do {
       (r, w) \<leftarrow> iperf_init_test (callback pf user) w;
       if r < 0 then Some (- 1, w)
       else do {
         (r, w) \<leftarrow> create_server_timers w;
         if r < 0 then Some (- 1, w)
         else do {
           (r, w) \<leftarrow> create_server_omit_timer w;
           if r < 0 then Some (- 1, w)
           else do {
             (r, w) \<leftarrow> (if test_mode (the_test w) \<noteq> RECEIVER then run iperf_create_send_timers w else Some (0, w));
             if r < 0 then Some (- 1, w)
             else do {
               (r, w) \<leftarrow> run (iperf_set_send_state TEST_RUNNING) w;
               Some (if r \<noteq> 0 then - 1 else 0, w) } } } } } }"

definition start_streams :: "platform \<Rightarrow> callbacks \<Rightarrow> server_locals \<Rightarrow> (server_locals step) prog" where
  "start_streams pf user l w = do {
     (ok, w) \<leftarrow> run settle_listeners w;
     if \<not> ok then Some (Broken_by IELISTEN, w)
     else if too_fast (the_test w) (cfg_rate (test_settings (the_test w))) then do {
       (_, w) \<leftarrow> (if test_verbose (the_test w) \<noteq> 0 then run (iperf_err (rate_message (the_test w))) w else Some ((), w));
       Some (Broken_by IETOTALRATE, w) }
     else do {
       (r, w) \<leftarrow> announce_start pf user w;
       if r < 0 then Some (Broken, w)
       else do {
         (ok, w) \<leftarrow> run (with_streams create_threads) w;
         if \<not> ok then Some (Broken, w)
         else do {
           let blocks = test_blocks_received (the_test w);
           (now, w) \<leftarrow> run iperf_time_now w;
           Some (Done (l\<lparr>sl_last_receive_blocks := blocks, sl_last_receive_time := now\<rparr>), w) } } } }"

definition create_phase :: "platform \<Rightarrow> callbacks \<Rightarrow> int list \<Rightarrow> server_locals \<Rightarrow> (server_locals step) prog" where
  "create_phase pf user ready l w =
     (if test_state (the_test w) \<noteq> CREATE_STREAMS then Some (Done l, w)
      else do {
        (s, w) \<leftarrow> (if test_prot_listener (the_test w) \<in> set ready then accept_stream pf user l w else Some (Done l, w));
        (case s of
           Done l \<Rightarrow>
             (if sl_rec_accepted l = sl_to_rec l \<and> sl_send_accepted l = sl_to_send l then start_streams pf user l w else Some (Done l, w))
         | _ \<Rightarrow> Some (s, w)) })"

section \<open>The main loop\<close>

definition accept_phase :: "platform \<Rightarrow> callbacks \<Rightarrow> int list \<Rightarrow> server_locals \<Rightarrow> ((int list \<times> server_locals) step) prog" where
  "accept_phase pf user ready l w =
     (if test_listener (the_test w) \<in> set ready \<and> test_state (the_test w) \<noteq> CREATE_STREAMS then do {
        (r, w) \<leftarrow> iperf_accept pf user w;
        if r < 0 then Some (Broken, w)
        else Some (Done (FD_CLR (test_listener (the_test w)) ready, expected_streams (the_test w) l), w) }
      else Some (Done (ready, l), w))"

definition message_phase :: "platform \<Rightarrow> callbacks \<Rightarrow> int list \<Rightarrow> ((int list) step) prog" where
  "message_phase pf user ready w =
     (if test_ctrl_sck (the_test w) \<in> set ready then do {
        (r, w) \<leftarrow> iperf_handle_message_server pf user w;
        if r < 0 then Some (Broken, w) else Some (Done (FD_CLR (test_ctrl_sck (the_test w)) ready), w) }
      else Some (Done ready, w))"

definition handle_ready :: "platform \<Rightarrow> callbacks \<Rightarrow> int list \<Rightarrow> server_locals \<Rightarrow> (server_locals step) prog" where
  "handle_ready pf user ready l w = do {
     (s, w) \<leftarrow> accept_phase pf user ready l w;
     (case s of
        Done (ready, l) \<Rightarrow> do {
          (s, w) \<leftarrow> message_phase pf user ready w;
          (case s of
             Done ready \<Rightarrow> create_phase pf user ready l w
           | Broken \<Rightarrow> Some (Broken, w)
           | Broken_by e \<Rightarrow> Some (Broken_by e, w)) }
      | Broken \<Rightarrow> Some (Broken, w)
      | Broken_by e \<Rightarrow> Some (Broken_by e, w)) }"

text \<open>The streams together were faster than the limit: the client is told, then told again by the clean-up.\<close>

definition tell_rate_exceeded :: "(iperf, int option) state" where
  "tell_rate_exceeded = do {
     _ \<leftarrow> set_i_errno IETOTALRATE;
     r \<leftarrow> iperf_set_send_state SERVER_ERROR;
     if r \<noteq> 0 then State_Monad.return None
     else do {
       test \<leftarrow> reads the_test;
       ie \<leftarrow> reads i_errno;
       n \<leftarrow> Nwrite (test_ctrl_sck test) (be32 (word_of_int ie)) Ptcp;
       if n < 0 then State_Monad.return (Some IECTRLWRITE)
       else do {
         eno \<leftarrow> reads errno;
         n \<leftarrow> Nwrite (test_ctrl_sck test) (be32 (word_of_int eno)) Ptcp;
         State_Monad.return (if n < 0 then Some IECTRLWRITE else None) } } }"

definition server_timeout :: "iperf_test \<Rightarrow> int \<Rightarrow> (int \<times> int) option \<Rightarrow> (int \<times> int) option" where
  "server_timeout t rcv_timeout_us timer =
     (if test_state t = IPERF_START
      then (if timer = None \<and> cfg_idle_timeout (test_settings t) > 0 then Some (cfg_idle_timeout (test_settings t), 0) else timer)
      else if test_mode t \<noteq> SENDER then used_timeout rcv_timeout_us (cfg_rcv_timeout (test_settings t)) timer
      else timer)"

text \<open>Nothing happened: a restart of an idle server, the end of a test that receives nothing, or neither.\<close>

datatype idle = Wait | Restart | No_data

definition judge_idle :: "iperf_test \<Rightarrow> int \<Rightarrow> iperf_time \<Rightarrow> server_locals \<Rightarrow> idle" where
  "judge_idle t rcv_timeout_us now l =
     (let (past, diff) = iperf_time_diff now (sl_last_receive_time l);
          t_usecs = sint (iperf_time_in_usecs diff)
      in if past \<noteq> 0 then Wait
         else if test_state t = IPERF_START
         then (if cfg_idle_timeout (test_settings t) > 0 \<and> t_usecs \<ge> cfg_idle_timeout (test_settings t) * SEC_TO_US then Restart else Wait)
         else if test_mode t \<noteq> SENDER \<and> t_usecs > rcv_timeout_us \<and> test_blocks_received t = sl_last_receive_blocks l then No_data
         else Wait)"

definition restart_idle :: "platform \<Rightarrow> 'l served prog" where
  "restart_idle pf w = do {
     let w = set_test (\<lambda>t. t\<lparr>test_server_forced_idle_restarts_count := test_server_forced_idle_restarts_count t + 1\<rparr>) w;
     w \<leftarrow> cleanup_server pf w;
     Some (if iperf_get_test_one_off (the_test w) \<noteq> 0 then Exits else Returns 2, w) }"

definition idle_message :: "iperf_test \<Rightarrow> string" where
  "idle_message t = ''Server restart (#'' @ show_nat (unat (test_server_forced_no_msg_restarts_count t))
     @ '') during active test due to idle timeout for receiving data''"

definition end_without_data :: "platform \<Rightarrow> 'l served prog" where
  "end_without_data pf w = do {
     let w = set_test (\<lambda>t. t\<lparr>test_server_forced_no_msg_restarts_count := test_server_forced_no_msg_restarts_count t + 1\<rparr>) w;
     let w = w\<lparr>i_errno := IENOMSG\<rparr>;
     (_, w) \<leftarrow> (if test_verbose (the_test w) \<noteq> 0 then run (iperf_err (idle_message (the_test w))) w else Some ((), w));
     give_up pf None w }"

definition serve_ready ::
  "platform \<Rightarrow> callbacks \<Rightarrow> int list \<Rightarrow> answer \<Rightarrow> (int \<times> int) option \<Rightarrow> server_locals \<Rightarrow> server_locals served prog" where
  "serve_ready pf user read_set a timeout l w = do {
     (s, w) \<leftarrow> (if ret a > 0 then handle_ready pf user (ready_fds read_set a) l w else Some (Done l, w));
     conclude pf (\<lambda>l w.
       if ret a = 0 \<or> timeout = Some (0, 0) then do { w \<leftarrow> run_timers pf user w; Some (Serves l, w) } else Some (Serves l, w)) s w }"

definition server_iteration :: "platform \<Rightarrow> callbacks \<Rightarrow> int \<Rightarrow> server_locals \<Rightarrow> server_locals served prog" where
  "server_iteration pf user rcv_timeout_us l w =
     (if test_bitrate_limit_exceeded (the_test w) \<noteq> 0 then do {
        (e, w) \<leftarrow> run tell_rate_exceeded w;
        give_up pf e w }
      else do {
        let read_set = test_read_set (the_test w);
        (now, w) \<leftarrow> run iperf_time_now w;
        timer \<leftarrow> tmr_timeout (Some now) now (tmem w);
        let timeout = server_timeout (the_test w) rcv_timeout_us timer;
        (a, w) \<leftarrow> run (winsock (Select read_set (test_write_set (the_test w)) timeout)) w;
        if ret a < 0 \<and> errno w \<noteq> EINTR then give_up pf (Some IESELECT) w
        else do {
          (now, w) \<leftarrow> (if ret a = 0 then run iperf_time_now w else Some (now, w));
          let verdict = (if ret a = 0 then judge_idle (the_test w) rcv_timeout_us now l else Wait);
          if verdict = Restart then restart_idle pf w
          else if verdict = No_data then end_without_data pf w
          else do {
            let l = (if test_blocks_received (the_test w) > sl_last_receive_blocks l
                     then l\<lparr>sl_last_receive_blocks := test_blocks_received (the_test w), sl_last_receive_time := now\<rparr> else l);
            serve_ready pf user read_set a timeout l w } } })"

section \<open>The run of a test\<close>

definition server_rcv_timeout :: "iperf_test \<Rightarrow> int" where
  "server_rcv_timeout t =
     uint (secs (cfg_rcv_timeout (test_settings t))) * SEC_TO_US + uint (usecs (cfg_rcv_timeout (test_settings t)))"

text \<open>
  The part before the loop: a return, or the start of the loop. \<open>flag\<close> is what the variable of that name
  holds before it is set.
\<close>

definition server_listens :: "int \<Rightarrow> ((int \<times> server_locals) option) prog" where
  "server_listens flag w = do {
     (now, w) \<leftarrow> run iperf_time_now w;
     let w = set_test (\<lambda>t. iperf_set_test_state t IPERF_START) w;
     Some (Some (server_rcv_timeout (the_test w), \<lparr>sl_last_receive_time = now, sl_last_receive_blocks = 0, sl_send_accepted = 0,
       sl_rec_accepted = 0, sl_to_send = 0, sl_to_rec = 0, sl_flag = flag\<rparr>), w) }"

definition server_begin :: "platform \<Rightarrow> int \<Rightarrow> ((int \<times> server_locals) option) prog" where
  "server_begin pf flag w = do {
     (r, w) \<leftarrow> (if test_logfile (the_test w) \<noteq> None then run iperf_open_logfile w else Some (0, w));
     if r < 0 then Some (None, w)
     else do {
       (r, w) \<leftarrow> (if test_affinity (the_test w) \<noteq> - 1 then run (iperf_setaffinity (test_affinity (the_test w))) w else Some (0, w));
       if r \<noteq> 0 then do { w \<leftarrow> cleanup_server pf w; Some (None, w) }
       else do {
         let w = (if test_json_output (the_test w) \<noteq> 0 then set_test (json_begin pf) w else w);
         (r, w) \<leftarrow> run iperf_server_listen w;
         if r < 0 then do { w \<leftarrow> cleanup_server pf w; Some (None, w) }
         else server_listens flag w } } }"

definition server_finish :: "platform \<Rightarrow> callbacks \<Rightarrow> int prog" where
  "server_finish pf user w = do {
     (r, w) \<leftarrow> (if test_json_output (the_test w) \<noteq> 0 then iperf_json_finish user w else Some (0, w));
     if r < 0 then Some (- 1, w)
     else do {
       w \<leftarrow> cleanup_server pf w;
       (r, w) \<leftarrow> (if test_server_affinity (the_test w) \<noteq> - 1 then run iperf_clearaffinity w else Some (0, w));
       Some (if r \<noteq> 0 then - 1 else 0, w) } }"

inductive server_loop :: "platform \<Rightarrow> callbacks \<Rightarrow> int \<Rightarrow> server_locals \<Rightarrow> iperf \<Rightarrow> server_locals \<Rightarrow> iperf \<Rightarrow> bool"
  for pf user rcv l0 w0 where
  enter: "server_loop pf user rcv l0 w0 l0 w0"
| main: "server_loop pf user rcv l0 w0 l w \<Longrightarrow> test_state (the_test w) \<noteq> IPERF_DONE
    \<Longrightarrow> server_iteration pf user rcv l w = Some (Serves l', w') \<Longrightarrow> server_loop pf user rcv l0 w0 l' w'"
| thread: "server_loop pf user rcv l0 w0 l w \<Longrightarrow> k < length (test_streams (the_test w))
    \<Longrightarrow> sp_thread_created (test_streams (the_test w) ! k) = 1 \<Longrightarrow> iperf_server_worker_run pf k w = (b, w')
    \<Longrightarrow> server_loop pf user rcv l0 w0 l w'"

text \<open>\<open>exit(0)\<close> of a server for one test is a return with \<open>None\<close>.\<close>

inductive iperf_run_server :: "platform \<Rightarrow> callbacks \<Rightarrow> int \<Rightarrow> iperf \<Rightarrow> int option \<Rightarrow> iperf \<Rightarrow> bool"
  for pf user flag w0 where
  early: "server_begin pf flag w0 = Some (None, w) \<Longrightarrow> iperf_run_server pf user flag w0 (Some (- 2)) w"
| returned: "server_begin pf flag w0 = Some (Some (rcv, l0), w1) \<Longrightarrow> server_loop pf user rcv l0 w1 l w
    \<Longrightarrow> test_state (the_test w) \<noteq> IPERF_DONE \<Longrightarrow> server_iteration pf user rcv l w = Some (Returns r, w')
    \<Longrightarrow> iperf_run_server pf user flag w0 (Some r) w'"
| exited: "server_begin pf flag w0 = Some (Some (rcv, l0), w1) \<Longrightarrow> server_loop pf user rcv l0 w1 l w
    \<Longrightarrow> test_state (the_test w) \<noteq> IPERF_DONE \<Longrightarrow> server_iteration pf user rcv l w = Some (Exits, w')
    \<Longrightarrow> iperf_run_server pf user flag w0 None w'"
| finished: "server_begin pf flag w0 = Some (Some (rcv, l0), w1) \<Longrightarrow> server_loop pf user rcv l0 w1 l w
    \<Longrightarrow> test_state (the_test w) = IPERF_DONE \<Longrightarrow> server_finish pf user w = Some (r, w')
    \<Longrightarrow> iperf_run_server pf user flag w0 (Some r) w'"

end
