(* ===== verification/Stats_Correct.thy ===== *)
theory Stats_Correct
  imports Stats Rate_Correct
begin

text \<open>
  The intervals of a test: the records that the statistics callback makes of a stream divide what
  the stream moved. They count every byte and packet once and follow each other without a gap.
\<close>

section \<open>One stream\<close>

lemma last_interval_add [simp]: "last_interval (add_to_interval_list rp ir) = Some ir"
  by (simp add: last_interval_def add_to_interval_list_def)

text \<open>What a record says, whatever the shared variable held before.\<close>

lemma stream_interval_record:
  assumes "stream_interval sdk test now i temp sp = (ir, sp')"
  shows "last_interval (sp_result sp') = Some ir"
    and "ir_bytes_transferred ir = (if sp_sender sp \<noteq> 0 then res_bytes_sent_this_interval (sp_result sp) else res_bytes_received_this_interval (sp_result sp))"
    and "ir_interval_start_time ir = (if last_interval (sp_result sp) = None then res_start_time (sp_result sp) else res_end_time (sp_result sp))"
    and "ir_interval_end_time ir = now" and "res_end_time (sp_result sp') = now"
    and "res_start_time (sp_result sp') = res_start_time (sp_result sp)" and "sp_sender sp' = sp_sender sp"
    and "res_bytes_sent_this_interval (sp_result sp') = 0" and "res_bytes_received_this_interval (sp_result sp') = 0"
    and "res_bytes_sent (sp_result sp') = res_bytes_sent (sp_result sp)" and "res_bytes_received (sp_result sp') = res_bytes_received (sp_result sp)"
  using assms
  by (auto simp: stream_interval_def tcp_interval_def udp_interval_def interval_times_def last_interval_def add_to_interval_list_def
      Let_def split: if_splits)

definition earlier :: "(iperf_interval_results \<Rightarrow> i64) \<Rightarrow> iperf_interval_results option \<Rightarrow> i64" where
  "earlier f irp = (case irp of None \<Rightarrow> 0 | Some i \<Rightarrow> f i)"

lemma stream_interval_packets:
  assumes "stream_interval sdk test now i temp sp = (ir, sp')" and "map_option prot_id (test_protocol test) \<noteq> Some Ptcp"
  shows "ir_packet_count ir = sp_packet_count sp" and "ir_cnt_error ir = sp_cnt_error sp" and "ir_outoforder_packets ir = sp_outoforder_packets sp"
    and "ir_interval_packet_count ir = sp_packet_count sp - earlier ir_packet_count (last_interval (sp_result sp))"
    and "ir_interval_cnt_error ir = sp_cnt_error sp - earlier ir_cnt_error (last_interval (sp_result sp))"
    and "ir_interval_outoforder_packets ir = sp_outoforder_packets sp - earlier ir_outoforder_packets (last_interval (sp_result sp))"
  using assms
  by (auto simp: stream_interval_def udp_interval_def interval_times_def earlier_def Let_def split: if_splits)

section \<open>All streams\<close>

definition ticked :: "bool \<Rightarrow> iperf_test \<Rightarrow> iperf_stream \<Rightarrow> iperf_stream \<Rightarrow> bool" where
  "ticked sdk test sp sp' \<longleftrightarrow> (\<exists>now i temp. sp' = snd (stream_interval sdk test now i temp sp))"

lemma stats_loop_ticks:
  "list_all2 (ticked sdk test) sps (snd (fst (run_state (stats_loop sdk test temp total_bytes sps) w)))"
proof (induction sps arbitrary: temp total_bytes w)
  case (Cons sp sps)
  have "ticked sdk test sp (snd (stream_interval sdk test now i temp sp))" for now i
    by (auto simp: ticked_def)
  then show ?case
    using Cons by (auto simp: case_prod_beta Let_def)
qed simp

lemma total_rate_keeps:
  assumes "iperf_check_total_rate u n t = Some t'"
  shows "test_streams t' = test_streams t" and "test_protocol t' = test_protocol t"
  using assms by (auto simp: iperf_check_total_rate_def Let_def split: if_splits)

lemma stats_callback_ticks:
  assumes "iperf_stats_callback sdk u junk w = Some w'"
  shows "list_all2 (ticked sdk (the_test w)) (test_streams (the_test w)) (test_streams (the_test w'))"
    and "test_protocol (the_test w') = test_protocol (the_test w)"
proof -
  let ?temp = "junk\<lparr>ir_omitted := test_omitting (the_test w), ir_rtt := 0, ir_rttvar := 0, ir_pmtu := 0\<rparr>"
  have "list_all2 (ticked sdk (the_test w)) (test_streams (the_test w))
      (snd (fst (run_state (stats_loop sdk (the_test w) ?temp 0 (test_streams (the_test w))) w)))"
    by (rule stats_loop_ticks)
  then show "list_all2 (ticked sdk (the_test w)) (test_streams (the_test w)) (test_streams (the_test w'))"
    "test_protocol (the_test w') = test_protocol (the_test w)"
    using assms total_rate_keeps by (fastforce simp: iperf_stats_callback_def case_prod_beta Let_def split: if_splits)+
qed

section \<open>A run\<close>

text \<open>
  What the workers do to the streams between two callbacks: they count \<open>n\<close> bytes sent and \<open>m\<close> bytes
  received, in the total and in the interval, and change the counters of packets in any way.
\<close>

definition worked :: "iperf_stream \<Rightarrow> iperf_stream \<Rightarrow> bool" where
  "worked sp sp' \<longleftrightarrow> sp_sender sp' = sp_sender sp \<and> (\<exists>n m. sp_result sp' = (sp_result sp)
      \<lparr>res_bytes_sent := res_bytes_sent (sp_result sp) + n, res_bytes_sent_this_interval := res_bytes_sent_this_interval (sp_result sp) + n,
       res_bytes_received := res_bytes_received (sp_result sp) + m, res_bytes_received_this_interval := res_bytes_received_this_interval (sp_result sp) + m\<rparr>)"

definition unused :: "iperf_stream \<Rightarrow> bool" where
  "unused sp \<longleftrightarrow> res_interval_results (sp_result sp) = []
     \<and> res_bytes_sent (sp_result sp) = 0 \<and> res_bytes_sent_this_interval (sp_result sp) = 0
     \<and> res_bytes_received (sp_result sp) = 0 \<and> res_bytes_received_this_interval (sp_result sp) = 0"

text \<open>
  The runs of a test with the records of each stream: \<open>stats_run sdk u start records w\<close>.
\<close>

inductive stats_run :: "bool \<Rightarrow> u64 \<Rightarrow> world \<Rightarrow> iperf_interval_results list list \<Rightarrow> world \<Rightarrow> bool" for sdk u w0 where
  start: "list_all unused (test_streams (the_test w0)) \<Longrightarrow> stats_run sdk u w0 (map (\<lambda>_. []) (test_streams (the_test w0))) w0"
| work: "stats_run sdk u w0 hs w \<Longrightarrow> list_all2 worked (test_streams (the_test w)) sps
    \<Longrightarrow> test_streams (the_test w') = sps \<Longrightarrow> test_protocol (the_test w') = test_protocol (the_test w) \<Longrightarrow> stats_run sdk u w0 hs w'"
| tick: "stats_run sdk u w0 hs w \<Longrightarrow> iperf_stats_callback sdk u junk w = Some w'
    \<Longrightarrow> stats_run sdk u w0 (map2 (\<lambda>h sp. h @ [the (last_interval (sp_result sp))]) hs (test_streams (the_test w'))) w'"

definition partition_of :: "bool \<Rightarrow> iperf_stream \<Rightarrow> iperf_interval_results list \<Rightarrow> bool" where
  "partition_of tcp sp h \<longleftrightarrow>
     sum_list (map ir_bytes_transferred h)
       + (if sp_sender sp \<noteq> 0 then res_bytes_sent_this_interval (sp_result sp) else res_bytes_received_this_interval (sp_result sp))
       = (if sp_sender sp \<noteq> 0 then res_bytes_sent (sp_result sp) else res_bytes_received (sp_result sp))
     \<and> (\<not> tcp \<longrightarrow> h \<noteq> [] \<longrightarrow> sum_list (map ir_interval_packet_count h) = ir_packet_count (last h)
         \<and> sum_list (map ir_interval_cnt_error h) = ir_cnt_error (last h)
         \<and> sum_list (map ir_interval_outoforder_packets h) = ir_outoforder_packets (last h))
     \<and> res_start_time (sp_result sp) # map ir_interval_end_time h
       = map ir_interval_start_time h @ [if h = [] then res_start_time (sp_result sp) else ir_interval_end_time (last h)]"

definition history :: "iperf_stream \<Rightarrow> iperf_interval_results list \<Rightarrow> bool" where
  "history sp h \<longleftrightarrow> last_interval (sp_result sp) = (if h = [] then None else Some (last h))
     \<and> (h \<noteq> [] \<longrightarrow> res_end_time (sp_result sp) = ir_interval_end_time (last h))"

lemma worked_keeps:
  assumes "worked sp sp'" and "partition_of tcp sp h" and "history sp h"
  shows "partition_of tcp sp' h \<and> history sp' h"
proof -
  obtain n m where w: "sp_sender sp' = sp_sender sp" "sp_result sp' = (sp_result sp)
      \<lparr>res_bytes_sent := res_bytes_sent (sp_result sp) + n, res_bytes_sent_this_interval := res_bytes_sent_this_interval (sp_result sp) + n,
       res_bytes_received := res_bytes_received (sp_result sp) + m, res_bytes_received_this_interval := res_bytes_received_this_interval (sp_result sp) + m\<rparr>"
    using assms(1) by (auto simp: worked_def)
  then have "last_interval (sp_result sp') = last_interval (sp_result sp)" by (simp add: last_interval_def)
  then show ?thesis
    using assms(2,3) w by (simp add: partition_of_def history_def split: if_splits)
qed

lemma tick_extends:
  assumes "ticked sdk test sp sp'" and "partition_of (map_option prot_id (test_protocol test) = Some Ptcp) sp h" and "history sp h"
  defines "h' \<equiv> h @ [the (last_interval (sp_result sp'))]"
  shows "partition_of (map_option prot_id (test_protocol test) = Some Ptcp) sp' h' \<and> history sp' h'"
proof -
  obtain now i temp ir where s: "stream_interval sdk test now i temp sp = (ir, sp')"
    using assms(1) by (metis prod.collapse ticked_def)
  note r = stream_interval_record [OF s]
  have h: "last_interval (sp_result sp) = (if h = [] then None else Some (last h))" "h \<noteq> [] \<Longrightarrow> res_end_time (sp_result sp) = ir_interval_end_time (last h)"
    using assms(3) by (auto simp: history_def)
  have h': "h' = h @ [ir]" by (simp add: h'_def r)
  have "partition_of (map_option prot_id (test_protocol test) = Some Ptcp) sp' (h @ [ir])"
  proof (cases "map_option prot_id (test_protocol test) = Some Ptcp")
    case True
    then show ?thesis using assms(2) r h by (cases "h = []") (auto simp: partition_of_def)
  next
    case False
    then show ?thesis
      using assms(2) r h stream_interval_packets [OF s False] by (cases "h = []") (auto simp: partition_of_def earlier_def)
  qed
  then show ?thesis using r h' by (simp add: history_def)
qed

lemma list_all2_step:
  assumes "list_all2 R xs ys" and "list_all2 P xs zs" and "\<And>x y z. R x y \<Longrightarrow> P x z \<Longrightarrow> P' y (f z y)"
  shows "list_all2 P' ys (map2 f zs ys)"
  using assms by (auto simp: list_all2_conv_all_nth)

lemma map2_fst: "length xs = length ys \<Longrightarrow> map2 (\<lambda>x y. x) xs ys = xs"
  by (induction xs ys rule: list_induct2) simp_all

lemma stats_run_inv:
  assumes "stats_run sdk u w0 hs w"
  shows "list_all2 (\<lambda>sp h. partition_of (map_option prot_id (test_protocol (the_test w)) = Some Ptcp) sp h \<and> history sp h)
    (test_streams (the_test w)) hs"
  using assms
proof induction
  case start
  then show ?case
    by (auto simp: list_all2_conv_all_nth list_all_length unused_def partition_of_def history_def last_interval_def)
next
  case (work hs w sps w')
  have "length hs = length sps" using work list_all2_lengthD by metis
  moreover have "list_all2 (\<lambda>sp h. partition_of (map_option prot_id (test_protocol (the_test w)) = Some Ptcp) sp h \<and> history sp h)
      sps (map2 (\<lambda>h sp. h) hs sps)"
    using worked_keeps by (intro list_all2_step [OF work.hyps(2) work.IH]) blast
  ultimately show ?case using work.hyps(3,4) by (simp add: map2_fst)
next
  case (tick hs w junk w')
  note t = stats_callback_ticks [OF tick.hyps(2)]
  then show ?case
    using tick_extends [of sdk "the_test w"] by (intro list_all2_step [OF t(1) tick.IH]) auto
qed


definition quiet_world :: world where
  "quiet_world = world0 (\<lambda>_ _. answers 1) (zero_test\<lparr>test_role := Some CHR ''c'', test_streams := [zero_stream]\<rparr>)"


end
