(* ===== verification/Test_Timers_Correct.thy ===== *)
theory Test_Timers_Correct
  imports Test_Timers Params_Wire Stats_Correct
begin

text \<open>
  The timers of a test return: whatever is due, one run of the timers ends, keeps the memory of the
  timers well formed and the pointers of the test to its timers valid.
\<close>

section \<open>What the timers depend on\<close>

definition stream_view :: "iperf_stream \<Rightarrow> int \<times> addr option" where
  "stream_view sp = (sp_socket sp, sp_send_timer sp)"

text \<open>The members of a test that the functions of the timers read to find their way.\<close>

record timer_view =
  v_timer :: "addr option"
  v_stats :: "addr option"
  v_reporter :: "addr option"
  v_omit :: "addr option"
  v_streams :: "(int \<times> addr option) list"
  v_limit :: u64
  v_per_interval :: int
  v_ring :: nat

definition view :: "iperf_test \<Rightarrow> timer_view" where
  "view t = \<lparr>v_timer = test_timer t, v_stats = test_stats_timer t, v_reporter = test_reporter_timer t, v_omit = test_omit_timer t,
     v_streams = map stream_view (test_streams t), v_limit = cfg_bitrate_limit (test_settings t),
     v_per_interval = cfg_bitrate_limit_stats_per_interval (test_settings t),
     v_ring = length (test_bitrate_limit_intervals_traffic_bytes t)\<rparr>"

text \<open>
  Open sockets, no timers of streams (this build has none) and a rate limit whose number of intervals
  fits the array.
\<close>

definition ready :: "timer_view \<Rightarrow> bool" where
  "ready v \<longleftrightarrow> (\<forall>(s, t)\<in>set (v_streams v). s \<noteq> - 1 \<and> t = None)
     \<and> (v_limit v \<noteq> 0 \<longrightarrow> 0 \<le> v_per_interval v \<and> v_per_interval v \<le> int (v_ring v) \<and> 0 < v_ring v \<and> v_ring v < 2 ^ 32)"

fun slot :: "timer_function \<Rightarrow> nat" where
  "slot Test_timer = 0" | "slot Server_timer = 0"
| "slot Client_stats_timer = 1" | "slot Server_stats_timer = 1"
| "slot Client_reporter_timer = 2" | "slot Server_reporter_timer = 2"
| "slot Client_omit_timer = 3" | "slot Server_omit_timer = 3"

text \<open>A pointer of a test: an active timer with a function of its slot; the periodic ones are periodic.\<close>

definition points :: "tmem \<Rightarrow> addr set \<Rightarrow> nat \<Rightarrow> addr option \<Rightarrow> bool" where
  "points m A k p \<longleftrightarrow> (\<forall>a. p = Some a \<longrightarrow> a \<in> A
     \<and> (\<exists>f d u q. static m a = Some (f, d, u, q) \<and> slot f = k \<and> (k \<in> {1, 2} \<longrightarrow> q \<noteq> 0)))"

definition good :: "iperf \<Rightarrow> tmem \<Rightarrow> addr set \<Rightarrow> bool" where
  "good w m A \<longleftrightarrow> (let v = view (the_test w)
     in ready v \<and> points m A 0 (v_timer v) \<and> points m A 1 (v_stats v) \<and> points m A 2 (v_reporter v) \<and> points m A 3 (v_omit v))"

lemma points_static: "points m A k p \<Longrightarrow> \<forall>a\<in>A. static m' a = static m a \<Longrightarrow> points m' A k p"
  by (auto simp: points_def)

lemma good_static: "good w m A \<Longrightarrow> \<forall>a\<in>A. static m' a = static m a \<Longrightarrow> good w m' A"
  by (auto simp: good_def Let_def intro: points_static)

lemma points_drop:
  assumes "points m A k p" and "static m t = Some (f, d, u, q)" and "slot f \<noteq> k \<or> (k \<in> {1, 2} \<and> q = 0)"
  shows "points m (A - {t}) k p"
  using assms by (fastforce simp: points_def)

section \<open>Frames\<close>

lemma more_tmem: "sys.more s = sys.more s' \<Longrightarrow> tmem s = tmem s' \<and> the_test s = the_test s'"
  by (cases s; cases s') simp

lemma keeps_tmem: "keeps m \<Longrightarrow> tmem (snd (run_state m w)) = tmem w \<and> the_test (snd (run_state m w)) = the_test w"
  by (rule more_tmem) (simp add: keeps_def)

lemma keeps_close [keeps_rules]: "keeps (iperf_win32_close fd)"
  unfolding iperf_win32_close_def by (intro keeps_rules)

lemma keeps_Nwrite_buf [keeps_rules]: "keeps (Nwrite fd buf p)"
  unfolding Nwrite_def by (intro keeps_rules)

lemma frames [simp]:
  "tmem (snd (run_state (iperf_win32_close fd) w)) = tmem w" "the_test (snd (run_state (iperf_win32_close fd) w)) = the_test w"
  "tmem (snd (run_state (Nwrite fd buf p) w)) = tmem w" "the_test (snd (run_state (Nwrite fd buf p) w)) = the_test w"
  "tmem (snd (run_state iperf_time_now w)) = tmem w" "the_test (snd (run_state iperf_time_now w)) = the_test w"
  using keeps_tmem [OF keeps_close] keeps_tmem [OF keeps_Nwrite_buf] keeps_tmem [OF keeps_sys(4)] by blast+

lemma keeps_save_tcpinfo [keeps_rules]: "keeps (save_tcpinfo sdk sp)"
  unfolding save_tcpinfo_def by (intro keeps_rules)

lemma keeps_save_all [keeps_rules]: "keeps (save_all sdk sps)"
  by (induction sps) (auto intro!: keeps_rules)

lemma keeps_stats_loop [keeps_rules]: "keeps (stats_loop sdk test temp total_bytes sps)"
proof (induction sps arbitrary: temp total_bytes)
  case (Cons sp sps)
  show ?case
    unfolding stats_loop.simps by (intro keeps_rules Cons)
qed (simp add: keeps_rules)

lemma stream_interval_view: "stream_view (snd (stream_interval sdk test now i temp sp)) = stream_view sp"
  by (simp add: stream_interval_def stream_view_def case_prod_beta Let_def)

lemma ticked_view: "list_all2 (ticked sdk test) sps sps' \<Longrightarrow> map stream_view sps' = map stream_view sps"
  by (auto simp: list_all2_conv_all_nth ticked_def stream_interval_view intro!: nth_equalityI)

lemma total_rate_fits:
  assumes "ready (view t)"
  shows "\<exists>t'. iperf_check_total_rate u n t = Some t' \<and> view t' = view t"
proof (cases "test_done t \<noteq> 0 \<or> cfg_bitrate_limit (test_settings t) = 0")
  case True
  then show ?thesis by (auto simp: iperf_check_total_rate_def Let_def)
next
  case False
  define per where "per = cfg_bitrate_limit_stats_per_interval (test_settings t)"
  define len where "len = length (test_bitrate_limit_intervals_traffic_bytes t)"
  define j where "j = test_bitrate_limit_last_interval_index t + 1"
  define i where "i = (if j \<ge> word_of_int per then 0 else j)"
  have b: "0 \<le> per" "per \<le> int len" "0 < len" "len < 2 ^ 32"
    using assms False by (auto simp: ready_def view_def per_def len_def)
  have "unat i < len"
  proof (cases "j \<ge> word_of_int per")
    case False
    have "uint (word_of_int per :: u64) = per"
      using b by (simp add: unsigned_of_int take_bit_int_eq_self)
    then have "uint j < per" using False by (simp add: word_less_def not_le)
    then have "int (unat j) < int len" using b(2) by simp
    then have "unat j < len" by (simp only: of_nat_less_iff)
    then show ?thesis using False by (simp add: i_def)
  qed (use b(3) in \<open>simp add: i_def\<close>)
  then have in_array: "\<not> length (test_bitrate_limit_intervals_traffic_bytes t) \<le> unat i" "\<not> int len < per"
    using b(2) by (simp_all add: len_def)
  define t1 where "t1 = t\<lparr>test_bitrate_limit_last_interval_index := i,
      test_bitrate_limit_intervals_traffic_bytes := (test_bitrate_limit_intervals_traffic_bytes t)[unat i := n],
      test_bitrate_limit_stats_count := test_bitrate_limit_stats_count t + 1\<rparr>"
  have "iperf_check_total_rate u n t \<in> {Some t1, Some (t1\<lparr>test_bitrate_limit_exceeded := 1\<rparr>)}"
    unfolding iperf_check_total_rate_def Let_def per_def [symmetric] j_def [symmetric] i_def [symmetric]
    using False in_array by (simp add: t1_def len_def)
  moreover have "view t1 = view t" "view (t1\<lparr>test_bitrate_limit_exceeded := 1\<rparr>) = view t"
    by (simp_all add: t1_def view_def)
  ultimately show ?thesis by auto
qed

lemma stats_callback_frame:
  assumes "ready (view (the_test w))"
  shows "\<exists>w'. iperf_stats_callback sdk u junk (w :: iperf) = Some w' \<and> tmem w' = tmem w \<and> view (the_test w') = view (the_test w)"
proof -
  let ?temp = "junk\<lparr>ir_omitted := test_omitting (the_test w), ir_rtt := 0, ir_rttvar := 0, ir_pmtu := 0\<rparr>"
  let ?m = "stats_loop sdk (the_test w) ?temp 0 (test_streams (the_test w))"
  obtain n sps w1 where r: "run_state ?m w = ((n, sps), w1)" by (metis prod.collapse)
  have w1: "tmem w1 = tmem w" using keeps_tmem [OF keeps_stats_loop, of sdk "the_test w" ?temp 0 "test_streams (the_test w)" w] r by simp
  have "map stream_view sps = map stream_view (test_streams (the_test w))"
    using stats_loop_ticks [of sdk "the_test w" "test_streams (the_test w)" ?temp 0 w] r ticked_view by fastforce
  then have v: "view ((the_test w)\<lparr>test_streams := sps\<rparr>) = view (the_test w)" by (simp add: view_def)
  then obtain t' where "iperf_check_total_rate u n ((the_test w)\<lparr>test_streams := sps\<rparr>) = Some t'" "view t' = view (the_test w)"
    using total_rate_fits assms by metis
  then show ?thesis
    using r w1 v by (auto simp: iperf_stats_callback_def Let_def)
qed

lemma reset_stats_frame:
  fixes w :: iperf
  shows "tmem (snd (run_state (iperf_reset_stats sdk) w)) = tmem w" and "view (the_test (snd (run_state (iperf_reset_stats sdk) w))) = view (the_test w)"
proof -
  have v: "map stream_view (map (reset_stream t now) sps) = map stream_view sps" for t now sps
    by (simp add: reset_stream_def stream_view_def Let_def)
  have s: "tmem (snd (run_state (save_all sdk sps) x)) = tmem x" "the_test (snd (run_state (save_all sdk sps) x)) = the_test x"
    "tmem (snd (run_state iperf_time_now x)) = tmem x" "the_test (snd (run_state iperf_time_now x)) = the_test x" for sps and x :: iperf
    using keeps_tmem [OF keeps_save_all] keeps_tmem [OF keeps_sys(4)] by auto
  show "tmem (snd (run_state (iperf_reset_stats sdk) w)) = tmem w" "view (the_test (snd (run_state (iperf_reset_stats sdk) w))) = view (the_test w)"
    using s v by (auto simp: iperf_reset_stats_def case_prod_beta view_def simp del: map_map)
qed

section \<open>Resetting a timer\<close>

text \<open>What \<open>timer_callbacks\<close> asks of the memory after a call.\<close>

definition settled :: "iperf_time \<Rightarrow> tmem \<Rightarrow> addr list \<Rightarrow> addr list \<Rightarrow> tmem \<Rightarrow> bool" where
  "settled now m as fs m' \<longleftrightarrow> (\<exists>as'. tmr_inv m' as' fs \<and> set as' = set as)
     \<and> (\<forall>a\<in>set as. static m' a = static m a \<and> timer_ok now m' a \<and> late now m' a \<le> late now m a)"

lemma settled_refl: "tmr_inv m as fs \<Longrightarrow> \<forall>a\<in>set as. timer_ok now m a \<Longrightarrow> settled now m as fs m"
  by (auto simp: settled_def)

lemma settled_trans: "settled now m as fs m' \<Longrightarrow> tmr_inv m' as' fs \<Longrightarrow> set as' = set as \<Longrightarrow> settled now m' as' fs m'' \<Longrightarrow> settled now m as fs m''"
  by (fastforce simp: settled_def)

lemma reset_timer_settles:
  assumes now: "valid_time now" and inv: "tmr_inv (tmem w) as fs" and ok: "\<forall>a\<in>set as. timer_ok now (tmem w) a"
    and p: "points (tmem w) (set as) k p" and k: "k \<in> {1, 2}"
  shows "\<exists>m'. reset_timer now p w = Some (w\<lparr>tmem := m'\<rparr>) \<and> settled now (tmem w) as fs m' \<and> (\<forall>a. p \<noteq> Some a \<longrightarrow> late now m' a = late now (tmem w) a)"
proof (cases p)
  case None
  have "w\<lparr>tmem := tmem w\<rparr> = w" by simp
  then show ?thesis using None settled_refl [OF inv ok] by (intro exI [of _ "tmem w"]) (simp add: reset_timer_def)
next
  case (Some a)
  have "a \<in> set as" using p Some by (simp add: points_def)
  then obtain c where c: "cells (tmem w) a = Some c" using tmr_inv_mem [OF inv] by blast
  have a: "a \<in> set as" "periodic c \<noteq> 0" "cell_ok now c"
    using p Some k c ok by (auto simp: points_def static_def timer_ok_def split: option.splits)
  define c' where "c' = c\<lparr>t_time := iperf_time_add_usecs now (t_usecs c)\<rparr>"
  let ?m1 = "(tmem w)\<lparr>cells := (cells (tmem w))(a \<mapsto> c')\<rparr>"
  obtain xs ys where as: "as = xs @ a # ys" using a(1) by (meson split_list)
  obtain m' where m': "tmr_reset (Some now) now a (tmem w) = Some m'" "payloads m' = payloads ?m1" "tmr_inv m' (timer_ins (expiry ?m1) a (xs @ ys)) fs"
    using tmr_reset_correct [of "tmem w" xs a ys fs c "Some now" now] inv c as by (auto simp: c'_def getnow_def)
  have us: "0 < unat (t_usecs c)" "time_us now + unat (t_usecs c) < 4294967296 * 1000000"
    using a(2,3) by (auto simp: cell_ok_def)
  have add: "time_us (iperf_time_add_usecs now (t_usecs c)) = time_us now + unat (t_usecs c)"
    using us(2) by (intro add_usecs_exact) linarith
  have "late now m' a = 0" "timer_ok now m' a" "static m' a = static (tmem w) a"
  proof -
    have "late now ?m1 a = 0" using us(1) by (simp add: late_def expiry_def c'_def add Suc_le_eq)
    then show "late now m' a = 0" using late_cong [of m' a ?m1 now] m'(2) by simp
    have "timer_ok now ?m1 a" using us a(2) add_usecs_valid by (simp add: timer_ok_def cell_ok_def c'_def)
    then show "timer_ok now m' a" using timer_ok_cong [of m' a ?m1 now] m'(2) by simp
    have "static ?m1 a = static (tmem w) a" by (simp add: static_def c c'_def)
    then show "static m' a = static (tmem w) a" using static_cong [of m' a ?m1] m'(2) by simp
  qed
  moreover have other: "late now m' b = late now (tmem w) b" "timer_ok now m' b = timer_ok now (tmem w) b" "static m' b = static (tmem w) b" if "b \<noteq> a" for b
  proof -
    have "payloads m' b = payloads (tmem w) b" using that m'(2) by (simp add: payloads_def)
    then show "late now m' b = late now (tmem w) b" "timer_ok now m' b = timer_ok now (tmem w) b" "static m' b = static (tmem w) b"
      using late_cong timer_ok_cong static_cong by blast+
  qed
  moreover have "\<exists>as'. tmr_inv m' as' fs \<and> set as' = set as"
    using m'(3) as by (intro exI [of _ "timer_ins (expiry ?m1) a (xs @ ys)"]) simp
  ultimately have "settled now (tmem w) as fs m'"
    using ok unfolding settled_def by (metis order_refl zero_le)
  then show ?thesis using m'(1) Some other by (auto simp: reset_timer_def)
qed

section \<open>The functions of the timers\<close>

text \<open>The client of the interface: what is due before and after a call of a timer's function.\<close>

definition fires :: "iperf_time \<Rightarrow> tmem \<Rightarrow> addr list \<Rightarrow> addr list \<Rightarrow> addr \<Rightarrow> iperf \<Rightarrow> bool" where
  "fires now m as fs t w \<longleftrightarrow> valid_time now \<and> tmr_inv m as fs \<and> (\<forall>a\<in>set as. timer_ok now m a) \<and> t \<in> set as \<and> good w m (set as)
     \<and> late now m t \<noteq> 0"

definition fired :: "iperf_time \<Rightarrow> tmem \<Rightarrow> addr list \<Rightarrow> addr list \<Rightarrow> addr \<Rightarrow> int \<Rightarrow> iperf \<Rightarrow> bool" where
  "fired now m as fs t q w' \<longleftrightarrow> settled now m as fs (tmem w') \<and> late now (tmem w') t \<noteq> 0
     \<and> good w' (tmem w') (if q \<noteq> 0 then set as else set as - {t})"

lemma fired_unmoved:
  assumes "fires now m as fs t w" and "static m t = Some (f, d, u, q)" and "tmem w' = m" and "ready (view (the_test w'))"
    and "slot f \<noteq> 0 \<or> test_timer (the_test w') = None" and "slot f \<noteq> 3"
    and "test_timer (the_test w') \<in> {None, test_timer (the_test w)}"
    and "test_stats_timer (the_test w') = test_stats_timer (the_test w)" and "test_reporter_timer (the_test w') = test_reporter_timer (the_test w)"
    and "test_omit_timer (the_test w') = test_omit_timer (the_test w)"
  shows "fired now m as fs t q w'"
proof -
  have g: "points m (set as) 0 (test_timer (the_test w))" "points m (set as) 1 (test_stats_timer (the_test w))"
    "points m (set as) 2 (test_reporter_timer (the_test w))" "points m (set as) 3 (test_omit_timer (the_test w))"
    using assms(1) by (auto simp: fires_def good_def view_def)
  have n: "points m A k None" for A k by (simp add: points_def)
  have "good w' m (if q \<noteq> 0 then set as else set as - {t})"
    using g assms(4-10) n points_drop [OF g(1) assms(2)] points_drop [OF g(2) assms(2)] points_drop [OF g(3) assms(2)] points_drop [OF g(4) assms(2)]
    by (cases "q = 0") (auto simp: good_def view_def Let_def)
  then show ?thesis
    using assms(1,3) settled_refl by (auto simp: fires_def fired_def)
qed

text \<open>
  The caller's functions return, leave the timers alone and keep what the view shows; so does the
  statistics callback, so the calls through the pointers of a test do.
\<close>

locale quiet_callbacks =
  fixes pf :: platform and user :: callbacks
  assumes quiet: "\<exists>w'. user f w = Some w' \<and> tmem w' = tmem w \<and> view (the_test w') = view (the_test w)"
begin

lemma callback_quiet:
  assumes "ready (view (the_test w))"
  shows "\<exists>w'. callback pf user f w = Some w' \<and> tmem w' = tmem w \<and> view (the_test w') = view (the_test w)"
  using quiet [of f w] stats_callback_frame [OF assms] by (simp add: callback_def)

lemma call_if_set_quiet:
  assumes "ready (view (the_test w))"
  shows "\<exists>w'. call_if_set pf user fp w = Some w' \<and> tmem w' = tmem w \<and> view (the_test w') = view (the_test w)"
  using callback_quiet [OF assms] by (cases fp) (simp_all add: call_if_set_def)

end

lemma same_view_fired:
  assumes "fires now m as fs t w" and "static m t = Some (f, d, u, q)" and "tmem w' = m" and "view (the_test w') = view (the_test w)"
    and "slot f \<in> {1, 2}"
  shows "fired now m as fs t q w'"
proof -
  have "ready (view (the_test w))" using assms(1) by (simp add: fires_def good_def Let_def)
  then show ?thesis
    using assms(4,5) by (intro fired_unmoved [OF assms(1-3)]) (auto simp: view_def)
qed

text \<open>The end of the omitted period: two resets, and the pointer to the timer that fires is cleared.\<close>

lemma omit_fired:
  assumes f: "fires now m as fs t w" and st: "static m t = Some (f, d, u, q)" and sl: "slot f = 3"
  shows "\<exists>w'. client_omit_timer_proc pf now (w\<lparr>tmem := m\<rparr>) = Some w' \<and> fired now m as fs t q w'"
proof -
  define w0 where "w0 = set_test (\<lambda>t. t\<lparr>test_omit_timer := None, test_omitting := 0\<rparr>) (w\<lparr>tmem := m\<rparr>)"
  define w1 where "w1 = snd (run_state (iperf_reset_stats (pf_sdk pf)) w0)"
  have v: "view (the_test w1) = (view (the_test w))\<lparr>v_omit := None\<rparr>" "tmem w1 = m"
    using reset_stats_frame [of "pf_sdk pf" w0] by (simp_all add: w1_def w0_def set_test_def view_def)
  then have p: "test_stats_timer (the_test w1) = test_stats_timer (the_test w)" "test_reporter_timer (the_test w1) = test_reporter_timer (the_test w)"
    "test_timer (the_test w1) = test_timer (the_test w)" "test_omit_timer (the_test w1) = None"
    by (simp_all add: view_def)
  have g: "valid_time now" "tmr_inv m as fs" "\<forall>a\<in>set as. timer_ok now m a" "late now m t \<noteq> 0" "ready (view (the_test w))"
    "points m (set as) 0 (test_timer (the_test w))" "points m (set as) 1 (test_stats_timer (the_test w))"
    "points m (set as) 2 (test_reporter_timer (the_test w))"
    using f by (auto simp: fires_def good_def view_def Let_def)
  have ne: "test_stats_timer (the_test w) \<noteq> Some t" "test_reporter_timer (the_test w) \<noteq> Some t"
    using g(7,8) st sl by (auto simp: points_def)
  obtain m1 where m1: "reset_timer now (test_stats_timer (the_test w1)) w1 = Some (w1\<lparr>tmem := m1\<rparr>)" "settled now m as fs m1" "late now m1 t = late now m t"
    using reset_timer_settles [of now w1 as fs 1 "test_stats_timer (the_test w1)"] g(1-3,7) v(2) p(1) ne(1) by auto
  obtain as1 where as1: "tmr_inv m1 as1 fs" "set as1 = set as" "\<forall>a\<in>set as. static m1 a = static m a \<and> timer_ok now m1 a"
    using m1(2) by (auto simp: settled_def)
  let ?w2 = "w1\<lparr>tmem := m1\<rparr>"
  have "points m1 (set as1) 2 (test_reporter_timer (the_test ?w2))"
    using points_static [OF g(8), of m1] as1 p(2) by simp
  then obtain m2 where m2: "reset_timer now (test_reporter_timer (the_test ?w2)) ?w2 = Some (w1\<lparr>tmem := m2\<rparr>)" "settled now m1 as1 fs m2" "late now m2 t = late now m1 t"
    using reset_timer_settles [of now ?w2 as1 fs 2 "test_reporter_timer (the_test ?w2)"] g(1) as1 p(2) ne(2) by auto
  have s2: "settled now m as fs m2"
    by (rule settled_trans [OF m1(2) as1(1,2) m2(2)])
  have "points m2 (set as) k x" if "points m (set as) k x" for k x
    using points_static [OF that, of m2] s2 by (auto simp: settled_def)
  note pts = this [OF g(6)] this [OF g(7)] this [OF g(8)]
  have st2: "static m2 t = Some (f, d, u, q)" using s2 st f by (auto simp: settled_def fires_def)
  have "points m2 (if q \<noteq> 0 then set as else set as - {t}) 0 (test_timer (the_test w))"
    "points m2 (if q \<noteq> 0 then set as else set as - {t}) 1 (test_stats_timer (the_test w))"
    "points m2 (if q \<noteq> 0 then set as else set as - {t}) 2 (test_reporter_timer (the_test w))"
    using pts points_drop [OF pts(1) st2] points_drop [OF pts(2) st2] points_drop [OF pts(3) st2] sl by auto
  moreover have "ready (view (the_test w1))" using g(5) v(1) by (simp add: ready_def)
  ultimately have "good (w1\<lparr>tmem := m2\<rparr>) m2 (if q \<noteq> 0 then set as else set as - {t})"
    using p by (simp add: good_def view_def Let_def points_def)
  moreover have "client_omit_timer_proc pf now (w\<lparr>tmem := m\<rparr>) = Some (w1\<lparr>tmem := m2\<rparr>)"
    using m1(1) m2(1) by (simp add: client_omit_timer_proc_def run_def w0_def [symmetric] w1_def [symmetric] case_prod_beta Let_def)
  ultimately show ?thesis
    using s2 g(4) m1(3) m2(3) by (auto simp: fired_def)
qed

lemma server_omit_same: "server_omit_timer_proc = client_omit_timer_proc"
  by (simp add: fun_eq_iff server_omit_timer_proc_def client_omit_timer_proc_def)

text \<open>The end of the time: the streams are closed and freed, the timers stay as they are.\<close>

lemma free_stream_frame:
  assumes "sp_send_timer sp = None"
  shows "\<exists>w'. iperf_free_stream sp w = Some w' \<and> tmem w' = tmem w \<and> the_test w' = the_test w"
  using assms by (auto simp: iperf_free_stream_def run_def cancel_timer_def case_prod_beta)

lemma close_and_free_frame:
  assumes "\<forall>sp\<in>set sps. sp_socket sp \<noteq> - 1 \<and> sp_send_timer sp = None" and "test_streams (the_test w) = sps"
  shows "\<exists>w'. close_and_free sps w = Some w' \<and> tmem w' = tmem w \<and> the_test w' = (the_test w)\<lparr>test_streams := []\<rparr>"
  using assms
proof (induction sps arbitrary: w)
  case (Cons sp sps)
  let ?w = "snd (run_state (iperf_win32_close (sp_socket sp)) (set_test (test_streams_update (\<lambda>_. sps)) w))"
  have "tmem ?w = tmem w" "the_test ?w = (the_test w)\<lparr>test_streams := sps\<rparr>"
    by (simp_all add: set_test_def)
  moreover obtain w2 where w2: "iperf_free_stream (sp\<lparr>sp_socket := - 1\<rparr>) ?w = Some w2" "tmem w2 = tmem ?w" "the_test w2 = the_test ?w"
    using free_stream_frame [of "sp\<lparr>sp_socket := - 1\<rparr>" ?w] Cons.prems(1) by auto
  ultimately show ?case
    using Cons.IH [of w2] Cons.prems by (simp add: run_def case_prod_beta)
qed (auto intro: exI [of _ w])

lemma tell_expired_frame:
  "tmem (snd (run_state tell_expired w)) = tmem w \<and> (\<exists>s. the_test (snd (run_state tell_expired w)) = (the_test w)\<lparr>test_state := s\<rparr>)"
proof -
  have i: "(the_test x)\<lparr>test_state := test_state (the_test x)\<rparr> = the_test x" for x :: iperf by simp
  show ?thesis
    by (auto simp: tell_expired_def iperf_set_send_state_def iperf_set_test_state_def fail_def case_prod_beta
        intro: exI [of _ "test_state (the_test w)"])
qed

lemma end_timer_fired:
  assumes f: "fires now m as fs t w" and st: "static m t = Some (f, d, u, q)" and sl: "slot f = 0"
  shows "\<exists>w'. server_timer_proc (w\<lparr>tmem := m\<rparr>) = Some w' \<and> fired now m as fs t q w'"
    and "\<exists>w'. test_timer_proc (w\<lparr>tmem := m\<rparr>) = Some w' \<and> fired now m as fs t q w'"
proof -
  have r: "ready (view (the_test w))" using f by (simp add: fires_def good_def Let_def)
  show "\<exists>w'. test_timer_proc (w\<lparr>tmem := m\<rparr>) = Some w' \<and> fired now m as fs t q w'"
    using r sl by (auto simp: test_timer_proc_def set_test_def view_def ready_def intro!: fired_unmoved [OF f st])
  show "\<exists>w'. server_timer_proc (w\<lparr>tmem := m\<rparr>) = Some w' \<and> fired now m as fs t q w'"
  proof (cases "test_done (the_test w) = 0")
    case False
    then show ?thesis
      using r sl by (auto simp: server_timer_proc_def set_test_def view_def ready_def intro!: fired_unmoved [OF f st])
  next
    case True
    define w0 where "w0 = set_test (\<lambda>t. t\<lparr>test_timer := None, test_done := 1\<rparr>) (w\<lparr>tmem := m\<rparr>)"
    define w1 where "w1 = snd (run_state tell_expired w0)"
    obtain s where w1: "tmem w1 = m" "the_test w1 = (the_test w)\<lparr>test_timer := None, test_done := 1, test_state := s\<rparr>"
      using tell_expired_frame [of w0] by (auto simp: w1_def w0_def set_test_def)
    have "\<forall>sp\<in>set (test_streams (the_test w1)). sp_socket sp \<noteq> - 1 \<and> sp_send_timer sp = None"
      using r w1(2) by (auto simp: ready_def view_def stream_view_def)
    then obtain w2 where w2: "close_and_free (test_streams (the_test w1)) w1 = Some w2" "tmem w2 = m" "the_test w2 = (the_test w1)\<lparr>test_streams := []\<rparr>"
      using close_and_free_frame [of "test_streams (the_test w1)" w1] w1(1) by auto
    define w3 where "w3 = set_test (test_ctrl_sck_update (\<lambda>_. - 1)) (snd (run_state (iperf_win32_close (test_ctrl_sck (the_test w2))) w2))"
    have w3: "tmem w3 = m" "the_test w3 = (the_test w2)\<lparr>test_ctrl_sck := - 1\<rparr>"
      using w2(2) by (simp_all add: w3_def set_test_def)
    have "w0 = set_test (test_done_update (\<lambda>_. 1)) (set_test (test_timer_update (\<lambda>_. None)) (w\<lparr>tmem := m\<rparr>))"
      by (simp add: w0_def set_test_def)
    then have "server_timer_proc (w\<lparr>tmem := m\<rparr>) = Some w3"
      using True w2(1) by (simp add: server_timer_proc_def run_def set_test_def w1_def w3_def case_prod_beta Let_def)
    moreover have "fired now m as fs t q w3"
      using w3 w2 w1 sl r by (intro fired_unmoved [OF f st]) (auto simp: view_def ready_def)
    ultimately show ?thesis by blast
  qed
qed

section \<open>A run of the timers\<close>

context quiet_callbacks
begin

lemma timer_call_fired:
  assumes "fires now m as fs t w" and "static m t = Some (f, d, u, q)"
  shows "\<exists>w'. timer_call pf user f now (w\<lparr>tmem := m\<rparr>) = Some w' \<and> fired now m as fs t q w'"
proof -
  have r: "ready (view (the_test (w\<lparr>tmem := m\<rparr>)))" using assms(1) by (simp add: fires_def good_def Let_def)
  have q: "\<exists>w'. call_if_set pf user p (w\<lparr>tmem := m\<rparr>) = Some w' \<and> fired now m as fs t q w'"
    "fired now m as fs t q (w\<lparr>tmem := m\<rparr>)" if "slot f \<in> {1, 2}" for p
    using call_if_set_quiet [OF r, of p] same_view_fired [OF assms] that by fastforce+
  show ?thesis
  proof (cases "slot f \<in> {1, 2}")
    case True
    then show ?thesis
      using q(1) [OF True, of "test_stats_callback (the_test w)"] q(1) [OF True, of "test_reporter_callback (the_test w)"] q(2) [OF True]
      by (cases f) (simp_all add: client_stats_timer_proc_def client_reporter_timer_proc_def server_stats_timer_proc_def
          server_reporter_timer_proc_def)
  next
    case False
    then show ?thesis
      using omit_fired [OF assms, of pf] end_timer_fired [OF assms] by (cases f) (simp_all add: server_omit_same)
  qed
qed

end

sublocale quiet_callbacks \<subseteq> timer_callbacks "timer_dispatch pf user" good
proof
  fix w :: iperf and m m' :: tmem and A
  assume "good w m A" "\<forall>a\<in>A. static m' a = static m a"
  then show "good w m' A" by (rule good_static)
next
  fix now and m :: tmem and as fs :: "addr list" and t w c
  assume a: "valid_time now" "tmr_inv m as fs" "\<forall>a\<in>set as. timer_ok now m a" "t \<in> set as" "good w m (set as)" "cells m t = Some c" "late now m t \<noteq> 0"
  then have "fires now m as fs t w" by (simp add: fires_def)
  moreover have "static m t = Some (timer_proc c, client_data c, t_usecs c, periodic c)" using a(6) by (simp add: static_def)
  ultimately obtain w' where w': "timer_call pf user (timer_proc c) now (w\<lparr>tmem := m\<rparr>) = Some w'" "fired now m as fs t (periodic c) w'"
    using timer_call_fired by blast
  then show "\<exists>w' m' as'. timer_dispatch pf user (timer_proc c) (client_data c) now w m = Some (w', m') \<and> tmr_inv m' as' fs \<and> set as' = set as
       \<and> (\<forall>a\<in>set as. static m' a = static m a \<and> timer_ok now m' a \<and> late now m' a \<le> late now m a)
       \<and> late now m' t \<noteq> 0 \<and> good w' m' (if periodic c \<noteq> 0 then set as else set as - {t})"
    by (fastforce simp: timer_dispatch_def fired_def settled_def)
qed

context quiet_callbacks
begin

lemmas dispatch_returns = run_returns

end

text \<open>A caller whose functions do nothing: the statistics go on, nothing is reported.\<close>

definition silent :: callbacks where
  "silent f w = Some w"

interpretation silent: quiet_callbacks pf silent for pf
  by unfold_locales (simp add: silent_def)

lemma div_less_bound: "0 < (f :: int) \<Longrightarrow> x < k * f \<Longrightarrow> x div f < k"
  using mult_right_mono [of k "x div f" f] pos_mod_sign [of f x] div_mult_mod_eq [of x f] by linarith

lemma time_now_valid:
  assumes "0 < ret (os w (trace w) QueryPerformance)"
  shows "valid_time (fst (run_state iperf_time_now w))"
proof -
  define f v where "f = ret (os w (trace w) QueryPerformance)" and "v = val (os w (trace w) QueryPerformance)"
  define n where "n = v mod f * 1000000000 div f"
  have f: "0 < f" using assms by (simp add: f_def)
  have n: "0 \<le> n" "n < 1000000000"
    using f pos_mod_bound [OF f, of v] unfolding n_def by (simp_all add: pos_imp_zdiv_nonneg_iff div_less_bound)
  have "to_long n = n"
    using n by (simp add: to_long_def signed_of_int signed_take_bit_int_eq_self)
  moreover have "usecs (fst (run_state iperf_time_now w)) = word_of_int (to_long n) div 1000"
    by (simp add: iperf_time_now_def clock_gettime_helper_def clock_gettime_def run_call n_def f_def v_def Let_def)
  moreover have "unat (word_of_int n :: u32) = nat n"
    using n by (simp add: unat_eq_nat_uint unsigned_of_int take_bit_int_eq_self)
  ultimately show ?thesis
    using n by (simp add: valid_time_def unat_div)
qed


text \<open>A client whose time is over: the only timer ends the test.\<close>

definition over :: iperf where
  "over = iperf0 (\<lambda>_ _. answers 1) (zero_test\<lparr>test_timer := Some 7\<rparr>) \<lparr>cells = [7 \<mapsto> blank_timer], timers = Some 7, free_timers = None\<rparr>"


end
