(* ===== verification/Cleanup.thy ===== *)
theory Cleanup
  imports Server Test_Timers_Correct Tcp_Correct
begin

text \<open>
  The clean-up of the server: it returns, joins every thread, closes every socket and cancels every timer
  of the test.
\<close>

section \<open>Programs whose effect is in the trace\<close>

text \<open>\<open>logged w w' P\<close>: from \<open>w\<close> to \<open>w'\<close> calls with \<open>P\<close> were made; test and timers are as before.\<close>

definition logged :: "iperf \<Rightarrow> iperf \<Rightarrow> (events \<Rightarrow> bool) \<Rightarrow> bool" where
  "logged w w' P \<longleftrightarrow> os w' = os w \<and> tmem w' = tmem w
     \<and> (\<exists>new. trace w' = new @ trace w \<and> P new) \<and> (genuine (os w) (trace w) \<longrightarrow> genuine (os w) (trace w'))"

lemma logged_trans:
  "logged w w1 P \<Longrightarrow> logged w1 w2 Q \<Longrightarrow> (\<And>a b. P a \<Longrightarrow> Q b \<Longrightarrow> R (b @ a)) \<Longrightarrow> logged w w2 R"
  unfolding logged_def by (metis append.assoc)

lemma logged_update:
  "P [] \<Longrightarrow> logged w (set_test f w) P" "P [] \<Longrightarrow> logged w (w\<lparr>i_errno := e\<rparr>) P"
  by (simp_all add: logged_def set_test_def)

lemma logged_run:
  assumes "emits m Q" and "honest m" and "keeps m" and "run_state m w = (r, w')"
  shows "logged w w' (Q r)" and "the_test w' = the_test w"
  using assms honestD [OF assms(2), of w] keeps_tmem [OF assms(3), of w] emitsD [OF assms(1,4)]
  by (auto simp: logged_def)

section \<open>The end of the control connection\<close>

text \<open>The calls that close the sockets \<open>fds\<close> and join the threads \<open>ts\<close>, and open, look up and create nothing.\<close>

definition ends :: "int list \<Rightarrow> int list \<Rightarrow> events \<Rightarrow> bool" where
  "ends fds ts new \<longleftrightarrow> gather closes new = fds \<and> gather waits new = ts \<and> gather opens new = [] \<and> gather spawns new = []"

lemma ends_append: "ends fds ts a \<Longrightarrow> ends fds' ts' b \<Longrightarrow> ends (fds @ fds') (ts @ ts') (b @ a)"
  by (simp add: ends_def)

lemma logged_ends:
  "logged w w1 (ends fds ts) \<Longrightarrow> logged w1 w2 (ends fds' ts') \<Longrightarrow> logged w w2 (ends (fds @ fds') (ts @ ts'))"
  by (rule logged_trans [of w w1 "ends fds ts" w2 "ends fds' ts'"]) (auto intro: ends_append)

lemma quiet_ends: "quiet new \<Longrightarrow> ends [] [] new"
  by (simp add: ends_def)

lemma emits_close_ends: "emits (iperf_win32_close fd) (\<lambda>r. ends (if fd < 0 then [] else [fd]) [])"
  unfolding iperf_win32_close_def by (intro emits_rules) (simp_all add: ends_def)

lemma logged_close:
  assumes "run_state (iperf_win32_close fd) (w :: iperf) = (r, w')"
  shows "logged w w' (ends (if fd < 0 then [] else [fd]) [])" and "the_test w' = the_test w"
  using logged_run [OF emits_close_ends honest_wrappers(1) keeps_wrappers(1) assms] by simp_all

lemma read_until_eof_returns:
  assumes "ends_after fd n (os w)" and "genuine (os w) (trace w)"
  shows "\<exists>w'. read_until_eof fd w = Some w' \<and> logged w w' (ends [] []) \<and> the_test w' = the_test w"
  using assms
proof (induction "n - length (gather (delivers fd) (trace w))" arbitrary: w rule: less_induct)
  case less
  obtain r bs w1 where r: "run_state (Nread fd 128 0) w = ((r, bs), w1)" by (metis prod.collapse)
  note l = logged_run [OF emits_Nread honest_io(2) keeps_io(2) r]
  have l1: "logged w w1 (ends [] [])" "the_test w1 = the_test w"
    using l by (auto simp: logged_def quiet_ends)
  show ?case
  proof (cases "r > 0")
    case False
    then show ?thesis using r l1 by (subst read_until_eof.simps) auto
  next
    case True
    obtain new where new: "trace w1 = new @ trace w" "gather (delivers fd) new \<noteq> []"
      using l(1) True by (auto simp: logged_def)
    have os: "os w1 = os w" "genuine (os w) (trace w1)" using l1(1) less.prems(2) by (simp_all add: logged_def)
    have "length (gather (delivers fd) (trace w)) < n"
      using nothing_left [OF less.prems(1) _ , of "trace w" new] new os(2) by (metis not_le)
    moreover have "length (gather (delivers fd) (trace w)) < length (gather (delivers fd) (trace w1))"
      using new by simp
    ultimately have "n - length (gather (delivers fd) (trace w1)) < n - length (gather (delivers fd) (trace w))" by linarith
    then obtain w' where w': "read_until_eof fd w1 = Some w'" "logged w1 w' (ends [] [])" "the_test w' = the_test w1"
      using less.hyps [of w1] less.prems os by auto
    then show ?thesis
      using r True l1 logged_ends [OF l1(1) w'(2)] by (subst read_until_eof.simps) auto
  qed
qed

lemma sync_close_returns:
  assumes "ends_after fd n (os w)" and "genuine (os w) (trace w)" and "0 \<le> fd"
  shows "\<exists>w'. iperf_sync_close_socket fd w = Some w' \<and> logged w w' (ends [fd] []) \<and> the_test w' = the_test w"
proof -
  obtain a w1 where a: "run_state (winsock (Shutdown fd SHUT_WR)) w = (a, w1)" by fastforce
  have "emits (winsock (Shutdown fd SHUT_WR) :: (iperf, answer) state) (\<lambda>_. ends [] [])"
    by (intro emits_rules) (simp add: ends_def)
  note l1 = logged_run [OF this honest_sys(1) keeps_sys(1) a]
  have "ends_after fd n (os w1)" "genuine (os w1) (trace w1)" using l1(1) assms(1,2) by (simp_all add: logged_def)
  then obtain w2 where w2: "read_until_eof fd w1 = Some w2" "logged w1 w2 (ends [] [])" "the_test w2 = the_test w1"
    using read_until_eof_returns by blast
  obtain r w3 where c: "run_state (iperf_win32_close fd) w2 = (r, w3)" by fastforce
  note l3 = logged_close [OF c]
  have "logged w w3 (ends [fd] [])"
    using logged_ends [OF logged_ends [OF l1(1) w2(2)] l3(1)] assms(3) by simp
  then show ?thesis
    using a w2 c l1 l3 by (simp add: iperf_sync_close_socket_def run_def)
qed

section \<open>Threads\<close>

definition stopped :: "iperf_stream \<Rightarrow> iperf_stream" where
  "stopped sp = sp\<lparr>sp_done := 1, sp_thread_created := (if sp_thread_created sp = 1 then 0 else sp_thread_created sp)\<rparr>"

lemma run_stop_thread:
  "\<exists>w'. run_state (stop_thread pf what strict sp) w = ((True, stopped sp), w') \<and> the_test w' = the_test w
     \<and> logged w w' (ends [] (if sp_thread_created sp = 1 then [sp_id sp] else []))"
proof (cases "sp_thread_created sp = 1")
  case True
  let ?e = "(WaitThread (sp_id sp), os w (trace w) (WaitThread (sp_id sp)))"
  have "run_state (stop_thread pf what strict sp) w = ((True, stopped sp), w\<lparr>trace := ?e # trace w\<rparr>)"
    using True by (simp add: stop_thread_def pthread_cancel_def pthread_join_def thread_failed_def run_call stopped_def Let_def)
  then show ?thesis
    using True by (auto simp: logged_def ends_def)
next
  case False
  then show ?thesis
    by (auto simp: stop_thread_def stopped_def logged_def ends_def)
qed

lemma run_stop_threads:
  "\<exists>w'. run_state (stop_threads pf what strict sel sps) w = ((True, map (\<lambda>sp. if sel sp then stopped sp else sp) sps), w')
     \<and> the_test w' = the_test w
     \<and> logged w w' (ends [] (map sp_id (filter (\<lambda>sp. sel sp \<and> sp_thread_created sp = 1) sps)))"
proof (induction sps arbitrary: w)
  case Nil
  then show ?case by (auto simp: logged_def ends_def)
next
  case (Cons sp sps)
  show ?case
  proof (cases "sel sp")
    case False
    then show ?thesis using Cons.IH [of w] by auto
  next
    case True
    obtain w1 where w1: "run_state (stop_thread pf what strict sp) w = ((True, stopped sp), w1)" "the_test w1 = the_test w"
      "logged w w1 (ends [] (if sp_thread_created sp = 1 then [sp_id sp] else []))"
      using run_stop_thread by blast
    obtain w2 where w2: "run_state (stop_threads pf what strict sel sps) w1 = ((True, map (\<lambda>sp. if sel sp then stopped sp else sp) sps), w2)"
      "the_test w2 = the_test w1" "logged w1 w2 (ends [] (map sp_id (filter (\<lambda>sp. sel sp \<and> sp_thread_created sp = 1) sps)))"
      using Cons.IH by blast
    show ?thesis
      using True w1(1,2) w2(1,2) logged_ends [OF w1(3) w2(3)] by (intro exI [of _ w2]) (auto split: if_splits)
  qed
qed

lemma run_with_streams:
  assumes "\<exists>w1. run_state (m (test_streams (the_test w))) w = ((r, sps), w1) \<and> the_test w1 = the_test w \<and> logged w w1 P"
  shows "\<exists>w'. run_state (with_streams m) w = (r, w') \<and> the_test w' = (the_test w)\<lparr>test_streams := sps\<rparr> \<and> logged w w' P"
  using assms by (auto simp: with_streams_def logged_def)

section \<open>Sockets\<close>

definition unplugged :: "iperf_stream \<Rightarrow> iperf_stream" where
  "unplugged sp = sp\<lparr>sp_socket := min (- 1) (sp_socket sp)\<rparr>"

abbreviation open_fds :: "int list \<Rightarrow> int list" where
  "open_fds fds \<equiv> filter (\<lambda>s. s > - 1) fds"

lemma run_close_stream_sockets:
  "\<exists>w'. run_state (close_stream_sockets sps) w = (((), map unplugged sps), w') \<and> the_test w' = the_test (w :: iperf)
     \<and> logged w w' (ends (open_fds (map sp_socket sps)) [])"
proof (induction sps arbitrary: w)
  case Nil
  then show ?case by (auto simp: logged_def ends_def)
next
  case (Cons sp sps)
  show ?case
  proof (cases "sp_socket sp > - 1")
    case False
    then have "unplugged sp = sp" by (simp add: unplugged_def min_def)
    then show ?thesis using Cons.IH [of w] False by auto
  next
    case True
    obtain r w1 where c: "run_state (iperf_win32_close (sp_socket sp)) w = (r, w1)" by fastforce
    note l = logged_close [OF c]
    obtain w2 where w2: "run_state (close_stream_sockets sps) w1 = (((), map unplugged sps), w2)" "the_test w2 = the_test w1"
      "logged w1 w2 (ends (open_fds (map sp_socket sps)) [])"
      using Cons.IH by blast
    have "unplugged sp = sp\<lparr>sp_socket := - 1\<rparr>" using True by (simp add: unplugged_def min_def)
    then show ?thesis
      using True c w2 l logged_ends [OF l(1) w2(3)] by (auto intro!: exI [of _ w2])
  qed
qed

lemma run_close_listeners:
  "\<exists>w'. run_state close_listeners w = ((), w')
     \<and> the_test w' = (the_test w)\<lparr>test_listener := min (- 1) (test_listener (the_test w)), test_prot_listener := min (- 1) (test_prot_listener (the_test w))\<rparr>
     \<and> logged w w' (ends (open_fds [test_listener (the_test w), test_prot_listener (the_test w)]) [])"
proof -
  define t where "t = the_test w"
  obtain r1 w1 where c1: "run_state (iperf_win32_close (test_listener t)) w = (r1, w1)" by fastforce
  define w2 where "w2 = (if test_listener t > - 1 then the_test_update (test_listener_update (\<lambda>_. - 1)) w1 else w)"
  have w2: "the_test w2 = t\<lparr>test_listener := min (- 1) (test_listener t)\<rparr>" "logged w w2 (ends (open_fds [test_listener t]) [])"
    using logged_close [OF c1] by (auto simp: w2_def t_def logged_def min_def ends_def)
  obtain r3 w3 where c3: "run_state (iperf_win32_close (test_prot_listener t)) w2 = (r3, w3)" by fastforce
  define w4 where "w4 = (if test_prot_listener t > - 1 then the_test_update (test_prot_listener_update (\<lambda>_. - 1)) w3 else w2)"
  have w4: "the_test w4 = t\<lparr>test_listener := min (- 1) (test_listener t), test_prot_listener := min (- 1) (test_prot_listener t)\<rparr>"
    "logged w2 w4 (ends (open_fds [test_prot_listener t]) [])"
    using logged_close [OF c3] w2(1) by (auto simp: w4_def logged_def min_def ends_def)
  have s2: "run_state (if test_listener t > - 1 then do { _ \<leftarrow> iperf_win32_close (test_listener t);
      update_state (the_test_update (test_listener_update (\<lambda>_. - 1))) } else State_Monad.return ()) w = ((), w2)"
    using c1 by (simp add: w2_def)
  have "run_state close_listeners w = ((), w4)"
    using c3 w2(1) s2 by (simp add: close_listeners_def t_def [symmetric] w4_def)
  then show ?thesis
    using w4(1) logged_ends [OF w2(2) w4(2)] by (auto simp: t_def split: if_splits)
qed

section \<open>Timers\<close>

lemma cancel_timer_returns:
  assumes "tmem w = m0" and "tmr_inv m0 as fs" and "set_option p \<subseteq> set as"
  shows "\<exists>m as' fs'. cancel_timer p w = Some (w\<lparr>tmem := m\<rparr>) \<and> tmr_inv m as' fs' \<and> set as' = set as - set_option p
    \<and> (\<forall>a. static m a = static m0 a)"
proof (cases p)
  case None
  then show ?thesis using assms(1,2) by (intro exI [of _ m0] exI [of _ as] exI [of _ fs]) (auto simp: cancel_timer_def)
next
  case (Some t)
  then obtain xs ys where as: "as = xs @ t # ys" using assms(3) by (auto simp: in_set_conv_decomp)
  then obtain m where m: "tmr_cancel t m0 = Some m" "payloads m = payloads m0" "tmr_inv m (xs @ ys) (t # fs)"
    using tmr_cancel_correct [of m0 xs t ys fs] assms(2) by auto
  have "t \<notin> set (xs @ ys)" using assms(2) as by (auto simp: tmr_inv_def)
  then show ?thesis
    using m as Some assms(1) static_cong [of m _ m0]
    by (intro exI [of _ m] exI [of _ "xs @ ys"] exI [of _ "t # fs"]) (auto simp: cancel_timer_def)
qed

definition no_test_timers :: "iperf_test \<Rightarrow> iperf_test" where
  "no_test_timers t = t\<lparr>test_stats_timer := None, test_reporter_timer := None, test_omit_timer := None, test_congestion_used := None, test_timer := None\<rparr>"

lemma points_other:
  assumes "points m A k p" and "points m A j q" and "k \<noteq> j"
  shows "points m (A - set_option q) k p"
  using assms by (fastforce simp: points_def)

lemma cancel_test_timers_returns:
  assumes "tmr_inv (tmem w) as fs" and "points (tmem w) (set as) 0 (test_timer (the_test w))"
    and "points (tmem w) (set as) 1 (test_stats_timer (the_test w))" and "points (tmem w) (set as) 2 (test_reporter_timer (the_test w))"
    and "points (tmem w) (set as) 3 (test_omit_timer (the_test w))"
  shows "\<exists>m as' fs'. cancel_test_timers w = Some ((set_test no_test_timers w)\<lparr>tmem := m\<rparr>) \<and> tmr_inv m as' fs'"
proof -
  let ?t = "the_test w"
  have sub: "points m A k p \<Longrightarrow> set_option p \<subseteq> A" for m A k p by (auto simp: points_def)
  obtain m1 as1 fs1 where 1: "cancel_timer (test_stats_timer ?t) w = Some (w\<lparr>tmem := m1\<rparr>)" "tmr_inv m1 as1 fs1"
    "set as1 = set as - set_option (test_stats_timer ?t)" "\<forall>a. static m1 a = static (tmem w) a"
    using cancel_timer_returns [OF refl assms(1) sub [OF assms(3)]] by blast
  have p1: "points m1 (set as1) k x" if "points (tmem w) (set as) k x" "k \<noteq> 1" for k x
    using points_static [OF points_other [OF that(1) assms(3) that(2)], of m1] 1(3,4) by simp
  let ?w1 = "set_test (test_stats_timer_update (\<lambda>_. None)) (w\<lparr>tmem := m1\<rparr>)"
  have e1: "tmem ?w1 = m1" by (simp add: set_test_def)
  obtain m2 as2 fs2 where 2: "cancel_timer (test_reporter_timer ?t) ?w1 = Some (?w1\<lparr>tmem := m2\<rparr>)" "tmr_inv m2 as2 fs2"
    "set as2 = set as1 - set_option (test_reporter_timer ?t)" "\<forall>a. static m2 a = static m1 a"
    using cancel_timer_returns [OF e1 1(2) sub [OF p1 [OF assms(4)]]] by auto
  have p2: "points m2 (set as2) k x" if "points (tmem w) (set as) k x" "k \<noteq> 1" "k \<noteq> 2" for k x
    using points_static [OF points_other [OF p1 [OF that(1,2)] p1 [OF assms(4)] that(3)], of m2] 2(3,4) by simp
  let ?w2 = "set_test (test_reporter_timer_update (\<lambda>_. None)) (?w1\<lparr>tmem := m2\<rparr>)"
  have e2: "tmem ?w2 = m2" by (simp add: set_test_def)
  obtain m3 as3 fs3 where 3: "cancel_timer (test_omit_timer ?t) ?w2 = Some (?w2\<lparr>tmem := m3\<rparr>)" "tmr_inv m3 as3 fs3"
    "set as3 = set as2 - set_option (test_omit_timer ?t)" "\<forall>a. static m3 a = static m2 a"
    using cancel_timer_returns [OF e2 2(2) sub [OF p2 [OF assms(5)]]] by auto
  have p3: "points m3 (set as3) 0 (test_timer ?t)"
    using points_static [OF points_other [OF p2 [OF assms(2)] p2 [OF assms(5)]], of m3] 3(3,4) by simp
  let ?w3 = "set_test (\<lambda>t. t\<lparr>test_omit_timer := None, test_congestion_used := None\<rparr>) (?w2\<lparr>tmem := m3\<rparr>)"
  have e3: "tmem ?w3 = m3" by (simp add: set_test_def)
  obtain m4 as4 fs4 where 4: "cancel_timer (test_timer ?t) ?w3 = Some (?w3\<lparr>tmem := m4\<rparr>)" "tmr_inv m4 as4 fs4"
    using cancel_timer_returns [OF e3 3(2) sub [OF p3]] by auto
  have "cancel_test_timers w = Some ((set_test no_test_timers w)\<lparr>tmem := m4\<rparr>)"
    using 1(1) 2(1) 3(1) 4(1) by (simp add: cancel_test_timers_def set_test_def no_test_timers_def Let_def)
  then show ?thesis using 4(2) by blast
qed

section \<open>The whole clean-up\<close>

lemma honest_the_test [honest_rules]: "honest (update_state (the_test_update f))"
  by (simp add: honest_def)

lemma honest_fail [honest_rules]: "honest (fail e)"
  unfolding fail_def by (intro honest_rules)

lemma honest_set_send_state [honest_rules]: "honest (iperf_set_send_state st)"
  unfolding iperf_set_send_state_def by (intro honest_rules)

lemma emits_set_send_state [emits_rules]: "(\<And>r new. quiet new \<Longrightarrow> Q r new) \<Longrightarrow> emits (iperf_set_send_state st) Q"
  unfolding iperf_set_send_state_def by (intro emits_rules) auto

lemma tell_error_logged:
  assumes "run_state tell_error w = (r, w')"
  shows "logged w w' (ends [] [])" and "\<exists>st. the_test w' = (the_test w)\<lparr>test_state := st\<rparr>"
proof -
  have "emits tell_error (\<lambda>_. quiet)"
    unfolding tell_error_def by (intro emits_rules) auto
  moreover have "honest tell_error"
    unfolding tell_error_def by (intro honest_rules)
  moreover have "tmem w' = tmem w \<and> (\<exists>st. the_test w' = (the_test w)\<lparr>test_state := st\<rparr>)"
  proof -
    have i: "(the_test w)\<lparr>test_state := test_state (the_test w)\<rparr> = the_test w" by simp
    show ?thesis
      using assms unfolding tell_error_def iperf_set_send_state_def iperf_set_test_state_def fail_def
      by (auto simp: case_prod_beta split: if_splits intro: exI [of _ "test_state (the_test w)"])
  qed
  ultimately show "logged w w' (ends [] [])" "\<exists>st. the_test w' = (the_test w)\<lparr>test_state := st\<rparr>"
    using assms honestD [of tell_error w] emitsD [of tell_error "\<lambda>_. quiet" w r w'] by (auto simp: logged_def intro: quiet_ends)
qed

definition has_timers :: "iperf_test \<Rightarrow> tmem \<Rightarrow> addr set \<Rightarrow> bool" where
  "has_timers t m A \<longleftrightarrow> points m A 0 (test_timer t) \<and> points m A 1 (test_stats_timer t)
     \<and> points m A 2 (test_reporter_timer t) \<and> points m A 3 (test_omit_timer t)"

text \<open>A server that holds nothing: no sockets, no timers, no thread, nothing to wait for.\<close>

definition at_rest :: "iperf_test \<Rightarrow> bool" where
  "at_rest t \<longleftrightarrow> test_ctrl_sck t < 0 \<and> test_listener t < 0 \<and> test_prot_listener t < 0 \<and> test_read_set t = [] \<and> test_write_set t = []
     \<and> test_timer t = None \<and> test_stats_timer t = None \<and> test_reporter_timer t = None \<and> test_omit_timer t = None
     \<and> (\<forall>sp\<in>set (test_streams t). sp_socket sp < 0 \<and> sp_done sp = 1 \<and> sp_thread_created sp \<noteq> 1)"

definition sockets :: "iperf_test \<Rightarrow> int list" where
  "sockets t = open_fds (map sp_socket (test_streams t) @ [test_ctrl_sck t, test_listener t, test_prot_listener t])"

definition running_threads :: "iperf_test \<Rightarrow> int list" where
  "running_threads t = map sp_id (filter (\<lambda>sp. sp_thread_created sp = 1) (test_streams t))"

lemma with_stop_threads:
  "\<exists>w'. run_state (with_streams (stop_threads pf what strict sel)) w = (True, w')
     \<and> the_test w' = (the_test w)\<lparr>test_streams := map (\<lambda>sp. if sel sp then stopped sp else sp) (test_streams (the_test w))\<rparr>
     \<and> logged w w' (ends [] (map sp_id (filter (\<lambda>sp. sel sp \<and> sp_thread_created sp = 1) (test_streams (the_test w)))))"
  by (rule run_with_streams [of "stop_threads pf what strict sel"]) (rule run_stop_threads)

lemma with_close_stream_sockets:
  "\<exists>w'. run_state (with_streams close_stream_sockets) w = ((), w')
     \<and> the_test w' = (the_test w)\<lparr>test_streams := map unplugged (test_streams (the_test w))\<rparr>
     \<and> logged w w' (ends (open_fds (map sp_socket (test_streams (the_test w)))) [])"
  by (rule run_with_streams [of close_stream_sockets]) (rule run_close_stream_sockets)

lemma close_control_returns:
  assumes "genuine (os w) (trace w)" and "ends_after (test_ctrl_sck (the_test w)) n (os w)"
  shows "\<exists>w'. close_control w = Some w' \<and> the_test w' = (the_test w)\<lparr>test_ctrl_sck := min (- 1) (test_ctrl_sck (the_test w))\<rparr>
    \<and> logged w w' (ends (open_fds [test_ctrl_sck (the_test w)]) [])"
proof (cases "test_ctrl_sck (the_test w) > - 1")
  case True
  then obtain x where "iperf_sync_close_socket (test_ctrl_sck (the_test w)) w = Some x" "the_test x = the_test w"
    "logged w x (ends [test_ctrl_sck (the_test w)] [])"
    using sync_close_returns [of "test_ctrl_sck (the_test w)" n w] assms by auto
  then show ?thesis using True by (auto simp: close_control_def logged_def set_test_def min_def)
next
  case False
  then show ?thesis by (auto simp: close_control_def logged_def ends_def min_def)
qed

text \<open>The first half of the clean-up: the streams.\<close>

definition rested_streams :: "iperf_test \<Rightarrow> iperf_stream list" where
  "rested_streams t = map (\<lambda>sp. unplugged (stopped sp)) (test_streams t)"

lemma cleanup_streams:
  obtains w1 w2 w3 st where "run_state tell_error w = ((), w1)"
    and "run_state (with_streams (stop_threads pf ''cleanup_server'' False (\<lambda>_. True))) w1 = (True, w2)"
    and "run_state (with_streams close_stream_sockets) (w2\<lparr>i_errno := i_errno w1\<rparr>) = ((), w3)"
    and "the_test w3 = (the_test w)\<lparr>test_state := st, test_streams := rested_streams (the_test w)\<rparr>"
    and "logged w w3 (ends (open_fds (map sp_socket (test_streams (the_test w)))) (running_threads (the_test w)))"
proof -
  let ?t = "the_test w"
  obtain w1 where r1: "run_state tell_error w = ((), w1)" by (metis old.unit.exhaust surj_pair)
  note l1 = tell_error_logged [OF r1]
  obtain st where t1: "the_test w1 = ?t\<lparr>test_state := st\<rparr>" using l1(2) by blast
  obtain w2 where r2: "run_state (with_streams (stop_threads pf ''cleanup_server'' False (\<lambda>_. True))) w1 = (True, w2)"
    and t2: "the_test w2 = ?t\<lparr>test_state := st, test_streams := map stopped (test_streams ?t)\<rparr>"
    and l2: "logged w1 w2 (ends [] (running_threads ?t))"
    using with_stop_threads [of pf "''cleanup_server''" False "\<lambda>_. True" w1] t1 by (auto simp: running_threads_def)
  define w2' where "w2' = w2\<lparr>i_errno := i_errno w1\<rparr>"
  have l2': "logged w w2' (ends [] (running_threads ?t))"
    using logged_ends [OF l1(1) l2] by (simp add: w2'_def logged_def)
  obtain w3 where r3: "run_state (with_streams close_stream_sockets) w2' = ((), w3)"
    and t3: "the_test w3 = ?t\<lparr>test_state := st, test_streams := rested_streams ?t\<rparr>"
    and l3: "logged w2' w3 (ends (open_fds (map sp_socket (test_streams ?t))) [])"
    using with_close_stream_sockets [of w2'] t2 by (auto simp: w2'_def rested_streams_def stopped_def comp_def)
  show thesis
    using that [OF r1 r2 _ t3] r3 logged_ends [OF l2' l3] by (simp add: w2'_def)
qed

lemma cleanup_server_ends:
  assumes "genuine (os w) (trace w)" and "ends_after (test_ctrl_sck (the_test w)) n (os w)"
    and "tmr_inv (tmem w) as fs" and "has_timers (the_test w) (tmem w) (set as)"
  shows "\<exists>w' as' fs' new. cleanup_server pf w = Some w' \<and> at_rest (the_test w') \<and> tmr_inv (tmem w') as' fs'
    \<and> trace w' = new @ trace w \<and> ends (sockets (the_test w)) (running_threads (the_test w)) new"
proof -
  let ?t = "the_test w"
  obtain w1 w2 w3 st where r1: "run_state tell_error w = ((), w1)"
    and r2: "run_state (with_streams (stop_threads pf ''cleanup_server'' False (\<lambda>_. True))) w1 = (True, w2)"
    and r3: "run_state (with_streams close_stream_sockets) (w2\<lparr>i_errno := i_errno w1\<rparr>) = ((), w3)"
    and t3: "the_test w3 = ?t\<lparr>test_state := st, test_streams := rested_streams ?t\<rparr>"
    and l3: "logged w w3 (ends (open_fds (map sp_socket (test_streams ?t))) (running_threads ?t))"
    using cleanup_streams by blast
  define w5 where "w5 = set_test (\<lambda>t. t\<lparr>test_read_set := [], test_write_set := []\<rparr>) w3"
  have w5: "the_test w5 = ?t\<lparr>test_state := st, test_streams := rested_streams ?t, test_read_set := [], test_write_set := []\<rparr>"
    "logged w w5 (ends (open_fds (map sp_socket (test_streams ?t))) (running_threads ?t))"
    using t3 l3 by (simp_all add: w5_def set_test_def logged_def)
  have "genuine (os w5) (trace w5)" "ends_after (test_ctrl_sck (the_test w5)) n (os w5)"
    using w5 assms(1,2) by (simp_all add: logged_def)
  then obtain w6 where r6: "close_control w5 = Some w6"
    and t6: "the_test w6 = (the_test w5)\<lparr>test_ctrl_sck := min (- 1) (test_ctrl_sck ?t)\<rparr>" and l6: "logged w5 w6 (ends (open_fds [test_ctrl_sck ?t]) [])"
    using close_control_returns [of w5 n] w5(1) by auto
  obtain w7 where r7: "run_state close_listeners w6 = ((), w7)"
    and t7: "the_test w7 = (the_test w6)\<lparr>test_listener := min (- 1) (test_listener ?t), test_prot_listener := min (- 1) (test_prot_listener ?t)\<rparr>"
    and l7: "logged w6 w7 (ends (open_fds [test_listener ?t, test_prot_listener ?t]) [])"
    using run_close_listeners [of w6] t6 w5(1) by auto
  have "sockets ?t = (open_fds (map sp_socket (test_streams ?t)) @ open_fds [test_ctrl_sck ?t]) @ open_fds [test_listener ?t, test_prot_listener ?t]"
    by (simp add: sockets_def)
  then have l: "logged w w7 (ends (sockets ?t) (running_threads ?t))"
    using logged_ends [OF logged_ends [OF w5(2) l6] l7] by (simp only: append_Nil2)
  then have m: "tmem w7 = tmem w" by (simp add: logged_def)
  obtain m' as' fs' where r8: "cancel_test_timers w7 = Some ((set_test no_test_timers w7)\<lparr>tmem := m'\<rparr>)" "tmr_inv m' as' fs'"
    using cancel_test_timers_returns [of w7 as fs] assms(3,4) m w5(1) t6 t7 by (auto simp: has_timers_def)
  have "cleanup_server pf w = Some ((set_test no_test_timers w7)\<lparr>tmem := m'\<rparr>)"
    using r1 r2 r3 r6 r7 r8(1) by (simp add: cleanup_server_def run_def w5_def [symmetric] Let_def)
  moreover have "at_rest (the_test ((set_test no_test_timers w7)\<lparr>tmem := m'\<rparr>))"
    using t7 t6 w5(1) by (auto simp: at_rest_def set_test_def no_test_timers_def rested_streams_def unplugged_def stopped_def)
  ultimately show ?thesis
    using l r8(2) by (auto simp: logged_def set_test_def)
qed


definition busy_server :: iperf where
  "busy_server = iperf0 (\<lambda>_ _. answers 0) (zero_test\<lparr>test_ctrl_sck := 4, test_listener := 3, test_prot_listener := - 1,
     test_streams := [zero_stream\<lparr>sp_id := 1, sp_socket := 5, sp_thread_created := 1\<rparr>]\<rparr>) \<lparr>cells = (\<lambda>_. None), timers = None, free_timers = None\<rparr>"


end
