(* ===== verification/Session.thy ===== *)
theory Session
  imports Cleanup Params_Wire
begin

text \<open>
  Client and server together: what one side puts on the control connection and what the other side makes
  of it.
\<close>

section \<open>The error number\<close>

text \<open>Programs that leave the number of the last error alone.\<close>

named_theorems calm_rules \<open>rules for programs that keep i_errno\<close>

definition calm :: "('z sys_scheme, 'a) state \<Rightarrow> bool" where
  "calm m \<longleftrightarrow> (\<forall>s. i_errno (snd (run_state m s)) = i_errno s)"

lemma calmD: "calm m \<Longrightarrow> run_state m s = (r, s') \<Longrightarrow> i_errno s' = i_errno s"
  unfolding calm_def by (metis snd_conv)

lemma calm_basic [calm_rules]:
  "calm (State_Monad.return x)" "calm (reads f)" "calm (call c)" "calm (update_state (errno_update g))"
  "calm (update_state (wsa_error_update h))" "calm (set_errno e)"
  by (simp_all add: calm_def run_call Let_def)

lemma calm_bind [calm_rules]: "calm m \<Longrightarrow> (\<And>r. calm (f r)) \<Longrightarrow> calm (State_Monad.bind m f)"
  by (simp add: calm_def case_prod_beta)

lemma calm_if [calm_rules]: "(b \<Longrightarrow> calm m) \<Longrightarrow> (\<not> b \<Longrightarrow> calm n) \<Longrightarrow> calm (if b then m else n)"
  by simp

lemma calm_sys [calm_rules]: "calm (winsock c)" "calm (crt c)" "calm set_wsa_errno"
  unfolding winsock_def crt_def set_wsa_errno_def by (intro calm_rules)+

lemma calm_write [calm_rules]: "calm (iperf_win32_write fd b)"
  unfolding iperf_win32_write_def by (intro calm_rules)

lemma calm_let_case [calm_rules]:
  "(\<And>x. x = e \<Longrightarrow> calm (m x)) \<Longrightarrow> calm (let x = e in m x)"
  "(\<And>u v. calm (c u v)) \<Longrightarrow> calm (case p of (u, v) \<Rightarrow> c u v)"
  by (auto split: prod.splits)

lemma calm_reading [calm_rules]: "calm (iperf_win32_read fd n)" "calm iperf_time_now"
  unfolding iperf_win32_read_def iperf_time_now_def clock_gettime_helper_def clock_gettime_def gettimeofday_def
  by (intro calm_rules)+

lemma calm_read_loop [calm_rules]: "calm (Nrecv_loop fd opt nleft ft acc :: ('z sys_scheme, int + byte list) state)"
proof (induction nleft arbitrary: ft acc rule: less_induct)
  case (less n)
  show ?case
    unfolding Nrecv_loop.simps [of fd opt n] read_or_recv_def
    by (intro calm_rules less) (auto simp: copied_def neq_Nil_conv)
qed

lemma calm_Nread [calm_rules]: "calm (Nread fd n p)"
  unfolding Nread_def Nrecv_def by (intro calm_rules)

lemma calm_Nwrite_loop [calm_rules]: "calm (Nwrite_loop fd n buf :: ('z sys_scheme, int) state)"
proof (induction "length buf" arbitrary: buf rule: less_induct)
  case less
  show ?case
    by (subst Nwrite_loop.simps, intro calm_rules less) auto
qed

lemma calm_Nwrite [calm_rules]: "calm (Nwrite fd buf p)"
  unfolding Nwrite_def by (intro calm_rules)

lemma run_Nwrite:
  assumes "run_state (Nwrite fd buf p) w = (r, w')"
  obtains new n where "trace w' = new @ trace w" and "gather (accepts fd) new = take n buf" and "n \<le> length buf"
    and "r \<ge> 0 \<longrightarrow> r = int n" and "i_errno w' = i_errno w" and "sys.more w' = sys.more w"
proof -
  obtain new where new: "trace w' = new @ trace w" "\<exists>n. n \<le> length buf \<and> gather (accepts fd) new = take n buf
      \<and> (if r < 0 then r = NET_SOFTERROR \<or> r = NET_HARDERROR else r = int n)"
    using emits_Nwrite assms by (rule emitsD)
  have "i_errno (snd (run_state (Nwrite fd buf p) w)) = i_errno w" "sys.more (snd (run_state (Nwrite fd buf p) w)) = sys.more w"
    using calm_Nwrite keeps_io(5) unfolding calm_def keeps_def by blast+
  then show thesis using that new assms by (auto split: if_splits)
qed

text \<open>What the server writes when it reports an error, if all of it goes out.\<close>

lemma tell_error_sends:
  fixes w :: iperf
  assumes run: "run_state tell_error w = ((), w')" and new: "trace w' = new @ trace w" and err: "i_errno w \<noteq> 0"
    and s: "s = test_ctrl_sck (the_test w)" "0 \<le> s" and all: "length (gather (accepts s) new) = 9"
  shows "\<exists>y. gather (accepts s) new = 254 # be32 (word_of_int (i_errno w)) @ be32 y"
proof -
  define w0 where "w0 = the_test_update (\<lambda>t. iperf_set_test_state t SERVER_ERROR) w"
  obtain r1 w1 where r1: "run_state (Nwrite s [word_of_int SERVER_ERROR] Ptcp) w0 = (r1, w1)" by fastforce
  obtain new1 n1 where n1: "trace w1 = new1 @ trace w0" "gather (accepts s) new1 = take n1 [word_of_int SERVER_ERROR]" "n1 \<le> length [word_of_int SERVER_ERROR :: byte]"
      "r1 \<ge> 0 \<longrightarrow> r1 = int n1" "i_errno w1 = i_errno w0" "sys.more w1 = sys.more w0"
    using r1 by (rule run_Nwrite)
  obtain r2 w2 where r2: "run_state (Nwrite s (be32 (word_of_int (i_errno w))) Ptcp) w1 = (r2, w2)" by fastforce
  obtain new2 n2 where n2: "trace w2 = new2 @ trace w1" "gather (accepts s) new2 = take n2 (be32 (word_of_int (i_errno w)))" "n2 \<le> length (be32 (word_of_int (i_errno w)))"
      "r2 \<ge> 0 \<longrightarrow> r2 = int n2" "i_errno w2 = i_errno w1" "sys.more w2 = sys.more w1"
    using r2 by (rule run_Nwrite)
  obtain r3 w3 where r3: "run_state (Nwrite s (be32 (word_of_int (errno w2))) Ptcp) w2 = (r3, w3)" by fastforce
  obtain new3 n3 where n3: "trace w3 = new3 @ trace w2" "gather (accepts s) new3 = take n3 (be32 (word_of_int (errno w2)))" "n3 \<le> length (be32 (word_of_int (errno w2)))"
      "r3 \<ge> 0 \<longrightarrow> r3 = int n3" "i_errno w3 = i_errno w2" "sys.more w3 = sys.more w2"
    using r3 by (rule run_Nwrite)
  have w0: "trace w0 = trace w" "i_errno w0 = i_errno w" by (simp_all add: w0_def)
  have "w' = (if r1 < 0 then w1\<lparr>i_errno := IESENDMESSAGE\<rparr> else if r2 < 0 then w2 else w3)"
    using run r1 r2 r3 err s n1(5) w0 by (auto simp: tell_error_def iperf_set_send_state_def fail_def w0_def split: if_splits)
  then have "r1 \<ge> 0 \<and> r2 \<ge> 0 \<and> w' = w3"
    using new all n1(1-3) n2(1-3) w0(1) by (auto simp: length_encodings split: if_splits)
  then have "gather (accepts s) new = take n1 [word_of_int SERVER_ERROR] @ take n2 (be32 (word_of_int (i_errno w))) @ take n3 (be32 (word_of_int (errno w2)))"
  proof -
    have "new = new3 @ new2 @ new1" using \<open>r1 \<ge> 0 \<and> r2 \<ge> 0 \<and> w' = w3\<close> new n1(1) n2(1) n3(1) w0(1) by simp
    then show ?thesis using n1(2) n2(2) n3(2) by simp
  qed
  moreover from this have "n1 = 1" "n2 = 4" "n3 = 4"
    using all n1(3) n2(3) n3(3) by (auto simp: length_encodings min_def split: if_splits)
  ultimately show ?thesis by (auto simp: length_encodings)
qed

text \<open>What the client makes of it.\<close>

lemma trace_errors [simp]:
  fixes w :: iperf
  shows "trace (snd (run_state (iperf_err msg) w)) = trace w" "i_errno (snd (run_state (iperf_err msg) w)) = i_errno w"
    "test_state (the_test (snd (run_state (iperf_err msg) w))) = test_state (the_test w)"
    "trace (snd (run_state (iperf_strerror f g e) w)) = trace w" "i_errno (snd (run_state (iperf_strerror f g e) w)) = i_errno w"
    "the_test (snd (run_state (iperf_strerror f g e) w)) = the_test w"
  by (simp_all add: iperf_err_def add_top_def iperf_strerror_def case_prod_beta Let_def)

lemma read_server_error_reads:
  fixes w :: iperf
  assumes run: "run_state (read_server_error pf junk) w = (r, w')" and new: "trace w' = new @ trace w"
    and c: "c = test_ctrl_sck (the_test w)" and got: "gather (delivers c) new = be32 x @ be32 y" and junk: "length junk = 4"
  shows "r = - 1 \<and> i_errno w' = sint x \<and> test_state (the_test w') = test_state (the_test w)"
proof -
  have e: "emits (Nread c 4 Ptcp :: (iperf, int \<times> byte list) state) (\<lambda>(r, bs) new. quiet new \<and> length (gather (delivers c) new) \<le> 4
     \<and> (r = int 4 \<longleftrightarrow> length (gather (delivers c) new) = 4) \<and> (r = int 4 \<longrightarrow> bs = gather (delivers c) new))"
    by (rule emits_Nread_exact) simp
  obtain n1 b1 w1 where r1: "run_state (Nread c 4 Ptcp) w = ((n1, b1), w1)" by (metis prod.collapse)
  obtain new1 where n1: "trace w1 = new1 @ trace w" "length (gather (delivers c) new1) \<le> 4"
    "n1 = int 4 \<longleftrightarrow> length (gather (delivers c) new1) = 4" "n1 = int 4 \<longrightarrow> b1 = gather (delivers c) new1"
    using emitsD [OF e r1] by auto
  have t1: "the_test w1 = the_test w" using keeps_tmem [OF keeps_io(2), of c 4 Ptcp w] r1 by simp
  let ?w1 = "w1\<lparr>i_errno := int32_of (overlay b1 junk)\<rparr>"
  obtain n2 b2 w2 where r2: "run_state (Nread c 4 Ptcp) ?w1 = ((n2, b2), w2)" by (metis prod.collapse)
  obtain new2 where n2: "trace w2 = new2 @ trace w1" "length (gather (delivers c) new2) \<le> 4"
    "n2 = int 4 \<longleftrightarrow> length (gather (delivers c) new2) = 4"
    using emitsD [OF e r2] by auto
  have t2: "the_test w2 = the_test w" "i_errno w2 = int32_of (overlay b1 junk)"
    using keeps_tmem [OF keeps_io(2), of c 4 Ptcp ?w1] calmD [OF calm_Nread r2] r2 t1 by auto
  have w': "if n1 < 0 then trace w' = trace w1 else trace w' = trace w2 \<and> (n2 \<ge> 0 \<longrightarrow> r = - 1 \<and> i_errno w' = i_errno w2 \<and> test_state (the_test w') = test_state (the_test w))"
    using run r1 r2 c t2 by (auto simp: read_server_error_def fail_def case_prod_beta Let_def split: if_splits)
  have "\<not> n1 < 0" using w' new n1(1,2) arg_cong [OF got, of length] by auto
  then have g: "gather (delivers c) new1 @ gather (delivers c) new2 = be32 x @ be32 y" using w' new n1(1) n2(1) got by simp
  have "length (gather (delivers c) new1 @ gather (delivers c) new2) = length (be32 x @ be32 y)" by (simp only: g)
  then have "length (gather (delivers c) new1) = 4" "length (gather (delivers c) new2) = 4" using n1(2) n2(2) by auto
  then have "b1 = be32 x" "n2 = int 4" using g n1(3,4) n2(3) by simp_all
  then show ?thesis using w' \<open>\<not> n1 < 0\<close> t2(2) junk by (simp add: int32_of_def overlay_def)
qed

text \<open>
  C8: An error of the server reaches the client. The server reports its error in the clean-up and everything
  goes out; the client handles a message while its system delivers these bytes, the first of them for
  the state. Then the client fails with the server's error as its own, in the state that stands for an
  error of the server.
\<close>

theorem server_error_arrives:
  assumes server: "run_state tell_error ws = ((), ws')" "trace ws' = news @ trace ws" "i_errno ws \<noteq> 0"
      "- (2 ^ 31) \<le> i_errno ws" "i_errno ws < 2 ^ 31" "0 \<le> test_ctrl_sck (the_test ws)"
      "length (gather (accepts (test_ctrl_sck (the_test ws))) news) = 9"
    and client: "iperf_handle_message_client pf user junk wc = Some (r, wc')" "length junk = 4"
      "run_state (iperf_win32_read (test_ctrl_sck (the_test wc)) 1) wc = (st, wc1)" "trace wc1 = new1 @ trace wc" "trace wc' = new2 @ trace wc1"
      "gather (delivers (test_ctrl_sck (the_test wc))) (new2 @ new1) = gather (accepts (test_ctrl_sck (the_test ws))) news"
  shows "r = - 1 \<and> i_errno wc' = i_errno ws \<and> test_state (the_test wc') = SERVER_ERROR"
proof -
  define c where "c = test_ctrl_sck (the_test wc)"
  let ?e = "word_of_int (i_errno ws) :: u32"
  obtain y where y: "gather (delivers c) new1 @ gather (delivers c) new2 = 254 # be32 ?e @ be32 y"
    using tell_error_sends [OF server(1-3) refl server(6,7)] client(6) by (auto simp: c_def)
  obtain n bs where st: "st = (n, bs)" by fastforce
  have "emits (iperf_win32_read c 1 :: (iperf, int \<times> byte list) state) (\<lambda>(r, bs) new. read_ok c 1 r bs new)"
    by (rule emits_read) simp
  then have n1: "read_ok c 1 n bs new1"
    using emitsD [OF _ client(3) [unfolded st]] client(4) by (auto simp: c_def)
  have t1: "the_test wc1 = the_test wc" using keeps_tmem [OF keeps_wrappers(2), of c 1 wc] client(3) by (simp add: c_def)
  have "n > 0"
  proof (rule ccontr)
    assume "\<not> n > 0"
    then have "gather (delivers c) new1 = []" "trace wc' = trace wc1"
      using n1 client(1,3) st by (auto simp: iperf_handle_message_client_def run_def fail_def read_ok_def split: if_splits)
    then show False using y client(5) by simp
  qed
  then obtain b where b: "bs = [b]" "gather (delivers c) new1 = [b]"
    using n1 by (cases bs) (auto simp: read_ok_def)
  then have g: "b = 254" "gather (delivers c) new2 = be32 ?e @ be32 y" using y by simp_all
  define w2 where "w2 = set_test (test_state_update (\<lambda>_. SERVER_ERROR)) wc1"
  have "run_state (read_server_error pf junk) w2 = (r, wc')"
    using client(1,3) st \<open>n > 0\<close> b(1) g(1) by (simp add: iperf_handle_message_client_def run_def w2_def set_test_def client_message_def)
  moreover have "trace wc' = new2 @ trace w2" "c = test_ctrl_sck (the_test w2)" using client(5) t1 by (simp_all add: w2_def set_test_def c_def)
  ultimately have "r = - 1 \<and> i_errno wc' = sint ?e \<and> test_state (the_test wc') = test_state (the_test w2)"
    using read_server_error_reads g(2) client(2) by blast
  moreover have "sint ?e = i_errno ws"
    using server(4,5) by (simp add: signed_of_int signed_take_bit_int_eq_self)
  ultimately show ?thesis by (simp add: w2_def set_test_def)
qed

definition failing_server :: iperf where
  "failing_server = (iperf0 accepting_os (zero_test\<lparr>test_ctrl_sck := 4\<rparr>) \<lparr>cells = (\<lambda>_. None), timers = None, free_timers = None\<rparr>)
     \<lparr>i_errno := 5, errno := 5\<rparr>"

definition error_os :: "events \<Rightarrow> syscall \<Rightarrow> answer" where
  "error_os tr c = (case c of Recv fd n f \<Rightarrow> (answers (int n))\<lparr>bytes := (if n = 1 then [254] else be32 5)\<rparr> | _ \<Rightarrow> answers 1)"

definition told_client :: iperf where
  "told_client = iperf0 error_os (zero_test\<lparr>test_ctrl_sck := 3\<rparr>) \<lparr>cells = (\<lambda>_. None), timers = None, free_timers = None\<rparr>"

lemma be32_not_empty: "be32 x \<noteq> []"
  using length_encodings(2) [of x] by (metis list.size(3) zero_neq_numeral)

lemma run_tell_error_witness:
  "\<exists>ws'. run_state tell_error failing_server = ((), ws')
     \<and> gather (accepts 4) (trace ws') = 254 # be32 5 @ be32 5"
proof -
  have f: "i_errno failing_server = 5" "errno failing_server = 5" "test_ctrl_sck (the_test failing_server) = 4" "trace failing_server = []"
    "os failing_server = accepting_os"
    by (simp_all add: failing_server_def)
  show ?thesis
    by (simp add: f run_Nwrite_accepting be32_not_empty tell_error_def iperf_set_send_state_def sent_def answers_def)
qed

lemma run_Nread_error:
  assumes "os w = error_os"
  shows "run_state (Nread fd 4 Ptcp) w = ((4, be32 5), w\<lparr>trace := (Recv fd 4 0, error_os [] (Recv fd 4 0)) # (Select [fd] [] (Some (10, 0)), answers 1) # trace w\<rparr>)"
  using assms be32_not_empty [of 5]
  by (simp add: Nread_def Nrecv_def winsock_def run_call error_os_def answers_def Let_def nread_read_timeout_def
      Nrecv_loop.simps [of _ _ 4] read_or_recv_def iperf_win32_read_def received_def copied_def)

lemma run_read_server_error:
  fixes w :: iperf
  assumes "os w = error_os" and "fd = test_ctrl_sck (the_test w)"
  defines "es \<equiv> [(Recv fd 4 0, error_os [] (Recv fd 4 0)), (Select [fd] [] (Some (10, 0)), answers 1)]"
  shows "\<exists>w'. run_state (read_server_error pf junk) w = (- 1, w') \<and> trace w' = es @ es @ trace w"
proof -
  let ?w1 = "w\<lparr>trace := es @ trace w, i_errno := int32_of (overlay (be32 5) junk)\<rparr>"
  have r1: "run_state (Nread fd 4 Ptcp) w = ((4, be32 5), w\<lparr>trace := es @ trace w\<rparr>)"
    using run_Nread_error [OF assms(1)] by (simp add: es_def)
  have r2: "run_state (Nread fd 4 Ptcp) ?w1 = ((4, be32 5), ?w1\<lparr>trace := es @ es @ trace w\<rparr>)"
    using run_Nread_error [of ?w1 fd] assms(1) by (simp add: es_def)
  show ?thesis
    using r1 r2 by (simp add: read_server_error_def assms(2) [symmetric] case_prod_beta Let_def)
qed

theorem server_error_arrives_witness:
  "\<exists>ws' r wc'. run_state tell_error failing_server = ((), ws') \<and> iperf_handle_message_client platform0 (\<lambda>f w. Some w) [0, 0, 0, 0] told_client = Some (r, wc')
     \<and> r = - 1 \<and> i_errno wc' = i_errno failing_server"
proof -
  obtain ws' where ws: "run_state tell_error failing_server = ((), ws')" "gather (accepts 4) (trace ws') = 254 # be32 5 @ be32 5"
    using run_tell_error_witness by blast
  have f: "i_errno failing_server = 5" "test_ctrl_sck (the_test failing_server) = 4" "trace failing_server = []"
    by (simp_all add: failing_server_def)
  have t: "test_ctrl_sck (the_test told_client) = 3" "trace told_client = []" "os told_client = error_os"
    by (simp_all add: told_client_def)
  let ?e = "(Recv 3 1 0, error_os [] (Recv 3 1 0))"
  have r1: "run_state (iperf_win32_read 3 1) told_client = ((1, [254]), told_client\<lparr>trace := [?e]\<rparr>)"
    using t by (simp add: iperf_win32_read_def winsock_def run_call error_os_def answers_def received_def Let_def)
  have d: "gather (delivers 3) [(Select [3] [] (Some (10, 0)), answers 1)] = []" "delivers 3 (Recv 3 4 0, error_os [] (Recv 3 4 0)) = be32 5"
    "delivers 3 ?e = [254]"
    by (simp_all add: error_os_def received_def answers_def)
  define w2 where "w2 = set_test (test_state_update (\<lambda>_. SERVER_ERROR)) (told_client\<lparr>trace := [?e]\<rparr>)"
  have w2: "os w2 = error_os" "3 = test_ctrl_sck (the_test w2)" "trace w2 = [?e]" using t by (simp_all add: w2_def set_test_def)
  obtain wc' where "run_state (read_server_error platform0 [0, 0, 0, 0]) w2 = (- 1, wc')"
    and tr: "\<exists>new2. trace wc' = new2 @ [?e] \<and> gather (delivers 3) new2 = be32 5 @ be32 5"
    using run_read_server_error [OF w2(1,2), of platform0 "[0, 0, 0, 0]"] w2(3) d by auto
  then have h: "iperf_handle_message_client platform0 (\<lambda>f w. Some w) [0, 0, 0, 0] told_client = Some (- 1, wc')"
    using r1 t by (simp add: iperf_handle_message_client_def run_def client_message_def w2_def set_test_def)
  obtain new2 where n2: "trace wc' = new2 @ [?e]" "gather (delivers 3) new2 = be32 5 @ be32 5" using tr by blast
  have "(- 1 :: int) = - 1 \<and> i_errno wc' = i_errno failing_server \<and> test_state (the_test wc') = SERVER_ERROR"
  proof (rule server_error_arrives [OF ws(1) _ _ _ _ _ _ h])
    show "run_state (iperf_win32_read (test_ctrl_sck (the_test told_client)) 1) told_client = ((1, [254]), told_client\<lparr>trace := [?e]\<rparr>)"
      using r1 t by simp
    show "trace wc' = new2 @ trace (told_client\<lparr>trace := [?e]\<rparr>)" using n2(1) by simp
    show "gather (delivers (test_ctrl_sck (the_test told_client))) (new2 @ [?e])
        = gather (accepts (test_ctrl_sck (the_test failing_server))) (trace ws')"
      using t f n2(2) ws(2) d(3) by simp
    show "length (gather (accepts (test_ctrl_sck (the_test failing_server))) (trace ws')) = 9" using ws(2) f by simp
  qed (simp_all add: f t)
  then show ?thesis using ws(1) h by blast
qed

end
