(* ===== verification/Cmdline.thy ===== *)
theory Cmdline
  imports Getopt Dscp Lifecycle
begin

text \<open>
  The command line (\<open>iperf_parse_arguments\<close> in \<open>iperf_api.c\<close>), in the configuration of
  \<open>iperf_config.h\<close>. The state of the parser, \<open>cmdline\<close>, extends the state of the program by the
  variables of the option scanner and the local variables of the function. A case of the switch is
  one definition; its result says whether the loop goes on, the function returns or the process
  exits. An option whose argument would be a null pointer is the result \<open>Null_argument\<close>.
  Texts for the user are not modelled. \<open>inet_pton\<close> of Winsock is the argument \<open>link_local\<close>: whether a
  text is a link-local address of IPv6.
\<close>

section \<open>State\<close>

record cmdline = iperf +
  scanner :: getopt_state
  cl_blksize :: int
  server_flag :: bool
  client_flag :: bool
  rate_flag :: bool
  duration_flag :: bool
  rcv_timeout_flag :: bool
  gsro_flag :: bool

datatype parse_result = Next | Parse_returns int | Parse_exits int | Null_argument

type_synonym handler = "(cmdline, parse_result) state"

abbreviation DEBUG_LEVEL_MAX :: int where "DEBUG_LEVEL_MAX \<equiv> 4"
abbreviation TIMESTAMP_FORMAT :: string where "TIMESTAMP_FORMAT \<equiv> ''%c ''"

definition MIN_INTERVAL :: double where "MIN_INTERVAL = fl64 (1 / 10)"

abbreviation OPT_SCTP :: int where "OPT_SCTP \<equiv> 1"
abbreviation OPT_LOGFILE :: int where "OPT_LOGFILE \<equiv> 2"
abbreviation OPT_GET_SERVER_OUTPUT :: int where "OPT_GET_SERVER_OUTPUT \<equiv> 3"
abbreviation OPT_UDP_COUNTERS_64BIT :: int where "OPT_UDP_COUNTERS_64BIT \<equiv> 4"
abbreviation OPT_CLIENT_PORT :: int where "OPT_CLIENT_PORT \<equiv> 5"
abbreviation OPT_NUMSTREAMS :: int where "OPT_NUMSTREAMS \<equiv> 6"
abbreviation OPT_FORCEFLUSH :: int where "OPT_FORCEFLUSH \<equiv> 7"
abbreviation OPT_NO_FQ_SOCKET_PACING :: int where "OPT_NO_FQ_SOCKET_PACING \<equiv> 9"
abbreviation OPT_FQ_RATE :: int where "OPT_FQ_RATE \<equiv> 10"
abbreviation OPT_DSCP :: int where "OPT_DSCP \<equiv> 11"
abbreviation OPT_PACING_TIMER :: int where "OPT_PACING_TIMER \<equiv> 16"
abbreviation OPT_CONNECT_TIMEOUT :: int where "OPT_CONNECT_TIMEOUT \<equiv> 17"
abbreviation OPT_REPEATING_PAYLOAD :: int where "OPT_REPEATING_PAYLOAD \<equiv> 18"
abbreviation OPT_EXTRA_DATA :: int where "OPT_EXTRA_DATA \<equiv> 19"
abbreviation OPT_BIDIRECTIONAL :: int where "OPT_BIDIRECTIONAL \<equiv> 20"
abbreviation OPT_SERVER_BITRATE_LIMIT :: int where "OPT_SERVER_BITRATE_LIMIT \<equiv> 21"
abbreviation OPT_TIMESTAMPS :: int where "OPT_TIMESTAMPS \<equiv> 22"
abbreviation OPT_IDLE_TIMEOUT :: int where "OPT_IDLE_TIMEOUT \<equiv> 25"
abbreviation OPT_DONT_FRAGMENT :: int where "OPT_DONT_FRAGMENT \<equiv> 26"
abbreviation OPT_RCV_TIMEOUT :: int where "OPT_RCV_TIMEOUT \<equiv> 27"
abbreviation OPT_JSON_STREAM :: int where "OPT_JSON_STREAM \<equiv> 28"
abbreviation OPT_SND_TIMEOUT :: int where "OPT_SND_TIMEOUT \<equiv> 29"
abbreviation OPT_CNTL_KA :: int where "OPT_CNTL_KA \<equiv> 31"
abbreviation OPT_JSON_STREAM_FULL_OUTPUT :: int where "OPT_JSON_STREAM_FULL_OUTPUT \<equiv> 33"
abbreviation OPT_SERVER_MAX_DURATION :: int where "OPT_SERVER_MAX_DURATION \<equiv> 34"
abbreviation OPT_GSRO :: int where "OPT_GSRO \<equiv> 35"

definition letter :: "char \<Rightarrow> int" where
  "letter c = int (char_code c)"

definition long_option :: "string \<Rightarrow> has_arg \<Rightarrow> int \<Rightarrow> longopt" where
  "long_option name a v = \<lparr>lo_name = name, lo_has_arg = a, lo_flag = None, lo_val = v\<rparr>"

definition longopts :: "longopt list" where
  "longopts =
     [long_option ''port'' Required_argument (letter CHR ''p''),
      long_option ''format'' Required_argument (letter CHR ''f''),
      long_option ''interval'' Required_argument (letter CHR ''i''),
      long_option ''one-off'' No_argument (letter CHR ''1''),
      long_option ''verbose'' No_argument (letter CHR ''V''),
      long_option ''json'' No_argument (letter CHR ''J''),
      long_option ''json-stream'' No_argument OPT_JSON_STREAM,
      long_option ''json-stream-full-output'' No_argument OPT_JSON_STREAM_FULL_OUTPUT,
      long_option ''version'' No_argument (letter CHR ''v''),
      long_option ''server'' No_argument (letter CHR ''s''),
      long_option ''client'' Required_argument (letter CHR ''c''),
      long_option ''udp'' No_argument (letter CHR ''u''),
      long_option ''bitrate'' Required_argument (letter CHR ''b''),
      long_option ''bandwidth'' Required_argument (letter CHR ''b''),
      long_option ''server-bitrate-limit'' Required_argument OPT_SERVER_BITRATE_LIMIT,
      long_option ''server-max-duration'' Required_argument OPT_SERVER_MAX_DURATION,
      long_option ''time'' Required_argument (letter CHR ''t''),
      long_option ''bytes'' Required_argument (letter CHR ''n''),
      long_option ''blockcount'' Required_argument (letter CHR ''k''),
      long_option ''length'' Required_argument (letter CHR ''l''),
      long_option ''parallel'' Required_argument (letter CHR ''P''),
      long_option ''reverse'' No_argument (letter CHR ''R''),
      long_option ''bidir'' No_argument OPT_BIDIRECTIONAL,
      long_option ''window'' Required_argument (letter CHR ''w''),
      long_option ''bind'' Required_argument (letter CHR ''B''),
      long_option ''cport'' Required_argument OPT_CLIENT_PORT,
      long_option ''set-mss'' Required_argument (letter CHR ''M''),
      long_option ''no-delay'' No_argument (letter CHR ''N''),
      long_option ''version4'' No_argument (letter CHR ''4''),
      long_option ''version6'' No_argument (letter CHR ''6''),
      long_option ''tos'' Required_argument (letter CHR ''S''),
      long_option ''dscp'' Required_argument OPT_DSCP,
      long_option ''extra-data'' Required_argument OPT_EXTRA_DATA,
      long_option ''omit'' Required_argument (letter CHR ''O''),
      long_option ''file'' Required_argument (letter CHR ''F''),
      long_option ''repeating-payload'' No_argument OPT_REPEATING_PAYLOAD,
      long_option ''timestamps'' Optional_argument OPT_TIMESTAMPS,
      long_option ''affinity'' Required_argument (letter CHR ''A''),
      long_option ''title'' Required_argument (letter CHR ''T''),
      long_option ''pidfile'' Required_argument (letter CHR ''I''),
      long_option ''logfile'' Required_argument OPT_LOGFILE,
      long_option ''forceflush'' No_argument OPT_FORCEFLUSH,
      long_option ''get-server-output'' No_argument OPT_GET_SERVER_OUTPUT,
      long_option ''udp-counters-64bit'' No_argument OPT_UDP_COUNTERS_64BIT,
      long_option ''no-fq-socket-pacing'' No_argument OPT_NO_FQ_SOCKET_PACING,
      long_option ''dont-fragment'' No_argument OPT_DONT_FRAGMENT,
      long_option ''fq-rate'' Required_argument OPT_FQ_RATE,
      long_option ''pacing-timer'' Required_argument OPT_PACING_TIMER,
      long_option ''connect-timeout'' Required_argument OPT_CONNECT_TIMEOUT,
      long_option ''idle-timeout'' Required_argument OPT_IDLE_TIMEOUT,
      long_option ''rcv-timeout'' Required_argument OPT_RCV_TIMEOUT,
      long_option ''snd-timeout'' Required_argument OPT_SND_TIMEOUT,
      long_option ''cntl-ka'' Optional_argument OPT_CNTL_KA,
      long_option ''gsro'' No_argument OPT_GSRO,
      long_option ''debug'' Optional_argument (letter CHR ''d''),
      long_option ''help'' No_argument (letter CHR ''h'')]"

definition optstring :: string where
  "optstring = ''p:f:i:D1VJvsc:ub:t:n:k:l:P:Rw:B:M:N46S:L:ZO:F:A:T:C:dI:mhX:''"

section \<open>Pieces of the cases\<close>

definition bad :: "int \<Rightarrow> handler" where
  "bad e = do { _ \<leftarrow> set_i_errno e; State_Monad.return (Parse_returns (- 1)) }"

definition set_t :: "(iperf_test \<Rightarrow> iperf_test) \<Rightarrow> (cmdline, unit) state" where
  "set_t f = update_state (the_test_update f)"

definition set_cfg :: "(iperf_settings \<Rightarrow> iperf_settings) \<Rightarrow> (cmdline, unit) state" where
  "set_cfg f = set_t (test_settings_update f)"

text \<open>The two ends of a case: the option belongs to a server or to a client, or to both.\<close>

definition for_server :: handler where
  "for_server = do { _ \<leftarrow> update_state (server_flag_update (\<lambda>_. True)); State_Monad.return Next }"

definition for_client :: handler where
  "for_client = do { _ \<leftarrow> update_state (client_flag_update (\<lambda>_. True)); State_Monad.return Next }"

text \<open>\<open>if (i_errno != 0) return -1;\<close>\<close>

definition unless_i_errno :: "handler \<Rightarrow> handler" where
  "unless_i_errno k = do { e \<leftarrow> reads i_errno; if e \<noteq> 0 then State_Monad.return (Parse_returns (- 1)) else k }"

definition needs :: "string option \<Rightarrow> (string \<Rightarrow> handler) \<Rightarrow> handler" where
  "needs a h = (case a of None \<Rightarrow> State_Monad.return Null_argument | Some arg \<Rightarrow> h arg)"

definition atof :: "string \<Rightarrow> double" where
  "atof s = (case strtod s of None \<Rightarrow> 0 | Some (v, _) \<Rightarrow> v)"

text \<open>The conversion \<open>(int) farg\<close>; a value out of range becomes the least integer on this processor.\<close>

definition double_to_int :: "double \<Rightarrow> int" where
  "double_to_int x = (let n = Doubles.truncate x in if - (2 ^ 31) \<le> n \<and> n < 2 ^ 31 then n else - (2 ^ 31))"

text \<open>\<open>slash = strchr (optarg, '/')\<close>: the text before the slash and, if there is one, the text after it.\<close>

definition split_slash :: "string \<Rightarrow> string \<times> string option" where
  "split_slash s = (case strchr s CHR ''/'' of None \<Rightarrow> (s, None) | Some p \<Rightarrow> (take (length s - length p) s, Some (tl p)))"

text \<open>\<open>strtok (s, "%")\<close> until there is no more.\<close>

lemma dropWhile_shorter: "dropWhile P s = c # r \<Longrightarrow> length (dropWhile Q r) < length s"
  using length_dropWhile_le [of Q r] length_dropWhile_le [of P s] by simp

function tokens :: "string \<Rightarrow> string list" where
  "tokens s =
     (case dropWhile (\<lambda>c. c = CHR ''%'') s of
        [] \<Rightarrow> []
      | c # r \<Rightarrow> (c # takeWhile (\<lambda>c. c \<noteq> CHR ''%'') r) # tokens (dropWhile (\<lambda>c. c \<noteq> CHR ''%'') r))"
  by auto
termination by (relation "measure length") (simp, simp add: dropWhile_shorter)

declare tokens.simps [simp del]

definition iperf_parse_hostname :: "(string \<Rightarrow> bool) \<Rightarrow> string \<Rightarrow> bool" where
  "iperf_parse_hostname link_local spec =
     (case tokens spec of p # p1 # _ \<Rightarrow> \<not> link_local p | _ \<Rightarrow> False)"

section \<open>The cases of the switch\<close>

definition opt_port :: "string \<Rightarrow> handler" where
  "opt_port arg = (let portno = atoi arg
     in if portno < 1 \<or> portno > 65535 then bad IEBADPORT
        else do { _ \<leftarrow> set_t (test_server_port_update (\<lambda>_. portno)); State_Monad.return Next })"

text \<open>\<open>*optarg\<close> of an empty text is its terminator.\<close>

definition opt_format :: "string option \<Rightarrow> handler" where
  "opt_format a =
     (case a of
        None \<Rightarrow> bad IEBADFORMAT
      | Some arg \<Rightarrow> do {
          let c = (case arg of [] \<Rightarrow> CHR 0x00 | c # _ \<Rightarrow> c);
          _ \<leftarrow> set_cfg (cfg_unit_format_update (\<lambda>_. c));
          if c \<in> set ''kKmMgGtT'' then State_Monad.return Next else bad IEBADFORMAT })"

definition opt_interval :: "string \<Rightarrow> handler" where
  "opt_interval arg = do {
     let v = atof arg;
     _ \<leftarrow> set_t (\<lambda>t. t\<lparr>test_stats_interval := v, test_reporter_interval := v\<rparr>);
     if (v < MIN_INTERVAL \<or> v > of_nat MAX_INTERVAL) \<and> v \<noteq> 0 then bad IEINTERVAL else State_Monad.return Next }"

definition opt_one_off :: handler where
  "opt_one_off = do { _ \<leftarrow> set_t (test_one_off_update (\<lambda>_. 1)); for_server }"

definition opt_json_stream :: handler where
  "opt_json_stream = do { _ \<leftarrow> set_t (\<lambda>t. t\<lparr>test_json_output := 1, test_json_stream := 1\<rparr>); State_Monad.return Next }"

definition opt_server :: handler where
  "opt_server = do {
     test \<leftarrow> reads the_test;
     if test_role test = Some CHR ''c'' then bad IESERVCLIENT
     else do { _ \<leftarrow> set_t (\<lambda>t. iperf_set_test_role t CHR ''s''); State_Monad.return Next } }"

definition opt_client :: "(string \<Rightarrow> bool) \<Rightarrow> string \<Rightarrow> handler" where
  "opt_client link_local arg = do {
     test \<leftarrow> reads the_test;
     if test_role test = Some CHR ''s'' then bad IESERVCLIENT
     else do {
       _ \<leftarrow> set_t (\<lambda>t. iperf_set_test_server_hostname (iperf_set_test_role t CHR ''c'') arg);
       if iperf_parse_hostname link_local arg then bad IEBINDDEVNOSUPPORT else State_Monad.return Next } }"

definition opt_udp :: handler where
  "opt_udp = do { _ \<leftarrow> set_protocol Pudp; for_client }"

definition opt_bitrate :: "string \<Rightarrow> handler" where
  "opt_bitrate arg =
     (let (rate, slash) = split_slash arg;
          set_rate = do {
            v \<leftarrow> unit_atof_rate rate;
            _ \<leftarrow> set_cfg (cfg_rate_update (\<lambda>_. double_to_u64 v));
            unless_i_errno (do { _ \<leftarrow> update_state (rate_flag_update (\<lambda>_. True)); for_client }) }
      in case slash of
           None \<Rightarrow> set_rate
         | Some b \<Rightarrow> do {
             _ \<leftarrow> set_cfg (cfg_burst_update (\<lambda>_. atoi b));
             if atoi b \<le> 0 \<or> atoi b > MAX_BURST then bad IEBURST else set_rate })"

definition opt_server_bitrate_limit :: "string \<Rightarrow> handler" where
  "opt_server_bitrate_limit arg =
     (let (rate, slash) = split_slash arg;
          set_limit = do {
            v \<leftarrow> unit_atof_rate rate;
            _ \<leftarrow> set_cfg (cfg_bitrate_limit_update (\<lambda>_. double_to_u64 v));
            unless_i_errno for_server }
      in case slash of
           None \<Rightarrow> set_limit
         | Some b \<Rightarrow> do {
             _ \<leftarrow> set_cfg (cfg_bitrate_limit_interval_update (\<lambda>_. atof b));
             if atof b \<noteq> 0 \<and> (atof b < MIN_INTERVAL \<or> atof b > of_nat MAX_INTERVAL) then bad IETOTALINTERVAL else set_limit })"

definition opt_time :: "string \<Rightarrow> handler" where
  "opt_time arg = do {
     _ \<leftarrow> set_t (test_duration_update (\<lambda>_. atoi arg));
     if atoi arg > MAX_TIME \<or> atoi arg < 0 then bad IEDURATION
     else do { _ \<leftarrow> update_state (duration_flag_update (\<lambda>_. True)); for_client } }"

text \<open>The options whose argument goes through \<open>unit_atoi\<close>.\<close>

definition opt_unit :: "(u64 \<Rightarrow> (cmdline, unit) state) \<Rightarrow> string \<Rightarrow> handler" where
  "opt_unit put arg = do { v \<leftarrow> unit_atoi arg; _ \<leftarrow> put v; unless_i_errno for_client }"

definition opt_bytes :: "string \<Rightarrow> handler" where
  "opt_bytes = opt_unit (\<lambda>v. set_cfg (cfg_bytes_update (\<lambda>_. v)))"

definition opt_blockcount :: "string \<Rightarrow> handler" where
  "opt_blockcount = opt_unit (\<lambda>v. set_cfg (cfg_blocks_update (\<lambda>_. v)))"

definition opt_length :: "string \<Rightarrow> handler" where
  "opt_length = opt_unit (\<lambda>v. update_state (cl_blksize_update (\<lambda>_. to_int (uint v))))"

definition opt_pacing_timer :: "string \<Rightarrow> handler" where
  "opt_pacing_timer = opt_unit (\<lambda>v. set_cfg (cfg_pacing_timer_update (\<lambda>_. to_int (uint v))))"

definition opt_connect_timeout :: "string \<Rightarrow> handler" where
  "opt_connect_timeout = opt_unit (\<lambda>v. set_cfg (cfg_connect_timeout_update (\<lambda>_. to_int (uint v))))"

definition opt_parallel :: "string \<Rightarrow> handler" where
  "opt_parallel arg = do {
     _ \<leftarrow> set_t (test_num_streams_update (\<lambda>_. atoi arg));
     if atoi arg > MAX_STREAMS then bad IENUMSTREAMS else for_client }"

definition opt_reverse :: handler where
  "opt_reverse = do {
     test \<leftarrow> reads the_test;
     if test_bidirectional test \<noteq> 0 then bad IEREVERSEBIDIR
     else do { _ \<leftarrow> set_t (\<lambda>t. iperf_set_test_reverse t 1); for_client } }"

definition opt_bidirectional :: handler where
  "opt_bidirectional = do {
     test \<leftarrow> reads the_test;
     if test_reverse test \<noteq> 0 then bad IEREVERSEBIDIR
     else do { _ \<leftarrow> set_t (\<lambda>t. iperf_set_test_bidirectional t 1); for_client } }"

definition opt_window :: "string \<Rightarrow> handler" where
  "opt_window arg = do {
     farg \<leftarrow> unit_atof arg;
     unless_i_errno (
       if farg > of_int MAX_TCP_BUFFER then bad IEBUFSIZE
       else do { _ \<leftarrow> set_cfg (cfg_socket_bufsize_update (\<lambda>_. double_to_int farg)); for_client }) }"

definition opt_bind :: "(string \<Rightarrow> bool) \<Rightarrow> string \<Rightarrow> handler" where
  "opt_bind link_local arg = do {
     _ \<leftarrow> set_t (\<lambda>t. iperf_set_test_bind_address t arg);
     if iperf_parse_hostname link_local arg then bad IEBINDDEVNOSUPPORT else State_Monad.return Next }"

definition opt_client_port :: "string \<Rightarrow> handler" where
  "opt_client_port arg = (let portno = atoi arg
     in if portno < 1 \<or> portno > 65535 then bad IEBADPORT
        else do { _ \<leftarrow> set_t (test_bind_port_update (\<lambda>_. portno)); State_Monad.return Next })"

definition opt_set_mss :: "string \<Rightarrow> handler" where
  "opt_set_mss arg = do {
     _ \<leftarrow> set_cfg (cfg_mss_update (\<lambda>_. atoi arg));
     if atoi arg > MAX_MSS then bad IEMSS else for_client }"

definition opt_tos :: "string \<Rightarrow> handler" where
  "opt_tos arg = do {
     let (v, endptr) = strtol 0 arg;
     _ \<leftarrow> set_cfg (cfg_tos_update (\<lambda>_. v));
     if endptr = arg \<or> v < 0 \<or> v > 255 then bad IEBADTOS else for_client }"

definition opt_dscp :: "string \<Rightarrow> handler" where
  "opt_dscp arg = do {
     let v = parse_qos (Some arg);
     _ \<leftarrow> set_cfg (cfg_tos_update (\<lambda>_. v));
     if v < 0 then bad IEBADTOS else for_client }"

definition opt_timestamps :: "string option \<Rightarrow> handler" where
  "opt_timestamps a = do {
     _ \<leftarrow> set_t (\<lambda>t. iperf_set_test_timestamp_format (iperf_set_test_timestamps t 1)
            (case a of Some arg \<Rightarrow> arg | None \<Rightarrow> TIMESTAMP_FORMAT));
     State_Monad.return Next }"

definition opt_omit :: "string \<Rightarrow> handler" where
  "opt_omit arg = do {
     _ \<leftarrow> set_t (test_omit_update (\<lambda>_. atoi arg));
     if atoi arg < 0 \<or> atoi arg > MAX_OMIT_TIME then bad IEOMIT else for_client }"

definition opt_idle_timeout :: "string \<Rightarrow> handler" where
  "opt_idle_timeout arg = do {
     _ \<leftarrow> set_cfg (cfg_idle_timeout_update (\<lambda>_. atoi arg));
     if atoi arg < 1 \<or> atoi arg > MAX_TIME then bad IEIDLETIMEOUT else for_server }"

definition opt_server_max_duration :: "string \<Rightarrow> handler" where
  "opt_server_max_duration arg = do {
     _ \<leftarrow> set_t (test_max_server_duration_update (\<lambda>_. atoi arg));
     if atoi arg < 0 \<or> atoi arg > MAX_TIME then bad IEDURATION else for_server }"

definition opt_rcv_timeout :: "string \<Rightarrow> handler" where
  "opt_rcv_timeout arg = (let v = atoi arg
     in if v < MIN_NO_MSG_RCVD_TIMEOUT \<or> v > MAX_TIME * 1000 then bad IERCVTIMEOUT
        else do {
          _ \<leftarrow> set_cfg (cfg_rcv_timeout_update (\<lambda>_. \<lparr>secs = word_of_int (v div 1000), usecs = word_of_int (v mod 1000 * 1000)\<rparr>));
          _ \<leftarrow> update_state (rcv_timeout_flag_update (\<lambda>_. True));
          State_Monad.return Next })"

text \<open>The argument of \<open>--cntl-ka\<close> is \<open>keepidle/interval/count\<close>; an empty part leaves its value.\<close>

definition given :: "string \<Rightarrow> (int \<Rightarrow> iperf_settings \<Rightarrow> iperf_settings) \<Rightarrow> iperf_settings \<Rightarrow> iperf_settings" where
  "given s f cfg = (if s = [] then cfg else f (atoi s) cfg)"

definition keepalive_values :: "string option \<Rightarrow> iperf_settings \<Rightarrow> iperf_settings" where
  "keepalive_values a cfg =
     (case a of
        None \<Rightarrow> cfg
      | Some arg \<Rightarrow>
          let (idle, slash) = split_slash arg;
              cfg = (case slash of
                  None \<Rightarrow> cfg
                | Some s \<Rightarrow>
                    let (interval, slash2) = split_slash s;
                        cfg = (case slash2 of None \<Rightarrow> cfg | Some count \<Rightarrow> given count (\<lambda>v. cfg_cntl_ka_count_update (\<lambda>_. v)) cfg)
                    in given interval (\<lambda>v. cfg_cntl_ka_interval_update (\<lambda>_. v)) cfg)
          in given idle (\<lambda>v. cfg_cntl_ka_keepidle_update (\<lambda>_. v)) cfg)"

definition opt_cntl_ka :: "string option \<Rightarrow> handler" where
  "opt_cntl_ka a = do {
     _ \<leftarrow> set_cfg (\<lambda>cfg. keepalive_values a (cfg\<lparr>cfg_cntl_ka := 1\<rparr>));
     cfg \<leftarrow> reads (\<lambda>s. test_settings (the_test s));
     if cfg_cntl_ka_keepidle cfg \<noteq> 0 \<and> cfg_cntl_ka_keepidle cfg \<le> to_int (cfg_cntl_ka_count cfg * cfg_cntl_ka_interval cfg)
     then bad IECNTLKA else State_Monad.return Next }"

definition opt_affinity :: "string \<Rightarrow> handler" where
  "opt_affinity arg = do {
     let (v, endptr) = strtol 0 arg;
     _ \<leftarrow> set_t (test_affinity_update (\<lambda>_. v));
     if endptr = arg \<or> v < 0 \<or> v > 1024 then bad IEAFFINITY
     else case strchr arg CHR '','' of
       None \<Rightarrow> State_Monad.return Next
     | Some comma \<Rightarrow> do {
         _ \<leftarrow> set_t (test_server_affinity_update (\<lambda>_. atoi (tl comma)));
         if atoi (tl comma) < 0 \<or> atoi (tl comma) > 1024 then bad IEAFFINITY else for_client } }"

definition opt_debug :: "string option \<Rightarrow> handler" where
  "opt_debug a = do {
     _ \<leftarrow> set_t (\<lambda>t. t\<lparr>test_debug := 1,
            test_debug_level := (case a of None \<Rightarrow> DEBUG_LEVEL_MAX | Some arg \<Rightarrow> if atoi arg < 0 then DEBUG_LEVEL_MAX else atoi arg)\<rparr>);
     State_Monad.return Next }"

definition opt_gsro :: handler where
  "opt_gsro = do {
     _ \<leftarrow> update_state (gsro_flag_update (\<lambda>_. True));
     _ \<leftarrow> set_cfg (\<lambda>cfg. cfg\<lparr>cfg_gso := 1, cfg_gro := 1\<rparr>);
     State_Monad.return Next }"

text \<open>The cases that only store a value, with the side they belong to.\<close>

definition stores :: "(iperf_test \<Rightarrow> iperf_test) \<Rightarrow> handler \<Rightarrow> handler" where
  "stores f k = do { _ \<leftarrow> set_t f; k }"

abbreviation goes_on :: handler where "goes_on \<equiv> State_Monad.return Next"

text \<open>The switch. The options of other builds end in an error, those without a case in the help.\<close>

definition parse_option :: "(string \<Rightarrow> bool) \<Rightarrow> int \<Rightarrow> string option \<Rightarrow> handler" where
  "parse_option link_local flag a =
     (if flag = letter CHR ''p'' then needs a opt_port
      else if flag = letter CHR ''f'' then opt_format a
      else if flag = letter CHR ''i'' then needs a opt_interval
      else if flag = letter CHR ''D'' then bad IEUNIMP
      else if flag = letter CHR ''1'' then opt_one_off
      else if flag = letter CHR ''V'' then stores (test_verbose_update (\<lambda>_. 1)) goes_on
      else if flag = letter CHR ''J'' then stores (test_json_output_update (\<lambda>_. 1)) goes_on
      else if flag = OPT_JSON_STREAM then opt_json_stream
      else if flag = OPT_JSON_STREAM_FULL_OUTPUT then stores (test_json_stream_full_output_update (\<lambda>_. 1)) goes_on
      else if flag = letter CHR ''v'' then State_Monad.return (Parse_exits 0)
      else if flag = letter CHR ''s'' then opt_server
      else if flag = letter CHR ''c'' then needs a (opt_client link_local)
      else if flag = letter CHR ''u'' then opt_udp
      else if flag = OPT_SCTP then bad IEUNIMP
      else if flag = OPT_NUMSTREAMS then bad IEUNIMP
      else if flag = letter CHR ''b'' then needs a opt_bitrate
      else if flag = OPT_SERVER_BITRATE_LIMIT then needs a opt_server_bitrate_limit
      else if flag = letter CHR ''t'' then needs a opt_time
      else if flag = letter CHR ''n'' then needs a opt_bytes
      else if flag = letter CHR ''k'' then needs a opt_blockcount
      else if flag = letter CHR ''l'' then needs a opt_length
      else if flag = letter CHR ''P'' then needs a opt_parallel
      else if flag = letter CHR ''R'' then opt_reverse
      else if flag = OPT_BIDIRECTIONAL then opt_bidirectional
      else if flag = letter CHR ''w'' then needs a opt_window
      else if flag = letter CHR ''B'' then needs a (opt_bind link_local)
      else if flag = OPT_CLIENT_PORT then needs a opt_client_port
      else if flag = letter CHR ''M'' then needs a opt_set_mss
      else if flag = letter CHR ''N'' then stores (test_no_delay_update (\<lambda>_. 1)) for_client
      else if flag = letter CHR ''4'' then stores (test_settings_update (cfg_domain_update (\<lambda>_. AF_INET))) goes_on
      else if flag = letter CHR ''6'' then stores (test_settings_update (cfg_domain_update (\<lambda>_. AF_INET6))) goes_on
      else if flag = letter CHR ''S'' then needs a opt_tos
      else if flag = OPT_DSCP then needs a opt_dscp
      else if flag = OPT_EXTRA_DATA then needs a (\<lambda>arg. stores (test_extra_data_update (\<lambda>_. Some arg)) for_client)
      else if flag = letter CHR ''L'' then bad IEUNIMP
      else if flag = letter CHR ''X'' then needs a (\<lambda>arg. stores (test_xbind_addrs_update (\<lambda>l. l @ [arg])) goes_on)
      else if flag = letter CHR ''Z'' then bad IEUNIMP
      else if flag = OPT_REPEATING_PAYLOAD then stores (test_repeating_payload_update (\<lambda>_. 1)) for_client
      else if flag = OPT_TIMESTAMPS then opt_timestamps a
      else if flag = letter CHR ''O'' then needs a opt_omit
      else if flag = letter CHR ''F'' then stores (test_diskfile_name_update (\<lambda>_. a)) goes_on
      else if flag = OPT_IDLE_TIMEOUT then needs a opt_idle_timeout
      else if flag = OPT_SERVER_MAX_DURATION then needs a opt_server_max_duration
      else if flag = OPT_RCV_TIMEOUT then needs a opt_rcv_timeout
      else if flag = OPT_CNTL_KA then opt_cntl_ka a
      else if flag = letter CHR ''A'' then needs a opt_affinity
      else if flag = letter CHR ''T'' then needs a (\<lambda>arg. stores (test_title_update (\<lambda>_. Some arg)) for_client)
      else if flag = letter CHR ''C'' then bad IEUNIMP
      else if flag = letter CHR ''d'' then opt_debug a
      else if flag = letter CHR ''I'' then needs a (\<lambda>arg. stores (test_pidfile_update (\<lambda>_. Some arg)) goes_on)
      else if flag = OPT_LOGFILE then needs a (\<lambda>arg. stores (test_logfile_update (\<lambda>_. Some arg)) goes_on)
      else if flag = OPT_FORCEFLUSH then stores (test_forceflush_update (\<lambda>_. 1)) goes_on
      else if flag = OPT_GET_SERVER_OUTPUT then stores (test_get_server_output_update (\<lambda>_. 1)) for_client
      else if flag = OPT_UDP_COUNTERS_64BIT then stores (test_udp_counters_64bit_update (\<lambda>_. 1)) for_client
      else if flag = OPT_NO_FQ_SOCKET_PACING then bad IEUNIMP
      else if flag = OPT_FQ_RATE then bad IEUNIMP
      else if flag = OPT_DONT_FRAGMENT then stores (test_settings_update (cfg_dont_fragment_update (\<lambda>_. 1))) for_client
      else if flag = OPT_PACING_TIMER then needs a opt_pacing_timer
      else if flag = OPT_CONNECT_TIMEOUT then needs a opt_connect_timeout
      else if flag = OPT_GSRO then opt_gsro
      else if flag = letter CHR ''h'' then State_Monad.return (Parse_exits 0)
      else State_Monad.return (Parse_exits 1))"

text \<open>The loop over the options. \<open>None\<close> would be an endless run.\<close>

definition scan :: "string list \<Rightarrow> (cmdline, int) state" where
  "scan argv = State (\<lambda>s.
     let ((flag, _), g) = run_state (getopt_long argv optstring longopts) (scanner s) in (flag, s\<lparr>scanner := g\<rparr>))"

partial_function (option) option_loop :: "(string \<Rightarrow> bool) \<Rightarrow> string list \<Rightarrow> cmdline \<Rightarrow> (parse_result \<times> cmdline) option" where
  "option_loop link_local argv s =
     (let (flag, s) = run_state (scan argv) s
      in if flag = - 1 then Some (Next, s)
         else let (r, s) = run_state (parse_option link_local flag (optarg (scanner s))) s
              in if r = Next then option_loop link_local argv s else Some (r, s))"

declare option_loop.simps [code]

section \<open>The checks after the loop\<close>

definition then_go :: "handler \<Rightarrow> handler \<Rightarrow> handler" where
  "then_go m k = do { r \<leftarrow> m; if r = Next then k else State_Monad.return r }"

definition check_roles :: handler where
  "check_roles = do {
     s \<leftarrow> reads id;
     let role = test_role (the_test s);
     if role = Some CHR ''c'' \<and> server_flag s then bad IESERVERONLY
     else if role = Some CHR ''s'' \<and> client_flag s then bad IECLIENTONLY
     else if role = Some CHR ''s'' \<and> gsro_flag s then bad IECLIENTONLY
     else State_Monad.return Next }"

definition check_file :: handler where
  "check_file = do {
     test \<leftarrow> reads the_test;
     if test_diskfile_name test \<noteq> None \<and> protocol_is Pudp test then bad IEUDPFILETRANSFER else State_Monad.return Next }"

definition choose_blksize :: handler where
  "choose_blksize = do {
     test \<leftarrow> reads the_test;
     asked \<leftarrow> reads cl_blksize;
     let blksize = (if asked \<noteq> 0 then asked else if protocol_is Pudp test then 0
                    else if protocol_is Psctp test then DEFAULT_SCTP_BLKSIZE else DEFAULT_TCP_BLKSIZE);
     _ \<leftarrow> update_state (cl_blksize_update (\<lambda>_. blksize));
     if (\<not> protocol_is Pudp test \<and> blksize \<le> 0) \<or> blksize > MAX_BLOCKSIZE then bad IEBLOCKSIZE
     else if protocol_is Pudp test \<and> blksize > 0 \<and> (blksize < MIN_UDP_BLOCKSIZE \<or> blksize > MAX_UDP_BLOCKSIZE)
     then bad IEUDPBLOCKSIZE else State_Monad.return Next }"

definition gso_sizes :: "int \<Rightarrow> iperf_settings \<Rightarrow> iperf_settings" where
  "gso_sizes blksize cfg =
     (if blksize > 0 then cfg\<lparr>cfg_gso_dg_size := blksize, cfg_gso_bf_size := cfg_gso_bf_size cfg div blksize * blksize\<rparr>
      else cfg\<lparr>cfg_gso_dg_size := DEFAULT_UDP_BLKSIZE\<rparr>)"

definition set_sizes :: handler where
  "set_sizes = do {
     test \<leftarrow> reads the_test;
     blksize \<leftarrow> reads cl_blksize;
     rate \<leftarrow> reads rate_flag;
     _ \<leftarrow> (if protocol_is Pudp test \<and> cfg_gso (test_settings test) \<noteq> 0 then set_cfg (gso_sizes blksize) else State_Monad.return ());
     _ \<leftarrow> set_cfg (cfg_blksize_update (\<lambda>_. blksize));
     _ \<leftarrow> (if rate then State_Monad.return () else set_cfg (cfg_rate_update (\<lambda>_. if protocol_is Pudp test then UDP_RATE else 0)));
     State_Monad.return Next }"

definition file_end :: handler where
  "file_end = do {
     test \<leftarrow> reads the_test;
     duration \<leftarrow> reads duration_flag;
     case test_diskfile_name test of
       Some f \<Rightarrow>
         if cfg_bytes (test_settings test) = 0 \<and> cfg_blocks (test_settings test) = 0 \<and> \<not> duration \<and> test_role test = Some CHR ''c''
         then do {
           a \<leftarrow> call (Stat f);
           _ \<leftarrow> (if ret a = 0 then set_cfg (cfg_bytes_update (\<lambda>_. word_of_int (val a))) else State_Monad.return ());
           State_Monad.return Next }
         else State_Monad.return Next
     | None \<Rightarrow> State_Monad.return Next }"

definition end_conditions :: handler where
  "end_conditions = do {
     cfg \<leftarrow> reads (\<lambda>s. test_settings (the_test s));
     duration \<leftarrow> reads duration_flag;
     _ \<leftarrow> (if (cfg_bytes cfg \<noteq> 0 \<or> cfg_blocks cfg \<noteq> 0) \<and> \<not> duration then set_t (test_duration_update (\<lambda>_. 0))
          else State_Monad.return ());
     if (duration \<and> cfg_bytes cfg \<noteq> 0) \<or> (duration \<and> cfg_blocks cfg \<noteq> 0) \<or> (cfg_bytes cfg \<noteq> 0 \<and> cfg_blocks cfg \<noteq> 0)
     then bad IEENDCONDITIONS
     else do { _ \<leftarrow> update_state (scanner_update (optind_update (\<lambda>_. 0))); State_Monad.return Next } }"

text \<open>\<open>round\<close> of a positive number.\<close>

definition limit_intervals :: "iperf_test \<Rightarrow> int" where
  "limit_intervals t =
     (let limit = cfg_bitrate_limit_interval (test_settings t); stats = test_stats_interval t
      in if limit \<le> stats \<or> stats = 0 then 1 else \<lfloor>fl64 (limit / stats) + 1 / 2\<rfloor>)"

definition finish_arguments :: handler where
  "finish_arguments = do {
     test \<leftarrow> reads the_test;
     if test_role test \<noteq> Some CHR ''c'' \<and> test_role test \<noteq> Some CHR ''s'' then bad IENOROLE
     else do {
       _ \<leftarrow> (if cfg_bitrate_limit_interval (test_settings test) \<noteq> 0
            then set_cfg (cfg_bitrate_limit_stats_per_interval_update (\<lambda>_. limit_intervals test)) else State_Monad.return ());
       State_Monad.return (Parse_returns 0) } }"

definition check_arguments :: handler where
  "check_arguments =
     then_go check_roles (then_go check_file (then_go choose_blksize (then_go set_sizes (then_go file_end
       (then_go end_conditions finish_arguments)))))"

definition start_parse :: "getopt_state \<Rightarrow> iperf \<Rightarrow> cmdline" where
  "start_parse g w = iperf.extend w (cmdline.fields g 0 False False False False False False)"

definition iperf_parse_arguments :: "(string \<Rightarrow> bool) \<Rightarrow> string list \<Rightarrow> cmdline \<Rightarrow> (parse_result \<times> cmdline) option" where
  "iperf_parse_arguments link_local argv s =
     (case option_loop link_local argv s of
        None \<Rightarrow> None
      | Some (Next, s) \<Rightarrow> Some (run_state check_arguments s)
      | Some (r, s) \<Rightarrow> Some (r, s))"

end
