(* ===== verification/Cmdline_Scan.thy ===== *)
theory Cmdline_Scan
  imports Cmdline
begin

text \<open>
  What a call of the option scanner gives on the table of the program: an option whose case reads its
  argument has one, and every option that is found leaves less to scan.
\<close>

section \<open>The scanner\<close>

text \<open>The flags whose cases read their argument.\<close>

definition needy :: "int set" where
  "needy = letter ` set ''picbtnklPwBMSXOATI''
     \<union> {OPT_SERVER_BITRATE_LIMIT, OPT_CLIENT_PORT, OPT_DSCP, OPT_EXTRA_DATA, OPT_IDLE_TIMEOUT, OPT_SERVER_MAX_DURATION,
        OPT_RCV_TIMEOUT, OPT_LOGFILE, OPT_PACING_TIMER, OPT_CONNECT_TIMEOUT}"

text \<open>The characters that are left to scan.\<close>

definition weight :: "string list \<Rightarrow> nat" where
  "weight ws = sum_list (map (\<lambda>w. length w + 1) ws)"

definition pending :: "string list \<Rightarrow> getopt_state \<Rightarrow> nat" where
  "pending argv g =
     (case next_short g of
        Some (c # r) \<Rightarrow> Suc (length r) + weight (drop (Suc (optind g)) argv)
      | _ \<Rightarrow> weight (drop (optind g) argv))"

lemma weight_nth: "i < length ws \<Longrightarrow> weight (drop i ws) = length (ws ! i) + 1 + weight (drop (Suc i) ws)"
  by (simp add: weight_def Cons_nth_drop_Suc [symmetric])

lemma weight_Suc: "weight (drop (Suc i) ws) \<le> weight (drop i ws)"
  by (cases "i < length ws") (simp_all add: weight_nth)

lemma weight_drop: "i \<le> j \<Longrightarrow> weight (drop j ws) \<le> weight (drop i ws)"
  by (rule lift_Suc_antimono_le [of "\<lambda>i. weight (drop i ws)"]) (rule weight_Suc)

text \<open>What a call of the scanner that finds an option gives.\<close>

definition found :: "string list \<Rightarrow> nat \<Rightarrow> int \<Rightarrow> getopt_state \<Rightarrow> bool" where
  "found argv n flag g \<longleftrightarrow> (flag = - 1 \<or> flag = QUESTION \<or> pending argv g < n) \<and> (flag \<in> needy \<longrightarrow> optarg g \<noteq> None)"

lemma needy_simps: "QUESTION \<notin> needy" "- 1 \<notin> needy"
  by (simp_all add: needy_def letter_def char_code_def)

lemma needy_letters: "\<forall>c\<in>set optstring. letter c \<in> needy \<longrightarrow> opt_requires_arg optstring c = (True, False)"
  by code_simp

lemma needy_longopts: "\<forall>l\<in>set longopts. (lo_val l \<in> needy \<longrightarrow> lo_has_arg l = Required_argument) \<and> lo_flag l = None"
  by code_simp

lemma strchr_set: "c \<notin> set s \<Longrightarrow> strchr s c = None"
  by (induction s) (auto simp: strchr_def)

lemma find_long_in: "find_long ls name i = Some (j, l) \<Longrightarrow> l \<in> set ls"
  by (induction ls arbitrary: i) (auto split: if_splits)

lemmas scanner_defs = set_next_def set_optarg_def set_optopt_def advance_def

lemma found_short:
  assumes "run_state (short_option argv optstring opt rest) g = (flag, g')"
    and "n = Suc (length rest) + weight (drop (Suc (optind g)) argv)"
  shows "found argv n flag g'"
proof -
  obtain needs_arg optional_arg where r: "opt_requires_arg optstring opt = (needs_arg, optional_arg)" by fastforce
  have c: "int (char_code opt) = letter opt" by (simp add: letter_def)
  note run = assms(1) [unfolded short_option_def r c scanner_defs Let_def]
  show ?thesis
  proof (cases "strchr optstring opt = None")
    case True
    then show ?thesis
      using run by (simp add: found_def needy_simps split: if_splits)
  next
    case False
    then have "letter opt \<in> needy \<Longrightarrow> needs_arg \<and> \<not> optional_arg"
      using needy_letters strchr_set r by fastforce
    moreover have "weight (drop (Suc (Suc (optind g))) argv) \<le> weight (drop (Suc (optind g)) argv)"
      by (rule weight_Suc)
    ultimately show ?thesis
      using run False assms(2) by (cases rest) (auto simp: found_def pending_def needy_simps split: if_splits)
  qed
qed

lemma long_arg_kept:
  assumes "run_state (long_arg argv l value) g = (ok, g')"
  shows "next_short g' = next_short g" and "optind g \<le> optind g'"
    and "ok \<Longrightarrow> lo_has_arg l = Required_argument \<Longrightarrow> optarg g' \<noteq> None"
  using assms by (auto simp: long_arg_def scanner_defs split: has_arg.splits option.splits if_splits)

lemma found_long:
  assumes "run_state (handle_long argv arg longopts) g = ((flag, i), g')" and "next_short g = None \<or> next_short g = Some []"
    and "weight (drop (Suc (optind g)) argv) < n"
  shows "found argv n flag g'"
proof -
  obtain name rest where w: "split_while (\<lambda>c. c \<noteq> CHR ''='') (drop 2 arg) = (name, rest)" by fastforce
  define v where "v = (case rest of [] \<Rightarrow> None | _ # v \<Rightarrow> Some v)"
  note run = assms(1) [unfolded handle_long_def w Let_def prod.case, folded v_def]
  show ?thesis
  proof (cases "find_long longopts name 0")
    case None
    then show ?thesis
      using run by (simp add: found_def needy_simps scanner_defs)
  next
    case (Some p)
    then obtain j l where l: "find_long longopts name 0 = Some (j, l)" by (cases p) simp
    then have table: "lo_val l \<in> needy \<Longrightarrow> lo_has_arg l = Required_argument" "lo_flag l = None"
      using needy_longopts find_long_in by blast+
    obtain ok g1 where r: "run_state (long_arg argv l v) g = (ok, g1)" by fastforce
    note kept = long_arg_kept [OF r]
    show ?thesis
    proof (cases ok)
      case True
      then have g': "flag = lo_val l" "g' = optind_update Suc g1"
        using run l r table(2) by (simp_all add: scanner_defs)
      have "weight (drop (Suc (optind g1)) argv) \<le> weight (drop (Suc (optind g)) argv)"
        using kept(2) by (intro weight_drop) simp
      then show ?thesis
        using True g' kept table(1) assms(2,3) by (auto simp: found_def pending_def)
    next
      case False
      then show ?thesis
        using run l r by (simp add: found_def needy_simps)
    qed
  qed
qed

lemma found_mono: "found argv m flag g \<Longrightarrow> m \<le> n \<Longrightarrow> found argv n flag g"
  by (auto simp: found_def)

lemma found_getopt_long:
  assumes "run_state (getopt_long argv optstring longopts) g = ((flag, i), g')"
  shows "found argv (pending argv g) flag g'"
proof -
  define reset :: "getopt_state \<Rightarrow> getopt_state" where "reset = (\<lambda>s. if optind s = 0 then s\<lparr>optind := 1, next_short := None\<rparr> else s)"
  define g1 where "g1 = reset (g\<lparr>optarg := None\<rparr>)"
  have less: "pending argv g1 \<le> pending argv g"
    using weight_drop [of 0 1 argv] by (cases "optind g = 0") (auto simp: g1_def reset_def pending_def split: option.splits list.splits)
  note run = assms [unfolded getopt_long_def set_optarg_def, folded reset_def, simplified, folded g1_def]
  have "found argv (pending argv g1) flag g'"
  proof (cases "\<exists>c r. next_short g1 = Some (c # r)")
    case True
    then obtain c r where n: "next_short g1 = Some (c # r)" by blast
    then have "run_state (short_option argv optstring c r) g1 = (flag, g')"
      using run by (simp split: prod.splits)
    then show ?thesis
      by (rule found_short) (simp add: pending_def n)
  next
    case False
    then have n: "next_short g1 = None \<or> next_short g1 = Some []"
      by (metis list.exhaust option.exhaust)
    then have p: "pending argv g1 = weight (drop (optind g1) argv)"
      by (auto simp: pending_def)
    show ?thesis
    proof (cases "optind g1 < length argv \<and> (\<exists>opt rest. argv ! optind g1 = CHR ''-'' # opt # rest \<and> (opt \<noteq> CHR ''-'' \<or> rest \<noteq> []))")
      case True
      then obtain opt rest where w: "optind g1 < length argv" "argv ! optind g1 = CHR ''-'' # opt # rest" "opt \<noteq> CHR ''-'' \<or> rest \<noteq> []" by blast
      then have k: "pending argv g1 = Suc (Suc (Suc (length rest))) + weight (drop (Suc (optind g1)) argv)"
        using p by (simp add: weight_nth)
      show ?thesis
      proof (cases "opt = CHR ''-''")
        case True
        then have "run_state (handle_long argv (argv ! optind g1) longopts) g1 = ((flag, i), g')"
          using run n w by (auto split: option.splits)
        then show ?thesis
          using n by (rule found_long) (simp add: k)
      next
        case False
        then have "run_state (short_option argv optstring opt rest) g1 = (flag, g')"
          using run n w by (auto split: option.splits prod.splits)
        then have "found argv (Suc (length rest) + weight (drop (Suc (optind g1)) argv)) flag g'"
          by (rule found_short) simp
        then show ?thesis
          by (rule found_mono) (simp add: k)
      qed
    next
      case False
      then have "flag = - 1"
        using run n by (auto simp: advance_def split: if_splits list.splits option.splits)
      then show ?thesis
        by (simp add: found_def needy_simps)
    qed
  qed
  then show ?thesis
    using less by (rule found_mono)
qed

end
