(* ===== verification/Wp.thy ===== *)
theory Wp
  imports Prelude
begin

text \<open>
  Weakest preconditions of programs in the state monad: \<open>wp m Q s\<close> says that running \<open>m\<close> in \<open>s\<close> gives a
  result and a state for which \<open>Q\<close> holds. The equations compute it from the text of the program.
\<close>

definition wp :: "('s, 'a) state \<Rightarrow> ('a \<Rightarrow> 's \<Rightarrow> bool) \<Rightarrow> 's \<Rightarrow> bool" where
  "wp m Q s = (case run_state m s of (r, s') \<Rightarrow> Q r s')"

lemma wpD: "wp m Q s \<Longrightarrow> run_state m s = (r, s') \<Longrightarrow> Q r s'"
  by (simp add: wp_def)

lemma wp_simps [simp]:
  "wp (State_Monad.return x) P1 = P1 x" "wp (State_Monad.bind m f) P2 = wp m (\<lambda>r. wp (f r) P2)"
  "wp (update_state h) P3 = (\<lambda>s. P3 () (h s))" "wp (reads g) P4 = (\<lambda>s. P4 (g s) s)"
  by (auto simp: wp_def split: prod.splits)

lemma wp_if: "wp (if b then m else n) Q s \<longleftrightarrow> (b \<longrightarrow> wp m Q s) \<and> (\<not> b \<longrightarrow> wp n Q s)"
  by simp

lemma wp_mono: "wp m P s \<Longrightarrow> (\<And>r s'. P r s' \<Longrightarrow> Q r s') \<Longrightarrow> wp m Q s"
  by (auto simp: wp_def split: prod.splits)

end
