(* ===== verification/Cmdline_Correct.thy ===== *)
theory Cmdline_Correct
  imports Cmdline_Scan Wp
begin

text \<open>
  The command line: the loop over the options ends, no option is handled without the argument it needs,
  and an accepted line leaves the test with a role and with settings in the documented ranges.
\<close>

section \<open>What the options keep\<close>

definition ranged :: "'a::linorder \<Rightarrow> 'a \<Rightarrow> 'a \<Rightarrow> bool" where
  "ranged a b x \<longleftrightarrow> a \<le> x \<and> x \<le> b"

definition direction :: "char option \<Rightarrow> int \<Rightarrow> int \<Rightarrow> int \<Rightarrow> bool" where
  "direction role mode reverse bidirectional \<longleftrightarrow> role \<in> {None, Some CHR ''c'', Some CHR ''s''} \<and> (reverse = 0 \<or> bidirectional = 0)
     \<and> (\<forall>r. role = Some r \<longrightarrow> mode = asked_mode r reverse bidirectional)"

definition interval_ok :: "double \<Rightarrow> bool" where
  "interval_ok x \<longleftrightarrow> x = 0 \<or> ranged MIN_INTERVAL (of_nat MAX_INTERVAL) x"

definition fits_test :: "iperf_test \<Rightarrow> bool" where
  "fits_test t \<longleftrightarrow>
     ranged 1 65535 (test_server_port t) \<and> ranged 0 65535 (test_bind_port t) \<and> ranged 0 MAX_TIME (test_duration t)
     \<and> ranged 0 MAX_OMIT_TIME (test_omit t) \<and> ranged 0 MAX_TIME (test_max_server_duration t)
     \<and> ranged LONG_MIN MAX_STREAMS (test_num_streams t) \<and> ranged (- 1) 1024 (test_affinity t) \<and> ranged (- 1) 1024 (test_server_affinity t)
     \<and> interval_ok (test_stats_interval t) \<and> test_reporter_interval t = test_stats_interval t
     \<and> direction (test_role t) (test_mode t) (test_reverse t) (test_bidirectional t)
     \<and> test_protocols t = [tcp, udp] \<and> test_protocol t \<in> {Some tcp, Some udp}"

definition fits_cfg :: "iperf_settings \<Rightarrow> bool" where
  "fits_cfg cfg \<longleftrightarrow>
     ranged 0 255 (cfg_tos cfg) \<and> ranged LONG_MIN MAX_MSS (cfg_mss cfg) \<and> ranged 0 MAX_BURST (cfg_burst cfg)
     \<and> ranged LONG_MIN MAX_TCP_BUFFER (cfg_socket_bufsize cfg) \<and> ranged 0 MAX_TIME (cfg_idle_timeout cfg)
     \<and> interval_ok (cfg_bitrate_limit_interval cfg)"

text \<open>Without an option of the client, its settings are the defaults; the same for the server.\<close>

definition fits_side :: "cmdline \<Rightarrow> bool" where
  "fits_side s \<longleftrightarrow> (let t = the_test s; cfg = test_settings t in
     (\<not> client_flag s \<longrightarrow> test_duration t = DURATION \<and> test_omit t = OMIT \<and> test_reverse t = 0 \<and> test_bidirectional t = 0
        \<and> test_protocol t = Some tcp \<and> test_num_streams t = 1 \<and> cfg_bytes cfg = 0 \<and> cfg_blocks cfg = 0 \<and> cfg_tos cfg = 0
        \<and> cl_blksize s = 0 \<and> \<not> rate_flag s \<and> \<not> duration_flag s)
     \<and> (\<not> server_flag s \<longrightarrow> test_one_off t = 0 \<and> cfg_bitrate_limit cfg = 0 \<and> cfg_idle_timeout cfg = 0 \<and> test_max_server_duration t = 0))"

definition fits :: "cmdline \<Rightarrow> bool" where
  "fits s \<longleftrightarrow> fits_test (the_test s) \<and> fits_cfg (test_settings (the_test s)) \<and> fits_side s"

lemmas fits_defs = fits_def fits_test_def fits_cfg_def fits_side_def

text \<open>What holds of every case: it leaves the scanner alone, and if the loop goes on, the settings are in range.\<close>

lemma wp_set_i_errno [simp]: "wp (set_i_errno e) Q s = Q () (s\<lparr>i_errno := e\<rparr>)"
  by (simp add: wp_def)

definition settles :: "cmdline \<Rightarrow> parse_result \<Rightarrow> cmdline \<Rightarrow> bool" where
  "settles s r s' \<longleftrightarrow> r \<in> {Next, Parse_returns (- 1), Parse_exits 0, Parse_exits 1} \<and> scanner s' = scanner s \<and> (fits s \<and> r = Next \<longrightarrow> fits s')"

definition sound :: "handler \<Rightarrow> bool" where
  "sound m \<longleftrightarrow> (\<forall>s. wp m (settles s) s)"

lemma soundD: "sound m \<Longrightarrow> run_state m s = (r, s') \<Longrightarrow> settles s r s'"
  unfolding sound_def wp_def by (metis case_prod_conv)

lemma settles_error [simp]: "settles s (Parse_returns (- 1)) s' \<longleftrightarrow> scanner s' = scanner s" "settles s (Parse_exits 0) s" "settles s (Parse_exits 1) s"
  by (simp_all add: settles_def)

lemma settles_next: "settles s Next s' \<longleftrightarrow> scanner s' = scanner s \<and> (fits s \<longrightarrow> fits s')"
  by (simp add: settles_def)

lemmas handler_defs = bad_def set_t_def set_cfg_def for_server_def for_client_def unless_i_errno_def stores_def Let_def

lemma sound_bad: "sound (bad e)"
  by (simp add: sound_def bad_def)

lemmas sound_defs = sound_def handler_defs wp_if settles_next fits_def fits_test_def fits_cfg_def fits_side_def

lemma atoi_min [simp]: "LONG_MIN \<le> atoi s"
  by (simp add: atoi_def strtol_def clamp_long_def LONG_MIN_def LONG_MAX_def Let_def split: prod.splits)

lemma interval_ok_0 [simp]: "interval_ok 0"
  by (simp add: interval_ok_def)

lemma sound_port: "sound (opt_port arg)" "sound (opt_client_port arg)"
  by (simp_all add: sound_defs opt_port_def opt_client_port_def ranged_def [of _ _ "atoi _"])

lemma sound_format: "sound (opt_format a)"
  by (cases a) (simp_all add: sound_defs opt_format_def)

lemma sound_interval: "sound (opt_interval a)"
  by (auto simp: sound_defs opt_interval_def interval_ok_def [of "atof _"] ranged_def [of _ _ "atof _"])

lemma sound_flags: "sound opt_one_off" "sound opt_json_stream" "sound opt_gsro" "sound (opt_debug a)" "sound (opt_timestamps a)"
  "sound (opt_rcv_timeout arg)"
  by (simp_all add: sound_defs opt_one_off_def opt_json_stream_def opt_gsro_def opt_debug_def opt_timestamps_def opt_rcv_timeout_def
      iperf_set_test_timestamps_def iperf_set_test_timestamp_format_def)

lemma sound_times: "sound (opt_time arg)" "sound (opt_omit arg)" "sound (opt_idle_timeout arg)" "sound (opt_server_max_duration arg)"
  by (simp_all add: sound_defs opt_time_def opt_omit_def opt_idle_timeout_def opt_server_max_duration_def ranged_def [of _ _ "atoi _"])

lemma sound_numbers: "sound (opt_parallel arg)" "sound (opt_set_mss arg)"
  by (simp_all add: sound_defs opt_parallel_def opt_set_mss_def ranged_def [of _ _ "atoi _"])

text \<open>The readers of units change the error variables only.\<close>

lemma wp_unit:
  "(\<And>v e x. P v (s\<lparr>i_errno := e, errarg := x\<rparr>)) \<Longrightarrow> wp (unit_atof a) P s"
  "(\<And>v e x. P v (s\<lparr>i_errno := e, errarg := x\<rparr>)) \<Longrightarrow> wp (unit_atof_rate a) P s"
  "(\<And>v e x. P' v (s\<lparr>i_errno := e, errarg := x\<rparr>)) \<Longrightarrow> wp (unit_atoi a) P' s"
proof -
  have s: "s = s\<lparr>i_errno := i_errno s, errarg := errarg s\<rparr>" for s :: "'z globals_scheme" by simp
  show "(\<And>v e x. P v (s\<lparr>i_errno := e, errarg := x\<rparr>)) \<Longrightarrow> wp (unit_atof a) P s"
    "(\<And>v e x. P v (s\<lparr>i_errno := e, errarg := x\<rparr>)) \<Longrightarrow> wp (unit_atof_rate a) P s"
    "(\<And>v e x. P' v (s\<lparr>i_errno := e, errarg := x\<rparr>)) \<Longrightarrow> wp (unit_atoi a) P' s"
    by (auto simp: unit_atof_def unit_atof_rate_def unit_atoi_def unit_error_def split: option.splits)
      (subst s, blast)+
qed

lemma sound_sizes: "sound (opt_bytes arg)" "sound (opt_blockcount arg)" "sound (opt_length arg)" "sound (opt_pacing_timer arg)"
    "sound (opt_connect_timeout arg)"
  unfolding opt_bytes_def opt_blockcount_def opt_length_def opt_pacing_timer_def opt_connect_timeout_def opt_unit_def sound_def wp_simps
  by (intro allI wp_unit; simp add: sound_defs)+

lemma double_to_int_ranged:
  assumes "x \<le> 536870912"
  shows "ranged LONG_MIN 536870912 (double_to_int x)"
proof -
  have "Doubles.truncate x \<le> 536870912"
  proof (cases "x < 0")
    case True
    then have "0 \<le> \<lfloor>- x\<rfloor>" by simp
    then have "- \<lfloor>- x\<rfloor> \<le> 536870912" by linarith
    then show ?thesis using True by (simp only: Doubles.truncate_def if_True)
  next
    case False
    then show ?thesis using assms floor_mono [OF assms] by (simp add: Doubles.truncate_def)
  qed
  then show ?thesis
    by (simp add: ranged_def double_to_int_def LONG_MIN_def Let_def)
qed

lemma sound_window: "sound (opt_window arg)"
  unfolding opt_window_def sound_def wp_simps
  by (intro allI wp_unit) (simp add: sound_defs double_to_int_ranged)

lemma sound_rates: "sound (opt_bitrate arg)" "sound (opt_server_bitrate_limit arg)"
proof -
  obtain rate slash where s: "split_slash arg = (rate, slash)" by fastforce
  show "sound (opt_bitrate arg)"
    unfolding opt_bitrate_def s Let_def prod.case sound_def
    by (cases slash; simp add: handler_defs wp_if; intro allI impI conjI wp_unit)
      (simp_all add: sound_defs ranged_def [of _ _ "atoi _"])
  show "sound (opt_server_bitrate_limit arg)"
    unfolding opt_server_bitrate_limit_def s Let_def prod.case sound_def
    by (cases slash; simp add: handler_defs wp_if; intro allI impI conjI wp_unit)
      (auto simp add: sound_defs ranged_def [of _ _ "atof _"] interval_ok_def [of "atof _"] not_less)
qed

text \<open>The mode follows the options in whatever order they come.\<close>

lemma set_role_fits: "fits_test t \<Longrightarrow> r \<in> {CHR ''c'', CHR ''s''} \<Longrightarrow> fits_test (iperf_set_test_role t r)"
  by (auto simp: fits_test_def iperf_set_test_role_def check_sender_has_retransmits_def direction_def asked_mode_def Let_def)

lemma set_reverse_fits: "fits_test t \<Longrightarrow> test_bidirectional t = 0 \<Longrightarrow> fits_test (iperf_set_test_reverse t 1)"
  by (auto simp: fits_test_def iperf_set_test_reverse_def check_sender_has_retransmits_def direction_def asked_mode_def Let_def)

lemma set_bidirectional_fits: "fits_test t \<Longrightarrow> test_reverse t = 0 \<Longrightarrow> fits_test (iperf_set_test_bidirectional t 1)"
  by (auto simp: fits_test_def iperf_set_test_bidirectional_def direction_def asked_mode_def Let_def)

lemmas setter_defs = iperf_set_test_role_def iperf_set_test_reverse_def iperf_set_test_bidirectional_def iperf_set_test_server_hostname_def
  iperf_set_test_bind_address_def check_sender_has_retransmits_def Let_def

text \<open>The settings of a side that a setter of the direction leaves alone.\<close>

definition side :: "iperf_test \<Rightarrow> (int \<times> int \<times> int \<times> int \<times> int) \<times> protocol option \<times> iperf_settings" where
  "side t = ((test_duration t, test_omit t, test_num_streams t, test_one_off t, test_max_server_duration t), test_protocol t, test_settings t)"

lemma sideD:
  assumes "side t = side t'"
  shows "test_duration t = test_duration t'" "test_omit t = test_omit t'" "test_num_streams t = test_num_streams t'"
    "test_one_off t = test_one_off t'" "test_max_server_duration t = test_max_server_duration t'" "test_protocol t = test_protocol t'"
    "test_settings t = test_settings t'"
  using assms by (simp_all add: side_def)

lemma side_setters [simp]:
  "side (iperf_set_test_role t r) = side t" "side (iperf_set_test_reverse t v) = side t" "side (iperf_set_test_bidirectional t v) = side t"
  "side (iperf_set_test_server_hostname t a) = side t" "side (iperf_set_test_bind_address t a) = side t"
  by (simp_all add: side_def setter_defs)

lemma reverse_setters [simp]:
  "test_reverse (iperf_set_test_role t r) = test_reverse t" "test_bidirectional (iperf_set_test_role t r) = test_bidirectional t"
  "test_reverse (iperf_set_test_server_hostname t a) = test_reverse t" "test_bidirectional (iperf_set_test_server_hostname t a) = test_bidirectional t"
  "test_reverse (iperf_set_test_bind_address t a) = test_reverse t" "test_bidirectional (iperf_set_test_bind_address t a) = test_bidirectional t"
  by (simp_all add: setter_defs)

lemma fits_hostname [simp]: "fits_test (iperf_set_test_server_hostname t a) = fits_test t" "fits_test (iperf_set_test_bind_address t b) = fits_test t"
  by (simp_all add: fits_test_def setter_defs)

lemma fitsD: "fits s \<Longrightarrow> fits_test (the_test s)"
  by (simp add: fits_def)

lemma fits_moved:
  assumes "fits s" and "fits_test (f (the_test s))" and "side (f (the_test s)) = side (the_test s)"
  shows "fits ((the_test_update f s)\<lparr>client_flag := True\<rparr>)"
    and "test_reverse (f (the_test s)) = test_reverse (the_test s) \<Longrightarrow> test_bidirectional (f (the_test s)) = test_bidirectional (the_test s)
      \<Longrightarrow> fits (the_test_update f s)"
  using assms(1,2) sideD [OF assms(3)] by (simp_all add: fits_def fits_side_def Let_def)

lemma sound_role: "sound opt_server" "sound (opt_client ll arg)"
  by (simp_all add: sound_def handler_defs wp_if settles_next opt_server_def opt_client_def fits_moved(2) set_role_fits fitsD)

lemma sound_direction: "sound opt_reverse" "sound opt_bidirectional" "sound (opt_bind ll arg)"
  by (simp_all add: sound_def handler_defs wp_if settles_next opt_reverse_def opt_bidirectional_def opt_bind_def fits_moved
      set_reverse_fits set_bidirectional_fits fitsD)

lemma wp_set_protocol:
  "wp (set_protocol p) Q s \<longleftrightarrow>
     (case find (\<lambda>q. prot_id q = p) (test_protocols (the_test s)) of
        Some q \<Rightarrow> Q 0 (the_test_update (\<lambda>t. check_sender_has_retransmits (t\<lparr>test_protocol := Some q\<rparr>)) s)
      | None \<Rightarrow> Q (- 1) (s\<lparr>i_errno := IEPROTOCOL\<rparr>))"
  by (simp add: set_protocol_def split: option.splits)

lemma udp_fits: "fits s \<Longrightarrow> fits ((the_test_update (\<lambda>t. check_sender_has_retransmits (t\<lparr>test_protocol := Some udp\<rparr>)) s)\<lparr>client_flag := True\<rparr>)"
  by (simp add: sound_defs check_sender_has_retransmits_def)

lemma find_udp: "fits s \<Longrightarrow> find (\<lambda>q. prot_id q = Pudp) (test_protocols (the_test s)) = Some udp"
  by (simp add: fits_def fits_test_def tcp_def udp_def)

lemma sound_udp: "sound opt_udp"
proof -
  have "wp opt_udp (settles s) s" for s
    using udp_fits [of s] find_udp [of s]
    by (cases "fits s") (simp_all add: opt_udp_def wp_set_protocol handler_defs settles_next split: option.splits)
  then show ?thesis by (simp add: sound_def)
qed

lemma parse_qos_max: "parse_qos a \<le> 255"
  by (auto simp: parse_qos_def ipqos_def Let_def split: option.splits prod.splits)

lemma keepalive_frame [simp]:
  "cfg_tos (keepalive_values a cfg) = cfg_tos cfg" "cfg_mss (keepalive_values a cfg) = cfg_mss cfg"
  "cfg_burst (keepalive_values a cfg) = cfg_burst cfg" "cfg_socket_bufsize (keepalive_values a cfg) = cfg_socket_bufsize cfg"
  "cfg_idle_timeout (keepalive_values a cfg) = cfg_idle_timeout cfg" "cfg_bytes (keepalive_values a cfg) = cfg_bytes cfg"
  "cfg_bitrate_limit_interval (keepalive_values a cfg) = cfg_bitrate_limit_interval cfg" "cfg_blocks (keepalive_values a cfg) = cfg_blocks cfg"
  "cfg_bitrate_limit (keepalive_values a cfg) = cfg_bitrate_limit cfg"
  by (simp_all add: keepalive_values_def given_def Let_def split: option.splits prod.splits)

lemma sound_tos: "sound (opt_tos arg)" "sound (opt_dscp arg)"
  by (simp_all add: sound_defs opt_tos_def opt_dscp_def ranged_def [of 0 255 "parse_qos _"] parse_qos_max ranged_def [of 0 255 "fst _"] case_prod_beta)

lemma sound_cntl_ka: "sound (opt_cntl_ka a)"
  by (simp add: sound_defs opt_cntl_ka_def)

lemma sound_affinity: "sound (opt_affinity arg)"
  by (cases "strchr arg CHR '',''") (simp_all add: sound_defs opt_affinity_def case_prod_beta ranged_def [of _ _ "fst _"] ranged_def [of _ _ "atoi _"])

lemma sound_stores:
  "sound (stores (test_verbose_update f) goes_on)" "sound (stores (test_json_output_update f) goes_on)"
  "sound (stores (test_json_stream_full_output_update f) goes_on)" "sound (stores (test_no_delay_update f) for_client)"
  "sound (stores (test_settings_update (cfg_domain_update f)) goes_on)" "sound (stores (test_extra_data_update g) for_client)"
  "sound (stores (test_xbind_addrs_update h) goes_on)" "sound (stores (test_repeating_payload_update f) for_client)"
  "sound (stores (test_diskfile_name_update g) goes_on)" "sound (stores (test_title_update g) for_client)"
  "sound (stores (test_pidfile_update g) goes_on)" "sound (stores (test_logfile_update g) goes_on)"
  "sound (stores (test_forceflush_update f) goes_on)" "sound (stores (test_get_server_output_update f) for_client)"
  "sound (stores (test_udp_counters_64bit_update f) for_client)" "sound (stores (test_settings_update (cfg_dont_fragment_update f)) for_client)"
  by (simp_all add: sound_defs)

lemma sound_exit: "sound (State_Monad.return (Parse_exits 0))" "sound (State_Monad.return (Parse_exits 1))"
  by (simp_all add: sound_def)

lemma sound_if: "(b \<Longrightarrow> sound m) \<Longrightarrow> (\<not> b \<Longrightarrow> sound n) \<Longrightarrow> sound (if b then m else n)"
  by simp

lemma sound_needs: "(\<And>arg. sound (h arg)) \<Longrightarrow> a \<noteq> None \<Longrightarrow> sound (needs a h)"
  by (auto simp: needs_def)

lemmas sound_cases = sound_bad sound_port sound_format sound_interval sound_flags sound_times sound_numbers sound_sizes sound_window
  sound_rates sound_role sound_direction sound_udp sound_tos sound_cntl_ka sound_affinity sound_stores sound_exit

lemma sound_parse_option:
  assumes "flag \<in> needy \<Longrightarrow> a \<noteq> None"
  shows "sound (parse_option ll flag a)"
  unfolding parse_option_def
  by (intro sound_if sound_needs sound_cases assms) (simp_all add: needy_def)

section \<open>The loop\<close>

lemma option_loop_returns:
  assumes "n = pending argv (scanner s)"
  shows "\<exists>r s'. option_loop ll argv s = Some (r, s') \<and> r \<in> {Next, Parse_returns (- 1), Parse_exits 0, Parse_exits 1} \<and> (fits s \<and> r = Next \<longrightarrow> fits s')"
  using assms
proof (induction n arbitrary: s rule: less_induct)
  case (less n)
  obtain flag i g where run: "run_state (getopt_long argv optstring longopts) (scanner s) = ((flag, i), g)" by (metis prod.exhaust)
  define s1 where "s1 = s\<lparr>scanner := g\<rparr>"
  have scan: "run_state (scan argv) s = (flag, s1)"
    using run by (simp add: scan_def s1_def)
  note found = found_getopt_long [OF run]
  have fits: "fits s \<Longrightarrow> fits s1"
    by (simp add: s1_def fits_def fits_side_def Let_def)
  show ?case
  proof (cases "flag = - 1")
    case True
    then show ?thesis
      using fits scan by (simp add: option_loop.simps)
  next
    case False
    obtain r s2 where opt: "run_state (parse_option ll flag (optarg g)) s1 = (r, s2)" by fastforce
    have "sound (parse_option ll flag (optarg g))"
      using found by (intro sound_parse_option) (simp add: found_def)
    then have r: "settles s1 r s2"
      using opt by (rule soundD)
    have step: "option_loop ll argv s = (if r = Next then option_loop ll argv s2 else Some (r, s2))"
      using False scan opt by (subst option_loop.simps) (simp add: s1_def)
    show ?thesis
    proof (cases "r = Next")
      case True
      have "flag \<noteq> QUESTION"
      proof
        assume "flag = QUESTION"
        then have "parse_option ll flag (optarg g) = State_Monad.return (Parse_exits 1)"
          by (simp add: parse_option_def letter_def char_code_def)
        then show False
          using opt True by simp
      qed
      then have "pending argv (scanner s2) < n"
        using found False r less.prems by (simp add: found_def settles_def s1_def)
      then obtain r' s' where "option_loop ll argv s2 = Some (r', s')" "r' \<in> {Next, Parse_returns (- 1), Parse_exits 0, Parse_exits 1}" "fits s2 \<and> r' = Next \<longrightarrow> fits s'"
        using less.IH by blast
      then show ?thesis
        using True r step fits by (auto simp: settles_def)
    next
      case False
      then show ?thesis
        using step r by (simp add: settles_def)
    qed
  qed
qed

section \<open>The whole function\<close>

definition accepted :: "iperf_test \<Rightarrow> bool" where
  "accepted t \<longleftrightarrow> (let cfg = test_settings t in
     test_role t \<in> {Some CHR ''c'', Some CHR ''s''} \<and> fits_test t \<and> fits_cfg cfg
     \<and> (test_protocol t = Some tcp \<longrightarrow> ranged 1 MAX_BLOCKSIZE (cfg_blksize cfg))
     \<and> (test_protocol t = Some udp \<longrightarrow> cfg_blksize cfg \<le> 0 \<or> ranged MIN_UDP_BLOCKSIZE MAX_UDP_BLOCKSIZE (cfg_blksize cfg))
     \<and> (cfg_bytes cfg = 0 \<or> cfg_blocks cfg = 0) \<and> (cfg_bytes cfg \<noteq> 0 \<or> cfg_blocks cfg \<noteq> 0 \<longrightarrow> test_duration t = 0)
     \<and> (test_role t = Some CHR ''s'' \<longrightarrow> test_mode t = RECEIVER \<and> test_protocol t = Some tcp \<and> test_num_streams t = 1 \<and> cfg_tos cfg = 0
        \<and> cfg_blksize cfg = DEFAULT_TCP_BLKSIZE \<and> test_duration t = DURATION)
     \<and> (test_role t = Some CHR ''c'' \<longrightarrow> test_one_off t = 0 \<and> cfg_bitrate_limit cfg = 0 \<and> cfg_idle_timeout cfg = 0
        \<and> test_max_server_duration t = 0))"

lemma wp_then_go: "wp (then_go m k) Q s \<longleftrightarrow> wp m (\<lambda>r. wp (if r = Next then k else State_Monad.return r) Q) s"
  by (simp add: then_go_def)

lemma wp_then_goI:
  assumes "wp m P s" and "\<And>s'. P Next s' \<Longrightarrow> wp k Q s'" and "\<And>r s'. P r s' \<Longrightarrow> r \<noteq> Next \<Longrightarrow> Q r s'"
  shows "wp (then_go m k) Q s"
  unfolding wp_then_go using assms(1) by (rule wp_mono) (use assms(2,3) in \<open>auto split: if_splits\<close>)

lemma wp_call: "(\<And>a. Q a (s\<lparr>trace := (c, a) # trace s\<rparr>)) \<Longrightarrow> wp (call c) Q s"
  by (simp add: wp_def run_call Let_def)

text \<open>What holds after each of the checks: the two sides are kept apart, then the block size is right.\<close>

definition apart :: "cmdline \<Rightarrow> bool" where
  "apart s \<longleftrightarrow> (let t = the_test s; cfg = test_settings t in
     fits_test t \<and> fits_cfg cfg
     \<and> (test_role t = Some CHR ''s'' \<longrightarrow> test_reverse t = 0 \<and> test_bidirectional t = 0 \<and> test_protocol t = Some tcp \<and> test_num_streams t = 1
        \<and> cfg_tos cfg = 0 \<and> cfg_bytes cfg = 0 \<and> cfg_blocks cfg = 0 \<and> test_duration t = DURATION)
     \<and> (test_role t = Some CHR ''c'' \<longrightarrow> test_one_off t = 0 \<and> cfg_bitrate_limit cfg = 0 \<and> cfg_idle_timeout cfg = 0
        \<and> test_max_server_duration t = 0))"

definition block_ok :: "iperf_test \<Rightarrow> int \<Rightarrow> bool" where
  "block_ok t b \<longleftrightarrow> (test_protocol t = Some tcp \<longrightarrow> ranged 1 MAX_BLOCKSIZE b)
     \<and> (test_protocol t = Some udp \<longrightarrow> b \<le> 0 \<or> ranged MIN_UDP_BLOCKSIZE MAX_UDP_BLOCKSIZE b)
     \<and> (test_role t = Some CHR ''s'' \<longrightarrow> b = DEFAULT_TCP_BLKSIZE)"

lemma check_roles_ok:
  "fits s \<Longrightarrow> wp check_roles (\<lambda>r s'. r = Parse_returns (- 1) \<or> r = Next \<and> s' = s \<and> apart s
     \<and> (test_role (the_test s) = Some CHR ''s'' \<longrightarrow> cl_blksize s = 0)) s"
  by (simp add: check_roles_def bad_def Let_def wp_if apart_def fits_def fits_side_def)

lemma check_file_ok: "wp check_file (\<lambda>r s'. r = Parse_returns (- 1) \<or> r = Next \<and> s' = s) s"
  by (simp add: check_file_def bad_def wp_if)

lemma protocol_simps: "test_protocol t = Some tcp \<Longrightarrow> protocol_is p t = (p = Ptcp)" "test_protocol t = Some udp \<Longrightarrow> protocol_is p t = (p = Pudp)"
  by (auto simp: protocol_is_def tcp_def udp_def)

lemma tcp_neq_udp [simp]: "tcp \<noteq> udp" "udp \<noteq> tcp"
  by (simp_all add: tcp_def udp_def)

lemma choose_blksize_ok:
  assumes "apart s" and "test_role (the_test s) = Some CHR ''s'' \<longrightarrow> cl_blksize s = 0"
  shows "wp choose_blksize (\<lambda>r s'. r = Parse_returns (- 1) \<or> r = Next \<and> apart s' \<and> block_ok (the_test s') (cl_blksize s')) s"
proof -
  have "test_protocol (the_test s) = Some tcp \<or> test_protocol (the_test s) = Some udp" 
    using assms(1) by (simp add: apart_def fits_test_def Let_def)
  then show ?thesis
    using assms by (elim disjE) (auto simp: choose_blksize_def bad_def Let_def protocol_simps apart_def block_ok_def ranged_def wp_if)
qed

lemma set_sizes_ok:
  assumes "apart s" and "block_ok (the_test s) (cl_blksize s)"
  shows "wp set_sizes (\<lambda>r s'. r = Next \<and> apart s' \<and> block_ok (the_test s') (cfg_blksize (test_settings (the_test s')))) s"
  using assms by (simp add: set_sizes_def handler_defs wp_if apart_def block_ok_def gso_sizes_def fits_test_def fits_cfg_def)

lemma file_end_ok:
  assumes "apart s" and "block_ok (the_test s) (cfg_blksize (test_settings (the_test s)))"
  shows "wp file_end (\<lambda>r s'. r = Next \<and> apart s' \<and> block_ok (the_test s') (cfg_blksize (test_settings (the_test s')))) s"
  using assms by (simp add: file_end_def handler_defs wp_if split: option.splits)
    (intro impI allI wp_call, simp add: wp_if handler_defs apart_def block_ok_def fits_test_def fits_cfg_def ranged_def [of 0 _ 0])

definition one_end :: "iperf_test \<Rightarrow> bool" where
  "one_end t \<longleftrightarrow> (let cfg = test_settings t in
     (cfg_bytes cfg = 0 \<or> cfg_blocks cfg = 0) \<and> (cfg_bytes cfg \<noteq> 0 \<or> cfg_blocks cfg \<noteq> 0 \<longrightarrow> test_duration t = 0))"

lemma end_conditions_ok:
  assumes "apart s" and "block_ok (the_test s) (cfg_blksize (test_settings (the_test s)))"
  shows "wp end_conditions (\<lambda>r s'. r = Parse_returns (- 1) \<or> r = Next \<and> apart s' \<and> one_end (the_test s')
    \<and> block_ok (the_test s') (cfg_blksize (test_settings (the_test s')))) s"
  using assms by (cases "test_role (the_test s) = Some CHR ''s''") (auto simp: end_conditions_def handler_defs wp_if apart_def block_ok_def fits_test_def fits_cfg_def one_end_def ranged_def [of _ _ 0])

lemma direction_server: "direction (Some CHR ''s'') m 0 0 \<Longrightarrow> m = RECEIVER"
  by (simp add: direction_def asked_mode_def)

lemma finish_arguments_ok:
  assumes "apart s" and "one_end (the_test s)" and "block_ok (the_test s) (cfg_blksize (test_settings (the_test s)))"
  shows "wp finish_arguments (\<lambda>r s'. r = Parse_returns (- 1) \<or> r = Parse_returns 0 \<and> accepted (the_test s')) s"
proof -
  consider (server) "test_role (the_test s) = Some CHR ''s''" | (client) "test_role (the_test s) = Some CHR ''c''"
    | (none) "test_role (the_test s) \<noteq> Some CHR ''c'' \<and> test_role (the_test s) \<noteq> Some CHR ''s''" by blast
  then show ?thesis
  proof cases
    case server
    then have "test_mode (the_test s) = RECEIVER"
      using assms(1) by (intro direction_server) (auto simp: apart_def fits_test_def Let_def)
    then show ?thesis
      using server assms by (clarsimp simp: finish_arguments_def handler_defs wp_if apart_def block_ok_def one_end_def accepted_def fits_test_def fits_cfg_def)
  qed (use assms in \<open>clarsimp simp: finish_arguments_def handler_defs wp_if apart_def block_ok_def one_end_def accepted_def fits_test_def fits_cfg_def\<close>)+
qed

lemma check_arguments_ok:
  assumes "fits s"
  shows "wp check_arguments (\<lambda>r s'. r = Parse_returns (- 1) \<or> r = Parse_returns 0 \<and> accepted (the_test s')) s"
  unfolding check_arguments_def
  apply (rule wp_then_goI [OF check_roles_ok [OF assms]]; clarsimp)
  apply (rule wp_then_goI [OF check_file_ok]; clarsimp)
  apply (rule wp_then_goI [OF choose_blksize_ok]; (assumption | clarsimp))
  apply (rule wp_then_goI [OF set_sizes_ok]; (assumption | clarsimp))
  apply (rule wp_then_goI [OF file_end_ok]; (assumption | clarsimp))
  apply (rule wp_then_goI [OF end_conditions_ok]; (assumption | clarsimp))
  apply (rule finish_arguments_ok; assumption)
  done

lemma MIN_INTERVAL_less: "MIN_INTERVAL \<le> 1" "MIN_INTERVAL \<le> 5"
  using fl64_upper [of "1 / 10"] by (simp_all add: MIN_INTERVAL_def)

lemma fits_defaults:
  assumes "the_test w = iperf_new_test"
  shows "fits (start_parse g (snd (run_state iperf_defaults w)))"
proof -
  have "prot_id tcp = Ptcp" by (simp add: tcp_def)
  then show ?thesis
    using assms MIN_INTERVAL_less
    by (simp add: iperf_defaults_def set_protocol_def start_parse_def cmdline.defs iperf.defs fits_def fits_test_def fits_cfg_def fits_side_def
        default_test_def default_settings_def iperf_new_test_def zero_test_def check_sender_has_retransmits_def zero_settings_def
        ranged_def LONG_MIN_def direction_def interval_ok_def)
qed

definition goes_on_or_fails :: "handler \<Rightarrow> bool" where
  "goes_on_or_fails m \<longleftrightarrow> (\<forall>s. wp m (\<lambda>r _. r = Next \<or> r = Parse_returns (- 1)) s)"

lemma checks_go_on: "goes_on_or_fails check_roles" "goes_on_or_fails check_file" "goes_on_or_fails choose_blksize" "goes_on_or_fails set_sizes" "goes_on_or_fails end_conditions"
  by (simp_all add: goes_on_or_fails_def check_roles_def check_file_def choose_blksize_def set_sizes_def end_conditions_def handler_defs wp_if)

lemma file_end_goes_on: "goes_on_or_fails file_end"
  by (auto simp: goes_on_or_fails_def file_end_def handler_defs wp_if intro!: wp_call split: option.splits)

lemma then_go_returns:
  assumes "goes_on_or_fails m" and "\<And>s. wp k (\<lambda>r _. r \<in> {Parse_returns 0, Parse_returns (- 1)}) s"
  shows "wp (then_go m k) (\<lambda>r _. r \<in> {Parse_returns 0, Parse_returns (- 1)}) s"
  using assms by (intro wp_then_goI [of m "\<lambda>r _. r = Next \<or> r = Parse_returns (- 1)"]) (auto simp: goes_on_or_fails_def)

lemma check_arguments_returns: "fst (run_state check_arguments s) \<in> {Parse_returns 0, Parse_returns (- 1)}"
proof -
  have "wp check_arguments (\<lambda>r _. r \<in> {Parse_returns 0, Parse_returns (- 1)}) s"
    unfolding check_arguments_def
    by (intro then_go_returns checks_go_on file_end_goes_on) (simp add: finish_arguments_def handler_defs wp_if)
  then show ?thesis by (simp add: wp_def split: prod.splits)
qed

text \<open>
  C11: whatever the words of the command line are, the function ends: it returns 0 or -1 or exits, and no option
  is handled without the argument that its case reads.
\<close>

theorem parse_arguments_ends:
  "\<exists>r s'. iperf_parse_arguments link_local argv s = Some (r, s') \<and> r \<in> {Parse_returns 0, Parse_returns (- 1), Parse_exits 0, Parse_exits 1}"
proof -
  obtain r s1 where loop: "option_loop link_local argv s = Some (r, s1)" "r \<in> {Next, Parse_returns (- 1), Parse_exits 0, Parse_exits 1}"
    using option_loop_returns [OF refl] by blast
  then show ?thesis
    using check_arguments_returns [of s1]
    by (cases "run_state check_arguments s1") (auto simp: iperf_parse_arguments_def)
qed


section \<open>Examples\<close>

definition fresh :: iperf where
  "fresh = iperf0 (\<lambda>_ _. answers 0) iperf_new_test \<lparr>cells = (\<lambda>_. None), timers = None, free_timers = None\<rparr>"

definition parsed :: "string list \<Rightarrow> parse_result \<times> iperf_test" where
  "parsed argv = (case iperf_parse_arguments (\<lambda>_. False) (''iperf3'' # argv) (start_parse getopt_init (snd (run_state iperf_defaults fresh))) of
     Some (r, s) \<Rightarrow> (r, the_test s) | None \<Rightarrow> (Next, iperf_new_test))"

lemma parsed_reverse: "fst (parsed [''-R'', ''-c'', ''host'', ''-t5'', ''--omit=1'']) = Parse_returns 0"
  by code_simp

lemma parsed_Some:
  assumes "fst (parsed argv) = Parse_returns 0"
  obtains s where "iperf_parse_arguments (\<lambda>_. False) (''iperf3'' # argv) (start_parse getopt_init (snd (run_state iperf_defaults fresh))) = Some (Parse_returns 0, s)"
    and "the_test s = snd (parsed argv)"
  using assms by (auto simp: parsed_def split: option.splits)



text \<open>
  the block size is read with 64 bits and stored with 32: a size of 2 GB is accepted for a UDP test as a negative number,
  and a size of 4 GB becomes the default.
\<close>

lemma block_size_wraps:
  "(\<lambda>(r, t). (r, cfg_blksize (test_settings t))) (parsed [''-c'', ''host'', ''-u'', ''-l'', ''2G'']) = (Parse_returns 0, - (2 ^ 31))
   \<and> (\<lambda>(r, t). (r, cfg_blksize (test_settings t))) (parsed [''-c'', ''host'', ''-l'', ''4G'']) = (Parse_returns 0, DEFAULT_TCP_BLKSIZE)"
  by code_simp

end
