(* ===== verification/Service.thy ===== *)
theory Service
  imports CString
begin

text \<open>
  The Windows service (\<open>windows/compat/src/win32_service.c\<close>). Its static variables form a record together
  with the system: a function from the calls so far and the next call to an answer, as in \<open>Sys\<close>, with the
  calls of the service control manager and of processes.

  \<open>service_main\<close> runs in a thread of its own beside the control handler, so it is a machine whose places are
  the points where it waits; the handler may run between two steps. \<open>snprintf\<close> is \<open>_snprintf\<close>: a text that
  fills the buffer exactly has no terminator, and what the program does then is the place \<open>Undefined\<close>.
\<close>

section \<open>Calls and state\<close>

abbreviation SERVICE_STOPPED :: int where "SERVICE_STOPPED \<equiv> 1"
abbreviation SERVICE_START_PENDING :: int where "SERVICE_START_PENDING \<equiv> 2"
abbreviation SERVICE_STOP_PENDING :: int where "SERVICE_STOP_PENDING \<equiv> 3"
abbreviation SERVICE_RUNNING :: int where "SERVICE_RUNNING \<equiv> 4"
abbreviation SERVICE_ACCEPT_STOP :: int where "SERVICE_ACCEPT_STOP \<equiv> 1"
abbreviation SERVICE_WIN32_OWN_PROCESS :: int where "SERVICE_WIN32_OWN_PROCESS \<equiv> 16"
abbreviation SERVICE_CONTROL_STOP :: int where "SERVICE_CONTROL_STOP \<equiv> 1"
abbreviation NO_ERROR :: int where "NO_ERROR \<equiv> 0"
abbreviation ERROR_CALL_NOT_IMPLEMENTED :: int where "ERROR_CALL_NOT_IMPLEMENTED \<equiv> 120"
abbreviation ERROR_SERVICE_ALREADY_RUNNING :: int where "ERROR_SERVICE_ALREADY_RUNNING \<equiv> 1056"
abbreviation ERROR_SERVICE_NOT_ACTIVE :: int where "ERROR_SERVICE_NOT_ACTIVE \<equiv> 1062"
abbreviation WAIT_OBJECT_0 :: int where "WAIT_OBJECT_0 \<equiv> 0"
abbreviation WAIT_FAILED :: int where "WAIT_FAILED \<equiv> 0xFFFFFFFF"
abbreviation MAX_PATH :: nat where "MAX_PATH \<equiv> 260"
abbreviation NO_VALUE :: int where "NO_VALUE \<equiv> 0xFFFFFFFF"
abbreviation SERVICE_DEFAULT_NAME :: string where "SERVICE_DEFAULT_NAME \<equiv> ''iperf3''"
abbreviation SC_MANAGER_CONNECT :: int where "SC_MANAGER_CONNECT \<equiv> 1"
abbreviation SC_MANAGER_CREATE_SERVICE :: int where "SC_MANAGER_CREATE_SERVICE \<equiv> 2"
abbreviation SERVICE_START :: int where "SERVICE_START \<equiv> 0x10"
abbreviation SERVICE_STOP_QUERY :: int where "SERVICE_STOP_QUERY \<equiv> 0x24"
abbreviation DELETE :: int where "DELETE \<equiv> 0x10000"

record service_status =
  dwServiceType :: int
  dwCurrentState :: int
  dwControlsAccepted :: int
  dwWin32ExitCode :: int
  dwServiceSpecificExitCode :: int
  dwCheckPoint :: int
  dwWaitHint :: int

datatype win_call =
    RegisterServiceCtrlHandler string
  | SetServiceStatus service_status
  | CreateEvent
  | SetEvent int
  | CloseHandle int
  | CreateProcess string
  | WaitForMultipleObjects int int
  | WaitForSingleObject int int
  | TerminateProcess int int
  | GetExitCodeProcess int
  | GetProcessId int
  | GetModuleFileName
  | GetEnvironmentVariable string
  | CreateDirectory string
  | AppendLine string string
  | StartServiceCtrlDispatcher string
  | OpenSCManager int
  | CreateService int string string
  | OpenService int string int
  | StartService int
  | ControlService int int
  | DeleteService int
  | CloseServiceHandle int

record win_answer =
  wa_value :: int
  wa_second :: int
  wa_text :: string
  wa_error :: int

type_synonym win_trace = "(win_call \<times> win_answer) list"

record service =
  g_status_handle :: int
  g_status :: service_status
  g_stop_event :: int
  g_child :: "int \<times> int"
  g_service_name :: string
  last_error :: int
  win_os :: "win_trace \<Rightarrow> win_call \<Rightarrow> win_answer"
  win_trace :: win_trace

text \<open>A wait fails with \<open>WAIT_FAILED\<close>, every other call with 0; then the last error is set.\<close>

fun fails :: "win_call \<Rightarrow> int" where
  "fails (WaitForMultipleObjects _ _) = WAIT_FAILED"
| "fails (WaitForSingleObject _ _) = WAIT_FAILED"
| "fails _ = 0"

definition win :: "win_call \<Rightarrow> (service, win_answer) state" where
  "win c = do {
     a \<leftarrow> reads (\<lambda>s. win_os s (win_trace s) c);
     _ \<leftarrow> update_state (win_trace_update (\<lambda>t. (c, a) # t));
     _ \<leftarrow> (if wa_value a = fails c then update_state (last_error_update (\<lambda>_. wa_error a)) else State_Monad.return ());
     State_Monad.return a }"

section \<open>Names, status and log\<close>

definition service_name_from_args :: "string list \<Rightarrow> nat \<Rightarrow> string" where
  "service_name_from_args argv index =
     (if length argv > index + 1 \<and> (argv ! (index + 1) = [] \<or> hd (argv ! (index + 1)) \<noteq> CHR ''-'')
      then argv ! (index + 1) else SERVICE_DEFAULT_NAME)"

definition new_status :: "int \<Rightarrow> int \<Rightarrow> int \<Rightarrow> service_status" where
  "new_status st win32_exit_code wait_hint =
     \<lparr>dwServiceType = SERVICE_WIN32_OWN_PROCESS, dwCurrentState = st,
      dwControlsAccepted = (if st = SERVICE_RUNNING then SERVICE_ACCEPT_STOP else 0),
      dwWin32ExitCode = win32_exit_code, dwServiceSpecificExitCode = 0,
      dwCheckPoint = (if st = SERVICE_START_PENDING \<or> st = SERVICE_STOP_PENDING then 1 else 0),
      dwWaitHint = wait_hint\<rparr>"

definition set_service_status :: "int \<Rightarrow> int \<Rightarrow> int \<Rightarrow> (service, unit) state" where
  "set_service_status st win32_exit_code wait_hint = do {
     let status = new_status st win32_exit_code wait_hint;
     _ \<leftarrow> update_state (g_status_update (\<lambda>_. status));
     h \<leftarrow> reads g_status_handle;
     if h \<noteq> 0 then do { _ \<leftarrow> win (SetServiceStatus status); State_Monad.return () } else State_Monad.return () }"

definition service_control_handler :: "int \<Rightarrow> (service, int) state" where
  "service_control_handler control =
     (if control = SERVICE_CONTROL_STOP then do {
        _ \<leftarrow> set_service_status SERVICE_STOP_PENDING NO_ERROR 5000;
        e \<leftarrow> reads g_stop_event;
        _ \<leftarrow> (if e \<noteq> 0 then do { _ \<leftarrow> win (SetEvent e); State_Monad.return () } else State_Monad.return ());
        State_Monad.return NO_ERROR }
      else State_Monad.return ERROR_CALL_NOT_IMPLEMENTED)"

datatype printed = Printed string | Too_long | Unterminated

definition snprintf_ms :: "nat \<Rightarrow> string \<Rightarrow> printed" where
  "snprintf_ms n s = (if length s < n then Printed s else if length s = n then Unterminated else Too_long)"

definition get_log_path :: "(service, printed) state" where
  "get_log_path = do {
     a \<leftarrow> win (GetEnvironmentVariable ''ProgramData'');
     let program_data = (if wa_value a = 0 \<or> wa_value a \<ge> int MAX_PATH then ''C:'' @ [CHR 0x5C] @ ''ProgramData'' else wa_text a);
     case snprintf_ms MAX_PATH (program_data @ [CHR 0x5C] @ ''iperf3'') of
       Printed dir \<Rightarrow> do {
         _ \<leftarrow> win (CreateDirectory dir);
         State_Monad.return (snprintf_ms MAX_PATH (program_data @ [CHR 0x5C] @ ''iperf3'' @ [CHR 0x5C] @ ''iperf3-service.log'')) }
     | r \<Rightarrow> State_Monad.return r }"

text \<open>The result tells whether every text was terminated. A log that cannot be opened is passed over.\<close>

definition append_service_log :: "string \<Rightarrow> int \<Rightarrow> (service, bool) state" where
  "append_service_log message value = do {
     p \<leftarrow> get_log_path;
     case p of
       Printed path \<Rightarrow> do {
         _ \<leftarrow> win (AppendLine path (''[service] '' @ message @ (if value = NO_VALUE then [] else '': '' @ show_int value)));
         State_Monad.return True }
     | Too_long \<Rightarrow> State_Monad.return True
     | Unterminated \<Rightarrow> State_Monad.return False }"

section \<open>The child process\<close>

definition close_child_handles :: "(service, unit) state" where
  "close_child_handles = do {
     (hProcess, hThread) \<leftarrow> reads g_child;
     _ \<leftarrow> (if hThread \<noteq> 0 then do { _ \<leftarrow> win (CloseHandle hThread); State_Monad.return () } else State_Monad.return ());
     _ \<leftarrow> (if hProcess \<noteq> 0 then do { _ \<leftarrow> win (CloseHandle hProcess); State_Monad.return () } else State_Monad.return ());
     update_state (g_child_update (\<lambda>_. (0, 0))) }"

definition quoted :: "string \<Rightarrow> string" where
  "quoted s = CHR 0x22 # s @ [CHR 0x22]"

text \<open>\<open>None\<close> for an array without terminator.\<close>

definition start_child_server :: "(service, bool option) state" where
  "start_child_server = do {
     m \<leftarrow> win GetModuleFileName;
     if wa_value m = 0 then State_Monad.return (Some False)
     else do {
       p \<leftarrow> get_log_path;
       case p of
         Printed log_path \<Rightarrow>
           (case snprintf_ms (MAX_PATH * 3) (quoted (wa_text m) @ '' -s --logfile '' @ quoted log_path) of
              Printed command_line \<Rightarrow> do {
                _ \<leftarrow> update_state (g_child_update (\<lambda>_. (0, 0)));
                a \<leftarrow> win (CreateProcess command_line);
                if wa_value a = 0 then State_Monad.return (Some False)
                else do { _ \<leftarrow> update_state (g_child_update (\<lambda>_. (wa_value a, wa_second a))); State_Monad.return (Some True) } }
            | Too_long \<Rightarrow> State_Monad.return (Some False)
            | Unterminated \<Rightarrow> State_Monad.return None)
       | Too_long \<Rightarrow> State_Monad.return (Some False)
       | Unterminated \<Rightarrow> State_Monad.return None } }"

section \<open>The service\<close>

datatype place = Launch | Waiting | Pausing | Ended | Undefined

text \<open>After the loop.\<close>

definition service_end :: "(service, place) state" where
  "service_end = do {
     e \<leftarrow> reads g_stop_event;
     _ \<leftarrow> win (CloseHandle e);
     _ \<leftarrow> update_state (g_stop_event_update (\<lambda>_. 0));
     State_Monad.return Ended }"

definition service_start :: "(service, place) state" where
  "service_start = do {
     name \<leftarrow> reads g_service_name;
     h \<leftarrow> win (RegisterServiceCtrlHandler name);
     _ \<leftarrow> update_state (g_status_handle_update (\<lambda>_. wa_value h));
     if wa_value h = 0 then State_Monad.return Ended
     else do {
       _ \<leftarrow> set_service_status SERVICE_START_PENDING NO_ERROR 5000;
       e \<leftarrow> win CreateEvent;
       _ \<leftarrow> update_state (g_stop_event_update (\<lambda>_. wa_value e));
       if wa_value e = 0 then do {
         err \<leftarrow> reads last_error;
         _ \<leftarrow> set_service_status SERVICE_STOPPED err 0;
         State_Monad.return Ended }
       else do {
         _ \<leftarrow> set_service_status SERVICE_RUNNING NO_ERROR 0;
         State_Monad.return Launch } } }"

definition service_launch :: "(service, place) state" where
  "service_launch = do {
     r \<leftarrow> start_child_server;
     case r of
       None \<Rightarrow> State_Monad.return Undefined
     | Some False \<Rightarrow> do {
         err \<leftarrow> reads last_error;
         ok \<leftarrow> append_service_log ''failed to start iperf3 server process'' err;
         if \<not> ok then State_Monad.return Undefined
         else do {
           _ \<leftarrow> set_service_status SERVICE_STOPPED err 0;
           service_end } }
     | Some True \<Rightarrow> do {
         (hProcess, _) \<leftarrow> reads g_child;
         p \<leftarrow> win (GetProcessId hProcess);
         ok \<leftarrow> append_service_log ''started iperf3 server process'' (wa_value p);
         State_Monad.return (if ok then Waiting else Undefined) } }"

text \<open>The three ways on from the wait: a stop, the end of the child, anything else.\<close>

definition service_stop :: "int \<Rightarrow> (service, place) state" where
  "service_stop hProcess = do {
     ok \<leftarrow> append_service_log ''stop requested'' NO_VALUE;
     if \<not> ok then State_Monad.return Undefined
     else do {
       _ \<leftarrow> win (TerminateProcess hProcess 0);
       _ \<leftarrow> win (WaitForSingleObject hProcess 5000);
       _ \<leftarrow> close_child_handles;
       _ \<leftarrow> set_service_status SERVICE_STOPPED NO_ERROR 0;
       service_end } }"

definition service_restart :: "int \<Rightarrow> (service, place) state" where
  "service_restart hProcess = do {
     c \<leftarrow> win (GetExitCodeProcess hProcess);
     ok \<leftarrow> append_service_log ''iperf3 server process exited; restarting'' (if wa_value c = 0 then 0 else wa_second c);
     if \<not> ok then State_Monad.return Undefined
     else do { _ \<leftarrow> close_child_handles; State_Monad.return Pausing } }"

definition service_unexpected :: "int \<Rightarrow> (service, place) state" where
  "service_unexpected wait_rc = do {
     ok \<leftarrow> append_service_log ''unexpected service wait result'' wait_rc;
     if \<not> ok then State_Monad.return Undefined
     else do {
       _ \<leftarrow> close_child_handles;
       err \<leftarrow> reads last_error;
       _ \<leftarrow> set_service_status SERVICE_STOPPED err 0;
       service_end } }"

definition service_wait :: "(service, place) state" where
  "service_wait = do {
     e \<leftarrow> reads g_stop_event;
     (hProcess, _) \<leftarrow> reads g_child;
     a \<leftarrow> win (WaitForMultipleObjects e hProcess);
     if wa_value a = WAIT_OBJECT_0 then service_stop hProcess
     else if wa_value a = WAIT_OBJECT_0 + 1 then service_restart hProcess
     else service_unexpected (wa_value a) }"

definition service_pause :: "(service, place) state" where
  "service_pause = do {
     e \<leftarrow> reads g_stop_event;
     a \<leftarrow> win (WaitForSingleObject e 1000);
     if wa_value a = WAIT_OBJECT_0 then do {
       _ \<leftarrow> set_service_status SERVICE_STOPPED NO_ERROR 0;
       service_end }
     else State_Monad.return Launch }"

definition service_step :: "place \<Rightarrow> (service, place) state" where
  "service_step p = (case p of Launch \<Rightarrow> service_launch | Waiting \<Rightarrow> service_wait | Pausing \<Rightarrow> service_pause | _ \<Rightarrow> State_Monad.return p)"

text \<open>
  A run of the service. The control manager delivers a control only while the service accepts it, that is, as
  long as the last status said so.
\<close>

inductive service_run :: "service \<Rightarrow> place \<Rightarrow> service \<Rightarrow> bool" for s0 :: service where
  start: "run_state service_start s0 = (p, s) \<Longrightarrow> service_run s0 p s"
| main: "service_run s0 p s \<Longrightarrow> p \<in> {Launch, Waiting, Pausing} \<Longrightarrow> run_state (service_step p) s = (p', s') \<Longrightarrow> service_run s0 p' s'"
| control: "service_run s0 p s \<Longrightarrow> p \<in> {Launch, Waiting, Pausing} \<Longrightarrow> dwControlsAccepted (g_status s) = SERVICE_ACCEPT_STOP
    \<Longrightarrow> run_state (service_control_handler SERVICE_CONTROL_STOP) s = (r, s') \<Longrightarrow> service_run s0 p s'"

section \<open>The commands\<close>

definition run_service_dispatcher :: "(service, int) state" where
  "run_service_dispatcher = do {
     name \<leftarrow> reads g_service_name;
     a \<leftarrow> win (StartServiceCtrlDispatcher name);
     State_Monad.return (if wa_value a = 0 then 1 else 0) }"

definition close_service :: "int \<Rightarrow> (service, unit) state" where
  "close_service h = do { _ \<leftarrow> win (CloseServiceHandle h); State_Monad.return () }"

text \<open>\<open>None\<close> for a command line without terminator.\<close>

definition install_service :: "string \<Rightarrow> (service, int option) state" where
  "install_service service_name = do {
     m \<leftarrow> win GetModuleFileName;
     if wa_value m = 0 then State_Monad.return (Some 1)
     else case snprintf_ms (MAX_PATH * 2) (quoted (wa_text m) @ '' --service-run '' @ quoted service_name) of
       Too_long \<Rightarrow> State_Monad.return (Some 1)
     | Unterminated \<Rightarrow> State_Monad.return None
     | Printed command_line \<Rightarrow> do {
         scm \<leftarrow> win (OpenSCManager SC_MANAGER_CREATE_SERVICE);
         if wa_value scm = 0 then State_Monad.return (Some 1)
         else do {
           srv \<leftarrow> win (CreateService (wa_value scm) service_name command_line);
           if wa_value srv = 0 then do { _ \<leftarrow> close_service (wa_value scm); State_Monad.return (Some 1) }
           else do {
             _ \<leftarrow> close_service (wa_value srv);
             _ \<leftarrow> close_service (wa_value scm);
             State_Monad.return (Some 0) } } } }"

text \<open>The three commands on an installed service: open it, make the call, close it.\<close>

definition on_service :: "int \<Rightarrow> (int \<Rightarrow> win_call) \<Rightarrow> int option \<Rightarrow> string \<Rightarrow> (service, int) state" where
  "on_service access c tolerated service_name = do {
     scm \<leftarrow> win (OpenSCManager SC_MANAGER_CONNECT);
     if wa_value scm = 0 then State_Monad.return 1
     else do {
       srv \<leftarrow> win (OpenService (wa_value scm) service_name access);
       if wa_value srv = 0 then do { _ \<leftarrow> close_service (wa_value scm); State_Monad.return 1 }
       else do {
         a \<leftarrow> win (c (wa_value srv));
         e \<leftarrow> reads last_error;
         _ \<leftarrow> close_service (wa_value srv);
         _ \<leftarrow> close_service (wa_value scm);
         State_Monad.return (if wa_value a = 0 \<and> tolerated \<noteq> Some e then 1 else 0) } } }"

definition start_service_cmd :: "string \<Rightarrow> (service, int) state" where
  "start_service_cmd = on_service SERVICE_START StartService (Some ERROR_SERVICE_ALREADY_RUNNING)"

definition stop_service_cmd :: "string \<Rightarrow> (service, int) state" where
  "stop_service_cmd = on_service SERVICE_STOP_QUERY (\<lambda>h. ControlService h SERVICE_CONTROL_STOP) (Some ERROR_SERVICE_NOT_ACTIVE)"

definition remove_service :: "string \<Rightarrow> (service, int) state" where
  "remove_service = on_service DELETE DeleteService None"

text \<open>
  \<open>None\<close>: the command line is not for the service. \<open>Some\<close>: the exit code, unless a text had no terminator.
\<close>

definition iperf_win32_service_maybe_handle :: "string list \<Rightarrow> (service, int option option) state" where
  "iperf_win32_service_maybe_handle argv =
     (if length argv < 2 then State_Monad.return None
      else let cmd = argv ! 1; name = service_name_from_args argv 1; code = (\<lambda>m. do { r \<leftarrow> m; State_Monad.return (Some (Some r)) })
        in if cmd = ''--service-run'' then do {
             _ \<leftarrow> update_state (g_service_name_update (\<lambda>_. name));
             code run_service_dispatcher }
           else if cmd = ''--service-install'' then do { r \<leftarrow> install_service name; State_Monad.return (Some r) }
           else if cmd = ''--service-start'' then code (start_service_cmd name)
           else if cmd = ''--service-stop'' then code (stop_service_cmd name)
           else if cmd = ''--service-remove'' then code (remove_service name)
           else State_Monad.return None)"

end
