(* ===== verification/Service_Correct.thy ===== *)
theory Service_Correct
  imports Service Wp "HOL-Library.Multiset"
begin

text \<open>
  The service closes every handle it opens, ends with the status \<open>SERVICE_STOPPED\<close>, and obeys a stop.
\<close>

section \<open>Handles\<close>

fun win_opens :: "win_call \<times> win_answer \<Rightarrow> int multiset" where
  "win_opens (CreateEvent, a) = (if wa_value a = 0 then {#} else {#wa_value a#})"
| "win_opens (CreateProcess _, a) = (if wa_value a = 0 then {#} else {#wa_value a#} + (if wa_second a = 0 then {#} else {#wa_second a#}))"
| "win_opens (OpenSCManager _, a) = (if wa_value a = 0 then {#} else {#wa_value a#})"
| "win_opens (CreateService _ _ _, a) = (if wa_value a = 0 then {#} else {#wa_value a#})"
| "win_opens (OpenService _ _ _, a) = (if wa_value a = 0 then {#} else {#wa_value a#})"
| "win_opens _ = {#}"

fun win_closes :: "win_call \<times> win_answer \<Rightarrow> int multiset" where
  "win_closes (CloseHandle h, a) = {#h#}"
| "win_closes (CloseServiceHandle h, a) = {#h#}"
| "win_closes _ = {#}"

definition opened :: "win_trace \<Rightarrow> int multiset" where
  "opened tr = sum_list (map win_opens tr)"

definition closed :: "win_trace \<Rightarrow> int multiset" where
  "closed tr = sum_list (map win_closes tr)"

lemma opened_simps [simp]: "opened [] = {#}" "opened (e # tr) = win_opens e + opened tr"
  and closed_simps [simp]: "closed [] = {#}" "closed (e # tr) = win_closes e + closed tr"
  by (simp_all add: opened_def closed_def)

lemma wp_win:
  assumes "\<And>a e. a = win_os s (win_trace s) c \<Longrightarrow> Q a (s\<lparr>win_trace := (c, a) # win_trace s, last_error := e\<rparr>)"
  shows "wp (win c) Q s"
  using assms [OF refl, of "wa_error (win_os s (win_trace s) c)"] assms [OF refl, of "last_error s"]
  by (cases s) (simp add: win_def wp_if)

text \<open>Programs that only make calls without handles, such as writing to the log.\<close>

named_theorems logs_rules \<open>rules for programs that open and close nothing\<close>

definition only_logged :: "service \<Rightarrow> service \<Rightarrow> bool" where
  "only_logged s s' \<longleftrightarrow> (\<exists>new e. s' = s\<lparr>win_trace := new @ win_trace s, last_error := e\<rparr> \<and> opened new = {#} \<and> closed new = {#})"

definition logs :: "(service, 'a) state \<Rightarrow> bool" where
  "logs m \<longleftrightarrow> (\<forall>s. wp m (\<lambda>_. only_logged s) s)"

definition handleless :: "win_call \<Rightarrow> bool" where
  "handleless c \<longleftrightarrow> (\<forall>a. win_opens (c, a) = {#} \<and> win_closes (c, a) = {#})"

lemma opened_append [simp]: "opened (xs @ ys) = opened xs + opened ys"
  and closed_append [simp]: "closed (xs @ ys) = closed xs + closed ys"
  by (simp_all add: opened_def closed_def)

lemma only_logged_refl [simp]: "only_logged s s"
  unfolding only_logged_def by (intro exI [of _ "[]"] exI [of _ "last_error s"]) simp

lemma only_logged_trans: "only_logged s s1 \<Longrightarrow> only_logged s1 s2 \<Longrightarrow> only_logged s s2"
  unfolding only_logged_def by (elim exE conjE, rule_tac x = "newa @ new" in exI) auto

lemma only_loggedD:
  assumes "only_logged s s'"
  shows "g_status_handle s' = g_status_handle s" "g_status s' = g_status s" "g_stop_event s' = g_stop_event s" "g_child s' = g_child s"
    "win_os s' = win_os s" "opened (win_trace s') = opened (win_trace s)" "closed (win_trace s') = closed (win_trace s)"
    "set (win_trace s) \<subseteq> set (win_trace s')"
  using assms by (auto simp: only_logged_def)

lemma only_logged_fields:
  "only_logged s s' \<Longrightarrow> g_status_handle s' = g_status_handle s \<and> g_status s' = g_status s \<and> g_stop_event s' = g_stop_event s
     \<and> opened (win_trace s') = opened (win_trace s) \<and> closed (win_trace s') = closed (win_trace s)"
  by (simp add: only_loggedD)

lemma handleless_simps [simp]:
  "handleless (RegisterServiceCtrlHandler n)" "handleless (SetServiceStatus st)" "handleless (SetEvent h)" "handleless (WaitForMultipleObjects h h')"
  "handleless (WaitForSingleObject h t)" "handleless (TerminateProcess h x)" "handleless (GetExitCodeProcess h)" "handleless (GetProcessId h)"
  "handleless GetModuleFileName" "handleless (GetEnvironmentVariable n)" "handleless (CreateDirectory n)" "handleless (AppendLine n l)"
  "handleless (StartServiceCtrlDispatcher n)" "handleless (StartService h)" "handleless (ControlService h x)" "handleless (DeleteService h)"
  by (simp_all add: handleless_def)

lemma only_logged_call: "handleless c \<Longrightarrow> only_logged s (s\<lparr>win_trace := (c, a) # win_trace s, last_error := e\<rparr>)"
  unfolding only_logged_def handleless_def by (intro exI [of _ "[(c, a)]"] exI [of _ e]) simp

lemma logs_win [logs_rules]: "handleless c \<Longrightarrow> logs (win c)"
  by (auto simp: logs_def intro!: wp_win only_logged_call)

lemma logs_simple [logs_rules]: "logs (State_Monad.return x)" "logs (reads f)"
  by (simp_all add: logs_def)

lemma logs_bind [logs_rules]:
  assumes "logs m" and "\<And>r. logs (f r)"
  shows "logs (State_Monad.bind m f)"
  unfolding logs_def wp_simps
proof
  fix s
  show "wp m (\<lambda>r. wp (f r) (\<lambda>_. only_logged s)) s"
    using assms(1) [unfolded logs_def, rule_format]
  proof (rule wp_mono)
    fix r s1
    assume "only_logged s s1"
    then show "wp (f r) (\<lambda>_. only_logged s) s1"
      using assms(2) [unfolded logs_def, rule_format] by (blast intro: wp_mono only_logged_trans)
  qed
qed

lemma logs_cases [logs_rules]:
  "(\<And>x. logs (a x)) \<Longrightarrow> logs b \<Longrightarrow> logs c \<Longrightarrow> logs (case p of Printed x \<Rightarrow> a x | Too_long \<Rightarrow> b | Unterminated \<Rightarrow> c)"
  "logs a' \<Longrightarrow> logs b' \<Longrightarrow> logs (if q then a' else b')" "(\<And>x. logs (f x)) \<Longrightarrow> logs (let x = e in f x)"
  by (auto split: printed.splits)

lemma logs_log [logs_rules]: "logs get_log_path" "logs (append_service_log m v)"
proof -
  show "logs get_log_path"
    unfolding get_log_path_def by (intro logs_rules) simp_all
  then show "logs (append_service_log m v)"
    unfolding append_service_log_def by (intro logs_rules) simp_all
qed

lemma logsD: "logs m \<Longrightarrow> (\<And>r s'. only_logged s s' \<Longrightarrow> Q r s') \<Longrightarrow> wp m Q s"
  unfolding logs_def by (blast intro: wp_mono)

section \<open>The invariant of the service\<close>

definition held :: "place \<Rightarrow> service \<Rightarrow> int multiset" where
  "held p s = (if p \<in> {Launch, Waiting, Pausing} then {#g_stop_event s#} else {#})
     + (if p = Waiting then {#fst (g_child s)#} + (if snd (g_child s) = 0 then {#} else {#snd (g_child s)#}) else {#})"

definition balanced :: "place \<Rightarrow> service \<Rightarrow> bool" where
  "balanced p s \<longleftrightarrow> opened (win_trace s) = closed (win_trace s) + held p s"

definition alive :: "service \<Rightarrow> bool" where
  "alive s \<longleftrightarrow> g_status_handle s \<noteq> 0 \<and> g_stop_event s \<noteq> 0 \<and> dwCurrentState (g_status s) \<in> {SERVICE_RUNNING, SERVICE_STOP_PENDING}
     \<and> (dwCurrentState (g_status s) = SERVICE_STOP_PENDING \<longrightarrow> (\<exists>a. (SetEvent (g_stop_event s), a) \<in> set (win_trace s)))"

definition service_ok :: "place \<Rightarrow> service \<Rightarrow> bool" where
  "service_ok p s \<longleftrightarrow> p = Undefined \<or> balanced p s \<and> (p \<in> {Launch, Waiting, Pausing} \<longrightarrow> alive s) \<and> (p = Waiting \<longrightarrow> fst (g_child s) \<noteq> 0)
     \<and> (p = Ended \<longrightarrow> g_stop_event s = 0 \<and> (g_status_handle s \<noteq> 0 \<longrightarrow> dwCurrentState (g_status s) = SERVICE_STOPPED))"

lemma set_service_status_only_logs:
  assumes "\<And>s'. only_logged (s\<lparr>g_status := new_status st x h\<rparr>) s' \<Longrightarrow> Q () s'"
  shows "wp (set_service_status st x h) Q s"
proof -
  have "logs (do { k \<leftarrow> reads g_status_handle;
      if k \<noteq> 0 then do { _ \<leftarrow> win (SetServiceStatus (new_status st x h)); State_Monad.return () } else State_Monad.return () })"
    by (intro logs_rules) simp
  then have "wp (do { k \<leftarrow> reads g_status_handle;
      if k \<noteq> 0 then do { _ \<leftarrow> win (SetServiceStatus (new_status st x h)); State_Monad.return () } else State_Monad.return () }) Q
      (s\<lparr>g_status := new_status st x h\<rparr>)"
    by (rule logsD) (simp add: assms)
  then show ?thesis by (simp add: set_service_status_def Let_def)
qed

lemma close_child_balanced:
  assumes "balanced Waiting s" and "fst (g_child s) \<noteq> 0"
    and "\<And>s'. \<lbrakk>balanced Pausing s'; g_status_handle s' = g_status_handle s; g_status s' = g_status s; g_stop_event s' = g_stop_event s; g_child s' = (0, 0);
      win_os s' = win_os s; set (win_trace s) \<subseteq> set (win_trace s')\<rbrakk> \<Longrightarrow> Q () s'"
  shows "wp close_child_handles Q s"
proof -
  obtain p t where c: "g_child s = (p, t)" by fastforce
  show ?thesis
    using assms(1,2) unfolding close_child_handles_def
    by (simp add: c wp_if) (auto intro!: wp_win assms(3) simp: balanced_def held_def c)
qed

text \<open>What a part of the service that does not end it leaves alone.\<close>

definition same_status :: "service \<Rightarrow> service \<Rightarrow> bool" where
  "same_status s s' \<longleftrightarrow> g_status_handle s' = g_status_handle s \<and> g_status s' = g_status s \<and> g_stop_event s' = g_stop_event s
     \<and> win_os s' = win_os s \<and> set (win_trace s) \<subseteq> set (win_trace s')"

lemma alive_same: "alive s \<Longrightarrow> same_status s s' \<Longrightarrow> alive s'"
  unfolding alive_def same_status_def by auto

lemma only_logged_same: "only_logged s s' \<Longrightarrow> same_status s s'"
  by (simp add: same_status_def only_loggedD)

lemma same_trans: "same_status s s1 \<Longrightarrow> same_status s1 s2 \<Longrightarrow> same_status s s2"
  by (auto simp: same_status_def)

lemma only_logged_balanced: "only_logged s s' \<Longrightarrow> balanced p s' = balanced p s"
  by (simp add: balanced_def held_def only_loggedD)

lemma stop_end_ok:
  assumes "balanced Pausing s" and "g_status_handle s \<noteq> 0"
  shows "wp (do { _ \<leftarrow> set_service_status SERVICE_STOPPED e h; service_end }) (\<lambda>p s'. p = Ended \<and> service_ok p s') s"
  unfolding service_end_def wp_simps
proof (rule set_service_status_only_logs)
  fix s'
  assume l: "only_logged (s\<lparr>g_status := new_status SERVICE_STOPPED e h\<rparr>) s'"
  have "balanced Pausing s'"
    using assms(1) only_loggedD [OF l] by (simp add: balanced_def held_def)
  then show "wp (win (CloseHandle (g_stop_event s'))) (\<lambda>r s. Ended = Ended \<and> service_ok Ended (s\<lparr>g_stop_event := 0\<rparr>)) s'"
    using only_loggedD [OF l] by (intro wp_win) (simp add: service_ok_def balanced_def held_def new_status_def)
qed

lemma launched:
  assumes "only_logged s s2" and "balanced Launch s"
  shows "wp (win (CreateProcess c)) (\<lambda>a s3. (wa_value a = 0 \<longrightarrow> same_status s s3 \<and> balanced Launch s3)
      \<and> (wa_value a \<noteq> 0 \<longrightarrow> same_status s (s3\<lparr>g_child := (wa_value a, wa_second a)\<rparr>) \<and> balanced Waiting (s3\<lparr>g_child := (wa_value a, wa_second a)\<rparr>)))
    (s2\<lparr>g_child := (0, 0)\<rparr>)"
  using assms(2) only_loggedD [OF assms(1)] by (intro wp_win) (auto simp: same_status_def balanced_def held_def)

lemma start_child_ok:
  assumes "balanced Launch s"
  shows "wp start_child_server (\<lambda>r s'. same_status s s' \<and> (\<forall>b. r = Some b \<longrightarrow> balanced (if b then Waiting else Launch) s'
    \<and> (b \<longrightarrow> fst (g_child s') \<noteq> 0))) s"
  unfolding start_child_server_def wp_simps
proof (rule logsD, goal_cases)
  case 1
  show ?case by (intro logs_rules) simp
next
  case (2 m s1)
  have quiet: "only_logged s s2 \<Longrightarrow> same_status s s2 \<and> balanced Launch s2" for s2
    using assms by (simp add: only_logged_same only_logged_balanced)
  show ?case
  proof (cases "wa_value m = 0")
    case True
    then show ?thesis using quiet [OF 2] by simp
  next
    case False
    have "wp get_log_path (\<lambda>p s2. only_logged s s2) s1"
      using logs_log(1) by (rule logsD) (rule only_logged_trans [OF 2])
    then show ?thesis
      unfolding if_not_P [OF False] wp_simps
    proof (rule wp_mono, goal_cases)
      case (1 p s2)
      show ?case
        using quiet [OF 1] by (auto split: printed.splits intro!: wp_mono [OF launched [OF 1 assms]])
    qed
  qed
qed

section \<open>The steps\<close>

lemma service_okI: "p \<in> {Launch, Waiting, Pausing} \<Longrightarrow> balanced p s \<Longrightarrow> alive s \<Longrightarrow> (p = Waiting \<Longrightarrow> fst (g_child s) \<noteq> 0) \<Longrightarrow> service_ok p s"
  by (auto simp: service_ok_def)

lemma service_ok_Undefined [simp]: "service_ok Undefined s"
  by (simp add: service_ok_def)

lemma balanced_Launch: "balanced Launch s = balanced Pausing s"
  by (simp add: balanced_def held_def)

text \<open>A message to the log, then the end.\<close>

lemma log_then_end:
  assumes "balanced Pausing s" and "g_status_handle s \<noteq> 0"
  shows "wp (do { ok \<leftarrow> append_service_log m v; if \<not> ok then State_Monad.return Undefined else do { _ \<leftarrow> set_service_status SERVICE_STOPPED e h; service_end } })
    (\<lambda>p s'. service_ok p s' \<and> p \<in> {Ended, Undefined}) s"
  unfolding wp_simps
proof (rule logsD [OF logs_log(2)])
  fix ok s'
  assume l: "only_logged s s'"
  then have "balanced Pausing s'" "g_status_handle s' \<noteq> 0"
    using assms by (simp_all add: only_logged_balanced only_loggedD)
  then have "wp (do { _ \<leftarrow> set_service_status SERVICE_STOPPED e h; service_end }) (\<lambda>p s'. p = Ended \<and> service_ok p s') s'"
    by (rule stop_end_ok)
  then have "wp (do { _ \<leftarrow> set_service_status SERVICE_STOPPED e h; service_end }) (\<lambda>p s'. service_ok p s' \<and> p \<in> {Ended, Undefined}) s'"
    by (rule wp_mono) simp
  then show "wp (if \<not> ok then State_Monad.return Undefined else do { _ \<leftarrow> set_service_status SERVICE_STOPPED e h; service_end })
      (\<lambda>p s'. service_ok p s' \<and> p \<in> {Ended, Undefined}) s'"
    by (simp only: wp_if wp_simps) simp
qed

lemma launch_ok:
  assumes "alive s" and "balanced Launch s"
  shows "wp service_launch (\<lambda>p s'. service_ok p s' \<and> (p = Waiting \<longrightarrow> same_status s s') \<and> p \<in> {Waiting, Ended, Undefined}) s"
  unfolding service_launch_def wp_simps
proof (rule wp_mono [OF start_child_ok [OF assms(2)]], goal_cases)
  case (1 r s1)
  then have same: "same_status s s1" and alive1: "alive s1"
    using alive_same [OF assms(1)] by blast+
  show ?case
  proof (cases r)
    case None
    then show ?thesis by simp
  next
    case (Some b)
    show ?thesis
    proof (cases b)
      case True
      obtain hp ht where c: "g_child s1 = (hp, ht)" by fastforce
      have fin: "service_ok Waiting s2 \<and> same_status s s2" if "only_logged s1 s2" for s2
        using that True Some 1 alive1 alive_same same_trans [OF same] only_logged_same [OF that]
        by (auto intro!: service_okI simp: only_logged_balanced only_loggedD)
      have "logs (do { p \<leftarrow> win (GetProcessId hp); append_service_log ''started iperf3 server process'' (wa_value p) })"
        by (intro logs_rules) simp
      then have "wp (do { p \<leftarrow> win (GetProcessId hp); append_service_log ''started iperf3 server process'' (wa_value p) })
          (\<lambda>ok s2. wp (State_Monad.return (if ok then Waiting else Undefined))
            (\<lambda>p s'. service_ok p s' \<and> (p = Waiting \<longrightarrow> same_status s s') \<and> p \<in> {Waiting, Ended, Undefined}) s2) s1"
        by (rule logsD) (use fin in simp)
      then show ?thesis
        using True Some by (simp add: c)
    next
      case False
      then have "balanced Pausing s1" "g_status_handle s1 \<noteq> 0"
        using 1 Some alive1 by (auto simp: balanced_Launch alive_def)
      then have "wp (do { ok \<leftarrow> append_service_log ''failed to start iperf3 server process'' (last_error s1);
            if \<not> ok then State_Monad.return Undefined else do { _ \<leftarrow> set_service_status SERVICE_STOPPED (last_error s1) 0; service_end } })
          (\<lambda>p s'. service_ok p s' \<and> (p = Waiting \<longrightarrow> same_status s s') \<and> p \<in> {Waiting, Ended, Undefined}) s1"
        by (rule wp_mono [OF log_then_end]) auto
      then show ?thesis
        using False Some by simp
    qed
  qed
qed

lemma close_child_alive:
  assumes "balanced Waiting s" and "fst (g_child s) \<noteq> 0" and "alive s"
    and "\<And>s'. balanced Pausing s' \<Longrightarrow> alive s' \<Longrightarrow> Q () s'"
  shows "wp close_child_handles Q s"
  using assms(1,2)
proof (rule close_child_balanced)
  fix s'
  assume "balanced Pausing s'" and "g_status_handle s' = g_status_handle s" "g_status s' = g_status s" "g_stop_event s' = g_stop_event s"
    "win_os s' = win_os s" "set (win_trace s) \<subseteq> set (win_trace s')"
  then show "Q () s'"
    using assms(3) by (intro assms(4)) (auto intro: alive_same simp: same_status_def)
qed

lemma alive_handle: "alive s \<Longrightarrow> g_status_handle s \<noteq> 0"
  by (simp add: alive_def)

text \<open>A message, then a program that goes on from a service that still holds its child.\<close>

lemma log_then:
  assumes "alive s" and "balanced Waiting s" and "fst (g_child s) \<noteq> 0" and "logs m"
    and "\<And>r s'. alive s' \<Longrightarrow> balanced Waiting s' \<Longrightarrow> fst (g_child s') \<noteq> 0 \<Longrightarrow> Q r s'"
  shows "wp m Q s"
  using assms(4)
proof (rule logsD)
  fix r s'
  assume l: "only_logged s s'"
  show "Q r s'"
    using assms(1-3) alive_same [OF assms(1) only_logged_same [OF l]] by (intro assms(5)) (simp_all add: only_logged_balanced [OF l] only_loggedD [OF l])
qed

definition over :: "place \<Rightarrow> bool" where
  "over p \<longleftrightarrow> p = Ended \<or> p = Undefined"

lemma over_simps [simp]: "over Ended" "over Undefined" "\<not> over Launch" "\<not> over Waiting" "\<not> over Pausing"
  by (simp_all add: over_def)

lemma stop_end:
  assumes "alive s" and "balanced Pausing s"
  shows "wp (set_service_status SERVICE_STOPPED e h) (\<lambda>_. wp service_end (\<lambda>p s'. service_ok p s' \<and> over p)) s"
proof -
  have "wp (do { _ \<leftarrow> set_service_status SERVICE_STOPPED e h; service_end }) (\<lambda>p s'. service_ok p s' \<and> over p) s"
    by (rule wp_mono [OF stop_end_ok]) (use assms alive_handle in auto)
  then show ?thesis by simp
qed

lemma stop_ok:
  assumes "alive s" and "balanced Waiting s" and "fst (g_child s) \<noteq> 0"
  shows "wp (service_stop hp) (\<lambda>p s'. service_ok p s' \<and> over p) s"
  unfolding service_stop_def wp_simps using assms
proof (rule log_then [OF _ _ _ logs_log(2)], goal_cases)
  case (1 ok s1)
  have "wp (do { _ \<leftarrow> win (TerminateProcess hp 0); win (WaitForSingleObject hp 5000) })
      (\<lambda>_. wp close_child_handles (\<lambda>_. wp (set_service_status SERVICE_STOPPED NO_ERROR 0)
        (\<lambda>_. wp service_end (\<lambda>p s'. service_ok p s' \<and> over p)))) s1"
    using 1 by (rule log_then) (intro logs_rules, simp_all add: close_child_alive stop_end)
  then show ?case by (simp add: wp_if)
qed

lemma restart_ok:
  assumes "alive s" and "balanced Waiting s" and "fst (g_child s) \<noteq> 0"
  shows "wp (service_restart hp) service_ok s"
proof -
  have "wp (do { c \<leftarrow> win (GetExitCodeProcess hp); append_service_log m (f c) })
      (\<lambda>ok. wp (if \<not> ok then State_Monad.return Undefined else do { _ \<leftarrow> close_child_handles; State_Monad.return Pausing }) service_ok) s" for m f
    using assms
  proof (rule log_then, goal_cases)
    case 1
    show ?case by (intro logs_rules) simp
  next
    case (2 ok s1)
    then show ?case
      by (simp add: wp_if) (auto intro!: close_child_alive service_okI)
  qed
  then show ?thesis by (simp add: service_restart_def)
qed

lemma unexpected_ok:
  assumes "alive s" and "balanced Waiting s" and "fst (g_child s) \<noteq> 0"
  shows "wp (service_unexpected x) (\<lambda>p s'. service_ok p s' \<and> over p) s"
  unfolding service_unexpected_def wp_simps using assms
  by (rule log_then [OF _ _ _ logs_log(2)]) (simp add: wp_if, auto intro!: close_child_alive stop_end)

lemma wait_ok:
  assumes "alive s" and "balanced Waiting s" and "fst (g_child s) \<noteq> 0"
  shows "wp service_wait (\<lambda>p s'. service_ok p s' \<and> (over p
    \<or> wa_value (win_os s (win_trace s) (WaitForMultipleObjects (g_stop_event s) (fst (g_child s)))) \<noteq> WAIT_OBJECT_0)) s"
proof -
  obtain hp ht where c: "g_child s = (hp, ht)" by fastforce
  have after: "alive s' \<and> balanced Waiting s' \<and> fst (g_child s') \<noteq> 0" if "only_logged s s'" for s'
    using assms that alive_same [OF assms(1) only_logged_same [OF that]] by (simp add: only_logged_balanced only_loggedD)
  show ?thesis
    unfolding service_wait_def
  proof (simp add: c, rule wp_win, goal_cases)
    case (1 a e)
    then have s1: "only_logged s (s\<lparr>win_trace := (WaitForMultipleObjects (g_stop_event s) hp, a) # win_trace s, last_error := e\<rparr>)"
      by (intro only_logged_call) simp
    show ?case
      using after [OF s1] 1 by (auto simp: wp_if intro: wp_mono [OF stop_ok] wp_mono [OF restart_ok] wp_mono [OF unexpected_ok])
  qed
qed

lemma pause_ok:
  assumes "alive s" and "balanced Pausing s"
  shows "wp service_pause (\<lambda>p s'. service_ok p s' \<and> (over p
    \<or> wa_value (win_os s (win_trace s) (WaitForSingleObject (g_stop_event s) 1000)) \<noteq> WAIT_OBJECT_0)) s"
  unfolding service_pause_def
proof (simp, rule wp_win, goal_cases)
  case (1 a e)
  let ?s = "s\<lparr>win_trace := (WaitForSingleObject (g_stop_event s) 1000, a) # win_trace s, last_error := e\<rparr>"
  have l: "only_logged s ?s" by (intro only_logged_call) simp
  have s1: "alive ?s" "balanced Pausing ?s"
    using assms alive_same [OF assms(1) only_logged_same [OF l]] by (simp_all add: only_logged_balanced [OF l])
  then have stop: "wp (set_service_status SERVICE_STOPPED NO_ERROR 0) (\<lambda>_. wp service_end (\<lambda>p s'. service_ok p s' \<and> over p)) ?s"
    by (rule stop_end)
  show ?case
  proof (cases "wa_value a = 0")
    case True
    then have "wp (do { _ \<leftarrow> set_service_status SERVICE_STOPPED NO_ERROR 0; service_end }) (\<lambda>p s'. service_ok p s' \<and> over p) ?s"
      using stop by simp
    then show ?thesis
      unfolding if_P [OF True] by (rule wp_mono) simp
  next
    case False
    have "service_ok Launch ?s"
      using s1 by (auto intro!: service_okI simp: balanced_Launch)
    then show ?thesis
      using False 1 by simp
  qed
qed

lemma control_ok:
  assumes "service_ok p s" and "p \<in> {Launch, Waiting, Pausing}"
  shows "wp (service_control_handler SERVICE_CONTROL_STOP) (\<lambda>_. service_ok p) s"
proof -
  have a: "alive s" "balanced p s" "p = Waiting \<Longrightarrow> fst (g_child s) \<noteq> 0"
    using assms by (auto simp: service_ok_def)
  show ?thesis
    unfolding service_control_handler_def
  proof (simp, rule set_service_status_only_logs, goal_cases)
    case (1 s1)
    note d = only_loggedD [OF 1]
    have e: "g_stop_event s1 \<noteq> 0"
      using a(1) d by (simp add: alive_def)
    have "wp (win (SetEvent (g_stop_event s1))) (\<lambda>_. service_ok p) s1"
    proof (rule wp_win, goal_cases)
      case (1 x k)
      let ?s = "s1\<lparr>win_trace := (SetEvent (g_stop_event s1), x) # win_trace s1, last_error := k\<rparr>"
      have "alive ?s"
        using a(1) d by (auto simp: alive_def new_status_def)
      moreover have "balanced p ?s"
        using a(2) d by (simp add: balanced_def held_def)
      ultimately show ?case
        using assms(2) a(3) d by (auto intro!: service_okI)
    qed
    then show ?case
      using e by simp
  qed
qed

definition unstarted :: "service \<Rightarrow> bool" where
  "unstarted s \<longleftrightarrow> win_trace s = [] \<and> g_stop_event s = 0 \<and> g_child s = (0, 0)"

lemma start_ok:
  assumes "unstarted s"
  shows "wp service_start service_ok s"
  unfolding service_start_def
proof (simp, rule wp_win, goal_cases)
  case (1 h e)
  define s1 where "s1 = s\<lparr>win_trace := [(RegisterServiceCtrlHandler (g_service_name s), h)], last_error := e, g_status_handle := wa_value h\<rparr>"
  have s1: "s\<lparr>win_trace := (RegisterServiceCtrlHandler (g_service_name s), h) # win_trace s, last_error := e, g_status_handle := wa_value h\<rparr> = s1"
    using assms by (simp add: s1_def unstarted_def)
  have event: "wp (win CreateEvent) (\<lambda>r s. wp (if wa_value r = 0
        then do { err \<leftarrow> reads last_error; _ \<leftarrow> set_service_status SERVICE_STOPPED err 0; State_Monad.return Ended }
        else do { _ \<leftarrow> set_service_status SERVICE_RUNNING NO_ERROR 0; State_Monad.return Launch }) service_ok (s\<lparr>g_stop_event := wa_value r\<rparr>)) s2"
    if l: "only_logged (s1\<lparr>g_status := new_status SERVICE_START_PENDING NO_ERROR 5000\<rparr>) s2" and "wa_value h \<noteq> 0" for s2
  proof (rule wp_win, goal_cases)
    case (1 a k)
    have d: "opened (win_trace s2) = {#}" "closed (win_trace s2) = {#}" "g_status_handle s2 \<noteq> 0"
      using only_loggedD [OF l] that(2) by (simp_all add: s1_def)
    show ?case
      using d by (auto simp: wp_if intro!: set_service_status_only_logs)
        (auto dest!: only_logged_fields simp: service_ok_def balanced_def held_def alive_def new_status_def)
  qed
  show ?case
    using assms event unfolding s1
    by (auto simp: wp_if service_ok_def unstarted_def balanced_def held_def s1_def intro!: set_service_status_only_logs)
qed

section \<open>Runs\<close>

lemma service_run_ok: "service_run s0 p s \<Longrightarrow> unstarted s0 \<Longrightarrow> service_ok p s"
proof (induction rule: service_run.induct)
  case (start p s)
  then show ?case using wpD [OF start_ok] by blast
next
  case (main p s p' s')
  then have ok: "service_ok p s" by blast
  then have a: "alive s" "balanced p s" "p = Waiting \<Longrightarrow> fst (g_child s) \<noteq> 0"
    using main.hyps(2) by (auto simp: service_ok_def)
  have "wp (service_step p) service_ok s"
    using main.hyps(2) a
    by (auto simp: service_step_def intro: wp_mono [OF launch_ok] wp_mono [OF wait_ok] wp_mono [OF pause_ok])
  then show ?case
    using main.hyps(3) by (rule wpD)
next
  case (control p s r s')
  then show ?case using wpD [OF control_ok] by blast
qed

text \<open>No step changes the system.\<close>

named_theorems os_rules \<open>rules for programs of the service, none of which changes the system\<close>

definition keeps_os :: "(service, 'a) state \<Rightarrow> bool" where
  "keeps_os m \<longleftrightarrow> (\<forall>s. wp m (\<lambda>_ s'. win_os s' = win_os s) s)"

lemma keeps_os_basic [os_rules]: "keeps_os (State_Monad.return x)" "keeps_os (reads f)" "keeps_os (win c)"
  "keeps_os (update_state (g_status_update g1))" "keeps_os (update_state (g_stop_event_update g2))" "keeps_os (update_state (g_child_update g3))"
  "keeps_os (update_state (g_status_handle_update g2))"
  by (auto simp: keeps_os_def intro: wp_win)

lemma keeps_os_bind [os_rules]: "keeps_os m \<Longrightarrow> (\<And>r. keeps_os (f r)) \<Longrightarrow> keeps_os (State_Monad.bind m f)"
  unfolding keeps_os_def wp_simps by (metis (mono_tags, lifting) wp_mono)

lemma keeps_os_cases [os_rules]:
  "(\<And>x. keeps_os (a x)) \<Longrightarrow> keeps_os b \<Longrightarrow> keeps_os c \<Longrightarrow> keeps_os (case p of Printed x \<Rightarrow> a x | Too_long \<Rightarrow> b | Unterminated \<Rightarrow> c)"
  "keeps_os a' \<Longrightarrow> keeps_os b' \<Longrightarrow> keeps_os (if q then a' else b')" "(\<And>x. keeps_os (f x)) \<Longrightarrow> keeps_os (let x = e in f x)"
  "keeps_os n \<Longrightarrow> (\<And>x. keeps_os (g x)) \<Longrightarrow> keeps_os (case o' of None \<Rightarrow> n | Some x \<Rightarrow> g x)"
  "(\<And>x y. keeps_os (h x y)) \<Longrightarrow> keeps_os (case pr of (x, y) \<Rightarrow> h x y)"
  "keeps_os t \<Longrightarrow> keeps_os f' \<Longrightarrow> keeps_os (case bb of True \<Rightarrow> t | False \<Rightarrow> f')"
  by (auto split: printed.splits option.splits prod.splits bool.splits)

lemma keeps_os_parts [os_rules]: "keeps_os (set_service_status st x h)" "keeps_os get_log_path" "keeps_os close_child_handles" "keeps_os service_end"
  unfolding set_service_status_def get_log_path_def close_child_handles_def service_end_def by (intro os_rules)+

lemma keeps_os_more [os_rules]: "keeps_os (append_service_log m v)" "keeps_os start_child_server" "keeps_os (service_control_handler c)" "keeps_os service_start"
  "keeps_os service_pause"
  unfolding append_service_log_def start_child_server_def service_control_handler_def service_start_def service_pause_def by (intro os_rules)+

lemma keeps_os_waits [os_rules]: "keeps_os (service_stop hp)" "keeps_os (service_restart hp)" "keeps_os (service_unexpected x)" "keeps_os service_launch"
  unfolding service_stop_def service_restart_def service_unexpected_def service_launch_def by (intro os_rules)+

lemma keeps_os_step [os_rules]: "keeps_os (service_step p)"
  unfolding service_step_def service_wait_def by (cases p; simp; intro os_rules)

lemma keeps_osD: "keeps_os m \<Longrightarrow> run_state m s = (r, s') \<Longrightarrow> win_os s' = win_os s"
  unfolding keeps_os_def by (blast dest: wpD)

lemma service_run_os: "service_run s0 p s \<Longrightarrow> win_os s = win_os s0"
  by (induction rule: service_run.induct) (metis keeps_osD os_rules)+

section \<open>A machine to run it on\<close>

fun sets_event :: "int \<Rightarrow> win_call \<times> win_answer \<Rightarrow> bool" where
  "sets_event e (SetEvent e', _) = (e' = e)"
| "sets_event e _ = False"

definition says :: "int \<Rightarrow> win_answer" where
  "says v = \<lparr>wa_value = v, wa_second = v + 1, wa_text = ''iperf3.exe'', wa_error = 0\<rparr>"

fun demo_os :: "win_trace \<Rightarrow> win_call \<Rightarrow> win_answer" where
  "demo_os tr (WaitForMultipleObjects e _) = says (if list_ex (sets_event e) tr then WAIT_OBJECT_0 else 1)"
| "demo_os tr (WaitForSingleObject e _) = says (if list_ex (sets_event e) tr then WAIT_OBJECT_0 else 258)"
| "demo_os tr (GetEnvironmentVariable _) = says 0"
| "demo_os tr CreateEvent = says 5"
| "demo_os tr (CreateProcess _) = says 7"
| "demo_os tr _ = says 1"

definition demo :: service where
  "demo = \<lparr>g_status_handle = 0, g_status = new_status 0 0 0, g_stop_event = 0, g_child = (0, 0), g_service_name = SERVICE_DEFAULT_NAME,
     last_error = 0, win_os = demo_os, win_trace = []\<rparr>"

definition demo_waits :: "place \<times> service" where
  "demo_waits = run_state (do { p \<leftarrow> service_start; service_step p }) demo"

definition demo_stopping :: service where
  "demo_stopping = snd (run_state (service_control_handler SERVICE_CONTROL_STOP) (snd demo_waits))"

lemma demo_unstarted: "unstarted demo"
  by (simp add: unstarted_def demo_def)

lemma demo_places: "fst (run_state service_start demo) = Launch" "fst demo_waits = Waiting"
  by code_simp+

lemma demo_run: "service_run demo Waiting (snd demo_waits)"
proof -
  have "service_run demo Launch (snd (run_state service_start demo))"
    using demo_places(1) by (intro service_run.start) (metis prod.collapse)
  moreover have "run_state (service_step Launch) (snd (run_state service_start demo)) = demo_waits"
    using demo_places(1) by (simp add: demo_waits_def case_prod_beta)
  ultimately show ?thesis
    using demo_places(2) service_run.main [of demo Launch "snd (run_state service_start demo)" Waiting "snd demo_waits"]
    by (metis insertI1 prod.collapse)
qed

lemma demo_stopping_run: "service_run demo Waiting demo_stopping"
proof (rule service_run.control [OF demo_run])
  show "dwControlsAccepted (g_status (snd demo_waits)) = SERVICE_ACCEPT_STOP" by code_simp
  show "run_state (service_control_handler SERVICE_CONTROL_STOP) (snd demo_waits)
      = (fst (run_state (service_control_handler SERVICE_CONTROL_STOP) (snd demo_waits)), demo_stopping)"
    by (simp add: demo_stopping_def)
qed simp

section \<open>The commands\<close>

text \<open>A program closes as many handles as it opens, and the same ones.\<close>

definition closes_all :: "(service, 'a) state \<Rightarrow> bool" where
  "closes_all m \<longleftrightarrow> (\<forall>s. wp m (\<lambda>_ s'. opened (win_trace s') + closed (win_trace s) = closed (win_trace s') + opened (win_trace s)) s)"

lemma closes_all_install: "closes_all (install_service name)"
  unfolding closes_all_def install_service_def close_service_def
  by (intro allI) (auto simp: wp_if snprintf_ms_def ac_simps intro!: wp_win)

lemma closes_all_on_service: "(\<And>h. handleless (c h)) \<Longrightarrow> closes_all (on_service access c ok name)"
  unfolding closes_all_def on_service_def close_service_def
  by (intro allI) (auto simp: wp_if handleless_def ac_simps intro!: wp_win)

lemma closes_all_commands: "closes_all (start_service_cmd name)" "closes_all (stop_service_cmd name)" "closes_all (remove_service name)"
  unfolding start_service_cmd_def stop_service_cmd_def remove_service_def
  by (rule closes_all_on_service, simp)+

lemma closes_all_result: "closes_all m \<Longrightarrow> closes_all (do { r \<leftarrow> m; State_Monad.return (f r) })"
  by (simp add: closes_all_def)

lemma closes_all_run: "closes_all (do { _ \<leftarrow> update_state (g_service_name_update (\<lambda>_. name)); r \<leftarrow> run_service_dispatcher; State_Monad.return (f r) })"
  unfolding closes_all_def run_service_dispatcher_def by (auto intro!: wp_win)

lemma closes_all_return: "closes_all (State_Monad.return x)"
  by (simp add: closes_all_def)

lemma closes_all_if: "(b \<Longrightarrow> closes_all m) \<Longrightarrow> (\<not> b \<Longrightarrow> closes_all n) \<Longrightarrow> closes_all (if b then m else n)"
  by simp

lemma closes_all_maybe_handle: "closes_all (iperf_win32_service_maybe_handle argv)"
  unfolding iperf_win32_service_maybe_handle_def Let_def
  by (intro closes_all_if closes_all_return closes_all_run closes_all_result closes_all_install closes_all_commands)

text \<open>
  A system on which a wait for an event that has been set returns at once.
\<close>

definition events_stay_set :: "(win_trace \<Rightarrow> win_call \<Rightarrow> win_answer) \<Rightarrow> bool" where
  "events_stay_set f \<longleftrightarrow> (\<forall>tr e a. (SetEvent e, a) \<in> set tr \<longrightarrow>
     (\<forall>h. wa_value (f tr (WaitForMultipleObjects e h)) = WAIT_OBJECT_0) \<and> (\<forall>t. wa_value (f tr (WaitForSingleObject e t)) = WAIT_OBJECT_0))"

lemma demo_events: "events_stay_set demo_os"
  unfolding events_stay_set_def by (force simp: says_def list_ex_iff)

text \<open>
  C12: at every point of a run of the service, whatever the system answers and whenever a stop arrives, the handles that were
  opened are the ones that were closed and the ones the service holds: the event, and the child's while it waits for it.
  When the service has ended it holds none and its status is \<open>SERVICE_STOPPED\<close>.
\<close>

theorem service_keeps_handles:
  assumes "service_run s0 p s" and "unstarted s0" and "p \<noteq> Undefined"
  shows "opened (win_trace s) = closed (win_trace s) + held p s
    \<and> (p = Ended \<longrightarrow> opened (win_trace s) = closed (win_trace s) \<and> (g_status_handle s \<noteq> 0 \<longrightarrow> dwCurrentState (g_status s) = SERVICE_STOPPED))"
  using service_run_ok [OF assms(1,2)] assms(3) by (auto simp: service_ok_def balanced_def held_def)

theorem service_keeps_handles_witness:
  "opened (win_trace (snd demo_waits)) = closed (win_trace (snd demo_waits)) + held Waiting (snd demo_waits)"
  using service_keeps_handles [OF demo_run demo_unstarted] by simp

fun service_steps :: "nat \<Rightarrow> place \<Rightarrow> service \<Rightarrow> place \<times> service" where
  "service_steps 0 p s = (p, s)"
| "service_steps (Suc n) p s = (let (p', s') = run_state (service_step p) s in service_steps n p' s')"

lemma waiting_stops:
  assumes "service_ok Waiting s" and "dwCurrentState (g_status s) = SERVICE_STOP_PENDING" and "events_stay_set (win_os s)"
  shows "over (fst (service_steps 1 Waiting s))"
proof -
  have a: "alive s" "balanced Waiting s" "fst (g_child s) \<noteq> 0"
    using assms(1) by (simp_all add: service_ok_def)
  then have "wa_value (win_os s (win_trace s) (WaitForMultipleObjects (g_stop_event s) (fst (g_child s)))) = WAIT_OBJECT_0"
    using assms(2,3) by (auto simp: alive_def events_stay_set_def)
  then show ?thesis
    using wait_ok [OF a] by (auto simp: wp_def service_step_def split: prod.splits)
qed

lemma pausing_stops:
  assumes "service_ok Pausing s" and "dwCurrentState (g_status s) = SERVICE_STOP_PENDING" and "events_stay_set (win_os s)"
  shows "over (fst (service_steps 1 Pausing s))"
proof -
  have a: "alive s" "balanced Pausing s"
    using assms(1) by (simp_all add: service_ok_def)
  then have "wa_value (win_os s (win_trace s) (WaitForSingleObject (g_stop_event s) 1000)) = WAIT_OBJECT_0"
    using assms(2,3) by (auto simp: alive_def events_stay_set_def)
  then show ?thesis
    using pause_ok [OF a] by (auto simp: wp_def service_step_def split: prod.splits)
qed

lemma launching_stops:
  assumes "service_ok Launch s" and "dwCurrentState (g_status s) = SERVICE_STOP_PENDING" and "events_stay_set (win_os s)"
  shows "over (fst (service_steps 1 Launch s)) \<or> over (fst (service_steps 2 Launch s))"
proof -
  obtain p s1 where run: "run_state service_launch s = (p, s1)" by fastforce
  have "alive s" "balanced Launch s"
    using assms(1) by (simp_all add: service_ok_def)
  from wpD [OF launch_ok [OF this] run]
  have p: "service_ok p s1" "p = Waiting \<Longrightarrow> same_status s s1" "p \<in> {Waiting, Ended, Undefined}" by blast+
  show ?thesis
  proof (cases "p = Waiting")
    case True
    then have "over (fst (service_steps 1 Waiting s1))"
      using p assms by (intro waiting_stops) (auto simp: same_status_def)
    then show ?thesis
      using run True by (simp add: service_step_def numeral_2_eq_2)
  qed (use p run in \<open>auto simp: service_step_def\<close>)
qed

text \<open>
  C13: a stop is obeyed: once the service is in the status \<open>SERVICE_STOP_PENDING\<close>, its thread ends after at most two more steps,
  even if it was about to start the server again (unless a path has exactly the length of its buffer).
\<close>

theorem service_stop_obeyed:
  assumes "service_run s0 p s" and "unstarted s0" and "dwCurrentState (g_status s) = SERVICE_STOP_PENDING" and "events_stay_set (win_os s0)"
  shows "\<exists>n\<le>2. over (fst (service_steps n p s))"
proof -
  have e: "events_stay_set (win_os s)"
    using service_run_os [OF assms(1)] assms(4) by simp
  show ?thesis
  proof (cases p)
  case Launch
  then show ?thesis
    using launching_stops [OF _ assms(3) e] service_run_ok [OF assms(1,2)] by (metis one_le_numeral order_refl)
next
  case Waiting
  then show ?thesis
    using waiting_stops [OF _ assms(3) e] service_run_ok [OF assms(1,2)] by (metis one_le_numeral)
next
  case Pausing
  then show ?thesis
    using pausing_stops [OF _ assms(3) e] service_run_ok [OF assms(1,2)] by (metis one_le_numeral)
qed (auto intro: exI [of _ 0])
qed

theorem service_stop_obeyed_witness: "\<exists>n\<le>2. over (fst (service_steps n Waiting demo_stopping))"
proof -
  have "dwCurrentState (g_status demo_stopping) = SERVICE_STOP_PENDING" by code_simp
  moreover have "win_os demo = demo_os" by (simp add: demo_def)
  ultimately show ?thesis
    using service_stop_obeyed [OF demo_stopping_run demo_unstarted] demo_events by simp
qed

end
