(* ===== verification/Program.thy ===== *)
theory Program
  imports Cmdline Client Server Service
begin

text \<open>
  The main program (\<open>main.c\<close>) with what it takes from \<open>iperf_api.c\<close> and \<open>iperf_error.c\<close>: the file with the
  number of the process, the ends of the program, and the signals. A function that may end the process has
  the result \<open>Ends\<close> with the exit code. The handlers of signals leave a run by a long jump; \<open>iperf_got_sigend\<close>
  is what happens then, from whatever state the run had reached.
\<close>

datatype 'a continues = Goes_on 'a | Ends int

section \<open>The file of the process number\<close>

abbreviation ESRCH :: int where "ESRCH \<equiv> 3"

text \<open>The handle of the process is closed at once.\<close>

definition kill :: "int \<Rightarrow> ('z sys_scheme, int) state" where
  "kill pid = do {
     a \<leftarrow> call (OpenProcess pid);
     if ret a = 0 then do { _ \<leftarrow> set_errno ESRCH; State_Monad.return (- 1) } else State_Monad.return 0 }"

definition getpid :: "('z sys_scheme, int) state" where
  "getpid = do { a \<leftarrow> call CurrentProcessId; State_Monad.return (to_int (val a)) }"

definition iperf_delete_pidfile :: "('z world_scheme, int) state" where
  "iperf_delete_pidfile = do {
     test \<leftarrow> reads the_test;
     case test_pidfile test of
       None \<Rightarrow> State_Monad.return 0
     | Some f \<Rightarrow> do { a \<leftarrow> crt (Crt_unlink f); State_Monad.return (if ret a < 0 then - 1 else 0) } }"

definition iperf_exit :: "callbacks \<Rightarrow> int \<Rightarrow> string \<Rightarrow> 'a continues prog" where
  "iperf_exit user exit_code str w = do {
     w \<leftarrow> (if test_json_output (the_test w) \<noteq> 0 then do {
            let w = (if test_json_top (the_test w) \<noteq> None then set_test (add_top ''error'' (JString (snprintf 1000 str))) w else w);
            (_, w) \<leftarrow> iperf_json_finish user w;
            Some w }
          else Some w);
     (_, w) \<leftarrow> run iperf_delete_pidfile w;
     Some (Ends exit_code, w) }"

definition iperf_errexit :: "callbacks \<Rightarrow> string \<Rightarrow> 'a continues prog" where
  "iperf_errexit user str w = iperf_exit user 1 str w"

definition iperf_signormalexit :: "callbacks \<Rightarrow> string \<Rightarrow> 'a continues prog" where
  "iperf_signormalexit user str w = iperf_exit user 0 str w"

text \<open>
  The number in a buffer of 8 bytes that is not initialised (\<open>junk\<close>) and of which a file has filled the front.
  \<open>None\<close> if the digits run over its end.
\<close>

definition number_in :: "byte list \<Rightarrow> byte list \<Rightarrow> int option" where
  "number_in junk bs =
     (let buf = map (\<lambda>b. char_of (unat b)) (take 8 (bs @ drop (length bs) junk))
      in if snd (split_while is_digit (snd (scan_sign (snd (split_while is_space buf))))) = [] then None
         else Some (atoi (takeWhile (\<lambda>c. c \<noteq> CHR 0x00) buf)))"

definition write_pidfile :: "string \<Rightarrow> int prog" where
  "write_pidfile f w = do {
     (a, w) \<leftarrow> run (crt (Crt_open f O_CREATE_WRITE)) w;
     if ret a < 0 then Some (- 1, w)
     else do {
       (pid, w) \<leftarrow> run getpid w;
       if length (show_int pid) \<ge> 8 then None
       else do {
         (n, w) \<leftarrow> run (iperf_win32_write (ret a) (map (\<lambda>c. of_nat (char_code c)) (show_int pid))) w;
         if n < 0 then do { (_, w) \<leftarrow> run (iperf_win32_close (ret a)) w; Some (- 1, w) }
         else do {
           (c, w) \<leftarrow> run (iperf_win32_close (ret a)) w;
           Some (if c < 0 then - 1 else 0, w) } } } }"

definition iperf_create_pidfile :: "callbacks \<Rightarrow> byte list \<Rightarrow> int continues prog" where
  "iperf_create_pidfile user junk w =
     (case test_pidfile (the_test w) of
        None \<Rightarrow> Some (Goes_on 0, w)
      | Some f \<Rightarrow> do {
          (a, w) \<leftarrow> run (crt (Crt_open f O_RDONLY)) w;
          (there, w) \<leftarrow> (if ret a < 0 then Some (False, w)
            else do {
              ((n, bs), w) \<leftarrow> run (iperf_win32_read (ret a) 7) w;
              (k, w) \<leftarrow> (if n < 0 then Some (- 1, w)
                else do {
                  pid \<leftarrow> number_in junk bs;
                  if pid > 0 then run (kill pid) w else Some (- 1, w) });
              if k = 0 then Some (True, w)
              else do { (_, w) \<leftarrow> run (iperf_win32_close (ret a)) w; Some (False, w) } });
          if there
          then iperf_errexit user ''Another instance of iperf3 appears to be running'' (set_test (test_pidfile_update (\<lambda>_. None)) w)
          else do { (r, w) \<leftarrow> write_pidfile f w; Some (Goes_on r, w) } })"

section \<open>Signals\<close>

abbreviation SIGHUP :: int where "SIGHUP \<equiv> 1"
abbreviation SIGINT :: int where "SIGINT \<equiv> 2"
abbreviation SIGTERM :: int where "SIGTERM \<equiv> 15"

definition strsignal :: "int \<Rightarrow> string" where
  "strsignal sig = ''signal '' @ show_int sig"

definition last_statistics :: "platform \<Rightarrow> callbacks \<Rightarrow> iperf \<Rightarrow> iperf option" where
  "last_statistics pf user w = do {
     let w = set_test (test_done_update (\<lambda>_. 1)) w;
     (_, w) \<leftarrow> run cpu_util_test w;
     w \<leftarrow> call_pointer pf user (test_stats_callback (the_test w)) w;
     let w = set_test (\<lambda>t. iperf_set_test_state t DISPLAY_RESULTS) w;
     w \<leftarrow> call_if_set pf user (test_on_test_finish (the_test w)) w;
     call_pointer pf user (test_reporter_callback (the_test w)) w }"

definition sigend_exit :: "callbacks \<Rightarrow> int \<Rightarrow> string \<Rightarrow> unit continues prog" where
  "sigend_exit user sig msg w =
     (let str = ''interrupt - '' @ msg @ '' by signal '' @ strsignal sig @ ''('' @ show_int sig @ '')''
      in if sig \<in> {SIGTERM, SIGINT, SIGHUP} then iperf_signormalexit user str w else iperf_errexit user str w)"

definition iperf_got_sigend :: "platform \<Rightarrow> callbacks \<Rightarrow> int \<Rightarrow> unit continues prog" where
  "iperf_got_sigend pf user sig w = do {
     let client = (test_role (the_test w) = Some CHR ''c'');
     w \<leftarrow> (if client \<or> (test_role (the_test w) = Some CHR ''s'' \<and> test_state (the_test w) = TEST_RUNNING)
          then last_statistics pf user w else Some w);
     w \<leftarrow> (if test_ctrl_sck (the_test w) \<ge> 0 then do {
            let w = set_test (\<lambda>t. iperf_set_test_state t (if client then CLIENT_TERMINATE else SERVER_TERMINATE)) w;
            (_, w) \<leftarrow> run (Nwrite (test_ctrl_sck (the_test w)) [word_of_int (test_state (the_test w))] Ptcp) w;
            Some w }
          else Some w);
     let w = w\<lparr>i_errno := (if client then IECLIENTTERM else IESERVERTERM)\<rparr>;
     (msg, w) \<leftarrow> run (iperf_strerror (pf_strerror pf) (pf_gai_strerror pf) (i_errno w)) w;
     sigend_exit user sig msg w }"

section \<open>Running a server and a client\<close>

definition error_text :: "platform \<Rightarrow> string prog" where
  "error_text pf w = do {
     (msg, w) \<leftarrow> run (iperf_strerror (pf_strerror pf) (pf_gai_strerror pf) (i_errno w)) w;
     Some (''error - '' @ msg, w) }"

definition die :: "platform \<Rightarrow> callbacks \<Rightarrow> 'a continues prog" where
  "die pf user w = do { (str, w) \<leftarrow> error_text pf w; iperf_errexit user str w }"

text \<open>\<open>daemon\<close> of the compatibility layer.\<close>

definition daemon :: "('z sys_scheme, int) state" where
  "daemon = do { _ \<leftarrow> set_errno ENOSYS; State_Monad.return (- 1) }"

text \<open>What follows a test of the server: another one, the end of the loop, or the return of \<open>run\<close> with -1.\<close>

datatype next_round = Again | Stops | Breaks

definition after_round :: "platform \<Rightarrow> callbacks \<Rightarrow> int \<Rightarrow> next_round continues prog" where
  "after_round pf user rc w = do {
     let w = set_test (test_server_last_run_rc_update (\<lambda>_. rc)) w;
     (s, w) \<leftarrow> (if rc \<ge> 0 then Some (Goes_on True, w)
       else do {
         (str, w) \<leftarrow> error_text pf w;
         (_, w) \<leftarrow> run (iperf_err str) w;
         (r, w) \<leftarrow> (if test_json_output (the_test w) \<noteq> 0 then iperf_json_finish user w else Some (0, w));
         if r < 0 then Some (Goes_on False, w)
         else if rc < - 1 then iperf_errexit user ''exiting'' w
         else Some (Goes_on True, w) });
     (case s of
        Ends e \<Rightarrow> Some (Ends e, w)
      | Goes_on False \<Rightarrow> Some (Goes_on Breaks, w)
      | Goes_on True \<Rightarrow> do {
          w \<leftarrow> iperf_reset_test w;
          Some (Goes_on (if iperf_get_test_one_off (the_test w) \<noteq> 0 \<and> rc \<noteq> 2 \<and> \<not> (rc < 0 \<and> i_errno w = IEAUTHTEST)
            then Stops else Again), w) }) }"

text \<open>The tests of a server one after the other; the result is how \<open>run\<close> or the process ends.\<close>

inductive server_rounds :: "platform \<Rightarrow> callbacks \<Rightarrow> iperf \<Rightarrow> int continues \<Rightarrow> iperf \<Rightarrow> bool"
  for pf user where
  exits: "iperf_run_server pf user flag w None w' \<Longrightarrow> server_rounds pf user w (Ends 0) w'"
| ends: "iperf_run_server pf user flag w (Some rc) w1 \<Longrightarrow> after_round pf user rc w1 = Some (Ends e, w') \<Longrightarrow> server_rounds pf user w (Ends e) w'"
| breaks: "iperf_run_server pf user flag w (Some rc) w1 \<Longrightarrow> after_round pf user rc w1 = Some (Goes_on Breaks, w')
    \<Longrightarrow> server_rounds pf user w (Goes_on (- 1)) w'"
| stops: "iperf_run_server pf user flag w (Some rc) w1 \<Longrightarrow> after_round pf user rc w1 = Some (Goes_on Stops, w2)
    \<Longrightarrow> run iperf_delete_pidfile w2 = Some (r, w') \<Longrightarrow> server_rounds pf user w (Goes_on 0) w'"
| again: "iperf_run_server pf user flag w (Some rc) w1 \<Longrightarrow> after_round pf user rc w1 = Some (Goes_on Again, w2)
    \<Longrightarrow> server_rounds pf user w2 r w' \<Longrightarrow> server_rounds pf user w r w'"

text \<open>The part of \<open>run\<close> before the tests: the daemon and the file of the process number.\<close>

definition before_run :: "platform \<Rightarrow> callbacks \<Rightarrow> byte list \<Rightarrow> unit continues prog" where
  "before_run pf user junk w = do {
     (d, w) \<leftarrow> (if test_role (the_test w) = Some CHR ''s'' \<and> test_daemon (the_test w) \<noteq> 0 then run daemon w else Some (0, w));
     if d < 0 then die pf user (w\<lparr>i_errno := IEDAEMON\<rparr>)
     else do {
       (s, w) \<leftarrow> iperf_create_pidfile user junk w;
       (case s of
          Ends e \<Rightarrow> Some (Ends e, w)
        | Goes_on r \<Rightarrow> if r < 0 then die pf user (w\<lparr>i_errno := IEPIDFILE\<rparr>) else Some (Goes_on (), w)) } }"

inductive main_run :: "platform \<Rightarrow> callbacks \<Rightarrow> byte list \<Rightarrow> iperf \<Rightarrow> int continues \<Rightarrow> iperf \<Rightarrow> bool"
  for pf user junk w0 where
  no_role: "test_role (the_test w0) \<notin> {Some CHR ''s'', Some CHR ''c''} \<Longrightarrow> main_run pf user junk w0 (Goes_on 0) w0"
| not_started: "test_role (the_test w0) \<in> {Some CHR ''s'', Some CHR ''c''} \<Longrightarrow> before_run pf user junk w0 = Some (Ends e, w)
    \<Longrightarrow> main_run pf user junk w0 (Ends e) w"
| server: "test_role (the_test w0) = Some CHR ''s'' \<Longrightarrow> before_run pf user junk w0 = Some (Goes_on (), w) \<Longrightarrow> server_rounds pf user w r w'
    \<Longrightarrow> main_run pf user junk w0 r w'"
| client_failed: "test_role (the_test w0) = Some CHR ''c'' \<Longrightarrow> before_run pf user junk w0 = Some (Goes_on (), w)
    \<Longrightarrow> iperf_run_client pf user variable w r w1 \<Longrightarrow> r < 0 \<Longrightarrow> die pf user w1 = Some (s, w') \<Longrightarrow> main_run pf user junk w0 s w'"
| client: "test_role (the_test w0) = Some CHR ''c'' \<Longrightarrow> before_run pf user junk w0 = Some (Goes_on (), w)
    \<Longrightarrow> iperf_run_client pf user variable w r w1 \<Longrightarrow> 0 \<le> r \<Longrightarrow> run iperf_delete_pidfile w1 = Some (d, w')
    \<Longrightarrow> main_run pf user junk w0 (Goes_on 0) w'"

section \<open>The program\<close>

text \<open>The first call of \<open>iperf_win32_startup\<close>; later ones do nothing.\<close>

definition iperf_win32_startup :: "('z sys_scheme, int) state" where
  "iperf_win32_startup = do {
     a \<leftarrow> call WSAStartup;
     if ret a \<noteq> 0 then do { _ \<leftarrow> set_errno (win32_wsa_to_errno (ret a)); State_Monad.return (- 1) } else State_Monad.return 0 }"

text \<open>The start of the program: the test with the arguments of the command line, or the end of the process.\<close>

definition main_begin :: "(string \<Rightarrow> bool) \<Rightarrow> string list \<Rightarrow> iperf \<Rightarrow> (unit continues \<times> iperf) option" where
  "main_begin link_local argv w = do {
     (r, w) \<leftarrow> run iperf_win32_startup w;
     if r < 0 then Some (Ends 1, w)
     else do {
       let w = set_test (\<lambda>_. iperf_new_test) w;
       (_, w) \<leftarrow> run iperf_defaults w;
       (p, s) \<leftarrow> iperf_parse_arguments link_local argv (start_parse getopt_init w);
       let w = iperf.truncate s;
       (case p of
          Parse_exits e \<Rightarrow> Some (Ends e, w)
        | Parse_returns r \<Rightarrow> if r < 0 then Some (Ends 1, w) else Some (Goes_on (), w)
        | _ \<Rightarrow> None) } }"

inductive main :: "platform \<Rightarrow> callbacks \<Rightarrow> (string \<Rightarrow> bool) \<Rightarrow> string list \<Rightarrow> service \<Rightarrow> iperf \<Rightarrow> int \<Rightarrow> bool"
  for pf user link_local argv sv w0 where
  service: "run_state (iperf_win32_service_maybe_handle argv) sv = (Some (Some code), sv') \<Longrightarrow> main pf user link_local argv sv w0 code"
| arguments: "fst (run_state (iperf_win32_service_maybe_handle argv) sv) = None \<Longrightarrow> main_begin link_local argv w0 = Some (Ends e, w)
    \<Longrightarrow> main pf user link_local argv sv w0 e"
| ended: "fst (run_state (iperf_win32_service_maybe_handle argv) sv) = None \<Longrightarrow> main_begin link_local argv w0 = Some (Goes_on (), w)
    \<Longrightarrow> main_run pf user junk w (Ends e) w' \<Longrightarrow> main pf user link_local argv sv w0 e"
| returned: "fst (run_state (iperf_win32_service_maybe_handle argv) sv) = None \<Longrightarrow> main_begin link_local argv w0 = Some (Goes_on (), w)
    \<Longrightarrow> main_run pf user junk w (Goes_on r) w' \<Longrightarrow> 0 \<le> r \<Longrightarrow> main pf user link_local argv sv w0 0"
| failed: "fst (run_state (iperf_win32_service_maybe_handle argv) sv) = None \<Longrightarrow> main_begin link_local argv w0 = Some (Goes_on (), w)
    \<Longrightarrow> main_run pf user junk w (Goes_on r) w' \<Longrightarrow> r < 0 \<Longrightarrow> die pf user w' = Some (Ends e, w'') \<Longrightarrow> main pf user link_local argv sv w0 e"

end
