(* ===== verification/Program_Correct.thy ===== *)
theory Program_Correct
  imports Program Session
begin

text \<open>
  The file with the number of the process: what one process writes another one reads back, and a second
  instance leaves the file of the first alone. An interrupted server tells its client.
\<close>

section \<open>The number in the file\<close>

definition digits_of :: "int \<Rightarrow> byte list" where
  "digits_of pid = map (\<lambda>c. of_nat (char_code c)) (show_int pid)"

definition chr :: "byte \<Rightarrow> char" where
  "chr b = char_of (unat b)"

lemma chr_of_code [simp]: "chr (of_nat (char_code c)) = c"
  by (simp add: chr_def char_code_def unat_of_nat)

lemma chr_digits: "map chr (digits_of pid) = show_int pid"
  by (simp add: digits_of_def comp_def)

lemma not_digit_value: "\<not> is_digit c \<Longrightarrow> \<not> digit_value c < 10"
  by (auto simp: digit_value_def is_upper_def is_lower_def)

lemma number_in_digits:
  assumes "0 < pid" and "pid \<le> LONG_MAX" and "length (digits_of pid) < 8" and "length junk = 8"
    and "\<not> is_digit (chr (junk ! length (digits_of pid)))"
  shows "number_in junk (digits_of pid) = Some pid"
proof -
  let ?n = "length (digits_of pid)"
  define rest where "rest = map chr (drop ?n junk)"
  have drop: "drop ?n junk = junk ! ?n # drop (Suc ?n) junk"
    using assms(3,4) by (simp add: Cons_nth_drop_Suc)
  then obtain j js where rest: "rest = j # js" "\<not> is_digit j"
    using assms(5) by (simp add: rest_def)
  have buf: "map (\<lambda>b. char_of (unat b)) (take 8 (digits_of pid @ drop ?n junk)) = show_int pid @ rest"
    using assms(3,4) chr_digits [of pid] by (simp add: rest_def chr_def [abs_def])
  have sh: "show_int pid = show_nat (nat pid)" "\<forall>c\<in>set (show_nat (nat pid)). is_digit c"
    using assms(1) show_nat_digits by (simp_all add: show_int_def)
  obtain c cs where c: "show_nat (nat pid) = c # cs" "is_digit c"
    using show_nat_nonempty [of "nat pid"] show_nat_neq_minus by (metis neq_Nil_conv)
  have "split_while is_digit (show_nat (nat pid) @ rest) = (show_nat (nat pid), rest)"
    using sh(2) rest by (intro split_while_append) auto
  then have "snd (split_while is_digit (snd (scan_sign (snd (split_while is_space (show_int pid @ rest)))))) = rest"
    using sh(1) c is_digit_cases [OF c(2)] by (simp add: scan_sign_def)
  moreover have "takeWhile (\<lambda>c. c \<noteq> CHR 0x00) (show_int pid @ rest) = show_int pid @ takeWhile (\<lambda>c. c \<noteq> CHR 0x00) rest"
    using sh by (intro takeWhile_append2) (auto simp: is_digit_def char_code_def)
  moreover have "atoi (show_int pid @ takeWhile (\<lambda>c. c \<noteq> CHR 0x00) rest) = pid"
    unfolding atoi_def using assms(1,2) rest not_digit_value
    by (subst strtol_show_int) (auto simp: LONG_MIN_def split: if_splits)
  ultimately show ?thesis
    unfolding number_in_def Let_def buf using rest(1) by simp
qed

text \<open>The array is not initialised, so a digit that was there before counts as part of the number.\<close>

lemma digits_of_12: "digits_of 12 = [0x31, 0x32]"
  by (simp add: digits_of_def show_int_def show_nat.simps digit_def)

lemma number_in_stale: "number_in [0x31, 0x32, 0x33, 0, 0, 0, 0, 0] (digits_of 12) = Some 123"
  unfolding digits_of_12 number_in_def by code_simp

section \<open>A second instance\<close>

text \<open>A system on which the file \<open>f\<close> opens as \<open>fd\<close> and contains \<open>bs\<close>.\<close>

definition has_file :: "(events \<Rightarrow> syscall \<Rightarrow> answer) \<Rightarrow> string \<Rightarrow> int \<Rightarrow> byte list \<Rightarrow> bool" where
  "has_file f_os f fd bs \<longleftrightarrow> 0 \<le> fd \<and> (\<forall>tr. ret (f_os tr (Crt_open f O_RDONLY)) = fd
     \<and> ret (f_os tr (Recv fd 7 0)) = - 1 \<and> err (f_os tr (Recv fd 7 0)) = WSAENOTSOCK
     \<and> 0 \<le> ret (f_os tr (Crt_read fd 7)) \<and> bytes (f_os tr (Crt_read fd 7)) = bs)"

fun changes_file :: "string \<Rightarrow> syscall \<times> answer \<Rightarrow> bool" where
  "changes_file f (Crt_open g m, a) \<longleftrightarrow> g = f \<and> m \<noteq> O_RDONLY"
| "changes_file f (Crt_unlink g, a) \<longleftrightarrow> g = f"
| "changes_file f _ = False"

lemma read_file:
  fixes w :: iperf
  assumes "has_file (os w) f fd bs" and "length bs \<le> 7"
  shows "\<exists>w' new. run_state (iperf_win32_read fd 7) w = ((int (length bs), bs), w') \<and> trace w' = new @ trace w
    \<and> list_all (\<lambda>e. \<not> changes_file f e) new \<and> the_test w' = the_test w \<and> os w' = os w"
  using assms by (simp add: not_less has_file_def iperf_win32_read_def winsock_def crt_def run_call Let_def received_def)

lemma end_of_process:
  fixes w :: iperf
  assumes "test_pidfile (the_test w) = None" and "test_json_output (the_test w) = 0"
  shows "iperf_errexit user str w = Some (Ends 1, w)"
  using assms by (simp add: iperf_errexit_def iperf_exit_def iperf_delete_pidfile_def run_def)

lemma running_instance:
  assumes "has_file (os w) f fd (digits_of pid)" and "\<forall>tr. ret (os w tr (OpenProcess pid)) \<noteq> 0"
    and "test_pidfile (the_test w) = Some f" and "test_json_output (the_test w) = 0"
    and "0 < pid" and "pid \<le> LONG_MAX" and "length (digits_of pid) < 8" and "number_in junk (digits_of pid) = Some pid"
  shows "\<exists>w' new. iperf_create_pidfile user junk w = Some (Ends 1, w') \<and> trace w' = new @ trace w \<and> list_all (\<lambda>e. \<not> changes_file f e) new"
proof -
  let ?o = "(Crt_open f O_RDONLY, os w (trace w) (Crt_open f O_RDONLY))"
  let ?w1 = "w\<lparr>trace := ?o # trace w\<rparr>"
  have o: "run_state (crt (Crt_open f O_RDONLY)) w = (os w (trace w) (Crt_open f O_RDONLY), ?w1)" "ret (snd ?o) = fd" "0 \<le> fd"
    using assms(1) by (simp_all add: has_file_def crt_def run_call Let_def)
  have "has_file (os ?w1) f fd (digits_of pid)" "length (digits_of pid) \<le> 7"
    using assms(1,7) by simp_all
  then obtain w2 new where r: "run_state (iperf_win32_read fd 7) ?w1 = ((int (length (digits_of pid)), digits_of pid), w2)" "trace w2 = new @ trace ?w1"
      "list_all (\<lambda>e. \<not> changes_file f e) new" "the_test w2 = the_test ?w1" "os w2 = os ?w1"
    using read_file by blast
  let ?k = "(OpenProcess pid, os w (trace w2) (OpenProcess pid))"
  have k: "run_state (kill pid) w2 = (0, w2\<lparr>trace := ?k # trace w2\<rparr>)"
    using assms(2) r(5) by (simp add: kill_def run_call Let_def)
  have "iperf_create_pidfile user junk w = Some (Ends 1, set_test (test_pidfile_update (\<lambda>_. None)) (w2\<lparr>trace := ?k # trace w2\<rparr>))"
    using assms(3-5,8) o r(1,4) k by (simp add: iperf_create_pidfile_def run_def end_of_process set_test_def)
  then show ?thesis
    using r(2,3) by (simp add: set_test_def)
qed

text \<open>
  C14: A second instance is refused. If the file of the process number contains the decimal number of a process that
  runs, \<open>iperf_create_pidfile\<close> ends the process with exit code 1, and neither it nor the exit writes or deletes
  the file. The byte of the array behind the digits must not be a digit by chance.
\<close>

theorem second_instance_refused:
  assumes "has_file (os w) f fd (digits_of pid)" and "\<forall>tr. ret (os w tr (OpenProcess pid)) \<noteq> 0"
    and "test_pidfile (the_test w) = Some f" and "test_json_output (the_test w) = 0"
    and "0 < pid" and "pid \<le> LONG_MAX" and "length (digits_of pid) < 8"
    and "length junk = 8" and "\<not> is_digit (chr (junk ! length (digits_of pid)))"
  shows "\<exists>w' new. iperf_create_pidfile user junk w = Some (Ends 1, w') \<and> trace w' = new @ trace w \<and> list_all (\<lambda>e. \<not> changes_file f e) new"
  using assms by (intro running_instance number_in_digits)

definition pid_os :: "events \<Rightarrow> syscall \<Rightarrow> answer" where
  "pid_os tr c = (case c of
     Recv fd n m \<Rightarrow> (answers (- 1))\<lparr>err := WSAENOTSOCK\<rparr>
   | Crt_read fd n \<Rightarrow> (answers 2)\<lparr>bytes := [0x31, 0x32]\<rparr>
   | _ \<Rightarrow> answers 3)"

definition second_iperf :: iperf where
  "second_iperf = iperf0 pid_os (zero_test\<lparr>test_pidfile := Some ''p''\<rparr>) \<lparr>cells = (\<lambda>_. None), timers = None, free_timers = None\<rparr>"

theorem second_instance_refused_witness:
  "\<exists>w' new. iperf_create_pidfile (\<lambda>f w. Some w) (replicate 8 0) second_iperf = Some (Ends 1, w')
     \<and> trace w' = new @ trace second_iperf \<and> list_all (\<lambda>e. \<not> changes_file ''p'' e) new"
proof (rule second_instance_refused)
  show "has_file (os second_iperf) ''p'' 3 (digits_of 12)"
    by (simp add: has_file_def second_iperf_def pid_os_def answers_def digits_of_12)
  show "\<not> is_digit (chr (replicate 8 0 ! length (digits_of 12)))"
    by (simp add: digits_of_12 chr_def is_digit_def nth_replicate)
qed (simp_all add: second_iperf_def pid_os_def answers_def digits_of_12 LONG_MAX_def zero_test_def)


section \<open>An interrupted server\<close>

definition exit_code_of :: "int \<Rightarrow> int" where
  "exit_code_of sig = (if sig \<in> {SIGTERM, SIGINT, SIGHUP} then 0 else 1)"

lemma exit_plain:
  fixes w :: iperf
  assumes "test_json_output (the_test w) = 0"
  shows "\<exists>w' new. iperf_exit user code str w = Some (Ends code, w') \<and> trace w' = new @ trace w \<and> gather (accepts s) new = []"
  using assms by (simp add: iperf_exit_def iperf_delete_pidfile_def run_def crt_def run_call Let_def split: option.splits)

lemma sigend_exits:
  fixes w :: iperf
  assumes "test_json_output (the_test w) = 0"
  shows "\<exists>w' new. sigend_exit user sig msg w = Some (Ends (exit_code_of sig), w') \<and> trace w' = new @ trace w \<and> gather (accepts s) new = []"
  unfolding sigend_exit_def iperf_signormalexit_def iperf_errexit_def exit_code_of_def Let_def
  by (cases "sig \<in> {SIGTERM, SIGINT, SIGHUP}") (simp_all only: if_True if_False exit_plain [OF assms])

lemma sigend_sends:
  fixes w :: iperf
  assumes "iperf_got_sigend pf user sig w = Some (r, w')" and "trace w' = new @ trace w"
    and "test_role (the_test w) = Some CHR ''s''" and "test_state (the_test w) \<noteq> TEST_RUNNING" and "test_json_output (the_test w) = 0"
    and s: "s = test_ctrl_sck (the_test w)" "0 \<le> s"
  shows "r = Ends (exit_code_of sig) \<and> (gather (accepts s) new = [] \<or> gather (accepts s) new = [word_of_int SERVER_TERMINATE])"
proof -
  define w0 where "w0 = set_test (\<lambda>t. iperf_set_test_state t SERVER_TERMINATE) w"
  obtain n w1 where r1: "run_state (Nwrite s [word_of_int SERVER_TERMINATE] Ptcp) w0 = (n, w1)" by fastforce
  obtain new1 n1 where n1: "trace w1 = new1 @ trace w0" "gather (accepts s) new1 = take n1 [word_of_int SERVER_TERMINATE]" "sys.more w1 = sys.more w0"
    using r1 by (rule run_Nwrite)
  obtain msg w2 where r2: "run_state (iperf_strerror (pf_strerror pf) (pf_gai_strerror pf) IESERVERTERM) (w1\<lparr>i_errno := IESERVERTERM\<rparr>) = (msg, w2)"
    by fastforce
  have w2: "trace w2 = trace w1" "the_test w2 = the_test w1"
    using trace_errors(4,6) [of "pf_strerror pf" "pf_gai_strerror pf" IESERVERTERM "w1\<lparr>i_errno := IESERVERTERM\<rparr>"] r2 by simp_all
  have t1: "the_test w1 = the_test w0" using n1(3) by (cases w1, cases w0) simp
  then have j: "test_json_output (the_test w2) = 0" using assms(5) w2(2) by (simp add: w0_def set_test_def iperf_set_test_state_def)
  obtain w3 new3 where e: "sigend_exit user sig msg w2 = Some (Ends (exit_code_of sig), w3)" "trace w3 = new3 @ trace w2" "gather (accepts s) new3 = []"
    using sigend_exits [OF j] by blast
  have "iperf_got_sigend pf user sig w = Some (Ends (exit_code_of sig), w3)"
    using assms(3,4) s r1 r2 e(1)
    by (simp add: iperf_got_sigend_def run_def w0_def set_test_def iperf_set_test_state_def)
  then have "r = Ends (exit_code_of sig)" "new = new3 @ new1"
    using assms(1,2) e(2) n1(1) w2(1) by (simp_all add: w0_def set_test_def)
  then show ?thesis
    using e(3) n1(2) by (cases n1) simp_all
qed

lemma calm_cpu: "calm cpu_util_test"
proof -
  have "calm (update_state (cpu_last_update f :: iperf \<Rightarrow> iperf))" "calm (update_state (the_test_update g :: iperf \<Rightarrow> iperf))" for f g
    by (simp_all add: calm_def)
  then show ?thesis
    unfolding cpu_util_test_def sample_cpu_def getrusage_def by (intro calm_rules)
qed

lemma cpu_keeps_reporter: "test_reporter_callback (the_test (snd (run_state cpu_util_test w))) = test_reporter_callback (the_test w)"
proof -
  have k: "keeps sample_cpu" unfolding sample_cpu_def getrusage_def by (intro keeps_rules)
  show ?thesis using keeps_tmem [OF k, of w] by (simp add: cpu_util_test_def case_prod_beta)
qed

lemma terminated_client:
  fixes w :: iperf
  assumes "client_message pf user junk w = Some (r, w')" and "test_state (the_test w) = SERVER_TERMINATE"
    and "\<And>w1 w2. call_pointer pf user (test_reporter_callback (the_test w)) w1 = Some w2 \<Longrightarrow> i_errno w2 = i_errno w1"
  shows "r = - 1 \<and> i_errno w' = IESERVERTERM"
proof -
  define w0 where "w0 = set_test (test_state_update (\<lambda>_. DISPLAY_RESULTS)) (snd (run_state cpu_util_test (w\<lparr>i_errno := IESERVERTERM\<rparr>)))"
  obtain w1 where w1: "call_pointer pf user (test_reporter_callback (the_test w0)) w0 = Some w1"
    and r: "r = - 1" "w' = set_test (test_state_update (\<lambda>_. test_state (the_test w))) w1"
    using assms(1,2) by (auto simp: client_message_def last_report_def run_def w0_def case_prod_beta bind_eq_Some_conv Let_def split: if_splits)
  have "i_errno w0 = IESERVERTERM" "test_reporter_callback (the_test w0) = test_reporter_callback (the_test w)"
    using calm_cpu cpu_keeps_reporter by (simp_all add: w0_def set_test_def calm_def)
  then show ?thesis
    using assms(3) w1 r by (simp add: set_test_def)
qed

text \<open>
  C15: A server that is interrupted while it waits, sets a test up or exchanges results exits with 0 for the usual
  signals, after it has told the client; the client that reads the byte fails with the error that stands for
  a terminated server.
\<close>

theorem interrupt_reaches_client:
  assumes server: "iperf_got_sigend pf user sig ws = Some (r, ws')" "trace ws' = news @ trace ws"
      "test_role (the_test ws) = Some CHR ''s''" "test_state (the_test ws) \<noteq> TEST_RUNNING" "test_json_output (the_test ws) = 0"
      "0 \<le> test_ctrl_sck (the_test ws)" "gather (accepts (test_ctrl_sck (the_test ws))) news \<noteq> []"
    and client: "iperf_handle_message_client cpf cuser junk wc = Some (rc, wc')"
      "run_state (iperf_win32_read (test_ctrl_sck (the_test wc)) 1) wc = (st, wc1)" "trace wc1 = new1 @ trace wc"
      "gather (delivers (test_ctrl_sck (the_test wc))) new1 = gather (accepts (test_ctrl_sck (the_test ws))) news"
      "\<And>w1 w2. call_pointer cpf cuser (test_reporter_callback (the_test wc)) w1 = Some w2 \<Longrightarrow> i_errno w2 = i_errno w1"
  shows "r = Ends (exit_code_of sig) \<and> rc = - 1 \<and> i_errno wc' = IESERVERTERM"
proof -
  define c where "c = test_ctrl_sck (the_test wc)"
  have r: "r = Ends (exit_code_of sig)" "gather (delivers c) new1 = [word_of_int SERVER_TERMINATE]"
    using sigend_sends [OF server(1-5) refl server(6)] server(7) client(4) by (auto simp: c_def)
  obtain n bs where st: "st = (n, bs)" by fastforce
  have "emits (iperf_win32_read c 1 :: (iperf, int \<times> byte list) state) (\<lambda>(r, bs) new. read_ok c 1 r bs new)"
    by (rule emits_read) simp
  then have "read_ok c 1 n bs new1"
    using emitsD [OF _ client(2) [unfolded st]] client(3) by (auto simp: c_def)
  then have "gather (delivers c) new1 = bs" "if n < 0 then bs = [] else n = int (length bs)"
    by (auto simp: read_ok_def)
  moreover from this have bs: "bs = [word_of_int SERVER_TERMINATE]"
    using r(2) by simp
  ultimately have n: "bs = [word_of_int SERVER_TERMINATE]" "n = 1"
    by (auto split: if_splits)
  have "client_message cpf cuser junk (set_test (test_state_update (\<lambda>_. SERVER_TERMINATE)) wc1) = Some (rc, wc')"
    using client(1,2) st n by (simp add: iperf_handle_message_client_def run_def c_def)
  moreover have "the_test wc1 = the_test wc"
    using keeps_tmem [OF keeps_wrappers(2), of c 1 wc] client(2) by (simp add: c_def)
  ultimately have "rc = - 1 \<and> i_errno wc' = IESERVERTERM"
    using client(5) by (intro terminated_client) (auto simp: set_test_def)
  then show ?thesis using r(1) by simp
qed

definition daemon_server :: iperf where
  "daemon_server = iperf0 pid_os (zero_test\<lparr>test_role := Some CHR ''s'', test_daemon := 1, test_pidfile := Some ''p''\<rparr>)
     \<lparr>cells = (\<lambda>_. None), timers = None, free_timers = None\<rparr>"


definition interrupted_server :: iperf where
  "interrupted_server = iperf0 accepting_os (zero_test\<lparr>test_role := Some CHR ''s'', test_ctrl_sck := 4\<rparr>)
     \<lparr>cells = (\<lambda>_. None), timers = None, free_timers = None\<rparr>"

definition notice_os :: "events \<Rightarrow> syscall \<Rightarrow> answer" where
  "notice_os tr c = (case c of Recv fd n f \<Rightarrow> (answers 1)\<lparr>bytes := [word_of_int SERVER_TERMINATE]\<rparr> | _ \<Rightarrow> answers 1)"

definition notified_client :: iperf where
  "notified_client = iperf0 notice_os (zero_test\<lparr>test_ctrl_sck := 3, test_reporter_callback := Some 7\<rparr>)
     \<lparr>cells = (\<lambda>_. None), timers = None, free_timers = None\<rparr>"

lemma interrupted_server_sends:
  "\<exists>r w'. iperf_got_sigend platform0 (\<lambda>f w. Some w) SIGINT interrupted_server = Some (r, w')
     \<and> gather (accepts 4) (trace w') = [word_of_int SERVER_TERMINATE]"
  by (simp add: interrupted_server_def iperf_got_sigend_def run_def set_test_def iperf_set_test_state_def zero_test_def
      run_Nwrite_accepting sigend_exit_def iperf_signormalexit_def iperf_exit_def iperf_delete_pidfile_def iperf_strerror_def
      case_prod_beta Let_def sent_def answers_def)

lemma notified_client_reads:
  "\<exists>w1 a rc w'. run_state (iperf_win32_read 3 1) notified_client = ((1, [word_of_int SERVER_TERMINATE]), w1)
     \<and> trace w1 = [(Recv 3 1 0, a)] \<and> delivers 3 (Recv 3 1 0, a) = [word_of_int SERVER_TERMINATE]
     \<and> iperf_handle_message_client platform0 (\<lambda>f w. Some w) [] notified_client = Some (rc, w')"
  by (simp add: notified_client_def iperf_win32_read_def winsock_def run_call notice_os_def answers_def received_def Let_def
      iperf_handle_message_client_def run_def client_message_def set_test_def last_report_def case_prod_beta
      call_pointer_def callback_def cpu_keeps_reporter)

theorem interrupt_reaches_client_witness:
  "\<exists>r ws' rc wc'. iperf_got_sigend platform0 (\<lambda>f w. Some w) SIGINT interrupted_server = Some (r, ws')
     \<and> iperf_handle_message_client platform0 (\<lambda>f w. Some w) [] notified_client = Some (rc, wc')
     \<and> r = Ends 0 \<and> rc = - 1 \<and> i_errno wc' = IESERVERTERM"
proof -
  obtain r ws' where s: "iperf_got_sigend platform0 (\<lambda>f w. Some w) SIGINT interrupted_server = Some (r, ws')"
      "gather (accepts 4) (trace ws') = [word_of_int SERVER_TERMINATE]"
    using interrupted_server_sends by blast
  obtain w1 a rc wc' where c: "run_state (iperf_win32_read 3 1) notified_client = ((1, [word_of_int SERVER_TERMINATE]), w1)"
      "trace w1 = [(Recv 3 1 0, a)]" "delivers 3 (Recv 3 1 0, a) = [word_of_int SERVER_TERMINATE]"
      "iperf_handle_message_client platform0 (\<lambda>f w. Some w) [] notified_client = Some (rc, wc')"
    using notified_client_reads by blast
  have f: "test_ctrl_sck (the_test interrupted_server) = 4" "trace interrupted_server = []" "test_ctrl_sck (the_test notified_client) = 3"
    "trace notified_client = []" "test_reporter_callback (the_test notified_client) = Some 7"
    by (simp_all add: interrupted_server_def notified_client_def)
  have "r = Ends (exit_code_of SIGINT) \<and> rc = - 1 \<and> i_errno wc' = IESERVERTERM"
    by (rule interrupt_reaches_client [OF s(1) _ _ _ _ _ _ c(4)])
      (use s(2) c(1-3) f in \<open>auto simp: interrupted_server_def zero_test_def call_pointer_def callback_def\<close>)
  then show ?thesis using s(1) c(4) by (simp add: exit_code_of_def)
qed

end
