(* ===== verification/Output.thy ===== *)
theory Output
  imports Control Cjson_Number Units
begin

text \<open>
  Text for the user: \<open>printf\<close> for the conversions that the formats use, the formats of \<open>iperf_locale.c\<close>, and
  \<open>iperf_printf\<close>, which writes to the output file and, on a server whose client asked for the output, keeps
  the line. The texts of dates come from a parameter.
\<close>

section \<open>Formatting\<close>

datatype arg = Int_arg int | Dbl_arg double | Str_arg string

text \<open>A conversion after its \<open>%\<close>: left alignment, width, precision, the letter, and what follows.\<close>

definition conversion :: "string \<Rightarrow> bool \<times> nat \<times> nat option \<times> string" where
  "conversion s =
     (let (left, s) = (case s of c # r \<Rightarrow> if c = CHR ''-'' then (True, r) else (False, s) | [] \<Rightarrow> (False, s));
          (ws, s) = split_while is_digit s;
          (prec, s) = (case s of
             c # r \<Rightarrow> if c = CHR ''.'' then (let (ps, t) = split_while is_digit r in (Some (digits_value 10 ps), t)) else (None, s)
           | [] \<Rightarrow> (None, s))
      in (left, digits_value 10 ws, prec, snd (split_while (\<lambda>c. c = CHR ''l'') s)))"

definition pad :: "bool \<Rightarrow> nat \<Rightarrow> string \<Rightarrow> string" where
  "pad left w s = (if left then s @ replicate (w - length s) CHR '' '' else pad_left w CHR '' '' s)"

fun show_arg :: "char \<Rightarrow> nat option \<Rightarrow> arg \<Rightarrow> string option" where
  "show_arg c prec (Int_arg i) = (if c = CHR ''d'' \<or> c = CHR ''u'' then Some (show_int i) else None)"
| "show_arg c prec (Str_arg s) = (if c = CHR ''s'' then Some s else None)"
| "show_arg c prec (Dbl_arg x) =
     (if c = CHR ''f'' then Some (show_fixed 0 (case prec of None \<Rightarrow> 6 | Some p \<Rightarrow> p) x)
      else if c = CHR ''g'' then Some (show_g (case prec of None \<Rightarrow> 6 | Some p \<Rightarrow> p) x) else None)"

lemma split_while_length: "length (snd (split_while P s)) \<le> length s"
  by (induction s) (auto split: prod.splits)

lemma conversion_length: "conversion s = (left, w, prec, t) \<Longrightarrow> length t \<le> length s"
proof -
  assume c: "conversion s = (left, w, prec, t)"
  define s1 where "s1 = (case s of c # r \<Rightarrow> if c = CHR ''-'' then r else s | [] \<Rightarrow> s)"
  define s2 where "s2 = snd (split_while is_digit s1)"
  define s3 where "s3 = (case s2 of c # r \<Rightarrow> if c = CHR ''.'' then snd (split_while is_digit r) else s2 | [] \<Rightarrow> s2)"
  have "t = snd (split_while (\<lambda>c. c = CHR ''l'') s3)"
    using c by (auto simp: conversion_def s1_def s2_def s3_def Let_def split: list.splits prod.splits if_splits)
  then have "length t \<le> length s3" using split_while_length by simp
  also have "\<dots> \<le> length s2"
    using split_while_length [of is_digit "tl s2"] by (auto simp: s3_def split: list.splits)
  also have "\<dots> \<le> length s1" unfolding s2_def by (rule split_while_length)
  also have "\<dots> \<le> length s" by (auto simp: s1_def split: list.splits)
  finally show ?thesis .
qed

text \<open>\<open>None\<close>: too few arguments, or one of another type than its conversion.\<close>

function printf :: "string \<Rightarrow> arg list \<Rightarrow> string option" where
  "printf [] args = Some []"
| "printf (c # s) args =
     (if c \<noteq> CHR ''%'' then map_option (Cons c) (printf s args)
      else case conversion s of (left, w, prec, t) \<Rightarrow>
        (case t of
           [] \<Rightarrow> None
         | d # u \<Rightarrow>
             if d = CHR ''%'' then map_option (Cons d) (printf u args)
             else (case args of
                [] \<Rightarrow> None
              | a # as \<Rightarrow> (case show_arg d prec a of
                  None \<Rightarrow> None
                | Some x \<Rightarrow> map_option ((@) (pad left w x)) (printf u as)))))"
  by pat_completeness auto
termination
  by (relation "measure (length \<circ> fst)") (auto dest!: conversion_length [OF sym])

section \<open>The formats\<close>

definition report_time :: string where
  "report_time = ''Time: %s'' @ [CHR 0x0A]"

definition report_connecting :: string where
  "report_connecting = ''Connecting to host %s, port %d'' @ [CHR 0x0A]"

definition report_reverse :: string where
  "report_reverse = ''Reverse mode, remote host %s is sending'' @ [CHR 0x0A]"

definition report_accepted :: string where
  "report_accepted = ''Accepted connection from %s, port %d'' @ [CHR 0x0A]"

definition report_cookie :: string where
  "report_cookie = ''      Cookie: %s'' @ [CHR 0x0A]"

definition report_connected :: string where
  "report_connected = ''[%3d] local %s port %d connected to %s port %d'' @ [CHR 0x0A]"

definition report_diskfile :: string where
  "report_diskfile = ''        Sent %s / %s (%d%%) of %s'' @ [CHR 0x0A]"

definition report_bw_header :: string where
  "report_bw_header = ''[ ID] Interval           Transfer     Bitrate'' @ [CHR 0x0A]"

definition report_bw_header_bidir :: string where
  "report_bw_header_bidir = ''[ ID][Role] Interval           Transfer     Bitrate'' @ [CHR 0x0A]"

definition report_bw_retrans_header :: string where
  "report_bw_retrans_header = ''[ ID] Interval           Transfer     Bitrate         Retr'' @ [CHR 0x0A]"

definition report_bw_retrans_header_bidir :: string where
  "report_bw_retrans_header_bidir = ''[ ID][Role] Interval           Transfer     Bitrate         Retr'' @ [CHR 0x0A]"

definition report_bw_retrans_cwnd_header :: string where
  "report_bw_retrans_cwnd_header = ''[ ID] Interval           Transfer     Bitrate         Retr  Cwnd'' @ [CHR 0x0A]"

definition report_bw_retrans_cwnd_header_bidir :: string where
  "report_bw_retrans_cwnd_header_bidir = ''[ ID][Role] Interval           Transfer     Bitrate         Retr  Cwnd'' @ [CHR 0x0A]"

definition report_bw_udp_header :: string where
  "report_bw_udp_header = ''[ ID] Interval           Transfer     Bitrate         Jitter    Lost/Total Datagrams'' @ [CHR 0x0A]"

definition report_bw_udp_header_bidir :: string where
  "report_bw_udp_header_bidir = ''[ ID][Role] Interval           Transfer     Bitrate         Jitter    Lost/Total Datagrams'' @ [CHR 0x0A]"

definition report_bw_udp_sender_header :: string where
  "report_bw_udp_sender_header = ''[ ID] Interval           Transfer     Bitrate         Total Datagrams'' @ [CHR 0x0A]"

definition report_bw_format :: string where
  "report_bw_format = ''[%3d]%s %6.2f-%-6.2f sec  %ss  %ss/sec                  %s'' @ [CHR 0x0A]"

definition report_bw_retrans_format :: string where
  "report_bw_retrans_format = ''[%3d]%s %6.2f-%-6.2f sec  %ss  %ss/sec  %3ld            %s'' @ [CHR 0x0A]"

definition report_bw_retrans_cwnd_format :: string where
  "report_bw_retrans_cwnd_format = ''[%3d]%s %6.2f-%-6.2f sec  %ss  %ss/sec  %3ld   %ss       %s'' @ [CHR 0x0A]"

definition report_bw_udp_format :: string where
  "report_bw_udp_format = ''[%3d]%s %6.2f-%-6.2f sec  %ss  %ss/sec  %5.3f ms  %lld/%lld (%.2g%%)  %s'' @ [CHR 0x0A]"

definition report_bw_udp_format_no_omitted_error :: string where
  "report_bw_udp_format_no_omitted_error = ''[%3d]%s %6.2f-%-6.2f sec  %ss  %ss/sec  %5.3f ms  Unknown/%lld  %s'' @ [CHR 0x0A]"

definition report_bw_udp_sender_format :: string where
  "report_bw_udp_sender_format = ''[%3d]%s %6.2f-%-6.2f sec  %ss  %ss/sec %s %lld  %s'' @ [CHR 0x0A]"

definition report_summary :: string where
  "report_summary = ''Test Complete. Summary Results:'' @ [CHR 0x0A]"

definition report_sum_bw_format :: string where
  "report_sum_bw_format = ''[SUM]%s %6.2f-%-6.2f sec  %ss  %ss/sec                  %s'' @ [CHR 0x0A]"

definition report_sum_bw_retrans_format :: string where
  "report_sum_bw_retrans_format = ''[SUM]%s %6.2f-%-6.2f sec  %ss  %ss/sec  %3lld             %s'' @ [CHR 0x0A]"

definition report_sum_bw_udp_format :: string where
  "report_sum_bw_udp_format = ''[SUM]%s %6.2f-%-6.2f sec  %ss  %ss/sec  %5.3f ms  %lld/%lld (%.2g%%)  %s'' @ [CHR 0x0A]"

definition report_sum_bw_udp_sender_format :: string where
  "report_sum_bw_udp_sender_format = ''[SUM]%s %6.2f-%-6.2f sec  %ss  %ss/sec %s %lld  %s'' @ [CHR 0x0A]"

definition report_omitted :: string where
  "report_omitted = ''(omitted)''"

definition report_bw_separator :: string where
  "report_bw_separator = ''- - - - - - - - - - - - - - - - - - - - - - - - -'' @ [CHR 0x0A]"

definition report_sum_outoforder :: string where
  "report_sum_outoforder = ''[SUM]%s %4.1f-%4.1f sec  %llu datagrams received out-of-order'' @ [CHR 0x0A]"

definition report_cpu :: string where
  "report_cpu = ''CPU Utilization: %s/%s %.1f%% (%.1f%%u/%.1f%%s), %s/%s %.1f%% (%.1f%%u/%.1f%%s)'' @ [CHR 0x0A]"

definition report_local :: string where
  "report_local = ''local''"

definition report_remote :: string where
  "report_remote = ''remote''"

definition report_sender :: string where
  "report_sender = ''sender''"

definition report_receiver :: string where
  "report_receiver = ''receiver''"

definition report_sender_not_available_format :: string where
  "report_sender_not_available_format = ''[%3d] (sender statistics not available)'' @ [CHR 0x0A]"

definition report_sender_not_available_summary_format :: string where
  "report_sender_not_available_summary_format = ''[%3s] (sender statistics not available)'' @ [CHR 0x0A]"

definition report_receiver_not_available_format :: string where
  "report_receiver_not_available_format = ''[%3d] (receiver statistics not available)'' @ [CHR 0x0A]"

definition report_receiver_not_available_summary_format :: string where
  "report_receiver_not_available_summary_format = ''[%3s] (receiver statistics not available)'' @ [CHR 0x0A]"

definition test_start_time :: string where
  "test_start_time = ''Starting Test: protocol: %s, %d streams, %d byte blocks, omitting %d seconds, %d second test, tos %d'' @ [CHR 0x0A]"

definition test_start_bytes :: string where
  "test_start_bytes = ''Starting Test: protocol: %s, %d streams, %d byte blocks, omitting %d seconds, %llu bytes to send, tos %d'' @ [CHR 0x0A]"

definition test_start_blocks :: string where
  "test_start_blocks = ''Starting Test: protocol: %s, %d streams, %d byte blocks, omitting %d seconds, %llu blocks to send, tos %d'' @ [CHR 0x0A]"

section \<open>Printing\<close>

text \<open>The text of a time under a format, in local time (\<open>strftime\<close>, \<open>localtime\<close>) and in universal time.\<close>

record dates =
  local_date :: "string \<Rightarrow> int \<Rightarrow> string"
  universal_date :: "string \<Rightarrow> int \<Rightarrow> string"

text \<open>A call of \<open>fprintf\<close> after another one that did not fail.\<close>

definition print_on :: "int \<Rightarrow> string \<Rightarrow> ('z sys_scheme, int) state" where
  "print_on r s = (if r < 0 then State_Monad.return r
     else do { a \<leftarrow> call (Fprintf s); State_Monad.return (if ret a < 0 then ret a else r + ret a) })"

definition time_stamp :: "dates \<Rightarrow> ('z world_scheme, string) state" where
  "time_stamp dt = do {
     test \<leftarrow> reads the_test;
     if test_timestamps test = 0 then State_Monad.return []
     else do {
       now \<leftarrow> call Time;
       State_Monad.return (take 99 (local_date dt (case test_timestamp_format test of None \<Rightarrow> [] | Some f \<Rightarrow> f) (val now))) } }"

definition keep_line :: "string \<Rightarrow> iperf_test \<Rightarrow> iperf_test" where
  "keep_line l t = (if test_get_server_output t \<noteq> 0 then t\<lparr>test_server_output_list := test_server_output_list t @ [l]\<rparr> else t)"

definition iperf_printf :: "dates \<Rightarrow> string \<Rightarrow> ('z world_scheme, int) state" where
  "iperf_printf dt str = do {
     ct \<leftarrow> time_stamp dt;
     test \<leftarrow> reads the_test;
     if test_role test = Some CHR ''c'' then do {
       r \<leftarrow> (if ct = [] then State_Monad.return 0 else print_on 0 ct);
       r \<leftarrow> (case test_title test of None \<Rightarrow> State_Monad.return r | Some title \<Rightarrow> print_on r (title @ '':  ''));
       print_on r str }
     else if test_role test = Some CHR ''s'' then do {
       let line = take 1023 (ct @ str);
       _ \<leftarrow> call (Fprintf line);
       _ \<leftarrow> update_state (the_test_update (keep_line line));
       State_Monad.return (int (length ct + length str)) }
     else State_Monad.return 0 }"

text \<open>The texts of all calls come from \<open>printf\<close>.\<close>

definition say :: "dates \<Rightarrow> string \<Rightarrow> arg list \<Rightarrow> iperf \<Rightarrow> iperf option" where
  "say dt format args w = do {
     str \<leftarrow> printf format args;
     (_, w) \<leftarrow> run (iperf_printf dt str) w;
     Some w }"

end
