(* ===== verification/Report.thy ===== *)
theory Report
  imports Output Test_Timers
begin

text \<open>
  The reports of \<open>iperf_api.c\<close>: interval reports, the summary at the end, and the messages at the start, in
  JSON and as text, with every change they make to the test. \<open>None\<close> is behaviour the model has no value for:
  a null pointer, or a quotient by zero that is no number.
\<close>

section \<open>Numbers and names\<close>

abbreviation UNIT_LEN :: nat where "UNIT_LEN \<equiv> 32"

definition dbl :: "int \<Rightarrow> double" where
  "dbl i = fl64 (of_int i)"

definition per_second :: "u64 \<Rightarrow> double \<Rightarrow> double" where
  "per_second n s = fl64 (u64_to_double n / s)"

definition rate_over :: "u64 \<Rightarrow> double \<Rightarrow> double" where
  "rate_over n s = (if s > 0 then per_second n s else 0)"

definition times8 :: "double \<Rightarrow> double" where
  "times8 x = fl64 (x * 8)"

definition percent :: "i64 \<Rightarrow> i64 \<Rightarrow> double" where
  "percent lost n = (if sint n > 0 then fl64 (fl64 (100 * dbl (sint lost)) / dbl (sint n)) else 0)"

definition millis :: "double \<Rightarrow> double" where
  "millis x = fl64 (x * 1000)"

definition seconds_between :: "iperf_time \<Rightarrow> iperf_time \<Rightarrow> double" where
  "seconds_between a b = iperf_time_in_secs (snd (iperf_time_diff a b))"

definition amount :: "double \<Rightarrow> string" where
  "amount x = unit_snprintf UNIT_LEN x CHR ''A''"

definition rate_text :: "iperf_test \<Rightarrow> double \<Rightarrow> string" where
  "rate_text test x = unit_snprintf UNIT_LEN x (cfg_unit_format (test_settings test))"

definition is_client :: "iperf_test \<Rightarrow> bool" where
  "is_client test \<longleftrightarrow> test_role test = Some CHR ''c''"

definition is_server :: "iperf_test \<Rightarrow> bool" where
  "is_server test \<longleftrightarrow> test_role test = Some CHR ''s''"

definition both_ways :: "iperf_test \<Rightarrow> bool" where
  "both_ways test \<longleftrightarrow> test_mode test = BIDIRECTIONAL"

text \<open>\<open>mbuf\<close> and \<open>zbuf\<close>.\<close>

definition role_tag :: "iperf_test \<Rightarrow> int \<Rightarrow> string" where
  "role_tag test sender =
     (if both_ways test
      then ''['' @ (if sender \<noteq> 0 then ''TX'' else ''RX'') @ ''-'' @ (if is_client test then ''C'' else ''S'') @ '']''
      else [])"

definition blanks :: "iperf_test \<Rightarrow> string" where
  "blanks test = (if both_ways test then replicate 10 CHR '' '' else [])"

definition omitted_text :: "int \<Rightarrow> string" where
  "omitted_text b = (if b \<noteq> 0 then report_omitted else [])"

definition tcp_like :: "iperf_test \<Rightarrow> bool" where
  "tcp_like test \<longleftrightarrow> protocol_is Ptcp test \<or> protocol_is Psctp test"

text \<open>The directions of a report, \<open>lower_mode\<close> to \<open>upper_mode\<close>.\<close>

definition modes :: "iperf_test \<Rightarrow> int list" where
  "modes test = (if both_ways test then (if is_client test then [- 1, 0] else [0, 1]) else [test_mode test])"

definition reversed_name :: "iperf_test \<Rightarrow> int \<Rightarrow> string \<Rightarrow> string" where
  "reversed_name test sender name =
     (if both_ways test \<and> (is_client test \<longleftrightarrow> sender = 0) then name @ ''_bidir_reverse'' else name)"

section \<open>The interval of one stream\<close>

definition interval_json :: "iperf_test \<Rightarrow> iperf_stream \<Rightarrow> iperf_interval_results \<Rightarrow> cjson option" where
  "interval_json test sp irp =
     (let st = seconds_between (res_start_time (sp_result sp)) (ir_interval_start_time irp);
          et = seconds_between (res_start_time (sp_result sp)) (ir_interval_end_time irp);
          bandwidth = rate_over (ir_bytes_transferred irp) (ir_interval_duration irp);
          front = [Arg_d (sp_socket sp), Arg_f st, Arg_f et, Arg_f (ir_interval_duration irp),
                   Arg_d (sint (ir_bytes_transferred irp)), Arg_f (times8 bandwidth)];
          back = [Arg_b (ir_omitted irp), Arg_b (sp_sender sp)]
      in if tcp_like test then
           if (test_sender_has_retransmits test = 1 \<or> protocol_is Psctp test) \<and> sp_sender sp \<noteq> 0 then
             iperf_json_printf ''socket: %d  start: %f  end: %f  seconds: %f  bytes: %d  bits_per_second: %f  retransmits: %d  snd_cwnd:  %d  snd_wnd:  %d  rtt:  %d  rttvar: %d  pmtu: %d  reorder: %d  omitted: %b sender: %b''
               (front @ [Arg_d (ir_interval_retrans irp), Arg_d (ir_snd_cwnd irp), Arg_d (ir_snd_wnd irp), Arg_d (ir_rtt irp),
                  Arg_d (ir_rttvar irp), Arg_d (ir_pmtu irp), Arg_d (ir_reorder irp)] @ back)
           else iperf_json_printf ''socket: %d  start: %f  end: %f  seconds: %f  bytes: %d  bits_per_second: %f  omitted: %b sender: %b'' (front @ back)
         else if sp_sender sp \<noteq> 0 then
           iperf_json_printf ''socket: %d  start: %f  end: %f  seconds: %f  bytes: %d  bits_per_second: %f  packets: %d  omitted: %b sender: %b''
             (front @ [Arg_d (sint (ir_interval_packet_count irp))] @ back)
         else
           iperf_json_printf ''socket: %d  start: %f  end: %f  seconds: %f  bytes: %d  bits_per_second: %f  jitter_ms: %f  lost_packets: %d  packets: %d  lost_percent: %f  omitted: %b sender: %b''
             (front @ [Arg_f (millis (ir_jitter irp)), Arg_d (sint (ir_interval_cnt_error irp)), Arg_d (sint (ir_interval_packet_count irp)),
                Arg_f (percent (ir_interval_cnt_error irp) (ir_interval_packet_count irp))] @ back))"

text \<open>The header above the first stream of the first interval, or a separator.\<close>

definition interval_header :: "dates \<Rightarrow> nat \<Rightarrow> iperf_stream \<Rightarrow> iperf_interval_results \<Rightarrow> iperf \<Rightarrow> iperf option" where
  "interval_header dt k sp irp w =
     (let test = the_test w; bidir = (test_bidirectional test \<noteq> 0)
      in if k \<noteq> 0 then Some w
         else if iperf_time_compare (res_start_time (sp_result sp)) (ir_interval_start_time irp) = 0 then
           say dt ''%s'' [Str_arg (
             if tcp_like test then
               if test_sender_has_retransmits test = 1
               then (if bidir then report_bw_retrans_cwnd_header_bidir else report_bw_retrans_cwnd_header)
               else (if bidir then report_bw_header_bidir else report_bw_header)
             else if test_mode test = SENDER then report_bw_udp_sender_header
             else if test_mode test = RECEIVER then report_bw_udp_header
             else report_bw_udp_header_bidir)] w
         else if test_num_streams test > 1 then say dt ''%s'' [Str_arg report_bw_separator] w
         else Some w)"

definition interval_line :: "dates \<Rightarrow> iperf_stream \<Rightarrow> iperf_interval_results \<Rightarrow> iperf \<Rightarrow> iperf option" where
  "interval_line dt sp irp w =
     (let test = the_test w;
          st = seconds_between (res_start_time (sp_result sp)) (ir_interval_start_time irp);
          et = seconds_between (res_start_time (sp_result sp)) (ir_interval_end_time irp);
          bandwidth = rate_over (ir_bytes_transferred irp) (ir_interval_duration irp);
          front = [Int_arg (sp_socket sp), Str_arg (role_tag test (sp_sender sp)), Dbl_arg st, Dbl_arg et,
                   Str_arg (amount (u64_to_double (ir_bytes_transferred irp))), Str_arg (rate_text test bandwidth)];
          back = [Str_arg (omitted_text (ir_omitted irp))]
      in if tcp_like test then
           if (test_sender_has_retransmits test = 1 \<or> protocol_is Psctp test) \<and> sp_sender sp \<noteq> 0
           then say dt report_bw_retrans_cwnd_format (front @ [Int_arg (ir_interval_retrans irp), Str_arg (amount (dbl (ir_snd_cwnd irp)))] @ back) w
           else say dt report_bw_format (front @ back) w
         else if sp_sender sp \<noteq> 0
         then say dt report_bw_udp_sender_format (front @ [Str_arg (blanks test), Int_arg (sint (ir_interval_packet_count irp))] @ back) w
         else say dt report_bw_udp_format (front @ [Dbl_arg (millis (ir_jitter irp)), Int_arg (sint (ir_interval_cnt_error irp)),
                Int_arg (sint (ir_interval_packet_count irp)), Dbl_arg (percent (ir_interval_cnt_error irp) (ir_interval_packet_count irp))] @ back) w)"

text \<open>The result is what is added to the array of the interval, if anything is.\<close>

definition print_interval_results :: "dates \<Rightarrow> nat \<Rightarrow> cjson list prog" where
  "print_interval_results dt k w =
     (let sp = test_streams (the_test w) ! k
      in case last_interval (sp_result sp) of
           None \<Rightarrow> do { (_, w) \<leftarrow> run (iperf_err ''print_interval_results error: interval_results is NULL'') w; Some ([], w) }
         | Some irp \<Rightarrow>
             if test_json_output (the_test w) \<noteq> 0 then Some (case interval_json (the_test w) sp irp of None \<Rightarrow> [] | Some j \<Rightarrow> [j], w)
             else do {
               w \<leftarrow> interval_header dt k sp irp w;
               w \<leftarrow> interval_line dt sp irp w;
               Some ([], w) })"

section \<open>The interval of all streams\<close>

record interval_sums =
  is_bytes :: u64
  is_retransmits :: i64
  is_packets :: i64
  is_lost :: i64
  is_jitter :: double

definition no_sums :: interval_sums where
  "no_sums = \<lparr>is_bytes = 0, is_retransmits = 0, is_packets = 0, is_lost = 0, is_jitter = 0\<rparr>"

definition add_interval :: "iperf_test \<Rightarrow> iperf_interval_results \<Rightarrow> interval_sums \<Rightarrow> interval_sums" where
  "add_interval test irp s =
     (let s = s\<lparr>is_bytes := is_bytes s + ir_bytes_transferred irp\<rparr>
      in if protocol_is Ptcp test then
           if test_sender_has_retransmits test = 1 then s\<lparr>is_retransmits := is_retransmits s + word_of_int (ir_interval_retrans irp)\<rparr> else s
         else s\<lparr>is_packets := is_packets s + ir_interval_packet_count irp, is_lost := is_lost s + ir_interval_cnt_error irp,
                is_jitter := fl64 (is_jitter s + ir_jitter irp)\<rparr>)"

text \<open>The loop over the streams; without sums if it returned with an error.\<close>

fun interval_streams :: "dates \<Rightarrow> int \<Rightarrow> nat list \<Rightarrow> interval_sums \<Rightarrow> cjson list \<Rightarrow> (interval_sums option \<times> cjson list) prog" where
  "interval_streams dt sender [] s js w = Some ((Some s, js), w)"
| "interval_streams dt sender (k # ks) s js w =
     (let sp = test_streams (the_test w) ! k
      in if sp_sender sp \<noteq> sender then interval_streams dt sender ks s js w
         else do {
           (new, w) \<leftarrow> print_interval_results dt k w;
           case last_interval (sp_result sp) of
             None \<Rightarrow> do { (_, w) \<leftarrow> run (iperf_err ''iperf_print_intermediate error: interval_results is NULL'') w; Some ((None, js @ new), w) }
           | Some irp \<Rightarrow> interval_streams dt sender ks (add_interval (the_test w) irp s) (js @ new) w })"

definition sum_json :: "iperf_test \<Rightarrow> int \<Rightarrow> interval_sums \<Rightarrow> json_arg list \<Rightarrow> double \<Rightarrow> int \<Rightarrow> cjson option" where
  "sum_json test sender s front jitter omitted =
     (if tcp_like test then
        if test_sender_has_retransmits test = 1 \<and> sender \<noteq> 0 then
          iperf_json_printf ''start: %f  end: %f  seconds: %f  bytes: %d  bits_per_second: %f  retransmits: %d  omitted: %b sender: %b''
            (front @ [Arg_d (sint (is_retransmits s)), Arg_b omitted, Arg_b sender])
        else iperf_json_printf ''start: %f  end: %f  seconds: %f  bytes: %d  bits_per_second: %f  omitted: %b sender: %b''
            (front @ [Arg_b (test_omitting test), Arg_b sender])
      else if sender \<noteq> 0 then
        iperf_json_printf ''start: %f  end: %f  seconds: %f  bytes: %d  bits_per_second: %f  packets: %d  omitted: %b sender: %b''
          (front @ [Arg_d (sint (is_packets s)), Arg_b (test_omitting test), Arg_b sender])
      else
        iperf_json_printf ''start: %f  end: %f  seconds: %f  bytes: %d  bits_per_second: %f  jitter_ms: %f  lost_packets: %d  packets: %d  lost_percent: %f  omitted: %b sender: %b''
          (front @ [Arg_f (millis jitter), Arg_d (sint (is_lost s)), Arg_d (sint (is_packets s)), Arg_f (percent (is_lost s) (is_packets s)),
             Arg_b (test_omitting test), Arg_b sender]))"

definition sum_line :: "dates \<Rightarrow> int \<Rightarrow> interval_sums \<Rightarrow> arg list \<Rightarrow> double \<Rightarrow> int \<Rightarrow> iperf \<Rightarrow> iperf option" where
  "sum_line dt sender s front jitter omitted w =
     (let test = the_test w
      in if tcp_like test then
           if test_sender_has_retransmits test = 1 \<and> sender \<noteq> 0
           then say dt report_sum_bw_retrans_format (front @ [Int_arg (sint (is_retransmits s)), Str_arg (omitted_text omitted)]) w
           else say dt report_sum_bw_format (front @ [Str_arg (omitted_text (test_omitting test))]) w
         else if sender \<noteq> 0
         then say dt report_sum_bw_udp_sender_format (front @ [Str_arg (blanks test), Int_arg (sint (is_packets s)), Str_arg (omitted_text (test_omitting test))]) w
         else say dt report_sum_bw_udp_format (front @ [Dbl_arg (millis jitter), Int_arg (sint (is_lost s)), Int_arg (sint (is_packets s)),
                Dbl_arg (percent (is_lost s) (is_packets s)), Str_arg (omitted_text (test_omitting test))]) w)"

text \<open>The sum of a direction, with the times of the first stream. There is none without a stream.\<close>

definition print_sum :: "dates \<Rightarrow> int \<Rightarrow> interval_sums \<Rightarrow> (string \<times> cjson) list prog" where
  "print_sum dt sender s w =
     (let test = the_test w
      in if test_num_streams test \<le> 1 \<and> test_json_output test = 0 \<or> test_streams test = [] then Some ([], w)
         else do {
           let rp = sp_result (hd (test_streams test));
           irp \<leftarrow> last_interval rp;
           if ir_interval_duration irp = 0 \<or> (\<not> tcp_like test \<and> sender = 0 \<and> test_num_streams test = 0) then None
           else do {
             let start_time = seconds_between (res_start_time rp) (ir_interval_start_time irp);
             let end_time = seconds_between (res_start_time rp) (ir_interval_end_time irp);
             let bandwidth = per_second (is_bytes s) (ir_interval_duration irp);
             let jitter = fl64 (is_jitter s / of_int (test_num_streams test));
             if test_json_output test \<noteq> 0 then
               Some (case sum_json test sender s [Arg_f start_time, Arg_f end_time, Arg_f (ir_interval_duration irp), Arg_d (sint (is_bytes s)),
                            Arg_f (times8 bandwidth)] jitter (ir_omitted irp) of
                       None \<Rightarrow> [] | Some j \<Rightarrow> [(reversed_name test sender ''sum'', j)], w)
             else do {
               w \<leftarrow> sum_line dt sender s [Str_arg (role_tag test sender), Dbl_arg start_time, Dbl_arg end_time,
                      Str_arg (amount (u64_to_double (is_bytes s))), Str_arg (rate_text test bandwidth)] jitter (ir_omitted irp) w;
               Some ([], w) } } })"

fun interval_modes :: "dates \<Rightarrow> int list \<Rightarrow> cjson list \<Rightarrow> (string \<times> cjson) list \<Rightarrow> (bool \<times> cjson) prog" where
  "interval_modes dt [] js totals w = Some ((True, JObject ((''streams'', JArray js) # totals)), w)"
| "interval_modes dt (m # ms) js totals w = do {
     ((s, js), w) \<leftarrow> interval_streams dt (m * m) [0..<length (test_streams (the_test w))] no_sums js w;
     case s of
       None \<Rightarrow> Some ((False, JObject ((''streams'', JArray js) # totals)), w)
     | Some s \<Rightarrow> do {
         (new, w) \<leftarrow> print_sum dt (m * m) s w;
         interval_modes dt ms js (totals @ new) w } }"

text \<open>An interval counts if it lasts at least a tenth of the period or has data.\<close>

definition interval_counts :: "iperf_test \<Rightarrow> bool" where
  "interval_counts test = list_ex (\<lambda>sp. case last_interval (sp_result sp) of
       None \<Rightarrow> False
     | Some irp \<Rightarrow> seconds_between (ir_interval_start_time irp) (ir_interval_end_time irp) \<ge> fl64 (test_stats_interval test * fl64 (1 / 10))
         \<or> ir_bytes_transferred irp > 0) (test_streams test)"

definition discard_json :: "iperf_test \<Rightarrow> bool" where
  "discard_json test \<longleftrightarrow> test_json_stream test = 1 \<and> test_json_stream_full_output test = 0
     \<and> \<not> (is_server test \<and> test_get_server_output test \<noteq> 0)"

definition add_to_array :: "cjson \<Rightarrow> cjson option \<Rightarrow> cjson option" where
  "add_to_array j a = (case a of Some (JArray js) \<Rightarrow> Some (JArray (js @ [j])) | _ \<Rightarrow> a)"

definition iperf_print_intermediate :: "dates \<Rightarrow> callbacks \<Rightarrow> iperf \<Rightarrow> iperf option" where
  "iperf_print_intermediate dt user w =
     (if \<not> interval_counts (the_test w) then Some w
      else do {
        let discard = discard_json (the_test w);
        let json = (test_json_output (the_test w) \<noteq> 0);
        ((ok, j), w) \<leftarrow> interval_modes dt (modes (the_test w)) [] [] w;
        let w = (if json \<and> \<not> discard then set_test (test_json_intervals_update (add_to_array j)) w else w);
        if \<not> ok \<or> test_json_stream (the_test w) = 0 then Some w
        else if json then JSONStream_Output user ''interval'' j w
        else None })"

end
