(* ===== verification/Summary.thy ===== *)
theory Summary
  imports Report
begin

text \<open>
  The summary at the end of a test and the callbacks of \<open>iperf_api.c\<close> that \<open>iperf_defaults\<close> installs.
\<close>

section \<open>Totals\<close>

record totals =
  to_sent :: u64
  to_received :: u64
  to_retransmits :: i64
  to_packets :: i64
  to_sender_packets :: i64
  to_receiver_packets :: i64
  to_lost :: i64
  to_jitter :: double

definition no_totals :: totals where
  "no_totals = \<lparr>to_sent = 0, to_received = 0, to_retransmits = 0, to_packets = 0, to_sender_packets = 0, to_receiver_packets = 0,
     to_lost = 0, to_jitter = 0\<rparr>"

record packet_counts =
  pc_sender :: i64
  pc_sender_omitted :: i64
  pc_receiver :: i64
  pc_receiver_omitted :: i64

definition counts_of :: "iperf_stream \<Rightarrow> packet_counts" where
  "counts_of sp =
     (if sp_sender sp \<noteq> 0
      then \<lparr>pc_sender = sp_packet_count sp, pc_sender_omitted = sp_omitted_packet_count sp,
            pc_receiver = sp_peer_packet_count sp, pc_receiver_omitted = sp_peer_omitted_packet_count sp\<rparr>
      else \<lparr>pc_sender = sp_peer_packet_count sp, pc_sender_omitted = sp_peer_omitted_packet_count sp,
            pc_receiver = sp_packet_count sp, pc_receiver_omitted = sp_omitted_packet_count sp\<rparr>)"

definition packet_count :: "packet_counts \<Rightarrow> i64" where
  "packet_count pc = (if pc_sender pc \<noteq> 0 then pc_sender pc else pc_receiver pc)"

definition stream_sent :: "iperf_stream \<Rightarrow> u64" where
  "stream_sent sp = res_bytes_sent (sp_result sp) - res_bytes_sent_omit (sp_result sp)"

definition add_stream :: "iperf_test \<Rightarrow> iperf_stream \<Rightarrow> totals \<Rightarrow> totals" where
  "add_stream test sp t =
     (let pc = counts_of sp;
          t = t\<lparr>to_sent := to_sent t + stream_sent sp, to_received := to_received t + res_bytes_received (sp_result sp)\<rparr>
      in if tcp_like test then
           if test_sender_has_retransmits test \<noteq> 0
           then t\<lparr>to_retransmits := to_retransmits t + word_of_int (res_stream_retrans (sp_result sp))\<rparr> else t
         else t\<lparr>to_packets := to_packets t + (packet_count pc - sp_omitted_packet_count sp),
                to_sender_packets := to_sender_packets t + (pc_sender pc - pc_sender_omitted pc),
                to_receiver_packets := to_receiver_packets t + (pc_receiver pc - pc_receiver_omitted pc),
                to_lost := (to_lost t + sp_cnt_error sp) - (if sint (sp_omitted_cnt_error sp) > - 1 then sp_omitted_cnt_error sp else 0),
                to_jitter := fl64 (to_jitter t + sp_jitter sp)\<rparr>)"

text \<open>The times of both sides and of this one, taken from the first stream, where the missing one is filled in.\<close>

definition end_times :: "iperf_test \<Rightarrow> (double \<times> double \<times> double) \<times> iperf_test" where
  "end_times test =
     (case test_streams test of
        [] \<Rightarrow> ((0, 0, 0), test)
      | sp # sps \<Rightarrow>
          (let rp = sp_result sp;
               end_time = seconds_between (res_start_time rp) (res_end_time rp);
               rp = (if sp_sender sp \<noteq> 0
                     then (let rp = rp\<lparr>res_sender_time := end_time\<rparr>
                           in if res_receiver_time rp = 0 then rp\<lparr>res_receiver_time := res_sender_time rp\<rparr> else rp)
                     else (let rp = rp\<lparr>res_receiver_time := end_time\<rparr>
                           in if res_sender_time rp = 0 then rp\<lparr>res_sender_time := res_receiver_time rp\<rparr> else rp))
           in ((res_sender_time rp, res_receiver_time rp, end_time), test\<lparr>test_streams := sp\<lparr>sp_result := rp\<rparr> # sps\<rparr>)))"

section \<open>The summary of one stream\<close>

definition member_of :: "string \<Rightarrow> cjson option \<Rightarrow> (string \<times> cjson) list" where
  "member_of name j = (case j of None \<Rightarrow> [] | Some v \<Rightarrow> [(name, v)])"

definition mean_rtt :: "iperf_stream_result \<Rightarrow> int" where
  "mean_rtt rp = (if res_stream_count_rtt rp = 0 then 0 else res_stream_sum_rtt rp sdiv res_stream_count_rtt rp)"

definition sender_json :: "iperf_test \<Rightarrow> int \<Rightarrow> double \<Rightarrow> iperf_stream \<Rightarrow> cjson option" where
  "sender_json test sender sender_time sp =
     (let rp = sp_result sp;
          front = [Arg_d (sp_socket sp), Arg_f 0, Arg_f sender_time, Arg_f sender_time, Arg_d (sint (stream_sent sp)),
                   Arg_f (times8 (rate_over (stream_sent sp) sender_time))]
      in if test_sender_has_retransmits test \<noteq> 0 \<or> protocol_is Psctp test then
           iperf_json_printf ''socket: %d  start: %f  end: %f  seconds: %f  bytes: %d  bits_per_second: %f  retransmits: %d  reorder:  %d  max_snd_cwnd:  %d  max_snd_wnd:  %d  max_rtt:  %d  min_rtt:  %d  mean_rtt:  %d sender: %b''
             (front @ [Arg_d (res_stream_retrans rp), Arg_d (res_stream_reorder rp), Arg_d (res_stream_max_snd_cwnd rp), Arg_d (res_stream_max_snd_wnd rp),
                Arg_d (res_stream_max_rtt rp), Arg_d (res_stream_min_rtt rp), Arg_d (mean_rtt rp), Arg_b sender])
         else iperf_json_printf ''socket: %d  start: %f  end: %f  seconds: %f  bytes: %d  bits_per_second: %f sender: %b'' (front @ [Arg_b sender]))"

definition receiver_json :: "int \<Rightarrow> double \<Rightarrow> double \<Rightarrow> iperf_stream \<Rightarrow> cjson option" where
  "receiver_json sender receiver_time end_time sp =
     (let n = res_bytes_received (sp_result sp)
      in iperf_json_printf ''socket: %d  start: %f  end: %f  seconds: %f  bytes: %d  bits_per_second: %f sender: %b''
           [Arg_d (sp_socket sp), Arg_f 0, Arg_f receiver_time, Arg_f end_time, Arg_d (sint n), Arg_f (times8 (rate_over n receiver_time)), Arg_b sender])"

definition udp_json :: "int \<Rightarrow> double \<Rightarrow> iperf_stream \<Rightarrow> cjson option" where
  "udp_json sender sender_time sp =
     (let pc = counts_of sp; lost = sp_cnt_error sp - sp_omitted_cnt_error sp
      in iperf_json_printf ''socket: %d  start: %f  end: %f  seconds: %f  bytes: %d  bits_per_second: %f  jitter_ms: %f  lost_packets: %d  packets: %d  lost_percent: %f  out_of_order: %d sender: %b''
           [Arg_d (sp_socket sp), Arg_f 0, Arg_f sender_time, Arg_f sender_time, Arg_d (sint (stream_sent sp)), Arg_f (times8 (rate_over (stream_sent sp) sender_time)),
            Arg_f (millis (sp_jitter sp)), Arg_d (sint lost), Arg_d (sint (packet_count pc - sp_omitted_packet_count sp)),
            Arg_f (percent lost (pc_sender pc - pc_sender_omitted pc)), Arg_d (sint (sp_outoforder_packets sp - sp_omitted_outoforder_packets sp)), Arg_b sender])"

text \<open>The file of a stream: how much of it was transferred.\<close>

definition file_percent :: "u64 \<Rightarrow> int \<Rightarrow> int" where
  "file_percent n bytes_in_file = (if bytes_in_file > 0 then Doubles.truncate (fl64 (fl64 (u64_to_double n / dbl bytes_in_file) * 100)) else 100)"

definition diskfile_report :: "dates \<Rightarrow> int \<Rightarrow> iperf_stream \<Rightarrow> (string \<times> cjson) list prog" where
  "diskfile_report dt sender sp w =
     (if sp_diskfile_fd sp < 0 then Some ([], w)
      else do {
        (a, w) \<leftarrow> run (call (Fstat (sp_diskfile_fd sp))) w;
        if ret a \<noteq> 0 then Some ([], w)
        else do {
          name \<leftarrow> test_diskfile_name (the_test w);
          let sent = stream_sent sp;
          let received = res_bytes_received (sp_result sp);
          if test_json_output (the_test w) \<noteq> 0 then
            Some (member_of ''diskfile'' (iperf_json_printf ''sent: %d  received: %d  size: %d  percent_sent: %d  percent_received: %d  filename: %s''
              [Arg_d (sint sent), Arg_d (sint received), Arg_d (val a), Arg_d (file_percent sent (val a)), Arg_d (file_percent received (val a)), Arg_s name]), w)
          else do {
            let n = (if sender \<noteq> 0 then sent else received);
            w \<leftarrow> say dt report_diskfile [Str_arg (amount (u64_to_double n)), Str_arg (amount (dbl (val a))), Int_arg (file_percent n (val a)), Str_arg name] w;
            Some ([], w) } } })"

text \<open>The lines of the text. A server does not know the side of the client.\<close>

definition if_verbose :: "(iperf \<Rightarrow> iperf option) \<Rightarrow> iperf \<Rightarrow> iperf option" where
  "if_verbose f w = (if test_verbose (the_test w) \<noteq> 0 then f w else Some w)"

definition line_front :: "iperf_test \<Rightarrow> int \<Rightarrow> double \<Rightarrow> u64 \<Rightarrow> iperf_stream \<Rightarrow> arg list" where
  "line_front test sender t n sp =
     [Int_arg (sp_socket sp), Str_arg (role_tag test sender), Dbl_arg 0, Dbl_arg t, Str_arg (amount (u64_to_double n)), Str_arg (rate_text test (rate_over n t))]"

definition sender_line :: "dates \<Rightarrow> int \<Rightarrow> double \<Rightarrow> iperf_stream \<Rightarrow> iperf \<Rightarrow> iperf option" where
  "sender_line dt sender sender_time sp w =
     (let test = the_test w; front = line_front test sender sender_time (stream_sent sp) sp
      in if is_server test \<and> sp_sender sp = 0 then if_verbose (say dt report_sender_not_available_format [Int_arg (sp_socket sp)]) w
         else if test_sender_has_retransmits test \<noteq> 0 \<or> protocol_is Psctp test
         then say dt report_bw_retrans_format (front @ [Int_arg (res_stream_retrans (sp_result sp)), Str_arg report_sender]) w
         else say dt report_bw_format (front @ [Str_arg report_sender]) w)"

definition receiver_line :: "dates \<Rightarrow> int \<Rightarrow> double \<Rightarrow> iperf_stream \<Rightarrow> iperf \<Rightarrow> iperf option" where
  "receiver_line dt sender receiver_time sp w =
     (let test = the_test w
      in if is_server test \<and> sp_sender sp \<noteq> 0 then if_verbose (say dt report_receiver_not_available_format [Int_arg (sp_socket sp)]) w
         else say dt report_bw_format (line_front test sender receiver_time (res_bytes_received (sp_result sp)) sp @ [Str_arg report_receiver]) w)"

definition udp_sender_line :: "dates \<Rightarrow> int \<Rightarrow> double \<Rightarrow> iperf_stream \<Rightarrow> iperf \<Rightarrow> iperf option" where
  "udp_sender_line dt sender sender_time sp w = do {
     let test = the_test w;
     let pc = counts_of sp;
     let late = sp_outoforder_packets sp - sp_omitted_outoforder_packets sp;
     w \<leftarrow> (if is_server test \<and> sp_sender sp = 0 then if_verbose (say dt report_sender_not_available_format [Int_arg (sp_socket sp)]) w
          else say dt report_bw_udp_format (line_front test sender sender_time (stream_sent sp) sp
                 @ [Dbl_arg 0, Int_arg 0, Int_arg (sint (pc_sender pc - pc_sender_omitted pc)), Dbl_arg 0, Str_arg report_sender]) w);
     if sint late > 0 then say dt report_sum_outoforder [Str_arg (role_tag test sender), Dbl_arg 0, Dbl_arg sender_time, Int_arg (uint late)] w
     else Some w }"

definition udp_receiver_line :: "dates \<Rightarrow> int \<Rightarrow> double \<Rightarrow> iperf_stream \<Rightarrow> iperf \<Rightarrow> iperf option" where
  "udp_receiver_line dt sender receiver_time sp w =
     (let test = the_test w; pc = counts_of sp;
          n = pc_receiver pc - pc_receiver_omitted pc;
          known = (sint (sp_omitted_cnt_error sp) > - 1);
          lost = sp_cnt_error sp - sp_omitted_cnt_error sp;
          lost_percent = (if test_omit test = 0 \<and> sint (pc_receiver pc) > 0 then percent (sp_cnt_error sp) (pc_receiver pc)
                          else if known then percent lost n else 0);
          front = line_front test sender receiver_time (res_bytes_received (sp_result sp)) sp @ [Dbl_arg (millis (sp_jitter sp))]
      in if is_server test \<and> sp_sender sp \<noteq> 0 then if_verbose (say dt report_receiver_not_available_format [Int_arg (sp_socket sp)]) w
         else if test_omit test = 0
         then say dt report_bw_udp_format (front @ [Int_arg (sint (sp_cnt_error sp)), Int_arg (sint (pc_receiver pc)), Dbl_arg lost_percent, Str_arg report_receiver]) w
         else if known
         then say dt report_bw_udp_format (front @ [Int_arg (sint lost), Int_arg (sint n), Dbl_arg lost_percent, Str_arg report_receiver]) w
         else say dt report_bw_udp_format_no_omitted_error (front @ [Int_arg (sint n), Str_arg report_receiver]) w)"

definition stream_summary :: "dates \<Rightarrow> int \<Rightarrow> double \<times> double \<times> double \<Rightarrow> iperf_stream \<Rightarrow> cjson list prog" where
  "stream_summary dt sender spans sp w =
     (case spans of (sender_time, receiver_time, end_time) \<Rightarrow> do {
        let test = the_test w;
        let tcp = tcp_like test;
        if test_json_output test \<noteq> 0 then do {
          (file, w) \<leftarrow> diskfile_report dt sender sp w;
          Some ([JObject (if tcp then member_of report_sender (sender_json test sender sender_time sp) @ file
                            @ member_of report_receiver (receiver_json sender receiver_time end_time sp)
                          else member_of ''udp'' (udp_json sender sender_time sp) @ file)], w) }
        else do {
          w \<leftarrow> (if tcp then sender_line dt sender sender_time sp w else udp_sender_line dt sender sender_time sp w);
          (_, w) \<leftarrow> diskfile_report dt sender sp w;
          w \<leftarrow> (if tcp then receiver_line dt sender receiver_time sp w else udp_receiver_line dt sender receiver_time sp w);
          Some ([], w) } })"

fun summary_streams :: "dates \<Rightarrow> int \<Rightarrow> double \<times> double \<times> double \<Rightarrow> iperf_stream list \<Rightarrow> totals \<Rightarrow> cjson list \<Rightarrow> (totals \<times> cjson list) prog" where
  "summary_streams dt sender spans [] t js w = Some ((t, js), w)"
| "summary_streams dt sender spans (sp # sps) t js w =
     (if sp_sender sp \<noteq> sender then summary_streams dt sender spans sps t js w
      else do {
        (new, w) \<leftarrow> stream_summary dt sender spans sp w;
        summary_streams dt sender spans sps (add_stream (the_test w) sp t) (js @ new) w })"

section \<open>The sums\<close>

definition tcp_sums_json :: "iperf_test \<Rightarrow> int \<Rightarrow> double \<Rightarrow> double \<Rightarrow> totals \<Rightarrow> (string \<times> cjson) list" where
  "tcp_sums_json test sender sender_time receiver_time t =
     (let front = [Arg_f 0, Arg_f sender_time, Arg_f sender_time, Arg_d (sint (to_sent t)), Arg_f (times8 (rate_over (to_sent t) sender_time))]
      in member_of (reversed_name test sender ''sum_sent'')
           (if test_sender_has_retransmits test \<noteq> 0
            then iperf_json_printf ''start: %f  end: %f  seconds: %f  bytes: %d  bits_per_second: %f  retransmits: %d sender: %b''
                   (front @ [Arg_d (sint (to_retransmits t)), Arg_b sender])
            else iperf_json_printf ''start: %f  end: %f  seconds: %f  bytes: %d  bits_per_second: %f sender: %b'' (front @ [Arg_b sender]))
         @ member_of (reversed_name test sender ''sum_received'')
           (iperf_json_printf ''start: %f  end: %f  seconds: %f  bytes: %d  bits_per_second: %f sender: %b''
              [Arg_f 0, Arg_f receiver_time, Arg_f receiver_time, Arg_d (sint (to_received t)), Arg_f (times8 (rate_over (to_received t) receiver_time)), Arg_b sender]))"

definition bits_over :: "u64 \<Rightarrow> double \<Rightarrow> double" where
  "bits_over n s = (if s > 0 then fl64 (fl64 (u64_to_double n * 8) / s) else 0)"

definition udp_sums_json :: "iperf_test \<Rightarrow> int \<Rightarrow> double \<Rightarrow> double \<Rightarrow> double \<Rightarrow> totals \<Rightarrow> (string \<times> cjson) list" where
  "udp_sums_json test sender sender_time receiver_time jitter t =
     (let lost_percent = percent (to_lost t) (to_packets t)
      in member_of (reversed_name test sender ''sum'')
           (iperf_json_printf ''start: %f  end: %f  seconds: %f  bytes: %d  bits_per_second: %f  jitter_ms: %f  lost_packets: %d  packets: %d  lost_percent: %f sender: %b''
              [Arg_f 0, Arg_f receiver_time, Arg_f receiver_time, Arg_d (sint (to_sent t)), Arg_f (times8 (rate_over (to_sent t) sender_time)), Arg_f (millis jitter),
               Arg_d (sint (to_lost t)), Arg_d (sint (to_packets t)), Arg_f lost_percent, Arg_b sender])
         @ member_of (reversed_name test sender ''sum_sent'')
           (iperf_json_printf ''start: %f  end: %f  seconds: %f  bytes: %d  bits_per_second: %f  jitter_ms: %f  lost_packets: %d  packets: %d  lost_percent: %f  sender: %b''
              [Arg_f 0, Arg_f sender_time, Arg_f sender_time, Arg_d (sint (to_sent t)), Arg_f (bits_over (to_sent t) sender_time), Arg_f 0,
               Arg_d 0, Arg_d (sint (to_sender_packets t)), Arg_f 0, Arg_b 1])
         @ member_of (reversed_name test sender ''sum_received'')
           (iperf_json_printf ''start: %f  end: %f  seconds: %f  bytes: %d  bits_per_second: %f  jitter_ms: %f  lost_packets: %d  packets: %d  lost_percent: %f  sender: %b''
              [Arg_f 0, Arg_f receiver_time, Arg_f receiver_time, Arg_d (sint (to_received t)), Arg_f (bits_over (to_received t) receiver_time), Arg_f (millis jitter),
               Arg_d (sint (to_lost t)), Arg_d (sint (to_receiver_packets t)), Arg_f lost_percent, Arg_b 0]))"

definition sum_front :: "iperf_test \<Rightarrow> int \<Rightarrow> double \<Rightarrow> u64 \<Rightarrow> double \<Rightarrow> arg list" where
  "sum_front test sender t n bandwidth =
     [Str_arg (role_tag test sender), Dbl_arg 0, Dbl_arg t, Str_arg (amount (u64_to_double n)), Str_arg (rate_text test bandwidth)]"

definition tcp_sums_lines :: "dates \<Rightarrow> int \<Rightarrow> double \<Rightarrow> double \<Rightarrow> totals \<Rightarrow> iperf \<Rightarrow> iperf option" where
  "tcp_sums_lines dt sender sender_time receiver_time t w = do {
     let test = the_test w;
     let front = sum_front test sender sender_time (to_sent t) (rate_over (to_sent t) sender_time);
     w \<leftarrow> (if is_server test \<and> sender = 0 then if_verbose (say dt report_sender_not_available_summary_format [Str_arg ''SUM'']) w
          else if test_sender_has_retransmits test \<noteq> 0
          then say dt report_sum_bw_retrans_format (front @ [Int_arg (sint (to_retransmits t)), Str_arg report_sender]) w
          else say dt report_sum_bw_format (front @ [Str_arg report_sender]) w);
     if is_server test \<and> sender \<noteq> 0 then if_verbose (say dt report_receiver_not_available_summary_format [Str_arg ''SUM'']) w
     else say dt report_sum_bw_format (sum_front test sender receiver_time (to_received t) (rate_over (to_received t) receiver_time) @ [Str_arg report_receiver]) w }"

definition udp_sums_lines :: "dates \<Rightarrow> int \<Rightarrow> double \<times> double \<times> double \<Rightarrow> double \<Rightarrow> totals \<Rightarrow> iperf \<Rightarrow> iperf option" where
  "udp_sums_lines dt sender spans jitter t w =
     (case spans of (sender_time, receiver_time, end_time) \<Rightarrow> do {
        let test = the_test w;
        w \<leftarrow> (if is_server test \<and> sender = 0 then Some w
             else say dt report_sum_bw_udp_format (sum_front test sender sender_time (to_sent t) (rate_over (to_sent t) sender_time)
                    @ [Dbl_arg 0, Int_arg 0, Int_arg (sint (to_sender_packets t)), Dbl_arg 0, Str_arg report_sender]) w);
        if is_server test \<and> sender \<noteq> 0 then Some w
        else say dt report_sum_bw_udp_format (sum_front test sender receiver_time (to_received t)
                 (if end_time > 0 then per_second (to_received t) receiver_time else 0)
               @ [Dbl_arg (millis jitter), Int_arg (sint (to_lost t)), Int_arg (sint (to_receiver_packets t)),
                  Dbl_arg (percent (to_lost t) (to_packets t)), Str_arg report_receiver]) w })"

definition add_end :: "(string \<times> cjson) list \<Rightarrow> iperf \<Rightarrow> iperf" where
  "add_end ms w = set_test (test_json_end_update (map_option (\<lambda>j. foldl (\<lambda>j (k, v). cJSON_AddItemToObject j k v) j ms))) w"

definition print_sums :: "dates \<Rightarrow> int \<Rightarrow> double \<times> double \<times> double \<Rightarrow> totals \<Rightarrow> iperf \<Rightarrow> iperf option" where
  "print_sums dt sender spans t w =
     (let test = the_test w; (sender_time, receiver_time, end_time) = spans;
          jitter = fl64 (to_jitter t / of_int (test_num_streams test))
      in if test_num_streams test \<le> 1 \<and> test_json_output test = 0 then Some w
         else if tcp_like test then
           if test_json_output test \<noteq> 0 then Some (add_end (tcp_sums_json test sender sender_time receiver_time t) w)
           else tcp_sums_lines dt sender sender_time receiver_time t w
         else if test_num_streams test = 0 then None
         else if test_json_output test \<noteq> 0 then Some (add_end (udp_sums_json test sender sender_time receiver_time jitter t) w)
         else udp_sums_lines dt sender spans jitter t w)"

section \<open>The end of the summary\<close>

text \<open>The congestion algorithms of the sender and the receiver, this side's and the other's.\<close>

definition congestion_pair :: "iperf_test \<Rightarrow> int \<Rightarrow> string option \<times> string option" where
  "congestion_pair test sender =
     (if sender \<noteq> 0 then (test_congestion_used test, test_remote_congestion_used test)
      else (test_remote_congestion_used test, test_congestion_used test))"

definition cpu_json :: "iperf_test \<Rightarrow> cjson option" where
  "cpu_json test =
     (case (test_cpu_util test, test_remote_cpu_util test) of ((a, b, c), (d, e, f)) \<Rightarrow>
        iperf_json_printf ''host_total: %f  host_user: %f  host_system: %f  remote_total: %f  remote_user: %f  remote_system: %f''
          [Arg_f a, Arg_f b, Arg_f c, Arg_f d, Arg_f e, Arg_f f])"

definition end_json :: "iperf_test \<Rightarrow> int \<Rightarrow> (string \<times> cjson) list" where
  "end_json test sender =
     member_of ''cpu_utilization_percent'' (cpu_json test)
     @ (if protocol_is Ptcp test
        then member_of ''sender_tcp_congestion'' (map_option JString (fst (congestion_pair test sender)))
             @ member_of ''receiver_tcp_congestion'' (map_option JString (snd (congestion_pair test sender)))
        else [])"

definition cpu_line :: "dates \<Rightarrow> bool \<Rightarrow> iperf \<Rightarrow> iperf option" where
  "cpu_line dt sender w =
     (case (test_cpu_util (the_test w), test_remote_cpu_util (the_test w)) of ((a, b, c), (d, e, f)) \<Rightarrow>
        say dt report_cpu [Str_arg report_local, Str_arg (if sender then report_sender else report_receiver), Dbl_arg a, Dbl_arg b, Dbl_arg c,
          Str_arg report_remote, Str_arg (if sender then report_receiver else report_sender), Dbl_arg d, Dbl_arg e, Dbl_arg f] w)"

definition say_option :: "dates \<Rightarrow> string \<Rightarrow> string option \<Rightarrow> iperf \<Rightarrow> iperf option" where
  "say_option dt format s w = (case s of None \<Rightarrow> Some w | Some str \<Rightarrow> say dt format [Str_arg str] w)"

definition verbose_end :: "dates \<Rightarrow> int \<Rightarrow> iperf \<Rightarrow> iperf option" where
  "verbose_end dt sender w = do {
     w \<leftarrow> (if sender = 0 then Some w
          else if test_bidirectional (the_test w) \<noteq> 0 then do { w \<leftarrow> cpu_line dt True w; cpu_line dt False w }
          else cpu_line dt True w);
     if protocol_is Ptcp (the_test w) then do {
       let (snd_congestion, rcv_congestion) = congestion_pair (the_test w) sender;
       w \<leftarrow> say_option dt (''snd_tcp_congestion %s'' @ [CHR 0x0A]) snd_congestion w;
       say_option dt (''rcv_tcp_congestion %s'' @ [CHR 0x0A]) rcv_congestion w }
     else Some w }"

text \<open>The output of the server, printed once.\<close>

definition print_server_json :: "dates \<Rightarrow> iperf \<Rightarrow> iperf option" where
  "print_server_json dt w =
     (case test_json_server_output (the_test w) of
        None \<Rightarrow> Some w
      | Some j \<Rightarrow> do {
          str \<leftarrow> cJSON_Print j;
          w \<leftarrow> say dt ([CHR 0x0A] @ ''Server JSON output:'' @ [CHR 0x0A] @ ''%s'' @ [CHR 0x0A]) [Str_arg str] w;
          Some (set_test (test_json_server_output_update (\<lambda>_. None)) w) })"

definition print_server_text :: "dates \<Rightarrow> iperf \<Rightarrow> iperf option" where
  "print_server_text dt w =
     (case test_server_output_text (the_test w) of
        None \<Rightarrow> Some w
      | Some str \<Rightarrow> do {
          w \<leftarrow> say dt ([CHR 0x0A] @ ''Server output:'' @ [CHR 0x0A] @ ''%s'' @ [CHR 0x0A]) [Str_arg str] w;
          Some (set_test (test_server_output_text_update (\<lambda>_. None)) w) })"

definition print_server_output :: "dates \<Rightarrow> iperf \<Rightarrow> iperf option" where
  "print_server_output dt w =
     (if \<not> is_client (the_test w) \<or> test_get_server_output (the_test w) = 0 \<or> test_json_output (the_test w) \<noteq> 0 then Some w
      else do { w \<leftarrow> print_server_json dt w; print_server_text dt w })"

definition summary_end :: "dates \<Rightarrow> bool \<Rightarrow> int \<Rightarrow> iperf \<Rightarrow> iperf option" where
  "summary_end dt last_mode sender w =
     (if test_json_output (the_test w) \<noteq> 0 \<and> last_mode then Some (add_end (end_json (the_test w) sender) w)
      else do {
        w \<leftarrow> if_verbose (verbose_end dt sender) w;
        print_server_output dt w })"

section \<open>The summary\<close>

definition results_header :: "dates \<Rightarrow> iperf \<Rightarrow> iperf option" where
  "results_header dt w = do {
     w \<leftarrow> say dt ''%s'' [Str_arg report_bw_separator] w;
     w \<leftarrow> if_verbose (say dt ''%s'' [Str_arg report_summary]) w;
     let test = the_test w;
     let bidir = (test_bidirectional test \<noteq> 0);
     say dt ''%s'' [Str_arg (
       if tcp_like test then
         if test_sender_has_retransmits test \<noteq> 0 \<or> test_other_side_has_retransmits test \<noteq> 0
         then (if bidir then report_bw_retrans_header_bidir else report_bw_retrans_header)
         else (if bidir then report_bw_header_bidir else report_bw_header)
       else (if bidir then report_bw_udp_header_bidir else report_bw_udp_header))] w }"

text \<open>The flag of the side that sends in a direction: for a test in both directions it changes with it.\<close>

definition retransmits_of :: "int \<Rightarrow> int \<Rightarrow> iperf_test \<Rightarrow> iperf_test" where
  "retransmits_of own sender test =
     (if both_ways test then test\<lparr>test_sender_has_retransmits := (if sender \<noteq> 0 then own else test_other_side_has_retransmits test)\<rparr> else test)"

fun summary_modes :: "dates \<Rightarrow> int \<Rightarrow> int list \<Rightarrow> cjson list \<Rightarrow> cjson list prog" where
  "summary_modes dt own [] js w = Some (js, w)"
| "summary_modes dt own (m # ms) js w = do {
     let (spans, test) = end_times (retransmits_of own (m * m) (the_test w));
     let w = set_test (\<lambda>_. test) w;
     ((t, js), w) \<leftarrow> summary_streams dt (m * m) spans (test_streams test) no_totals js w;
     w \<leftarrow> print_sums dt (m * m) spans t w;
     w \<leftarrow> summary_end dt (ms = []) (m * m) w;
     summary_modes dt own ms js w }"

text \<open>\<open>end\<close> gets the array of the streams first; it fills while the directions are printed.\<close>

fun put_member :: "nat \<Rightarrow> cjson \<Rightarrow> cjson \<Rightarrow> cjson" where
  "put_member i v (JObject ms) = JObject (if i < length ms then ms[i := (fst (ms ! i), v)] else ms)"
| "put_member i v j = j"

fun members :: "cjson option \<Rightarrow> nat" where
  "members (Some (JObject ms)) = length ms"
| "members _ = 0"

definition iperf_print_results :: "dates \<Rightarrow> iperf \<Rightarrow> iperf option" where
  "iperf_print_results dt w = do {
     let own = test_sender_has_retransmits (the_test w);
     let json = (test_json_output (the_test w) \<noteq> 0);
     let i = members (test_json_end (the_test w));
     w \<leftarrow> (if json then Some (add_end [(''streams'', JArray [])] w) else results_header dt w);
     (js, w) \<leftarrow> summary_modes dt own (modes (the_test w)) [] w;
     let w = (if json then set_test (test_json_end_update (map_option (put_member i (JArray js)))) w else w);
     Some (if both_ways (the_test w) then set_test (test_sender_has_retransmits_update (\<lambda>_. own)) w else w) }"

section \<open>The callbacks\<close>

abbreviation STREAM_RUNNING :: int where "STREAM_RUNNING \<equiv> 6"

definition iperf_reporter_callback :: "dates \<Rightarrow> callbacks \<Rightarrow> iperf \<Rightarrow> iperf option" where
  "iperf_reporter_callback dt user w =
     (let st = test_state (the_test w)
      in if st = TEST_RUNNING \<or> st = STREAM_RUNNING then iperf_print_intermediate dt user w
         else if st = TEST_END \<or> st = DISPLAY_RESULTS then do { w \<leftarrow> iperf_print_intermediate dt user w; iperf_print_results dt w }
         else Some w)"

text \<open>The messages at the start: the peer, the settings, the streams.\<close>

definition mapped_v4_to_regular_v4 :: "string \<Rightarrow> bool \<times> string" where
  "mapped_v4_to_regular_v4 str = (if take 7 str = ''::ffff:'' then (True, drop 7 str) else (False, str))"

definition bytes_text :: "byte list \<Rightarrow> string" where
  "bytes_text bs = map (\<lambda>b. char_of (unat b)) bs"

definition rfc1123_fmt :: string where
  "rfc1123_fmt = ''%a, %d %b %Y %H:%M:%S %Z''"

definition add_start_if :: "string \<Rightarrow> cjson option \<Rightarrow> iperf \<Rightarrow> iperf" where
  "add_start_if k j w = (case j of None \<Rightarrow> w | Some v \<Rightarrow> set_test (add_start k v) w)"

definition connect_time :: "dates \<Rightarrow> iperf \<Rightarrow> iperf option" where
  "connect_time dt w = do {
     (now, w) \<leftarrow> run iperf_time_now_wallclock w;
     let millisecs = uint (iperf_time_in_usecs now) div 1000;
     let now_secs = millisecs div 1000;
     let str = take 99 (universal_date dt rfc1123_fmt now_secs);
     if test_json_output (the_test w) \<noteq> 0
     then Some (add_start_if ''timestamp'' (iperf_json_printf ''time: %s  timesecs: %d  timemillisecs: %d'' [Arg_s str, Arg_d now_secs, Arg_d millisecs]) w)
     else if_verbose (say dt report_time [Str_arg str]) w }"

definition connect_peer :: "dates \<Rightarrow> iperf \<Rightarrow> iperf option" where
  "connect_peer dt w =
     (let test = the_test w; json = (test_json_output test \<noteq> 0)
      in if is_client test then do {
           host \<leftarrow> test_server_hostname test;
           if json then Some (add_start_if ''connecting_to'' (iperf_json_printf ''host: %s  port: %d'' [Arg_s host, Arg_d (test_server_port test)]) w)
           else do {
             w \<leftarrow> say dt report_connecting [Str_arg host, Int_arg (test_server_port test)] w;
             if test_reverse test \<noteq> 0 then say dt report_reverse [Str_arg host] w else Some w } }
         else do {
           (a, w) \<leftarrow> run (winsock (Getpeername (test_ctrl_sck test))) w;
           (_, w) \<leftarrow> run (getsockdomain (test_ctrl_sck test)) w;
           let peer = ai_addr (info a);
           let (mapped, host) = mapped_v4_to_regular_v4 (sa_host peer);
           let w = (if mapped then set_test (\<lambda>t. iperf_set_mapped_v4 t 1) w else w);
           if json then Some (add_start_if ''accepted_connection'' (iperf_json_printf ''host: %s  port: %d'' [Arg_s host, Arg_d (sa_port peer)]) w)
           else say dt report_accepted [Str_arg host, Int_arg (sa_port peer)] w })"

definition connect_settings :: "dates \<Rightarrow> iperf \<Rightarrow> iperf option" where
  "connect_settings dt w =
     (let test = the_test w; cfg = test_settings test; cookie = bytes_text (cookie_text (test_cookie test)); tcp = protocol_is Ptcp test
      in if test_json_output test \<noteq> 0 then do {
           let w = set_test (add_start ''cookie'' (JString cookie)) w;
           let w = (if \<not> tcp then w
                    else if cfg_mss cfg \<noteq> 0 then set_test (add_start ''tcp_mss'' (JNumber (dbl (cfg_mss cfg)))) w
                    else set_test (add_start ''tcp_mss_default'' (JNumber (dbl (test_ctrl_sck_mss test)))) w);
           let w = set_test (add_start ''target_bitrate'' (JNumber (u64_to_double (cfg_rate cfg)))) w;
           Some (set_test (add_start ''fq_rate'' (JNumber (u64_to_double (cfg_fqrate cfg)))) w) }
         else if test_verbose test = 0 then Some w
         else do {
           w \<leftarrow> say dt report_cookie [Str_arg cookie] w;
           w \<leftarrow> (if \<not> tcp then Some w
                else if cfg_mss cfg \<noteq> 0 then say dt (''      TCP MSS: %d'' @ [CHR 0x0A]) [Int_arg (cfg_mss cfg)] w
                else say dt (''      TCP MSS: %d (default)'' @ [CHR 0x0A]) [Int_arg (test_ctrl_sck_mss test)] w);
           if cfg_rate cfg \<noteq> 0 then say dt (''      Target Bitrate: %llu'' @ [CHR 0x0A]) [Int_arg (uint (cfg_rate cfg))] w else Some w })"

definition iperf_on_connect :: "dates \<Rightarrow> iperf \<Rightarrow> iperf option" where
  "iperf_on_connect dt w = do {
     w \<leftarrow> connect_time dt w;
     w \<leftarrow> connect_peer dt w;
     connect_settings dt w }"

definition test_start_json :: "iperf_test \<Rightarrow> string \<Rightarrow> cjson option" where
  "test_start_json test name =
     (let cfg = test_settings test
      in iperf_json_printf ''protocol: %s  num_streams: %d  blksize: %d  omit: %d  duration: %d  bytes: %d  blocks: %d  reverse: %d  tos: %d  target_bitrate: %d bidir: %d fqrate: %d interval: %f  gso: %d  gro: %d''
           [Arg_s name, Arg_d (test_num_streams test), Arg_d (cfg_blksize cfg), Arg_d (test_omit test), Arg_d (test_duration test),
            Arg_d (sint (cfg_bytes cfg)), Arg_d (sint (cfg_blocks cfg)), Arg_d (if test_reverse test \<noteq> 0 then 1 else 0), Arg_d (cfg_tos cfg),
            Arg_d (sint (cfg_rate cfg)), Arg_d (test_bidirectional test), Arg_d (sint (cfg_fqrate cfg)), Arg_f (test_stats_interval test),
            Arg_d (cfg_gso cfg), Arg_d (cfg_gro cfg)])"

definition test_start_line :: "dates \<Rightarrow> string \<Rightarrow> iperf \<Rightarrow> iperf option" where
  "test_start_line dt name w =
     (let test = the_test w; cfg = test_settings test;
          front = [Str_arg name, Int_arg (test_num_streams test), Int_arg (cfg_blksize cfg), Int_arg (test_omit test)];
          tos = [Int_arg (cfg_tos cfg)]
      in if cfg_bytes cfg \<noteq> 0 then say dt test_start_bytes (front @ [Int_arg (uint (cfg_bytes cfg))] @ tos) w
         else if cfg_blocks cfg \<noteq> 0 then say dt test_start_blocks (front @ [Int_arg (uint (cfg_blocks cfg))] @ tos) w
         else say dt test_start_time (front @ [Int_arg (test_duration test)] @ tos) w)"

definition iperf_on_test_start :: "dates \<Rightarrow> callbacks \<Rightarrow> iperf \<Rightarrow> iperf option" where
  "iperf_on_test_start dt user w = do {
     p \<leftarrow> test_protocol (the_test w);
     w \<leftarrow> (if test_json_output (the_test w) \<noteq> 0 then Some (add_start_if ''test_start'' (test_start_json (the_test w) (prot_name p)) w)
          else if_verbose (test_start_line dt (prot_name p)) w);
     if test_json_stream (the_test w) = 0 then Some w
     else do {
       j \<leftarrow> test_json_start (the_test w);
       JSONStream_Output user ''start'' (json_put ''connected'' (test_json_connected (the_test w)) j) w } }"

text \<open>\<open>hosts\<close> are the texts of the stream's addresses, this side's and the other's.\<close>

definition connect_msg :: "dates \<Rightarrow> (iperf_stream \<Rightarrow> string \<times> string) \<Rightarrow> iperf_stream \<Rightarrow> iperf \<Rightarrow> iperf option" where
  "connect_msg dt hosts sp w = do {
     (_, w) \<leftarrow> run (getsockdomain (sp_socket sp)) w;
     let ipl = snd (mapped_v4_to_regular_v4 (fst (hosts sp)));
     let ipr = snd (mapped_v4_to_regular_v4 (snd (hosts sp)));
     if test_json_output (the_test w) \<noteq> 0 then
       Some (case iperf_json_printf ''socket: %d  local_host: %s  local_port: %d  remote_host: %s  remote_port: %d''
                    [Arg_d (sp_socket sp), Arg_s ipl, Arg_d (sp_local_port sp), Arg_s ipr, Arg_d (sp_remote_port sp)] of
               None \<Rightarrow> w | Some j \<Rightarrow> set_test (test_json_connected_update (add_to_array j)) w)
     else say dt report_connected [Int_arg (sp_socket sp), Str_arg ipl, Int_arg (sp_local_port sp), Str_arg ipr, Int_arg (sp_remote_port sp)] w }"

text \<open>The stream is the one that was added last.\<close>

definition iperf_on_new_stream :: "dates \<Rightarrow> (iperf_stream \<Rightarrow> string \<times> string) \<Rightarrow> iperf \<Rightarrow> iperf option" where
  "iperf_on_new_stream dt hosts w = (if test_streams (the_test w) = [] then None else connect_msg dt hosts (last (test_streams (the_test w))) w)"

definition iperf_on_test_finish :: "iperf \<Rightarrow> iperf option" where
  "iperf_on_test_finish w = Some w"

text \<open>The functions behind the pointers that \<open>iperf_defaults\<close> sets, beside those of the caller.\<close>

definition installed :: "dates \<Rightarrow> (iperf_stream \<Rightarrow> string \<times> string) \<Rightarrow> callbacks \<Rightarrow> callbacks" where
  "installed dt hosts user f =
     (if f = IPERF_REPORTER_CALLBACK then iperf_reporter_callback dt user
      else if f = IPERF_ON_NEW_STREAM then iperf_on_new_stream dt hosts
      else if f = IPERF_ON_TEST_START then iperf_on_test_start dt user
      else if f = IPERF_ON_CONNECT then iperf_on_connect dt
      else if f = IPERF_ON_TEST_FINISH then iperf_on_test_finish
      else user f)"

end
