(* ===== verification/Report_Correct.thy ===== *)
theory Report_Correct
  imports Summary
begin

text \<open>
  A report reads the measurements and leaves them alone; its sums are the sums of what it prints for the streams.
\<close>

section \<open>What a report may change\<close>

text \<open>A test without the parts that hold the output, and without the times that the summary fills in.\<close>

definition forget_times :: "iperf_stream \<Rightarrow> iperf_stream" where
  "forget_times sp = sp\<lparr>sp_result := (sp_result sp)\<lparr>res_sender_time := 0, res_receiver_time := 0\<rparr>\<rparr>"

definition essence :: "iperf_test \<Rightarrow> iperf_test" where
  "essence t = t\<lparr>test_json_top := None, test_json_intervals := None, test_json_end := None, test_server_output_list := [],
     test_json_server_output := None, test_server_output_text := None, test_streams := map forget_times (test_streams t)\<rparr>"

definition reports :: "iperf \<Rightarrow> iperf \<Rightarrow> bool" where
  "reports w w' \<longleftrightarrow> essence (the_test w') = essence (the_test w) \<and> i_errno w' = i_errno w \<and> tmem w' = tmem w"

text \<open>The same up to the flag that the summary of a test in both directions switches.\<close>

definition no_flag :: "iperf \<Rightarrow> iperf" where
  "no_flag w = set_test (test_sender_has_retransmits_update (\<lambda>_. 0)) w"

lemma reports_refl [simp]: "reports w w"
  by (simp add: reports_def)

lemma reports_trans [trans]: "reports w w1 \<Longrightarrow> reports w1 w2 \<Longrightarrow> reports w w2"
  by (simp add: reports_def)

lemma reports_tests: "essence (f (the_test w)) = essence (the_test w) \<Longrightarrow> reports w (set_test f w)"
  by (simp add: reports_def set_test_def)

lemma essence_output [simp]:
  "essence (test_json_intervals_update f t) = essence t" "essence (test_json_end_update f t) = essence t"
  "essence (test_json_server_output_update g t) = essence t" "essence (test_server_output_text_update h t) = essence t"
  "essence (test_server_output_list_update l t) = essence t" "essence (test_json_top_update k t) = essence t"
  by (simp_all add: essence_def)

lemma reports_printf: "run_state (iperf_printf dt str) w = (r, w') \<Longrightarrow> reports w w'"
  by (auto simp: iperf_printf_def time_stamp_def print_on_def run_call Let_def keep_line_def reports_def
      split: if_splits option.splits)

lemma reports_err: "run (iperf_err str) w = Some (r, w') \<Longrightarrow> reports w w'"
  by (auto simp: run_def iperf_err_def add_top_def reports_def)

lemma reports_say:
  assumes "say dt format args w = Some w'"
  shows "reports w w'"
proof -
  obtain str r w1 where "printf format args = Some str" "run_state (iperf_printf dt str) w = (r, w1)"
    using assms by (cases "printf format args") (auto simp: say_def intro: prod.exhaust)
  then show ?thesis using assms reports_printf by (auto simp: say_def run_def)
qed

lemma reports_verbose: "if_verbose f w = Some w' \<Longrightarrow> (f w = Some w' \<Longrightarrow> reports w w') \<Longrightarrow> reports w w'"
  by (auto simp: if_verbose_def split: if_splits)

lemma reports_header: "interval_header dt k sp irp w = Some w' \<Longrightarrow> reports w w'"
  by (auto simp: interval_header_def Let_def dest: reports_say split: if_splits)

lemma reports_line: "interval_line dt sp irp w = Some w' \<Longrightarrow> reports w w'"
  by (auto simp: interval_line_def Let_def dest: reports_say split: if_splits)

lemma reports_interval: "print_interval_results dt k w = Some (r, w') \<Longrightarrow> reports w w'"
  by (auto simp: print_interval_results_def Let_def bind_eq_Some_conv dest: reports_err
      dest!: reports_header reports_line intro: reports_trans split: if_splits option.splits)

lemma reports_streams: "interval_streams dt sender ks s js w = Some (r, w') \<Longrightarrow> reports w w'"
proof (induction dt sender ks s js w arbitrary: r w' rule: interval_streams.induct)
  case (2 dt sender k ks s js w)
  show ?case
  proof (cases "sp_sender (test_streams (the_test w) ! k) = sender")
    case True
    then obtain new w1 where p: "print_interval_results dt k w = Some (new, w1)" and
      rest: "(case last_interval (sp_result (test_streams (the_test w) ! k)) of
          None \<Rightarrow> do { (_, w) \<leftarrow> run (iperf_err ''iperf_print_intermediate error: interval_results is NULL'') w1; Some ((None, js @ new), w) }
        | Some irp \<Rightarrow> interval_streams dt sender ks (add_interval (the_test w1) irp s) (js @ new) w1) = Some (r, w')"
      using 2(3) by (auto simp: Let_def bind_eq_Some_conv)
    have "reports w1 w'"
      using rest True p 2(2) by (auto simp: bind_eq_Some_conv dest: reports_err split: option.splits)
    then show ?thesis using reports_interval [OF p] reports_trans by blast
  qed (use 2 in \<open>simp add: Let_def\<close>)
qed simp

lemma reports_sum_line: "sum_line dt sender s front jitter om w = Some w' \<Longrightarrow> reports w w'"
  by (auto simp: sum_line_def Let_def dest: reports_say split: if_splits)

lemma reports_sum: "print_sum dt sender s w = Some (r, w') \<Longrightarrow> reports w w'"
  by (auto simp: print_sum_def Let_def bind_eq_Some_conv dest: reports_sum_line split: if_splits)

lemma reports_modes: "interval_modes dt ms js tot w = Some (r, w') \<Longrightarrow> reports w w'"
proof (induction dt ms js tot w arbitrary: r w' rule: interval_modes.induct)
  case (2 dt m ms js tot w)
  then obtain s js' w1 where s: "interval_streams dt (m * m) [0..<length (test_streams (the_test w))] no_sums js w = Some ((s, js'), w1)"
    by (auto simp: bind_eq_Some_conv)
  have "reports w1 w'"
  proof (cases s)
    case (Some x)
    then obtain new w2 where p: "print_sum dt (m * m) x w1 = Some (new, w2)" and i: "interval_modes dt ms js' (tot @ new) w2 = Some (r, w')"
      using 2(2) s by (auto simp: bind_eq_Some_conv)
    show ?thesis using 2(1) [OF s refl _ Some p refl i] reports_sum [OF p] reports_trans by blast
  qed (use 2(2) s in \<open>auto simp: bind_eq_Some_conv\<close>)
  then show ?case using reports_streams [OF s] reports_trans by blast
qed simp

lemma reports_intermediate:
  assumes "iperf_print_intermediate dt user w = Some w'" and "\<And>f w w'. user f w = Some w' \<Longrightarrow> reports w w'"
  shows "reports w w'"
proof (cases "interval_counts (the_test w)")
  case True
  define json where "json \<longleftrightarrow> test_json_output (the_test w) \<noteq> 0"
  define d where "d = discard_json (the_test w)"
  obtain ok j w1 where i: "interval_modes dt (modes (the_test w)) [] [] w = Some ((ok, j), w1)"
    using assms(1) True by (auto simp: iperf_print_intermediate_def Let_def bind_eq_Some_conv)
  define w2 where "w2 = (if json \<and> \<not> d then set_test (test_json_intervals_update (add_to_array j)) w1 else w1)"
  have "reports w1 w2" by (simp add: w2_def reports_tests)
  moreover have "(if \<not> ok \<or> test_json_stream (the_test w2) = 0 then Some w2
      else if json then JSONStream_Output user ''interval'' j w2 else None) = Some w'"
    unfolding w2_def json_def d_def using assms(1) True i by (simp add: iperf_print_intermediate_def Let_def split del: if_split)
  then have "reports w2 w'"
    using assms(2) by (auto simp: JSONStream_Output_def split: if_splits option.splits)
  ultimately show ?thesis using reports_modes [OF i] reports_trans by blast
qed (use assms in \<open>simp add: iperf_print_intermediate_def\<close>)

lemma reports_diskfile: "diskfile_report dt sender sp w = Some (r, w') \<Longrightarrow> reports w w'"
proof -
  have call: "reports v (snd (run_state (call c) v))" for v :: iperf and c
    by (simp add: run_call Let_def reports_def)
  assume "diskfile_report dt sender sp w = Some (r, w')"
  then show ?thesis
    using call [of w "Fstat (sp_diskfile_fd sp)"] reports_trans [OF _ reports_say]
    by (auto simp: diskfile_report_def run_def case_prod_beta bind_eq_Some_conv Let_def split: if_splits)
qed

lemma reports_stream_lines:
  "sender_line dt sender t sp w = Some w' \<Longrightarrow> reports w w'" "receiver_line dt sender t sp w = Some w' \<Longrightarrow> reports w w'"
  "udp_receiver_line dt sender t sp w = Some w' \<Longrightarrow> reports w w'"
  by (auto simp: sender_line_def receiver_line_def udp_receiver_line_def Let_def elim!: reports_verbose dest: reports_say split: if_splits)

lemma reports_udp_sender: "udp_sender_line dt sender t sp w = Some w' \<Longrightarrow> reports w w'"
  by (auto simp: udp_sender_line_def Let_def bind_eq_Some_conv elim!: reports_verbose dest: reports_say split: if_splits
      intro: reports_trans [OF reports_verbose reports_say] reports_trans [OF reports_say reports_say])

lemma reports_summary: "stream_summary dt sender spans sp w = Some (r, w') \<Longrightarrow> reports w w'"
proof -
  obtain st rt et where sp: "spans = (st, rt, et)" by (cases spans) auto
  assume a: "stream_summary dt sender spans sp w = Some (r, w')"
  show ?thesis
  proof (cases "test_json_output (the_test w) = 0")
    case False
    then show ?thesis using a by (auto simp: stream_summary_def sp Let_def bind_eq_Some_conv dest: reports_diskfile)
  next
    case True
    then obtain w1 w2 f where "(if tcp_like (the_test w) then sender_line dt sender st sp w else udp_sender_line dt sender st sp w) = Some w1"
      "diskfile_report dt sender sp w1 = Some (f, w2)"
      "(if tcp_like (the_test w) then receiver_line dt sender rt sp w2 else udp_receiver_line dt sender rt sp w2) = Some w'"
      using a by (auto simp: stream_summary_def sp Let_def bind_eq_Some_conv)
    then have "reports w w1" "reports w1 w2" "reports w2 w'"
      by (auto dest: reports_diskfile reports_stream_lines reports_udp_sender split: if_splits)
    then show ?thesis using reports_trans by blast
  qed
qed

lemma reports_summary_streams: "summary_streams dt sender spans sps t js w = Some (r, w') \<Longrightarrow> reports w w'"
proof (induction dt sender spans sps t js w arbitrary: r w' rule: summary_streams.induct)
  case (2 dt sender spans sp sps t js w)
  show ?case
  proof (cases "sp_sender sp = sender")
    case True
    then obtain new w1 where p: "stream_summary dt sender spans sp w = Some (new, w1)"
      and rest: "summary_streams dt sender spans sps (add_stream (the_test w1) sp t) (js @ new) w1 = Some (r, w')"
      using 2(3) by (auto simp: bind_eq_Some_conv)
    show ?thesis using 2(2) rest p True reports_summary [OF p] reports_trans by blast
  qed (use 2 in simp)
qed simp

lemma essence_times: "essence (snd (end_times t)) = essence t"
  by (auto simp: end_times_def essence_def forget_times_def Let_def split: list.splits)

lemma essence_mode: "essence t = essence u \<Longrightarrow> both_ways t = both_ways u"
proof -
  have "test_mode (essence v) = test_mode v" for v by (simp add: essence_def)
  then show "essence t = essence u \<Longrightarrow> both_ways t = both_ways u" unfolding both_ways_def by metis
qed

lemma essence_flag: "essence (test_sender_has_retransmits_update f t) = test_sender_has_retransmits_update f (essence t)"
  by (simp add: essence_def)

lemma reports_no_flag: "reports w w' \<Longrightarrow> reports (no_flag w) (no_flag w')"
  by (simp add: reports_def no_flag_def set_test_def essence_flag)

lemma reports_flag_back:
  assumes "reports (no_flag w) (no_flag v)"
  shows "reports w (set_test (test_sender_has_retransmits_update (\<lambda>_. test_sender_has_retransmits (the_test w))) v)"
proof -
  let ?f = "\<lambda>x. test_sender_has_retransmits_update (\<lambda>_. x :: int)"
  let ?own = "test_sender_has_retransmits (the_test w)"
  have "?f 0 (essence (the_test v)) = ?f 0 (essence (the_test w))"
    using assms by (simp add: reports_def no_flag_def set_test_def essence_flag)
  then have "?f ?own (?f 0 (essence (the_test v))) = ?f ?own (?f 0 (essence (the_test w)))"
    by (rule arg_cong)
  moreover have "?f ?own (the_test w) = the_test w" by simp
  ultimately have "essence (?f ?own (the_test v)) = essence (the_test w)"
    by (simp add: essence_flag [symmetric])
  then show ?thesis
    using assms by (simp add: reports_def no_flag_def set_test_def)
qed

lemma reports_end: "reports w (add_end ms w)"
  unfolding add_end_def by (rule reports_tests) simp

lemma reports_tcp_sums: "tcp_sums_lines dt sender st rt t w = Some w' \<Longrightarrow> reports w w'"
  by (auto simp: tcp_sums_lines_def Let_def bind_eq_Some_conv dest!: reports_say elim!: reports_verbose split: if_splits intro: reports_trans
      dest: reports_verbose [OF _ reports_say])

lemma reports_udp_sums: "udp_sums_lines dt sender spans j t w = Some w' \<Longrightarrow> reports w w'"
  by (auto simp: udp_sums_lines_def Let_def bind_eq_Some_conv dest!: reports_say split: if_splits prod.splits intro: reports_trans)

lemma reports_sums: "print_sums dt sender spans t w = Some w' \<Longrightarrow> reports w w'"
  by (auto simp: print_sums_def Let_def reports_end dest: reports_tcp_sums reports_udp_sums split: if_splits prod.splits)

lemma reports_cpu: "cpu_line dt b w = Some w' \<Longrightarrow> reports w w'"
  by (auto simp: cpu_line_def dest: reports_say split: prod.splits)

lemma reports_say_option: "say_option dt f s w = Some w' \<Longrightarrow> reports w w'"
  by (auto simp: say_option_def dest: reports_say split: option.splits)

lemma reports_verbose_end: "verbose_end dt sender w = Some w' \<Longrightarrow> reports w w'"
  by (auto simp: verbose_end_def Let_def bind_eq_Some_conv dest!: reports_cpu reports_say_option split: if_splits prod.splits intro: reports_trans)

lemma reports_server_parts: "print_server_json dt w = Some w' \<Longrightarrow> reports w w'" "print_server_text dt v = Some v' \<Longrightarrow> reports v v'"
proof -
  have s: "reports u (set_test (test_json_server_output_update (\<lambda>_. None)) u)" "reports u (set_test (test_server_output_text_update (\<lambda>_. None)) u)" for u
    by (simp_all add: reports_tests)
  show "print_server_json dt w = Some w' \<Longrightarrow> reports w w'" "print_server_text dt v = Some v' \<Longrightarrow> reports v v'"
    by (auto simp: print_server_json_def print_server_text_def bind_eq_Some_conv split: option.splits
        intro: reports_trans [OF reports_say s(1)] reports_trans [OF reports_say s(2)])
qed

lemma reports_server_output: "print_server_output dt w = Some w' \<Longrightarrow> reports w w'"
  by (auto simp: print_server_output_def bind_eq_Some_conv dest!: reports_server_parts split: if_splits intro: reports_trans)

lemma reports_summary_end: "summary_end dt b sender w = Some w' \<Longrightarrow> reports w w'"
  by (auto simp: summary_end_def bind_eq_Some_conv reports_end dest!: reports_server_output split: if_splits
      intro: reports_trans [OF reports_verbose [OF _ reports_verbose_end]])

lemma reports_results_header: "results_header dt w = Some w' \<Longrightarrow> reports w w'"
  by (auto simp: results_header_def Let_def bind_eq_Some_conv dest!: reports_say reports_verbose [OF _ reports_say] intro: reports_trans)

lemma reports_summary_modes:
  "summary_modes dt own ms js w = Some (r, w') \<Longrightarrow> reports (no_flag w) (no_flag w') \<and> (\<not> both_ways (the_test w) \<longrightarrow> reports w w')"
proof (induction dt own ms js w arbitrary: r w' rule: summary_modes.induct)
  case (2 dt own m ms js w)
  define t0 where "t0 = retransmits_of own (m * m) (the_test w)"
  obtain spans test where e: "end_times t0 = (spans, test)" by fastforce
  define w1 where "w1 = set_test (\<lambda>_. test) w"
  obtain t js' w2 w3 w4 where s: "summary_streams dt (m * m) spans (test_streams test) no_totals js w1 = Some ((t, js'), w2)"
    "print_sums dt (m * m) spans t w2 = Some w3" "summary_end dt (ms = []) (m * m) w3 = Some w4" "summary_modes dt own ms js' w4 = Some (r, w')"
    using 2(2) e by (auto simp: bind_eq_Some_conv t0_def w1_def)
  have t0: "essence test = essence t0" using essence_times [of t0] e by simp
  have w1: "reports (set_test (\<lambda>_. t0) w) w1"
    using t0 by (simp add: w1_def reports_def set_test_def)
  have flag: "reports (no_flag w) (no_flag (set_test (\<lambda>_. t0) w))"
    by (simp add: t0_def retransmits_of_def no_flag_def set_test_def reports_def)
  have "reports w1 w2" "reports w2 w3" "reports w3 w4"
    using s by (auto dest: reports_summary_streams reports_sums reports_summary_end)
  then have 4: "reports (set_test (\<lambda>_. t0) w) w4" using w1 reports_trans by blast
  have rest: "reports (no_flag w4) (no_flag w')" "\<not> both_ways (the_test w4) \<longrightarrow> reports w4 w'"
    using 2(1) [OF refl e [unfolded t0_def, symmetric] refl s(1) [unfolded w1_def] refl refl s(2,3,4)] by blast+
  have "reports (no_flag w) (no_flag w')"
    using flag reports_no_flag [OF 4] rest(1) reports_trans by blast
  moreover have "reports w w'" if "\<not> both_ways (the_test w)"
  proof -
    have "set_test (\<lambda>_. t0) w = w" using that by (simp add: t0_def retransmits_of_def set_test_def)
    moreover have "\<not> both_ways (the_test w4)"
      using 4 that essence_mode [of "the_test w4" "the_test w"] calculation by (simp add: reports_def)
    ultimately show ?thesis using 4 rest(2) reports_trans by auto
  qed
  ultimately show ?case by blast
qed simp

lemma reports_results:
  assumes "iperf_print_results dt w = Some w'"
  shows "reports w w'"
proof -
  define own where "own = test_sender_has_retransmits (the_test w)"
  define i where "i = members (test_json_end (the_test w))"
  define json where "json \<longleftrightarrow> test_json_output (the_test w) \<noteq> 0"
  obtain w1 js w2 where s: "(if json then Some (add_end [(''streams'', JArray [])] w) else results_header dt w) = Some w1"
    "summary_modes dt own (modes (the_test w1)) [] w1 = Some (js, w2)"
    using assms by (auto simp: iperf_print_results_def own_def json_def Let_def bind_eq_Some_conv)
  define w3 where "w3 = (if json then set_test (test_json_end_update (map_option (put_member i (JArray js)))) w2 else w2)"
  have w': "w' = (if both_ways (the_test w3) then set_test (test_sender_has_retransmits_update (\<lambda>_. own)) w3 else w3)"
    using assms s unfolding w3_def own_def i_def json_def by (simp add: iperf_print_results_def Let_def split del: if_split)
  have 1: "reports w w1" and 3: "reports w2 w3"
    using s(1) reports_end by (auto simp: w3_def reports_tests dest: reports_results_header split: if_splits)
  note 2 = reports_summary_modes [OF s(2)]
  show ?thesis
  proof (cases "both_ways (the_test w)")
    case True
    have b: "reports (no_flag w) (no_flag w3)"
      using 2 reports_no_flag [OF 1] reports_no_flag [OF 3] reports_trans by blast
    moreover have "both_ways (the_test (no_flag v)) = both_ways (the_test v)" for v
      by (simp add: no_flag_def set_test_def both_ways_def)
    ultimately have "both_ways (the_test w3)"
      using True essence_mode by (metis reports_def)
    then show ?thesis
      using reports_flag_back [OF b] by (simp add: w' own_def)
  next
    case False
    then have "reports w w3"
      using 1 2 3 essence_mode [of "the_test w1" "the_test w"] reports_trans by (auto simp: reports_def)
    then show ?thesis
      using False essence_mode [of "the_test w3" "the_test w"] by (simp add: w' reports_def)
  qed
qed

lemma reports_callback:
  assumes "iperf_reporter_callback dt user w = Some w'" and "\<forall>f v v'. user f v = Some v' \<longrightarrow> reports v v'"
  shows "reports w w'"
proof -
  have "iperf_print_intermediate dt user w = Some v \<Longrightarrow> reports w v" for v
    using reports_intermediate assms(2) by blast
  then show ?thesis
    using assms(1) reports_trans [OF _ reports_results] by (auto simp: iperf_reporter_callback_def Let_def bind_eq_Some_conv split: if_splits)
qed

text \<open>The reporter that \<open>iperf_defaults\<close> installs, called through the pointer of the test.\<close>

lemma installed_reporter:
  assumes "call_pointer pf (installed dt hosts user) (Some IPERF_REPORTER_CALLBACK) w = Some w'" and "\<forall>f v v'. user f v = Some v' \<longrightarrow> reports v v'"
  shows "reports w w'"
  using reports_callback [OF _ assms(2)] assms(1) by (simp add: call_pointer_def callback_def installed_def)

definition demo_dates :: dates where
  "demo_dates = \<lparr>local_date = (\<lambda>_ _. []), universal_date = (\<lambda>_ _. [])\<rparr>"

definition demo_stream :: iperf_stream where
  "demo_stream = zero_stream\<lparr>sp_socket := 5, sp_sender := 1, sp_diskfile_fd := - 1,
     sp_result := (sp_result zero_stream)\<lparr>res_bytes_sent := 70, res_bytes_received := 60, res_interval_results := []\<rparr>\<rparr>"

definition demo_report :: iperf where
  "demo_report = iperf0 (\<lambda>_ _. answers 0)
     (zero_test\<lparr>test_role := Some CHR ''c'', test_mode := SENDER, test_protocol := Some \<lparr>prot_id = Ptcp, prot_name = ''TCP''\<rparr>,
        test_num_streams := 2, test_streams := [demo_stream, demo_stream\<lparr>sp_socket := 7\<rparr>], test_json_output := 1,
        test_json_end := Some (JObject []), test_state := DISPLAY_RESULTS\<rparr>)
     \<lparr>cells = (\<lambda>_. None), timers = None, free_timers = None\<rparr>"

lemma demo_prints: "\<exists>w'. iperf_print_results demo_dates demo_report = Some w'"
  by (simp add: iperf_print_results_def demo_report_def zero_test_def demo_stream_def Let_def add_end_def set_test_def modes_def both_ways_def
      retransmits_of_def end_times_def case_prod_beta stream_summary_def diskfile_report_def print_sums_def tcp_like_def protocol_is_def
      summary_end_def)

lemma demo_no_interval: "\<not> interval_counts (the_test demo_report)"
  by (simp add: interval_counts_def demo_report_def demo_stream_def last_interval_def)

text \<open>
  C17: A report leaves the measurements alone: after \<open>iperf_reporter_callback\<close>, in whatever state and for whatever output, the
  test differs at most in the parts that hold the output and in the end times of its streams; the error number
  and the timers are as before. A function of the caller that is given the JSON text must not change more.
\<close>

theorem report_only_reads:
  assumes "iperf_reporter_callback dt user w = Some w'" and "\<forall>f v v'. user f v = Some v' \<longrightarrow> reports v v'"
  shows "essence (the_test w') = essence (the_test w) \<and> i_errno w' = i_errno w \<and> tmem w' = tmem w"
  using reports_callback [OF assms] by (simp add: reports_def)

theorem report_only_reads_witness:
  "\<exists>w'. iperf_reporter_callback demo_dates (\<lambda>f w. Some w) demo_report = Some w' \<and> essence (the_test w') = essence (the_test demo_report)"
proof -
  obtain w' where p: "iperf_print_results demo_dates demo_report = Some w'" using demo_prints by blast
  have "test_state (the_test demo_report) = DISPLAY_RESULTS" by (simp add: demo_report_def)
  then have r: "iperf_reporter_callback demo_dates (\<lambda>f w. Some w) demo_report = Some w'"
    using p demo_no_interval by (simp add: iperf_reporter_callback_def iperf_print_intermediate_def)
  then show ?thesis using report_only_reads [OF r] by auto
qed

section \<open>Percentages\<close>

lemma ratio_bounds:
  assumes "0 \<le> a" and "a \<le> b" and "b < 2 ^ 46" and "0 < b"
  shows "0 \<le> fl64 (fl64 (100 * dbl a) / dbl b) \<and> fl64 (fl64 (100 * dbl a) / dbl b) \<le> 100"
proof -
  have d: "dbl a = of_int a" "dbl b = of_int b"
    unfolding dbl_def using assms by (simp_all add: fl64_int)
  have h: "fl64 (100 * of_int a) = (100 * of_int a :: rat)"
    using fl64_int [of "100 * a"] assms by simp
  have "(100 * of_int a) / of_int b \<le> (100 :: rat)" "0 \<le> (100 * of_int a) / (of_int b :: rat)"
    using assms by (simp_all add: divide_le_eq)
  then have "fl64 ((100 * of_int a) / of_int b) \<le> fl64 100" "0 \<le> fl64 ((100 * of_int a) / of_int b)"
    by (simp_all only: fl64_mono fl64_nonneg)
  moreover have "fl64 100 = 100" using fl64_int [of 100] by simp
  ultimately show ?thesis by (simp add: d h)
qed



section \<open>Sums\<close>

definition field :: "cjson \<Rightarrow> string \<Rightarrow> string \<Rightarrow> cjson option" where
  "field j a b = Option.bind (cJSON_GetObjectItem j a) (\<lambda>m. cJSON_GetObjectItem m b)"

definition number :: "u64 \<Rightarrow> cjson" where
  "number n = JNumber (dbl (sint n))"

lemma sender_json_bytes: "\<exists>m. sender_json test sender t sp = Some m \<and> cJSON_GetObjectItem m ''bytes'' = Some (number (stream_sent sp))"
  by (simp add: sender_json_def Let_def iperf_json_printf_def strcaseeq_def to_lower_def is_upper_def char_code_def number_def dbl_def)

lemma receiver_json_bytes:
  "\<exists>m. receiver_json sender rt et sp = Some m \<and> cJSON_GetObjectItem m ''bytes'' = Some (number (res_bytes_received (sp_result sp)))"
  by (simp add: receiver_json_def Let_def iperf_json_printf_def strcaseeq_def to_lower_def is_upper_def char_code_def number_def dbl_def)

lemma tcp_sums_bytes:
  assumes "\<not> both_ways test"
  shows "\<exists>a b. tcp_sums_json test sender st rt t = [(''sum_sent'', a), (''sum_received'', b)]
    \<and> cJSON_GetObjectItem a ''bytes'' = Some (number (to_sent t)) \<and> cJSON_GetObjectItem b ''bytes'' = Some (number (to_received t))"
  using assms by (simp add: tcp_sums_json_def reversed_name_def member_of_def Let_def iperf_json_printf_def strcaseeq_def to_lower_def is_upper_def char_code_def number_def dbl_def)

lemma add_stream_bytes [simp]:
  "to_sent (add_stream test sp t) = to_sent t + stream_sent sp" "to_received (add_stream test sp t) = to_received t + res_bytes_received (sp_result sp)"
  by (simp_all add: add_stream_def Let_def)

lemma diskfile_json:
  assumes "diskfile_report dt sender sp w = Some (ms, w')" and "test_json_output (the_test w) \<noteq> 0"
  shows "the_test w' = the_test w \<and> (ms = [] \<or> (\<exists>j. ms = [(''diskfile'', j)]))"
  using assms by (auto simp: diskfile_report_def run_def run_call Let_def bind_eq_Some_conv member_of_def split: if_splits option.splits)

definition tells_bytes :: "iperf_stream \<Rightarrow> cjson \<Rightarrow> bool" where
  "tells_bytes sp j \<longleftrightarrow> field j ''sender'' ''bytes'' = Some (number (stream_sent sp))
     \<and> field j ''receiver'' ''bytes'' = Some (number (res_bytes_received (sp_result sp)))"

lemma summary_json:
  assumes "stream_summary dt sender spans sp w = Some (r, w')" and "test_json_output (the_test w) \<noteq> 0" and "tcp_like (the_test w)"
  shows "the_test w' = the_test w \<and> (\<exists>j. r = [j] \<and> tells_bytes sp j)"
proof -
  obtain st rt et where sp: "spans = (st, rt, et)" by (cases spans) auto
  obtain a where a: "sender_json (the_test w) sender st sp = Some a" "cJSON_GetObjectItem a ''bytes'' = Some (number (stream_sent sp))"
    using sender_json_bytes by blast
  obtain b where b: "receiver_json sender rt et sp = Some b" "cJSON_GetObjectItem b ''bytes'' = Some (number (res_bytes_received (sp_result sp)))"
    using receiver_json_bytes by blast
  obtain ms where ms: "diskfile_report dt sender sp w = Some (ms, w')" "r = [JObject ((report_sender, a) # ms @ [(report_receiver, b)])]"
    using assms a(1) b(1) by (auto simp: stream_summary_def sp bind_eq_Some_conv member_of_def Let_def)
  then show ?thesis
    using diskfile_json [OF ms(1) assms(2)] a(2) b(2)
    by (auto simp: tells_bytes_def field_def report_sender_def report_receiver_def strcaseeq_def to_lower_def is_upper_def char_code_def)
qed

lemma streams_json:
  assumes "summary_streams dt sender spans sps t js w = Some ((t', js'), w')" and "test_json_output (the_test w) \<noteq> 0" and "tcp_like (the_test w)"
  shows "the_test w' = the_test w \<and> (\<exists>new. js' = js @ new \<and> list_all2 tells_bytes (filter (\<lambda>sp. sp_sender sp = sender) sps) new)
    \<and> to_sent t' = to_sent t + sum_list (map stream_sent (filter (\<lambda>sp. sp_sender sp = sender) sps))
    \<and> to_received t' = to_received t + sum_list (map (\<lambda>sp. res_bytes_received (sp_result sp)) (filter (\<lambda>sp. sp_sender sp = sender) sps))"
  using assms
proof (induction dt sender spans sps t js w arbitrary: t' js' w' rule: summary_streams.induct)
  case (2 dt sender spans sp sps t js w)
  show ?case
  proof (cases "sp_sender sp = sender")
    case True
    then obtain r w1 where p: "stream_summary dt sender spans sp w = Some (r, w1)"
      and rest: "summary_streams dt sender spans sps (add_stream (the_test w1) sp t) (js @ r) w1 = Some ((t', js'), w')"
      using 2(3) by (auto simp: bind_eq_Some_conv)
    obtain j where j: "the_test w1 = the_test w" "r = [j]" "tells_bytes sp j"
      using summary_json [OF p 2(4,5)] by blast
    then show ?thesis using 2(2) [OF _ p refl rest] True 2(4,5) by (auto simp: algebra_simps)
  next
    case False
    then have "summary_streams dt sender spans sps t js w = Some ((t', js'), w')" using 2(3) by simp
    then show ?thesis using 2(1) [OF False _ 2(4,5)] False by simp
  qed
qed simp

lemma end_times_keeps:
  assumes "end_times t = (spans, t')"
  shows "\<exists>sps. t' = t\<lparr>test_streams := sps\<rparr>"
proof (cases "test_streams t")
  case Nil
  have "t = t\<lparr>test_streams := test_streams t\<rparr>" by simp
  moreover have "t' = t" using assms Nil by (simp add: end_times_def)
  ultimately show ?thesis by blast
next
  case (Cons sp sps)
  then show ?thesis using assms by (auto simp: end_times_def Let_def split: if_splits)
qed

lemma the_test_add_end: "the_test (add_end ms w) = test_json_end_update (map_option (\<lambda>j. foldl (\<lambda>j (k, v). cJSON_AddItemToObject j k v) j ms)) (the_test w)"
  by (simp add: add_end_def set_test_def)

lemma foldl_members: "foldl (\<lambda>j (k, v). cJSON_AddItemToObject j k v) (JObject xs) ms = JObject (xs @ ms)"
  by (induction ms arbitrary: xs) auto

text \<open>The streams of the direction of a test.\<close>

definition reported :: "iperf_test \<Rightarrow> iperf_stream list" where
  "reported t = filter (\<lambda>sp. sp_sender sp = test_mode t * test_mode t) (test_streams t)"

text \<open>
  C16: The summary in JSON of a test in one direction over TCP adds up: its array has an object for every stream of the
  direction with the bytes that this stream sent and received, and the bytes of \<open>sum_sent\<close> and \<open>sum_received\<close> are
  the sums of them (of 64 bits, printed as numbers).
\<close>

theorem json_summary_adds_up:
  assumes "iperf_print_results dt w = Some w'" and "test_json_output (the_test w) \<noteq> 0" and "test_json_end (the_test w) = Some (JObject [])"
    and "\<not> both_ways (the_test w)" and "tcp_like (the_test w)"
  shows "\<exists>e ss. test_json_end (the_test w') = Some e \<and> cJSON_GetObjectItem e ''streams'' = Some (JArray ss)
    \<and> list_all2 tells_bytes (reported (the_test w')) ss
    \<and> field e ''sum_sent'' ''bytes'' = Some (number (sum_list (map stream_sent (reported (the_test w')))))
    \<and> field e ''sum_received'' ''bytes'' = Some (number (sum_list (map (\<lambda>sp. res_bytes_received (sp_result sp)) (reported (the_test w')))))"
proof -
  define m where "m = test_mode (the_test w)"
  define w1 where "w1 = add_end [(''streams'', JArray [])] w"
  have w1: "the_test w1 = (the_test w)\<lparr>test_json_end := Some (JObject [(''streams'', JArray [])])\<rparr>"
    using assms(3) by (simp add: w1_def the_test_add_end)
  have flags: "\<not> both_ways (the_test w1)" "modes (the_test w1) = [m]" "retransmits_of own (m * m) (the_test w1) = the_test w1" for own
    using assms(4) by (simp_all add: w1 modes_def both_ways_def m_def retransmits_of_def)
  obtain spans t1 where e: "end_times (the_test w1) = (spans, t1)" by fastforce
  obtain st rt et where sp: "spans = (st, rt, et)" by (cases spans) auto
  obtain sps where t1: "t1 = (the_test w)\<lparr>test_json_end := Some (JObject [(''streams'', JArray [])]), test_streams := sps\<rparr>"
    using end_times_keeps [OF e] w1 by auto
  define w2 where "w2 = set_test (\<lambda>_. t1) w1"
  have w2: "the_test w2 = t1" "test_json_output t1 \<noteq> 0" "tcp_like t1" "\<not> both_ways t1" "test_mode t1 = m" "test_streams t1 = sps"
    using assms(2,4,5) by (simp_all add: w2_def set_test_def t1 tcp_like_def both_ways_def protocol_is_def m_def)
  define own where "own = test_sender_has_retransmits (the_test w)"
  obtain t js w3 w4 w5 where s: "summary_streams dt (m * m) spans sps no_totals [] w2 = Some ((t, js), w3)"
    "print_sums dt (m * m) spans t w3 = Some w4" "summary_end dt True (m * m) w4 = Some w5"
    and w': "w' = (let v = set_test (test_json_end_update (map_option (put_member 0 (JArray js)))) w5 in
      if both_ways (the_test v) then set_test (test_sender_has_retransmits_update (\<lambda>_. own)) v else v)"
    using assms(1,2,3) flags(2,3) e
    by (auto simp: iperf_print_results_def w1_def [symmetric] w2_def [symmetric] own_def [symmetric] Let_def bind_eq_Some_conv w2(6))
  have j: "the_test w3 = t1" "list_all2 tells_bytes (filter (\<lambda>sp. sp_sender sp = m * m) sps) js"
    "to_sent t = sum_list (map stream_sent (filter (\<lambda>sp. sp_sender sp = m * m) sps))"
    "to_received t = sum_list (map (\<lambda>sp. res_bytes_received (sp_result sp)) (filter (\<lambda>sp. sp_sender sp = m * m) sps))"
    using streams_json [OF s(1)] w2 by (auto simp: no_totals_def)
  obtain a b where ab: "tcp_sums_json t1 (m * m) st rt t = [(''sum_sent'', a), (''sum_received'', b)]"
    "cJSON_GetObjectItem a ''bytes'' = Some (number (to_sent t))" "cJSON_GetObjectItem b ''bytes'' = Some (number (to_received t))"
    using tcp_sums_bytes [OF w2(4)] by blast
  have 4: "the_test w4 = t1\<lparr>test_json_end := Some (JObject [(''streams'', JArray []), (''sum_sent'', a), (''sum_received'', b)])\<rparr>"
    using s(2) w2(2,3) j(1) ab(1) by (auto simp: print_sums_def sp Let_def the_test_add_end foldl_members t1)
  define rest where "rest = end_json (the_test w4) (m * m)"
  have "w5 = add_end rest w4"
    using s(3) w2(2) by (simp add: summary_end_def rest_def 4)
  then have 5: "the_test w5 = t1\<lparr>test_json_end := Some (JObject ((''streams'', JArray []) # (''sum_sent'', a) # (''sum_received'', b) # rest))\<rparr>"
    by (simp add: the_test_add_end 4 foldl_members comp_def)
  have "the_test w' = t1\<lparr>test_json_end := Some (JObject ((''streams'', JArray js) # (''sum_sent'', a) # (''sum_received'', b) # rest))\<rparr>"
    using w2(4) by (simp add: w' set_test_def 5 both_ways_def)
  moreover have "reported (t1\<lparr>test_json_end := x\<rparr>) = filter (\<lambda>sp. sp_sender sp = m * m) sps" for x
    by (simp add: reported_def w2(5,6))
  ultimately show ?thesis
    using j ab(2,3) by (simp add: field_def strcaseeq_def to_lower_def is_upper_def char_code_def)
qed

theorem json_summary_adds_up_witness:
  "\<exists>w' e. iperf_print_results demo_dates demo_report = Some w' \<and> test_json_end (the_test w') = Some e
     \<and> field e ''sum_sent'' ''bytes'' = Some (number (sum_list (map stream_sent (reported (the_test w')))))"
proof -
  obtain w' where p: "iperf_print_results demo_dates demo_report = Some w'" using demo_prints by blast
  have "test_json_output (the_test demo_report) \<noteq> 0" "test_json_end (the_test demo_report) = Some (JObject [])" "\<not> both_ways (the_test demo_report)"
    "tcp_like (the_test demo_report)"
    by (simp_all add: demo_report_def both_ways_def tcp_like_def protocol_is_def)
  then show ?thesis using json_summary_adds_up [OF p] p by blast
qed

end
