(* ===== verification/Spec2Isabelle.thy ===== *)
theory Spec2Isabelle
  imports Timer_Correct Dscp Getopt Udp_Correct Rate_Correct Cjson_Text Results_Correct Session Cmdline_Correct Service_Correct Program_Correct Report_Correct
begin

text \<open>
  A verification library for the Windows build of iperf3 (\<open>src/src\<close> and \<open>src/windows/compat\<close>).

  \<^bold>\<open>The program.\<close> A client and a server measure the throughput of a network. They hold a control
  connection, on which they exchange one-byte states and JSON texts (parameters before a test,
  results after it), and one data connection per stream, over TCP or UDP. A worker thread per
  stream sends or receives blocks; timers call the statistics, the pacing and the end of the test.

  \<^bold>\<open>The operating system.\<close> \<open>Sys\<close> is the border: every Winsock or C library call that the sources make
  is a constructor of \<open>syscall\<close>; an operating system is a function from the calls and answers so far
  and the next call to an \<open>answer\<close>. The model of a function with effects is a computation in the
  state monad; its state has the errors (\<open>errno\<close>, Winsock's last error), the trace of calls and the
  function itself, and, in \<open>world\<close> (\<open>Test_State\<close>), the test and the streams. A theorem holds for every
  system, or names what the system does. \<open>Trace_Logic\<close> has the rules for statements on traces:
  \<open>emits m Q\<close> says that every run of \<open>m\<close> adds calls for which \<open>Q\<close> holds, \<open>keeps m\<close> that \<open>m\<close> leaves the
  test alone.

  \<^bold>\<open>Theories and sources.\<close>
  \<^item> \<open>Prelude\<close>, \<open>CString\<close>, \<open>Doubles\<close>, \<open>Endian\<close>: lists, words, C strings, doubles as rationals with
    rounding to nearest even (53 bits), byte orders.
  \<^item> \<open>Iperf_Time\<close> (\<open>iperf_time.c\<close>): time stamps at 32 bits; the operations refine arithmetic of
    microseconds.
  \<^item> \<open>Timer\<close>, \<open>Timer_Correct\<close> (\<open>timer.c\<close>): the doubly linked list of timers as a heap of cells; the
    operations refine a sorted list, run the due timers in order and free what they take.
  \<^item> \<open>Errors\<close> (\<open>iperf_error.c\<close>), \<open>Units\<close> (\<open>units.c\<close>), \<open>Dscp\<close> (\<open>dscp.c\<close>), \<open>Util\<close> (\<open>iperf_util.c\<close>).
  \<^item> \<open>Getopt\<close> (\<open>getopt_long.c\<close> of the compatibility layer): the option parser reads back what a
    well-formed line says.
  \<^item> \<open>Sys\<close>, \<open>Net\<close>, \<open>Net_Correct\<close> (\<open>win32_compat.c\<close>, \<open>net.c\<close>): sockets; \<open>Nread\<close> and \<open>Nwrite\<close> move the bytes
    of the connection, \<open>netdial\<close> and \<open>netannounce\<close> do not leak.
  \<^item> \<open>Json\<close>, \<open>Cjson_Number\<close>, \<open>Cjson_Text\<close> (\<open>cjson.c\<close>): values, lookup, printer and parser, with the
    round trip through the text.
  \<^item> \<open>Test_State\<close> (\<open>iperf.h\<close>), \<open>Api\<close> (\<open>iperf_api.c\<close>): the structures and their accessors.
  \<^item> \<open>Udp\<close>, \<open>Udp_Correct\<close> (\<open>iperf_udp.c\<close>), \<open>Tcp\<close>, \<open>Tcp_Correct\<close> (\<open>iperf_tcp.c\<close>): the streams, with the
    accounting of lost packets, the estimate of the jitter and the cookie check.
  \<^item> \<open>Rate\<close>, \<open>Rate_Correct\<close> (\<open>iperf_api.c\<close>): pacing of a sender and the limit of the server.
  \<^item> \<open>Params\<close>, \<open>Params_Correct\<close>, \<open>Params_Wire\<close>, \<open>Results\<close>, \<open>Results_Correct\<close> (\<open>iperf_api.c\<close>): the messages
    of the control connection, from the settings of one side to those of the other.
  \<^item> \<open>Stats\<close>, \<open>Stats_Correct\<close> (\<open>iperf_api.c\<close>, \<open>tcp_info.c\<close>): the interval records, which divide a stream.
  \<^item> \<open>Lifecycle\<close> (\<open>iperf_api.c\<close>): creation, defaults and reset of a test, creation and end of a stream;
    the state \<open>iperf\<close> of the whole program with the memory of the timers.
  \<^item> \<open>Test_Timers\<close>, \<open>Test_Timers_Correct\<close> (\<open>iperf_client_api.c\<close>, \<open>iperf_server_api.c\<close>): the functions of
    the timers of both sides; they meet the contract \<open>timer_callbacks\<close> of \<open>Timer_Correct\<close>, so a run of
    the timers ends.
  \<^item> \<open>Control\<close> (\<open>iperf_api.c\<close>, \<open>iperf_util.c\<close>, \<open>net.c\<close>), \<open>Threads\<close> (\<open>win32_compat.c\<close> and the worker loops): what both
    sides use: CPU statistics, JSON output, the close of the control connection, threads.
  \<^item> \<open>Cmdline\<close>, \<open>Cmdline_Scan\<close>, \<open>Cmdline_Correct\<close> (\<open>iperf_api.c\<close>): \<open>iperf_parse_arguments\<close>, one definition per option;
    the loop ends, and an accepted line gives a test with a role and settings in their ranges.
  \<^item> \<open>Client\<close> (\<open>iperf_client_api.c\<close>), \<open>Server\<close> (\<open>iperf_server_api.c\<close>): the two main programs. A function is a
    partial function on \<open>iperf\<close>; an iteration of the main loop is one function, and the run of a test is
    an inductive relation in which iterations of the main thread and of the threads of the streams
    alternate.
  \<^item> \<open>Output\<close> (\<open>iperf_locale.c\<close>, \<open>iperf_printf\<close>): \<open>printf\<close> for the conversions in use, and the formats. \<open>Report\<close>,
    \<open>Summary\<close>, \<open>Report_Correct\<close> (\<open>iperf_api.c\<close>): interval reports, the summary and the messages at the start, as text
    and as JSON. \<open>installed\<close> gives the callbacks that \<open>iperf_defaults\<close> sets; a report leaves the measurements alone,
    its sums add up, and its losses are percentages.
  \<^item> \<open>Service\<close>, \<open>Service_Correct\<close> (\<open>win32_service.c\<close>): the Windows service as a machine between its waits, with the
    control handler between two steps, and its commands; \<open>Wp\<close> has the weakest preconditions the proofs use. The
    service closes every handle it opens and obeys a stop.
  \<^item> \<open>Program\<close>, \<open>Program_Correct\<close> (\<open>main.c\<close>, the end of \<open>iperf_api.c\<close>, \<open>iperf_error.c\<close>): the whole program from its
    arguments to its exit code, the file of the process number and the signals. \<open>main\<close> relates the arguments and
    the first state to the exit codes that are possible.
  \<^item> \<open>Cleanup\<close>: the clean-up of the server ends and releases everything. \<open>Session\<close>: both sides together;
    an error of the server becomes the error of the client.

  \<^bold>\<open>Bounds.\<close> Loops whose length depends on the system (\<open>Nread\<close>, \<open>Nwrite\<close>, the burst loops) recurse on
  the bytes or packets that are left, so they end. The JSON parser recurses on the nesting level,
  which the code bounds by \<open>CJSON_NESTING_LIMIT\<close> = 1000, and on the text that is left. The loop that
  drains the control connection and the loop that creates the streams are partial functions with the
  result \<open>None\<close> for an endless run; the wait for a UDP server has a bound on empty datagrams,
  \<open>pf_patience\<close>.

  \<^bold>\<open>Concurrency.\<close> One iteration of a worker and one of the main loop are atomic; races inside them are
  not modelled.

  \<^bold>\<open>Not modelled.\<close> Memory exhaustion (an allocation that fails), the texts of the help, SCTP and
  authentication (not compiled in this build). \<open>iperf_got_sigend\<close> takes the state in which a signal arrives;
  \<open>main\<close> has the runs without a signal. The client and the server take the functions behind the
  pointers of a test as a parameter, which \<open>installed\<close> instantiates. Numbers that are not finite have no
  value, so a report that divides by zero is \<open>None\<close>.
\<close>

end
